(* ===== verification/Prelude.thy ===== *)
theory Prelude
  imports Main "HOL-Library.Sublist" "HOL-Library.State_Monad" "HOL-Library.Monad_Syntax"
begin

text \<open>
  Shared vocabulary of the development: the named collections the component theories add to,
  the interfaces (locales) several components rely on, and generic lemmas on lists and maps.

  \<^item> \<open>go_simps\<close> collects the executable equations of the Go standard library model.
  \<^item> \<open>io_simps\<close> collects the run equations of the effectful operations.
  \<^item> \<open>inv_intros\<close> collects preservation lemmas: an operation keeps an invariant.
\<close>

named_theorems go_simps
named_theorems io_simps
named_theorems inv_intros
named_theorems frame_simps

section \<open>Results\<close>

text \<open>
  A Go function that returns \<open>(T, error)\<close> returns \<open>err + 'a\<close> here. The text of an error
  message is kept only where the code branches on it, so an error is a constructor.
\<close>

datatype err =
    ErrExternal           \<comment> \<open>a call to Valkey, Postgres, the IdP or the file system failed\<close>
  | ErrDecode             \<comment> \<open>\<open>json.Unmarshal\<close>, hex or base64 input that does not decode\<close>
  | ErrKey                \<comment> \<open>a key of the wrong length, or not configured\<close>
  | ErrDecrypt            \<comment> \<open>AES-GCM authentication failure\<close>
  | ErrShort              \<comment> \<open>ciphertext shorter than a nonce\<close>
  | ErrInvalid string     \<comment> \<open>a validation error, with the rule that was broken\<close>

type_synonym 'a res = "err + 'a"

definition res_bind :: "'a res \<Rightarrow> ('a \<Rightarrow> 'b res) \<Rightarrow> 'b res" where
  "res_bind r f = (case r of Inl e \<Rightarrow> Inl e | Inr a \<Rightarrow> f a)"

lemma res_bind_simps [simp]:
  "res_bind (Inl e) f = Inl e"
  "res_bind (Inr a) f = f a"
  by (simp_all add: res_bind_def)

lemma res_bind_Inr_iff:
  "res_bind r f = Inr b \<longleftrightarrow> (\<exists>a. r = Inr a \<and> f a = Inr b)"
  by (cases r) simp_all

definition is_ok :: "'a res \<Rightarrow> bool" where
  "is_ok r \<longleftrightarrow> (case r of Inl _ \<Rightarrow> False | Inr _ \<Rightarrow> True)"

lemma is_ok_simps [simp]: "is_ok (Inr a)" "\<not> is_ok (Inl e)"
  by (simp_all add: is_ok_def)

lemma is_ok_ex: "is_ok r \<longleftrightarrow> (\<exists>a. r = Inr a)"
  by (cases r) simp_all

section \<open>Interfaces\<close>

text \<open>
  An encoding with a partial decoder. What it promises is the round trip; injectivity of the
  encoder and the round trip of whole lists follow.
\<close>

locale codec =
  fixes enc :: "'a \<Rightarrow> 'b"
    and dec :: "'b \<Rightarrow> 'a option"
  assumes dec_enc: "dec (enc x) = Some x"
begin

lemma enc_inj: "enc x = enc y \<Longrightarrow> x = y"
  by (metis dec_enc option.inject)

lemma enc_eq_iff: "enc x = enc y \<longleftrightarrow> x = y"
  by (metis dec_enc option.inject)

lemma map_dec_enc: "map (dec \<circ> enc) xs = map Some xs"
  by (simp add: dec_enc)

end

text \<open>
  A transition system with an invariant: the start state has it and every step keeps it. Every
  state reached by a sequence of steps then has it.
\<close>

locale step_system =
  fixes init :: "'s \<Rightarrow> bool"
    and step :: "'s \<Rightarrow> 'l \<Rightarrow> 's \<Rightarrow> bool"
    and inv :: "'s \<Rightarrow> bool"
  assumes init_inv: "init s \<Longrightarrow> inv s"
    and step_inv: "inv s \<Longrightarrow> step s l t \<Longrightarrow> inv t"

inductive steps :: "('s \<Rightarrow> 'l \<Rightarrow> 's \<Rightarrow> bool) \<Rightarrow> 's \<Rightarrow> 'l list \<Rightarrow> 's \<Rightarrow> bool"
  for step where
  steps_refl: "steps step s [] s"
| steps_step: "step s l t \<Longrightarrow> steps step t ls u \<Longrightarrow> steps step s (l # ls) u"

inductive_cases steps_NilE: "steps step s [] t"
inductive_cases steps_ConsE: "steps step s (l # ls) t"

lemma steps_Nil [simp]: "steps step s [] t \<longleftrightarrow> s = t"
  by (auto intro: steps.intros elim: steps_NilE)

lemma steps_Cons [simp]:
  "steps step s (l # ls) u \<longleftrightarrow> (\<exists>t. step s l t \<and> steps step t ls u)"
  by (auto intro: steps.intros elim: steps_ConsE)

lemma steps_append:
  "steps step s (ls @ ms) u \<longleftrightarrow> (\<exists>t. steps step s ls t \<and> steps step t ms u)"
  by (induction ls arbitrary: s) auto

context step_system begin

lemma steps_keep_inv: "steps step s ls t \<Longrightarrow> inv s \<Longrightarrow> inv t"
  by (induction rule: steps.induct) (auto intro: step_inv)

lemma reachable_inv: "init s \<Longrightarrow> steps step s ls t \<Longrightarrow> inv t"
  using steps_keep_inv init_inv by blast

end

text \<open>
  A key-value store as its clients see it: what a lookup returns after a write and after a
  delete. Lemmas on deleting a list of keys are proved once, here.
\<close>

locale kv_store =
  fixes get :: "'s \<Rightarrow> 'k \<Rightarrow> 'v option"
    and put :: "'k \<Rightarrow> 'v \<Rightarrow> 's \<Rightarrow> 's"
    and del :: "'k \<Rightarrow> 's \<Rightarrow> 's"
  assumes get_put: "get (put k v s) k' = (if k' = k then Some v else get s k')"
    and get_del: "get (del k s) k' = (if k' = k then None else get s k')"
begin

lemma get_put_same: "get (put k v s) k = Some v"
  by (simp add: get_put)

lemma get_del_same: "get (del k s) k = None"
  by (simp add: get_del)

lemma get_fold_del:
  "get (fold del ks s) k = (if k \<in> set ks then None else get s k)"
  by (induction ks arbitrary: s) (auto simp: get_del)

lemma get_fold_put:
  "get (fold (\<lambda>k. put k v) ks s) k = (if k \<in> set ks then Some v else get s k)"
  by (induction ks arbitrary: s) (auto simp: get_put)

end

section \<open>State monad reasoning\<close>

text \<open>
  \<open>keeps I m\<close>: running \<open>m\<close> from a state with \<open>I\<close> ends in a state with \<open>I\<close>, whatever it
  returns. The rules follow the syntax of a monadic program, so that an invariant of a handler
  is proved by \<open>intro inv_intros\<close> from one lemma per primitive operation.
\<close>

definition keeps :: "('s \<Rightarrow> bool) \<Rightarrow> ('s, 'a) state \<Rightarrow> bool" where
  "keeps I m \<longleftrightarrow> (\<forall>s. I s \<longrightarrow> I (snd (run_state m s)))"

lemma keepsI: "(\<And>s a t. I s \<Longrightarrow> run_state m s = (a, t) \<Longrightarrow> I t) \<Longrightarrow> keeps I m"
  unfolding keeps_def by (metis prod.collapse)

lemma keepsD: "keeps I m \<Longrightarrow> I s \<Longrightarrow> run_state m s = (a, t) \<Longrightarrow> I t"
  unfolding keeps_def by (metis snd_conv)

lemma keeps_return [inv_intros]: "keeps I (State_Monad.return x)"
  by (simp add: keeps_def)

lemma keeps_bind [inv_intros]:
  "keeps I m \<Longrightarrow> (\<And>x. keeps I (f x)) \<Longrightarrow> keeps I (m \<bind> f)"
  by (auto simp: keeps_def split: prod.splits dest: spec)

lemma keeps_if [inv_intros]:
  "(b \<Longrightarrow> keeps I m) \<Longrightarrow> (\<not> b \<Longrightarrow> keeps I n) \<Longrightarrow> keeps I (if b then m else n)"
  by simp

lemma keeps_case_sum [inv_intros]:
  "(\<And>e. keeps I (f e)) \<Longrightarrow> (\<And>a. keeps I (g a)) \<Longrightarrow> keeps I (case r of Inl e \<Rightarrow> f e | Inr a \<Rightarrow> g a)"
  by (cases r) simp_all

lemma keeps_case_option [inv_intros]:
  "keeps I m \<Longrightarrow> (\<And>a. keeps I (g a)) \<Longrightarrow> keeps I (case r of None \<Rightarrow> m | Some a \<Rightarrow> g a)"
  by (cases r) simp_all

lemma keeps_case_prod [inv_intros]:
  "(\<And>a b. keeps I (f a b)) \<Longrightarrow> keeps I (case p of (a, b) \<Rightarrow> f a b)"
  by (cases p) simp

lemma keeps_get [inv_intros]: "keeps I State_Monad.get"
  by (simp add: keeps_def)

lemma keeps_Let [inv_intros]: "(\<And>x. keeps I (f x)) \<Longrightarrow> keeps I (let x = t in f x)"
  by simp

section \<open>Lists and maps\<close>

lemma distinct_set_filter_partition:
  "set (filter P xs) \<union> set (filter (\<lambda>x. \<not> P x) xs) = set xs"
  by auto

lemma map_upd_dom_frame: "k' \<noteq> k \<Longrightarrow> (m(k \<mapsto> v)) k' = m k'"
  by simp

lemma sum_list_filter_le: "sum_list (map f (filter P xs)) \<le> (sum_list (map f xs) :: nat)"
  by (induction xs) auto

end
