(* ===== verification/GoStrings.thy ===== *)
theory GoStrings
  imports Prelude "HOL-Library.Char_ord" "HOL-Library.Code_Target_Nat"
begin

text \<open>
  What the program uses of Go's \<open>strings\<close>, \<open>strconv\<close> and \<open>unicode/utf8\<close> packages. A Go string is
  a sequence of bytes, and so is an Isabelle \<open>string\<close> (a \<open>char\<close> is a byte). \<open>TrimSpace\<close>,
  \<open>ToLower\<close> and \<open>EqualFold\<close> are modelled on their ASCII part: a byte above 127 is neither a
  space nor a letter here.
\<close>

section \<open>Bytes\<close>

definition byte :: "char \<Rightarrow> nat" where
  "byte c = of_char c"

lemma byte_lt_256: "byte c < 256"
  unfolding byte_def using nat_of_char_less_256 by simp

lemma byte_inj: "byte c = byte d \<longleftrightarrow> c = d"
  by (simp add: byte_def)

definition is_space :: "char \<Rightarrow> bool" where
  "is_space c \<longleftrightarrow> byte c \<in> {9, 10, 11, 12, 13, 32}"

definition is_digit :: "char \<Rightarrow> bool" where
  "is_digit c \<longleftrightarrow> 48 \<le> byte c \<and> byte c \<le> 57"

definition is_lower :: "char \<Rightarrow> bool" where
  "is_lower c \<longleftrightarrow> 97 \<le> byte c \<and> byte c \<le> 122"

definition is_upper :: "char \<Rightarrow> bool" where
  "is_upper c \<longleftrightarrow> 65 \<le> byte c \<and> byte c \<le> 90"

definition digit_val :: "char \<Rightarrow> nat" where
  "digit_val c = byte c - 48"

definition lower_char :: "char \<Rightarrow> char" where
  "lower_char c = (if is_upper c then char_of (byte c + 32) else c)"

definition to_lower :: "string \<Rightarrow> string" where
  "to_lower s = map lower_char s"

definition equal_fold :: "string \<Rightarrow> string \<Rightarrow> bool" where
  "equal_fold s t \<longleftrightarrow> to_lower s = to_lower t"

lemmas char_class_defs = is_space_def is_digit_def is_lower_def is_upper_def byte_def

lemma byte_lower_char: "byte (lower_char c) = (if is_upper c then byte c + 32 else byte c)"
proof (cases "is_upper c")
  case True
  then have "byte c + 32 < 256" by (simp add: is_upper_def)
  then have "byte (char_of (byte c + 32)) = byte c + 32"
    unfolding byte_def by simp
  then show ?thesis using True by (simp add: lower_char_def)
qed (simp add: lower_char_def)

lemma lower_char_not_upper: "\<not> is_upper (lower_char c)"
  by (auto simp: is_upper_def byte_lower_char)

lemma lower_char_idem [simp]: "lower_char (lower_char c) = lower_char c"
  using lower_char_not_upper [of c] by (simp add: lower_char_def [of "lower_char c"])

lemma to_lower_idem [simp]: "to_lower (to_lower s) = to_lower s"
  by (simp add: to_lower_def comp_def)

lemma to_lower_append: "to_lower (s @ t) = to_lower s @ to_lower t"
  by (simp add: to_lower_def)

lemma length_to_lower [simp]: "length (to_lower s) = length s"
  by (simp add: to_lower_def)

section \<open>Prefixes, suffixes, search\<close>

definition has_prefix :: "string \<Rightarrow> string \<Rightarrow> bool" where
  "has_prefix s p \<longleftrightarrow> take (length p) s = p"

definition has_suffix :: "string \<Rightarrow> string \<Rightarrow> bool" where
  "has_suffix s p \<longleftrightarrow> length p \<le> length s \<and> drop (length s - length p) s = p"

lemma has_prefix_iff: "has_prefix s p \<longleftrightarrow> (\<exists>t. s = p @ t)"
proof
  assume "has_prefix s p"
  then have "s = p @ drop (length p) s"
    unfolding has_prefix_def by (metis append_take_drop_id)
  then show "\<exists>t. s = p @ t" by blast
qed (auto simp: has_prefix_def)

lemma has_suffix_iff: "has_suffix s p \<longleftrightarrow> (\<exists>t. s = t @ p)"
proof
  assume "has_suffix s p"
  then have "s = take (length s - length p) s @ p"
    unfolding has_suffix_def by (metis append_take_drop_id)
  then show "\<exists>t. s = t @ p" by blast
qed (auto simp: has_suffix_def)

lemma has_prefix_append [simp]: "has_prefix (p @ t) p"
  by (simp add: has_prefix_def)

lemma has_suffix_append [simp]: "has_suffix (t @ p) p"
  by (simp add: has_suffix_def)

definition trim_prefix :: "string \<Rightarrow> string \<Rightarrow> string" where
  "trim_prefix s p = (if has_prefix s p then drop (length p) s else s)"

definition trim_suffix :: "string \<Rightarrow> string \<Rightarrow> string" where
  "trim_suffix s p = (if has_suffix s p then take (length s - length p) s else s)"

lemma trim_prefix_append [simp]: "trim_prefix (p @ t) p = t"
  by (simp add: trim_prefix_def)

text \<open>\<open>strings.Index\<close> and \<open>strings.LastIndex\<close>; \<open>-1\<close> is \<open>None\<close>.\<close>

fun index_of :: "string \<Rightarrow> string \<Rightarrow> nat option" where
  "index_of [] p = (if p = [] then Some 0 else None)"
| "index_of (c # s) p = (if has_prefix (c # s) p then Some 0 else map_option Suc (index_of s p))"

definition contains :: "string \<Rightarrow> string \<Rightarrow> bool" where
  "contains s p \<longleftrightarrow> index_of s p \<noteq> None"

fun index_any :: "string \<Rightarrow> char list \<Rightarrow> nat option" where
  "index_any [] cs = None"
| "index_any (c # s) cs = (if c \<in> set cs then Some 0 else map_option Suc (index_any s cs))"

fun last_index_byte :: "string \<Rightarrow> char \<Rightarrow> nat option" where
  "last_index_byte [] d = None"
| "last_index_byte (c # s) d =
     (case last_index_byte s d of
        Some i \<Rightarrow> Some (Suc i)
      | None \<Rightarrow> if c = d then Some 0 else None)"

lemma index_of_Some: "index_of s p = Some i \<Longrightarrow> has_prefix (drop i s) p \<and> i \<le> length s"
proof (induction s arbitrary: i)
  case Nil
  then show ?case by (auto simp: has_prefix_def split: if_splits)
next
  case (Cons c s)
  then show ?case by (cases "has_prefix (c # s) p") auto
qed

lemma index_of_prefix: "has_prefix s p \<Longrightarrow> index_of s p = Some 0"
  by (cases s) (auto simp: has_prefix_def)

lemma contains_iff: "contains s p \<longleftrightarrow> (\<exists>u v. s = u @ p @ v)"
proof
  assume "contains s p"
  then obtain i where "index_of s p = Some i" unfolding contains_def by auto
  then obtain v where "drop i s = p @ v" using index_of_Some has_prefix_iff by blast
  then have "s = take i s @ p @ v" by (metis append_take_drop_id)
  then show "\<exists>u v. s = u @ p @ v" by blast
next
  assume "\<exists>u v. s = u @ p @ v"
  then obtain u v where s: "s = u @ p @ v" by blast
  have "index_of (u @ p @ v) p \<noteq> None"
  proof (induction u)
    case Nil
    show ?case by (simp add: index_of_prefix)
  next
    case (Cons c u)
    then show ?case by simp
  qed
  with s show "contains s p" by (simp add: contains_def)
qed

lemma contains_byte_iff: "contains s [c] \<longleftrightarrow> c \<in> set s"
  unfolding contains_iff by (metis append_Cons append_Nil in_set_conv_decomp)

lemma last_index_byte_None: "last_index_byte s d = None \<longleftrightarrow> d \<notin> set s"
  by (induction s) (auto split: option.splits)

lemma last_index_byte_Some:
  "last_index_byte s d = Some i \<Longrightarrow> i < length s \<and> s ! i = d \<and> d \<notin> set (drop (Suc i) s)"
proof (induction s arbitrary: i)
  case (Cons c s)
  show ?case
  proof (cases "last_index_byte s d")
    case None
    with Cons.prems have "i = 0" "c = d" by (auto split: if_splits)
    with None show ?thesis by (simp add: last_index_byte_None)
  next
    case (Some j)
    with Cons.prems have "i = Suc j" by simp
    with Cons.IH [OF Some] show ?thesis by simp
  qed
qed simp

section \<open>Trimming\<close>

definition trim_left_by :: "(char \<Rightarrow> bool) \<Rightarrow> string \<Rightarrow> string" where
  "trim_left_by P s = dropWhile P s"

definition trim_right_by :: "(char \<Rightarrow> bool) \<Rightarrow> string \<Rightarrow> string" where
  "trim_right_by P s = rev (dropWhile P (rev s))"

definition trim_space :: "string \<Rightarrow> string" where
  "trim_space s = trim_right_by is_space (trim_left_by is_space s)"

definition trim_set :: "char list \<Rightarrow> string \<Rightarrow> string" where
  "trim_set cs s = trim_right_by (\<lambda>c. c \<in> set cs) (trim_left_by (\<lambda>c. c \<in> set cs) s)"

definition trim_right_slash :: "string \<Rightarrow> string" where
  "trim_right_slash s = trim_right_by (\<lambda>c. c = CHR ''/'') s"

lemma set_trim_left_by: "set (trim_left_by P s) \<subseteq> set s"
  unfolding trim_left_by_def by (meson set_dropWhileD subsetI)

lemma set_trim_right_by: "set (trim_right_by P s) \<subseteq> set s"
  unfolding trim_right_by_def by (metis set_dropWhileD set_rev subsetI)

lemma set_trim_space: "set (trim_space s) \<subseteq> set s"
  unfolding trim_space_def using set_trim_left_by set_trim_right_by by blast

lemma trim_right_by_id: "(\<And>c. c \<in> set s \<Longrightarrow> \<not> P c) \<Longrightarrow> trim_right_by P s = s"
  unfolding trim_right_by_def
  by (metis dropWhile_eq_self_iff hd_in_set list.set_sel(1) rev_rev_ident set_rev)

lemma trim_left_by_id: "(\<And>c. c \<in> set s \<Longrightarrow> \<not> P c) \<Longrightarrow> trim_left_by P s = s"
  unfolding trim_left_by_def by (cases s) auto

lemma trim_space_id: "(\<And>c. c \<in> set s \<Longrightarrow> \<not> is_space c) \<Longrightarrow> trim_space s = s"
  unfolding trim_space_def by (simp add: trim_left_by_id trim_right_by_id)

section \<open>Splitting and joining\<close>

fun split_on :: "char \<Rightarrow> string \<Rightarrow> string list" where
  "split_on d [] = [[]]"
| "split_on d (c # s) =
     (if c = d then [] # split_on d s
      else (case split_on d s of [] \<Rightarrow> [[c]] | w # ws \<Rightarrow> (c # w) # ws))"

fun join_with :: "string \<Rightarrow> string list \<Rightarrow> string" where
  "join_with d [] = []"
| "join_with d [w] = w"
| "join_with d (w # ws) = w @ d @ join_with d ws"

text \<open>\<open>strings.SplitN(s, d, n)\<close> with a one-byte separator: at most \<open>n\<close> parts.\<close>

fun splitn :: "char \<Rightarrow> nat \<Rightarrow> string \<Rightarrow> string list" where
  "splitn d 0 s = []"
| "splitn d (Suc 0) s = [s]"
| "splitn d (Suc (Suc n)) [] = [[]]"
| "splitn d (Suc (Suc n)) (c # s) =
     (if c = d then [] # splitn d (Suc n) s
      else (case splitn d (Suc (Suc n)) s of [] \<Rightarrow> [[c]] | w # ws \<Rightarrow> (c # w) # ws))"

text \<open>\<open>strings.Fields\<close>.\<close>

fun fields_aux :: "string \<Rightarrow> string \<Rightarrow> string list" where
  "fields_aux cur [] = (if cur = [] then [] else [rev cur])"
| "fields_aux cur (c # s) =
     (if is_space c then (if cur = [] then fields_aux [] s else rev cur # fields_aux [] s)
      else fields_aux (c # cur) s)"

definition fields :: "string \<Rightarrow> string list" where
  "fields s = fields_aux [] s"

lemma split_on_not_Nil [simp]: "split_on d s \<noteq> []"
  by (induction s) (auto split: list.splits)

lemma split_on_no_sep: "w \<in> set (split_on d s) \<Longrightarrow> d \<notin> set w"
proof (induction s arbitrary: w)
  case (Cons c s)
  then show ?case by (cases "split_on d s") (auto split: if_splits)
qed simp

lemma split_on_id: "d \<notin> set s \<Longrightarrow> split_on d s = [s]"
  by (induction s) auto

lemma split_on_append: "d \<notin> set s \<Longrightarrow> split_on d (s @ d # t) = s # split_on d t"
  by (induction s) auto

lemma join_split: "join_with [d] (split_on d s) = s"
proof (induction s)
  case (Cons c s)
  show ?case
  proof (cases "split_on d s")
    case Nil
    then show ?thesis by simp
  next
    case (Cons w ws)
    with Cons.IH show ?thesis by (cases ws) auto
  qed
qed simp

lemma split_join:
  "ws \<noteq> [] \<Longrightarrow> (\<And>w. w \<in> set ws \<Longrightarrow> d \<notin> set w) \<Longrightarrow> split_on d (join_with [d] ws) = ws"
proof (induction "[d]" ws rule: join_with.induct)
  case (2 w)
  then show ?case by (simp add: split_on_id)
next
  case (3 w w' ws)
  then have "split_on d (join_with [d] (w' # ws)) = w' # ws" and "d \<notin> set w"
    by auto
  then show ?case using split_on_append [of d w "join_with [d] (w' # ws)"] by simp
qed simp

lemma set_join_with: "set (join_with d ws) \<subseteq> set d \<union> (\<Union>w \<in> set ws. set w)"
  by (induction d ws rule: join_with.induct) auto

section \<open>Integers: \<open>strconv.Atoi\<close>\<close>

definition max_int64 :: int where "max_int64 = 9223372036854775807"
definition min_int64 :: int where "min_int64 = - 9223372036854775808"

text \<open>64-bit arithmetic wraps around.\<close>

definition wrap64 :: "int \<Rightarrow> int" where
  "wrap64 n = (n + 9223372036854775808) mod 18446744073709551616 - 9223372036854775808"

lemma wrap64_id: "min_int64 \<le> n \<Longrightarrow> n \<le> max_int64 \<Longrightarrow> wrap64 n = n"
  by (simp add: wrap64_def min_int64_def max_int64_def)

definition digits_val :: "string \<Rightarrow> nat" where
  "digits_val s = foldl (\<lambda>acc c. 10 * acc + digit_val c) 0 s"

definition parse_uint :: "string \<Rightarrow> nat option" where
  "parse_uint s = (if s \<noteq> [] \<and> list_all is_digit s then Some (digits_val s) else None)"

text \<open>An optional sign, then at least one digit, and the value within \<open>int64\<close>.\<close>

definition atoi :: "string \<Rightarrow> int option" where
  "atoi s =
     (let (neg, ds) = (case s of
            c # t \<Rightarrow> if c = CHR ''-'' then (True, t) else if c = CHR ''+'' then (False, t) else (False, s)
          | [] \<Rightarrow> (False, s))
      in case parse_uint ds of
           None \<Rightarrow> None
         | Some n \<Rightarrow>
             let v = (if neg then - int n else int n)
             in if min_int64 \<le> v \<and> v \<le> max_int64 then Some v else None)"

lemma atoi_range: "atoi s = Some v \<Longrightarrow> min_int64 \<le> v \<and> v \<le> max_int64"
  by (auto simp: atoi_def Let_def split: prod.splits option.splits if_splits list.splits)

lemma atoi_Nil [simp]: "atoi [] = None"
  by (simp add: atoi_def parse_uint_def)

text \<open>Decimal output (\<open>%d\<close>, \<open>strconv.Itoa\<close>).\<close>

fun show_nat_aux :: "nat \<Rightarrow> string \<Rightarrow> string" where
  "show_nat_aux n acc =
     (let acc' = char_of (48 + n mod 10) # acc
      in if n < 10 then acc' else show_nat_aux (n div 10) acc')"

declare show_nat_aux.simps [simp del]

definition show_nat :: "nat \<Rightarrow> string" where
  "show_nat n = show_nat_aux n []"

definition show_int :: "int \<Rightarrow> string" where
  "show_int i = (if i < 0 then ''-'' @ show_nat (nat (- i)) else show_nat (nat i))"

lemma byte_digit: "byte (char_of (48 + n mod 10)) = 48 + n mod (10 :: nat)"
proof -
  have "48 + n mod 10 < 256" by (rule le_less_trans [of _ "48 + 10"]) auto
  then show ?thesis by (simp add: byte_def)
qed

lemma digits_val_append: "digits_val (s @ t) = digits_val s * 10 ^ length t + digits_val t"
proof -
  have step: "foldl (\<lambda>acc c. 10 * acc + digit_val c) a t
      = a * 10 ^ length t + foldl (\<lambda>acc c. 10 * acc + digit_val c) 0 t" for a
  proof (induction t arbitrary: a)
    case (Cons c t)
    show ?case
      by (simp only: foldl_Cons Cons [of "10 * a + digit_val c"] Cons [of "10 * 0 + digit_val c"])
        (simp add: algebra_simps)
  qed simp
  show ?thesis unfolding digits_val_def foldl_append by (rule step)
qed

lemma show_nat_aux_spec:
  "\<exists>ds. show_nat_aux n acc = ds @ acc \<and> ds \<noteq> [] \<and> list_all is_digit ds \<and> digits_val ds = n"
proof (induction n arbitrary: acc rule: less_induct)
  case (less n)
  let ?c = "char_of (48 + n mod 10) :: char"
  have d: "is_digit ?c" and v: "digit_val ?c = n mod 10"
    by (auto simp: is_digit_def digit_val_def byte_digit)
  show ?case
  proof (cases "n < 10")
    case True
    then show ?thesis using d v
      by (intro exI [of _ "[?c]"]) (simp add: show_nat_aux.simps [of n] digits_val_def)
  next
    case False
    then have "n div 10 < n" by simp
    from less [OF this, of "?c # acc"] obtain ds where
      ds: "show_nat_aux (n div 10) (?c # acc) = ds @ ?c # acc" "list_all is_digit ds"
        "digits_val ds = n div 10" by auto
    have "digits_val (ds @ [?c]) = n"
      using ds(3) v by (simp add: digits_val_append) (simp add: digits_val_def)
    then show ?thesis using False ds d
      by (intro exI [of _ "ds @ [?c]"])
        (subst show_nat_aux.simps, simp add: digits_val_append list_all_iff)
  qed
qed

lemma parse_show_nat: "parse_uint (show_nat n) = Some n"
  using show_nat_aux_spec [of n "[]"] by (auto simp: show_nat_def parse_uint_def)

interpretation nat_text: codec show_nat parse_uint
  by unfold_locales (rule parse_show_nat)

text \<open>The value of a hexadecimal digit.\<close>

definition unhex :: "char \<Rightarrow> nat option" where
  "unhex c =
     (if is_digit c then Some (byte c - 48)
      else if 97 \<le> byte c \<and> byte c \<le> 102 then Some (byte c - 87)
      else if 65 \<le> byte c \<and> byte c \<le> 70 then Some (byte c - 55)
      else None)"

section \<open>UTF-8\<close>

text \<open>\<open>utf8.RuneStart\<close>: the byte is not a continuation byte (\<open>10xxxxxx\<close>).\<close>

definition rune_start :: "char \<Rightarrow> bool" where
  "rune_start c \<longleftrightarrow> \<not> (128 \<le> byte c \<and> byte c < 192)"

text \<open>
  Well-formed UTF-8, by lead byte: how many bytes a rune takes and that the rest of it are
  continuation bytes. (Overlong forms and surrogates are not excluded; the property this is
  used for is about cutting between runes.)
\<close>

definition rune_len :: "char \<Rightarrow> nat option" where
  "rune_len c = (if byte c < 128 then Some 1
     else if 192 \<le> byte c \<and> byte c < 224 then Some 2
     else if 224 \<le> byte c \<and> byte c < 240 then Some 3
     else if 240 \<le> byte c \<and> byte c < 248 then Some 4 else None)"

function utf8_ok :: "string \<Rightarrow> bool" where
  "utf8_ok [] = True"
| "utf8_ok (c # s) =
     (case rune_len c of
        None \<Rightarrow> False
      | Some n \<Rightarrow> n - 1 \<le> length s \<and> list_all (\<lambda>b. \<not> rune_start b) (take (n - 1) s)
                  \<and> utf8_ok (drop (n - 1) s))"
  by pat_completeness auto
termination
  by (relation "measure length") auto

end
