(* ===== verification/GoNet.thy ===== *)
theory GoNet
  imports GoStrings "HOL-Library.Word"
begin

text \<open>
  Go's \<open>net\<close> package as the program uses it: addresses at their width, \<open>ParseIP\<close>,
  \<open>ParseCIDR\<close>, \<open>IPNet.Contains\<close>, \<open>SplitHostPort\<close> and the \<open>IsLoopback\<close> family. A \<open>net.IP\<close> is
  \<open>V4\<close> when \<open>To4\<close> gives an address (an IPv4-mapped IPv6 address included) and \<open>V6\<close> otherwise.
\<close>

unbundle bit_operations_syntax

datatype ip = V4 "32 word" | V6 "128 word"

definition is_mapped4 :: "128 word \<Rightarrow> bool" where
  "is_mapped4 w \<longleftrightarrow> drop_bit 32 w = 65535"

definition to4 :: "ip \<Rightarrow> ip" where
  "to4 a = (case a of V4 w \<Rightarrow> V4 w | V6 w \<Rightarrow> if is_mapped4 w then V4 (ucast w) else V6 w)"

lemma to4_V4 [simp]: "to4 (V4 w) = V4 w"
  by (simp add: to4_def)

lemma to4_idem [simp]: "to4 (to4 a) = to4 a"
  by (auto simp: to4_def split: ip.splits)

section \<open>Reading addresses\<close>

text \<open>
  \<open>netip.ParseAddr\<close>: a first \<open>.\<close> before any \<open>:\<close> makes it dotted quad, a first \<open>:\<close> IPv6. An
  octet is 1 to 3 digits with no leading zero and at most 255. A zone (\<open>%\<close>) is refused.
\<close>

definition parse_octet :: "string \<Rightarrow> nat option" where
  "parse_octet s =
     (if s \<noteq> [] \<and> list_all is_digit s \<and> (length s = 1 \<or> hd s \<noteq> CHR ''0'') \<and> digits_val s \<le> 255
      then Some (digits_val s) else None)"

definition parse_v4 :: "string \<Rightarrow> 32 word option" where
  "parse_v4 s =
     (case split_on CHR ''.'' s of
        [a, b, c, d] \<Rightarrow>
          (case (parse_octet a, parse_octet b, parse_octet c, parse_octet d) of
             (Some a, Some b, Some c, Some d) \<Rightarrow>
               Some (word_of_nat (((a * 256 + b) * 256 + c) * 256 + d))
           | _ \<Rightarrow> None)
      | _ \<Rightarrow> None)"

fun hex_val :: "nat \<Rightarrow> string \<Rightarrow> nat option" where
  "hex_val acc [] = Some acc"
| "hex_val acc (c # s) =
     (case unhex c of None \<Rightarrow> None | Some d \<Rightarrow> hex_val (16 * acc + d) s)"

text \<open>One 16-bit field of an IPv6 address: 1 to 4 hex digits.\<close>

definition parse_field :: "string \<Rightarrow> nat option" where
  "parse_field s = (if 1 \<le> length s \<and> length s \<le> 4 then hex_val 0 s else None)"

text \<open>Fields separated by \<open>:\<close>; the last one may be a dotted quad, which is two fields.\<close>

fun parse_fields :: "string list \<Rightarrow> nat list option" where
  "parse_fields [] = Some []"
| "parse_fields [w] =
     (if contains w ''.'' then
        (case parse_v4 w of
           None \<Rightarrow> None
         | Some q \<Rightarrow> Some [unat (drop_bit 16 q), unat (take_bit 16 q)])
      else map_option (\<lambda>v. [v]) (parse_field w))"
| "parse_fields (w # ws) =
     (case (parse_field w, parse_fields ws) of (Some v, Some vs) \<Rightarrow> Some (v # vs) | _ \<Rightarrow> None)"

definition fields_of_text :: "string \<Rightarrow> nat list option" where
  "fields_of_text s = (if s = [] then Some [] else parse_fields (split_on CHR '':'' s))"

definition word_of_fields :: "nat list \<Rightarrow> 128 word" where
  "word_of_fields vs = word_of_nat (foldl (\<lambda>acc v. acc * 65536 + v) 0 vs)"

text \<open>
  At most one \<open>::\<close>, standing for at least one field of zeros. The part before it holds no dotted
  quad.
\<close>

definition parse_v6 :: "string \<Rightarrow> 128 word option" where
  "parse_v6 s =
     (case index_of s ''::'' of
        None \<Rightarrow>
          (case fields_of_text s of
             Some vs \<Rightarrow> if length vs = 8 then Some (word_of_fields vs) else None
           | None \<Rightarrow> None)
      | Some i \<Rightarrow>
          (let l = take i s; r = drop (i + 2) s in
           if contains r ''::'' \<or> contains l ''.'' then None
           else (case (fields_of_text l, fields_of_text r) of
              (Some us, Some vs) \<Rightarrow>
                if length us + length vs \<le> 7
                then Some (word_of_fields (us @ replicate (8 - length us - length vs) 0 @ vs))
                else None
            | _ \<Rightarrow> None)))"

definition parse_addr :: "string \<Rightarrow> ip option" where
  "parse_addr s =
     (case index_any s [CHR ''.'', CHR '':''] of
        None \<Rightarrow> None
      | Some i \<Rightarrow> if s ! i = CHR ''.'' then map_option V4 (parse_v4 s)
                  else map_option V6 (parse_v6 s))"

definition parse_ip :: "string \<Rightarrow> ip option" where
  "parse_ip s = map_option to4 (parse_addr s)"

section \<open>Networks\<close>

text \<open>
  An \<open>IPNet\<close> after \<open>networkNumberAndMask\<close>: the base address at its width and the mask of the
  same width.
\<close>

datatype ipnet = Net4 "32 word" "32 word" | Net6 "128 word" "128 word"

definition mask4 :: "nat \<Rightarrow> 32 word" where "mask4 n = push_bit (32 - n) (- 1)"
definition mask6 :: "nat \<Rightarrow> 128 word" where "mask6 n = push_bit (128 - n) (- 1)"

definition net_of :: "ip \<Rightarrow> nat \<Rightarrow> ipnet" where
  "net_of a n =
     (case a of
        V4 w \<Rightarrow> Net4 (w AND mask4 n) (mask4 n)
      | V6 w \<Rightarrow> let b = w AND mask6 n in
               if is_mapped4 b then Net4 (ucast b) (ucast (mask6 n)) else Net6 b (mask6 n))"

definition ip_bits :: "ip \<Rightarrow> nat" where
  "ip_bits a = (case a of V4 _ \<Rightarrow> 32 | V6 _ \<Rightarrow> 128)"

definition parse_cidr :: "string \<Rightarrow> ipnet option" where
  "parse_cidr s =
     (case index_of s ''/'' of
        None \<Rightarrow> None
      | Some i \<Rightarrow>
          (case (parse_addr (take i s), parse_uint (drop (Suc i) s)) of
             (Some a, Some n) \<Rightarrow> if n \<le> ip_bits a then Some (net_of a n) else None
           | _ \<Rightarrow> None))"

fun net_contains :: "ipnet \<Rightarrow> ip \<Rightarrow> bool" where
  "net_contains (Net4 b m) (V4 w) \<longleftrightarrow> w AND m = b AND m"
| "net_contains (Net6 b m) (V6 w) \<longleftrightarrow> w AND m = b AND m"
| "net_contains _ _ \<longleftrightarrow> False"

text \<open>A mask of \<open>n\<close> leading ones compares the \<open>n\<close> leading bits.\<close>

lemma and_push_mask_eq:
  fixes a b :: "'a::len word"
  shows "a AND push_bit k (- 1) = b AND push_bit k (- 1) \<longleftrightarrow> drop_bit k a = drop_bit k b"
proof -
  have *: "x AND push_bit k (- 1) = push_bit k (drop_bit k x)" for x :: "'a word"
    by (rule bit_word_eqI) (auto simp: bit_simps)
  have "drop_bit k (push_bit k (drop_bit k x)) = drop_bit k x" for x :: "'a word"
    by (rule bit_word_eqI) (auto simp: bit_simps dest: bit_imp_le_length)
  with * show ?thesis by metis
qed

lemma net4_contains_iff:
  "net_contains (Net4 (b AND mask4 n) (mask4 n)) (V4 w)
     \<longleftrightarrow> drop_bit (32 - n) w = drop_bit (32 - n) b"
proof -
  have "w AND mask4 n = b AND mask4 n \<longleftrightarrow> drop_bit (32 - n) w = drop_bit (32 - n) b"
    unfolding mask4_def by (rule and_push_mask_eq)
  then show ?thesis by (simp add: and.assoc)
qed

lemma net6_contains_iff:
  "net_contains (Net6 (b AND mask6 n) (mask6 n)) (V6 w)
     \<longleftrightarrow> drop_bit (128 - n) w = drop_bit (128 - n) b"
proof -
  have "w AND mask6 n = b AND mask6 n \<longleftrightarrow> drop_bit (128 - n) w = drop_bit (128 - n) b"
    unfolding mask6_def by (rule and_push_mask_eq)
  then show ?thesis by (simp add: and.assoc)
qed

lemma net_of_V4_contains:
  "net_contains (net_of (V4 b) n) (V4 w) \<longleftrightarrow> drop_bit (32 - n) w = drop_bit (32 - n) b"
  unfolding net_of_def ip.case by (rule net4_contains_iff)

lemma net_of_V4_contains_V6 [simp]: "\<not> net_contains (net_of (V4 b) n) (V6 w)"
  by (simp add: net_of_def)

section \<open>Address classes\<close>

definition octet :: "nat \<Rightarrow> 32 word \<Rightarrow> nat" where
  "octet i w = unat (take_bit 8 (drop_bit (24 - 8 * i) w))"

definition octet6 :: "nat \<Rightarrow> 128 word \<Rightarrow> nat" where
  "octet6 i w = unat (take_bit 8 (drop_bit (120 - 8 * i) w))"

fun ip_is_loopback :: "ip \<Rightarrow> bool" where
  "ip_is_loopback (V4 w) \<longleftrightarrow> octet 0 w = 127"
| "ip_is_loopback (V6 w) \<longleftrightarrow> w = 1"

fun ip_is_unspecified :: "ip \<Rightarrow> bool" where
  "ip_is_unspecified (V4 w) \<longleftrightarrow> w = 0"
| "ip_is_unspecified (V6 w) \<longleftrightarrow> w = 0"

fun ip_is_private :: "ip \<Rightarrow> bool" where
  "ip_is_private (V4 w) \<longleftrightarrow>
     octet 0 w = 10 \<or> (octet 0 w = 172 \<and> octet 1 w div 16 = 1) \<or> (octet 0 w = 192 \<and> octet 1 w = 168)"
| "ip_is_private (V6 w) \<longleftrightarrow> octet6 0 w div 2 = 126"

fun ip_is_link_local :: "ip \<Rightarrow> bool" where
  "ip_is_link_local (V4 w) \<longleftrightarrow> octet 0 w = 169 \<and> octet 1 w = 254"
| "ip_is_link_local (V6 w) \<longleftrightarrow> octet6 0 w = 254 \<and> octet6 1 w div 64 = 2"

fun ip_is_link_local_multicast :: "ip \<Rightarrow> bool" where
  "ip_is_link_local_multicast (V4 w) \<longleftrightarrow> octet 0 w = 224 \<and> octet 1 w = 0 \<and> octet 2 w = 0"
| "ip_is_link_local_multicast (V6 w) \<longleftrightarrow> octet6 0 w = 255 \<and> octet6 1 w mod 16 = 2"

section \<open>Host and port\<close>

text \<open>\<open>net.SplitHostPort\<close>; any error is \<open>None\<close>.\<close>

definition split_host_port :: "string \<Rightarrow> (string \<times> string) option" where
  "split_host_port hp =
     (case last_index_byte hp CHR '':'' of
        None \<Rightarrow> None
      | Some i \<Rightarrow>
          if hd hp = CHR ''['' then
            (case index_of hp '']'' of
               None \<Rightarrow> None
             | Some e \<Rightarrow>
                 if Suc e \<noteq> i then None
                 else if contains (drop 1 hp) ''['' \<or> contains (drop (Suc e) hp) '']'' then None
                 else Some (drop 1 (take e hp), drop (Suc i) hp))
          else if contains (take i hp) '':'' then None
          else if contains hp ''['' \<or> contains hp '']'' then None
          else Some (take i hp, drop (Suc i) hp))"

definition join_host_port :: "string \<Rightarrow> string \<Rightarrow> string" where
  "join_host_port host port =
     (if contains host '':'' \<or> contains host ''%'' then ''['' @ host @ '']:'' @ port
      else host @ '':'' @ port)"

lemma last_index_byte_append:
  "last_index_byte (s @ t) d =
     (case last_index_byte t d of
        Some i \<Rightarrow> Some (length s + i) | None \<Rightarrow> last_index_byte s d)"
  by (induction s) (auto split: option.splits)

lemma split_join_host_port:
  assumes "\<not> contains host ''[''" "\<not> contains host '']''"
    and "\<not> contains port ''[''" "\<not> contains port '']''" "\<not> contains port '':''"
    and "\<not> contains host '':''" "\<not> contains host ''%''"
  shows "split_host_port (join_host_port host port) = Some (host, port)"
proof -
  have l: "last_index_byte (host @ '':'' @ port) CHR '':'' = Some (length host)"
    using assms by (simp add: last_index_byte_append last_index_byte_None contains_byte_iff
        split: option.splits)
  have "hd (host @ '':'' @ port) \<noteq> CHR ''[''"
    using assms by (cases host) (auto simp: contains_byte_iff)
  with l assms show ?thesis
    by (simp add: split_host_port_def join_host_port_def contains_byte_iff)
qed

end
