(* ===== verification/NetGuard.thy ===== *)
theory NetGuard
  imports GoNet
begin

text \<open>
  Package \<open>netguard\<close>: the HTTP client for user-supplied URLs (\<open>SafeHTTPClient\<close>) refuses to
  connect to an address that is not public, and dials the very address it checked. Name
  resolution is a parameter: what the resolver returned for this one lookup.
\<close>

definition cgnatBlock :: ipnet where
  "cgnatBlock = net_of (V4 0x64400000) 10"

definition isPublicIP :: "ip \<Rightarrow> bool" where
  "isPublicIP addr =
     (let a = to4 addr in
      if ip_is_loopback a \<or> ip_is_link_local a \<or> ip_is_link_local_multicast a
         \<or> ip_is_unspecified a \<or> ip_is_private a then False
      else if net_contains cgnatBlock a then False
      else True)"

text \<open>
  The \<open>DialContext\<close> of \<open>SafeHTTPClient\<close>: what is dialled (address and port), or an error. The
  resolver's answer is \<open>None\<close> when the lookup failed.
\<close>

definition safe_dial :: "(string \<Rightarrow> ip list option) \<Rightarrow> string \<Rightarrow> (ip \<times> string) res" where
  "safe_dial resolve addr =
     (case split_host_port addr of
        None \<Rightarrow> Inl (ErrInvalid ''split host/port'')
      | Some (host, port) \<Rightarrow>
          (case resolve host of
             None \<Rightarrow> Inl ErrExternal
           | Some ipAddrs \<Rightarrow>
               if ipAddrs = [] then Inl (ErrInvalid ''resolved to no addresses'')
               else if \<exists>a \<in> set ipAddrs. \<not> isPublicIP a
               then Inl (ErrInvalid ''refusing to connect to non-public address'')
               else Inr (hd ipAddrs, port)))"

lemma safe_dial_Inr:
  "safe_dial resolve addr = Inr (a, port) \<Longrightarrow>
     \<exists>host as. split_host_port addr = Some (host, port) \<and> resolve host = Some as
       \<and> a \<in> set as \<and> (\<forall>b \<in> set as. isPublicIP b)"
  by (auto simp: safe_dial_def split: option.splits prod.splits if_splits)

section \<open>The blocks that are refused\<close>

text \<open>The IPv4 blocks an address must avoid, as network and prefix length.\<close>

definition private_blocks4 :: "(32 word \<times> nat) list" where
  "private_blocks4 =
     [(0x7F000000, 8), (0x0A000000, 8), (0xAC100000, 12), (0xC0A80000, 16),
      (0xA9FE0000, 16), (0xE0000000, 24), (0x64400000, 10), (0, 32)]"

lemma unat_lt_2_32: "unat (w :: 32 word) < 4294967296"
  using unsigned_less [of w] by simp

lemma take_bit_32_unat [simp]: "take_bit 32 (unat (w :: 32 word)) = unat w"
  using unat_lt_2_32 [of w] by (simp add: take_bit_nat_def)

lemma octet_div: "i \<le> 3 \<Longrightarrow> octet i w = unat w div 2 ^ (24 - 8 * i) mod 256"
  using unat_lt_2_32 [of w]
  by (simp add: octet_def unsigned_take_bit_eq unsigned_drop_bit_eq take_bit_nat_def
      drop_bit_nat_def)

lemma drop_bit_eq_iff:
  fixes a b :: "32 word"
  shows "drop_bit k a = drop_bit k b \<longleftrightarrow> unat a div 2 ^ k = unat b div 2 ^ k"
  unfolding word_unat_eq_iff unsigned_drop_bit_eq by (simp add: drop_bit_nat_def)

lemma block_contains:
  "net_contains (net_of (V4 b) n) (V4 w) \<longleftrightarrow> unat w div 2 ^ (32 - n) = unat b div 2 ^ (32 - n)"
  by (simp add: net_of_V4_contains drop_bit_eq_iff)

lemma nat_octets:
  fixes n :: nat
  assumes "n < 4294967296"
  shows "n div 16777216 mod 256 = n div 16777216"
    and "n div 16777216 = 172 \<and> n div 65536 mod 256 div 16 = 1 \<longleftrightarrow> n div 1048576 = 2753"
    and "n div 16777216 = 192 \<and> n div 65536 mod 256 = 168 \<longleftrightarrow> n div 65536 = 49320"
    and "n div 16777216 = 169 \<and> n div 65536 mod 256 = 254 \<longleftrightarrow> n div 65536 = 43518"
    and "n div 16777216 = 224 \<and> n div 65536 mod 256 = 0 \<and> n div 256 mod 256 = 0
          \<longleftrightarrow> n div 256 = 14680064"
proof -
  define k where "k = n div 65536"
  define m where "m = n div 256"
  have k: "n div 16777216 = k div 256" "n div 1048576 = k div 16"
    and m: "k = m div 256" "n div 65536 = k"
    by (simp_all add: k_def m_def flip: div_mult2_eq)
  have k': "k = 256 * (k div 256) + k mod 256" and m': "m = 256 * (m div 256) + m mod 256"
    by simp_all
  define a where "a = k div 16"
  have "k mod (16 * 16) = 16 * (a mod 16) + k mod 16"
    unfolding a_def by (rule mod_mult2_eq)
  then have a: "k mod 256 div 16 = a mod 16" "k div 256 = a div 16" "k div 16 = a"
    by (simp_all add: a_def flip: div_mult2_eq)
  have a': "a = 16 * (a div 16) + a mod 16" by simp
  show "n div 16777216 mod 256 = n div 16777216" using assms by simp
  show "n div 16777216 = 172 \<and> n div 65536 mod 256 div 16 = 1 \<longleftrightarrow> n div 1048576 = 2753"
    unfolding k m(2) a(1-3) by (rule iffI, use a' in linarith, simp)
  show "n div 16777216 = 192 \<and> n div 65536 mod 256 = 168 \<longleftrightarrow> n div 65536 = 49320"
    unfolding k m(2) by (rule iffI, use k' in linarith, simp)
  show "n div 16777216 = 169 \<and> n div 65536 mod 256 = 254 \<longleftrightarrow> n div 65536 = 43518"
    unfolding k m(2) by (rule iffI, use k' in linarith, simp)
  show "n div 16777216 = 224 \<and> n div 65536 mod 256 = 0 \<and> n div 256 mod 256 = 0
          \<longleftrightarrow> n div 256 = 14680064"
    unfolding k m(2) m_def [symmetric]
    by (rule iffI, use k' m' m(1) in linarith, simp add: m(1))
qed

lemma isPublicIP_V4:
  "isPublicIP (V4 w) \<longleftrightarrow>
     (\<forall>(b, n) \<in> set private_blocks4. \<not> net_contains (net_of (V4 b) n) (V4 w))"
proof -
  let ?n = "unat w"
  note oct = nat_octets [OF unat_lt_2_32 [of w]]
  have o: "octet 0 w = ?n div 16777216" "octet 1 w = ?n div 65536 mod 256"
      "octet 2 w = ?n div 256 mod 256"
    using octet_div [of 0 w] octet_div [of 1 w] octet_div [of 2 w] oct(1) by simp_all
  have z: "w = 0 \<longleftrightarrow> ?n = 0" by (simp add: unat_eq_0)
  show ?thesis
    unfolding isPublicIP_def Let_def to4_V4 ip_is_loopback.simps ip_is_link_local.simps
      ip_is_link_local_multicast.simps ip_is_unspecified.simps ip_is_private.simps
      private_blocks4_def cgnatBlock_def block_contains o z oct(2-)
    by (simp add: block_contains)
qed

section \<open>Properties\<close>

text \<open>
  C3: no server-side request to an internal address. What the guarded client dials is one of the
  addresses this very lookup returned, and when it is an IPv4 address, mapped into IPv6 or not,
  it is in none of the loopback, private, link-local, carrier-grade NAT and unspecified blocks.
\<close>

theorem dial_is_public:
  assumes "safe_dial resolve addr = Inr (a, port)"
  shows "\<exists>host answer. split_host_port addr = Some (host, port) \<and> resolve host = Some answer
    \<and> a \<in> set answer \<and> isPublicIP a
    \<and> (\<forall>w. to4 a = V4 w \<longrightarrow>
          (\<forall>(b, n) \<in> set private_blocks4. \<not> net_contains (net_of (V4 b) n) (V4 w)))"
proof -
  obtain host as where h: "split_host_port addr = Some (host, port)" "resolve host = Some as"
      "a \<in> set as" "isPublicIP a"
    using safe_dial_Inr [OF assms] by blast
  have "isPublicIP (V4 w)" if "to4 a = V4 w" for w
    using h(4) that by (simp add: isPublicIP_def)
  then show ?thesis using h isPublicIP_V4 by blast
qed

lemma sample_dial:
  "safe_dial (\<lambda>_. Some [V6 (ucast (0xFFFF08080808 :: 48 word))]) ''dns.google:443''
     = Inr (V6 (ucast (0xFFFF08080808 :: 48 word)), ''443'')"
  by code_simp

theorem dial_is_public_witness:
  "isPublicIP (V6 (ucast (0xFFFF08080808 :: 48 word)))"
  using dial_is_public [of "\<lambda>_. Some [V6 (ucast (0xFFFF08080808 :: 48 word))]" "''dns.google:443''"
      "V6 (ucast (0xFFFF08080808 :: 48 word))" "''443''"] sample_dial by blast

end
