(* ===== verification/Crypto.thy ===== *)
theory Crypto
  imports GoStrings
begin

text \<open>
  Package \<open>crypto\<close> (\<open>aesgcm.go\<close>, \<open>modulekey.go\<close>) with the encodings of the standard library it
  rests on. AES-GCM and HMAC-SHA256 are parameters: \<open>aead\<close> holds the sealing and opening
  functions of \<open>crypto/cipher\<close>, and what the code relies on is the named hypothesis \<open>aead_ok\<close>
  (opening what was sealed under the same key and nonce gives the plaintext back).
  \<open>hmac\<close> is a function argument.
\<close>

section \<open>Hexadecimal\<close>

definition hex_char :: "nat \<Rightarrow> char" where
  "hex_char n = (if n < 10 then char_of (48 + n) else char_of (87 + n))"

fun hex_encode :: "string \<Rightarrow> string" where
  "hex_encode [] = []"
| "hex_encode (c # s) = hex_char (byte c div 16) # hex_char (byte c mod 16) # hex_encode s"

fun hex_decode :: "string \<Rightarrow> string option" where
  "hex_decode [] = Some []"
| "hex_decode [c] = None"
| "hex_decode (a # b # s) =
     (case (unhex a, unhex b, hex_decode s) of
        (Some x, Some y, Some t) \<Rightarrow> Some (char_of (16 * x + y) # t)
      | _ \<Rightarrow> None)"

lemma byte_char_of: "n < 256 \<Longrightarrow> byte (char_of n) = n"
  by (simp add: byte_def)

lemma char_of_byte [simp]: "char_of (byte c) = c"
  by (simp add: byte_def)

lemma unhex_hex_char: "n < 16 \<Longrightarrow> unhex (hex_char n) = Some n"
  by (auto simp: hex_char_def unhex_def is_digit_def byte_char_of)

lemma hex_decode_encode: "hex_decode (hex_encode s) = Some s"
proof (induction s)
  case (Cons c s)
  have "byte c div 16 < 16" using byte_lt_256 [of c] by simp
  with Cons show ?case by (simp add: unhex_hex_char)
qed simp

interpretation hex_text: codec hex_encode hex_decode
  by unfold_locales (rule hex_decode_encode)

lemma length_hex_encode [simp]: "length (hex_encode s) = 2 * length s"
  by (induction s) auto

lemma hex_decode_length: "hex_decode s = Some t \<Longrightarrow> length s = 2 * length t"
  by (induction s arbitrary: t rule: hex_decode.induct) (auto split: option.splits)

section \<open>Base64\<close>

text \<open>\<open>base64.StdEncoding\<close>: padded, and the decoder skips line breaks.\<close>

definition b64_char :: "nat \<Rightarrow> char" where
  "b64_char n =
     (if n < 26 then char_of (65 + n) else if n < 52 then char_of (71 + n)
      else if n < 62 then char_of (n - 4) else if n = 62 then CHR ''+'' else CHR ''/'')"

definition b64_val :: "char \<Rightarrow> nat option" where
  "b64_val c =
     (if is_upper c then Some (byte c - 65)
      else if is_lower c then Some (byte c - 71)
      else if is_digit c then Some (byte c + 4)
      else if c = CHR ''+'' then Some 62
      else if c = CHR ''/'' then Some 63 else None)"

fun b64_encode :: "string \<Rightarrow> string" where
  "b64_encode [] = []"
| "b64_encode [a] =
     [b64_char (byte a div 4), b64_char (byte a mod 4 * 16), CHR ''='', CHR ''='']"
| "b64_encode [a, b] =
     [b64_char (byte a div 4), b64_char (byte a mod 4 * 16 + byte b div 16),
      b64_char (byte b mod 16 * 4), CHR ''='']"
| "b64_encode (a # b # c # s) =
     b64_char (byte a div 4) # b64_char (byte a mod 4 * 16 + byte b div 16)
     # b64_char (byte b mod 16 * 4 + byte c div 64) # b64_char (byte c mod 64) # b64_encode s"

fun b64_decode_quads :: "string \<Rightarrow> string option" where
  "b64_decode_quads [] = Some []"
| "b64_decode_quads (a # b # c # d # s) =
     (case (b64_val a, b64_val b) of
        (Some x, Some y) \<Rightarrow>
          if c = CHR ''='' then
            (if d = CHR ''='' \<and> s = [] then Some [char_of (x * 4 + y div 16)] else None)
          else (case b64_val c of
              None \<Rightarrow> None
            | Some z \<Rightarrow>
                if d = CHR ''='' then
                  (if s = [] then Some [char_of (x * 4 + y div 16), char_of (y mod 16 * 16 + z div 4)]
                   else None)
                else (case (b64_val d, b64_decode_quads s) of
                    (Some w, Some t) \<Rightarrow>
                      Some (char_of (x * 4 + y div 16) # char_of (y mod 16 * 16 + z div 4)
                            # char_of (z mod 4 * 64 + w) # t)
                  | _ \<Rightarrow> None))
      | _ \<Rightarrow> None)"
| "b64_decode_quads _ = None"

definition b64_decode :: "string \<Rightarrow> string option" where
  "b64_decode s = b64_decode_quads (filter (\<lambda>c. byte c \<noteq> 10 \<and> byte c \<noteq> 13) s)"

lemma b64_val_char: "n < 64 \<Longrightarrow> b64_val (b64_char n) = Some n"
  by (auto simp: b64_val_def b64_char_def is_upper_def is_lower_def is_digit_def byte_char_of)
    (simp_all add: byte_def)

lemma b64_char_not_pad: "n < 64 \<Longrightarrow> b64_char n \<noteq> CHR ''=''"
  using b64_val_char [of n] by (auto simp: b64_val_def is_upper_def is_lower_def is_digit_def byte_def)

lemma b64_char_no_break: "n < 64 \<Longrightarrow> byte (b64_char n) \<noteq> 10 \<and> byte (b64_char n) \<noteq> 13"
  by (auto simp: b64_char_def byte_char_of) (simp_all add: byte_def)

lemma byte_parts:
  "byte a div 4 < 64" "byte a mod 4 * 16 < 64" "byte a mod 4 * 16 + byte b div 16 < 64"
  "byte b mod 16 * 4 < 64" "byte b mod 16 * 4 + byte c div 64 < 64" "byte c mod 64 < 64"
  using byte_lt_256 [of a] byte_lt_256 [of b] byte_lt_256 [of c] by linarith+

lemma byte_div_small:
  "byte a div 16 div 16 = 0" "byte a div 16 mod 16 = byte a div 16"
  "byte a div 64 div 4 = 0" "byte a div 64 mod 4 = byte a div 64"
  using byte_lt_256 [of a] by simp_all

lemma b64_encode_no_breaks: "c \<in> set (b64_encode s) \<Longrightarrow> byte c \<noteq> 10 \<and> byte c \<noteq> 13"
  by (induction s rule: b64_encode.induct)
    (auto simp: b64_char_no_break byte_parts, simp_all add: byte_def)

lemma b64_quads_encode: "b64_decode_quads (b64_encode s) = Some s"
  by (induction s rule: b64_encode.induct)
    (simp_all add: b64_val_char b64_char_not_pad byte_parts byte_div_small)

lemma b64_decode_encode: "b64_decode (b64_encode s) = Some s"
proof -
  have "filter (\<lambda>c. byte c \<noteq> 10 \<and> byte c \<noteq> 13) (b64_encode s) = b64_encode s"
    using b64_encode_no_breaks by (intro filter_True) blast
  then show ?thesis by (simp add: b64_decode_def b64_quads_encode)
qed

interpretation b64_text: codec b64_encode b64_decode
  by unfold_locales (rule b64_decode_encode)

section \<open>AES-GCM\<close>

record aead =
  seal :: "string \<Rightarrow> string \<Rightarrow> string \<Rightarrow> string"          \<comment> \<open>key, nonce, plaintext\<close>
  open_sealed :: "string \<Rightarrow> string \<Rightarrow> string \<Rightarrow> string option"   \<comment> \<open>key, nonce, ciphertext\<close>

definition aead_ok :: "aead \<Rightarrow> bool" where
  "aead_ok A \<longleftrightarrow> (\<forall>k n p. open_sealed A k n (seal A k n p) = Some p)"

text \<open>\<open>gcm.NonceSize()\<close>.\<close>

definition nonce_size :: nat where "nonce_size = 12"

text \<open>\<open>buildGCM\<close>: the AEAD instance is its key.\<close>

definition buildGCM :: "string \<Rightarrow> string res" where
  "buildGCM keyHex =
     (case hex_decode keyHex of
        None \<Rightarrow> Inl ErrDecode
      | Some key \<Rightarrow> if length key \<noteq> 32 then Inl ErrKey else Inr key)"

text \<open>The process-wide cache of AEAD instances, by the hex key (\<open>sync.Map\<close>).\<close>

type_synonym gcm_cache = "(string \<times> string) list"

definition newGCM :: "gcm_cache \<Rightarrow> string \<Rightarrow> string res \<times> gcm_cache" where
  "newGCM cache keyHex =
     (case map_of cache keyHex of
        Some gcm \<Rightarrow> (Inr gcm, cache)
      | None \<Rightarrow>
          (case buildGCM keyHex of
             Inl e \<Rightarrow> (Inl e, cache)
           | Inr gcm \<Rightarrow> (Inr gcm, (keyHex, gcm) # cache)))"

text \<open>\<open>Encrypt\<close> with the nonce read from the random source, \<open>None\<close> when reading fails.\<close>

definition Encrypt :: "aead \<Rightarrow> gcm_cache \<Rightarrow> string option \<Rightarrow> string \<Rightarrow> string \<Rightarrow> string res \<times> gcm_cache" where
  "Encrypt A cache nonce keyHex plaintext =
     (let (r, cache') = newGCM cache keyHex
      in (case r of
            Inl e \<Rightarrow> Inl e
          | Inr key \<Rightarrow>
              (case nonce of
                 None \<Rightarrow> Inl ErrExternal
               | Some n \<Rightarrow> Inr (b64_encode (n @ seal A key n plaintext))), cache'))"

definition Decrypt :: "aead \<Rightarrow> gcm_cache \<Rightarrow> string \<Rightarrow> string \<Rightarrow> string res \<times> gcm_cache" where
  "Decrypt A cache keyHex encoded =
     (let (r, cache') = newGCM cache keyHex
      in (case r of
            Inl e \<Rightarrow> Inl e
          | Inr key \<Rightarrow>
              (case b64_decode encoded of
                 None \<Rightarrow> Inl ErrDecode
               | Some raw \<Rightarrow>
                   if length raw < nonce_size then Inl ErrShort
                   else (case open_sealed A key (take nonce_size raw) (drop nonce_size raw) of
                       None \<Rightarrow> Inl ErrDecrypt
                     | Some p \<Rightarrow> Inr p)), cache'))"

definition EncryptIfNotEmpty ::
  "aead \<Rightarrow> gcm_cache \<Rightarrow> string option \<Rightarrow> string \<Rightarrow> string \<Rightarrow> string res \<times> gcm_cache" where
  "EncryptIfNotEmpty A cache nonce keyHex plaintext =
     (if plaintext = [] then (Inr [], cache) else Encrypt A cache nonce keyHex plaintext)"

definition DecryptIfNotEmpty :: "aead \<Rightarrow> gcm_cache \<Rightarrow> string \<Rightarrow> string \<Rightarrow> string res \<times> gcm_cache" where
  "DecryptIfNotEmpty A cache keyHex encoded =
     (if encoded = [] then (Inr [], cache) else Decrypt A cache keyHex encoded)"

text \<open>\<open>DeriveModuleKey\<close>: one block of HKDF-Expand over the module's name.\<close>

definition module_key_info :: "string \<Rightarrow> string" where
  "module_key_info moduleName = ''modulab-module-pii-v1:'' @ moduleName @ [char_of (1 :: nat)]"

definition DeriveModuleKey :: "(string \<Rightarrow> string \<Rightarrow> string) \<Rightarrow> string \<Rightarrow> string \<Rightarrow> string res" where
  "DeriveModuleKey hmac rawKeyHex moduleName =
     (case hex_decode rawKeyHex of
        None \<Rightarrow> Inl ErrDecode
      | Some raw \<Rightarrow>
          if length raw \<noteq> 32 then Inl ErrKey
          else if moduleName = [] then Inl (ErrInvalid ''empty module name'')
          else Inr (hex_encode (hmac raw (module_key_info moduleName))))"

section \<open>The cache is transparent\<close>

definition cache_ok :: "gcm_cache \<Rightarrow> bool" where
  "cache_ok cache \<longleftrightarrow> list_all (\<lambda>(k, v). buildGCM k = Inr v) cache"

lemma cache_ok_Nil [simp]: "cache_ok []"
  by (simp add: cache_ok_def)

lemma cache_ok_lookup: "cache_ok cache \<Longrightarrow> map_of cache k = Some v \<Longrightarrow> buildGCM k = Inr v"
  by (auto simp: cache_ok_def list_all_iff dest!: map_of_SomeD)

lemma newGCM_result: "cache_ok cache \<Longrightarrow> fst (newGCM cache k) = buildGCM k"
  using cache_ok_lookup [of cache k] by (auto simp: newGCM_def split: option.splits sum.splits)

lemma newGCM_cache_ok: "cache_ok cache \<Longrightarrow> cache_ok (snd (newGCM cache k))"
  by (auto simp: newGCM_def cache_ok_def split: option.splits sum.splits)

lemma buildGCM_Inr_iff: "buildGCM k = Inr key \<longleftrightarrow> hex_decode k = Some key \<and> length key = 32"
  by (auto simp: buildGCM_def split: option.splits)

lemma Encrypt_result:
  "cache_ok cache \<Longrightarrow>
     fst (Encrypt A cache nonce k p) =
       res_bind (buildGCM k) (\<lambda>key. case nonce of None \<Rightarrow> Inl ErrExternal
          | Some n \<Rightarrow> Inr (b64_encode (n @ seal A key n p)))"
  using newGCM_result [of cache k]
  by (auto simp: Encrypt_def res_bind_def split: prod.splits sum.splits)

lemma Encrypt_cache_ok: "cache_ok cache \<Longrightarrow> cache_ok (snd (Encrypt A cache nonce k p))"
  using newGCM_cache_ok [of cache k] by (auto simp: Encrypt_def split: prod.splits)

lemma Decrypt_cache_ok: "cache_ok cache \<Longrightarrow> cache_ok (snd (Decrypt A cache k e))"
  using newGCM_cache_ok [of cache k] by (auto simp: Decrypt_def split: prod.splits)

lemma Decrypt_result:
  "cache_ok cache \<Longrightarrow>
     fst (Decrypt A cache k e) =
       res_bind (buildGCM k) (\<lambda>key. case b64_decode e of None \<Rightarrow> Inl ErrDecode
         | Some raw \<Rightarrow> if length raw < nonce_size then Inl ErrShort
             else (case open_sealed A key (take nonce_size raw) (drop nonce_size raw) of
                     None \<Rightarrow> Inl ErrDecrypt | Some p \<Rightarrow> Inr p))"
  using newGCM_result [of cache k]
  by (auto simp: Decrypt_def res_bind_def split: prod.splits sum.splits)

lemma Decrypt_Encrypt:
  assumes "aead_ok A" and "cache_ok c1" and "cache_ok c2"
    and "buildGCM k = Inr key" and "length n = nonce_size"
    and "fst (Encrypt A c1 (Some n) k p) = Inr e"
  shows "fst (Decrypt A c2 k e) = Inr p"
proof -
  have e: "e = b64_encode (n @ seal A key n p)"
    using assms by (simp add: Encrypt_result)
  show ?thesis
    using assms(1,3,4,5) by (simp add: Decrypt_result e b64_decode_encode aead_ok_def)
qed

text \<open>An instance of the parameter, for evaluation: the ciphertext carries its key and nonce.\<close>

definition plain_aead :: aead where
  "plain_aead = \<lparr> seal = (\<lambda>k n p. k @ n @ p),
     open_sealed = (\<lambda>k n c. if has_prefix c (k @ n) then Some (drop (length (k @ n)) c) else None) \<rparr>"

lemma plain_aead_ok: "aead_ok plain_aead"
  by (auto simp: aead_ok_def plain_aead_def has_prefix_def)

section \<open>Properties\<close>

text \<open>
  C4: what was encrypted decrypts to itself, whatever the two calls find in the key cache: with
  an AEAD that opens what it sealed, \<open>Decrypt\<close> returns the plaintext of any text \<open>Encrypt\<close>
  produced under the same key, and the \<open>IfNotEmpty\<close> pair keeps the empty text empty.
\<close>

theorem encrypt_decrypt:
  assumes "aead_ok A" and "cache_ok c1" and "cache_ok c2" and "length n = nonce_size"
    and "fst (EncryptIfNotEmpty A c1 (Some n) k p) = Inr e"
  shows "fst (DecryptIfNotEmpty A c2 k e) = Inr p"
proof (cases "p = []")
  case True
  with assms(5) show ?thesis by (simp add: EncryptIfNotEmpty_def DecryptIfNotEmpty_def)
next
  case False
  then have enc: "fst (Encrypt A c1 (Some n) k p) = Inr e"
    using assms(5) by (simp add: EncryptIfNotEmpty_def)
  then obtain key where key: "buildGCM k = Inr key" "e = b64_encode (n @ seal A key n p)"
    using assms(2) by (auto simp: Encrypt_result res_bind_Inr_iff)
  have "e \<noteq> []"
    using assms(4) key(2) b64_decode_encode [of "n @ seal A key n p"]
    by (auto simp: nonce_size_def b64_decode_def)
  then show ?thesis
    using Decrypt_Encrypt [OF assms(1-3) key(1) assms(4) enc] by (simp add: DecryptIfNotEmpty_def)
qed

definition sample_key :: string where "sample_key = replicate 64 CHR ''0''"

lemma sample_encrypt:
  "\<exists>e. fst (EncryptIfNotEmpty plain_aead [] (Some (replicate 12 CHR ''n'')) sample_key ''secret'') = Inr e"
proof -
  have "buildGCM sample_key = Inr (replicate 32 (char_of (0 :: nat)))" by code_simp
  then show ?thesis by (simp add: EncryptIfNotEmpty_def Encrypt_result)
qed

theorem encrypt_decrypt_witness:
  "\<exists>e. fst (EncryptIfNotEmpty plain_aead [] (Some (replicate 12 CHR ''n'')) sample_key ''secret'') = Inr e
     \<and> fst (DecryptIfNotEmpty plain_aead [] sample_key e) = Inr ''secret''"
proof -
  obtain e where e: "fst (EncryptIfNotEmpty plain_aead [] (Some (replicate 12 CHR ''n'')) sample_key ''secret'') = Inr e"
    using sample_encrypt by blast
  show ?thesis
    using encrypt_decrypt [OF plain_aead_ok cache_ok_Nil cache_ok_Nil _ e] e by (simp add: nonce_size_def)
qed

text \<open>
  C5: the key cache is transparent. From a cache that holds only what \<open>buildGCM\<close> would build,
  encryption and decryption give what they would give with no cache, and leave such a cache; a
  key that is not 64 hex digits is refused and never cached.
\<close>

theorem cache_transparent:
  assumes "cache_ok cache"
  shows "fst (Encrypt A cache nonce k p) = fst (Encrypt A [] nonce k p)
    \<and> fst (Decrypt A cache k e) = fst (Decrypt A [] k e)
    \<and> cache_ok (snd (Encrypt A cache nonce k p)) \<and> cache_ok (snd (Decrypt A cache k e))
    \<and> (is_ok (fst (newGCM cache k)) \<longleftrightarrow> (\<exists>key. hex_decode k = Some key \<and> length key = 32))"
  using assms
  by (auto simp: Encrypt_result Decrypt_result Encrypt_cache_ok Decrypt_cache_ok newGCM_result
      is_ok_ex buildGCM_Inr_iff)

theorem cache_transparent_witness:
  "fst (Encrypt plain_aead [(sample_key, replicate 32 (char_of (0 :: nat)))] None sample_key ''x'')
     = fst (Encrypt plain_aead [] None sample_key ''x'')"
proof -
  have "cache_ok [(sample_key, replicate 32 (char_of (0 :: nat)))]" by code_simp
  from cache_transparent [OF this] show ?thesis by blast
qed

text \<open>
  A derived module key is usable and its own. With an HMAC of 32 bytes the derived key is one
  \<open>buildGCM\<close> accepts, and two different modules get the keys of two different HMAC inputs.
\<close>

theorem module_key_usable:
  assumes "\<And>key msg. length (hmac key msg) = 32"
    and "DeriveModuleKey hmac root m = Inr km"
  shows "(\<exists>key. buildGCM km = Inr key)
    \<and> (\<exists>raw. hex_decode root = Some raw \<and> hex_decode km = Some (hmac raw (module_key_info m)))
    \<and> (\<forall>n. module_key_info m = module_key_info n \<longrightarrow> m = n)"
  using assms
  by (auto simp: DeriveModuleKey_def buildGCM_def hex_decode_encode module_key_info_def
      split: option.splits if_splits)

theorem module_key_usable_witness:
  "\<exists>key. buildGCM (hex_encode (replicate 32 CHR ''h'')) = Inr key"
proof -
  have "DeriveModuleKey (\<lambda>_ _. replicate 32 CHR ''h'') sample_key ''m'' = Inr (hex_encode (replicate 32 CHR ''h''))"
    by code_simp
  from module_key_usable [OF _ this] show ?thesis by simp
qed

end
