(* ===== verification/Egress.thy ===== *)
theory Egress
  imports GoNet
begin

text \<open>
  \<open>modules/egresspolicy.go\<close>: which hosts a module may grant itself at run time. A host is
  normalised the way the worker is granted it, and a policy pattern is the wildcard \<open>*\<close>, a CIDR
  block, a \<open>*.suffix\<close> or an exact host.
\<close>

section \<open>Operations\<close>

definition normalizeEgressHost :: "string \<Rightarrow> string" where
  "normalizeEgressHost raw =
     (let h = trim_space raw in
      if h = [] then []
      else
        let h = (case index_of h ''://'' of Some i \<Rightarrow> drop (i + 3) h | None \<Rightarrow> h);
            h = (case index_any h [CHR ''/'', CHR ''?'', CHR ''#''] of Some i \<Rightarrow> take i h | None \<Rightarrow> h);
            h = (case last_index_byte h CHR ''@'' of Some i \<Rightarrow> drop (i + 1) h | None \<Rightarrow> h);
            h = (case split_host_port h of Some (host, _) \<Rightarrow> host | None \<Rightarrow> h)
        in to_lower (trim_set [CHR ''['', CHR '']''] h))"

definition egressPolicyWildcard :: string where "egressPolicyWildcard = ''*''"

definition validateEgressPolicyPattern :: "string \<Rightarrow> unit res" where
  "validateEgressPolicyPattern raw =
     (let p = trim_space raw in
      if p = [] then Inl (ErrInvalid ''empty pattern'')
      else if p = egressPolicyWildcard then Inr ()
      else if contains p ''/'' then
        (case parse_cidr p of None \<Rightarrow> Inl (ErrInvalid ''not a valid CIDR'') | Some _ \<Rightarrow> Inr ())
      else if has_prefix p ''*.'' then
        (let rest = drop 2 p in
         if rest = [] \<or> contains rest ''*'' then Inl (ErrInvalid ''wildcard host'') else Inr ())
      else if contains p ''*'' then Inl (ErrInvalid ''misplaced wildcard'')
      else Inr ())"

text \<open>One round of the loop over the patterns: does this pattern admit the host?\<close>

definition pattern_admits :: "string \<Rightarrow> ip option \<Rightarrow> string \<Rightarrow> bool" where
  "pattern_admits h addr raw =
     (let p = to_lower (trim_space raw) in
      if p = [] then False
      else if p = egressPolicyWildcard then True
      else if contains p ''/'' then
        (case (parse_cidr p, addr) of
           (Some network, Some a) \<Rightarrow> net_contains network a
         | _ \<Rightarrow> False)
      else if has_prefix p ''*.'' then
        (let sfx = drop 1 p in length h > length sfx \<and> has_suffix h sfx)
      else h = normalizeEgressHost p)"

fun any_admits :: "string \<Rightarrow> ip option \<Rightarrow> string list \<Rightarrow> bool" where
  "any_admits h addr [] = False"
| "any_admits h addr (raw # patterns) =
     (if pattern_admits h addr raw then True else any_admits h addr patterns)"

definition matchesEgressPolicy :: "string \<Rightarrow> string list \<Rightarrow> bool" where
  "matchesEgressPolicy host patterns =
     (let h = normalizeEgressHost host in
      if h = [] then False else any_admits h (parse_ip h) patterns)"

fun filterEgressHosts :: "string list \<Rightarrow> string list \<Rightarrow> string list \<times> string list" where
  "filterEgressHosts [] patterns = ([], [])"
| "filterEgressHosts (h # hosts) patterns =
     (let (allowed, rejected) = filterEgressHosts hosts patterns in
      if matchesEgressPolicy h patterns then (h # allowed, rejected)
      else (allowed, h # rejected))"

text \<open>
  \<open>carryOverRuntimeEgress\<close>: the hosts a running worker had that the new policy still admits, and
  the audit entry it writes (the rejected hosts, joined by commas) when there is something to
  drop.
\<close>

definition carryOverRuntimeEgress :: "string list \<Rightarrow> string list \<Rightarrow> string list \<times> string option" where
  "carryOverRuntimeEgress hosts patterns =
     (let (allowed, rejected) = filterEgressHosts hosts patterns
      in (allowed, if rejected \<noteq> [] then Some (join_with '','' rejected) else None))"

section \<open>The policy, declaratively\<close>

lemma any_admits_iff: "any_admits h addr ps \<longleftrightarrow> (\<exists>p \<in> set ps. pattern_admits h addr p)"
  by (induction ps) auto

lemma matches_iff:
  "matchesEgressPolicy host ps \<longleftrightarrow>
     normalizeEgressHost host \<noteq> []
     \<and> (\<exists>p \<in> set ps. pattern_admits (normalizeEgressHost host) (parse_ip (normalizeEgressHost host)) p)"
  by (simp add: matchesEgressPolicy_def Let_def any_admits_iff)

lemma filterEgressHosts_eq:
  "filterEgressHosts hosts ps =
     (filter (\<lambda>h. matchesEgressPolicy h ps) hosts, filter (\<lambda>h. \<not> matchesEgressPolicy h ps) hosts)"
  by (induction hosts) auto

section \<open>Case and the address parsers\<close>

text \<open>
  Patterns are lowercased before they are matched but not before they are validated: the
  parsers do not see the difference.
\<close>

lemma lower_char_eq_iff:
  "\<not> is_upper d \<Longrightarrow> \<not> is_lower d \<Longrightarrow> lower_char c = d \<longleftrightarrow> c = d"
  by (auto simp: lower_char_def is_lower_def is_upper_def byte_def)

lemma is_digit_lower [simp]: "is_digit (lower_char c) = is_digit c"
  by (auto simp: is_digit_def byte_lower_char is_upper_def)

lemma lower_digit: "is_digit c \<Longrightarrow> lower_char c = c"
  by (auto simp: lower_char_def is_digit_def is_upper_def)

lemma unhex_lower [simp]: "unhex (lower_char c) = unhex c"
  by (auto simp: unhex_def byte_lower_char is_upper_def is_digit_def)

lemma all_digit_lower: "list_all is_digit s \<Longrightarrow> to_lower s = s"
  by (induction s) (auto simp: to_lower_def lower_digit)

lemma list_all_digit_lower [simp]: "list_all is_digit (to_lower s) = list_all is_digit s"
  by (simp add: to_lower_def list_all_iff)

lemma to_lower_Nil_iff [simp]: "to_lower s = [] \<longleftrightarrow> s = []"
  by (simp add: to_lower_def)

lemma parse_uint_lower: "parse_uint (to_lower s) = parse_uint s"
  using all_digit_lower [of s] by (auto simp: parse_uint_def)

lemma parse_octet_lower: "parse_octet (to_lower s) = parse_octet s"
  using all_digit_lower [of s] by (auto simp: parse_octet_def)

lemma hex_val_lower: "hex_val a (to_lower s) = hex_val a s"
  by (induction s arbitrary: a) (auto simp: to_lower_def split: option.splits)

lemma parse_field_lower: "parse_field (to_lower s) = parse_field s"
  by (simp add: parse_field_def hex_val_lower)

lemma split_on_lower:
  "\<not> is_upper d \<Longrightarrow> \<not> is_lower d \<Longrightarrow> split_on d (to_lower s) = map to_lower (split_on d s)"
  by (induction s) (auto simp: to_lower_def lower_char_eq_iff split: list.splits)

definition caseless :: "string \<Rightarrow> bool" where
  "caseless p \<longleftrightarrow> (\<forall>c \<in> set p. \<not> is_upper c \<and> \<not> is_lower c)"

lemma map_lower_eq_iff: "caseless p \<Longrightarrow> to_lower s = p \<longleftrightarrow> s = p"
proof (induction p arbitrary: s)
  case (Cons d p)
  then show ?case
    by (cases s) (auto simp: to_lower_def caseless_def lower_char_eq_iff)
qed simp

lemma has_prefix_lower: "caseless p \<Longrightarrow> has_prefix (to_lower s) p = has_prefix s p"
proof -
  assume p: "caseless p"
  have "take (length p) (to_lower s) = to_lower (take (length p) s)"
    by (simp add: to_lower_def take_map)
  then show ?thesis by (simp add: has_prefix_def map_lower_eq_iff [OF p])
qed

lemma index_of_lower: "caseless p \<Longrightarrow> index_of (to_lower s) p = index_of s p"
proof (induction s)
  case (Cons c s)
  then show ?case using has_prefix_lower [of p "c # s"] by (simp add: to_lower_def)
qed (simp add: to_lower_def)

lemma contains_lower: "caseless p \<Longrightarrow> contains (to_lower s) p = contains s p"
  by (simp add: contains_def index_of_lower)

lemma caseless_marks [simp]:
  "caseless ''/''" "caseless '':''" "caseless ''::''" "caseless ''.''" "caseless ''*.''" "caseless ''*''"
  "\<not> is_upper CHR ''.''" "\<not> is_lower CHR ''.''" "\<not> is_upper CHR '':''" "\<not> is_lower CHR '':''"
  by (simp_all add: caseless_def is_upper_def is_lower_def byte_def)

lemma parse_v4_lower: "parse_v4 (to_lower s) = parse_v4 s"
proof -
  have "split_on CHR ''.'' (to_lower s) = map to_lower (split_on CHR ''.'' s)"
    by (simp add: split_on_lower)
  then show ?thesis
    by (auto simp: parse_v4_def parse_octet_lower split: list.splits option.splits)
qed

lemma parse_fields_lower: "parse_fields (map to_lower ws) = parse_fields ws"
  by (induction ws rule: parse_fields.induct)
    (simp_all add: contains_lower parse_v4_lower parse_field_lower)

lemma fields_of_text_lower: "fields_of_text (to_lower s) = fields_of_text s"
  by (simp add: fields_of_text_def split_on_lower parse_fields_lower)

lemma take_to_lower: "take n (to_lower s) = to_lower (take n s)"
  and drop_to_lower: "drop n (to_lower s) = to_lower (drop n s)"
  by (simp_all add: to_lower_def take_map drop_map)

lemma parse_v6_lower: "parse_v6 (to_lower s) = parse_v6 s"
  by (auto simp: parse_v6_def index_of_lower fields_of_text_lower take_to_lower drop_to_lower
      contains_lower Let_def split: option.splits)

lemma index_any_lower:
  "caseless ds \<Longrightarrow> index_any (to_lower s) ds = index_any s ds"
proof (induction s)
  case (Cons c s)
  have "lower_char c \<in> set ds \<longleftrightarrow> c \<in> set ds"
    using Cons.prems by (metis caseless_def lower_char_eq_iff)
  with Cons show ?case by (simp add: to_lower_def)
qed (simp add: to_lower_def)

lemma index_any_Some: "index_any s ds = Some i \<Longrightarrow> i < length s \<and> s ! i \<in> set ds"
  by (induction s arbitrary: i) (auto split: if_splits)

lemma parse_addr_lower: "parse_addr (to_lower s) = parse_addr s"
proof -
  have "caseless [CHR ''.'', CHR '':'']"
    by (simp add: caseless_def is_upper_def is_lower_def byte_def)
  then have "index_any (to_lower s) [CHR ''.'', CHR '':''] = index_any s [CHR ''.'', CHR '':'']"
    by (rule index_any_lower)
  moreover have "to_lower s ! i = CHR ''.'' \<longleftrightarrow> s ! i = CHR ''.''" if "i < length s" for i
    using that by (simp add: to_lower_def lower_char_eq_iff)
  ultimately show ?thesis
    by (auto simp: parse_addr_def parse_v4_lower parse_v6_lower dest: index_any_Some split: option.splits)
qed

lemma parse_cidr_lower: "parse_cidr (to_lower s) = parse_cidr s"
  by (auto simp: parse_cidr_def index_of_lower take_to_lower drop_to_lower parse_addr_lower
      parse_uint_lower split: option.splits)

lemma pattern_admits_cidr:
  assumes "contains (trim_space raw) ''/''"
  shows "pattern_admits h addr raw \<longleftrightarrow>
    (\<exists>n a. parse_cidr (trim_space raw) = Some n \<and> addr = Some a \<and> net_contains n a)"
proof -
  have "trim_space raw \<noteq> []" "to_lower (trim_space raw) \<noteq> egressPolicyWildcard"
    using assms contains_lower [of "''/''" "trim_space raw"]
    by (auto simp: contains_byte_iff egressPolicyWildcard_def)
  then show ?thesis using assms
    by (auto simp: pattern_admits_def Let_def contains_lower parse_cidr_lower split: option.splits)
qed

lemma pattern_admits_suffix:
  assumes "\<not> contains (trim_space raw) ''/''" and "trim_space raw = ''*.'' @ d" and "d \<noteq> []"
  shows "pattern_admits h addr raw \<longleftrightarrow> (\<exists>l. l \<noteq> [] \<and> h = l @ ''.'' @ to_lower d)"
proof -
  let ?p = "to_lower (''*.'' @ d)"
  have p: "?p = ''*.'' @ to_lower d"
    by (simp add: to_lower_def lower_char_def is_upper_def byte_def)
  have "?p \<noteq> egressPolicyWildcard" "\<not> contains ?p ''/''"
    using assms contains_lower [of "''/''" "trim_space raw"] p
    by (auto simp: egressPolicyWildcard_def)
  then have "pattern_admits h addr raw \<longleftrightarrow>
      length (''.'' @ to_lower d) < length h \<and> has_suffix h (''.'' @ to_lower d)"
    using assms(2) p by (simp add: pattern_admits_def has_prefix_def)
  also have "\<dots> \<longleftrightarrow> (\<exists>l. l \<noteq> [] \<and> h = l @ ''.'' @ to_lower d)"
    by (auto simp: has_suffix_iff)
  finally show ?thesis .
qed

section \<open>Properties\<close>

text \<open>
  C1: a CIDR pattern that passes the install-time check is never skipped at run time, and admits
  exactly the literal addresses of its network; a host name is not an address and is refused.
\<close>

theorem cidr_pattern_exact:
  assumes "validateEgressPolicyPattern raw = Inr ()" and "contains (trim_space raw) ''/''"
  shows "\<exists>network. parse_cidr (trim_space raw) = Some network
    \<and> (\<forall>host. matchesEgressPolicy host [raw] \<longleftrightarrow>
          (\<exists>a. parse_ip (normalizeEgressHost host) = Some a \<and> net_contains network a))"
proof -
  have "trim_space raw \<noteq> egressPolicyWildcard"
    using assms(2) by (auto simp: egressPolicyWildcard_def contains_byte_iff)
  then obtain network where n: "parse_cidr (trim_space raw) = Some network"
    using assms by (auto simp: validateEgressPolicyPattern_def Let_def split: if_splits option.splits)
  have "parse_ip [] = None" by (simp add: parse_ip_def parse_addr_def)
  then show ?thesis using n by (auto simp: matches_iff pattern_admits_cidr [OF assms(2)])
qed

theorem cidr_pattern_exact_witness:
  "\<exists>network. parse_cidr (trim_space ''192.168.0.0/16'') = Some network
    \<and> (\<forall>host. matchesEgressPolicy host [''192.168.0.0/16''] \<longleftrightarrow>
          (\<exists>a. parse_ip (normalizeEgressHost host) = Some a \<and> net_contains network a))"
  by (rule cidr_pattern_exact) code_simp+

text \<open>
  A \<open>*.d\<close> pattern that passes the install-time check admits exactly the hosts with at least
  one more label in front of \<open>d\<close>: neither \<open>d\<close> itself nor a host that merely ends in its letters.
\<close>

theorem suffix_pattern_exact:
  assumes "validateEgressPolicyPattern raw = Inr ()"
    and "trim_space raw = ''*.'' @ d" and "\<not> contains (trim_space raw) ''/''"
  shows "matchesEgressPolicy host [raw] \<longleftrightarrow>
    (\<exists>l. l \<noteq> [] \<and> normalizeEgressHost host = l @ ''.'' @ to_lower d)"
proof -
  have "d \<noteq> []"
    using assms by (auto simp: validateEgressPolicyPattern_def Let_def egressPolicyWildcard_def
        has_prefix_def split: if_splits)
  then show ?thesis
    using pattern_admits_suffix [OF assms(3,2)] by (auto simp: matches_iff)
qed

theorem suffix_pattern_exact_witness:
  "matchesEgressPolicy ''evilui.com'' [''*.ui.com''] \<longleftrightarrow>
     (\<exists>l. l \<noteq> [] \<and> normalizeEgressHost ''evilui.com'' = l @ ''.'' @ to_lower ''ui.com'')"
  by (rule suffix_pattern_exact) code_simp+

text \<open>
  The split into allowed and rejected hosts loses and invents nothing, keeps the order, and
  fails closed: a module without a policy is granted no host at run time.
\<close>

theorem filter_partitions:
  "filterEgressHosts hosts patterns = (allowed, rejected) \<Longrightarrow>
     set allowed \<union> set rejected = set hosts \<and> subseq allowed hosts
     \<and> (\<forall>h \<in> set allowed. matchesEgressPolicy h patterns)
     \<and> (\<forall>h \<in> set rejected. \<not> matchesEgressPolicy h patterns)
     \<and> (patterns = [] \<longrightarrow> allowed = [])"
  by (auto simp: filterEgressHosts_eq matches_iff)

lemma sample_filter:
  "filterEgressHosts [''x.org'', ''a.ui.com''] [''*.ui.com''] = ([''a.ui.com''], [''x.org''])"
  by code_simp

theorem filter_partitions_witness:
  "subseq [''a.ui.com''] [''x.org'', ''a.ui.com'']"
  using filter_partitions [OF sample_filter] by blast

end
