(* ===== verification/GoPath.thy ===== *)
theory GoPath
  imports GoStrings
begin

text \<open>
  Go's \<open>path/filepath\<close> on Unix: \<open>Clean\<close>, \<open>Join\<close>, \<open>Base\<close>, \<open>Dir\<close>, \<open>IsAbs\<close>. \<open>Clean\<close> works on the
  slash-separated components with a stack, as the library does with its output buffer: an
  empty component and \<open>.\<close> are dropped, \<open>..\<close> removes the component before it, or stays when
  there is none and the path is not rooted. The lemmas relate a cleaned path to its list of
  components, which is what \<^emph>\<open>inside the directory\<close> means.
\<close>

definition slash :: char where "slash = CHR ''/''"

definition dotdot :: string where "dotdot = ''..''"

fun clean_step :: "bool \<Rightarrow> string list \<Rightarrow> string \<Rightarrow> string list" where
  "clean_step rooted st w =
     (if w = [] \<or> w = ''.'' then st
      else if w = ''..'' then
        (case st of
           [] \<Rightarrow> if rooted then [] else [''..'']
         | t # ts \<Rightarrow> if t = ''..'' then ''..'' # st else ts)
      else w # st)"

declare clean_step.simps [simp del]

definition clean_stack :: "bool \<Rightarrow> string list \<Rightarrow> string list \<Rightarrow> string list" where
  "clean_stack rooted st ws = foldl (clean_step rooted) st ws"

definition is_abs :: "string \<Rightarrow> bool" where
  "is_abs p \<longleftrightarrow> (case p of [] \<Rightarrow> False | c # _ \<Rightarrow> c = CHR ''/'')"

definition clean_comps :: "string \<Rightarrow> string list" where
  "clean_comps p = rev (clean_stack (is_abs p) [] (split_on CHR ''/'' p))"

definition render_path :: "bool \<Rightarrow> string list \<Rightarrow> string" where
  "render_path rooted ws =
     (if rooted then CHR ''/'' # join_with ''/'' ws
      else if ws = [] then ''.'' else join_with ''/'' ws)"

definition path_clean :: "string \<Rightarrow> string" where
  "path_clean p = (if p = [] then ''.'' else render_path (is_abs p) (clean_comps p))"

definition path_join :: "string list \<Rightarrow> string" where
  "path_join ps =
     (case dropWhile (\<lambda>p. p = []) ps of
        [] \<Rightarrow> []
      | ps' \<Rightarrow> path_clean (join_with ''/'' ps'))"

definition after_last_slash :: "string \<Rightarrow> string" where
  "after_last_slash p = rev (takeWhile (\<lambda>c. c \<noteq> CHR ''/'') (rev p))"

definition path_base :: "string \<Rightarrow> string" where
  "path_base p =
     (if p = [] then ''.''
      else let b = after_last_slash (trim_right_slash p) in if b = [] then ''/'' else b)"

definition path_dir :: "string \<Rightarrow> string" where
  "path_dir p = path_clean (rev (dropWhile (\<lambda>c. c \<noteq> CHR ''/'') (rev p)))"

text \<open>The directories and the file a path names, from its text.\<close>

definition path_comps :: "string \<Rightarrow> string list" where
  "path_comps p = filter (\<lambda>w. w \<noteq> []) (split_on CHR ''/'' p)"

definition plain_comp :: "string \<Rightarrow> bool" where
  "plain_comp w \<longleftrightarrow> w \<noteq> [] \<and> w \<noteq> ''.'' \<and> w \<noteq> ''..'' \<and> CHR ''/'' \<notin> set w"

text \<open>
  \<open>inside root p\<close>: the file \<open>p\<close> is below the directory \<open>root\<close>, by components, and no component
  of either walks up.
\<close>

definition inside :: "string \<Rightarrow> string \<Rightarrow> bool" where
  "inside root p \<longleftrightarrow>
     (\<exists>ws. path_comps p = path_comps root @ ws \<and> list_all plain_comp ws)"

section \<open>The stack\<close>

lemma clean_stack_simps [simp]:
  "clean_stack r st [] = st"
  "clean_stack r st (w # ws) = clean_stack r (clean_step r st w) ws"
  by (simp_all add: clean_stack_def)

lemma clean_stack_append:
  "clean_stack r st (us @ ws) = clean_stack r (clean_stack r st us) ws"
  by (simp add: clean_stack_def)

text \<open>A stack is plain components on top of a block of \<open>..\<close>, which a rooted path never has.\<close>

fun stack_ok :: "bool \<Rightarrow> string list \<Rightarrow> bool" where
  "stack_ok r [] = True"
| "stack_ok r (w # ws) =
     (if w = ''..'' then \<not> r \<and> set ws \<subseteq> {''..''} else plain_comp w \<and> stack_ok r ws)"

lemma stack_ok_dots: "set ws \<subseteq> {''..''} \<Longrightarrow> \<not> r \<Longrightarrow> stack_ok r ws"
  by (induction ws) auto

lemma clean_step_ok:
  assumes "stack_ok r st" and "CHR ''/'' \<notin> set w"
  shows "stack_ok r (clean_step r st w)"
proof (cases st)
  case Nil
  with assms show ?thesis by (auto simp: clean_step.simps plain_comp_def)
next
  case (Cons t ts)
  with assms show ?thesis
    by (auto simp: clean_step.simps plain_comp_def intro: stack_ok_dots split: if_splits)
qed

lemma clean_stack_ok:
  "stack_ok r st \<Longrightarrow> (\<And>w. w \<in> set ws \<Longrightarrow> CHR ''/'' \<notin> set w) \<Longrightarrow> stack_ok r (clean_stack r st ws)"
  by (induction ws arbitrary: st) (auto simp: clean_step_ok)

lemma stack_ok_rooted: "stack_ok True st \<longleftrightarrow> list_all plain_comp st"
  by (induction st) (auto simp: plain_comp_def)

lemma stack_ok_last:
  "stack_ok r st \<Longrightarrow> st \<noteq> [] \<Longrightarrow> last st \<noteq> ''..'' \<Longrightarrow> list_all plain_comp st"
proof (induction st)
  case (Cons w ws)
  show ?case
  proof (cases "w = ''..''")
    case True
    with Cons.prems have "set (w # ws) \<subseteq> {''..''}" by auto
    then have "last (w # ws) = ''..''" by (metis last_in_set list.discI singletonD subsetD)
    with Cons.prems show ?thesis by simp
  next
    case False
    with Cons show ?thesis by (cases "ws = []") (auto simp: split: if_splits)
  qed
qed simp

lemma split_slash_comps: "w \<in> set (split_on CHR ''/'' p) \<Longrightarrow> CHR ''/'' \<notin> set w"
  by (rule split_on_no_sep)

lemma clean_comps_ok: "stack_ok (is_abs p) (rev (clean_comps p))"
  unfolding clean_comps_def using split_slash_comps by (auto intro!: clean_stack_ok)

lemma clean_comps_abs_plain: "is_abs p \<Longrightarrow> list_all plain_comp (clean_comps p)"
  using clean_comps_ok [of p] by (simp add: stack_ok_rooted list_all_iff)

text \<open>
  Walking a path that never leaves its start directory: on top of any stack it does what it
  does on its own.
\<close>

lemma clean_stack_dots_stay:
  "''..'' \<in> set st \<Longrightarrow> stack_ok False st \<Longrightarrow> (\<And>w. w \<in> set ws \<Longrightarrow> CHR ''/'' \<notin> set w)
   \<Longrightarrow> ''..'' \<in> set (clean_stack False st ws)"
proof (induction ws arbitrary: st)
  case (Cons w ws)
  have "''..'' \<in> set (clean_step False st w)"
    using Cons.prems(1,2) by (cases st) (auto simp: clean_step.simps split: if_splits)
  moreover have "stack_ok False (clean_step False st w)"
    using Cons.prems by (auto intro: clean_step_ok)
  ultimately show ?case using Cons by simp
qed simp

lemma clean_stack_on_top:
  assumes "stack_ok False st" and "\<And>w. w \<in> set ws \<Longrightarrow> CHR ''/'' \<notin> set w"
    and "''..'' \<notin> set (clean_stack False st ws)"
  shows "clean_stack r (st @ base) ws = clean_stack False st ws @ base"
  using assms
proof (induction ws arbitrary: st)
  case (Cons w ws)
  let ?st = "clean_step False st w"
  have ok: "stack_ok False ?st"
    using Cons.prems by (auto intro: clean_step_ok)
  have nd: "''..'' \<notin> set ?st"
    using clean_stack_dots_stay [OF _ ok] Cons.prems by fastforce
  have "clean_step r (st @ base) w = ?st @ base"
    using nd by (cases st) (auto simp: clean_step.simps split: if_splits)
  with Cons.IH [OF ok] Cons.prems show ?case by simp
qed simp

section \<open>Rendering\<close>

lemma plain_no_slash: "list_all plain_comp ws \<Longrightarrow> w \<in> set ws \<Longrightarrow> CHR ''/'' \<notin> set w"
  by (auto simp: list_all_iff plain_comp_def)

lemma stack_no_slash: "stack_ok r st \<Longrightarrow> w \<in> set st \<Longrightarrow> CHR ''/'' \<notin> set w \<and> w \<noteq> []"
proof (induction st)
  case (Cons v st)
  then show ?case
    by (cases "v = ''..''") (auto simp: plain_comp_def)
qed simp

lemma filter_id: "(\<And>w. w \<in> set ws \<Longrightarrow> P w) \<Longrightarrow> filter P ws = ws"
  by (induction ws) auto

lemma path_comps_join:
  assumes "\<And>w. w \<in> set ws \<Longrightarrow> CHR ''/'' \<notin> set w \<and> w \<noteq> []"
  shows "path_comps (join_with ''/'' ws) = ws"
proof (cases "ws = []")
  case False
  with assms have "split_on CHR ''/'' (join_with ''/'' ws) = ws"
    by (intro split_join) auto
  with assms show ?thesis by (simp add: path_comps_def filter_id)
qed (simp add: path_comps_def)

lemma path_comps_slash: "path_comps (CHR ''/'' # p) = path_comps p"
  by (simp add: path_comps_def)

lemma path_comps_render:
  assumes "stack_ok r (rev ws)" and "r \<or> ws \<noteq> []"
  shows "path_comps (render_path r ws) = ws"
  using assms stack_no_slash [OF assms(1)] path_comps_join [of ws]
  by (auto simp: render_path_def path_comps_slash)

lemma path_comps_clean_abs: "is_abs p \<Longrightarrow> path_comps (path_clean p) = clean_comps p"
  using clean_comps_ok [of p]
  by (auto simp: path_clean_def is_abs_def split: list.splits intro!: path_comps_render)

lemma join_with_Cons: "ws \<noteq> [] \<Longrightarrow> join_with d (w # ws) = w @ d @ join_with d ws"
  by (cases ws) auto

lemma join_with_append:
  "us \<noteq> [] \<Longrightarrow> ws \<noteq> [] \<Longrightarrow> join_with d (us @ ws) = join_with d us @ d @ join_with d ws"
proof (induction us)
  case (Cons u us)
  then show ?case by (cases "us = []") (auto simp: join_with_Cons)
qed simp

lemma is_abs_clean: "is_abs p \<Longrightarrow> is_abs (path_clean p)"
  by (auto simp: path_clean_def render_path_def is_abs_def)

section \<open>Staying inside a directory\<close>

lemma split_on_at_sep: "split_on d (s @ d # t) = split_on d s @ split_on d t"
  by (induction s) (auto split: list.splits)

text \<open>
  A path that, on its own, cleans to one with no \<open>..\<close> only descends: joined to an absolute
  directory, it names something below that directory.
\<close>

lemma clean_comps_join:
  assumes "is_abs root" and "''..'' \<notin> set (clean_stack False [] (split_on CHR ''/'' p))"
  shows "clean_comps (root @ CHR ''/'' # p)
           = clean_comps root @ rev (clean_stack False [] (split_on CHR ''/'' p))"
proof -
  have "is_abs (root @ CHR ''/'' # p)"
    using assms(1) by (auto simp: is_abs_def split: list.splits)
  moreover have "clean_stack True ([] @ st) (split_on CHR ''/'' p)
      = clean_stack False [] (split_on CHR ''/'' p) @ st" for st
    using assms(2) split_slash_comps by (intro clean_stack_on_top) auto
  ultimately show ?thesis
    using assms(1) by (simp add: clean_comps_def split_on_at_sep clean_stack_append)
qed

lemma rel_stack_plain:
  assumes "''..'' \<notin> set (clean_stack False [] (split_on CHR ''/'' p))"
  shows "list_all plain_comp (clean_stack False [] (split_on CHR ''/'' p))"
proof (cases "clean_stack False [] (split_on CHR ''/'' p) = []")
  case False
  have "stack_ok False (clean_stack False [] (split_on CHR ''/'' p))"
    using split_slash_comps by (intro clean_stack_ok) auto
  then show ?thesis using stack_ok_last False assms last_in_set by metis
qed simp

lemma path_join_two: "root \<noteq> [] \<Longrightarrow> path_join [root, p] = path_clean (root @ CHR ''/'' # p)"
  by (simp add: path_join_def)

lemma join_inside:
  assumes "is_abs root" and "''..'' \<notin> set (clean_stack False [] (split_on CHR ''/'' p))"
  shows "inside (path_clean root) (path_join [root, p])"
proof -
  have ne: "root \<noteq> []" using assms(1) by (auto simp: is_abs_def)
  have "is_abs (root @ CHR ''/'' # p)"
    using assms(1) by (auto simp: is_abs_def split: list.splits)
  then have "path_comps (path_join [root, p]) = clean_comps (root @ CHR ''/'' # p)"
    using ne by (simp add: path_join_two path_comps_clean_abs)
  then show ?thesis
    using assms clean_comps_join [OF assms] rel_stack_plain [OF assms(2)]
    by (auto simp: inside_def path_comps_clean_abs list_all_iff)
qed

text \<open>The string test \<open>HasPrefix(target + "/", dir + "/")\<close> on two cleaned absolute paths.\<close>

lemma join_slash_split:
  assumes "list_all plain_comp ws" and "ws \<noteq> []"
  shows "split_on CHR ''/'' (join_with ''/'' ws @ CHR ''/'' # u) = ws @ split_on CHR ''/'' u"
proof -
  have "split_on CHR ''/'' (join_with ''/'' ws) = ws"
    using assms plain_no_slash by (intro split_join) blast+
  then show ?thesis by (simp add: split_on_at_sep)
qed

lemma prefix_inside:
  assumes r: "list_all plain_comp rs" and t: "list_all plain_comp ts"
    and p: "has_prefix (render_path True ts @ ''/'') (render_path True rs @ ''/'')"
  shows "\<exists>ws. ts = rs @ ws"
proof (cases "rs = []")
  case False
  obtain u where u: "join_with ''/'' ts @ ''/'' = join_with ''/'' rs @ ''/'' @ u"
    using p unfolding has_prefix_iff render_path_def by auto
  have "ts \<noteq> []"
  proof
    assume "ts = []"
    with u have "join_with ''/'' rs = []" by (cases "join_with ''/'' rs") auto
    then have "rs = []" using join_slash_split [OF r False, of "[]"] r
      by (cases rs) (auto simp: plain_comp_def split: list.splits)
    with False show False by simp
  qed
  have "ts @ [[]] = rs @ split_on CHR ''/'' u"
    using join_slash_split [OF t \<open>ts \<noteq> []\<close>, of "[]"] join_slash_split [OF r False, of u] u by simp
  then have "ts = rs @ butlast (split_on CHR ''/'' u)"
    by (metis butlast_append butlast_snoc split_on_not_Nil)
  then show ?thesis by blast
qed simp

lemma clean_prefix_inside:
  assumes "is_abs root" and "is_abs p"
    and "has_prefix (path_clean p @ ''/'') (path_clean root @ ''/'')"
  shows "inside (path_clean root) (path_clean p)"
proof -
  have c: "path_clean q = render_path True (clean_comps q)" if "is_abs q" for q
    using that by (auto simp: path_clean_def is_abs_def)
  have pl: "list_all plain_comp (clean_comps root)" "list_all plain_comp (clean_comps p)"
    using assms(1,2) by (simp_all add: clean_comps_abs_plain)
  obtain ws where "clean_comps p = clean_comps root @ ws"
    using prefix_inside [OF pl] assms c by auto
  then show ?thesis using assms(1,2) pl
    by (auto simp: inside_def path_comps_clean_abs)
qed

text \<open>A cleaned path that is safe by its first component.\<close>

lemma rel_first_not_dots:
  assumes "\<not> is_abs p" and "path_clean p \<noteq> ''..''" and "\<not> has_prefix (path_clean p) ''../''"
  shows "''..'' \<notin> set (clean_stack False [] (split_on CHR ''/'' p))"
proof (cases "clean_comps p = []")
  case True
  then show ?thesis using assms(1) by (simp add: clean_comps_def)
next
  case False
  let ?ws = "clean_comps p"
  have ws: "?ws = rev (clean_stack False [] (split_on CHR ''/'' p))"
    using assms(1) by (simp add: clean_comps_def)
  have pc: "path_clean p = join_with ''/'' ?ws"
    using assms(1) False by (auto simp: path_clean_def render_path_def clean_comps_def clean_step.simps)
  have "hd ?ws \<noteq> ''..''"
  proof
    assume h: "hd ?ws = ''..''"
    show False
    proof (cases "tl ?ws = []")
      case True
      then have "?ws = [''..'']" using h False by (metis list.collapse)
      then show False using pc assms(2) by simp
    next
      case False
      then have "path_clean p = ''..'' @ ''/'' @ join_with ''/'' (tl ?ws)"
        using pc h join_with_Cons by (metis list.collapse list.sel(2))
      then show False using assms(3) by (simp add: has_prefix_def)
    qed
  qed
  moreover have "stack_ok False (clean_stack False [] (split_on CHR ''/'' p))"
    using clean_comps_ok [of p] assms(1) ws by simp
  ultimately have "list_all plain_comp (clean_stack False [] (split_on CHR ''/'' p))"
    using stack_ok_last False ws by (metis hd_rev rev_is_Nil_conv)
  then show ?thesis by (auto simp: list_all_iff plain_comp_def)
qed

lemma path_clean_plain:
  assumes pl: "list_all plain_comp ws"
  shows "path_clean (CHR ''/'' # join_with ''/'' ws) = CHR ''/'' # join_with ''/'' ws"
proof -
  have stk: "clean_stack True st ws = rev ws @ st" if "list_all plain_comp ws" for st ws
    using that by (induction ws arbitrary: st) (auto simp: clean_step.simps plain_comp_def)
  have "split_on CHR ''/'' (CHR ''/'' # join_with ''/'' ws) = [] # (if ws = [] then [[]] else ws)"
    using plain_no_slash [OF pl] by (simp add: split_join)
  then have "clean_comps (CHR ''/'' # join_with ''/'' ws) = ws"
    using pl stk [OF pl] by (auto simp: clean_comps_def is_abs_def clean_step.simps)
  then show ?thesis by (simp add: path_clean_def is_abs_def render_path_def)
qed

lemma path_clean_abs: "is_abs p \<Longrightarrow> path_clean p = CHR ''/'' # join_with ''/'' (clean_comps p)"
  by (auto simp: path_clean_def is_abs_def render_path_def)

lemma path_clean_idem_abs:
  assumes "is_abs p"
  shows "path_clean (path_clean p) = path_clean p"
  by (simp only: path_clean_abs [OF assms] path_clean_plain [OF clean_comps_abs_plain [OF assms]])

text \<open>A name put behind the last component of a clean path.\<close>

lemma path_clean_suffix:
  assumes "is_abs p" and "path_clean p = p" and u: "CHR ''/'' \<notin> set u" "length u > 2"
  shows "path_clean (p @ u) = p @ u"
proof -
  let ?ws = "clean_comps p"
  have p: "p = CHR ''/'' # join_with ''/'' ?ws" and pl: "list_all plain_comp ?ws"
    using path_clean_abs [OF assms(1)] assms(2) clean_comps_abs_plain [OF assms(1)] by simp_all
  have long: "plain_comp (x @ u)" if "CHR ''/'' \<notin> set x" for x
  proof -
    have "length (x @ u) > 2" using u by simp
    then have "x @ u \<noteq> ''.''" "x @ u \<noteq> ''..''" "x @ u \<noteq> []" by (fastforce simp del: length_append)+
    then show ?thesis using that u by (simp add: plain_comp_def)
  qed
  show ?thesis
  proof (cases ?ws rule: rev_cases)
    case Nil
    then show ?thesis using path_clean_plain [of "[u]"] long [of "[]"] p by simp
  next
    case (snoc vs x)
    have "p @ u = CHR ''/'' # join_with ''/'' (vs @ [x @ u])"
      using p snoc by (cases "vs = []") (simp_all add: join_with_append)
    moreover have "list_all plain_comp (vs @ [x @ u])"
      using pl snoc long [of x] by (simp add: plain_comp_def)
    ultimately show ?thesis using path_clean_plain by simp
  qed
qed

lemma path_join_abs: "is_abs root \<Longrightarrow> is_abs (path_join (root # ps))"
  by (cases root; cases ps) (auto simp: path_join_def is_abs_def intro: is_abs_clean [unfolded is_abs_def]
      simp: path_clean_def render_path_def)

lemma path_join_clean: "is_abs root \<Longrightarrow> path_clean (path_join (root # ps)) = path_join (root # ps)"
proof -
  assume r: "is_abs root"
  then have "root \<noteq> []" by (auto simp: is_abs_def)
  then have "path_join (root # ps) = path_clean (join_with ''/'' (root # ps))"
    by (simp add: path_join_def)
  moreover have "is_abs (join_with ''/'' (root # ps))"
    using r by (cases root; cases ps) (auto simp: is_abs_def)
  ultimately show ?thesis by (simp add: path_clean_idem_abs)
qed

end
