(* ===== verification/Manifest.thy ===== *)
theory Manifest
  imports GoPath Egress
begin

text \<open>
  The module manifest and its checks (\<open>modules/installer.go\<close>, \<open>crud.go\<close>, \<open>migrations.go\<close>,
  \<open>jobs.go\<close>, \<open>router.go\<close>): \<open>validateManifestTier\<close>, the relative-path and module-name rules, and
  the paths and Postgres identifiers the core derives from an accepted manifest.
\<close>

section \<open>Data\<close>

record ManifestJob =
  Job_Name :: string
  Job_Schedule :: string
  Job_Handler :: string
  Job_CatchUp :: bool

record ManifestCrudField =
  Field_Name :: string
  Field_Type :: string
  Field_Required :: bool
  Field_Encrypted :: bool

record ManifestCrud =
  Crud_Table :: string
  Crud_Fields :: "ManifestCrudField list"
  Crud_OwnerScoped :: bool

record Manifest =
  Mf_Name :: string
  Mf_Version :: string
  Mf_Tier :: int
  Mf_Handler :: string
  Mf_EgressAllowlist :: "string list"
  Mf_Jobs :: "ManifestJob list"
  Mf_TLSSkipVerify :: bool
  Mf_DynamicEgress :: bool
  Mf_EgressHostsHandler :: string
  Mf_DynamicEgressAllow :: "string list"
  Mf_Crud :: "ManifestCrud option"

section \<open>Names and paths\<close>

definition is_lower_alnum :: "char \<Rightarrow> bool" where
  "is_lower_alnum c \<longleftrightarrow> is_lower c \<or> is_digit c"

text \<open>\<open>^[a-z0-9][a-z0-9-]{0,63}$\<close>\<close>

definition moduleNameRe :: "string \<Rightarrow> bool" where
  "moduleNameRe s \<longleftrightarrow>
     (case s of
        [] \<Rightarrow> False
      | c # t \<Rightarrow> is_lower_alnum c \<and> length t \<le> 63 \<and> list_all (\<lambda>d. is_lower_alnum d \<or> d = CHR ''-'') t)"

text \<open>\<open>^[a-z][a-z0-9_]*$\<close>\<close>

definition crudIdentRe :: "string \<Rightarrow> bool" where
  "crudIdentRe s \<longleftrightarrow>
     (case s of
        [] \<Rightarrow> False
      | c # t \<Rightarrow> is_lower c \<and> list_all (\<lambda>d. is_lower_alnum d \<or> d = CHR ''_'') t)"

definition validateSafeRelativePath :: "string \<Rightarrow> unit res" where
  "validateSafeRelativePath p =
     (if p = [] then Inr ()
      else if is_abs p \<or> contains p [char_of (92 :: nat)]
      then Inl (ErrInvalid ''must be a relative path'')
      else
        let cleaned = path_clean p in
        if cleaned = ''..'' \<or> has_prefix cleaned ''../'' \<or> has_prefix cleaned ''/''
        then Inl (ErrInvalid ''escapes the module directory'')
        else Inr ())"

text \<open>\<open>validModuleNamePathSegment\<close> (\<open>router.go\<close>): the check on a \<open>{name}\<close> taken from a URL.\<close>

definition validModuleNamePathSegment :: "string \<Rightarrow> bool" where
  "validModuleNamePathSegment s \<longleftrightarrow>
     (if s = [] then False
      else list_all (\<lambda>c. is_lower c \<or> is_upper c \<or> is_digit c \<or> c = CHR ''-'' \<or> c = CHR ''_'') s)"

text \<open>\<open>moduleIdentifiers\<close>: the Postgres schema and role of a module.\<close>

definition safe_ident :: "string \<Rightarrow> string" where
  "safe_ident s =
     map (\<lambda>c. if is_lower_alnum c \<or> c = CHR ''_'' then c else CHR ''_'') (to_lower s)"

definition moduleIdentifiers :: "string \<Rightarrow> (string \<times> string) res" where
  "moduleIdentifiers moduleName =
     (if moduleName = [] then Inl (ErrInvalid ''empty module name'')
      else
        let safe = safe_ident moduleName in
        if safe = [] \<or> is_digit (hd safe) then Inl (ErrInvalid ''invalid identifier'')
        else Inr (''module_'' @ safe, ''module_'' @ safe @ ''_role''))"

section \<open>The manifest checks\<close>

definition crudFieldTypeInfo :: "string \<Rightarrow> string list option" where
  "crudFieldTypeInfo = map_of
     [(''string'', [''text'', ''character varying'']), (''text'', [''text'']),
      (''integer'', [''integer'', ''bigint'', ''smallint'']),
      (''float'', [''real'', ''double precision'', ''numeric'']),
      (''boolean'', [''boolean'']), (''date'', [''date'']),
      (''datetime'', [''timestamp without time zone'', ''timestamp with time zone'']),
      (''uuid'', [''uuid''])]"

definition implicitCrudColumnNames :: "string list" where
  "implicitCrudColumnNames = [''id'', ''created_at'', ''updated_at'', ''created_by'']"

fun check_fields :: "string list \<Rightarrow> ManifestCrudField list \<Rightarrow> unit res" where
  "check_fields seen [] = Inr ()"
| "check_fields seen (f # fs) =
     (if \<not> crudIdentRe (Field_Name f) then Inl (ErrInvalid ''field name'')
      else if Field_Name f \<in> set seen then Inl (ErrInvalid ''declared more than once'')
      else if crudFieldTypeInfo (Field_Type f) = None then Inl (ErrInvalid ''unknown type'')
      else if Field_Encrypted f \<and> Field_Type f \<noteq> ''string'' \<and> Field_Type f \<noteq> ''text''
      then Inl (ErrInvalid ''encrypted'')
      else check_fields (Field_Name f # seen) fs)"

definition validateCrudFields :: "ManifestCrud \<Rightarrow> unit res" where
  "validateCrudFields crud =
     (if \<not> crudIdentRe (Crud_Table crud) then Inl (ErrInvalid ''crud.table'')
      else check_fields implicitCrudColumnNames (Crud_Fields crud))"

fun check_all :: "('a \<Rightarrow> unit res) \<Rightarrow> 'a list \<Rightarrow> unit res" where
  "check_all f [] = Inr ()"
| "check_all f (x # xs) = (case f x of Inl e \<Rightarrow> Inl e | Inr _ \<Rightarrow> check_all f xs)"

definition validateManifestTier :: "Manifest \<Rightarrow> unit res" where
  "validateManifestTier mf =
     (if \<not> moduleNameRe (Mf_Name mf) then Inl (ErrInvalid ''invalid module name'')
      else res_bind (validateSafeRelativePath (Mf_Handler mf)) (\<lambda>_.
      res_bind (validateSafeRelativePath (Mf_EgressHostsHandler mf)) (\<lambda>_.
      res_bind (check_all (\<lambda>j. validateSafeRelativePath (Job_Handler j)) (Mf_Jobs mf)) (\<lambda>_.
      if Mf_Tier mf < 1 \<or> Mf_Tier mf > 3 then Inl (ErrInvalid ''invalid tier'')
      else if Mf_Tier mf = 1 \<and> (Mf_Handler mf \<noteq> [] \<or> Mf_Jobs mf \<noteq> [] \<or> Mf_EgressAllowlist mf \<noteq> [])
      then Inl (ErrInvalid ''tier 1 must not declare handler/jobs/egress_allowlist'')
      else if Mf_Tier mf = 1 \<and> (case Mf_Crud mf of None \<Rightarrow> True
               | Some c \<Rightarrow> Crud_Table c = [] \<or> Crud_Fields c = [])
      then Inl (ErrInvalid ''tier 1 requires a crud block'')
      else res_bind (if Mf_Tier mf = 1
                     then (case Mf_Crud mf of None \<Rightarrow> Inr () | Some c \<Rightarrow> validateCrudFields c)
                     else Inr ()) (\<lambda>_.
      if Mf_Tier mf \<ge> 2 \<and> Mf_Crud mf \<noteq> None then Inl (ErrInvalid ''crud is tier 1 only'')
      else if Mf_Tier mf \<ge> 2 \<and> Mf_Handler mf = [] then Inl (ErrInvalid ''requires a handler'')
      else if Mf_Tier mf = 2 \<and> Mf_EgressAllowlist mf \<noteq> []
      then Inl (ErrInvalid ''tier 2 must not declare egress_allowlist'')
      else if Mf_TLSSkipVerify mf \<and> Mf_EgressAllowlist mf = []
              \<and> (\<not> Mf_DynamicEgress mf \<or> Mf_EgressHostsHandler mf = [])
      then Inl (ErrInvalid ''tls_skip_verify'')
      else res_bind (check_all validateEgressPolicyPattern (Mf_DynamicEgressAllow mf)) (\<lambda>_.
      if Mf_DynamicEgressAllow mf \<noteq> [] \<and> \<not> Mf_DynamicEgress mf
      then Inl (ErrInvalid ''dynamic_egress_allow requires dynamic_egress'')
      else Inr ()))))))"

text \<open>
  \<open>parseManifest\<close> after YAML decoding, which is a parameter: \<open>None\<close> when reading or decoding fails.
\<close>

definition parseManifest :: "Manifest option \<Rightarrow> Manifest res" where
  "parseManifest decoded =
     (case decoded of
        None \<Rightarrow> Inl ErrDecode
      | Some mf \<Rightarrow>
          if Mf_Name mf = [] \<or> Mf_Version mf = []
          then Inl (ErrInvalid ''name and version are required'') else Inr mf)"

section \<open>What is derived from an accepted manifest\<close>

definition egressHostsJobName :: string where
  "egressHostsJobName = ''__compute_egress_hosts__''"

text \<open>
  \<open>ResolveJobEntrypoints\<close>: the job name to absolute path map, a later entry of the same name
  winning; \<open>nil\<close> when it is empty, which reads the same as the empty map.
\<close>

definition ResolveJobEntrypoints ::
  "string \<Rightarrow> ManifestJob list \<Rightarrow> string \<Rightarrow> (string \<rightharpoonup> string)" where
  "ResolveJobEntrypoints destDir jobs egressHostsHandler =
     (let out = foldl (\<lambda>m j. if Job_Name j = [] \<or> Job_Handler j = [] then m
                             else m(Job_Name j \<mapsto> path_join [destDir, Job_Handler j]))
                  Map.empty jobs
      in if egressHostsHandler \<noteq> []
         then out(egressHostsJobName \<mapsto> path_join [destDir, egressHostsHandler]) else out)"

text \<open>
  The path part of \<open>ModuleStorageHandler\<close> (\<open>router.go\<close>): the file a request for \<open>path\<close> of
  module \<open>name\<close> is served from, or the status it is refused with.
\<close>

definition storage_target :: "string \<Rightarrow> string \<Rightarrow> string \<Rightarrow> nat + string" where
  "storage_target dataDir name path =
     (if \<not> validModuleNamePathSegment name then Inl 400
      else
        let storageRoot = path_join [dataDir, name, ''storage''];
            absPath = path_clean (path_join [storageRoot, path]) in
        if \<not> has_prefix absPath (storageRoot @ ''/'') then Inl 403 else Inr absPath)"

text \<open>
  The name part of \<open>saveUploadedFile\<close>: where an upload is written, from the caller's file name
  and the hex text of 16 random bytes.
\<close>

definition upload_target :: "string \<Rightarrow> string \<Rightarrow> string \<Rightarrow> string \<Rightarrow> string res" where
  "upload_target dataDir moduleName filename randHex =
     (let safeName = path_base filename in
      if safeName = ''.'' \<or> safeName = ''..'' \<or> safeName = ''/'' then Inl (ErrInvalid ''invalid filename'')
      else Inr (path_join [path_join [dataDir, moduleName, ''storage'', ''uploads''],
                           randHex @ ''-'' @ safeName]))"

section \<open>Lemmas\<close>

lemma check_all_ok: "check_all f xs = Inr u \<longleftrightarrow> (\<forall>x \<in> set xs. \<exists>v. f x = Inr v)"
  by (induction xs) (auto split: sum.splits)

lemma safe_path_stays:
  assumes "validateSafeRelativePath p = Inr ()"
  shows "''..'' \<notin> set (clean_stack False [] (split_on CHR ''/'' p))"
proof (cases "p = []")
  case True
  then show ?thesis by (simp add: clean_step.simps)
next
  case False
  with assms have "\<not> is_abs p" "path_clean p \<noteq> ''..''" "\<not> has_prefix (path_clean p) ''../''"
    by (auto simp: validateSafeRelativePath_def Let_def split: if_splits)
  then show ?thesis by (rule rel_first_not_dots)
qed

lemma safe_path_inside:
  assumes "is_abs root" and "validateSafeRelativePath p = Inr ()"
  shows "inside (path_clean root) (path_join [root, p])"
  using assms(1) safe_path_stays [OF assms(2)] by (rule join_inside)

lemma tier_accepts:
  assumes "validateManifestTier mf = Inr ()"
  shows "moduleNameRe (Mf_Name mf)"
    and "validateSafeRelativePath (Mf_Handler mf) = Inr ()"
    and "validateSafeRelativePath (Mf_EgressHostsHandler mf) = Inr ()"
    and "j \<in> set (Mf_Jobs mf) \<Longrightarrow> validateSafeRelativePath (Job_Handler j) = Inr ()"
    and "1 \<le> Mf_Tier mf \<and> Mf_Tier mf \<le> 3"
    and "p \<in> set (Mf_DynamicEgressAllow mf) \<Longrightarrow> validateEgressPolicyPattern p = Inr ()"
    and "Mf_Crud mf \<noteq> None \<longleftrightarrow> Mf_Tier mf = 1"
    and "Mf_Handler mf \<noteq> [] \<longleftrightarrow> Mf_Tier mf \<noteq> 1"
    and "Mf_EgressAllowlist mf \<noteq> [] \<Longrightarrow> Mf_Tier mf = 3"
    and "Mf_DynamicEgressAllow mf \<noteq> [] \<Longrightarrow> Mf_DynamicEgress mf"
proof -
  note acc = assms [unfolded validateManifestTier_def]
  have u: "r = Inr ()" if "r = Inr v" for r :: "unit res" and v using that by simp
  show "moduleNameRe (Mf_Name mf)" using acc by (simp split: if_splits)
  show "validateSafeRelativePath (Mf_Handler mf) = Inr ()"
    and "validateSafeRelativePath (Mf_EgressHostsHandler mf) = Inr ()"
    and "j \<in> set (Mf_Jobs mf) \<Longrightarrow> validateSafeRelativePath (Job_Handler j) = Inr ()"
    and "p \<in> set (Mf_DynamicEgressAllow mf) \<Longrightarrow> validateEgressPolicyPattern p = Inr ()"
    using acc by (auto simp: res_bind_Inr_iff check_all_ok split: if_splits)
  show "1 \<le> Mf_Tier mf \<and> Mf_Tier mf \<le> 3"
    and "Mf_Crud mf \<noteq> None \<longleftrightarrow> Mf_Tier mf = 1"
    and "Mf_Handler mf \<noteq> [] \<longleftrightarrow> Mf_Tier mf \<noteq> 1"
    and "Mf_EgressAllowlist mf \<noteq> [] \<Longrightarrow> Mf_Tier mf = 3"
    and "Mf_DynamicEgressAllow mf \<noteq> [] \<Longrightarrow> Mf_DynamicEgress mf"
    using acc by (auto simp: res_bind_Inr_iff split: if_splits option.splits)
qed

text \<open>Only the Tier 1 fields that pass: distinct names, none of them a managed column.\<close>

lemma check_fields_ok:
  "check_fields seen fs = Inr () \<Longrightarrow>
     distinct (map Field_Name fs) \<and> set (map Field_Name fs) \<inter> set seen = {}
     \<and> (\<forall>f \<in> set fs. crudIdentRe (Field_Name f) \<and> crudFieldTypeInfo (Field_Type f) \<noteq> None
          \<and> (Field_Encrypted f \<longrightarrow> Field_Type f \<in> {''string'', ''text''}))"
proof (induction fs arbitrary: seen)
  case (Cons f fs)
  then have "check_fields (Field_Name f # seen) fs = Inr ()" by (simp split: if_splits)
  from Cons.IH [OF this] Cons.prems show ?case by (auto split: if_splits)
qed simp

section \<open>Postgres identifiers\<close>

lemma name_chars:
  "moduleNameRe s \<Longrightarrow> s \<noteq> [] \<and> length s \<le> 64 \<and> (\<forall>c \<in> set s. is_lower_alnum c \<or> c = CHR ''-'')"
  by (auto simp: moduleNameRe_def list_all_iff split: list.splits)

lemma lower_alnum_lower: "is_lower_alnum c \<Longrightarrow> lower_char c = c"
  by (auto simp: is_lower_alnum_def lower_char_def is_lower_def is_digit_def is_upper_def)

lemma alnum_marks [simp]: "\<not> is_lower_alnum CHR ''-''" "\<not> is_lower_alnum CHR ''_''"
    "lower_char CHR ''-'' = CHR ''-''" "\<not> is_lower_alnum CHR ''/''" "\<not> is_lower_alnum CHR ''.''"
  by (simp_all add: is_lower_alnum_def is_lower_def is_digit_def byte_def lower_char_def is_upper_def)

lemma safe_ident_name:
  "(\<forall>c \<in> set s. is_lower_alnum c \<or> c = CHR ''-'') \<Longrightarrow>
     safe_ident s = map (\<lambda>c. if c = CHR ''-'' then CHR ''_'' else c) s"
  by (induction s) (auto simp: safe_ident_def to_lower_def lower_alnum_lower)

lemma safe_ident_inj:
  assumes "moduleNameRe s" and "moduleNameRe t" and "safe_ident s = safe_ident t"
  shows "s = t"
proof -
  let ?f = "\<lambda>c. if c = CHR ''-'' then CHR ''_'' else c"
  have s: "\<forall>c \<in> set s. is_lower_alnum c \<or> c = CHR ''-''" and t: "\<forall>c \<in> set t. is_lower_alnum c \<or> c = CHR ''-''"
    using assms name_chars by blast+
  have "inj_on ?f (set s \<union> set t)"
    using s t by (auto simp: inj_on_def)
  moreover have "map ?f s = map ?f t"
    using assms(3) s t by (simp add: safe_ident_name)
  ultimately show ?thesis by (rule map_inj_on [rotated])
qed

lemma set_safe_ident: "c \<in> set (safe_ident s) \<Longrightarrow> is_lower_alnum c \<or> c = CHR ''_''"
  by (auto simp: safe_ident_def split: if_splits)

section \<open>Served and uploaded files\<close>

lemma segment_plain: "validModuleNamePathSegment s \<Longrightarrow> plain_comp s"
  by (auto simp: validModuleNamePathSegment_def plain_comp_def list_all_iff is_lower_def is_upper_def
      is_digit_def byte_def split: if_splits)

lemma storage_target_inside:
  assumes "is_abs dataDir" and "storage_target dataDir name path = Inr f"
  shows "inside (path_join [dataDir, name, ''storage'']) f"
proof -
  let ?root = "path_join [dataDir, name, ''storage'']"
  have r: "is_abs ?root" "path_clean ?root = ?root"
    using assms(1) by (simp_all add: path_join_abs path_join_clean)
  have a: "is_abs (path_join [?root, path])" using r(1) by (rule path_join_abs)
  have f: "f = path_clean (path_join [?root, path])" "has_prefix f (?root @ ''/'')"
    using assms(2) by (auto simp: storage_target_def Let_def split: if_splits)
  then have "has_prefix (path_clean (path_join [?root, path]) @ ''/'') (path_clean ?root @ ''/'')"
    unfolding r(2) by (auto simp: has_prefix_iff)
  then have "inside (path_clean ?root) (path_clean (path_join [?root, path]))"
    using r(1) a clean_prefix_inside by blast
  then show ?thesis using f(1) r(2) by simp
qed

text \<open>Every entry of the job map comes from a job or is the egress handler.\<close>

lemma job_fold:
  "foldl (\<lambda>m j. if Job_Name j = [] \<or> Job_Handler j = [] then m
                else m(Job_Name j \<mapsto> path_join [destDir, Job_Handler j])) m0 jobs name = Some p
   \<Longrightarrow> m0 name = Some p \<or> (\<exists>j \<in> set jobs. p = path_join [destDir, Job_Handler j])"
proof (induction jobs arbitrary: m0)
  case (Cons j jobs)
  from Cons.IH [OF Cons.prems [unfolded foldl_Cons]] show ?case
    by (auto split: if_splits)
qed simp

lemma job_paths:
  assumes "ResolveJobEntrypoints destDir jobs eh name = Some p"
  shows "(\<exists>j \<in> set jobs. p = path_join [destDir, Job_Handler j]) \<or> p = path_join [destDir, eh]"
  using assms job_fold [of destDir Map.empty jobs name p]
  by (auto simp: ResolveJobEntrypoints_def Let_def split: if_splits)

lemma tier1_fields:
  assumes "validateManifestTier mf = Inr ()" and "Mf_Crud mf = Some c"
  shows "Crud_Fields c \<noteq> [] \<and> distinct (map Field_Name (Crud_Fields c))
    \<and> set (map Field_Name (Crud_Fields c)) \<inter> set implicitCrudColumnNames = {}"
proof -
  have t: "Mf_Tier mf = 1" using tier_accepts(7) [OF assms(1)] assms(2) by simp
  then have "validateCrudFields c = Inr ()" and "Crud_Fields c \<noteq> []"
    using assms by (auto simp: validateManifestTier_def res_bind_Inr_iff split: if_splits)
  then show ?thesis
    using check_fields_ok [of implicitCrudColumnNames "Crud_Fields c"]
    by (simp add: validateCrudFields_def split: if_splits)
qed

section \<open>Properties\<close>

text \<open>
  An accepted manifest cannot point outside its own directory. The handler, every job and the
  egress handler of a manifest that passes \<open>validateManifestTier\<close> resolve, in an absolute install
  directory, to paths below that directory.
\<close>

theorem manifest_paths_inside:
  assumes "validateManifestTier mf = Inr ()" and "is_abs destDir"
  shows "inside (path_clean destDir) (path_join [destDir, Mf_Handler mf])
    \<and> (\<forall>job p. ResolveJobEntrypoints destDir (Mf_Jobs mf) (Mf_EgressHostsHandler mf) job = Some p
          \<longrightarrow> inside (path_clean destDir) p)"
proof -
  note ok = tier_accepts [OF assms(1)]
  have "inside (path_clean destDir) (path_join [destDir, p])"
    if "validateSafeRelativePath p = Inr ()" for p
    using safe_path_inside [OF assms(2) that] .
  then show ?thesis using ok(2-4) job_paths by blast
qed

definition sample_manifest :: Manifest where
  "sample_manifest =
     \<lparr>Mf_Name = ''unifi'', Mf_Version = ''v1'', Mf_Tier = 2, Mf_Handler = ''src/handler.ts'',
      Mf_EgressAllowlist = [], Mf_Jobs = [\<lparr>Job_Name = ''sync'', Job_Schedule = ''* * * * *'',
        Job_Handler = ''jobs/../sync.ts'', Job_CatchUp = False\<rparr>],
      Mf_TLSSkipVerify = False, Mf_DynamicEgress = True, Mf_EgressHostsHandler = ''hosts.ts'',
      Mf_DynamicEgressAllow = [''*''], Mf_Crud = None\<rparr>"

lemma sample_manifest_ok: "validateManifestTier sample_manifest = Inr ()"
  by code_simp

theorem manifest_paths_inside_witness:
  "inside (path_clean ''/d/unifi'') (path_join [''/d/unifi'', ''src/handler.ts''])"
  using manifest_paths_inside [OF sample_manifest_ok, of "''/d/unifi''"]
  by (simp add: is_abs_def sample_manifest_def)

text \<open>
  What a tier may declare. An accepted manifest has tier 1, 2 or 3; exactly tier 1 has a CRUD
  block, with distinct field names that are none of the managed columns; exactly tiers 2 and 3
  have a handler; only tier 3 has a static egress list.
\<close>

theorem accepted_tiers:
  assumes "validateManifestTier mf = Inr ()"
  shows "Mf_Tier mf \<in> {1, 2, 3}
    \<and> (Mf_Handler mf \<noteq> [] \<longleftrightarrow> Mf_Tier mf \<noteq> 1)
    \<and> (Mf_EgressAllowlist mf \<noteq> [] \<longrightarrow> Mf_Tier mf = 3)
    \<and> (case Mf_Crud mf of
         None \<Rightarrow> Mf_Tier mf \<noteq> 1
       | Some c \<Rightarrow> Mf_Tier mf = 1 \<and> Crud_Fields c \<noteq> [] \<and> distinct (map Field_Name (Crud_Fields c))
           \<and> set (map Field_Name (Crud_Fields c)) \<inter> set implicitCrudColumnNames = {})"
  using tier_accepts(5,7-9) [OF assms] tier1_fields [OF assms] by (auto split: option.splits)

theorem accepted_tiers_witness: "Mf_Tier sample_manifest \<in> {1, 2, 3}"
  using accepted_tiers [OF sample_manifest_ok] by blast

text \<open>
  Two modules never share a schema or a role. On names that pass the manifest check, the
  schema and the role name determine the module name.
\<close>

theorem identifiers_injective:
  assumes "moduleNameRe m" and "moduleNameRe n"
    and "moduleIdentifiers m = Inr (schema, role)" and "moduleIdentifiers n = Inr (schema', role')"
    and "schema = schema' \<or> role = role'"
  shows "m = n"
  using assms safe_ident_inj [OF assms(1,2)]
  by (auto simp: moduleIdentifiers_def Let_def split: if_splits)

theorem identifiers_injective_witness:
  "''a-b'' = ''a-b''"
  by (rule identifiers_injective [of _ _ "''module_a_b''" "''module_a_b_role''" "''module_a_b''" "''module_a_b_role''"])
    code_simp+

text \<open>
  The identifiers are longer than Postgres keeps. There are two different accepted module
  names whose schema names agree in their first 63 bytes, the length Postgres truncates an
  identifier to: the separation of the previous property is lost in the database.
\<close>

theorem identifiers_truncate:
  "\<exists>m n s r s' r'. m \<noteq> n \<and> moduleNameRe m \<and> moduleNameRe n
     \<and> moduleIdentifiers m = Inr (s, r) \<and> moduleIdentifiers n = Inr (s', r')
     \<and> take 63 s = take 63 s' \<and> take 63 r = take 63 r'"
proof -
  let ?m = "replicate 60 CHR ''a'' @ ''x''" and ?n = "replicate 60 CHR ''a'' @ ''y''"
  have "?m \<noteq> ?n \<and> moduleNameRe ?m \<and> moduleNameRe ?n" by code_simp
  moreover have "moduleIdentifiers ?m = Inr (''module_'' @ ?m, ''module_'' @ ?m @ ''_role'')"
    "moduleIdentifiers ?n = Inr (''module_'' @ ?n, ''module_'' @ ?n @ ''_role'')" by code_simp+
  moreover have "take 63 (''module_'' @ ?m) = take 63 (''module_'' @ ?n)"
    "take 63 (''module_'' @ ?m @ ''_role'') = take 63 (''module_'' @ ?n @ ''_role'')" by code_simp+
  ultimately show ?thesis by blast
qed

text \<open>
  A served file is in the storage directory of the module named in the request, whatever the
  path in the URL: anything else is refused with 400 or 403.
\<close>

theorem storage_serves_inside:
  assumes "is_abs dataDir" and "storage_target dataDir name path = Inr f"
  shows "inside (path_join [dataDir, name, ''storage'']) f \<and> plain_comp name"
  using storage_target_inside [OF assms] assms(2) segment_plain
  by (auto simp: storage_target_def split: if_splits)

theorem storage_serves_inside_witness:
  "inside (path_join [''/d'', ''m'', ''storage'']) ''/d/m/storage/uploads/x'' \<and> plain_comp ''m''"
  by (rule storage_serves_inside [of "''/d''" _ "''a/../uploads//x''"]) code_simp+

end
