(* ===== verification/Archive.thy ===== *)
theory Archive
  imports GoPath
begin

text \<open>
  Unpacking a module ZIP (\<open>modules/installer.go\<close>: \<open>extractZIP\<close>, \<open>extractZIPEntry\<close>) and reading a
  download up to a limit (\<open>downloadFile\<close>). An archive entry is its name, whether it is a
  directory, and the byte stream the decompressor delivers, which may end in an error. The file
  system is the list of directories made and the list of files written, latest last; whether an
  \<open>os\<close> call succeeds is a parameter. Sizes are \<open>int64\<close> and \<open>maxBytes+1\<close> wraps around as it does
  in Go.
\<close>

section \<open>Limits\<close>

text \<open>
  What \<open>io.Copy(dst, io.LimitReader(src, n))\<close> writes, and whether it ends without error: a
  non-positive limit is an immediate end of file; a failing source is seen only when the limit
  does not stop the copy before.
\<close>

record stream =
  st_bytes :: string
  st_ok :: bool

definition limited_copy :: "stream \<Rightarrow> int \<Rightarrow> string \<times> bool" where
  "limited_copy src n =
     (if n \<le> 0 then ([], True)
      else if int (length (st_bytes src)) < n then (st_bytes src, st_ok src)
      else (take (nat n) (st_bytes src), True))"

section \<open>Extraction\<close>

record zip_entry =
  z_name :: string
  z_dir :: bool
  z_stream :: stream
  z_open :: bool                    \<comment> \<open>\<open>f.Open()\<close> succeeds\<close>

record out_fs =
  out_dirs :: "string list"
  out_files :: "(string \<times> string) list"

definition write_file :: "string \<Rightarrow> string \<Rightarrow> out_fs \<Rightarrow> out_fs" where
  "write_file f bytes fs = fs\<lparr>out_files := out_files fs @ [(f, bytes)]\<rparr>"

definition mkdir_all :: "string \<Rightarrow> out_fs \<Rightarrow> out_fs" where
  "mkdir_all d fs = fs\<lparr>out_dirs := out_dirs fs @ [d]\<rparr>"

text \<open>
  \<open>extractZIPEntry\<close>: the bytes written (the \<open>int64\<close> result) or an error; what was written stays.
  The \<open>os\<close> parameter says whether creating the file succeeds.
\<close>

definition extractZIPEntry ::
  "(string \<Rightarrow> bool) \<Rightarrow> zip_entry \<Rightarrow> string \<Rightarrow> int \<Rightarrow> out_fs \<Rightarrow> int res \<times> out_fs" where
  "extractZIPEntry os f target maxBytes fs =
     (if \<not> z_open f then (Inl ErrExternal, fs)
      else if \<not> os target then (Inl ErrExternal, fs)
      else if maxBytes < 0 then
        (if st_ok (z_stream f) then Inr (int (length (st_bytes (z_stream f)))) else Inl ErrExternal,
         write_file target (st_bytes (z_stream f)) fs)
      else
        let (bytes, ok) = limited_copy (z_stream f) (wrap64 (maxBytes + 1));
            written = int (length bytes) in
        (if \<not> ok then Inl ErrExternal
         else if written > maxBytes then Inl (ErrInvalid ''exceeds remaining size budget'')
         else Inr written,
         write_file target bytes fs))"

definition entry_target :: "string \<Rightarrow> zip_entry \<Rightarrow> string" where
  "entry_target destDir f = path_join [destDir, z_name f]"

definition slip_ok :: "string \<Rightarrow> string \<Rightarrow> bool" where
  "slip_ok destDir target = has_prefix (target @ ''/'') (destDir @ ''/'')"

fun extract_entries ::
  "(string \<Rightarrow> bool) \<Rightarrow> string \<Rightarrow> int \<Rightarrow> int \<Rightarrow> zip_entry list \<Rightarrow> out_fs \<Rightarrow> unit res \<times> out_fs" where
  "extract_entries os destDir maxTotal sofar [] fs = (Inr (), fs)"
| "extract_entries os destDir maxTotal sofar (f # entries) fs =
     (let target = entry_target destDir f in
      if \<not> slip_ok destDir target then (Inl (ErrInvalid ''zip-slip rejected''), fs)
      else if z_dir f then
        (if \<not> os target then (Inl ErrExternal, fs)
         else extract_entries os destDir maxTotal sofar entries (mkdir_all target fs))
      else if \<not> os (path_dir target) then (Inl ErrExternal, fs)
      else
        let fs1 = mkdir_all (path_dir target) fs;
            remaining = (if maxTotal > 0 then (if wrap64 (maxTotal - sofar) < 0 then 0
                                               else wrap64 (maxTotal - sofar))
                         else - 1);
            (r, fs2) = extractZIPEntry os f target remaining fs1 in
        (case r of
           Inl e \<Rightarrow> (Inl e, fs2)
         | Inr written \<Rightarrow>
             let sofar' = wrap64 (sofar + written) in
             if maxTotal > 0 \<and> sofar' > maxTotal
             then (Inl (ErrInvalid ''extracted size exceeds the limit''), fs2)
             else extract_entries os destDir maxTotal sofar' entries fs2))"

text \<open>\<open>None\<close> for the archive: \<open>zip.OpenReader\<close> failed.\<close>

definition extractZIP ::
  "(string \<Rightarrow> bool) \<Rightarrow> zip_entry list option \<Rightarrow> string \<Rightarrow> int \<Rightarrow> out_fs \<Rightarrow> unit res \<times> out_fs" where
  "extractZIP os archive destDir maxTotalBytes fs =
     (case archive of
        None \<Rightarrow> (Inl ErrExternal, fs)
      | Some entries \<Rightarrow> extract_entries os (path_clean destDir) maxTotalBytes 0 entries fs)"

text \<open>
  The copy at the end of \<open>downloadFile\<close>: the file's content, or the error that the response is
  longer than \<open>maxBytes\<close>.
\<close>

definition download_copy :: "stream \<Rightarrow> int \<Rightarrow> string res" where
  "download_copy body maxBytes =
     (let (bytes, ok) = limited_copy body (wrap64 (maxBytes + 1)) in
      if \<not> ok then Inl ErrExternal
      else if int (length bytes) > maxBytes then Inl (ErrInvalid ''exceeds byte limit'')
      else Inr bytes)"

text \<open>
  \<open>MaxModuleZIPBytes\<close>: the setting as stored, read with \<open>strconv.ParseInt\<close>; 100 MB when it is
  unset, unreadable or negative. \<open>0\<close> means no limit.
\<close>

definition defaultMaxModuleZIPBytes :: int where "defaultMaxModuleZIPBytes = 104857600"

definition MaxModuleZIPBytes :: "string option res \<Rightarrow> int" where
  "MaxModuleZIPBytes setting =
     (case setting of
        Inl _ \<Rightarrow> defaultMaxModuleZIPBytes
      | Inr None \<Rightarrow> defaultMaxModuleZIPBytes
      | Inr (Some val) \<Rightarrow>
          if val = [] then defaultMaxModuleZIPBytes
          else (case atoi val of
                  None \<Rightarrow> defaultMaxModuleZIPBytes
                | Some n \<Rightarrow> if n < 0 then defaultMaxModuleZIPBytes else n))"

section \<open>Lemmas\<close>

lemma limited_copy_length: "int (length (fst (limited_copy src n))) \<le> max 0 n"
  by (auto simp: limited_copy_def)

lemma extractZIPEntry_files:
  assumes "extractZIPEntry os f target maxBytes fs = (r, fs')"
  shows "out_dirs fs' = out_dirs fs
    \<and> (out_files fs' = out_files fs \<or> (\<exists>b. out_files fs' = out_files fs @ [(target, b)]
          \<and> (0 \<le> maxBytes \<and> maxBytes < max_int64 \<longrightarrow> int (length b) \<le> maxBytes + 1)
          \<and> (\<forall>n. r = Inr n \<longrightarrow> n = int (length b))))"
    and "r = Inr n \<Longrightarrow> 0 \<le> maxBytes \<Longrightarrow> n \<le> maxBytes"
    and "r = Inr n \<Longrightarrow> \<exists>b. out_files fs' = out_files fs @ [(target, b)] \<and> n = int (length b)"
proof -
  have w: "wrap64 (maxBytes + 1) = maxBytes + 1" if "0 \<le> maxBytes" "maxBytes < max_int64"
    using that by (intro wrap64_id) (auto simp: min_int64_def max_int64_def)
  show "out_dirs fs' = out_dirs fs
    \<and> (out_files fs' = out_files fs \<or> (\<exists>b. out_files fs' = out_files fs @ [(target, b)]
          \<and> (0 \<le> maxBytes \<and> maxBytes < max_int64 \<longrightarrow> int (length b) \<le> maxBytes + 1)
          \<and> (\<forall>n. r = Inr n \<longrightarrow> n = int (length b))))"
    using assms w limited_copy_length [of "z_stream f" "maxBytes + 1"]
    by (auto simp: extractZIPEntry_def write_file_def Let_def split: if_splits prod.splits)
  show "r = Inr n \<Longrightarrow> 0 \<le> maxBytes \<Longrightarrow> n \<le> maxBytes"
    using assms by (auto simp: extractZIPEntry_def Let_def split: if_splits prod.splits)
  show "r = Inr n \<Longrightarrow> \<exists>b. out_files fs' = out_files fs @ [(target, b)] \<and> n = int (length b)"
    using assms by (auto simp: extractZIPEntry_def write_file_def Let_def split: if_splits prod.splits)
qed

text \<open>
  Every path that extraction writes passed the zip-slip test; \<open>fs_size\<close> is what it wrote.
\<close>

definition written_ok :: "string \<Rightarrow> out_fs \<Rightarrow> bool" where
  "written_ok destDir fs \<longleftrightarrow>
     (\<forall>(p, b) \<in> set (out_files fs). \<exists>f. p = entry_target destDir f \<and> slip_ok destDir p)"

definition fs_size :: "out_fs \<Rightarrow> int" where
  "fs_size fs = sum_list (map (\<lambda>(p, b). int (length b)) (out_files fs))"

lemma mkdir_all_files [simp]:
  "out_files (mkdir_all d fs) = out_files fs" "fs_size (mkdir_all d fs) = fs_size fs"
  "written_ok destDir (mkdir_all d fs) = written_ok destDir fs"
  by (simp_all add: mkdir_all_def fs_size_def written_ok_def)

lemma extractZIPEntry_written_ok:
  assumes "extractZIPEntry os f (entry_target destDir g) maxBytes fs = (r, fs')"
    and "slip_ok destDir (entry_target destDir g)" and "written_ok destDir fs"
  shows "written_ok destDir fs'"
  using extractZIPEntry_files(1) [OF assms(1)] assms(2,3) by (auto simp: written_ok_def)

lemma extract_entries_written_ok:
  "written_ok destDir fs \<Longrightarrow>
     written_ok destDir (snd (extract_entries os destDir maxTotal sofar entries fs))"
proof (induction os destDir maxTotal sofar entries fs rule: extract_entries.induct)
  case (2 os destDir maxTotal sofar f entries fs)
  define t where "t = entry_target destDir f"
  define rem where "rem = (if maxTotal > 0 then (if wrap64 (maxTotal - sofar) < 0 then 0
                                               else wrap64 (maxTotal - sofar)) else - 1)"
  obtain r fs2 where e: "extractZIPEntry os f t rem (mkdir_all (path_dir t) fs) = (r, fs2)"
    by fastforce
  show ?case
  proof (cases "slip_ok destDir t \<and> \<not> z_dir f \<and> os (path_dir t)")
    case True
    then have w: "written_ok destDir fs2"
      using extractZIPEntry_written_ok [OF e [unfolded t_def]] 2(3) t_def by simp
    show ?thesis
    proof (cases r)
      case (Inl x)
      with True e w show ?thesis
        by (simp add: Let_def flip: t_def rem_def)
    next
      case (Inr n)
      have "written_ok destDir (snd (extract_entries os destDir maxTotal (wrap64 (sofar + n)) entries fs2))"
        if "\<not> (maxTotal > 0 \<and> wrap64 (sofar + n) > maxTotal)"
        using 2(2) [OF t_def] True that w Inr e rem_def by auto
      with True e w Inr show ?thesis
        by (simp add: Let_def flip: t_def rem_def)
    qed
  next
    case False
    then show ?thesis using 2(1,3) by (auto simp: Let_def t_def)
  qed
qed simp

lemma extract_entries_size:
  assumes "0 < maxTotal" and "maxTotal < max_int64" and "0 \<le> sofar" and "sofar \<le> maxTotal"
    and "fs_size fs = sofar" and "extract_entries os destDir maxTotal sofar entries fs = (r, fs')"
  shows "fs_size fs' \<le> maxTotal + 1 \<and> (r = Inr () \<longrightarrow> fs_size fs' \<le> maxTotal)"
  using assms
proof (induction entries arbitrary: sofar fs)
  case (Cons f entries)
  define t where "t = entry_target destDir f"
  have w: "wrap64 (maxTotal - sofar) = maxTotal - sofar"
    using Cons.prems by (intro wrap64_id) (auto simp: min_int64_def)
  obtain q fs2 where e: "extractZIPEntry os f t (maxTotal - sofar) (mkdir_all (path_dir t) fs) = (q, fs2)"
    by fastforce
  show ?case
  proof (cases "slip_ok destDir t \<and> \<not> z_dir f \<and> os (path_dir t)")
    case True
    note step = Cons.prems(6) [simplified, folded t_def, simplified True w, simplified]
    have size: "fs_size fs2 \<le> maxTotal + 1"
      using extractZIPEntry_files(1) [OF e] Cons.prems by (auto simp: fs_size_def)
    show ?thesis
    proof (cases q)
      case (Inl x)
      with step True e w size Cons.prems show ?thesis by (auto simp: Let_def)
    next
      case (Inr n)
      have n: "n \<le> maxTotal - sofar" "fs_size fs2 = sofar + n" "0 \<le> n"
        using extractZIPEntry_files(2,3) [OF e Inr] Cons.prems by (auto simp: fs_size_def)
      then have w2: "wrap64 (sofar + n) = sofar + n"
        using Cons.prems by (intro wrap64_id) (auto simp: min_int64_def)
      have "extract_entries os destDir maxTotal (sofar + n) entries fs2 = (r, fs')"
        using step True e w w2 n Inr Cons.prems by (auto simp: Let_def)
      then show ?thesis
        using Cons.IH [of "sofar + n" fs2] Cons.prems n by auto
    qed
  next
    case False
    then show ?thesis using Cons.prems Cons.IH [of sofar "mkdir_all t fs"]
      by (auto simp: Let_def split: if_splits simp flip: t_def)
  qed
qed simp

section \<open>Properties\<close>

text \<open>
  C2: zip-slip. Whatever the archive holds, every file \<open>extractZIP\<close> writes into an empty,
  absolute directory lies below that directory: no component of the part after it walks up.
\<close>

theorem extractZIP_inside:
  assumes "is_abs destDir" and "extractZIP os archive destDir maxTotalBytes \<lparr>out_dirs = [], out_files = []\<rparr> = (r, fs')"
    and "(p, bytes) \<in> set (out_files fs')"
  shows "inside (path_clean destDir) p"
proof -
  have a: "is_abs (path_clean destDir)" using assms(1) by (rule is_abs_clean)
  have "written_ok (path_clean destDir) fs'"
  proof (cases archive)
    case None
    with assms(2) show ?thesis by (auto simp: extractZIP_def written_ok_def)
  next
    case (Some entries)
    have "written_ok (path_clean destDir) \<lparr>out_dirs = [], out_files = []\<rparr>"
      by (simp add: written_ok_def)
    from extract_entries_written_ok [OF this, of os maxTotalBytes 0 entries] assms(2) Some
    show ?thesis by (simp add: extractZIP_def)
  qed
  then obtain f where p: "p = entry_target (path_clean destDir) f" "slip_ok (path_clean destDir) p"
    using assms(3) by (auto simp: written_ok_def)
  have "is_abs p" "path_clean p = p"
    using a by (simp_all add: p(1) entry_target_def path_join_abs path_join_clean)
  then show ?thesis
    using clean_prefix_inside [of "path_clean destDir" p] a p(2) path_clean_idem_abs [OF assms(1)]
    by (simp add: slip_ok_def)
qed

text \<open>
  The size budget. With a limit below the largest \<open>int64\<close>, extraction writes at most one byte
  more than the limit in total however it ends, and at most the limit when it succeeds, whatever
  sizes the archive declares.
\<close>

theorem extractZIP_budget:
  assumes "0 < maxTotalBytes" and "maxTotalBytes < max_int64"
    and "extractZIP os archive destDir maxTotalBytes \<lparr>out_dirs = [], out_files = []\<rparr> = (r, fs')"
  shows "fs_size fs' \<le> maxTotalBytes + 1 \<and> (r = Inr () \<longrightarrow> fs_size fs' \<le> maxTotalBytes)"
proof (cases archive)
  case None
  with assms show ?thesis by (auto simp: extractZIP_def fs_size_def)
next
  case (Some entries)
  have "fs_size \<lparr>out_dirs = [], out_files = []\<rparr> = 0" by (simp add: fs_size_def)
  from extract_entries_size [OF assms(1,2) _ _ this, of os "path_clean destDir" entries r fs']
  show ?thesis using assms(1,3) Some by (simp add: extractZIP_def)
qed

text \<open>The archive of the witnesses: one file \<open>a/b\<close> with two bytes.\<close>

definition sample_archive :: "zip_entry list" where
  "sample_archive =
     [\<lparr>z_name = ''a/b'', z_dir = False, z_stream = \<lparr>st_bytes = ''hi'', st_ok = True\<rparr>, z_open = True\<rparr>]"

lemma sample_run:
  "extractZIP (\<lambda>_. True) (Some sample_archive) ''/t/x'' 2 \<lparr>out_dirs = [], out_files = []\<rparr>
     = (Inr (), \<lparr>out_dirs = [''/t/x/a''], out_files = [(''/t/x/a/b'', ''hi'')]\<rparr>)"
  by code_simp

theorem extractZIP_inside_witness: "inside (path_clean ''/t/x'') ''/t/x/a/b''"
  using extractZIP_inside [OF _ sample_run, of "''/t/x/a/b''" "''hi''"] by (simp add: is_abs_def)

theorem extractZIP_budget_witness:
  "fs_size \<lparr>out_dirs = [''/t/x/a''], out_files = [(''/t/x/a/b'', ''hi'')]\<rparr> \<le> 2"
  using extractZIP_budget [OF _ _ sample_run] by (simp add: max_int64_def)

text \<open>
  A limit of 0 is documented as no limit, and \<open>extractZIP\<close> treats it so, but the download
  step reads one byte and then refuses it: with the setting \<open>0\<close> no non-empty module ZIP can be
  downloaded, so registry installs and updates always fail.
\<close>

theorem unlimited_download_fails:
  assumes "st_bytes body \<noteq> []"
  shows "download_copy body (MaxModuleZIPBytes (Inr (Some ''0''))) = Inl (ErrInvalid ''exceeds byte limit'')"
proof -
  have z: "MaxModuleZIPBytes (Inr (Some ''0'')) = 0" by code_simp
  have "limited_copy body (wrap64 (0 + 1)) = (take 1 (st_bytes body), True)"
    using assms by (cases "st_bytes body") (auto simp: limited_copy_def wrap64_def)
  then show ?thesis unfolding z using assms by (cases "st_bytes body") (auto simp: download_copy_def)
qed

theorem unlimited_download_fails_witness:
  "download_copy \<lparr>st_bytes = ''PK'', st_ok = True\<rparr> (MaxModuleZIPBytes (Inr (Some ''0'')))
     = Inl (ErrInvalid ''exceeds byte limit'')"
  by (rule unlimited_download_fails) simp

end
