(* ===== verification/World.thy ===== *)
theory World
  imports Crypto
begin

text \<open>
  The state the request handlers work on, and the calls they make to it: Valkey (keys with an
  expiry), Postgres (users, settings, audit log), the mail queue, published events, the IdP and
  the random source. A handler is a program in the state monad over \<open>world\<close>.

  \<^item> Every call to Valkey or Postgres is numbered, and \<open>outcomes\<close> says what happens to it:
    \<open>Done\<close>, \<open>Lost\<close> (an error, and no effect) or \<open>Unacked\<close> (an error, although the effect took
    place, as when the connection breaks after the command). A lemma that does not constrain
    \<open>outcomes\<close> holds for every pattern of failures.
  \<^item> \<open>now\<close> is the time in nanoseconds. It does not advance within one handler.
  \<^item> JSON values are kept as the datatype they encode; decoding one as another type is an error.
\<close>

section \<open>Data\<close>

datatype outcome = Done | Lost | Unacked

text \<open>\<open>auth/session.go\<close>: \<open>Session\<close>, \<open>storedSession\<close>; a zero \<open>time.Time\<close> is \<open>None\<close>.\<close>

record Session =
  S_UserID :: string
  S_Email :: string
  S_EmailVerified :: bool
  S_Name :: string
  S_PreferredUsername :: string
  S_Picture :: string
  S_Role :: string
  S_Locked :: bool
  S_CreatedAt :: "int option"
  S_IP :: string
  S_UserAgent :: string
  S_Country :: string
  S_City :: string
  S_Region :: string
  S_ASNOrg :: string
  S_CSRFToken :: string

record storedSession =
  T_UserID :: string
  T_EmailEnc :: string
  T_EmailVerified :: bool
  T_NameEnc :: string
  T_PreferredUsernameEnc :: string
  T_PictureEnc :: string
  T_Role :: string
  T_Locked :: bool
  T_CreatedAt :: "int option"
  T_IPEnc :: string
  T_UserAgentEnc :: string
  T_Country :: string
  T_City :: string
  T_Region :: string
  T_ASNOrg :: string
  T_RefreshTokenEnc :: string
  T_CSRFToken :: string

record moduleTokenRecord =
  M_Module :: string
  M_SessionID :: string

record oauthStatePayload =
  O_CodeVerifier :: string
  O_Reauth :: bool
  O_ReturnPath :: string
  O_Nonce :: string

text \<open>What a Valkey key holds: a string (one of the JSON documents, a text or a counter) or a set.\<close>

datatype sval =
    Txt string
  | Cnt int
  | JSession storedSession
  | JModTok moduleTokenRecord
  | JOauth oauthStatePayload

datatype vval = VStr sval | VSet "string list"

text \<open>\<open>db/users.go\<close>: a row of \<open>users\<close>, email and name encrypted.\<close>

record NotificationPrefs =
  P_NewLogin :: bool
  P_CountryAnomaly :: bool
  P_NewDevice :: bool
  P_SessionRevokedByAdmin :: bool

record UserRow =
  U_Subject :: string
  U_Email :: string
  U_Name :: string
  U_Role :: string
  U_Approved :: bool
  U_Locked :: bool
  U_CreatedAt :: int
  U_LastLoginAt :: int
  U_Language :: string
  U_Theme :: string
  U_Prefs :: NotificationPrefs

text \<open>A row of \<open>audit_log\<close>.\<close>

record audit_row =
  A_ID :: int
  A_CreatedAt :: int
  A_EventType :: string
  A_ActorID :: string
  A_ActorEmailEnc :: string
  A_TargetID :: string
  A_TargetEmailEnc :: string
  A_DetailsEnc :: string
  A_PrevHash :: string
  A_Hash :: string

text \<open>A queued mail: recipient and body encrypted, and which message it is.\<close>

record storedMessage =
  Mail_ToEnc :: string
  Mail_Subject :: string
  Mail_BodyEnc :: string

text \<open>What the IdP's claims decode to (\<open>auth/oidcclient.go\<close>).\<close>

record Claims =
  C_Subject :: string
  C_Email :: string
  C_EmailVerified :: bool
  C_Name :: string
  C_PreferredUsername :: string
  C_Picture :: string
  C_Groups :: "string list"
  C_AuthTime :: int

record world =
  now :: int
  outcomes :: "nat \<Rightarrow> outcome"
  calls :: nat
  random :: "nat \<Rightarrow> char"
  drawn :: nat
  gcm :: gcm_cache
  vk :: "string \<Rightarrow> (vval \<times> int option) option"
  users :: "UserRow list"
  settings :: "string \<Rightarrow> string option"
  audit_log :: "audit_row list"
  published :: "(string \<times> string) list"
  mail_queue :: "storedMessage list"
  idp_revoked :: "string list"

type_synonym 'a io = "(world, 'a) state"

text \<open>
  What surrounds the program: configuration, the cryptographic functions, the texts of the mails,
  the GeoIP database and the IdP. The IdP's answers are functions of the number of the call, so
  that it may answer differently each time.
\<close>

record Deps =
  d_aead :: aead
  d_sha256 :: "string \<Rightarrow> string"
  d_hmac :: "string \<Rightarrow> string \<Rightarrow> string"
  d_quote :: "string \<Rightarrow> string"                                      \<comment> \<open>\<open>%q\<close>\<close>
  d_mail :: "string \<Rightarrow> string list \<Rightarrow> string \<times> string"                   \<comment> \<open>message and its arguments: subject, body\<close>
  d_city :: "string \<Rightarrow> string \<times> string"                                 \<comment> \<open>GeoIP: city and region of an address\<close>
  d_asn :: "string \<Rightarrow> string"
  d_rdns :: "string \<Rightarrow> string option"                                   \<comment> \<open>reverse DNS\<close>
  d_PoolKey :: string
  d_MasterKeyEnv :: string
  d_PublicBaseURL :: string
  d_FrontendBaseURL :: string
  d_provider :: "nat \<Rightarrow> string \<times> string \<times> string \<Rightarrow> bool"            \<comment> \<open>OIDC discovery succeeds for issuer, id, secret\<close>
  d_exchange :: "nat \<Rightarrow> string \<Rightarrow> string \<Rightarrow> (Claims \<times> string \<times> string) res"  \<comment> \<open>code, verifier: claims, nonce, refresh token\<close>
  d_revalidate :: "nat \<Rightarrow> string \<Rightarrow> (Claims \<times> string) res"           \<comment> \<open>claims and new refresh token\<close>

section \<open>Primitive calls\<close>

text \<open>An operation with an error result, and what follows it when there is none.\<close>

definition try_bind :: "('s, 'a res) state \<Rightarrow> ('a \<Rightarrow> ('s, 'b res) state) \<Rightarrow> ('s, 'b res) state" where
  "try_bind m f = do { r \<leftarrow> m; case r of Inl e \<Rightarrow> State_Monad.return (Inl e) | Inr a \<Rightarrow> f a }"

definition ok :: "'a \<Rightarrow> ('s, 'a res) state" where "ok a = State_Monad.return (Inr a)"
definition fail :: "err \<Rightarrow> ('s, 'a res) state" where "fail e = State_Monad.return (Inl e)"

definition update_world :: "(world \<Rightarrow> world) \<Rightarrow> unit io" where
  "update_world f = State_Monad.State (\<lambda>w. ((), f w))"

text \<open>A call that reads: the answer, or an error.\<close>

definition query :: "(world \<Rightarrow> 'a res) \<Rightarrow> 'a res io" where
  "query q = State_Monad.State (\<lambda>w.
     let w' = w\<lparr>calls := Suc (calls w)\<rparr> in
     (case outcomes w (calls w) of Done \<Rightarrow> q w | _ \<Rightarrow> Inl ErrExternal, w'))"

text \<open>A call that writes, with the answer computed from the state before.\<close>

definition command :: "(world \<Rightarrow> 'a res) \<Rightarrow> (world \<Rightarrow> world) \<Rightarrow> 'a res io" where
  "command q f = State_Monad.State (\<lambda>w.
     let w' = w\<lparr>calls := Suc (calls w)\<rparr> in
     case outcomes w (calls w) of
       Done \<Rightarrow> (q w, f w')
     | Lost \<Rightarrow> (Inl ErrExternal, w')
     | Unacked \<Rightarrow> (Inl ErrExternal, f w'))"

text \<open>\<open>crypto/rand\<close>: the next \<open>n\<close> bytes.\<close>

definition read_random :: "nat \<Rightarrow> string io" where
  "read_random n = State_Monad.State (\<lambda>w.
     (map (random w) [drawn w ..< drawn w + n], w\<lparr>drawn := drawn w + n\<rparr>))"

section \<open>Valkey\<close>

definition alive :: "int \<Rightarrow> (vval \<times> int option) option \<Rightarrow> (vval \<times> int option) option" where
  "alive t e = (case e of
      Some (v, Some d) \<Rightarrow> if t < d then e else None
    | _ \<Rightarrow> e)"

definition vk_entry :: "world \<Rightarrow> string \<Rightarrow> (vval \<times> int option) option" where
  "vk_entry w k = alive (now w) (vk w k)"

definition vk_str :: "world \<Rightarrow> string \<Rightarrow> sval option" where
  "vk_str w k = (case vk_entry w k of Some (VStr s, _) \<Rightarrow> Some s | _ \<Rightarrow> None)"

definition vk_members :: "world \<Rightarrow> string \<Rightarrow> string list" where
  "vk_members w k = (case vk_entry w k of Some (VSet ms, _) \<Rightarrow> ms | _ \<Rightarrow> [])"

definition put_str :: "string \<Rightarrow> sval \<Rightarrow> int \<Rightarrow> world \<Rightarrow> world" where
  "put_str k v ttl w = w\<lparr>vk := (vk w)(k \<mapsto> (VStr v, Some (now w + ttl)))\<rparr>"

definition del_key :: "string \<Rightarrow> world \<Rightarrow> world" where
  "del_key k w = w\<lparr>vk := (vk w)(k := None)\<rparr>"

definition set_expiry :: "string \<Rightarrow> int \<Rightarrow> world \<Rightarrow> world" where
  "set_expiry k ttl w =
     (case vk_entry w k of
        None \<Rightarrow> w
      | Some (v, _) \<Rightarrow> w\<lparr>vk := (vk w)(k \<mapsto> (v, Some (now w + ttl)))\<rparr>)"

definition put_members :: "string \<Rightarrow> string list \<Rightarrow> world \<Rightarrow> world" where
  "put_members k ms w =
     w\<lparr>vk := (vk w)(k := if ms = [] then None
        else Some (VSet ms, case vk_entry w k of Some (_, e) \<Rightarrow> e | None \<Rightarrow> None))\<rparr>"

text \<open>The operations of \<open>valkey/client.go\<close>; a command on a key of the wrong kind is an error.\<close>

definition SetWithTTL :: "string \<Rightarrow> sval \<Rightarrow> int \<Rightarrow> unit res io" where
  "SetWithTTL key v ttl = command (\<lambda>_. Inr ()) (put_str key v ttl)"

definition Get :: "string \<Rightarrow> sval option res io" where
  "Get key = query (\<lambda>w. case vk_entry w key of
      None \<Rightarrow> Inr None
    | Some (VStr v, _) \<Rightarrow> Inr (Some v)
    | Some (VSet _, _) \<Rightarrow> Inl ErrExternal)"

definition Del :: "string \<Rightarrow> unit res io" where
  "Del key = command (\<lambda>_. Inr ()) (del_key key)"

definition Expire :: "string \<Rightarrow> int \<Rightarrow> unit res io" where
  "Expire key ttl = command (\<lambda>_. Inr ()) (set_expiry key ttl)"

definition wrong_set :: "world \<Rightarrow> string \<Rightarrow> bool" where
  "wrong_set w k = (case vk_entry w k of Some (VStr _, _) \<Rightarrow> True | _ \<Rightarrow> False)"

definition SAdd :: "string \<Rightarrow> string \<Rightarrow> unit res io" where
  "SAdd key m = command
     (\<lambda>w. if wrong_set w key then Inl ErrExternal else Inr ())
     (\<lambda>w. if wrong_set w key then w else put_members key (List.insert m (vk_members w key)) w)"

definition AddSetMember :: "string \<Rightarrow> string \<Rightarrow> int \<Rightarrow> unit res io" where
  "AddSetMember key m ttl = try_bind (SAdd key m) (\<lambda>_. Expire key ttl)"

definition RemoveSetMember :: "string \<Rightarrow> string \<Rightarrow> unit res io" where
  "RemoveSetMember key m = command
     (\<lambda>w. if wrong_set w key then Inl ErrExternal else Inr ())
     (\<lambda>w. if wrong_set w key then w else put_members key (filter (\<lambda>x. x \<noteq> m) (vk_members w key)) w)"

definition SetMembers :: "string \<Rightarrow> string list res io" where
  "SetMembers key =
     query (\<lambda>w. if wrong_set w key then Inl ErrExternal else Inr (vk_members w key))"

text \<open>\<open>TTL\<close> in nanoseconds, rounded down to seconds by the server; \<open>None\<close> without a positive one.\<close>

definition TTL :: "string \<Rightarrow> int option res io" where
  "TTL key = query (\<lambda>w. Inr (case vk_entry w key of
      Some (_, Some e) \<Rightarrow>
        (let s = (e - now w) div 1000000000 * 1000000000 in if s \<le> 0 then None else Some s)
    | _ \<Rightarrow> None))"

text \<open>\<open>IncrExpire\<close>: the Lua script runs atomically; the expiry is set by the first increment only.\<close>

definition incr_value :: "world \<Rightarrow> string \<Rightarrow> int res" where
  "incr_value w key =
     (case vk_entry w key of
        None \<Rightarrow> Inr 1
      | Some (VStr (Cnt n), _) \<Rightarrow> Inr (n + 1)
      | _ \<Rightarrow> Inl ErrExternal)"

definition incr_update :: "string \<Rightarrow> int \<Rightarrow> world \<Rightarrow> world" where
  "incr_update key ttl w =
     (case vk_entry w key of
        None \<Rightarrow> put_str key (Cnt 1) ttl w
      | Some (VStr (Cnt n), e) \<Rightarrow>
          w\<lparr>vk := (vk w)(key \<mapsto> (VStr (Cnt (n + 1)),
             if n + 1 = 1 then Some (now w + ttl) else e))\<rparr>
      | _ \<Rightarrow> w)"

definition IncrExpire :: "string \<Rightarrow> int \<Rightarrow> int res io" where
  "IncrExpire key ttl = command (\<lambda>w. incr_value w key) (incr_update key ttl)"

text \<open>\<open>notify.Publish\<close> and \<open>RPush\<close> on the mail queue.\<close>

definition Publish :: "string \<Rightarrow> string \<Rightarrow> unit res io" where
  "Publish channel ev = command (\<lambda>_. Inr ()) (\<lambda>w. w\<lparr>published := published w @ [(channel, ev)]\<rparr>)"

definition AdminChannel :: string where "AdminChannel = ''notify:admin''"

definition UserChannel :: "string \<Rightarrow> string" where
  "UserChannel subject = ''notify:user:'' @ subject"

definition RPush :: "storedMessage \<Rightarrow> unit res io" where
  "RPush m = command (\<lambda>_. Inr ()) (\<lambda>w. w\<lparr>mail_queue := mail_queue w @ [m]\<rparr>)"

section \<open>Encryption in a handler\<close>

text \<open>The calls of package \<open>crypto\<close>, with the nonce drawn when \<open>Encrypt\<close> gets that far.\<close>

definition encrypt_io :: "Deps \<Rightarrow> string \<Rightarrow> string \<Rightarrow> string res io" where
  "encrypt_io d keyHex plaintext = do {
     w \<leftarrow> State_Monad.get;
     (case newGCM (gcm w) keyHex of
        (Inl e, c) \<Rightarrow> do { update_world (\<lambda>w. w\<lparr>gcm := c\<rparr>); fail e }
      | (Inr _, c) \<Rightarrow> do {
          nonce \<leftarrow> read_random nonce_size;
          (let (r, c') = Encrypt (d_aead d) (gcm w) (Some nonce) keyHex plaintext
           in do { update_world (\<lambda>w. w\<lparr>gcm := c'\<rparr>); State_Monad.return r }) }) }"

definition encrypt_if_io :: "Deps \<Rightarrow> string \<Rightarrow> string \<Rightarrow> string res io" where
  "encrypt_if_io d keyHex plaintext =
     (if plaintext = [] then ok [] else encrypt_io d keyHex plaintext)"

definition decrypt_if_io :: "Deps \<Rightarrow> string \<Rightarrow> string \<Rightarrow> string res io" where
  "decrypt_if_io d keyHex encoded = do {
     w \<leftarrow> State_Monad.get;
     (let (r, c) = DecryptIfNotEmpty (d_aead d) (gcm w) keyHex encoded
      in do { update_world (\<lambda>w. w\<lparr>gcm := c\<rparr>); State_Monad.return r }) }"

definition decrypt_io :: "Deps \<Rightarrow> string \<Rightarrow> string \<Rightarrow> string res io" where
  "decrypt_io d keyHex encoded = do {
     w \<leftarrow> State_Monad.get;
     (let (r, c) = Decrypt (d_aead d) (gcm w) keyHex encoded
      in do { update_world (\<lambda>w. w\<lparr>gcm := c\<rparr>); State_Monad.return r }) }"

text \<open>\<open>setup.ResolveMasterKey\<close>.\<close>

definition ResolveMasterKey :: "Deps \<Rightarrow> string res" where
  "ResolveMasterKey d = (if d_MasterKeyEnv d = [] then Inl ErrKey else Inr (d_MasterKeyEnv d))"

definition master_key :: "Deps \<Rightarrow> string res io" where
  "master_key d = State_Monad.return (ResolveMasterKey d)"

section \<open>Reasoning\<close>

text \<open>
  \<open>wp m Q w\<close>: running \<open>m\<close> from \<open>w\<close> ends with an answer and a state that satisfy \<open>Q\<close>. The rules
  compute it along the program; the collection \<open>io_simps\<close> holds them.
\<close>

definition wp :: "('s, 'a) state \<Rightarrow> ('a \<Rightarrow> 's \<Rightarrow> bool) \<Rightarrow> 's \<Rightarrow> bool" where
  "wp m Q w \<longleftrightarrow> (case run_state m w of (a, t) \<Rightarrow> Q a t)"

text \<open>The equations leave the state out, so that they also rewrite below a continuation.\<close>

lemma wp_return [io_simps]: "wp (State_Monad.return a) Q = Q a"
  by (simp add: wp_def fun_eq_iff)

lemma wp_ok [io_simps]: "wp (ok a) Q = Q (Inr a)"
  by (simp add: wp_def ok_def fun_eq_iff)

lemma wp_fail [io_simps]: "wp (fail e) Q = Q (Inl e)"
  by (simp add: wp_def fail_def fun_eq_iff)

lemma wp_bind [io_simps]: "wp (m \<bind> f) Q = wp m (\<lambda>a. wp (f a) Q)"
  by (simp add: wp_def fun_eq_iff split: prod.splits)

lemma wp_get [io_simps]: "wp State_Monad.get Q = (\<lambda>w. Q w w)"
  by (simp add: wp_def fun_eq_iff)

lemma wp_update [io_simps]: "wp (update_world f) Q = (\<lambda>w. Q () (f w))"
  by (simp add: wp_def update_world_def fun_eq_iff)

lemma wp_try [io_simps]:
  "wp (try_bind m f) Q =
     wp m (\<lambda>r t. (\<forall>e. r = Inl e \<longrightarrow> Q (Inl e) t) \<and> (\<forall>a. r = Inr a \<longrightarrow> wp (f a) Q t))"
  by (auto simp: wp_def try_bind_def fun_eq_iff split: prod.splits sum.splits)

lemma try_bind_return [simp]:
  "try_bind (State_Monad.return (Inr a)) f = f a" "try_bind (ok a) f = f a"
  "try_bind (State_Monad.return (Inl e)) f = fail e" "try_bind (fail e) f = fail e"
  by (simp_all add: try_bind_def ok_def fail_def)

lemma wp_if [io_simps]: "wp (if b then m else n) Q = (if b then wp m Q else wp n Q)"
  by simp

lemma wp_let [io_simps]: "wp (let x = t in f x) Q = wp (f t) Q"
  by simp

lemma wp_mono: "wp m Q w \<Longrightarrow> (\<And>a t. Q a t \<Longrightarrow> R a t) \<Longrightarrow> wp m R w"
  by (auto simp: wp_def)

lemma wp_conj: "wp m (\<lambda>a t. Q a t \<and> R a t) w \<longleftrightarrow> wp m Q w \<and> wp m R w"
  by (auto simp: wp_def split: prod.splits)

lemma wp_run: "wp m Q w \<longleftrightarrow> Q (fst (run_state m w)) (snd (run_state m w))"
  by (auto simp: wp_def split: prod.splits)

lemma keeps_wp: "keeps I m \<longleftrightarrow> (\<forall>w. I w \<longrightarrow> wp m (\<lambda>_. I) w)"
  by (auto simp: keeps_def wp_run)

lemma keeps_wpD: "keeps I m \<Longrightarrow> I w \<Longrightarrow> wp m (\<lambda>_. I) w"
  by (simp add: keeps_wp)

text \<open>Preservation, from the primitive calls upwards.\<close>

lemma keeps_ok [inv_intros]: "keeps I (ok a)"
  by (simp add: keeps_def ok_def)

lemma keeps_fail [inv_intros]: "keeps I (fail e)"
  by (simp add: keeps_def fail_def)

lemma keeps_try [inv_intros]: "keeps I m \<Longrightarrow> (\<And>a. keeps I (f a)) \<Longrightarrow> keeps I (try_bind m f)"
  unfolding try_bind_def by (intro inv_intros)

lemma keeps_update: "(\<And>w. I w \<Longrightarrow> I (f w)) \<Longrightarrow> keeps I (update_world f)"
  by (simp add: keeps_def update_world_def)

lemma keeps_query: "(\<And>w. I w \<Longrightarrow> I (w\<lparr>calls := Suc (calls w)\<rparr>)) \<Longrightarrow> keeps I (query q)"
  by (simp add: keeps_def query_def Let_def)

lemma keeps_command:
  "(\<And>w. I w \<Longrightarrow> I (w\<lparr>calls := Suc (calls w)\<rparr>)) \<Longrightarrow> (\<And>w. I w \<Longrightarrow> I (f w)) \<Longrightarrow> keeps I (command q f)"
  by (auto simp: keeps_def command_def Let_def split: outcome.splits)

lemma keeps_random: "(\<And>w n. I w \<Longrightarrow> I (w\<lparr>drawn := n\<rparr>)) \<Longrightarrow> keeps I (read_random n)"
  by (simp add: keeps_def read_random_def)

text \<open>
  When every call succeeds, the primitives compute. \<open>all_done\<close> is the assumption of the
  functional properties; it is kept by every operation, since nothing changes \<open>outcomes\<close>.
\<close>

definition all_done :: "world \<Rightarrow> bool" where
  "all_done w \<longleftrightarrow> (\<forall>n. outcomes w n = Done)"

lemma wp_query:
  "wp (query q) Q w \<longleftrightarrow>
     (outcomes w (calls w) = Done \<longrightarrow> Q (q w) (w\<lparr>calls := Suc (calls w)\<rparr>))
     \<and> (outcomes w (calls w) \<noteq> Done \<longrightarrow> Q (Inl ErrExternal) (w\<lparr>calls := Suc (calls w)\<rparr>))"
  by (cases "outcomes w (calls w)") (auto simp: wp_def query_def Let_def)

lemma wp_command:
  "wp (command q f) Q w \<longleftrightarrow>
     (outcomes w (calls w) = Done \<longrightarrow> Q (q w) (f (w\<lparr>calls := Suc (calls w)\<rparr>)))
     \<and> (outcomes w (calls w) = Lost \<longrightarrow> Q (Inl ErrExternal) (w\<lparr>calls := Suc (calls w)\<rparr>))
     \<and> (outcomes w (calls w) = Unacked \<longrightarrow> Q (Inl ErrExternal) (f (w\<lparr>calls := Suc (calls w)\<rparr>)))"
  by (cases "outcomes w (calls w)") (auto simp: wp_def command_def Let_def)

lemma wp_query_done: "all_done w \<Longrightarrow> wp (query q) Q w = Q (q w) (w\<lparr>calls := Suc (calls w)\<rparr>)"
  by (simp add: wp_query all_done_def)

lemma wp_command_done:
  "all_done w \<Longrightarrow> wp (command q f) Q w = Q (q w) (f (w\<lparr>calls := Suc (calls w)\<rparr>))"
  by (simp add: wp_command all_done_def)

lemma all_done_simps [simp]:
  "all_done (w\<lparr>calls := n\<rparr>) = all_done w"
  "all_done (w\<lparr>drawn := n\<rparr>) = all_done w"
  "all_done (w\<lparr>gcm := c\<rparr>) = all_done w"
  "all_done (w\<lparr>users := us\<rparr>) = all_done w"
  "all_done (w\<lparr>vk := v\<rparr>) = all_done w"
  "all_done (w\<lparr>audit_log := a\<rparr>) = all_done w"
  "all_done (w\<lparr>published := p\<rparr>) = all_done w"
  "all_done (w\<lparr>mail_queue := q\<rparr>) = all_done w"
  "all_done (w\<lparr>idp_revoked := r\<rparr>) = all_done w"
  "all_done (w\<lparr>settings := s\<rparr>) = all_done w"
  "all_done (w\<lparr>now := t\<rparr>) = all_done w"
  by (simp_all add: all_done_def)

section \<open>The string keyspace as a key-value store\<close>

lemma vk_entry_simps [simp]:
  "vk_entry (w\<lparr>calls := n\<rparr>) k = vk_entry w k"
  "vk_entry (w\<lparr>drawn := n\<rparr>) k = vk_entry w k"
  "vk_entry (w\<lparr>gcm := c\<rparr>) k = vk_entry w k"
  "vk_entry (w\<lparr>users := us\<rparr>) k = vk_entry w k"
  "vk_entry (w\<lparr>audit_log := a\<rparr>) k = vk_entry w k"
  "vk_entry (w\<lparr>published := p\<rparr>) k = vk_entry w k"
  "vk_entry (w\<lparr>mail_queue := q\<rparr>) k = vk_entry w k"
  "vk_entry (w\<lparr>idp_revoked := r\<rparr>) k = vk_entry w k"
  "vk_entry (w\<lparr>settings := s\<rparr>) k = vk_entry w k"
  by (simp_all add: vk_entry_def)

lemma vk_view_simps [simp]:
  "vk_str (w\<lparr>calls := n\<rparr>) k = vk_str w k" "vk_members (w\<lparr>calls := n\<rparr>) k = vk_members w k"
  "wrong_set (w\<lparr>calls := n\<rparr>) k = wrong_set w k"
  by (simp_all add: vk_str_def vk_members_def wrong_set_def)

lemma alive_None [simp]: "alive t None = None"
  by (simp add: alive_def)

lemma vk_entry_put_str:
  "0 < ttl \<Longrightarrow> vk_entry (put_str k v ttl w) k' =
     (if k' = k then Some (VStr v, Some (now w + ttl)) else vk_entry w k')"
  by (simp add: vk_entry_def put_str_def alive_def)

lemma vk_entry_del: "vk_entry (del_key k w) k' = (if k' = k then None else vk_entry w k')"
  by (simp add: vk_entry_def del_key_def)

lemma vk_entry_expire:
  "0 < ttl \<Longrightarrow> vk_entry (set_expiry k ttl w) k' =
     (if k' = k then map_option (\<lambda>(v, _). (v, Some (now w + ttl))) (vk_entry w k) else vk_entry w k')"
  by (auto simp: vk_entry_def set_expiry_def alive_def split: option.splits)

lemma vk_entry_put_members:
  "vk_entry (put_members k ms w) k' =
     (if k' = k then (if ms = [] then None
        else Some (VSet ms, case vk_entry w k of Some (_, e) \<Rightarrow> e | None \<Rightarrow> None))
      else vk_entry w k')"
  by (auto simp: vk_entry_def put_members_def alive_def split: option.splits if_splits)

lemma vk_str_put:
  "0 < ttl \<Longrightarrow> vk_str (put_str k v ttl w) k' = (if k' = k then Some v else vk_str w k')"
  by (simp add: vk_str_def vk_entry_put_str)

lemma vk_str_del: "vk_str (del_key k w) k' = (if k' = k then None else vk_str w k')"
  by (simp add: vk_str_def vk_entry_del)

interpretation vk_store: kv_store vk_str "\<lambda>k v. put_str k v 1" del_key
  by unfold_locales (simp_all add: vk_str_put vk_str_del)

lemma vk_members_put_members [simp]:
  "vk_members (put_members k ms w) k' = (if k' = k then ms else vk_members w k')"
  by (auto simp: vk_members_def vk_entry_put_members)

lemma wrong_set_members: "vk_members w k \<noteq> [] \<Longrightarrow> \<not> wrong_set w k"
  by (auto simp: vk_members_def wrong_set_def split: option.splits vval.splits)

section \<open>Encryption only draws a nonce and fills the cache\<close>

definition enc_frame :: "world \<Rightarrow> world \<Rightarrow> bool" where
  "enc_frame w t \<longleftrightarrow> (\<exists>n c. t = w\<lparr>drawn := n, gcm := c\<rparr>)"

lemma enc_frame_refl [simp]: "enc_frame w w"
  unfolding enc_frame_def by (intro exI [of _ "drawn w"] exI [of _ "gcm w"]) simp

lemma enc_frameI: "enc_frame w (w\<lparr>drawn := n, gcm := c\<rparr>)" "enc_frame w (w\<lparr>gcm := c\<rparr>)"
proof -
  show "enc_frame w (w\<lparr>drawn := n, gcm := c\<rparr>)" by (auto simp: enc_frame_def)
  show "enc_frame w (w\<lparr>gcm := c\<rparr>)"
    unfolding enc_frame_def by (intro exI [of _ "drawn w"] exI [of _ c]) simp
qed

lemma enc_frame_trans: "enc_frame w t \<Longrightarrow> enc_frame t u \<Longrightarrow> enc_frame w u"
  unfolding enc_frame_def by fastforce

lemma enc_frameD:
  assumes "enc_frame w t"
  shows "now t = now w" "outcomes t = outcomes w" "calls t = calls w" "random t = random w"
    "vk t = vk w" "users t = users w" "settings t = settings w" "audit_log t = audit_log w"
    "published t = published w" "mail_queue t = mail_queue w" "idp_revoked t = idp_revoked w"
    "vk_entry t = vk_entry w" "all_done t = all_done w"
  using assms by (auto simp: enc_frame_def vk_entry_def)

lemma wp_encrypt:
  "(\<And>r t. enc_frame w t \<Longrightarrow> Q r t) \<Longrightarrow> wp (encrypt_io d k p) Q w"
  unfolding encrypt_io_def
  by (auto simp: io_simps fail_def read_random_def wp_def update_world_def
      split: prod.splits sum.splits intro!: enc_frameI)

lemma wp_encrypt_if:
  "(\<And>r t. enc_frame w t \<Longrightarrow> Q r t) \<Longrightarrow> wp (encrypt_if_io d k p) Q w"
  by (auto simp: encrypt_if_io_def io_simps intro!: wp_encrypt)

lemma wp_decrypt_if:
  "(\<And>r t. enc_frame w t \<Longrightarrow> Q r t) \<Longrightarrow> wp (decrypt_if_io d k p) Q w"
  by (auto simp: decrypt_if_io_def io_simps enc_frameI split: prod.splits)

lemma wp_decrypt:
  "(\<And>r t. enc_frame w t \<Longrightarrow> Q r t) \<Longrightarrow> wp (decrypt_io d k p) Q w"
  by (auto simp: decrypt_io_def io_simps enc_frameI split: prod.splits)

section \<open>Frames\<close>

text \<open>
  \<open>misc_stable I\<close>: \<open>I\<close> does not see the bookkeeping (call counter, random source, cache) nor what
  is only ever appended to (events, mails, the audit log, tokens revoked at the IdP).
  \<open>store_stable I\<close>: nor the Valkey keys. An operation that only does such things keeps every
  such \<open>I\<close>, in particular \<open>vk w = v\<close> and \<open>users w = us\<close>.
\<close>

definition misc_stable :: "(world \<Rightarrow> bool) \<Rightarrow> bool" where
  "misc_stable I \<longleftrightarrow>
     (\<forall>w. I w \<longrightarrow> (\<forall>n. I (w\<lparr>calls := n\<rparr>)) \<and> (\<forall>n. I (w\<lparr>drawn := n\<rparr>)) \<and> (\<forall>c. I (w\<lparr>gcm := c\<rparr>))
        \<and> (\<forall>p. I (w\<lparr>published := p\<rparr>)) \<and> (\<forall>q. I (w\<lparr>mail_queue := q\<rparr>))
        \<and> (\<forall>r. I (w\<lparr>idp_revoked := r\<rparr>)) \<and> (\<forall>a. I (w\<lparr>audit_log := a\<rparr>)))"

definition store_stable :: "(world \<Rightarrow> bool) \<Rightarrow> bool" where
  "store_stable I \<longleftrightarrow> misc_stable I \<and> (\<forall>w v. I w \<longrightarrow> I (w\<lparr>vk := v\<rparr>))"

lemma misc_stableD:
  assumes "misc_stable I" and "I w"
  shows "I (w\<lparr>calls := n\<rparr>)" "I (w\<lparr>drawn := n\<rparr>)" "I (w\<lparr>gcm := c\<rparr>)" "I (w\<lparr>published := p\<rparr>)"
    "I (w\<lparr>mail_queue := q\<rparr>)" "I (w\<lparr>idp_revoked := r\<rparr>)" "I (w\<lparr>audit_log := a\<rparr>)"
  using assms by (simp_all add: misc_stable_def)

lemma store_misc: "store_stable I \<Longrightarrow> misc_stable I"
  by (simp add: store_stable_def)

lemma store_stableD: "store_stable I \<Longrightarrow> I w \<Longrightarrow> I (w\<lparr>vk := v\<rparr>)"
  by (simp add: store_stable_def)

lemma misc_stable_vk [simp]: "misc_stable (\<lambda>w. P (vk w) (now w) (outcomes w) (users w) (settings w))"
  by (simp add: misc_stable_def)

lemma store_stable_users [simp]: "store_stable (\<lambda>w. P (now w) (outcomes w) (users w) (settings w))"
  by (simp add: store_stable_def misc_stable_def)

lemma keeps_query_misc [inv_intros]: "misc_stable I \<Longrightarrow> keeps I (query q)"
  by (rule keeps_query) (rule misc_stableD(1))

lemma keeps_Publish [inv_intros]: "misc_stable I \<Longrightarrow> keeps I (Publish c e)"
  unfolding Publish_def by (rule keeps_command) (simp_all add: misc_stableD)

lemma keeps_RPush [inv_intros]: "misc_stable I \<Longrightarrow> keeps I (RPush m)"
  unfolding RPush_def by (rule keeps_command) (simp_all add: misc_stableD)

lemma keeps_read_random [inv_intros]: "misc_stable I \<Longrightarrow> keeps I (read_random n)"
  by (rule keeps_random) (simp add: misc_stableD)

lemma keeps_update_gcm [inv_intros]: "misc_stable I \<Longrightarrow> keeps I (update_world (\<lambda>w. w\<lparr>gcm := c\<rparr>))"
  by (rule keeps_update) (simp add: misc_stableD)

lemma keeps_enc:
  assumes "misc_stable I" and "\<And>w Q. (\<And>r t. enc_frame w t \<Longrightarrow> Q r t) \<Longrightarrow> wp m Q w"
  shows "keeps I m"
  unfolding keeps_wp
proof (intro allI impI)
  fix w assume "I w"
  show "wp m (\<lambda>_. I) w"
  proof (rule assms(2))
    fix t assume "enc_frame w t"
    then obtain n c where "t = w\<lparr>drawn := n, gcm := c\<rparr>" by (auto simp: enc_frame_def)
    then show "I t" using \<open>I w\<close> misc_stableD [OF assms(1)] by simp
  qed
qed

lemma keeps_encrypt [inv_intros]: "misc_stable I \<Longrightarrow> keeps I (encrypt_io d k p)"
  by (erule keeps_enc) (rule wp_encrypt, simp)

lemma keeps_encrypt_if [inv_intros]: "misc_stable I \<Longrightarrow> keeps I (encrypt_if_io d k p)"
  by (erule keeps_enc) (rule wp_encrypt_if, simp)

lemma keeps_decrypt_if [inv_intros]: "misc_stable I \<Longrightarrow> keeps I (decrypt_if_io d k p)"
  by (erule keeps_enc) (rule wp_decrypt_if, simp)

lemma keeps_decrypt [inv_intros]: "misc_stable I \<Longrightarrow> keeps I (decrypt_io d k p)"
  by (erule keeps_enc) (rule wp_decrypt, simp)

lemma keeps_master_key [inv_intros]: "keeps I (master_key d)"
  by (simp add: master_key_def keeps_return)

text \<open>Commands on the keyspace change only the keyspace.\<close>

lemma keeps_store_command:
  "store_stable I \<Longrightarrow> (\<And>w. \<exists>v. f w = w\<lparr>vk := v\<rparr>) \<Longrightarrow> keeps I (command q f)"
  by (rule keeps_command) (metis misc_stableD(1) store_misc, metis store_stableD)

lemma vk_update_self: "\<exists>v. w = w\<lparr>vk := v\<rparr>"
  by (rule exI [of _ "vk w"]) simp

lemma store_updates:
  "\<exists>u. put_str k v ttl w = w\<lparr>vk := u\<rparr>" "\<exists>u. del_key k w = w\<lparr>vk := u\<rparr>"
  "\<exists>u. set_expiry k ttl w = w\<lparr>vk := u\<rparr>" "\<exists>u. put_members k ms w = w\<lparr>vk := u\<rparr>"
  "\<exists>u. incr_update k ttl w = w\<lparr>vk := u\<rparr>"
  by (auto simp: put_str_def del_key_def set_expiry_def put_members_def incr_update_def
      intro: vk_update_self split: option.splits vval.splits sval.splits)

lemma keeps_SetWithTTL [inv_intros]: "store_stable I \<Longrightarrow> keeps I (SetWithTTL k v ttl)"
  unfolding SetWithTTL_def by (rule keeps_store_command) (simp_all add: store_updates)

lemma keeps_Del [inv_intros]: "store_stable I \<Longrightarrow> keeps I (Del k)"
  unfolding Del_def by (rule keeps_store_command) (simp_all add: store_updates)

lemma keeps_Expire [inv_intros]: "store_stable I \<Longrightarrow> keeps I (Expire k ttl)"
  unfolding Expire_def by (rule keeps_store_command) (simp_all add: store_updates)

lemma keeps_AddSetMember [inv_intros]: "store_stable I \<Longrightarrow> keeps I (AddSetMember k m ttl)"
  unfolding AddSetMember_def SAdd_def
  by (intro inv_intros keeps_store_command) (auto simp: store_updates vk_update_self)

lemma keeps_RemoveSetMember [inv_intros]: "store_stable I \<Longrightarrow> keeps I (RemoveSetMember k m)"
  unfolding RemoveSetMember_def
  by (rule keeps_store_command) (auto simp: store_updates vk_update_self)

lemma keeps_IncrExpire [inv_intros]: "store_stable I \<Longrightarrow> keeps I (IncrExpire k ttl)"
  unfolding IncrExpire_def by (rule keeps_store_command) (simp_all add: store_updates)

lemma keeps_Get [inv_intros]: "misc_stable I \<Longrightarrow> keeps I (Get k)"
  unfolding Get_def by (intro inv_intros)

lemma keeps_SetMembers [inv_intros]: "misc_stable I \<Longrightarrow> keeps I (SetMembers k)"
  unfolding SetMembers_def by (intro inv_intros)

lemma keeps_TTL [inv_intros]: "misc_stable I \<Longrightarrow> keeps I (TTL k)"
  unfolding TTL_def by (intro inv_intros)

lemma wp_any: "(\<And>a t. Q a t) \<Longrightarrow> wp m Q w"
  by (simp add: wp_def split: prod.splits)

end
