(* ===== verification/AuditLog.thy ===== *)
theory AuditLog
  imports World
begin

text \<open>
  Package \<open>audit\<close>: the hash-chained audit log. \<open>Log\<close> appends a row whose HMAC covers its fields
  and the hash of the row before, inside one transaction under an advisory lock; \<open>Verify\<close> walks
  the chain; \<open>List\<close> pages through it newest first, with an optional search over the decrypted
  fields.
\<close>

section \<open>Operations\<close>

record LogParams =
  L_EventType :: string
  L_ActorID :: string
  L_ActorEmail :: string
  L_TargetID :: string
  L_TargetEmail :: string
  L_Details :: string

text \<open>Stored ciphertexts and chain hashes are strings; the names tell them apart in the types.\<close>

type_synonym ciphertext = string
type_synonym chain_hash = string

definition entry_text ::
  "string \<Rightarrow> string \<Rightarrow> string \<Rightarrow> ciphertext \<Rightarrow> ciphertext \<Rightarrow> ciphertext \<Rightarrow> chain_hash \<Rightarrow> string" where
  "entry_text eventType actorID targetID actorEmailEnc targetEmailEnc detailsEnc prevHash =
     join_with ''|'' [eventType, actorID, targetID, actorEmailEnc, targetEmailEnc, detailsEnc, prevHash]"

definition entryHMAC ::
  "Deps \<Rightarrow> string \<Rightarrow> string \<Rightarrow> string \<Rightarrow> string \<Rightarrow> ciphertext \<Rightarrow> ciphertext \<Rightarrow> ciphertext \<Rightarrow> chain_hash \<Rightarrow> chain_hash" where
  "entryHMAC d masterKey eventType actorID targetID actorEmailEnc targetEmailEnc detailsEnc prevHash =
     hex_encode (d_hmac d masterKey
       (entry_text eventType actorID targetID actorEmailEnc targetEmailEnc detailsEnc prevHash))"

definition legacyEntryHMAC ::
  "Deps \<Rightarrow> string \<Rightarrow> string \<Rightarrow> string \<Rightarrow> string \<Rightarrow> chain_hash \<Rightarrow> chain_hash" where
  "legacyEntryHMAC d masterKey eventType actorID targetID prevHash =
     hex_encode (d_hmac d masterKey (join_with ''|'' [eventType, actorID, targetID, prevHash]))"

definition last_hash :: "audit_row list \<Rightarrow> string" where
  "last_hash rows = (if rows = [] then [] else A_Hash (last rows))"

definition next_id :: "audit_row list \<Rightarrow> int" where
  "next_id rows = (if rows = [] then 1 else A_ID (last rows) + 1)"

definition Log :: "Deps \<Rightarrow> string \<Rightarrow> LogParams \<Rightarrow> unit res io" where
  "Log d masterKey p =
     try_bind (encrypt_io d masterKey (L_ActorEmail p)) (\<lambda>actorEmailEnc.
     try_bind (encrypt_if_io d masterKey (L_TargetEmail p)) (\<lambda>targetEmailEnc.
     try_bind (encrypt_if_io d masterKey (L_Details p)) (\<lambda>detailsEnc.
     try_bind (query (\<lambda>_. Inr ())) (\<lambda>_.                \<comment> \<open>begin\<close>
     try_bind (query (\<lambda>_. Inr ())) (\<lambda>_.                \<comment> \<open>advisory lock\<close>
     try_bind (query (\<lambda>w. Inr (last_hash (audit_log w)))) (\<lambda>prevHash.
     let h = entryHMAC d masterKey (L_EventType p) (L_ActorID p) (L_TargetID p)
               actorEmailEnc targetEmailEnc detailsEnc prevHash in
     try_bind (query (\<lambda>_. Inr ())) (\<lambda>_.                \<comment> \<open>insert\<close>
     command (\<lambda>_. Inr ()) (\<lambda>w. w\<lparr>audit_log := audit_log w @       \<comment> \<open>commit\<close>
        [\<lparr>A_ID = next_id (audit_log w), A_CreatedAt = now w, A_EventType = L_EventType p,
          A_ActorID = L_ActorID p, A_ActorEmailEnc = actorEmailEnc, A_TargetID = L_TargetID p,
          A_TargetEmailEnc = targetEmailEnc, A_DetailsEnc = detailsEnc, A_PrevHash = prevHash,
          A_Hash = h\<rparr>]\<rparr>))))))))"

record VerifyResult =
  V_OK :: bool
  V_EntriesChecked :: int
  V_BrokenAtID :: int
  V_Complete :: bool

definition defaultVerifyLimit :: int where "defaultVerifyLimit = 50000"

definition row_valid :: "Deps \<Rightarrow> string \<Rightarrow> audit_row \<Rightarrow> bool" where
  "row_valid d masterKey r \<longleftrightarrow>
     \<not> (entryHMAC d masterKey (A_EventType r) (A_ActorID r) (A_TargetID r) (A_ActorEmailEnc r)
          (A_TargetEmailEnc r) (A_DetailsEnc r) (A_PrevHash r) \<noteq> A_Hash r
        \<and> legacyEntryHMAC d masterKey (A_EventType r) (A_ActorID r) (A_TargetID r) (A_PrevHash r)
          \<noteq> A_Hash r)"

text \<open>The loop of \<open>Verify\<close>; \<open>expected\<close> is \<open>None\<close> at the first row.\<close>

fun verify_loop ::
  "Deps \<Rightarrow> string \<Rightarrow> int \<Rightarrow> int \<Rightarrow> string option \<Rightarrow> audit_row list \<Rightarrow> VerifyResult" where
  "verify_loop d masterKey limit checked expected [] =
     \<lparr>V_OK = True, V_EntriesChecked = checked, V_BrokenAtID = 0, V_Complete = True\<rparr>"
| "verify_loop d masterKey limit checked expected (r # rows) =
     (if checked \<ge> limit
      then \<lparr>V_OK = True, V_EntriesChecked = checked, V_BrokenAtID = 0, V_Complete = False\<rparr>
      else
        let checked' = checked + 1;
            broken = \<lparr>V_OK = False, V_EntriesChecked = checked', V_BrokenAtID = A_ID r, V_Complete = False\<rparr> in
        if expected \<noteq> None \<and> expected \<noteq> Some (A_PrevHash r) then broken
        else if \<not> row_valid d masterKey r then broken
        else verify_loop d masterKey limit checked' (Some (A_Hash r)) rows)"

text \<open>
  \<open>Verify\<close> over the rows in order of their id. The query reads one row more than the limit; that
  number is computed in 64 bits, and Postgres refuses a negative \<open>LIMIT\<close>.
\<close>

definition verify_rows :: "Deps \<Rightarrow> string \<Rightarrow> int \<Rightarrow> audit_row list \<Rightarrow> VerifyResult res" where
  "verify_rows d masterKey limit0 rows =
     (let limit = (if limit0 \<le> 0 then defaultVerifyLimit else limit0) in
      if wrap64 (limit + 1) < 0 then Inl ErrExternal
      else Inr (verify_loop d masterKey limit 0 None (take (nat (wrap64 (limit + 1))) rows)))"

definition Verify :: "Deps \<Rightarrow> string \<Rightarrow> int \<Rightarrow> VerifyResult res io" where
  "Verify d masterKey limit = query (\<lambda>w. verify_rows d masterKey limit (audit_log w))"

section \<open>Reading\<close>

record ListParams =
  LP_EventType :: string
  LP_ActorID :: string
  LP_Since :: "int option"
  LP_Until :: "int option"
  LP_Search :: string
  LP_Limit :: int
  LP_Before :: int

record Entry =
  E_ID :: int
  E_CreatedAt :: int
  E_EventType :: string
  E_ActorID :: string
  E_ActorEmail :: string
  E_ActorName :: string
  E_TargetID :: string
  E_TargetEmail :: string
  E_TargetName :: string
  E_Details :: string
  E_PrevHash :: string
  E_Hash :: string

definition entryMatches :: "Entry \<Rightarrow> string \<Rightarrow> bool" where
  "entryMatches e needle \<longleftrightarrow>
     list_ex (\<lambda>f. f \<noteq> [] \<and> contains (to_lower f) needle)
       [E_EventType e, E_ActorID e, E_ActorEmail e, E_ActorName e,
        E_TargetID e, E_TargetEmail e, E_TargetName e, E_Details e]"

definition page_cond :: "ListParams \<Rightarrow> audit_row \<Rightarrow> bool" where
  "page_cond p r \<longleftrightarrow>
     (LP_EventType p = [] \<or> A_EventType r = LP_EventType p)
     \<and> (LP_ActorID p = [] \<or> A_ActorID r = LP_ActorID p)
     \<and> (case LP_Since p of None \<Rightarrow> True | Some t \<Rightarrow> A_CreatedAt r \<ge> t)
     \<and> (case LP_Until p of None \<Rightarrow> True | Some t \<Rightarrow> A_CreatedAt r \<le> t)"

definition decryptFailedMarker :: string where
  "decryptFailedMarker = ''<decryption failed>''"

definition show_field :: "Deps \<Rightarrow> string \<Rightarrow> string \<Rightarrow> string" where
  "show_field d masterKey enc =
     (case fst (Decrypt (d_aead d) [] masterKey enc) of Inl _ \<Rightarrow> decryptFailedMarker | Inr p \<Rightarrow> p)"

definition name_of :: "UserRow list \<Rightarrow> string \<Rightarrow> string" where
  "name_of us subject = (case List.find (\<lambda>u. U_Subject u = subject) us of None \<Rightarrow> [] | Some u \<Rightarrow> U_Name u)"

definition decode_row :: "Deps \<Rightarrow> string \<Rightarrow> UserRow list \<Rightarrow> audit_row \<Rightarrow> Entry" where
  "decode_row d masterKey us r =
     (let opt = (\<lambda>enc. if enc = [] then [] else show_field d masterKey enc) in
      \<lparr>E_ID = A_ID r, E_CreatedAt = A_CreatedAt r, E_EventType = A_EventType r,
       E_ActorID = A_ActorID r, E_ActorEmail = show_field d masterKey (A_ActorEmailEnc r),
       E_ActorName = opt (name_of us (A_ActorID r)), E_TargetID = A_TargetID r,
       E_TargetEmail = opt (A_TargetEmailEnc r), E_TargetName = opt (name_of us (A_TargetID r)),
       E_Details = opt (A_DetailsEnc r), E_PrevHash = A_PrevHash r, E_Hash = A_Hash r\<rparr>)"

text \<open>One page, newest first: the rows that pass the filters, below the cursor when it is set.\<close>

definition page_rows :: "ListParams \<Rightarrow> nat \<Rightarrow> int \<Rightarrow> audit_row list \<Rightarrow> audit_row list" where
  "page_rows p limit before rows =
     take limit (filter (\<lambda>r. page_cond p r \<and> (before > 0 \<longrightarrow> A_ID r < before)) (rev rows))"

definition queryPage :: "Deps \<Rightarrow> string \<Rightarrow> ListParams \<Rightarrow> nat \<Rightarrow> int \<Rightarrow> Entry list res io" where
  "queryPage d masterKey p limit before =
     query (\<lambda>w. Inr (map (decode_row d masterKey (users w)) (page_rows p limit before (audit_log w))))"

definition searchScanBatch :: nat where "searchScanBatch = 500"
definition searchScanCap :: nat where "searchScanCap = 20000"

text \<open>The matches of one batch, stopping at the limit: the results so far and whether it stopped.\<close>

fun scan_batch :: "string \<Rightarrow> nat \<Rightarrow> Entry list \<Rightarrow> Entry list \<Rightarrow> Entry list \<times> bool" where
  "scan_batch needle limit results [] = (results, False)"
| "scan_batch needle limit results (e # batch) =
     (if entryMatches e needle then
        (if length (results @ [e]) \<ge> limit then (results @ [e], True)
         else scan_batch needle limit (results @ [e]) batch)
      else scan_batch needle limit results batch)"

text \<open>
  The search loop. \<open>fuel\<close> bounds the rounds: each one scans at least one row, so
  \<open>searchScanCap\<close> rounds are enough.
\<close>

fun search_loop ::
  "Deps \<Rightarrow> string \<Rightarrow> ListParams \<Rightarrow> string \<Rightarrow> nat \<Rightarrow> nat \<Rightarrow> Entry list \<Rightarrow> int \<Rightarrow> nat \<Rightarrow> Entry list res io" where
  "search_loop d mk p needle limit 0 results cursor scanned = ok results"
| "search_loop d mk p needle limit (Suc fuel) results cursor scanned =
     (if \<not> scanned < searchScanCap then ok results
      else try_bind (queryPage d mk p searchScanBatch cursor) (\<lambda>batch.
        if batch = [] then ok results
        else let (results', stop) = scan_batch needle limit results batch in
          if stop then ok results'
          else if length batch < searchScanBatch then ok results'
          else search_loop d mk p needle limit fuel results' (E_ID (last batch)) (scanned + length batch)))"

definition List_entries :: "Deps \<Rightarrow> string \<Rightarrow> ListParams \<Rightarrow> Entry list res io" where
  "List_entries d masterKey p =
     (let limit = (if LP_Limit p \<le> 0 \<or> LP_Limit p > 200 then 50 else nat (LP_Limit p));
          needle = to_lower (trim_space (LP_Search p)) in
      if needle = [] then queryPage d masterKey p limit (LP_Before p)
      else search_loop d masterKey p needle limit searchScanCap [] (LP_Before p) 0)"

section \<open>The chain\<close>

text \<open>Every row is valid and carries the hash of the row before.\<close>

fun chained :: "Deps \<Rightarrow> string \<Rightarrow> string option \<Rightarrow> audit_row list \<Rightarrow> bool" where
  "chained d mk expected [] = True"
| "chained d mk expected (r # rows) \<longleftrightarrow>
     (expected = None \<or> expected = Some (A_PrevHash r)) \<and> row_valid d mk r
     \<and> chained d mk (Some (A_Hash r)) rows"

lemma chained_append:
  "chained d mk e (rows @ [r]) \<longleftrightarrow>
     chained d mk e rows \<and> row_valid d mk r
     \<and> (if rows = [] then e = None \<or> e = Some (A_PrevHash r) else A_PrevHash r = A_Hash (last rows))"
  by (induction rows arbitrary: e) auto

lemma verify_loop_ok:
  "V_OK (verify_loop d mk limit checked e rows) \<longleftrightarrow>
     chained d mk e (take (nat (limit - checked)) rows)"
proof (induction rows arbitrary: checked e)
  case (Cons r rows)
  show ?case
  proof (cases "checked \<ge> limit")
    case False
    then have "nat (limit - checked) = Suc (nat (limit - (checked + 1)))" by simp
    with Cons [of "checked + 1" "Some (A_Hash r)"] False show ?thesis
      by (auto simp: Let_def)
  qed simp
qed simp

lemma verify_loop_complete:
  "V_Complete (verify_loop d mk limit checked e rows) \<longleftrightarrow>
     chained d mk e rows \<and> int (length rows) \<le> max 0 (limit - checked)"
proof (induction rows arbitrary: checked e)
  case (Cons r rows)
  then show ?case
    by (cases "checked \<ge> limit") (auto simp: Let_def)
qed simp

lemma chained_take: "chained d mk e rows \<Longrightarrow> chained d mk e (take n rows)"
proof (induction rows arbitrary: e n)
  case (Cons r rows)
  then show ?case by (cases n) auto
qed simp

lemma chained_last:
  "chained d mk e (rows @ [r]) \<Longrightarrow> rows \<noteq> [] \<Longrightarrow> A_PrevHash r = last_hash rows"
  by (simp add: chained_append last_hash_def)

text \<open>What \<open>Log\<close> can do to the log: nothing, or append one valid row linked to the last.\<close>

definition appends_row :: "Deps \<Rightarrow> string \<Rightarrow> LogParams \<Rightarrow> world \<Rightarrow> world \<Rightarrow> bool" where
  "appends_row d mk p w t \<longleftrightarrow>
     audit_log t = audit_log w
     \<or> (\<exists>row. audit_log t = audit_log w @ [row] \<and> row_valid d mk row
          \<and> A_PrevHash row = last_hash (audit_log w) \<and> A_EventType row = L_EventType p
          \<and> A_ActorID row = L_ActorID p \<and> A_TargetID row = L_TargetID p
          \<and> A_ID row = next_id (audit_log w))"

lemma wp_Log_rows: "wp (Log d mk p) (\<lambda>r t. appends_row d mk p w t) w"
proof -
  have *: "wp (encrypt_io d mk e) (\<lambda>r t. \<forall>a. r = Inr a \<longrightarrow> wp (f a) (\<lambda>_. appends_row d mk p w) t) w"
    if "\<And>a t. audit_log t = audit_log w \<Longrightarrow> wp (f a) (\<lambda>_. appends_row d mk p w) t" for e and f :: "string \<Rightarrow> unit res io"
    using that by (intro wp_encrypt) (simp add: enc_frameD)
  have step: "wp (try_bind (encrypt_io d mk e) f) (\<lambda>_. appends_row d mk p w) u"
      "wp (try_bind (encrypt_if_io d mk e) f) (\<lambda>_. appends_row d mk p w) u"
    if "audit_log u = audit_log w"
      "\<And>a t. audit_log t = audit_log w \<Longrightarrow> wp (f a) (\<lambda>_. appends_row d mk p w) t"
    for e and f :: "string \<Rightarrow> unit res io" and u
  proof -
    have u: "appends_row d mk p w t" if "audit_log t = audit_log w" for t
      using that by (simp add: appends_row_def)
    show "wp (try_bind (encrypt_io d mk e) f) (\<lambda>_. appends_row d mk p w) u"
      unfolding wp_try by (rule wp_encrypt) (use that u in \<open>simp add: enc_frameD\<close>)
    show "wp (try_bind (encrypt_if_io d mk e) f) (\<lambda>_. appends_row d mk p w) u"
      unfolding wp_try by (rule wp_encrypt_if) (use that u in \<open>simp add: enc_frameD\<close>)
  qed
  show ?thesis
    unfolding Log_def
    by (intro step refl)
      (auto simp: io_simps wp_query wp_command appends_row_def row_valid_def Let_def)
qed

lemma Log_keeps_chain: "keeps (\<lambda>w. chained d mk None (audit_log w)) (Log d mk p)"
  unfolding keeps_wp
proof (intro allI impI)
  fix w :: world assume "chained d mk None (audit_log w)"
  then show "wp (Log d mk p) (\<lambda>_ t. chained d mk None (audit_log t)) w"
    by (intro wp_mono [OF wp_Log_rows]) (auto simp: appends_row_def chained_append last_hash_def)
qed

text \<open>The ids of the log grow.\<close>

definition ids_sorted :: "audit_row list \<Rightarrow> bool" where
  "ids_sorted rows \<longleftrightarrow> sorted_wrt (\<lambda>r s. A_ID r < A_ID s) rows \<and> (\<forall>r \<in> set rows. 0 < A_ID r)"

lemma ids_sorted_append:
  "ids_sorted rows \<Longrightarrow> A_ID r = next_id rows \<Longrightarrow> ids_sorted (rows @ [r])"
proof (induction rows rule: rev_induct)
  case (snoc s rows)
  then have "A_ID q < A_ID s" if "q \<in> set rows" for q
    using that by (auto simp: ids_sorted_def sorted_wrt_append)
  with snoc show ?case by (fastforce simp: ids_sorted_def sorted_wrt_append next_id_def)
qed (simp add: ids_sorted_def next_id_def)

lemma Log_keeps_ids: "keeps (\<lambda>w. ids_sorted (audit_log w)) (Log d mk p)"
  unfolding keeps_wp
proof (intro allI impI)
  fix w :: world assume "ids_sorted (audit_log w)"
  then show "wp (Log d mk p) (\<lambda>_ t. ids_sorted (audit_log t)) w"
    by (intro wp_mono [OF wp_Log_rows]) (auto simp: appends_row_def ids_sorted_append)
qed

section \<open>The chain pins the fields\<close>

text \<open>Without the separator in the fields, the text of an entry determines them.\<close>

definition bar_free :: "string \<Rightarrow> bool" where "bar_free s \<longleftrightarrow> CHR ''|'' \<notin> set s"

lemma join_bar_inj:
  assumes "join_with ''|'' us = join_with ''|'' vs" and "us \<noteq> []" and "vs \<noteq> []"
    and "\<And>u. u \<in> set us \<Longrightarrow> bar_free u" and "\<And>v. v \<in> set vs \<Longrightarrow> bar_free v"
  shows "us = vs"
proof -
  have "split_on CHR ''|'' (join_with ''|'' us) = us"
    using assms(2,4) by (intro split_join) (auto simp: bar_free_def)
  moreover have "split_on CHR ''|'' (join_with ''|'' vs) = vs"
    using assms(3,5) by (intro split_join) (auto simp: bar_free_def)
  ultimately show ?thesis using assms(1) by metis
qed

definition row_bar_free :: "audit_row \<Rightarrow> bool" where
  "row_bar_free r \<longleftrightarrow> list_all bar_free
     [A_EventType r, A_ActorID r, A_TargetID r, A_ActorEmailEnc r, A_TargetEmailEnc r, A_DetailsEnc r, A_PrevHash r]"

definition is_legacy :: "Deps \<Rightarrow> string \<Rightarrow> audit_row \<Rightarrow> bool" where
  "is_legacy d mk r \<longleftrightarrow>
     legacyEntryHMAC d mk (A_EventType r) (A_ActorID r) (A_TargetID r) (A_PrevHash r) = A_Hash r"

text \<open>What two rows with the same hash must share.\<close>

definition same_fields :: "Deps \<Rightarrow> string \<Rightarrow> audit_row \<Rightarrow> audit_row \<Rightarrow> bool" where
  "same_fields d mk r s \<longleftrightarrow>
     A_EventType r = A_EventType s \<and> A_ActorID r = A_ActorID s \<and> A_TargetID r = A_TargetID s
     \<and> A_PrevHash r = A_PrevHash s \<and> A_Hash r = A_Hash s
     \<and> (\<not> is_legacy d mk r \<longrightarrow>
          A_ActorEmailEnc r = A_ActorEmailEnc s \<and> A_TargetEmailEnc r = A_TargetEmailEnc s
          \<and> A_DetailsEnc r = A_DetailsEnc s)"

text \<open>The texts whose HMAC a row may carry; two different ones, of two logs, with the same HMAC.\<close>

definition row_texts :: "audit_row \<Rightarrow> string set" where
  "row_texts r = {entry_text (A_EventType r) (A_ActorID r) (A_TargetID r) (A_ActorEmailEnc r) (A_TargetEmailEnc r)
       (A_DetailsEnc r) (A_PrevHash r), join_with ''|'' [A_EventType r, A_ActorID r, A_TargetID r, A_PrevHash r]}"

definition hmac_collision :: "Deps \<Rightarrow> string \<Rightarrow> audit_row list \<Rightarrow> audit_row list \<Rightarrow> bool" where
  "hmac_collision d mk rows rows' \<longleftrightarrow>
     (\<exists>r\<in>set rows. \<exists>s\<in>set rows'. \<exists>x\<in>row_texts r. \<exists>y\<in>row_texts s. x \<noteq> y \<and> d_hmac d mk x = d_hmac d mk y)"

lemma same_hash_same_fields:
  assumes inj: "\<And>x y. x \<in> row_texts r \<Longrightarrow> y \<in> row_texts s \<Longrightarrow> d_hmac d mk x = d_hmac d mk y \<Longrightarrow> x = y"
    and "row_valid d mk r" "row_valid d mk s" "row_bar_free r" "row_bar_free s" "A_Hash r = A_Hash s"
  shows "same_fields d mk r s"
proof -
  define full where "full = (\<lambda>r :: audit_row. [A_EventType r, A_ActorID r, A_TargetID r, A_ActorEmailEnc r,
      A_TargetEmailEnc r, A_DetailsEnc r, A_PrevHash r])"
  define leg where "leg = (\<lambda>r :: audit_row. [A_EventType r, A_ActorID r, A_TargetID r, A_PrevHash r])"
  have h: "A_Hash q = hex_encode (d_hmac d mk (join_with ''|'' (full q)))
      \<or> A_Hash q = hex_encode (d_hmac d mk (join_with ''|'' (leg q)))" if "row_valid d mk q" for q
    using that by (auto simp: row_valid_def entryHMAC_def legacyEntryHMAC_def entry_text_def full_def leg_def)
  have free: "bar_free x" if "x \<in> set (full q) \<union> set (leg q)" "q = r \<or> q = s" for x q
    using that assms(4,5) by (auto simp: full_def leg_def row_bar_free_def)
  have eq: "us = vs" if "hex_encode (d_hmac d mk (join_with ''|'' us)) = hex_encode (d_hmac d mk (join_with ''|'' vs))"
      "us \<in> {full r, leg r}" "vs \<in> {full s, leg s}" for us vs
  proof (rule join_bar_inj)
    have "join_with ''|'' us \<in> row_texts r" "join_with ''|'' vs \<in> row_texts s"
      using that(2,3) by (auto simp: row_texts_def entry_text_def full_def leg_def)
    then show "join_with ''|'' us = join_with ''|'' vs" using that(1) inj hex_text.enc_inj by metis
    show "us \<noteq> []" "vs \<noteq> []" using that(2,3) by (auto simp: full_def leg_def)
    show "bar_free x" if "x \<in> set us" for x using that free [of x r] \<open>us \<in> _\<close> by auto
    show "bar_free x" if "x \<in> set vs" for x using that free [of x s] \<open>vs \<in> _\<close> by auto
  qed
  have r: "A_Hash r = hex_encode (d_hmac d mk (join_with ''|'' (leg r))) \<longleftrightarrow> is_legacy d mk r"
    by (auto simp: is_legacy_def legacyEntryHMAC_def leg_def)
  from h [OF assms(2)] show ?thesis
  proof
    assume a: "A_Hash r = hex_encode (d_hmac d mk (join_with ''|'' (full r)))"
    then have "full r = full s \<or> full r = leg s" using h [OF assms(3)] assms(6) eq by auto
    then have "full r = full s" by (auto simp: full_def leg_def)
    then show ?thesis using assms(6) by (simp add: same_fields_def full_def)
  next
    assume a: "A_Hash r = hex_encode (d_hmac d mk (join_with ''|'' (leg r)))"
    then have "leg r = full s \<or> leg r = leg s" using h [OF assms(3)] assms(6) eq by auto
    then have "leg r = leg s" by (auto simp: full_def leg_def)
    then show ?thesis using assms(6) a r by (simp add: same_fields_def leg_def)
  qed
qed

lemma chain_pins_rows:
  assumes inj: "\<not> hmac_collision d mk rows rows'"
    and "chained d mk None rows" "chained d mk None rows'"
    and "list_all row_bar_free rows" "list_all row_bar_free rows'"
    and "length rows = length rows'" and "last_hash rows = last_hash rows'"
  shows "list_all2 (same_fields d mk) rows rows'"
  using assms
proof (induction rows arbitrary: rows' rule: rev_induct)
  case (snoc r rows)
  then obtain rows1 r1 where rows': "rows' = rows1 @ [r1]"
    by (cases rows' rule: rev_cases) auto
  have f: "same_fields d mk r r1"
  proof (rule same_hash_same_fields)
    show "x = y" if "x \<in> row_texts r" "y \<in> row_texts r1" "d_hmac d mk x = d_hmac d mk y" for x y
      using snoc.prems(1) rows' that by (auto simp: hmac_collision_def)
  qed (use snoc.prems rows' in \<open>auto simp: chained_append last_hash_def\<close>)
  have "last_hash rows = last_hash rows1"
  proof (cases "rows = []")
    case True
    then show ?thesis using snoc.prems rows' by simp
  next
    case False
    then have "A_PrevHash r = last_hash rows" "A_PrevHash r1 = last_hash rows1"
      using snoc.prems rows' by (auto simp: chained_append last_hash_def)
    with f show ?thesis by (simp add: same_fields_def)
  qed
  then have "list_all2 (same_fields d mk) rows rows1"
    using snoc.prems rows' by (intro snoc.IH) (auto simp: chained_append hmac_collision_def)
  with f rows' show ?case by (simp add: list_all2_appendI)
qed simp

section \<open>Paged search\<close>

lemma scan_batch_eq:
  "length results < limit \<Longrightarrow>
     scan_batch needle limit results batch =
       (take limit (results @ filter (\<lambda>e. entryMatches e needle) batch),
        limit \<le> length (results @ filter (\<lambda>e. entryMatches e needle) batch))"
proof (induction batch arbitrary: results)
  case (Cons e batch)
  have one: "limit - length results = Suc 0" if "limit \<le> Suc (length results)"
    using that Cons.prems by simp
  show ?case
    by (cases "limit \<le> Suc (length results)")
      (use Cons.IH [of "results @ [e]"] Cons.IH [of results] Cons.prems one in auto)
qed simp

lemma filter_below_last:
  assumes "sorted_wrt (\<lambda>r s. A_ID s < A_ID r) xs" and "0 < n" and "n \<le> length xs"
  shows "filter (\<lambda>r. A_ID r < A_ID (last (take n xs))) xs = drop n xs"
proof -
  have t: "take n xs = take (n - 1) xs @ [xs ! (n - 1)]"
    using assms(2,3) take_Suc_conv_app_nth [of "n - 1" xs] by simp
  have s: "sorted_wrt (\<lambda>r s. A_ID s < A_ID r) (take n xs @ drop n xs)"
    using assms(1) by simp
  have "\<not> A_ID r < A_ID (last (take n xs))" if "r \<in> set (take n xs)" for r
    using s that unfolding t by (auto simp: sorted_wrt_append)
  moreover have "A_ID r < A_ID (last (take n xs))" if "r \<in> set (drop n xs)" for r
    using s that unfolding t by (auto simp: sorted_wrt_append)
  ultimately have "filter (\<lambda>r. A_ID r < A_ID (last (take n xs))) (take n xs @ drop n xs) = drop n xs"
    unfolding filter_append by (simp add: filter_empty_conv)
  then show ?thesis by simp
qed

text \<open>What is left to scan below a cursor, newest first.\<close>

definition rest_rows :: "ListParams \<Rightarrow> int \<Rightarrow> audit_row list \<Rightarrow> audit_row list" where
  "rest_rows p cursor rows =
     filter (\<lambda>r. page_cond p r \<and> (cursor > 0 \<longrightarrow> A_ID r < cursor)) (rev rows)"

lemma page_rows_rest: "page_rows p limit cursor rows = take limit (rest_rows p cursor rows)"
  by (simp add: page_rows_def rest_rows_def)

lemma rest_sorted: "ids_sorted rows \<Longrightarrow> sorted_wrt (\<lambda>r s. A_ID s < A_ID r) (rest_rows p cursor rows)"
  unfolding rest_rows_def ids_sorted_def
  by (intro sorted_wrt_filter) (simp add: sorted_wrt_rev)

lemma rest_positive: "ids_sorted rows \<Longrightarrow> r \<in> set (rest_rows p cursor rows) \<Longrightarrow> 0 < A_ID r"
  by (auto simp: rest_rows_def ids_sorted_def)

lemma rest_rows_next:
  assumes "ids_sorted rows" and "0 < n" and "n \<le> length (rest_rows p cursor rows)"
  shows "rest_rows p (A_ID (last (take n (rest_rows p cursor rows)))) rows = drop n (rest_rows p cursor rows)"
proof -
  let ?R = "rest_rows p cursor rows" and ?c = "A_ID (last (take n (rest_rows p cursor rows)))"
  have "last (take n ?R) \<in> set ?R"
    using assms(2,3) by (metis in_set_takeD last_in_set length_greater_0_conv list.size(3) not_le take_eq_Nil)
  then have pos: "0 < ?c" and le: "cursor > 0 \<longrightarrow> ?c < cursor"
    using rest_positive [OF assms(1)] by (auto simp: rest_rows_def)
  have "rest_rows p ?c rows = filter (\<lambda>r. A_ID r < ?c) ?R"
    using pos le unfolding rest_rows_def filter_filter by (intro filter_cong) auto
  then show ?thesis using filter_below_last [OF rest_sorted [OF assms(1)] assms(2,3)] by simp
qed

lemma E_ID_decode [simp]: "E_ID (decode_row d mk us r) = A_ID r"
  by (simp add: decode_row_def Let_def)

lemma wp_queryPage_done:
  "all_done w \<Longrightarrow> wp (queryPage d mk p limit c) Q w =
     Q (Inr (map (decode_row d mk (users w)) (take limit (rest_rows p c (audit_log w)))))
       (w\<lparr>calls := Suc (calls w)\<rparr>)"
  by (simp add: queryPage_def wp_query_done page_rows_rest)

lemma wp_search_loop:
  assumes "all_done w" and "ids_sorted (audit_log w)" and "length results < limit"
    and "scanned = k * searchScanBatch" and "scanned \<le> searchScanCap" and "searchScanCap - scanned \<le> fuel"
  shows "wp (search_loop d mk p needle limit fuel results cursor scanned)
    (\<lambda>r _. r = Inr (take limit (results @ filter (\<lambda>e. entryMatches e needle)
       (map (decode_row d mk (users w)) (take (searchScanCap - scanned) (rest_rows p cursor (audit_log w))))))) w"
  using assms
proof (induction fuel arbitrary: results cursor scanned k w)
  case 0
  then show ?case by (simp add: io_simps)
next
  case (Suc fuel)
  let ?R = "rest_rows p cursor (audit_log w)" and ?dec = "decode_row d mk (users w)"
  let ?m = "filter (\<lambda>e. entryMatches e needle)"
  show ?case
  proof (cases "scanned < searchScanCap")
    case False
    then show ?thesis using Suc.prems by (simp add: io_simps)
  next
    case True
    have cap: "searchScanBatch \<le> searchScanCap - scanned"
      using True Suc.prems(4) by (auto simp: searchScanBatch_def searchScanCap_def)
    define batch where "batch = map ?dec (take searchScanBatch ?R)"
    have split: "?m (map ?dec (take (searchScanCap - scanned) ?R))
        = ?m batch @ ?m (map ?dec (take (searchScanCap - scanned - searchScanBatch) (drop searchScanBatch ?R)))"
    proof -
      have "searchScanCap - scanned = searchScanBatch + (searchScanCap - scanned - searchScanBatch)"
        using cap by simp
      then have "take (searchScanCap - scanned) ?R = take searchScanBatch ?R
          @ take (searchScanCap - scanned - searchScanBatch) (drop searchScanBatch ?R)"
        by (metis take_add)
      then show ?thesis by (simp only: batch_def map_append filter_append)
    qed
    note sb = scan_batch_eq [OF Suc.prems(3), of needle batch]
    consider (empty) "batch = []" | (stop) "batch \<noteq> []" "limit \<le> length (results @ ?m batch)"
      | (short) "batch \<noteq> []" "\<not> limit \<le> length (results @ ?m batch)" "length batch < searchScanBatch"
      | (next_batch) "\<not> limit \<le> length (results @ ?m batch)" "length batch = searchScanBatch"
      by (cases "length batch < searchScanBatch"; force simp: batch_def)
    then show ?thesis
    proof cases
      case empty
      then have "?R = []" by (auto simp: batch_def searchScanBatch_def)
      with True empty Suc.prems show ?thesis
        by (simp add: io_simps wp_queryPage_done flip: batch_def)
    next
      case stop
      then show ?thesis using True Suc.prems sb split
        by (simp add: io_simps wp_queryPage_done flip: batch_def)
    next
      case short
      have "?m (map ?dec (take (searchScanCap - scanned) ?R)) = ?m batch"
        unfolding split using short by (simp add: batch_def)
      then show ?thesis using short True Suc.prems sb
        by (simp add: io_simps wp_queryPage_done flip: batch_def)
    next
      case next_batch
      then have len: "searchScanBatch \<le> length ?R" by (simp add: batch_def)
      have ne: "take searchScanBatch ?R \<noteq> []" "0 < searchScanBatch"
        using len by (auto simp: searchScanBatch_def)
      then have cur: "E_ID (last batch) = A_ID (last (take searchScanBatch ?R))"
        by (simp add: batch_def last_map)
      note nx = rest_rows_next [OF Suc.prems(2) ne(2) len]
      have ih: "wp (search_loop d mk p needle limit fuel (results @ ?m batch) (E_ID (last batch)) (scanned + searchScanBatch))
        (\<lambda>r _. r = Inr (take limit ((results @ ?m batch) @ ?m (map ?dec
           (take (searchScanCap - (scanned + searchScanBatch)) (drop searchScanBatch ?R)))))) (w\<lparr>calls := Suc (calls w)\<rparr>)"
        using Suc.IH [of "w\<lparr>calls := Suc (calls w)\<rparr>" "results @ ?m batch" "scanned + searchScanBatch" "Suc k" "E_ID (last batch)"]
          Suc.prems next_batch cap nx cur ne(2) by (simp add: searchScanBatch_def)
      have "batch \<noteq> []" using ne by (simp add: batch_def)
      then show ?thesis using True Suc.prems sb split next_batch ih
        by (simp add: io_simps wp_queryPage_done flip: batch_def)
    qed
  qed
qed

section \<open>Properties\<close>

text \<open>
  The system of writers: between two calls of \<open>Log\<close> anything may happen to the world, except to
  the log itself, which a trigger in the database makes append-only.
\<close>

definition log_step :: "Deps \<Rightarrow> string \<Rightarrow> world \<Rightarrow> LogParams \<Rightarrow> world \<Rightarrow> bool" where
  "log_step d mk w p t \<longleftrightarrow>
     (\<exists>u. audit_log u = audit_log w \<and> t = snd (run_state (Log d mk p) u))"

interpretation audit_chain: step_system
  "\<lambda>w. audit_log w = []" "log_step d mk" "\<lambda>w. chained d mk None (audit_log w)" for d mk
proof unfold_locales
  fix s t :: world and l
  assume "chained d mk None (audit_log s)" "log_step d mk s l t"
  then obtain u where "chained d mk None (audit_log u)" "t = snd (run_state (Log d mk l) u)"
    unfolding log_step_def by metis
  then show "chained d mk None (audit_log t)"
    using Log_keeps_chain [of d mk l] by (auto simp: keeps_def)
qed simp

text \<open>
  C6: a log nobody tampered with verifies. Whatever calls fail or are not acknowledged on the way,
  after any sequence of \<open>Log\<close> calls on an empty log \<open>Verify\<close> with a limit from 1 up to one below the
  largest 64-bit integer reports no break, and reports the check complete exactly when the log is
  no longer than the limit. With the largest 64-bit integer as limit it fails.
\<close>

theorem logged_verifies:
  assumes "audit_log w0 = []" and "steps (log_step d mk) w0 ps w" and "0 < limit" and "limit \<le> max_int64"
  shows "if limit = max_int64 then verify_rows d mk limit (audit_log w) = Inl ErrExternal
    else \<exists>v. verify_rows d mk limit (audit_log w) = Inr v \<and> V_OK v
      \<and> (V_Complete v \<longleftrightarrow> int (length (audit_log w)) \<le> limit)"
proof -
  have "chained d mk None (audit_log w)"
    using audit_chain.reachable_inv [OF assms(1,2)] .
  moreover have "wrap64 (limit + 1) = limit + 1" if "limit \<noteq> max_int64"
    using assms(3,4) that by (intro wrap64_id) (auto simp: min_int64_def)
  moreover have "wrap64 (max_int64 + 1) < 0" "0 < max_int64" by (simp_all add: wrap64_def max_int64_def)
  ultimately show ?thesis using assms(3,4)
    by (auto simp: verify_rows_def Let_def verify_loop_ok verify_loop_complete chained_take)
qed

definition sample_deps :: Deps where
  "sample_deps = \<lparr>d_aead = plain_aead, d_sha256 = (\<lambda>x. x), d_hmac = (\<lambda>k m. k @ m),
     d_quote = (\<lambda>s. s), d_mail = (\<lambda>kind args. (kind, join_with '' '' args)),
     d_city = (\<lambda>_. ([], [])), d_asn = (\<lambda>_. []), d_rdns = (\<lambda>_. None), d_PoolKey = sample_key, d_MasterKeyEnv = sample_key,
     d_PublicBaseURL = ''https://core'', d_FrontendBaseURL = ''https://app'',
     d_provider = (\<lambda>_ _. True), d_exchange = (\<lambda>_ _ _. Inl ErrExternal),
     d_revalidate = (\<lambda>_ _. Inl ErrExternal)\<rparr>"

definition empty_world :: world where
  "empty_world = \<lparr>now = 1000, outcomes = (\<lambda>_. Done), calls = 0, random = (\<lambda>_. CHR ''r''), drawn = 0,
     gcm = [], vk = (\<lambda>_. None), users = [], settings = (\<lambda>_. None), audit_log = [],
     published = [], mail_queue = [], idp_revoked = []\<rparr>"

definition sample_entry :: LogParams where
  "sample_entry = \<lparr>L_EventType = ''auth.login'', L_ActorID = ''u1'', L_ActorEmail = ''a@b'',
     L_TargetID = [], L_TargetEmail = [], L_Details = []\<rparr>"

lemma sample_log_length:
  "length (audit_log (snd (run_state (Log sample_deps sample_key sample_entry) empty_world))) = 1"
  by code_simp

theorem logged_verifies_witness:
  "\<exists>v. verify_rows sample_deps sample_key 10
      (audit_log (snd (run_state (Log sample_deps sample_key sample_entry) empty_world))) = Inr v \<and> V_OK v \<and> V_Complete v"
proof -
  have "steps (log_step sample_deps sample_key) empty_world [sample_entry]
      (snd (run_state (Log sample_deps sample_key sample_entry) empty_world))"
    by (auto simp: log_step_def)
  from logged_verifies [OF _ this, of 10] sample_log_length show ?thesis
    by (auto simp: empty_world_def max_int64_def)
qed


definition sample_row :: audit_row where
  "sample_row = \<lparr>A_ID = 1, A_CreatedAt = 0, A_EventType = ''e'', A_ActorID = ''a'',
     A_ActorEmailEnc = ''x'', A_TargetID = ''t'', A_TargetEmailEnc = [], A_DetailsEnc = [],
     A_PrevHash = [], A_Hash = entryHMAC sample_deps sample_key ''e'' ''a'' ''t'' ''x'' [] [] []\<rparr>"

text \<open>The same row with another e-mail address in it, and the same hash.\<close>

definition forged_row :: audit_row where
  "forged_row = sample_row\<lparr>A_ActorEmailEnc := ''y'', A_ID := 2\<rparr>"

lemma sample_row_ok:
  "verify_rows sample_deps sample_key 5 [sample_row]
     = Inr \<lparr>V_OK = True, V_EntriesChecked = 1, V_BrokenAtID = 0, V_Complete = True\<rparr>" "row_bar_free sample_row"
  by code_simp+


text \<open>
  The covered text is ambiguous when a field holds the separator: two different entries, one
  of them naming another actor and another target, have the same HMAC under every key, so moving a
  bar between the actor and the target of a stored row is not detected.
\<close>

theorem entry_text_ambiguous:
  "entryHMAC d mk ''user.locked'' ''alice|bob'' ''carol'' em te de prev
     = entryHMAC d mk ''user.locked'' ''alice'' ''bob|carol'' em te de prev"
  by (simp add: entryHMAC_def entry_text_def)

text \<open>
  The paged search is the plain one. A search returns the first matches, newest first, among
  the first 20,000 rows that pass the filters, up to the limit: paging by id cursor neither skips
  nor repeats a row, and the loop ends.
\<close>

theorem search_is_filter:
  assumes "all_done w" and "ids_sorted (audit_log w)" and "to_lower (trim_space (LP_Search p)) \<noteq> []"
  shows "fst (run_state (List_entries d mk p) w) =
    Inr (take (if LP_Limit p \<le> 0 \<or> LP_Limit p > 200 then 50 else nat (LP_Limit p))
      (filter (\<lambda>e. entryMatches e (to_lower (trim_space (LP_Search p))))
        (map (decode_row d mk (users w))
          (take searchScanCap (rest_rows p (LP_Before p) (audit_log w))))))"
proof -
  let ?l = "if LP_Limit p \<le> 0 \<or> LP_Limit p > 200 then 50 else nat (LP_Limit p)"
  have "length [] < ?l" "0 = 0 * searchScanBatch" "0 \<le> searchScanCap" "searchScanCap - 0 \<le> searchScanCap"
    by auto
  from wp_search_loop [OF assms(1,2) this, of d mk p "to_lower (trim_space (LP_Search p))" "LP_Before p"]
  show ?thesis using assms(3) by (simp add: List_entries_def wp_run Let_def)
qed

definition sample_search :: ListParams where
  "sample_search = \<lparr>LP_EventType = [], LP_ActorID = [], LP_Since = None, LP_Until = None,
     LP_Search = '' E '', LP_Limit = 2, LP_Before = 0\<rparr>"

theorem search_is_filter_witness:
  "fst (run_state (List_entries sample_deps sample_key sample_search) (empty_world\<lparr>audit_log := [sample_row]\<rparr>))
     = Inr [decode_row sample_deps sample_key [] sample_row]"
proof -
  have p: "to_lower (trim_space (LP_Search sample_search)) = ''e''" by code_simp
  have "all_done (empty_world\<lparr>audit_log := [sample_row]\<rparr>)"
    by (simp add: all_done_def empty_world_def)
  moreover have "ids_sorted (audit_log (empty_world\<lparr>audit_log := [sample_row]\<rparr>))"
    by (simp add: ids_sorted_def sample_row_def)
  ultimately have "fst (run_state (List_entries sample_deps sample_key sample_search) (empty_world\<lparr>audit_log := [sample_row]\<rparr>))
     = Inr (take 2 (filter (\<lambda>e. entryMatches e ''e'') (map (decode_row sample_deps sample_key [])
          (take searchScanCap (rest_rows sample_search 0 [sample_row])))))"
    using search_is_filter [of "empty_world\<lparr>audit_log := [sample_row]\<rparr>" sample_search sample_deps sample_key] p
    by (simp add: empty_world_def sample_search_def)
  moreover have "rest_rows sample_search 0 [sample_row] = [sample_row]"
    by (simp add: rest_rows_def page_cond_def sample_search_def)
  moreover have "entryMatches (decode_row sample_deps sample_key [] sample_row) ''e''" by code_simp
  ultimately show ?thesis by (simp add: searchScanCap_def)
qed

end
