(* ===== verification/Users.thy ===== *)
theory Users
  imports AuditLog
begin

text \<open>
  \<open>db/users.go\<close> and the settings of \<open>db/schema_core.go\<close>: the SQL statements on the \<open>users\<close> and
  \<open>core_settings\<close> tables as functions on the list of rows, and \<open>mail.Enqueue\<close>. Email and name are
  stored encrypted under the pool's key.
\<close>

section \<open>Rows\<close>

definition find_user :: "UserRow list \<Rightarrow> string \<Rightarrow> UserRow option" where
  "find_user us subject = List.find (\<lambda>u. U_Subject u = subject) us"

definition update_user :: "string \<Rightarrow> (UserRow \<Rightarrow> UserRow) \<Rightarrow> world \<Rightarrow> world" where
  "update_user subject f w =
     w\<lparr>users := map (\<lambda>u. if U_Subject u = subject then f u else u) (users w)\<rparr>"

definition affected :: "string \<Rightarrow> world \<Rightarrow> nat" where
  "affected subject w = length (filter (\<lambda>u. U_Subject u = subject) (users w))"

text \<open>The primary key: one row per subject.\<close>

definition users_ok :: "UserRow list \<Rightarrow> bool" where
  "users_ok us \<longleftrightarrow> distinct (map U_Subject us)"

section \<open>Operations\<close>

definition default_prefs :: NotificationPrefs where
  "default_prefs = \<lparr>P_NewLogin = True, P_CountryAnomaly = True, P_NewDevice = True,
     P_SessionRevokedByAdmin = True\<rparr>"

definition upsert_row :: "string \<Rightarrow> string \<Rightarrow> string \<Rightarrow> string \<Rightarrow> bool \<Rightarrow> world \<Rightarrow> world" where
  "upsert_row subject encEmail encName role approved w =
     (if find_user (users w) subject = None
      then w\<lparr>users := users w @
        [\<lparr>U_Subject = subject, U_Email = encEmail, U_Name = encName, U_Role = role,
          U_Approved = approved, U_Locked = False, U_CreatedAt = now w, U_LastLoginAt = now w,
          U_Language = [], U_Theme = [], U_Prefs = default_prefs\<rparr>]\<rparr>
      else update_user subject
        (\<lambda>u. u\<lparr>U_Email := encEmail, U_Name := encName, U_Role := role, U_LastLoginAt := now w\<rparr>) w)"

definition UpsertUser :: "Deps \<Rightarrow> string \<Rightarrow> string \<Rightarrow> string \<Rightarrow> string \<Rightarrow> bool \<Rightarrow> bool res io" where
  "UpsertUser d subject email name role approved =
     try_bind (query (\<lambda>w. Inr (find_user (users w) subject \<noteq> None))) (\<lambda>existed.
     try_bind (encrypt_if_io d (d_PoolKey d) email) (\<lambda>encEmail.
     try_bind (encrypt_if_io d (d_PoolKey d) name) (\<lambda>encName.
     try_bind (command (\<lambda>_. Inr ()) (upsert_row subject encEmail encName role approved)) (\<lambda>_.
     ok (\<not> existed)))))"

definition GetUser :: "Deps \<Rightarrow> string \<Rightarrow> UserRow option res io" where
  "GetUser d subject =
     try_bind (query (\<lambda>w. Inr (find_user (users w) subject))) (\<lambda>found.
     case found of
       None \<Rightarrow> ok None
     | Some u \<Rightarrow>
         try_bind (decrypt_if_io d (d_PoolKey d) (U_Email u)) (\<lambda>email.
         try_bind (decrypt_if_io d (d_PoolKey d) (U_Name u)) (\<lambda>name.
         ok (Some (u\<lparr>U_Email := email, U_Name := name\<rparr>)))))"

definition UserApproved :: "string \<Rightarrow> bool res io" where
  "UserApproved subject =
     query (\<lambda>w. Inr (case find_user (users w) subject of None \<Rightarrow> False | Some u \<Rightarrow> U_Approved u))"

definition UserLocked :: "string \<Rightarrow> bool res io" where
  "UserLocked subject =
     query (\<lambda>w. Inr (case find_user (users w) subject of None \<Rightarrow> False | Some u \<Rightarrow> U_Locked u))"

definition UserRole :: "string \<Rightarrow> string option res io" where
  "UserRole subject = query (\<lambda>w. Inr (map_option U_Role (find_user (users w) subject)))"

definition is_admin_row :: "UserRow \<Rightarrow> bool" where
  "is_admin_row u \<longleftrightarrow> U_Role u = ''admin''"

definition HasAdmin :: "bool res io" where
  "HasAdmin = query (\<lambda>w. Inr (list_ex is_admin_row (users w)))"

definition AdminCount :: "nat res io" where
  "AdminCount = query (\<lambda>w. Inr (length (filter is_admin_row (users w))))"

text \<open>Decrypting a list of rows: the first failure aborts.\<close>

fun decrypt_rows :: "Deps \<Rightarrow> UserRow list \<Rightarrow> UserRow list res io" where
  "decrypt_rows d [] = ok []"
| "decrypt_rows d (u # us) =
     try_bind (decrypt_if_io d (d_PoolKey d) (U_Email u)) (\<lambda>email.
     try_bind (decrypt_if_io d (d_PoolKey d) (U_Name u)) (\<lambda>name.
     try_bind (decrypt_rows d us) (\<lambda>rest.
     ok (u\<lparr>U_Email := email, U_Name := name\<rparr> # rest))))"

definition listUsersHardLimit :: nat where "listUsersHardLimit = 1000"

definition ListUsers :: "Deps \<Rightarrow> UserRow list res io" where
  "ListUsers d =
     try_bind (query (\<lambda>w. Inr (take listUsersHardLimit (sort_key U_CreatedAt (users w)))))
       (decrypt_rows d)"

definition ListAdmins :: "Deps \<Rightarrow> UserRow list res io" where
  "ListAdmins d =
     try_bind (query (\<lambda>w. Inr (sort_key U_CreatedAt (filter is_admin_row (users w)))))
       (decrypt_rows d)"

definition ApproveUser :: "string \<Rightarrow> nat res io" where
  "ApproveUser subject =
     command (\<lambda>w. Inr (affected subject w)) (update_user subject (\<lambda>u. u\<lparr>U_Approved := True\<rparr>))"

definition LockUser :: "string \<Rightarrow> nat res io" where
  "LockUser subject =
     command (\<lambda>w. Inr (affected subject w)) (update_user subject (\<lambda>u. u\<lparr>U_Locked := True\<rparr>))"

definition UnlockUser :: "string \<Rightarrow> nat res io" where
  "UnlockUser subject =
     command (\<lambda>w. Inr (affected subject w)) (update_user subject (\<lambda>u. u\<lparr>U_Locked := False\<rparr>))"

definition DeleteUser :: "string \<Rightarrow> nat res io" where
  "DeleteUser subject =
     command (\<lambda>w. Inr (affected subject w))
       (\<lambda>w. w\<lparr>users := filter (\<lambda>u. U_Subject u \<noteq> subject) (users w)\<rparr>)"

definition GetUserLanguage :: "string \<Rightarrow> string res io" where
  "GetUserLanguage subject =
     query (\<lambda>w. Inr (case find_user (users w) subject of None \<Rightarrow> [] | Some u \<Rightarrow> U_Language u))"

definition supportedUILanguages :: "string list" where
  "supportedUILanguages = [''en'', ''de'', ''nl'', ''es'', ''fr'', ''it'', ''pl'', ''pt'']"

definition SetUserLanguage :: "string \<Rightarrow> string \<Rightarrow> unit res io" where
  "SetUserLanguage subject lang =
     (let lang' = (if lang \<in> set supportedUILanguages then lang else []) in
      command (\<lambda>_. Inr ()) (update_user subject (\<lambda>u. u\<lparr>U_Language := lang'\<rparr>)))"

definition GetUserTheme :: "string \<Rightarrow> string res io" where
  "GetUserTheme subject =
     query (\<lambda>w. Inr (case find_user (users w) subject of None \<Rightarrow> [] | Some u \<Rightarrow> U_Theme u))"

definition SetUserTheme :: "string \<Rightarrow> string \<Rightarrow> unit res io" where
  "SetUserTheme subject theme =
     (let theme' = (if theme \<noteq> ''light'' \<and> theme \<noteq> ''dark'' \<and> theme \<noteq> ''system'' then [] else theme) in
      command (\<lambda>_. Inr ()) (update_user subject (\<lambda>u. u\<lparr>U_Theme := theme'\<rparr>)))"

text \<open>On an error the caller still gets the defaults, as the named result of the Go function.\<close>

definition GetNotificationPrefs :: "string \<Rightarrow> NotificationPrefs res io" where
  "GetNotificationPrefs subject =
     query (\<lambda>w. Inr (case find_user (users w) subject of None \<Rightarrow> default_prefs | Some u \<Rightarrow> U_Prefs u))"

definition coalesce :: "'a option \<Rightarrow> 'a \<Rightarrow> 'a" where
  "coalesce x y = (case x of None \<Rightarrow> y | Some z \<Rightarrow> z)"

definition SetNotificationPrefs ::
  "string \<Rightarrow> bool option \<Rightarrow> bool option \<Rightarrow> bool option \<Rightarrow> bool option \<Rightarrow> unit res io" where
  "SetNotificationPrefs subject newLogin countryAnomaly newDevice sessionRevoked =
     command (\<lambda>_. Inr ()) (update_user subject (\<lambda>u. u\<lparr>U_Prefs :=
       \<lparr>P_NewLogin = coalesce newLogin (P_NewLogin (U_Prefs u)),
        P_CountryAnomaly = coalesce countryAnomaly (P_CountryAnomaly (U_Prefs u)),
        P_NewDevice = coalesce newDevice (P_NewDevice (U_Prefs u)),
        P_SessionRevokedByAdmin = coalesce sessionRevoked (P_SessionRevokedByAdmin (U_Prefs u))\<rparr>\<rparr>))"

definition GetUserExportRow :: "Deps \<Rightarrow> string \<Rightarrow> UserRow option res io" where
  "GetUserExportRow d subject = GetUser d subject"

definition GetSetting :: "string \<Rightarrow> string option res io" where
  "GetSetting key = query (\<lambda>w. Inr (settings w key))"

definition SetSetting :: "string \<Rightarrow> string \<Rightarrow> unit res io" where
  "SetSetting key v = command (\<lambda>_. Inr ()) (\<lambda>w. w\<lparr>settings := (settings w)(key := Some v)\<rparr>)"

definition DeleteSetting :: "string \<Rightarrow> unit res io" where
  "DeleteSetting key = command (\<lambda>_. Inr ()) (\<lambda>w. w\<lparr>settings := (settings w)(key := None)\<rparr>)"

text \<open>The text of a JSON object, from its members (the \<open>Details\<close> of an audit entry).\<close>

definition json_obj :: "(string \<times> string) list \<Rightarrow> string" where
  "json_obj kvs = ''{'' @ join_with '','' (map (\<lambda>(k, v). ''\"'' @ k @ ''\":'' @ v) kvs) @ ''}''"

text \<open>\<open>mail.Enqueue\<close>: recipient and body encrypted, then pushed on the queue.\<close>

definition Enqueue :: "Deps \<Rightarrow> string \<Rightarrow> string \<Rightarrow> string list \<Rightarrow> unit res io" where
  "Enqueue d recipient kind args =
     (let (subject, body) = d_mail d kind args in
      try_bind (master_key d) (\<lambda>masterKey.
      try_bind (encrypt_if_io d masterKey recipient) (\<lambda>toEnc.
      try_bind (encrypt_if_io d masterKey body) (\<lambda>bodyEnc.
      RPush \<lparr>Mail_ToEnc = toEnc, Mail_Subject = subject, Mail_BodyEnc = bodyEnc\<rparr>))))"

section \<open>Lemmas\<close>

lemma find_user_Some: "find_user us s = Some u \<Longrightarrow> u \<in> set us \<and> U_Subject u = s"
  by (auto simp: find_user_def find_Some_iff)

lemma find_user_None: "find_user us s = None \<longleftrightarrow> (\<forall>u \<in> set us. U_Subject u \<noteq> s)"
  by (auto simp: find_user_def find_None_iff)

lemma find_user_map:
  "(\<And>u. U_Subject (f u) = U_Subject u) \<Longrightarrow>
     find_user (map (\<lambda>u. if U_Subject u = s then f u else u) us) s' =
       (if s' = s then map_option f (find_user us s) else find_user us s')"
  by (induction us) (auto simp: find_user_def)

lemma find_user_append:
  "find_user (us @ vs) s = (case find_user us s of None \<Rightarrow> find_user vs s | Some u \<Rightarrow> Some u)"
  by (induction us) (auto simp: find_user_def)

lemma users_update_user [simp]:
  "users (update_user s f w) = map (\<lambda>u. if U_Subject u = s then f u else u) (users w)"
  by (simp add: update_user_def)

lemma update_user_other [simp]:
  "vk (update_user s f w) = vk w" "now (update_user s f w) = now w"
  "outcomes (update_user s f w) = outcomes w" "audit_log (update_user s f w) = audit_log w"
  "settings (update_user s f w) = settings w" "all_done (update_user s f w) = all_done w"
  "vk_entry (update_user s f w) k = vk_entry w k" "idp_revoked (update_user s f w) = idp_revoked w"
  by (simp_all add: update_user_def)

lemma affected_pos: "affected s w = 0 \<longleftrightarrow> find_user (users w) s = None"
  by (auto simp: affected_def find_user_None filter_empty_conv)

lemma map_subject_update:
  "(\<And>u. U_Subject (f u) = U_Subject u) \<Longrightarrow>
     map U_Subject (map (\<lambda>u. if U_Subject u = s then f u else u) us) = map U_Subject us"
  by (induction us) auto

lemma users_ok_update:
  "(\<And>u. U_Subject (f u) = U_Subject u) \<Longrightarrow> users_ok us \<Longrightarrow>
     users_ok (map (\<lambda>u. if U_Subject u = s then f u else u) us)"
  unfolding users_ok_def by (subst map_subject_update)

lemma keeps_GetNotificationPrefs [inv_intros]: "misc_stable I \<Longrightarrow> keeps I (GetNotificationPrefs s)"
  unfolding GetNotificationPrefs_def by (intro inv_intros)

lemma keeps_Enqueue [inv_intros]: "misc_stable I \<Longrightarrow> keeps I (Enqueue d r k a)"
  unfolding Enqueue_def by (intro inv_intros)

lemma keeps_Log [inv_intros]: "misc_stable I \<Longrightarrow> keeps I (Log d mk p)"
  unfolding Log_def by (intro inv_intros keeps_command) (simp_all add: misc_stableD)

lemma keeps_GetUser [inv_intros]: "misc_stable I \<Longrightarrow> keeps I (GetUser d s)"
  unfolding GetUser_def by (intro inv_intros)

lemma keeps_user_queries [inv_intros]:
  "misc_stable I \<Longrightarrow> keeps I (UserApproved s)" "misc_stable I \<Longrightarrow> keeps I (UserLocked s)"
  "misc_stable I \<Longrightarrow> keeps I (UserRole s)" "misc_stable I \<Longrightarrow> keeps I HasAdmin"
  "misc_stable I \<Longrightarrow> keeps I AdminCount" "misc_stable I \<Longrightarrow> keeps I (GetSetting k)"
  unfolding UserApproved_def UserLocked_def UserRole_def HasAdmin_def AdminCount_def GetSetting_def
  by (intro inv_intros; assumption)+

end
