(* ===== verification/Setup.thy ===== *)
theory Setup
  imports Users
begin

text \<open>
  \<open>setup/oidc.go\<close>, \<open>setup/groupprefix.go\<close> and \<open>setup/complete.go\<close>: what the setup wizard stores in
  \<open>core_settings\<close>, when it counts as complete, and how the OIDC provider is resolved from it
  (\<open>auth.Deps.resolveProvider\<close>).
\<close>

section \<open>OIDC settings\<close>

definition oidcIssuerSettingKey :: string where "oidcIssuerSettingKey = ''oidc_issuer_url''"
definition oidcClientIDSettingKey :: string where "oidcClientIDSettingKey = ''oidc_client_id''"
definition oidcClientSecretSettingKey :: string where "oidcClientSecretSettingKey = ''oidc_client_secret_enc''"

text \<open>An absent client id or secret is decrypted as the empty string, which fails.\<close>

definition ResolveOIDCConfig :: "Deps \<Rightarrow> string \<Rightarrow> (string \<times> string \<times> string) res io" where
  "ResolveOIDCConfig d masterKey =
     try_bind (GetSetting oidcIssuerSettingKey) (\<lambda>encIssuer.
       case encIssuer of
         None \<Rightarrow> fail (ErrInvalid ''oidc has not been configured yet'')
       | Some ei \<Rightarrow>
           try_bind (decrypt_io d masterKey ei) (\<lambda>issuer.
           try_bind (GetSetting oidcClientIDSettingKey) (\<lambda>encClientID.
           try_bind (decrypt_io d masterKey (coalesce encClientID [])) (\<lambda>clientID.
           try_bind (GetSetting oidcClientSecretSettingKey) (\<lambda>encryptedSecret.
           try_bind (decrypt_io d masterKey (coalesce encryptedSecret [])) (\<lambda>secret.
           ok (issuer, clientID, secret)))))))"

definition IssuerURL :: "Deps \<Rightarrow> string \<Rightarrow> string option res io" where
  "IssuerURL d masterKey =
     try_bind (GetSetting oidcIssuerSettingKey) (\<lambda>enc.
       case enc of
         None \<Rightarrow> ok None
       | Some e \<Rightarrow> try_bind (decrypt_io d masterKey e) (\<lambda>issuer. ok (Some issuer)))"

definition OIDCConfigured :: "bool res io" where
  "OIDCConfigured = try_bind (GetSetting oidcIssuerSettingKey) (\<lambda>v. ok (v \<noteq> None))"

definition resolveProvider :: "Deps \<Rightarrow> unit res io" where
  "resolveProvider d =
     try_bind (master_key d) (\<lambda>masterKey.
     try_bind (ResolveOIDCConfig d masterKey) (\<lambda>cfg.
     query (\<lambda>w. if d_provider d (calls w) cfg then Inr () else Inl ErrExternal)))"

section \<open>The group prefix\<close>

definition groupPrefixSettingKey :: string where "groupPrefixSettingKey = ''group_prefix''"

definition GroupPrefixConfigured :: "bool res io" where
  "GroupPrefixConfigured = try_bind (GetSetting groupPrefixSettingKey) (\<lambda>v. ok (v \<noteq> None))"

definition ResolveGroupPrefix :: "string res io" where
  "ResolveGroupPrefix =
     try_bind (GetSetting groupPrefixSettingKey) (\<lambda>v.
       case v of None \<Rightarrow> fail (ErrInvalid ''group prefix has not been configured yet'') | Some p \<Rightarrow> ok p)"

definition groupNames :: "string \<Rightarrow> string list" where
  "groupNames pre = [pre @ ''admin'', pre @ ''user'']"

text \<open>\<open>validGroupPrefix\<close>: \<open>[A-Za-z0-9_-]+\<close>.\<close>

definition validGroupPrefix :: "string \<Rightarrow> bool" where
  "validGroupPrefix s \<longleftrightarrow>
     s \<noteq> [] \<and> list_all (\<lambda>c. is_upper c \<or> is_lower c \<or> is_digit c \<or> c = CHR ''_'' \<or> c = CHR ''-'') s"

section \<open>Completion\<close>

definition missingSteps :: "string list res io" where
  "missingSteps =
     try_bind OIDCConfigured (\<lambda>oidcDone.
     try_bind GroupPrefixConfigured (\<lambda>groupPrefixDone.
     try_bind HasAdmin (\<lambda>hasAdmin.
     ok ((if oidcDone then [] else [''oidc'']) @ (if groupPrefixDone then [] else [''group_prefix''])
         @ (if hasAdmin then [] else [''admin_login''])))))"

definition WizardComplete :: "bool res io" where
  "WizardComplete = try_bind missingSteps (\<lambda>missing. ok (missing = []))"

text \<open>What \<open>WizardComplete\<close> reads off the state.\<close>

definition wizard_done :: "world \<Rightarrow> bool" where
  "wizard_done w \<longleftrightarrow> settings w oidcIssuerSettingKey \<noteq> None \<and> settings w groupPrefixSettingKey \<noteq> None
     \<and> list_ex is_admin_row (users w)"

text \<open>\<open>CurrentBranding\<close> only reads settings and shapes the mails: part of the parameter \<open>d_mail\<close>.\<close>

section \<open>Roles (\<open>auth/role.go\<close>)\<close>

definition RoleAdmin :: string where "RoleAdmin = ''admin''"
definition RoleUser :: string where "RoleUser = ''user''"
definition RolePending :: string where "RolePending = ''pending''"

definition DeriveRole :: "string list \<Rightarrow> string \<Rightarrow> string" where
  "DeriveRole groups pre =
     (if pre @ ''admin'' \<in> set groups then RoleAdmin
      else if pre @ ''user'' \<in> set groups then RoleUser
      else RolePending)"

section \<open>Frames\<close>

lemma keeps_setup [inv_intros]:
  "misc_stable I \<Longrightarrow> keeps I (ResolveOIDCConfig d mk)" "misc_stable I \<Longrightarrow> keeps I (IssuerURL d mk)"
  "misc_stable I \<Longrightarrow> keeps I OIDCConfigured" "misc_stable I \<Longrightarrow> keeps I GroupPrefixConfigured"
  "misc_stable I \<Longrightarrow> keeps I ResolveGroupPrefix"
  unfolding ResolveOIDCConfig_def IssuerURL_def OIDCConfigured_def GroupPrefixConfigured_def ResolveGroupPrefix_def
  by (intro inv_intros; assumption)+

lemma keeps_resolveProvider [inv_intros]: "misc_stable I \<Longrightarrow> keeps I (resolveProvider d)"
  unfolding resolveProvider_def by (intro inv_intros)

lemma keeps_WizardComplete [inv_intros]: "misc_stable I \<Longrightarrow> keeps I WizardComplete"
  unfolding WizardComplete_def missingSteps_def by (intro inv_intros)

lemma wp_GetSetting:
  "wp (GetSetting k) Q w \<longleftrightarrow>
     (outcomes w (calls w) = Done \<longrightarrow> Q (Inr (settings w k)) (w\<lparr>calls := Suc (calls w)\<rparr>))
     \<and> (outcomes w (calls w) \<noteq> Done \<longrightarrow> Q (Inl ErrExternal) (w\<lparr>calls := Suc (calls w)\<rparr>))"
  unfolding GetSetting_def wp_query ..

text \<open>An answer of \<open>WizardComplete\<close> is right whatever fails; it only counts calls.\<close>

lemma wp_WizardComplete:
  assumes "\<And>n. Q (Inr (wizard_done w)) (w\<lparr>calls := n\<rparr>)" and "\<And>e n. Q (Inl e) (w\<lparr>calls := n\<rparr>)"
  shows "wp WizardComplete Q w"
  using assms
  by (auto simp: WizardComplete_def missingSteps_def OIDCConfigured_def GroupPrefixConfigured_def HasAdmin_def
      io_simps wp_GetSetting wp_query wizard_done_def split: if_splits)

end
