(* ===== verification/Sessions.thy ===== *)
theory Sessions
  imports Setup
begin

text \<open>
  \<open>auth/session.go\<close>, \<open>auth/moduletoken.go\<close> and \<open>auth/revalidate.go\<close>: sessions in Valkey. A session
  is a key \<open>session:<id>\<close>, where the id is the hash of the token the browser holds, and an entry of
  the set \<open>usersessions:<subject>\<close>; two more keys keep the country and the device last seen. A
  module token is a key that names a module and a session.
\<close>

section \<open>Keys and constants\<close>

definition SessionTTL :: int where "SessionTTL = 86400000000000"
definition SessionAbsoluteMaxAge :: int where "SessionAbsoluteMaxAge = 2592000000000000"

definition sessionKeyPrefix :: string where "sessionKeyPrefix = ''session:''"
definition userSessionsKeyPrefix :: string where "userSessionsKeyPrefix = ''usersessions:''"
definition sessionCountryKeyPrefix :: string where "sessionCountryKeyPrefix = ''sessioncountry:''"
definition sessionDeviceKeyPrefix :: string where "sessionDeviceKeyPrefix = ''sessiondevice:''"

definition SessionID :: "Deps \<Rightarrow> string \<Rightarrow> string" where
  "SessionID d token = (if token = [] then [] else hex_encode (d_sha256 d token))"

text \<open>32 random bytes in URL-safe base64 without padding.\<close>

definition raw_url_encode :: "string \<Rightarrow> string" where
  "raw_url_encode s =
     map (\<lambda>c. if c = CHR ''+'' then CHR ''-'' else if c = CHR ''/'' then CHR ''_'' else c)
       (filter (\<lambda>c. c \<noteq> CHR ''='') (b64_encode s))"

definition randomToken :: "string io" where
  "randomToken = do { buf \<leftarrow> read_random 32; State_Monad.return (raw_url_encode buf) }"

section \<open>Encryption of the stored session\<close>

definition encryptSession :: "Deps \<Rightarrow> string \<Rightarrow> Session \<Rightarrow> storedSession res io" where
  "encryptSession d masterKey sess =
     try_bind (encrypt_if_io d masterKey (S_Email sess)) (\<lambda>emailEnc.
     try_bind (encrypt_if_io d masterKey (S_Name sess)) (\<lambda>nameEnc.
     try_bind (encrypt_if_io d masterKey (S_PreferredUsername sess)) (\<lambda>preferredEnc.
     try_bind (encrypt_if_io d masterKey (S_Picture sess)) (\<lambda>pictureEnc.
     try_bind (encrypt_if_io d masterKey (S_IP sess)) (\<lambda>ipEnc.
     try_bind (encrypt_if_io d masterKey (S_UserAgent sess)) (\<lambda>userAgentEnc.
     ok \<lparr>T_UserID = S_UserID sess, T_EmailEnc = emailEnc, T_EmailVerified = S_EmailVerified sess,
         T_NameEnc = nameEnc, T_PreferredUsernameEnc = preferredEnc, T_PictureEnc = pictureEnc,
         T_Role = S_Role sess, T_Locked = S_Locked sess, T_CreatedAt = S_CreatedAt sess,
         T_IPEnc = ipEnc, T_UserAgentEnc = userAgentEnc, T_Country = S_Country sess,
         T_City = S_City sess, T_Region = S_Region sess, T_ASNOrg = S_ASNOrg sess,
         T_RefreshTokenEnc = [], T_CSRFToken = S_CSRFToken sess\<rparr>))))))"

definition decryptSession :: "Deps \<Rightarrow> string \<Rightarrow> storedSession \<Rightarrow> Session res io" where
  "decryptSession d masterKey s =
     try_bind (decrypt_if_io d masterKey (T_EmailEnc s)) (\<lambda>email.
     try_bind (decrypt_if_io d masterKey (T_NameEnc s)) (\<lambda>name.
     try_bind (decrypt_if_io d masterKey (T_PreferredUsernameEnc s)) (\<lambda>preferred.
     try_bind (decrypt_if_io d masterKey (T_PictureEnc s)) (\<lambda>picture.
     try_bind (decrypt_if_io d masterKey (T_IPEnc s)) (\<lambda>ip.
     try_bind (decrypt_if_io d masterKey (T_UserAgentEnc s)) (\<lambda>userAgent.
     ok \<lparr>S_UserID = T_UserID s, S_Email = email, S_EmailVerified = T_EmailVerified s,
         S_Name = name, S_PreferredUsername = preferred, S_Picture = picture,
         S_Role = T_Role s, S_Locked = T_Locked s, S_CreatedAt = T_CreatedAt s, S_IP = ip,
         S_UserAgent = userAgent, S_Country = T_Country s, S_City = T_City s,
         S_Region = T_Region s, S_ASNOrg = T_ASNOrg s, S_CSRFToken = T_CSRFToken s\<rparr>))))))"

definition json_session :: "sval \<Rightarrow> storedSession res" where
  "json_session v = (case v of JSession s \<Rightarrow> Inr s | _ \<Rightarrow> Inl ErrDecode)"

section \<open>Creating a session\<close>

definition CreateSession :: "Deps \<Rightarrow> Session \<Rightarrow> string \<Rightarrow> string res io" where
  "CreateSession d sess0 refreshToken = do {
     w \<leftarrow> State_Monad.get;
     let sess1 = (if S_CreatedAt sess0 = None then sess0\<lparr>S_CreatedAt := Some (now w)\<rparr> else sess0);
     sess \<leftarrow> (if S_CSRFToken sess1 = [] then do {
                 csrf \<leftarrow> randomToken; State_Monad.return (sess1\<lparr>S_CSRFToken := csrf\<rparr>) }
              else State_Monad.return sess1);
     token \<leftarrow> randomToken;
     try_bind (master_key d) (\<lambda>masterKey.
     try_bind (encryptSession d masterKey sess) (\<lambda>stored0.
     try_bind (if refreshToken \<noteq> [] then
                 try_bind (encrypt_if_io d masterKey refreshToken)
                   (\<lambda>e. ok (stored0\<lparr>T_RefreshTokenEnc := e\<rparr>))
               else ok stored0) (\<lambda>stored.
     let sid = SessionID d token in
     try_bind (SetWithTTL (sessionKeyPrefix @ sid) (JSession stored) SessionTTL) (\<lambda>_.
     try_bind (AddSetMember (userSessionsKeyPrefix @ S_UserID sess) sid SessionTTL) (\<lambda>_.
     ok token))))) }"

section \<open>Revoking at the IdP\<close>

definition revoke_token :: "string \<Rightarrow> unit res io" where
  "revoke_token t = command (\<lambda>_. Inr ()) (\<lambda>w. w\<lparr>idp_revoked := idp_revoked w @ [t]\<rparr>)"

definition revokeRefreshTokenAtIdP :: "Deps \<Rightarrow> string \<Rightarrow> storedSession \<Rightarrow> unit res io" where
  "revokeRefreshTokenAtIdP d masterKey stored =
     (if T_RefreshTokenEnc stored = [] then ok ()
      else try_bind (decrypt_if_io d masterKey (T_RefreshTokenEnc stored)) revoke_token)"

fun revoke_each :: "Deps \<Rightarrow> string \<Rightarrow> storedSession list \<Rightarrow> unit io" where
  "revoke_each d masterKey [] = State_Monad.return ()"
| "revoke_each d masterKey (s # ss) = do {
     _ \<leftarrow> revokeRefreshTokenAtIdP d masterKey s;
     revoke_each d masterKey ss }"

definition bestEffortRevokeAtIdP :: "Deps \<Rightarrow> storedSession list \<Rightarrow> unit io" where
  "bestEffortRevokeAtIdP d sessions =
     (if \<not> list_ex (\<lambda>s. T_RefreshTokenEnc s \<noteq> []) sessions then State_Monad.return ()
      else do {
        p \<leftarrow> resolveProvider d;
        (case p of
           Inl _ \<Rightarrow> State_Monad.return ()
         | Inr _ \<Rightarrow>
             (case ResolveMasterKey d of
                Inl _ \<Rightarrow> State_Monad.return ()
              | Inr masterKey \<Rightarrow> revoke_each d masterKey sessions)) })"

section \<open>Revoking sessions\<close>

text \<open>The first loop of \<open>RevokeUserSessions\<close>: the sessions that could be read.\<close>

fun load_sessions :: "string list \<Rightarrow> storedSession list io" where
  "load_sessions [] = State_Monad.return []"
| "load_sessions (sid # sids) = do {
     r \<leftarrow> Get (sessionKeyPrefix @ sid);
     rest \<leftarrow> load_sessions sids;
     State_Monad.return (case r of
        Inr (Some (JSession s)) \<Rightarrow> s # rest
      | _ \<Rightarrow> rest) }"

text \<open>The second loop: delete each session, its baselines on a best-effort basis.\<close>

fun delete_sessions :: "string list \<Rightarrow> unit res io" where
  "delete_sessions [] = ok ()"
| "delete_sessions (sid # sids) =
     try_bind (Del (sessionKeyPrefix @ sid)) (\<lambda>_. do {
       _ \<leftarrow> Del (sessionCountryKeyPrefix @ sid);
       _ \<leftarrow> Del (sessionDeviceKeyPrefix @ sid);
       delete_sessions sids })"

definition RevokeUserSessions :: "Deps \<Rightarrow> string \<Rightarrow> unit res io" where
  "RevokeUserSessions d subject =
     try_bind (SetMembers (userSessionsKeyPrefix @ subject)) (\<lambda>sids. do {
       stored \<leftarrow> load_sessions sids;
       _ \<leftarrow> bestEffortRevokeAtIdP d stored;
       try_bind (delete_sessions sids) (\<lambda>_.
       try_bind (Del (userSessionsKeyPrefix @ subject)) (\<lambda>_. do {
         _ \<leftarrow> Publish (UserChannel subject) ''session.changed'';
         ok () })) })"

definition notifySessionRevokedByAdmin :: "Deps \<Rightarrow> storedSession \<Rightarrow> unit io" where
  "notifySessionRevokedByAdmin d stored = do {
     r \<leftarrow> GetNotificationPrefs (T_UserID stored);
     (case r of
        Inl _ \<Rightarrow> State_Monad.return ()
      | Inr prefs \<Rightarrow>
          if \<not> P_SessionRevokedByAdmin prefs then State_Monad.return ()
          else (case ResolveMasterKey d of
             Inl _ \<Rightarrow> State_Monad.return ()
           | Inr masterKey \<Rightarrow> do {
               dec \<leftarrow> decryptSession d masterKey stored;
               (case dec of
                  Inl _ \<Rightarrow> State_Monad.return ()
                | Inr sess \<Rightarrow>
                    if S_Email sess = [] then State_Monad.return ()
                    else do {
                      _ \<leftarrow> Enqueue d (S_Email sess) ''session_revoked''
                             [S_Name sess, S_IP sess, S_UserAgent sess, d_FrontendBaseURL d];
                      State_Monad.return () }) })) }"

text \<open>The boolean result stands beside the error, as in the Go signature.\<close>

definition RevokeSessionByID :: "Deps \<Rightarrow> string \<Rightarrow> (bool \<times> err option) io" where
  "RevokeSessionByID d sid =
     (if sid = [] then State_Monad.return (False, None)
      else do {
        r \<leftarrow> Get (sessionKeyPrefix @ sid);
        (case r of
           Inl e \<Rightarrow> State_Monad.return (False, Some e)
         | Inr None \<Rightarrow> State_Monad.return (False, None)
         | Inr (Some raw) \<Rightarrow>
             (case json_session raw of
                Inl e \<Rightarrow> State_Monad.return (False, Some e)
              | Inr stored \<Rightarrow> do {
                  _ \<leftarrow> bestEffortRevokeAtIdP d [stored];
                  del \<leftarrow> Del (sessionKeyPrefix @ sid);
                  (case del of
                     Inl e \<Rightarrow> State_Monad.return (False, Some e)
                   | Inr _ \<Rightarrow> do {
                       _ \<leftarrow> Del (sessionCountryKeyPrefix @ sid);
                       _ \<leftarrow> Del (sessionDeviceKeyPrefix @ sid);
                       rem \<leftarrow> RemoveSetMember (userSessionsKeyPrefix @ T_UserID stored) sid;
                       (case rem of
                          Inl e \<Rightarrow> State_Monad.return (True, Some e)
                        | Inr _ \<Rightarrow> do {
                            _ \<leftarrow> notifySessionRevokedByAdmin d stored;
                            State_Monad.return (True, None) }) }) })) })"

definition RevokeOwnSessionByID :: "Deps \<Rightarrow> string \<Rightarrow> string \<Rightarrow> (bool \<times> err option) io" where
  "RevokeOwnSessionByID d subject sid =
     (if sid = [] then State_Monad.return (False, None)
      else do {
        m \<leftarrow> SetMembers (userSessionsKeyPrefix @ subject);
        (case m of
           Inl e \<Rightarrow> State_Monad.return (False, Some e)
         | Inr sids \<Rightarrow>
             if sid \<notin> set sids then State_Monad.return (False, None)
             else do {
               r \<leftarrow> Get (sessionKeyPrefix @ sid);
               (case r of
                  Inl e \<Rightarrow> State_Monad.return (False, Some e)
                | Inr None \<Rightarrow> State_Monad.return (False, None)
                | Inr (Some raw) \<Rightarrow>
                    (case json_session raw of
                       Inl e \<Rightarrow> State_Monad.return (False, Some e)
                     | Inr stored \<Rightarrow>
                         if T_UserID stored \<noteq> subject then State_Monad.return (False, None)
                         else do {
                           _ \<leftarrow> bestEffortRevokeAtIdP d [stored];
                           del \<leftarrow> Del (sessionKeyPrefix @ sid);
                           (case del of
                              Inl e \<Rightarrow> State_Monad.return (False, Some e)
                            | Inr _ \<Rightarrow> do {
                                _ \<leftarrow> Del (sessionCountryKeyPrefix @ sid);
                                _ \<leftarrow> Del (sessionDeviceKeyPrefix @ sid);
                                rem \<leftarrow> RemoveSetMember (userSessionsKeyPrefix @ subject) sid;
                                (case rem of
                                   Inl e \<Rightarrow> State_Monad.return (True, Some e)
                                 | Inr _ \<Rightarrow> State_Monad.return (True, None)) }) })) }) })"

definition DeleteSession :: "Deps \<Rightarrow> string \<Rightarrow> unit res io" where
  "DeleteSession d token =
     (let sid = SessionID d token in
      if sid = [] then ok ()
      else do {
        _ \<leftarrow> Del (sessionCountryKeyPrefix @ sid);
        _ \<leftarrow> Del (sessionDeviceKeyPrefix @ sid);
        Del (sessionKeyPrefix @ sid) })"

section \<open>Validating a session\<close>

definition sessionBaselineChanged :: "string \<Rightarrow> string \<Rightarrow> bool" where
  "sessionBaselineChanged baseline current \<longleftrightarrow> baseline \<noteq> [] \<and> current \<noteq> [] \<and> baseline \<noteq> current"

definition baseline_of :: "sval option res \<Rightarrow> string \<Rightarrow> string" where
  "baseline_of r fallback =
     (case r of Inr (Some (Txt prev)) \<Rightarrow> if prev \<noteq> [] then prev else fallback | _ \<Rightarrow> fallback)"

definition checkSessionCountryAnomaly ::
  "Deps \<Rightarrow> string \<Rightarrow> Session \<Rightarrow> string \<Rightarrow> string \<Rightarrow> string \<Rightarrow> unit io" where
  "checkSessionCountryAnomaly d sid sess masterKey currentIP currentCountry =
     (if currentCountry = [] then State_Monad.return ()
      else do {
        r \<leftarrow> Get (sessionCountryKeyPrefix @ sid);
        let baseline = baseline_of r (S_Country sess);
        _ \<leftarrow> (if sessionBaselineChanged baseline currentCountry then do {
          _ \<leftarrow> Publish (UserChannel (S_UserID sess)) ''session.new'';
          _ \<leftarrow> Log d masterKey
            \<lparr>L_EventType = ''auth.country_anomaly'', L_ActorID = S_UserID sess,
             L_ActorEmail = S_Email sess, L_TargetID = S_UserID sess, L_TargetEmail = S_Email sess,
             L_Details = json_obj [(''source'', ''\"mid_session\"''), (''country'', d_quote d currentCountry),
               (''previous_country'', d_quote d baseline), (''ip'', d_quote d currentIP)]\<rparr>;
          p \<leftarrow> GetNotificationPrefs (S_UserID sess);
          (case p of
             Inl _ \<Rightarrow> ok ()
           | Inr prefs \<Rightarrow>
               if P_CountryAnomaly prefs \<and> S_Email sess \<noteq> []
               then Enqueue d (S_Email sess) ''anomaly''
                 [S_Name sess, currentIP, fst (d_city d currentIP), currentCountry, baseline, d_FrontendBaseURL d]
               else ok ()) }
         else ok ());
        (if baseline = currentCountry then do {
           _ \<leftarrow> Expire (sessionCountryKeyPrefix @ sid) SessionTTL;
           State_Monad.return () }
         else do {
           _ \<leftarrow> SetWithTTL (sessionCountryKeyPrefix @ sid) (Txt currentCountry) SessionTTL;
           State_Monad.return () }) })"

definition checkSessionDeviceAnomaly ::
  "Deps \<Rightarrow> string \<Rightarrow> Session \<Rightarrow> string \<Rightarrow> string \<Rightarrow> string \<Rightarrow> unit io" where
  "checkSessionDeviceAnomaly d sid sess masterKey currentIP currentUserAgent =
     (if currentUserAgent = [] then State_Monad.return ()
      else do {
        r \<leftarrow> Get (sessionDeviceKeyPrefix @ sid);
        let baseline = baseline_of r (S_UserAgent sess);
        _ \<leftarrow> (if sessionBaselineChanged baseline currentUserAgent then do {
          _ \<leftarrow> Publish (UserChannel (S_UserID sess)) ''session.new'';
          _ \<leftarrow> Log d masterKey
            \<lparr>L_EventType = ''auth.device_anomaly'', L_ActorID = S_UserID sess,
             L_ActorEmail = S_Email sess, L_TargetID = S_UserID sess, L_TargetEmail = S_Email sess,
             L_Details = json_obj [(''user_agent'', d_quote d currentUserAgent),
               (''previous_user_agent'', d_quote d baseline), (''ip'', d_quote d currentIP)]\<rparr>;
          p \<leftarrow> GetNotificationPrefs (S_UserID sess);
          (case p of
             Inl _ \<Rightarrow> ok ()
           | Inr prefs \<Rightarrow>
               if P_NewDevice prefs \<and> S_Email sess \<noteq> []
               then Enqueue d (S_Email sess) ''new_device''
                 [S_Name sess, currentIP, baseline, currentUserAgent, d_FrontendBaseURL d]
               else ok ()) }
         else ok ());
        (if baseline = currentUserAgent then do {
           _ \<leftarrow> Expire (sessionDeviceKeyPrefix @ sid) SessionTTL;
           State_Monad.return () }
         else do {
           _ \<leftarrow> SetWithTTL (sessionDeviceKeyPrefix @ sid) (Txt currentUserAgent) SessionTTL;
           State_Monad.return () }) })"

definition too_old :: "int \<Rightarrow> Session \<Rightarrow> bool" where
  "too_old t sess \<longleftrightarrow>
     (case S_CreatedAt sess of None \<Rightarrow> False | Some c \<Rightarrow> t - c > SessionAbsoluteMaxAge)"

definition validateSessionByID ::
  "Deps \<Rightarrow> string \<Rightarrow> string \<Rightarrow> string \<Rightarrow> string \<Rightarrow> Session option res io" where
  "validateSessionByID d sid currentIP currentCountry currentUserAgent =
     (if sid = [] then ok None
      else try_bind (Get (sessionKeyPrefix @ sid)) (\<lambda>raw.
        case raw of
          None \<Rightarrow> ok None
        | Some v \<Rightarrow>
            try_bind (State_Monad.return (json_session v)) (\<lambda>stored.
            try_bind (master_key d) (\<lambda>masterKey.
            try_bind (decryptSession d masterKey stored) (\<lambda>sess. do {
              w \<leftarrow> State_Monad.get;
              (if too_old (now w) sess then do {
                 _ \<leftarrow> Del (sessionKeyPrefix @ sid);
                 _ \<leftarrow> Del (sessionCountryKeyPrefix @ sid);
                 _ \<leftarrow> Del (sessionDeviceKeyPrefix @ sid);
                 _ \<leftarrow> RemoveSetMember (userSessionsKeyPrefix @ S_UserID sess) sid;
                 ok None }
               else do {
                 _ \<leftarrow> Expire (sessionKeyPrefix @ sid) SessionTTL;
                 _ \<leftarrow> Expire (userSessionsKeyPrefix @ S_UserID sess) SessionTTL;
                 _ \<leftarrow> checkSessionCountryAnomaly d sid sess masterKey currentIP currentCountry;
                 _ \<leftarrow> checkSessionDeviceAnomaly d sid sess masterKey currentIP currentUserAgent;
                 ok (Some sess) }) })))))"

definition ValidateSession ::
  "Deps \<Rightarrow> string \<Rightarrow> string \<Rightarrow> string \<Rightarrow> string \<Rightarrow> Session option res io" where
  "ValidateSession d token currentIP currentCountry currentUserAgent =
     validateSessionByID d (SessionID d token) currentIP currentCountry currentUserAgent"

text \<open>\<open>SessionFromRequest\<close>: a session an outer middleware already put in the context wins.\<close>

definition SessionFromRequest ::
  "Deps \<Rightarrow> Session option \<Rightarrow> string \<Rightarrow> string \<Rightarrow> string \<Rightarrow> string \<Rightarrow> Session option res io" where
  "SessionFromRequest d ctx token currentIP currentCountry currentUserAgent =
     (case ctx of
        Some sess \<Rightarrow> ok (Some sess)
      | None \<Rightarrow> ValidateSession d token currentIP currentCountry currentUserAgent)"

section \<open>Changing the role of live sessions\<close>

fun update_each :: "string \<Rightarrow> string \<Rightarrow> bool \<Rightarrow> string list \<Rightarrow> unit res io" where
  "update_each subject role locked [] = ok ()"
| "update_each subject role locked (sid # sids) =
     try_bind (Get (sessionKeyPrefix @ sid)) (\<lambda>raw.
       case raw of
         None \<Rightarrow> do {
           _ \<leftarrow> RemoveSetMember (userSessionsKeyPrefix @ subject) sid;
           update_each subject role locked sids }
       | Some v \<Rightarrow>
           try_bind (State_Monad.return (json_session v)) (\<lambda>stored.
           try_bind (SetWithTTL (sessionKeyPrefix @ sid)
              (JSession (stored\<lparr>T_Role := role, T_Locked := locked\<rparr>)) SessionTTL) (\<lambda>_.
           update_each subject role locked sids)))"

definition UpdateSessionsRole :: "string \<Rightarrow> string \<Rightarrow> bool \<Rightarrow> unit res io" where
  "UpdateSessionsRole subject role locked =
     try_bind (SetMembers (userSessionsKeyPrefix @ subject)) (\<lambda>sids.
     try_bind (update_each subject role locked sids) (\<lambda>_. do {
       _ \<leftarrow> Publish (UserChannel subject) ''session.changed'';
       ok () }))"

section \<open>Listing a user's sessions\<close>

record ActiveSession =
  AS_ID :: string
  AS_Session :: Session              \<comment> \<open>the fields shown: name, email, role, address, device, place, creation\<close>
  AS_Hostname :: string
  AS_LastActiveSecondsAgo :: int
  AS_ExpiresInSeconds :: int
  AS_Current :: bool

definition rdnsCacheTTL :: int where "rdnsCacheTTL = 3600000000000"

definition resolveHostname :: "Deps \<Rightarrow> string \<Rightarrow> string io" where
  "resolveHostname d ip =
     (if ip = [] then State_Monad.return []
      else do {
        r \<leftarrow> Get (''rdns:'' @ ip);
        (case r of
           Inr (Some (Txt cached)) \<Rightarrow> State_Monad.return cached
         | _ \<Rightarrow> do {
             let hostname = (case d_rdns d ip of None \<Rightarrow> [] | Some n \<Rightarrow> trim_suffix n ''.'');
             _ \<leftarrow> SetWithTTL (''rdns:'' @ ip) (Txt hostname) rdnsCacheTTL;
             State_Monad.return hostname }) })"

definition session_times :: "string \<Rightarrow> (int \<times> int) io" where
  "session_times key = do {
     r \<leftarrow> TTL key;
     State_Monad.return (case r of
        Inr (Some ttl) \<Rightarrow>
          (if SessionTTL - ttl > 0 then (SessionTTL - ttl) div 1000000000 else 0, ttl div 1000000000)
      | _ \<Rightarrow> (0, 0)) }"

fun list_sids :: "Deps \<Rightarrow> string \<Rightarrow> string \<Rightarrow> string list \<Rightarrow> ActiveSession list io" where
  "list_sids d masterKey subject [] = State_Monad.return []"
| "list_sids d masterKey subject (sid # sids) = do {
     r \<leftarrow> Get (sessionKeyPrefix @ sid);
     (case r of
        Inl _ \<Rightarrow> list_sids d masterKey subject sids
      | Inr None \<Rightarrow> do {
          _ \<leftarrow> RemoveSetMember (userSessionsKeyPrefix @ subject) sid;
          list_sids d masterKey subject sids }
      | Inr (Some raw) \<Rightarrow>
          (case json_session raw of
             Inl _ \<Rightarrow> list_sids d masterKey subject sids
           | Inr stored \<Rightarrow> do {
               dec \<leftarrow> decryptSession d masterKey stored;
               (case dec of
                  Inl _ \<Rightarrow> list_sids d masterKey subject sids
                | Inr sess \<Rightarrow> do {
                    hostname \<leftarrow> resolveHostname d (S_IP sess);
                    times \<leftarrow> session_times (sessionKeyPrefix @ sid);
                    rest \<leftarrow> list_sids d masterKey subject sids;
                    State_Monad.return
                      (\<lparr>AS_ID = sid, AS_Session = sess, AS_Hostname = hostname,
                        AS_LastActiveSecondsAgo = fst times, AS_ExpiresInSeconds = snd times,
                        AS_Current = False\<rparr> # rest) }) })) }"

definition ListActiveSessionsForUser :: "Deps \<Rightarrow> string \<Rightarrow> ActiveSession list res io" where
  "ListActiveSessionsForUser d subject =
     try_bind (SetMembers (userSessionsKeyPrefix @ subject)) (\<lambda>sids.
       if sids = [] then ok []
       else try_bind (master_key d) (\<lambda>masterKey. do {
         out \<leftarrow> list_sids d masterKey subject sids;
         ok out }))"

text \<open>
  \<open>ListActiveSessions\<close>: all users' sessions. The keys found by \<open>SCAN\<close> are an argument, as for
  \<open>revalidateAllSessions\<close>; the host names, which the code resolves concurrently, in list order.
\<close>

fun list_keys :: "Deps \<Rightarrow> string \<Rightarrow> string list \<Rightarrow> ActiveSession list io" where
  "list_keys d masterKey [] = State_Monad.return []"
| "list_keys d masterKey (key # ks) = do {
     r \<leftarrow> Get key;
     (case r of
        Inr (Some (JSession stored)) \<Rightarrow> do {
          dec \<leftarrow> decryptSession d masterKey stored;
          (case dec of
             Inl _ \<Rightarrow> list_keys d masterKey ks
           | Inr sess \<Rightarrow> do {
               times \<leftarrow> session_times key;
               rest \<leftarrow> list_keys d masterKey ks;
               State_Monad.return
                 (\<lparr>AS_ID = trim_prefix key sessionKeyPrefix, AS_Session = sess, AS_Hostname = [],
                   AS_LastActiveSecondsAgo = fst times, AS_ExpiresInSeconds = snd times,
                   AS_Current = False\<rparr> # rest) }) }
      | _ \<Rightarrow> list_keys d masterKey ks) }"

fun resolve_all :: "Deps \<Rightarrow> ActiveSession list \<Rightarrow> ActiveSession list io" where
  "resolve_all d [] = State_Monad.return []"
| "resolve_all d (a # as) = do {
     h \<leftarrow> resolveHostname d (S_IP (AS_Session a));
     rest \<leftarrow> resolve_all d as;
     State_Monad.return (a\<lparr>AS_Hostname := h\<rparr> # rest) }"

definition ListActiveSessions :: "Deps \<Rightarrow> string list \<Rightarrow> ActiveSession list res io" where
  "ListActiveSessions d scanned =
     try_bind (query (\<lambda>_. Inr scanned)) (\<lambda>ks.
       if ks = [] then ok []
       else try_bind (master_key d) (\<lambda>masterKey. do {
         out \<leftarrow> list_keys d masterKey ks;
         named \<leftarrow> resolve_all d out;
         ok named }))"

section \<open>Module tokens\<close>

definition ModuleTokenTTL :: int where "ModuleTokenTTL = 1200000000000"
definition moduleTokenKeyPrefix :: string where "moduleTokenKeyPrefix = ''moduletoken:''"

definition CreateModuleToken :: "Deps \<Rightarrow> string \<Rightarrow> string \<Rightarrow> string res io" where
  "CreateModuleToken d sessToken module = do {
     token \<leftarrow> randomToken;
     try_bind (SetWithTTL (moduleTokenKeyPrefix @ SessionID d token)
         (JModTok \<lparr>M_Module = module, M_SessionID = SessionID d sessToken\<rparr>) ModuleTokenTTL) (\<lambda>_.
     ok token) }"

definition ValidateModuleToken ::
  "Deps \<Rightarrow> string \<Rightarrow> string \<Rightarrow> string \<Rightarrow> string \<Rightarrow> string \<Rightarrow> Session option res io" where
  "ValidateModuleToken d token module currentIP currentCountry currentUserAgent =
     (if token = [] then ok None
      else try_bind (Get (moduleTokenKeyPrefix @ SessionID d token)) (\<lambda>raw.
        case raw of
          None \<Rightarrow> ok None
        | Some (JModTok rec) \<Rightarrow>
            if M_Module rec \<noteq> module then ok None
            else validateSessionByID d (M_SessionID rec) currentIP currentCountry currentUserAgent
        | Some _ \<Rightarrow> fail ErrDecode))"

section \<open>Revalidation against the IdP\<close>

text \<open>
  \<open>RevalidateSession\<close> in its two halves: what is read before the IdP is asked, and what is done
  with the answer. Other requests can run between them.
\<close>

definition revalidate_load :: "Deps \<Rightarrow> string \<Rightarrow> (storedSession \<times> string \<times> string) option res io" where
  "revalidate_load d sid =
     try_bind (Get (sessionKeyPrefix @ sid)) (\<lambda>raw.
       case raw of
         None \<Rightarrow> ok None
       | Some v \<Rightarrow>
           try_bind (State_Monad.return (json_session v)) (\<lambda>stored.
             if T_RefreshTokenEnc stored = [] then ok None
             else try_bind (master_key d) (\<lambda>masterKey.
               try_bind (decrypt_if_io d masterKey (T_RefreshTokenEnc stored)) (\<lambda>refreshToken.
               ok (Some (stored, masterKey, refreshToken))))))"

definition checked_answer :: "storedSession \<Rightarrow> (Claims \<times> string) res \<Rightarrow> (Claims \<times> string) res" where
  "checked_answer stored answer =
     (case answer of
        Inr (claims, t) \<Rightarrow>
          if C_Subject claims \<noteq> [] \<and> C_Subject claims \<noteq> T_UserID stored
          then Inl (ErrInvalid ''subject mismatch'') else answer
      | Inl _ \<Rightarrow> answer)"

definition revalidate_finish ::
  "Deps \<Rightarrow> string \<Rightarrow> storedSession \<Rightarrow> string \<Rightarrow> (Claims \<times> string) res \<Rightarrow> bool res io" where
  "revalidate_finish d sid stored masterKey answer =
     (case checked_answer stored answer of
        Inl e \<Rightarrow>
          try_bind (Del (sessionKeyPrefix @ sid)) (\<lambda>_. do {
            _ \<leftarrow> Del (sessionCountryKeyPrefix @ sid);
            _ \<leftarrow> Del (sessionDeviceKeyPrefix @ sid);
            _ \<leftarrow> RemoveSetMember (userSessionsKeyPrefix @ T_UserID stored) sid;
            _ \<leftarrow> Log d masterKey
              \<lparr>L_EventType = ''auth.session_revoked_by_idp'', L_ActorID = T_UserID stored,
               L_ActorEmail = [], L_TargetID = [], L_TargetEmail = [],
               L_Details = json_obj [(''reason'', d_quote d ''error'')]\<rparr>;
            ok True })
      | Inr (claims, newRefreshToken) \<Rightarrow>
          try_bind (encrypt_if_io d masterKey (C_Email claims)) (\<lambda>emailEnc.
          try_bind (encrypt_if_io d masterKey (C_Name claims)) (\<lambda>nameEnc.
          try_bind (encrypt_if_io d masterKey (C_PreferredUsername claims)) (\<lambda>preferredEnc.
          try_bind (encrypt_if_io d masterKey (C_Picture claims)) (\<lambda>pictureEnc.
          try_bind (encrypt_if_io d masterKey newRefreshToken) (\<lambda>refreshTokenEnc. do {
            t \<leftarrow> TTL (sessionKeyPrefix @ sid);
            try_bind (SetWithTTL (sessionKeyPrefix @ sid)
                (JSession (stored\<lparr>T_EmailEnc := emailEnc, T_EmailVerified := C_EmailVerified claims,
                   T_NameEnc := nameEnc, T_PreferredUsernameEnc := preferredEnc,
                   T_PictureEnc := pictureEnc, T_RefreshTokenEnc := refreshTokenEnc\<rparr>))
                (case t of Inr (Some ttl) \<Rightarrow> ttl | _ \<Rightarrow> SessionTTL)) (\<lambda>_.
            ok False) }))))))"

text \<open>\<open>Provider.Revalidate\<close>: the old refresh token stays when the IdP sends no new one.\<close>

definition Revalidate :: "Deps \<Rightarrow> nat \<Rightarrow> string \<Rightarrow> (Claims \<times> string) res" where
  "Revalidate d n refreshToken =
     res_bind (d_revalidate d n refreshToken)
       (\<lambda>(claims, t). Inr (claims, if t = [] then refreshToken else t))"

definition RevalidateSession :: "Deps \<Rightarrow> string \<Rightarrow> bool res io" where
  "RevalidateSession d sid =
     try_bind (revalidate_load d sid) (\<lambda>loaded.
       case loaded of
         None \<Rightarrow> ok False
       | Some (stored, masterKey, refreshToken) \<Rightarrow> do {
           answer \<leftarrow> query (\<lambda>w. Revalidate d (calls w) refreshToken);
           revalidate_finish d sid stored masterKey answer })"

fun revalidate_each :: "Deps \<Rightarrow> string list \<Rightarrow> unit io" where
  "revalidate_each d [] = State_Monad.return ()"
| "revalidate_each d (key # ks) = do {
     _ \<leftarrow> RevalidateSession d (trim_prefix key sessionKeyPrefix);
     revalidate_each d ks }"

text \<open>The keys found by \<open>SCAN\<close> are an argument: the server returns them in no fixed order.\<close>

definition revalidateAllSessions :: "Deps \<Rightarrow> string list \<Rightarrow> unit io" where
  "revalidateAllSessions d scanned = do {
     p \<leftarrow> resolveProvider d;
     (case p of
        Inl _ \<Rightarrow> State_Monad.return ()
      | Inr _ \<Rightarrow> do {
          s \<leftarrow> query (\<lambda>_. Inr scanned);
          (case s of Inl _ \<Rightarrow> State_Monad.return () | Inr ks \<Rightarrow> revalidate_each d ks) }) }"

section \<open>Keys\<close>

lemmas prefix_defs = sessionKeyPrefix_def userSessionsKeyPrefix_def sessionCountryKeyPrefix_def
  sessionDeviceKeyPrefix_def moduleTokenKeyPrefix_def

lemma key_neq [simp]:
  "sessionKeyPrefix @ a \<noteq> userSessionsKeyPrefix @ b" "userSessionsKeyPrefix @ b \<noteq> sessionKeyPrefix @ a"
  "sessionKeyPrefix @ a \<noteq> sessionCountryKeyPrefix @ b" "sessionCountryKeyPrefix @ b \<noteq> sessionKeyPrefix @ a"
  "sessionKeyPrefix @ a \<noteq> sessionDeviceKeyPrefix @ b" "sessionDeviceKeyPrefix @ b \<noteq> sessionKeyPrefix @ a"
  "userSessionsKeyPrefix @ a \<noteq> sessionCountryKeyPrefix @ b" "sessionCountryKeyPrefix @ b \<noteq> userSessionsKeyPrefix @ a"
  "userSessionsKeyPrefix @ a \<noteq> sessionDeviceKeyPrefix @ b" "sessionDeviceKeyPrefix @ b \<noteq> userSessionsKeyPrefix @ a"
  "moduleTokenKeyPrefix @ a \<noteq> sessionKeyPrefix @ b" "sessionKeyPrefix @ b \<noteq> moduleTokenKeyPrefix @ a"
  by (simp_all add: prefix_defs)

lemma ttl_pos [simp]: "0 < SessionTTL" "0 < ModuleTokenTTL"
  by (simp_all add: SessionTTL_def ModuleTokenTTL_def)

section \<open>The value of an encrypted field\<close>

text \<open>
  \<open>plain d k e\<close> is what \<open>e\<close> decrypts to. The cache does not matter as long as it is consistent,
  and every operation leaves it consistent.
\<close>

definition plain :: "Deps \<Rightarrow> string \<Rightarrow> string \<Rightarrow> string res" where
  "plain d k e = fst (DecryptIfNotEmpty (d_aead d) [] k e)"

lemma wp_decrypt_plain:
  assumes "cache_ok (gcm w)"
    and "\<And>t. enc_frame w t \<Longrightarrow> cache_ok (gcm t) \<Longrightarrow> Q (plain d k e) t"
  shows "wp (decrypt_if_io d k e) Q w"
proof -
  obtain r c where rc: "DecryptIfNotEmpty (d_aead d) (gcm w) k e = (r, c)" by fastforce
  have "r = plain d k e" and "cache_ok c"
    using rc assms(1) Decrypt_cache_ok [of "gcm w" "d_aead d" k e] Decrypt_result [of "gcm w" "d_aead d" k e]
      Decrypt_result [of "[]" "d_aead d" k e]
    by (auto simp: plain_def DecryptIfNotEmpty_def split: if_splits)
  then show ?thesis
    using assms(2) [of "w\<lparr>gcm := c\<rparr>"] by (simp add: decrypt_if_io_def io_simps rc enc_frameI)
qed

lemma decrypt_io_if: "e \<noteq> [] \<Longrightarrow> decrypt_io d k e = decrypt_if_io d k e"
  by (simp add: decrypt_io_def decrypt_if_io_def DecryptIfNotEmpty_def)

lemma wp_encrypt_io_plain:
  assumes "cache_ok (gcm w)" and "aead_ok (d_aead d)"
    and "\<And>e t. enc_frame w t \<Longrightarrow> cache_ok (gcm t) \<Longrightarrow> e \<noteq> [] \<Longrightarrow> plain d k e = Inr p \<Longrightarrow> Q (Inr e) t"
    and "\<And>er t. buildGCM k = Inl er \<Longrightarrow> enc_frame w t \<Longrightarrow> cache_ok (gcm t) \<Longrightarrow> Q (Inl er) t"
  shows "wp (encrypt_io d k p) Q w"
proof -
  obtain r c where rc: "newGCM (gcm w) k = (r, c)" by fastforce
  have r: "r = buildGCM k" and c: "cache_ok c"
    using newGCM_result [OF assms(1), of k] newGCM_cache_ok [OF assms(1), of k] rc by simp_all
  show ?thesis
  proof (cases "buildGCM k")
    case (Inl er)
    then show ?thesis
      using assms(4) [of er "w\<lparr>gcm := c\<rparr>"] rc r c by (simp add: encrypt_io_def io_simps enc_frameI)
  next
    case (Inr key)
    define nonce where "nonce = map (random w) [drawn w ..< drawn w + nonce_size]"
    define e where "e = b64_encode (nonce @ seal (d_aead d) key nonce p)"
    have n: "length nonce = nonce_size" by (simp add: nonce_def)
    obtain r' c' where enc: "Encrypt (d_aead d) (gcm w) (Some nonce) k p = (r', c')" by fastforce
    have r': "r' = Inr e" and c': "cache_ok c'"
      using Encrypt_result [OF assms(1), of "d_aead d" "Some nonce" k p] Inr enc
        Encrypt_cache_ok [OF assms(1), of "d_aead d" "Some nonce" k p] by (simp_all add: e_def)
    have ne: "e \<noteq> []"
      using n b64_decode_encode [of "nonce @ seal (d_aead d) key nonce p"]
      by (auto simp: e_def nonce_size_def b64_decode_def)
    have "plain d k e = Inr p"
      using Decrypt_Encrypt [OF assms(2) assms(1) cache_ok_Nil Inr n, of p e] enc r' ne
      by (simp add: plain_def DecryptIfNotEmpty_def)
    then have "Q (Inr e) (w\<lparr>drawn := drawn w + nonce_size, gcm := c'\<rparr>)"
      using assms(3) ne c' by (simp add: enc_frameI)
    then show ?thesis
      using rc r Inr enc r' by (simp add: encrypt_io_def wp_def read_random_def update_world_def nonce_def)
  qed
qed

lemma wp_encrypt_plain:
  assumes "cache_ok (gcm w)" and "aead_ok (d_aead d)" and "buildGCM k = Inr key"
    and "\<And>e t. enc_frame w t \<Longrightarrow> cache_ok (gcm t) \<Longrightarrow> plain d k e = Inr p \<Longrightarrow> (e = [] \<longleftrightarrow> p = []) \<Longrightarrow> Q (Inr e) t"
  shows "wp (encrypt_if_io d k p) Q w"
proof (cases "p = []")
  case True
  then show ?thesis using assms(1) assms(4) [of w "[]"]
    by (simp add: encrypt_if_io_def io_simps plain_def DecryptIfNotEmpty_def)
next
  case False
  then show ?thesis
    unfolding encrypt_if_io_def using wp_encrypt_io_plain [OF assms(1,2), of k p Q] assms(3,4) by auto
qed

text \<open>The session a stored session decrypts to.\<close>

definition plain_session :: "Deps \<Rightarrow> string \<Rightarrow> storedSession \<Rightarrow> Session res" where
  "plain_session d k s =
     res_bind (plain d k (T_EmailEnc s)) (\<lambda>email.
     res_bind (plain d k (T_NameEnc s)) (\<lambda>name.
     res_bind (plain d k (T_PreferredUsernameEnc s)) (\<lambda>preferred.
     res_bind (plain d k (T_PictureEnc s)) (\<lambda>picture.
     res_bind (plain d k (T_IPEnc s)) (\<lambda>ip.
     res_bind (plain d k (T_UserAgentEnc s)) (\<lambda>userAgent.
     Inr \<lparr>S_UserID = T_UserID s, S_Email = email, S_EmailVerified = T_EmailVerified s,
         S_Name = name, S_PreferredUsername = preferred, S_Picture = picture,
         S_Role = T_Role s, S_Locked = T_Locked s, S_CreatedAt = T_CreatedAt s, S_IP = ip,
         S_UserAgent = userAgent, S_Country = T_Country s, S_City = T_City s,
         S_Region = T_Region s, S_ASNOrg = T_ASNOrg s, S_CSRFToken = T_CSRFToken s\<rparr>))))))"

text \<open>A program that only uses the cache and always answers \<open>v\<close>.\<close>

definition pure_enc :: "'a res io \<Rightarrow> 'a res \<Rightarrow> bool" where
  "pure_enc m v \<longleftrightarrow>
     (\<forall>w. cache_ok (gcm w) \<longrightarrow> wp m (\<lambda>r t. r = v \<and> enc_frame w t \<and> cache_ok (gcm t)) w)"

named_theorems pure_intros

lemma pure_enc_ok [pure_intros]: "pure_enc (ok a) (Inr a)"
  by (simp add: pure_enc_def io_simps)

lemma pure_enc_decrypt [pure_intros]: "pure_enc (decrypt_if_io d k e) (plain d k e)"
  by (auto simp: pure_enc_def intro: wp_decrypt_plain)

lemma pure_enc_bind [pure_intros]:
  assumes "pure_enc m v" and "\<And>a. pure_enc (f a) (g a)"
  shows "pure_enc (try_bind m f) (res_bind v g)"
  unfolding pure_enc_def
proof (intro allI impI)
  fix w :: world assume w: "cache_ok (gcm w)"
  have m: "wp m (\<lambda>r t. r = v \<and> enc_frame w t \<and> cache_ok (gcm t)) w"
    using assms(1) w by (simp add: pure_enc_def)
  show "wp (try_bind m f) (\<lambda>r t. r = res_bind v g \<and> enc_frame w t \<and> cache_ok (gcm t)) w"
    unfolding wp_try
  proof (rule wp_mono [OF m], intro conjI allI impI)
    fix r t a
    assume t: "r = v \<and> enc_frame w t \<and> cache_ok (gcm t)" and r: "r = Inr a"
    then have "wp (f a) (\<lambda>r u. r = g a \<and> enc_frame t u \<and> cache_ok (gcm u)) t"
      using assms(2) by (simp add: pure_enc_def)
    then show "wp (f a) (\<lambda>r u. r = res_bind v g \<and> enc_frame w u \<and> cache_ok (gcm u)) t"
      by (rule wp_mono) (use t r in \<open>auto intro: enc_frame_trans\<close>)
  qed auto
qed

lemma wp_pure:
  assumes "pure_enc m v" and "cache_ok (gcm w)"
    and "\<And>t. enc_frame w t \<Longrightarrow> cache_ok (gcm t) \<Longrightarrow> Q v t"
  shows "wp m Q w"
  using assms wp_mono [of m "\<lambda>r t. r = v \<and> enc_frame w t \<and> cache_ok (gcm t)" w Q]
  by (auto simp: pure_enc_def)

lemma pure_decryptSession [pure_intros]: "pure_enc (decryptSession d k s) (plain_session d k s)"
  unfolding decryptSession_def plain_session_def by (intro pure_intros)

section \<open>Frames of the session operations\<close>

lemma keeps_randomToken [inv_intros]: "misc_stable I \<Longrightarrow> keeps I randomToken"
  unfolding randomToken_def by (intro inv_intros)

lemma keeps_decryptSession [inv_intros]: "misc_stable I \<Longrightarrow> keeps I (decryptSession d k s)"
  unfolding decryptSession_def by (intro inv_intros)

lemma keeps_encryptSession [inv_intros]: "misc_stable I \<Longrightarrow> keeps I (encryptSession d k s)"
  unfolding encryptSession_def by (intro inv_intros)

lemma keeps_load_sessions [inv_intros]: "misc_stable I \<Longrightarrow> keeps I (load_sessions sids)"
  by (induction sids) (auto intro!: inv_intros split: option.splits)

lemma keeps_revoke_token [inv_intros]: "misc_stable I \<Longrightarrow> keeps I (revoke_token t)"
  unfolding revoke_token_def by (rule keeps_command) (simp_all add: misc_stableD)

lemma keeps_revokeRefreshToken [inv_intros]: "misc_stable I \<Longrightarrow> keeps I (revokeRefreshTokenAtIdP d k s)"
  unfolding revokeRefreshTokenAtIdP_def by (intro inv_intros)

lemma keeps_revoke_each [inv_intros]: "misc_stable I \<Longrightarrow> keeps I (revoke_each d k ss)"
  by (induction ss) (auto intro!: inv_intros)

lemma keeps_bestEffortRevoke [inv_intros]: "misc_stable I \<Longrightarrow> keeps I (bestEffortRevokeAtIdP d ss)"
  unfolding bestEffortRevokeAtIdP_def by (intro inv_intros)

lemma keeps_notifyRevoked [inv_intros]: "misc_stable I \<Longrightarrow> keeps I (notifySessionRevokedByAdmin d s)"
  unfolding notifySessionRevokedByAdmin_def by (intro inv_intros)

lemma keeps_delete_sessions [inv_intros]: "store_stable I \<Longrightarrow> keeps I (delete_sessions sids)"
  by (induction sids) (auto intro!: inv_intros split: option.splits)

lemma keeps_RevokeUserSessions [inv_intros]: "store_stable I \<Longrightarrow> keeps I (RevokeUserSessions d s)"
  unfolding RevokeUserSessions_def by (intro inv_intros store_misc)

lemma keeps_CreateSession [inv_intros]: "store_stable I \<Longrightarrow> keeps I (CreateSession d s r)"
  unfolding CreateSession_def by (intro inv_intros store_misc)

lemma keeps_country [inv_intros]: "store_stable I \<Longrightarrow> keeps I (checkSessionCountryAnomaly d a b c e f)"
  unfolding checkSessionCountryAnomaly_def by (intro inv_intros store_misc)

lemma keeps_device [inv_intros]: "store_stable I \<Longrightarrow> keeps I (checkSessionDeviceAnomaly d a b c e f)"
  unfolding checkSessionDeviceAnomaly_def by (intro inv_intros store_misc)

lemma keeps_validateByID [inv_intros]: "store_stable I \<Longrightarrow> keeps I (validateSessionByID d a b c e)"
  unfolding validateSessionByID_def by (intro inv_intros store_misc)

lemma keeps_SessionFromRequest [inv_intros]: "store_stable I \<Longrightarrow> keeps I (SessionFromRequest d x a b c e)"
  unfolding SessionFromRequest_def ValidateSession_def by (intro inv_intros)

lemma keeps_update_each [inv_intros]: "store_stable I \<Longrightarrow> keeps I (update_each s r l sids)"
  by (induction sids) (auto intro!: inv_intros intro: store_misc)

lemma keeps_UpdateSessionsRole [inv_intros]: "store_stable I \<Longrightarrow> keeps I (UpdateSessionsRole s r l)"
  unfolding UpdateSessionsRole_def by (intro inv_intros store_misc)

lemma keeps_DeleteSession [inv_intros]: "store_stable I \<Longrightarrow> keeps I (DeleteSession d t)"
  unfolding DeleteSession_def Let_def by (intro inv_intros)

lemma keeps_ValidateModuleToken [inv_intros]: "store_stable I \<Longrightarrow> keeps I (ValidateModuleToken d t m a b c)"
  unfolding ValidateModuleToken_def by (intro inv_intros store_misc) (auto split: sval.splits intro!: inv_intros)

end
