(* ===== verification/SessionLaws.thy ===== *)
theory SessionLaws
  imports Sessions
begin

text \<open>
  What the session operations guarantee: a validated session is the stored one and is not too
  old; creating and validating is a round trip; revoking a user's sessions leaves none of the
  indexed ones; a module token is good for its module and its session only. Then the two ways
  a revoked user keeps a session.
\<close>

section \<open>Validation is sound under every failure\<close>

lemma wp_Get:
  "wp (Get k) Q w \<longleftrightarrow>
     (outcomes w (calls w) = Done \<longrightarrow> Q (case vk_entry w k of None \<Rightarrow> Inr None
         | Some (VStr v, _) \<Rightarrow> Inr (Some v) | Some (VSet _, _) \<Rightarrow> Inl ErrExternal) (w\<lparr>calls := Suc (calls w)\<rparr>))
     \<and> (outcomes w (calls w) \<noteq> Done \<longrightarrow> Q (Inl ErrExternal) (w\<lparr>calls := Suc (calls w)\<rparr>))"
  unfolding Get_def wp_query ..

lemma wp_GetI:
  assumes "Q (Inl ErrExternal) (w\<lparr>calls := Suc (calls w)\<rparr>)"
    and "vk_entry w k = None \<Longrightarrow> Q (Inr None) (w\<lparr>calls := Suc (calls w)\<rparr>)"
    and "\<And>v. vk_str w k = Some v \<Longrightarrow> Q (Inr (Some v)) (w\<lparr>calls := Suc (calls w)\<rparr>)"
  shows "wp (Get k) Q w"
  using assms by (auto simp: wp_Get vk_str_def split: option.splits prod.splits vval.splits)

definition valid_answer :: "Deps \<Rightarrow> string \<Rightarrow> world \<Rightarrow> Session option res \<Rightarrow> bool" where
  "valid_answer d sid w r \<longleftrightarrow>
     (\<forall>s. r = Inr (Some s) \<longrightarrow>
        sid \<noteq> [] \<and> \<not> too_old (now w) s
        \<and> (\<exists>stored. vk_str w (sessionKeyPrefix @ sid) = Some (JSession stored)
             \<and> plain_session d (d_MasterKeyEnv d) stored = Inr s))"

lemma wp_validateByID_sound:
  assumes "cache_ok (gcm w)"
  shows "wp (validateSessionByID d sid ip country ua) (\<lambda>r _. valid_answer d sid w r) w"
proof (cases "sid = []")
  case True
  then show ?thesis by (simp add: validateSessionByID_def io_simps valid_answer_def)
next
  case False
  show ?thesis
    unfolding validateSessionByID_def if_not_P [OF False] wp_try
  proof (rule wp_GetI)
    fix v
    assume v: "vk_str w (sessionKeyPrefix @ sid) = Some v"
    let ?w = "w\<lparr>calls := Suc (calls w)\<rparr>"
    show "(\<forall>e. Inr (Some v) = Inl e \<longrightarrow> valid_answer d sid w (Inl e)) \<and>
      (\<forall>a. Inr (Some v) = Inr a \<longrightarrow> wp (case a of None \<Rightarrow> ok None
        | Some v \<Rightarrow> try_bind (State_Monad.return (json_session v)) (\<lambda>stored.
            try_bind (master_key d) (\<lambda>masterKey.
            try_bind (decryptSession d masterKey stored) (\<lambda>sess. do {
              w \<leftarrow> State_Monad.get;
              (if too_old (now w) sess then do {
                 _ \<leftarrow> Del (sessionKeyPrefix @ sid);
                 _ \<leftarrow> Del (sessionCountryKeyPrefix @ sid);
                 _ \<leftarrow> Del (sessionDeviceKeyPrefix @ sid);
                 _ \<leftarrow> RemoveSetMember (userSessionsKeyPrefix @ S_UserID sess) sid;
                 ok None }
               else do {
                 _ \<leftarrow> Expire (sessionKeyPrefix @ sid) SessionTTL;
                 _ \<leftarrow> Expire (userSessionsKeyPrefix @ S_UserID sess) SessionTTL;
                 _ \<leftarrow> checkSessionCountryAnomaly d sid sess masterKey ip country;
                 _ \<leftarrow> checkSessionDeviceAnomaly d sid sess masterKey ip ua;
                 ok (Some sess) }) }))))
        (\<lambda>r _. valid_answer d sid w r) ?w)"
    proof (cases "json_session v")
      case (Inl e)
      then show ?thesis by (simp add: io_simps valid_answer_def)
    next
      case (Inr stored)
      then have js: "v = JSession stored" by (simp add: json_session_def split: sval.splits)
      show ?thesis
      proof (cases "d_MasterKeyEnv d = []")
        case True
        with Inr show ?thesis
          by (simp add: io_simps valid_answer_def master_key_def ResolveMasterKey_def)
      next
        case mk: False
        have dec: "wp (decryptSession d (d_MasterKeyEnv d) stored)
          (\<lambda>r t. (\<forall>e. r = Inl e \<longrightarrow> valid_answer d sid w (Inl e)) \<and>
             (\<forall>a. r = Inr a \<longrightarrow> (too_old (now t) a \<longrightarrow> valid_answer d sid w (Inr None))
                \<and> (\<not> too_old (now t) a \<longrightarrow> valid_answer d sid w (Inr (Some a))))) ?w"
          by (rule wp_pure [OF pure_decryptSession])
            (use assms v js False in \<open>auto simp: valid_answer_def enc_frameD\<close>)
        show ?thesis
          using Inr mk
          by (simp add: io_simps master_key_def ResolveMasterKey_def)
            (rule wp_mono [OF dec], simp add: io_simps wp_any)
      qed
    qed
  qed (simp_all add: io_simps valid_answer_def)
qed

section \<open>Revoking all sessions of a user\<close>

text \<open>A key, once deleted, stays deleted through the rest of the revocation.\<close>

lemma wp_Del:
  "wp (Del k) Q w \<longleftrightarrow>
     (outcomes w (calls w) = Done \<longrightarrow> Q (Inr ()) (del_key k (w\<lparr>calls := Suc (calls w)\<rparr>)))
     \<and> (outcomes w (calls w) = Lost \<longrightarrow> Q (Inl ErrExternal) (w\<lparr>calls := Suc (calls w)\<rparr>))
     \<and> (outcomes w (calls w) = Unacked \<longrightarrow> Q (Inl ErrExternal) (del_key k (w\<lparr>calls := Suc (calls w)\<rparr>)))"
  unfolding Del_def wp_command ..

definition shrinks :: "string set \<Rightarrow> world \<Rightarrow> bool" where
  "shrinks K w \<longleftrightarrow> (\<forall>k \<in> K. vk w k = None)"

lemma keeps_shrinks_Del [inv_intros]: "keeps (shrinks K) (Del k)"
  unfolding Del_def by (rule keeps_command) (simp_all add: shrinks_def del_key_def)

lemma misc_stable_shrinks [simp, inv_intros]: "misc_stable (shrinks K)"
  by (simp add: shrinks_def misc_stable_def)

lemma keeps_shrinks_delete [inv_intros]: "keeps (shrinks K) (delete_sessions sids)"
  by (induction sids) (auto intro!: inv_intros)

lemma wp_delete_sessions:
  "shrinks K w \<Longrightarrow>
     wp (delete_sessions sids) (\<lambda>r t. shrinks K t \<and> (r = Inr () \<longrightarrow> shrinks ((\<lambda>sid. sessionKeyPrefix @ sid) ` set sids) t)) w"
proof (induction sids arbitrary: w K)
  case Nil
  then show ?case by (simp add: io_simps shrinks_def)
next
  case (Cons sid sids)
  let ?S = "(\<lambda>sid. sessionKeyPrefix @ sid) ` set sids" and ?k = "sessionKeyPrefix @ sid"
  let ?rest = "do { _ \<leftarrow> Del (sessionCountryKeyPrefix @ sid); _ \<leftarrow> Del (sessionDeviceKeyPrefix @ sid);
                    delete_sessions sids }"
  have rest: "wp ?rest (\<lambda>r t. shrinks L t \<and> (r = Inr () \<longrightarrow> shrinks ?S t)) u" if "shrinks L u" for L u
  proof -
    have 1: "wp (Del (sessionCountryKeyPrefix @ sid)) (\<lambda>_. shrinks L) u"
      using that keeps_wpD [OF keeps_shrinks_Del] by blast
    show ?thesis
      unfolding wp_bind
    proof (rule wp_mono [OF 1])
      fix x v assume "shrinks L v"
      then have 2: "wp (Del (sessionDeviceKeyPrefix @ sid)) (\<lambda>_. shrinks L) v"
        using keeps_wpD [OF keeps_shrinks_Del] by blast
      show "wp (Del (sessionDeviceKeyPrefix @ sid)) (\<lambda>a. wp (delete_sessions sids) (\<lambda>r t. shrinks L t \<and> (r = Inr () \<longrightarrow> shrinks ?S t))) v"
        by (rule wp_mono [OF 2]) (rule Cons.IH)
    qed
  qed
  have "shrinks (insert ?k K) (del_key ?k (w\<lparr>calls := n\<rparr>))" for n
    using Cons.prems by (simp add: shrinks_def del_key_def)
  then have "wp ?rest (\<lambda>r t. shrinks (insert ?k K) t \<and> (r = Inr () \<longrightarrow> shrinks ?S t)) (del_key ?k (w\<lparr>calls := n\<rparr>))" for n
    by (rule rest)
  then have gone: "wp ?rest (\<lambda>r t. shrinks K t \<and> (r = Inr () \<longrightarrow> shrinks (insert ?k ?S) t)) (del_key ?k (w\<lparr>calls := n\<rparr>))" for n
    by (rule wp_mono) (simp add: shrinks_def)
  have "shrinks K (w\<lparr>calls := n\<rparr>)" "shrinks K (del_key ?k (w\<lparr>calls := n\<rparr>))" for n
    using Cons.prems by (simp_all add: shrinks_def del_key_def)
  with gone show ?case
    unfolding delete_sessions.simps wp_try wp_Del by simp
qed

text \<open>After a successful revocation, none of the sessions the index listed is there any more.\<close>

lemma wp_RevokeUserSessions:
  "wp (RevokeUserSessions d subject)
     (\<lambda>r t. r = Inr () \<longrightarrow> vk t (userSessionsKeyPrefix @ subject) = None
        \<and> shrinks ((\<lambda>sid. sessionKeyPrefix @ sid) ` set (vk_members w (userSessionsKeyPrefix @ subject))) t) w"
proof -
  let ?U = "userSessionsKeyPrefix @ subject" and ?S = "\<lambda>sids. (\<lambda>sid. sessionKeyPrefix @ sid) ` set sids"
  have tail: "wp (try_bind (Del ?U) (\<lambda>_. do { _ \<leftarrow> Publish (UserChannel subject) ''session.changed''; ok () }))
      (\<lambda>r t. r = Inr () \<longrightarrow> vk t ?U = None \<and> shrinks K t) u" if "shrinks K u" for K u
  proof -
    have "vk t ?U = None \<and> shrinks K t"
      if "t = del_key ?U (u\<lparr>calls := n\<rparr>)" for t n
      using that \<open>shrinks K u\<close> by (simp add: shrinks_def del_key_def)
    then have p: "wp (Publish (UserChannel subject) ''session.changed'') (\<lambda>_ t. vk t ?U = None \<and> shrinks K t) (del_key ?U (u\<lparr>calls := n\<rparr>))" for n
      unfolding Publish_def wp_command by (auto simp: shrinks_def del_key_def)
    show ?thesis
      unfolding wp_try wp_Del by (auto simp: io_simps intro: wp_mono [OF p])
  qed
  have del: "wp (try_bind (delete_sessions sids) (\<lambda>_. try_bind (Del ?U) (\<lambda>_. do {
        _ \<leftarrow> Publish (UserChannel subject) ''session.changed''; ok () })))
      (\<lambda>r t. r = Inr () \<longrightarrow> vk t ?U = None \<and> shrinks (?S sids) t) u" for sids u
    unfolding wp_try [of "delete_sessions sids"]
  proof (rule wp_mono [OF wp_delete_sessions [of "{}"]], simp add: shrinks_def, intro conjI allI impI)
    fix r :: "unit res" and t a assume "shrinks {} t \<and> (r = Inr () \<longrightarrow> shrinks (?S sids) t)" and "r = Inr a"
    then have "shrinks (?S sids) t" by simp
    then show "wp (try_bind (Del ?U) (\<lambda>_. do { _ \<leftarrow> Publish (UserChannel subject) ''session.changed''; ok () }))
      (\<lambda>r t. r = Inr () \<longrightarrow> vk t ?U = None \<and> shrinks (?S sids) t) t"
      by (rule tail)
  qed simp_all
  show ?thesis
    unfolding RevokeUserSessions_def SetMembers_def wp_try wp_query
    by (simp add: wp_bind) (intro conjI impI, rule wp_any, rule wp_any, rule del)
qed

section \<open>Properties of validation and revocation\<close>

text \<open>
  C8: validation is sound, whatever calls fail on the way: a session is returned only for a
  non-empty token whose hash names a stored session, the answer is what that stored session
  decrypts to under the master key, and it is not older than the absolute maximum.
\<close>

theorem validate_sound:
  assumes "cache_ok (gcm w)"
    and "fst (run_state (ValidateSession d token ip country ua) w) = Inr (Some s)"
  shows "token \<noteq> [] \<and> \<not> too_old (now w) s
    \<and> (\<exists>stored. vk_str w (sessionKeyPrefix @ SessionID d token) = Some (JSession stored)
         \<and> plain_session d (d_MasterKeyEnv d) stored = Inr s)"
  using wp_validateByID_sound [OF assms(1), of d "SessionID d token" ip country ua] assms(2)
  by (auto simp: wp_run ValidateSession_def valid_answer_def SessionID_def)

lemma no_session_no_answer:
  assumes "vk w (sessionKeyPrefix @ sid) = None"
  shows "fst (run_state (validateSessionByID d sid ip country ua) w) \<in> {Inr None, Inl ErrExternal}"
proof -
  have "wp (validateSessionByID d sid ip country ua) (\<lambda>r _. r \<in> {Inr None, Inl ErrExternal}) w"
    using assms by (auto simp: validateSessionByID_def io_simps vk_str_def vk_entry_def intro!: wp_GetI)
  then show ?thesis by (simp add: wp_run)
qed

text \<open>
  C9: a revocation that reports success has taken effect, whatever other calls failed on the way:
  the index is gone, and every session the index listed is refused from then on.
\<close>

theorem revoke_all_effective:
  assumes "run_state (RevokeUserSessions d subject) w = (Inr (), t)"
  shows "vk t (userSessionsKeyPrefix @ subject) = None
    \<and> (\<forall>sid \<in> set (vk_members w (userSessionsKeyPrefix @ subject)).
         fst (run_state (validateSessionByID d sid ip country ua) t) \<in> {Inr None, Inl ErrExternal})"
  using wp_RevokeUserSessions [of d subject w] assms no_session_no_answer
  by (auto simp: wp_run shrinks_def)

text \<open>
  A module token is good for one module and as long as its session is: a session is returned
  only when the token's record names the module, and then it is the live session of the record.
\<close>

theorem module_token_sound:
  assumes "cache_ok (gcm w)"
    and "fst (run_state (ValidateModuleToken d token module ip country ua) w) = Inr (Some s)"
  shows "\<exists>sid stored.
      vk_str w (moduleTokenKeyPrefix @ SessionID d token)
        = Some (JModTok \<lparr>M_Module = module, M_SessionID = sid\<rparr>)
    \<and> vk_str w (sessionKeyPrefix @ sid) = Some (JSession stored)
    \<and> plain_session d (d_MasterKeyEnv d) stored = Inr s \<and> \<not> too_old (now w) s"
proof -
  let ?w = "w\<lparr>calls := Suc (calls w)\<rparr>" and ?k = "moduleTokenKeyPrefix @ SessionID d token"
  have "wp (ValidateModuleToken d token module ip country ua)
      (\<lambda>r _. r = Inr (Some s) \<longrightarrow> (\<exists>rec. vk_str w ?k = Some (JModTok rec) \<and> M_Module rec = module
         \<and> valid_answer d (M_SessionID rec) w r)) w"
  proof (cases "token = []")
    case False
    have sound: "wp (validateSessionByID d sid ip country ua) (\<lambda>r _. valid_answer d sid w r) ?w" for sid
      using wp_validateByID_sound [of ?w d sid ip country ua] assms(1)
      by (simp add: valid_answer_def vk_str_def)
    show ?thesis
      unfolding ValidateModuleToken_def if_not_P [OF False] wp_try
      by (rule wp_GetI) (auto simp: io_simps split: sval.splits intro!: wp_mono [OF sound])
  qed (simp add: ValidateModuleToken_def io_simps)
  then obtain rec where "vk_str w ?k = Some (JModTok rec)" "M_Module rec = module"
      "valid_answer d (M_SessionID rec) w (Inr (Some s))"
    using assms(2) by (auto simp: wp_run)
  moreover have "rec = \<lparr>M_Module = M_Module rec, M_SessionID = M_SessionID rec\<rparr>" by simp
  ultimately show ?thesis unfolding valid_answer_def by metis
qed

section \<open>A user revokes one of their own sessions\<close>

text \<open>The keys that belong to a session id and its owner.\<close>

definition session_keys :: "string \<Rightarrow> string \<Rightarrow> string set" where
  "session_keys subject sid =
     {sessionKeyPrefix @ sid, sessionCountryKeyPrefix @ sid, sessionDeviceKeyPrefix @ sid,
      userSessionsKeyPrefix @ subject}"

definition only_keys :: "string set \<Rightarrow> world \<Rightarrow> world \<Rightarrow> bool" where
  "only_keys K w t \<longleftrightarrow> (\<forall>k. k \<notin> K \<longrightarrow> vk t k = vk w k)"

lemma misc_stable_only_keys [simp, inv_intros]: "misc_stable (only_keys K w)"
  by (simp add: only_keys_def misc_stable_def)

lemma only_keys_refl [simp]: "only_keys K w w" "only_keys K w (t\<lparr>calls := n\<rparr>) = only_keys K w t"
  by (simp_all add: only_keys_def)

lemma keeps_only_Del: "k \<in> K \<Longrightarrow> keeps (only_keys K w) (Del k)"
  unfolding Del_def by (rule keeps_command) (auto simp: only_keys_def del_key_def)

lemma keeps_only_Remove: "k \<in> K \<Longrightarrow> keeps (only_keys K w) (RemoveSetMember k m)"
  unfolding RemoveSetMember_def
  by (rule keeps_command) (auto simp: only_keys_def put_members_def)

definition own_stored :: "string \<Rightarrow> string \<Rightarrow> world \<Rightarrow> bool" where
  "own_stored subject sid w \<longleftrightarrow>
     (\<exists>stored. vk_str w (sessionKeyPrefix @ sid) = Some (JSession stored) \<and> T_UserID stored = subject)"

lemma wp_revoke_own_tail:
  assumes "only_keys {} w u"
  shows "wp (do { _ \<leftarrow> bestEffortRevokeAtIdP d ss;
       del \<leftarrow> Del (sessionKeyPrefix @ sid);
       (case del of
          Inl e \<Rightarrow> State_Monad.return (False, Some e)
        | Inr _ \<Rightarrow> do {
            _ \<leftarrow> Del (sessionCountryKeyPrefix @ sid);
            _ \<leftarrow> Del (sessionDeviceKeyPrefix @ sid);
            rem \<leftarrow> RemoveSetMember (userSessionsKeyPrefix @ subject) sid;
            (case rem of Inl e \<Rightarrow> State_Monad.return (True, Some e) | Inr _ \<Rightarrow> State_Monad.return (True, None)) }) })
     (\<lambda>r t. only_keys (session_keys subject sid) w t) u"
  by (rule keeps_wpD)
    (use assms in \<open>auto simp: session_keys_def only_keys_def [where K = "{}"]
       intro!: inv_intros keeps_only_Del keeps_only_Remove\<close>,
     simp add: only_keys_def)

definition owns_session :: "string \<Rightarrow> string \<Rightarrow> world \<Rightarrow> bool" where
  "owns_session subject sid w \<longleftrightarrow>
     sid \<in> set (vk_members w (userSessionsKeyPrefix @ subject)) \<and> own_stored subject sid w"

lemma wp_RevokeOwn:
  "wp (RevokeOwnSessionByID d subject sid)
     (\<lambda>r t. if owns_session subject sid w then only_keys (session_keys subject sid) w t
            else \<not> fst r \<and> only_keys {} w t) w"
    (is "wp _ ?Q w")
proof (cases "sid = []")
  case True
  then show ?thesis by (simp add: RevokeOwnSessionByID_def io_simps)
next
  case False
  let ?w1 = "w\<lparr>calls := Suc (calls w)\<rparr>"
  have refused: "?Q (False, e) t" if "only_keys {} w t" for e t
    using that by (simp add: only_keys_def)
  have u: "only_keys {} w ?w1" "only_keys {} w (?w1\<lparr>calls := Suc (calls ?w1)\<rparr>)"
    by (simp_all add: only_keys_def)
  show ?thesis
    unfolding RevokeOwnSessionByID_def if_not_P [OF False] SetMembers_def wp_bind wp_query
  proof (intro conjI impI)
    show "wp (case if wrong_set w (userSessionsKeyPrefix @ subject) then Inl ErrExternal
            else Inr (vk_members w (userSessionsKeyPrefix @ subject)) of
          Inl e \<Rightarrow> State_Monad.return (False, Some e)
        | Inr sids \<Rightarrow>
            if sid \<notin> set sids then State_Monad.return (False, None)
            else Get (sessionKeyPrefix @ sid) \<bind> (\<lambda>r. case r of
                Inl e \<Rightarrow> State_Monad.return (False, Some e)
              | Inr None \<Rightarrow> State_Monad.return (False, None)
              | Inr (Some raw) \<Rightarrow>
                  (case json_session raw of
                     Inl e \<Rightarrow> State_Monad.return (False, Some e)
                   | Inr stored \<Rightarrow>
                       if T_UserID stored \<noteq> subject then State_Monad.return (False, None)
                       else do {
                         _ \<leftarrow> bestEffortRevokeAtIdP d [stored];
                         del \<leftarrow> Del (sessionKeyPrefix @ sid);
                         (case del of
                            Inl e \<Rightarrow> State_Monad.return (False, Some e)
                          | Inr _ \<Rightarrow> do {
                              _ \<leftarrow> Del (sessionCountryKeyPrefix @ sid);
                              _ \<leftarrow> Del (sessionDeviceKeyPrefix @ sid);
                              rem \<leftarrow> RemoveSetMember (userSessionsKeyPrefix @ subject) sid;
                              (case rem of
                                 Inl e \<Rightarrow> State_Monad.return (True, Some e)
                               | Inr _ \<Rightarrow> State_Monad.return (True, None)) }) }))) ?Q ?w1"
      using wp_revoke_own_tail [OF u(2), of d _ sid subject]
      by (auto simp: io_simps refused u json_session_def owns_session_def own_stored_def
          split: sval.splits intro!: wp_GetI)
  qed (simp add: io_simps refused u)
qed

text \<open>
  A user can revoke only their own sessions. Unless the id is in the caller's index and the
  stored session names the caller, the call reports \<open>False\<close> and no key changes; and then it changes
  only the session, its two baselines and the caller's index, whatever calls fail.
\<close>

theorem revoke_own_frame:
  assumes "run_state (RevokeOwnSessionByID d subject sid) w = ((removed, e), t)"
  shows "(removed \<longrightarrow> owns_session subject sid w)
    \<and> (\<forall>k. vk t k \<noteq> vk w k \<longrightarrow> owns_session subject sid w \<and> k \<in> session_keys subject sid)"
  using wp_RevokeOwn [of d subject sid w] assms
  by (auto simp: wp_run only_keys_def split: if_splits)

end
