(* ===== verification/SessionFlows.thy ===== *)
theory SessionFlows
  imports SessionLaws
begin

text \<open>
  Sequences of session operations: what is created can be validated; and two sequences after
  which a revoked user still has a session, one across a role change and one around the
  revalidation against the IdP. Ends with the concrete worlds the properties are applied to.
\<close>

section \<open>A created session validates\<close>

lemma raw_url_nonempty:
  assumes "s \<noteq> []"
  shows "raw_url_encode s \<noteq> []"
proof -
  obtain a r where "s = a # r" using assms by (cases s) auto
  then obtain x xs where "b64_encode s = x # xs" and "x = b64_char (byte a div 4)"
    by (cases "(s, ())" rule: prod.exhaust, cases r rule: b64_encode.cases) auto
  then show ?thesis by (simp add: raw_url_encode_def b64_char_not_pad byte_parts)
qed

lemma wp_randomToken:
  assumes "\<And>(tok :: string) n. tok \<noteq> [] \<Longrightarrow> Q tok (w\<lparr>drawn := n\<rparr>)"
  shows "wp randomToken Q w"
  using assms by (simp add: randomToken_def io_simps read_random_def wp_def raw_url_nonempty)

lemma wp_try_encrypt:
  assumes "cache_ok (gcm w)" and "aead_ok (d_aead d)" and "buildGCM k = Inr key"
    and "\<And>e t. enc_frame w t \<Longrightarrow> cache_ok (gcm t) \<Longrightarrow> plain d k e = Inr p \<Longrightarrow> wp (f e) Q t"
  shows "wp (try_bind (encrypt_if_io d k p) f) Q w"
  unfolding wp_try using assms by (intro wp_encrypt_plain [of w d k key]) auto

lemma wp_encryptSession:
  assumes w: "cache_ok (gcm w)" and A: "aead_ok (d_aead d)" and k: "buildGCM k = Inr key"
    and Q: "\<And>stored t. enc_frame w t \<Longrightarrow> cache_ok (gcm t) \<Longrightarrow> plain_session d k stored = Inr sess \<Longrightarrow>
       T_RefreshTokenEnc stored = [] \<Longrightarrow> Q (Inr stored) t"
  shows "wp (encryptSession d k sess) Q w"
  unfolding encryptSession_def
proof (rule wp_try_encrypt [OF w A k], rule wp_try_encrypt [OF _ A k], assumption,
    rule wp_try_encrypt [OF _ A k], assumption,
    rule wp_try_encrypt [OF _ A k], assumption,
    rule wp_try_encrypt [OF _ A k], assumption,
    rule wp_try_encrypt [OF _ A k], assumption)
  fix e1 t1 e2 t2 e3 t3 e4 t4 e5 t5 e6 t6
  assume 1: "enc_frame w t1" "plain d k e1 = Inr (S_Email sess)"
    and 2: "enc_frame t1 t2" "plain d k e2 = Inr (S_Name sess)"
    and 3: "enc_frame t2 t3" "plain d k e3 = Inr (S_PreferredUsername sess)"
    and 4: "enc_frame t3 t4" "plain d k e4 = Inr (S_Picture sess)"
    and 5: "enc_frame t4 t5" "plain d k e5 = Inr (S_IP sess)"
    and 6: "enc_frame t5 t6" "plain d k e6 = Inr (S_UserAgent sess)" and c: "cache_ok (gcm t6)"
  have "enc_frame w t6"
    by (rule enc_frame_trans [OF 1(1)], rule enc_frame_trans [OF 2(1)], rule enc_frame_trans [OF 3(1)],
        rule enc_frame_trans [OF 4(1)], rule enc_frame_trans [OF 5(1)], rule 6(1))
  then show "wp (ok \<lparr>T_UserID = S_UserID sess, T_EmailEnc = e1, T_EmailVerified = S_EmailVerified sess,
       T_NameEnc = e2, T_PreferredUsernameEnc = e3, T_PictureEnc = e4,
       T_Role = S_Role sess, T_Locked = S_Locked sess, T_CreatedAt = S_CreatedAt sess,
       T_IPEnc = e5, T_UserAgentEnc = e6, T_Country = S_Country sess,
       T_City = S_City sess, T_Region = S_Region sess, T_ASNOrg = S_ASNOrg sess,
       T_RefreshTokenEnc = [], T_CSRFToken = S_CSRFToken sess\<rparr>) Q t6"
    unfolding wp_ok by (rule Q) (simp_all add: c plain_session_def 1 2 3 4 5 6)
qed

text \<open>What a successful creation leaves: the stored session, listed in the user's index.\<close>

definition created :: "Deps \<Rightarrow> Session \<Rightarrow> string \<Rightarrow> world \<Rightarrow> bool" where
  "created d sess token t \<longleftrightarrow>
     (\<exists>stored. vk_str t (sessionKeyPrefix @ SessionID d token) = Some (JSession stored)
        \<and> plain_session d (d_MasterKeyEnv d) stored = Inr sess)
     \<and> SessionID d token \<in> set (vk_members t (userSessionsKeyPrefix @ S_UserID sess))
     \<and> cache_ok (gcm t)"

lemma vk_members_put_str:
  "k \<noteq> k' \<Longrightarrow> vk_members (put_str k v ttl w) k' = vk_members w k'"
  by (simp add: vk_members_def vk_entry_def put_str_def)

lemma vk_members_expire:
  "0 < ttl \<Longrightarrow> vk_members (set_expiry k ttl w) k' = vk_members w k'"
  by (auto simp: vk_members_def vk_entry_expire split: option.splits)

lemma vk_str_other:
  "k \<noteq> k' \<Longrightarrow> vk_str (put_members k ms w) k' = vk_str w k'"
  "0 < ttl \<Longrightarrow> vk_str (set_expiry k ttl w) k' = vk_str w k'"
  by (auto simp: vk_str_def vk_entry_put_members vk_entry_expire split: option.splits)

lemma update_gcm:
  "gcm (put_str k v ttl w) = gcm w" "gcm (put_members k ms w) = gcm w" "gcm (set_expiry k ttl w) = gcm w"
  by (simp_all add: put_str_def put_members_def set_expiry_def split: option.splits prod.splits)

lemma not_done: "outcomes w n = Lost \<Longrightarrow> \<not> all_done w" "outcomes w n = Unacked \<Longrightarrow> \<not> all_done w"
  by (metis all_done_def outcome.distinct(1)) (metis all_done_def outcome.distinct(3))

lemma wp_store_session:
  assumes "cache_ok (gcm w)" and "plain_session d (d_MasterKeyEnv d) stored = Inr sess"
  shows "wp (try_bind (SetWithTTL (sessionKeyPrefix @ SessionID d token) (JSession stored) SessionTTL) (\<lambda>_.
      try_bind (AddSetMember (userSessionsKeyPrefix @ S_UserID sess) (SessionID d token) SessionTTL) (\<lambda>_. ok token)))
    (\<lambda>r t. (\<forall>tok. r = Inr tok \<longrightarrow> tok = token \<and> created d sess token t)
       \<and> (all_done w \<and> \<not> wrong_set w (userSessionsKeyPrefix @ S_UserID sess) \<longrightarrow> r = Inr token)) w"
proof -
  have ns: "wrong_set (put_str (sessionKeyPrefix @ s) v ttl (w\<lparr>calls := n\<rparr>)) (userSessionsKeyPrefix @ S_UserID sess)
      = wrong_set w (userSessionsKeyPrefix @ S_UserID sess)"
    for s v ttl n
    by (simp add: wrong_set_def vk_entry_def put_str_def)
  have [simp]: "outcomes (put_str k v ttl u) = outcomes u" "outcomes (put_members k ms u) = outcomes u" for k v ttl u ms
    by (simp_all add: put_str_def put_members_def)
  show ?thesis
    using assms
    by (auto simp: SetWithTTL_def AddSetMember_def SAdd_def Expire_def io_simps wp_command ns created_def
        vk_members_put_str vk_members_expire vk_str_other vk_str_put update_gcm dest: not_done)
qed

text \<open>What \<open>CreateSession\<close> promises, and that it succeeds when every call does.\<close>

definition creates :: "Deps \<Rightarrow> world \<Rightarrow> string \<Rightarrow> (Session \<Rightarrow> bool) \<Rightarrow> string res \<Rightarrow> world \<Rightarrow> bool" where
  "creates d w subject P r t \<longleftrightarrow>
     (\<forall>token. r = Inr token \<longrightarrow> token \<noteq> [] \<and> (\<exists>sess. P sess \<and> created d sess token t))
     \<and> (all_done w \<and> \<not> wrong_set w (userSessionsKeyPrefix @ subject) \<longrightarrow> is_ok r)"

lemma wp_Create_stored:
  assumes c: "cache_ok (gcm w)" and A: "aead_ok (d_aead d)"
    and k: "buildGCM (d_MasterKeyEnv d) = Inr key" "d_MasterKeyEnv d \<noteq> []" and P: "P sess"
  shows "wp (do { token \<leftarrow> randomToken;
     try_bind (master_key d) (\<lambda>masterKey.
     try_bind (encryptSession d masterKey sess) (\<lambda>stored0.
     try_bind (if refreshToken \<noteq> [] then
                 try_bind (encrypt_if_io d masterKey refreshToken)
                   (\<lambda>e. ok (stored0\<lparr>T_RefreshTokenEnc := e\<rparr>))
               else ok stored0) (\<lambda>stored.
     let sid = SessionID d token in
     try_bind (SetWithTTL (sessionKeyPrefix @ sid) (JSession stored) SessionTTL) (\<lambda>_.
     try_bind (AddSetMember (userSessionsKeyPrefix @ S_UserID sess) sid SessionTTL) (\<lambda>_.
     ok token))))) })
     (creates d w (S_UserID sess) P) w"
proof -
  have store: "wp (let sid = SessionID d token in
        try_bind (SetWithTTL (sessionKeyPrefix @ sid) (JSession stored) SessionTTL) (\<lambda>_.
        try_bind (AddSetMember (userSessionsKeyPrefix @ S_UserID sess) sid SessionTTL) (\<lambda>_. ok token)))
      (creates d w (S_UserID sess) P) t"
    if "enc_frame w t" "cache_ok (gcm t)" "plain_session d (d_MasterKeyEnv d) stored = Inr sess" "token \<noteq> []"
    for t token stored
    unfolding wp_let
  proof (rule wp_mono [OF wp_store_session [OF that(2,3), of token]], goal_cases)
    case (1 r u)
    have "all_done t = all_done w" "wrong_set t = wrong_set w"
      using enc_frameD(12,13) [OF that(1)] by (auto simp: wrong_set_def fun_eq_iff)
    with 1 P that(4) show ?case unfolding creates_def by (metis is_ok_simps(1))
  qed
  have drawn: "enc_frame w (w\<lparr>drawn := n\<rparr>)" for n
    unfolding enc_frame_def by (intro exI [of _ n] exI [of _ "gcm w"]) simp
  have "wp randomToken (\<lambda>token. wp (try_bind (encryptSession d (d_MasterKeyEnv d) sess) (\<lambda>stored0.
     try_bind (if refreshToken \<noteq> [] then
                 try_bind (encrypt_if_io d (d_MasterKeyEnv d) refreshToken)
                   (\<lambda>e. ok (stored0\<lparr>T_RefreshTokenEnc := e\<rparr>))
               else ok stored0) (\<lambda>stored.
     let sid = SessionID d token in
     try_bind (SetWithTTL (sessionKeyPrefix @ sid) (JSession stored) SessionTTL) (\<lambda>_.
     try_bind (AddSetMember (userSessionsKeyPrefix @ S_UserID sess) sid SessionTTL) (\<lambda>_.
     ok token)))))
    (creates d w (S_UserID sess) P)) w"
  proof (rule wp_randomToken, subst wp_try, rule wp_encryptSession [OF _ A k(1)])
    fix tok :: string and n stored t
    assume tok: "tok \<noteq> []" and t: "enc_frame (w\<lparr>drawn := n\<rparr>) t" and ct: "cache_ok (gcm t)"
      and st: "plain_session d (d_MasterKeyEnv d) stored = Inr sess"
    have wt: "enc_frame w t" using enc_frame_trans [OF drawn t] .
    have upd: "plain_session d (d_MasterKeyEnv d) (stored\<lparr>T_RefreshTokenEnc := e\<rparr>) = Inr sess" for e
      using st by (simp add: plain_session_def)
    have "wp (try_bind (try_bind (encrypt_if_io d (d_MasterKeyEnv d) refreshToken)
                   (\<lambda>e. ok (stored\<lparr>T_RefreshTokenEnc := e\<rparr>))) (\<lambda>stored.
         let sid = SessionID d tok in
         try_bind (SetWithTTL (sessionKeyPrefix @ sid) (JSession stored) SessionTTL) (\<lambda>_.
         try_bind (AddSetMember (userSessionsKeyPrefix @ S_UserID sess) sid SessionTTL) (\<lambda>_. ok tok))))
       (creates d w (S_UserID sess) P) t"
      unfolding wp_try [of "try_bind _ _"]
      by (rule wp_try_encrypt [OF ct A k(1)])
        (auto simp only: wp_ok sum.inject sum.distinct simp_thms
          intro!: store upd tok intro: enc_frame_trans [OF wt])
    moreover note store [OF wt ct st tok]
    ultimately show "(\<forall>e. Inr stored = Inl e \<longrightarrow> creates d w (S_UserID sess) P (Inl e) t)
      \<and> (\<forall>a. Inr stored = Inr a \<longrightarrow> wp (try_bind (if refreshToken \<noteq> [] then
                 try_bind (encrypt_if_io d (d_MasterKeyEnv d) refreshToken)
                   (\<lambda>e. ok (a\<lparr>T_RefreshTokenEnc := e\<rparr>))
               else ok a) (\<lambda>stored.
     let sid = SessionID d tok in
     try_bind (SetWithTTL (sessionKeyPrefix @ sid) (JSession stored) SessionTTL) (\<lambda>_.
     try_bind (AddSetMember (userSessionsKeyPrefix @ S_UserID sess) sid SessionTTL) (\<lambda>_.
     ok tok)))) (creates d w (S_UserID sess) P) t)"
      by (cases "refreshToken = []") simp_all
  qed (simp add: c)
  then show ?thesis
    using k by (simp add: wp_bind master_key_def ResolveMasterKey_def)
qed

text \<open>The session as \<open>CreateSession\<close> completes it: a creation time and a CSRF token.\<close>

definition completed :: "int \<Rightarrow> Session \<Rightarrow> Session \<Rightarrow> bool" where
  "completed t sess sess' \<longleftrightarrow>
     (\<exists>csrf. csrf \<noteq> [] \<and> (S_CSRFToken sess \<noteq> [] \<longrightarrow> csrf = S_CSRFToken sess)
        \<and> sess' = sess\<lparr>S_CreatedAt := Some (case S_CreatedAt sess of None \<Rightarrow> t | Some c \<Rightarrow> c), S_CSRFToken := csrf\<rparr>)"

lemma wp_CreateSession:
  assumes "cache_ok (gcm w)" "aead_ok (d_aead d)"
    and "buildGCM (d_MasterKeyEnv d) = Inr key" "d_MasterKeyEnv d \<noteq> []"
  shows "wp (CreateSession d sess refreshToken) (creates d w (S_UserID sess) (completed (now w) sess)) w"
proof -
  let ?sess1 = "sess\<lparr>S_CreatedAt := Some (case S_CreatedAt sess of None \<Rightarrow> now w | Some c \<Rightarrow> c)\<rparr>"
  have s1: "(if S_CreatedAt sess = None then sess\<lparr>S_CreatedAt := Some (now w)\<rparr> else sess) = ?sess1"
    by (cases "S_CreatedAt sess") auto
  have go: "completed (now w) sess s' \<Longrightarrow> S_UserID s' = S_UserID sess \<Longrightarrow>
      wp (do { token \<leftarrow> randomToken;
     try_bind (master_key d) (\<lambda>masterKey.
     try_bind (encryptSession d masterKey s') (\<lambda>stored0.
     try_bind (if refreshToken \<noteq> [] then
                 try_bind (encrypt_if_io d masterKey refreshToken)
                   (\<lambda>e. ok (stored0\<lparr>T_RefreshTokenEnc := e\<rparr>))
               else ok stored0) (\<lambda>stored.
     let sid = SessionID d token in
     try_bind (SetWithTTL (sessionKeyPrefix @ sid) (JSession stored) SessionTTL) (\<lambda>_.
     try_bind (AddSetMember (userSessionsKeyPrefix @ S_UserID s') sid SessionTTL) (\<lambda>_.
     ok token))))) })
     (creates d w (S_UserID sess) (completed (now w) sess)) (w\<lparr>drawn := n\<rparr>)" for s' n
    by (rule wp_mono [OF wp_Create_stored [of "w\<lparr>drawn := n\<rparr>" d key "completed (now w) sess" s']])
      (use assms in \<open>auto simp: wrong_set_def creates_def\<close>)
  show ?thesis
  proof (cases "S_CSRFToken sess = []")
    case True
    then have c: "S_CSRFToken ?sess1 = []" by simp
    have "completed (now w) sess (?sess1\<lparr>S_CSRFToken := csrf\<rparr>)" if "csrf \<noteq> []" for csrf
      using that True by (auto simp: completed_def)
    with True show ?thesis
      unfolding CreateSession_def s1 wp_bind wp_get wp_let if_P [OF c] wp_return
      by (intro wp_randomToken go [unfolded wp_bind]) simp_all
  next
    case False
    then have "completed (now w) sess ?sess1" by (auto simp: completed_def)
    from go [OF this, of "drawn w"] False show ?thesis
      unfolding CreateSession_def s1 wp_bind wp_get wp_let by (simp add: wp_return)
  qed
qed

text \<open>
  C10: creating and validating a session is a round trip. When the calls succeed and the master key
  is usable, \<open>CreateSession\<close> returns a token, lists the session in the user's index, and presenting
  the token gives back the session, completed with a creation time and a CSRF token.
\<close>

theorem create_validate:
  assumes "all_done w" "cache_ok (gcm w)" "aead_ok (d_aead d)"
    and "buildGCM (d_MasterKeyEnv d) = Inr key" "d_MasterKeyEnv d \<noteq> []"
    and "\<And>x. x \<noteq> [] \<Longrightarrow> d_sha256 d x \<noteq> []"
    and "\<not> wrong_set w (userSessionsKeyPrefix @ S_UserID sess)" and "\<not> too_old (now w) sess"
    and "run_state (CreateSession d sess refreshToken) w = (r, t)"
  shows "\<exists>token sess'. r = Inr token \<and> completed (now w) sess sess'
    \<and> SessionID d token \<in> set (vk_members t (userSessionsKeyPrefix @ S_UserID sess))
    \<and> fst (run_state (ValidateSession d token ip country ua) t) = Inr (Some sess')"
proof -
  obtain token sess' where r: "r = Inr token" "token \<noteq> []" and c: "completed (now w) sess sess'"
    and cr: "created d sess' token t"
    using wp_CreateSession [OF assms(2-5), of sess refreshToken] assms(1,7,9)
    by (auto simp: wp_run creates_def is_ok_ex)
  have "keeps (\<lambda>u. now u = now w \<and> outcomes u = outcomes w) (CreateSession d sess refreshToken)"
    by (rule keeps_CreateSession) (simp add: store_stable_def misc_stable_def)
  then have t: "now t = now w" "all_done t"
    using assms(1,9) keepsD [of _ _ w r t] by (fastforce simp: all_done_def)+
  have young: "\<not> too_old (now t) sess'"
    using assms(8) c by (auto simp: too_old_def completed_def t SessionAbsoluteMaxAge_def split: option.splits)
  have sid: "SessionID d token \<noteq> []"
    using assms(6) [OF r(2)] r(2) by (cases "d_sha256 d token") (auto simp: SessionID_def)
  obtain stored where stored: "vk_str t (sessionKeyPrefix @ SessionID d token) = Some (JSession stored)"
    "plain_session d (d_MasterKeyEnv d) stored = Inr sess'" and cache: "cache_ok (gcm t)"
    using cr by (auto simp: created_def)
  let ?t = "t\<lparr>calls := Suc (calls t)\<rparr>"
  have dec: "wp (decryptSession d (d_MasterKeyEnv d) stored) (\<lambda>r u. r = Inr sess' \<and> now u = now t) ?t"
    by (rule wp_pure [OF pure_decryptSession]) (simp_all add: cache stored enc_frameD)
  have e: "\<exists>x. vk_entry t (sessionKeyPrefix @ SessionID d token) = Some (VStr (JSession stored), x)"
    using stored(1) by (auto simp: vk_str_def split: option.splits prod.splits vval.splits)
  have "wp (ValidateSession d token ip country ua) (\<lambda>r _. r = Inr (Some sess')) t"
    using sid e young t(2) assms(5)
    by (auto simp: ValidateSession_def validateSessionByID_def io_simps wp_Get json_session_def all_done_def
        master_key_def ResolveMasterKey_def) (rule wp_mono [OF dec], simp add: io_simps wp_any)
  moreover have "S_UserID sess' = S_UserID sess" using c by (auto simp: completed_def)
  ultimately show ?thesis using r c cr by (auto simp: wp_run created_def)
qed

section \<open>Concrete worlds\<close>

definition hours :: "int \<Rightarrow> int" where "hours n = n * 3600000000000"

definition sample_stored :: storedSession where
  "sample_stored = \<lparr>T_UserID = ''u1'', T_EmailEnc = [], T_EmailVerified = True, T_NameEnc = [],
     T_PreferredUsernameEnc = [], T_PictureEnc = [], T_Role = ''user'', T_Locked = False,
     T_CreatedAt = Some 0, T_IPEnc = [], T_UserAgentEnc = [], T_Country = [], T_City = [], T_Region = [],
     T_ASNOrg = [], T_RefreshTokenEnc = [], T_CSRFToken = ''c''\<rparr>"

text \<open>\<open>u1\<close> logged in at time 0 with the token \<open>t\<close>; it is now \<open>n\<close> hours later.\<close>

definition login_world :: "storedSession \<Rightarrow> int \<Rightarrow> world" where
  "login_world stored n = empty_world\<lparr>now := hours n,
     vk := [sessionKeyPrefix @ ''74'' \<mapsto> (VStr (JSession stored), Some (hours 24)),
            userSessionsKeyPrefix @ ''u1'' \<mapsto> (VSet [''74''], Some (hours 24))]\<rparr>"

definition sample_claims :: Claims where
  "sample_claims = \<lparr>C_Subject = ''u1'', C_Email = ''a@b'', C_EmailVerified = True, C_Name = [],
     C_PreferredUsername = [], C_Picture = [], C_Groups = [], C_AuthTime = 0\<rparr>"

text \<open>The same session with a refresh token, and an IdP that confirms it.\<close>

definition refreshable :: storedSession where
  "refreshable = sample_stored\<lparr>T_RefreshTokenEnc :=
     (case fst (Encrypt plain_aead [] (Some (replicate 12 (CHR ''n''))) sample_key ''rt'') of Inr e \<Rightarrow> e | Inl _ \<Rightarrow> [])\<rparr>"

definition confirming_deps :: Deps where
  "confirming_deps = sample_deps\<lparr>d_revalidate := (\<lambda>_ _. Inr (sample_claims, ''rt2''))\<rparr>"

section \<open>Two ways a revoked user keeps a session\<close>

text \<open>
  A role change can hide a session from revocation. \<open>UpdateSessionsRole\<close> writes each session
  back with a full 24 hours but leaves the expiry of the user's index as it was. A session of
  \<open>u1\<close> opened at hour 0 is made an administrator's at hour 23; at hour 25 the index has expired,
  the revocation of all sessions of \<open>u1\<close> succeeds and finds none, and the old token still
  validates, as an administrator.
\<close>

theorem role_change_hides_session:
  "(let (changed, w) = run_state (UpdateSessionsRole ''u1'' ''admin'' False) (login_world sample_stored 23);
        (revoked, t) = run_state (RevokeUserSessions sample_deps ''u1'') (w\<lparr>now := hours 25\<rparr>)
    in (changed, revoked, map_sum id (map_option S_Role) (fst (run_state (ValidateSession sample_deps ''t'' [] [] []) t))))
   = (Inr (), Inr (), Inr (Some ''admin''))"
  by code_simp

text \<open>
  A revalidation under way undoes a revocation. \<open>RevalidateSession\<close> reads the session, asks the
  IdP and writes the session back unconditionally. When all sessions of \<open>u1\<close> are revoked while the
  IdP is being asked, the revocation succeeds, and after the write the token validates again.
\<close>

theorem revalidation_undoes_revocation:
  "(let (loaded, w) = run_state (revalidate_load confirming_deps ''74'') (login_world refreshable 1);
        (revoked, t) = run_state (RevokeUserSessions confirming_deps ''u1'') w;
        gone = fst (run_state (ValidateSession confirming_deps ''t'' [] [] []) t);
        (finished, u) = (case loaded of
            Inr (Some (stored, mk, rt)) \<Rightarrow>
              run_state (revalidate_finish confirming_deps ''74'' stored mk (Revalidate confirming_deps 0 rt)) t
          | _ \<Rightarrow> (Inr True, t))
    in (revoked, gone, finished,
        map_sum id (map_option S_UserID) (fst (run_state (ValidateSession confirming_deps ''t'' [] [] []) u))))
   = (Inr (), Inr None, Inr False, Inr (Some ''u1''))"
  by code_simp

section \<open>The properties at concrete worlds\<close>

definition sample_view :: Session where
  "sample_view = \<lparr>S_UserID = ''u1'', S_Email = [], S_EmailVerified = True, S_Name = [],
     S_PreferredUsername = [], S_Picture = [], S_Role = ''user'', S_Locked = False, S_CreatedAt = Some 0,
     S_IP = [], S_UserAgent = [], S_Country = [], S_City = [], S_Region = [], S_ASNOrg = [], S_CSRFToken = ''c''\<rparr>"

lemma login_cache [simp]: "gcm (login_world s n) = []"
  by (simp add: login_world_def empty_world_def)

theorem validate_sound_witness:
  "''t'' \<noteq> [] \<and> \<not> too_old (now (login_world sample_stored 2)) sample_view
    \<and> (\<exists>stored. vk_str (login_world sample_stored 2) (sessionKeyPrefix @ SessionID sample_deps ''t'') = Some (JSession stored)
         \<and> plain_session sample_deps (d_MasterKeyEnv sample_deps) stored = Inr sample_view)"
proof -
  have "fst (run_state (ValidateSession sample_deps ''t'' [] [] []) (login_world sample_stored 2)) = Inr (Some sample_view)"
    by code_simp
  from validate_sound [OF _ this] show ?thesis by simp
qed

theorem revoke_all_effective_witness:
  "\<exists>t. vk t (userSessionsKeyPrefix @ ''u1'') = None
    \<and> (\<forall>sid \<in> set (vk_members (login_world sample_stored 2) (userSessionsKeyPrefix @ ''u1'')).
         fst (run_state (validateSessionByID sample_deps sid [] [] []) t) \<in> {Inr None, Inl ErrExternal})
    \<and> ''74'' \<in> set (vk_members (login_world sample_stored 2) (userSessionsKeyPrefix @ ''u1''))"
proof -
  obtain r t where rt: "run_state (RevokeUserSessions sample_deps ''u1'') (login_world sample_stored 2) = (r, t)"
    by fastforce
  have "fst (run_state (RevokeUserSessions sample_deps ''u1'') (login_world sample_stored 2)) = Inr ()"
    by code_simp
  with rt have "run_state (RevokeUserSessions sample_deps ''u1'') (login_world sample_stored 2) = (Inr (), t)" by simp
  from revoke_all_effective [OF this] have "vk t (userSessionsKeyPrefix @ ''u1'') = None
    \<and> (\<forall>sid \<in> set (vk_members (login_world sample_stored 2) (userSessionsKeyPrefix @ ''u1'')).
         fst (run_state (validateSessionByID sample_deps sid [] [] []) t) \<in> {Inr None, Inl ErrExternal})" .
  moreover have "''74'' \<in> set (vk_members (login_world sample_stored 2) (userSessionsKeyPrefix @ ''u1''))"
    by code_simp
  ultimately show ?thesis by blast
qed

text \<open>A module token for the module \<open>notes\<close> and the session of \<open>t\<close>; the token is \<open>m\<close>.\<close>

definition token_world :: world where
  "token_world = put_str (moduleTokenKeyPrefix @ ''6d'')
     (JModTok \<lparr>M_Module = ''notes'', M_SessionID = ''74''\<rparr>) ModuleTokenTTL (login_world sample_stored 2)"

theorem module_token_sound_witness:
  "\<exists>sid stored.
      vk_str token_world (moduleTokenKeyPrefix @ SessionID sample_deps ''m'')
        = Some (JModTok \<lparr>M_Module = ''notes'', M_SessionID = sid\<rparr>)
    \<and> vk_str token_world (sessionKeyPrefix @ sid) = Some (JSession stored)
    \<and> plain_session sample_deps (d_MasterKeyEnv sample_deps) stored = Inr sample_view
    \<and> \<not> too_old (now token_world) sample_view"
proof -
  have "fst (run_state (ValidateModuleToken sample_deps ''m'' ''notes'' [] [] []) token_world) = Inr (Some sample_view)"
    by code_simp
  from module_token_sound [OF _ this] show ?thesis
    by (simp add: token_world_def put_str_def)
qed

theorem revoke_own_frame_witness:
  "owns_session ''u1'' ''74'' (login_world sample_stored 2)
    \<and> fst (run_state (RevokeOwnSessionByID sample_deps ''u2'' ''74'') (login_world sample_stored 2)) = (False, None)"
proof -
  obtain t where "run_state (RevokeOwnSessionByID sample_deps ''u1'' ''74'') (login_world sample_stored 2)
      = ((fst (fst (run_state (RevokeOwnSessionByID sample_deps ''u1'' ''74'') (login_world sample_stored 2))),
          snd (fst (run_state (RevokeOwnSessionByID sample_deps ''u1'' ''74'') (login_world sample_stored 2)))), t)"
    by (metis prod.collapse)
  moreover have "fst (fst (run_state (RevokeOwnSessionByID sample_deps ''u1'' ''74'') (login_world sample_stored 2)))"
    by code_simp
  moreover have "fst (run_state (RevokeOwnSessionByID sample_deps ''u2'' ''74'') (login_world sample_stored 2)) = (False, None)"
    by code_simp
  ultimately show ?thesis using revoke_own_frame by blast
qed

definition new_session :: Session where
  "new_session = sample_view\<lparr>S_CreatedAt := None, S_CSRFToken := [], S_Email := ''a@b''\<rparr>"

theorem create_validate_witness:
  "\<exists>token sess' t. run_state (CreateSession sample_deps new_session ''rt'') empty_world = (Inr token, t)
    \<and> completed 1000 new_session sess'
    \<and> fst (run_state (ValidateSession sample_deps token [] [] []) t) = Inr (Some sess')"
proof -
  obtain r t where rt: "run_state (CreateSession sample_deps new_session ''rt'') empty_world = (r, t)"
    by fastforce
  have key: "buildGCM (d_MasterKeyEnv sample_deps) = Inr (replicate 32 (char_of (0 :: nat)))" by code_simp
  have "all_done empty_world" "cache_ok (gcm empty_world)" "aead_ok (d_aead sample_deps)"
    by (simp_all add: all_done_def empty_world_def sample_deps_def plain_aead_ok)
  moreover have "d_MasterKeyEnv sample_deps \<noteq> []" "\<not> wrong_set empty_world (userSessionsKeyPrefix @ S_UserID new_session)"
    "\<not> too_old (now empty_world) new_session" by code_simp+
  moreover have "x \<noteq> [] \<Longrightarrow> d_sha256 sample_deps x \<noteq> []" for x by (simp add: sample_deps_def)
  ultimately have "\<exists>token sess'. r = Inr token \<and> completed (now empty_world) new_session sess'
    \<and> SessionID sample_deps token \<in> set (vk_members t (userSessionsKeyPrefix @ S_UserID new_session))
    \<and> fst (run_state (ValidateSession sample_deps token [] [] []) t) = Inr (Some sess')"
    using create_validate [OF _ _ _ key _ _ _ _ rt] by blast
  moreover have "now empty_world = 1000" by (simp add: empty_world_def)
  ultimately show ?thesis using rt by auto
qed

end
