(* ===== verification/Http.thy ===== *)
theory Http
  imports SessionFlows NetGuard
begin

text \<open>
  Requests, responses and the guards every authenticated endpoint goes through: \<open>requireAdmin\<close>,
  \<open>RequireActiveSession\<close>, \<open>RequireModuleToken\<close>, CSRF and origin checks, step-up reauthentication
  (\<open>auth/admin.go\<close>, \<open>auth/handlers.go\<close>, \<open>auth/moduletoken.go\<close>).
\<close>

section \<open>Requests and responses\<close>

text \<open>
  A header, cookie or query parameter that is absent is the empty string, as for the code.
  \<open>R_Context\<close> is the session an outer middleware left in the request context.
\<close>

record Request =
  R_Method :: string
  R_Path :: string
  R_Cookie :: string
  R_Authorization :: string
  R_Origin :: string
  R_CSRFHeader :: string
  R_UserAgent :: string
  R_CFCountry :: string
  R_XFF :: string
  R_RemoteAddr :: string
  R_Query :: "(string \<times> string) list"
  R_PathID :: string
  R_Context :: "Session option"

definition query_get :: "Request \<Rightarrow> string \<Rightarrow> string" where
  "query_get r k = (case map_of (R_Query r) k of None \<Rightarrow> [] | Some v \<Rightarrow> v)"

datatype body =
    Empty
  | Message string
  | UserList "UserRow list"
  | Me Session "string option"
  | Prefs string string NotificationPrefs
  | Listed "ActiveSession list"
  | Redirect string "(string \<times> string) list"          \<comment> \<open>target and fragment\<close>
  | AuthRedirect string string string bool            \<comment> \<open>state, verifier, nonce, forced reauthentication\<close>
  | Completed bool "string list"
  | GroupPrefix "string option"
  | OIDC "(string \<times> string) option"
  | Flag bool                                         \<comment> \<open>\<open>configured\<close>, \<open>ready\<close>, \<open>ok\<close>\<close>
  | SMTP "(string \<times> int \<times> string \<times> string \<times> string) option"   \<comment> \<open>host, port, user, from, encryption\<close>
  | GeoIP "(string \<times> string \<times> string) option"          \<comment> \<open>account, last update, last error\<close>

text \<open>The cookie is what \<open>Set-Cookie\<close> says: a token, or the empty value that clears it.\<close>

record Response =
  Rs_Status :: nat
  Rs_Cookie :: "string option"
  Rs_Body :: body

definition answer :: "string option \<Rightarrow> nat \<Rightarrow> body \<Rightarrow> Response" where
  "answer c status b = \<lparr>Rs_Status = status, Rs_Cookie = c, Rs_Body = b\<rparr>"

definition reject :: "string option \<Rightarrow> nat \<Rightarrow> string \<Rightarrow> Response" where
  "reject c status msg = answer c status (Message msg)"

definition internal :: "string option \<Rightarrow> Response" where
  "internal c = reject c 500 ''internal server error''"

text \<open>A guard returns the response it has written, or what the handler goes on with.\<close>

type_synonym 'a guarded = "(Response + 'a) io"

definition guard_bind :: "'a guarded \<Rightarrow> ('a \<Rightarrow> Response io) \<Rightarrow> Response io" where
  "guard_bind m f = do { r \<leftarrow> m; case r of Inl resp \<Rightarrow> State_Monad.return resp | Inr a \<Rightarrow> f a }"

text \<open>An error of a call is answered with 500.\<close>

definition or_internal :: "string option \<Rightarrow> 'a res io \<Rightarrow> ('a \<Rightarrow> Response io) \<Rightarrow> Response io" where
  "or_internal c m f = do { r \<leftarrow> m; case r of Inl _ \<Rightarrow> State_Monad.return (internal c) | Inr a \<Rightarrow> f a }"

definition or_reject :: "string option \<Rightarrow> nat \<Rightarrow> string \<Rightarrow> 'a res io \<Rightarrow> ('a \<Rightarrow> Response io) \<Rightarrow> Response io" where
  "or_reject c status msg m f = do {
     r \<leftarrow> m;
     case r of Inl _ \<Rightarrow> State_Monad.return (reject c status msg) | Inr a \<Rightarrow> f a }"

section \<open>What is read off a request\<close>

definition sessionToken :: "Request \<Rightarrow> string" where "sessionToken r = R_Cookie r"

definition bearerToken :: "Request \<Rightarrow> string" where
  "bearerToken r =
     (if has_prefix (R_Authorization r) ''Bearer '' then trim_prefix (R_Authorization r) ''Bearer '' else [])"

definition BearerTokenAllowQuery :: "Request \<Rightarrow> string" where
  "BearerTokenAllowQuery r = (if bearerToken r \<noteq> [] then bearerToken r else query_get r ''t'')"

definition loginCountry :: "Request \<Rightarrow> string" where "loginCountry r = R_CFCountry r"

definition isTrustedProxyPeer :: "string \<Rightarrow> bool" where
  "isTrustedProxyPeer host =
     (case parse_ip host of None \<Rightarrow> False | Some ip \<Rightarrow> ip_is_loopback ip \<or> ip_is_private ip)"

definition peer_host :: "Request \<Rightarrow> string" where
  "peer_host r = (case split_host_port (R_RemoteAddr r) of None \<Rightarrow> R_RemoteAddr r | Some (h, _) \<Rightarrow> h)"

definition clientIP :: "Request \<Rightarrow> string" where
  "clientIP r =
     (let host = peer_host r; xff = R_XFF r in
      if xff \<noteq> [] \<and> isTrustedProxyPeer host
      then (case index_of xff '','' of Some i \<Rightarrow> trim_space (take i xff) | None \<Rightarrow> trim_space xff)
      else if host \<noteq> [] then host
      else R_RemoteAddr r)"

section \<open>CSRF, origin, fresh logins\<close>

definition csrfProtectedMethod :: "string \<Rightarrow> bool" where
  "csrfProtectedMethod method \<longleftrightarrow> method \<notin> {''GET'', ''HEAD'', ''OPTIONS''}"

definition validateCSRF :: "Request \<Rightarrow> Session \<Rightarrow> bool" where
  "validateCSRF r sess \<longleftrightarrow>
     (\<not> csrfProtectedMethod (R_Method r)
      \<or> \<not> (R_CSRFHeader r = [] \<or> S_CSRFToken sess = [] \<or> R_CSRFHeader r \<noteq> S_CSRFToken sess))"

definition originAllowed :: "Deps \<Rightarrow> Request \<Rightarrow> bool" where
  "originAllowed d r \<longleftrightarrow>
     R_Origin r = []
     \<or> trim_right_slash (R_Origin r) = trim_right_slash (d_PublicBaseURL d)
     \<or> trim_right_slash (R_Origin r) = trim_right_slash (d_FrontendBaseURL d)"

definition reauthWindow :: int where "reauthWindow = 900000000000"
definition reauthFailWindow :: int where "reauthFailWindow = 300000000000"
definition reauthFailAlertThreshold :: int where "reauthFailAlertThreshold = 3"

text \<open>\<open>logAudit\<close> and the audits beside it: best effort, and nothing without a master key.\<close>

definition logAudit :: "Deps \<Rightarrow> LogParams \<Rightarrow> unit io" where
  "logAudit d p =
     (case ResolveMasterKey d of
        Inl _ \<Rightarrow> State_Monad.return ()
      | Inr masterKey \<Rightarrow> do { _ \<leftarrow> Log d masterKey p; State_Monad.return () })"

definition log_params :: "string \<Rightarrow> string \<Rightarrow> string \<Rightarrow> string \<Rightarrow> string \<Rightarrow> string \<Rightarrow> LogParams" where
  "log_params event actor actorEmail target targetEmail details =
     \<lparr>L_EventType = event, L_ActorID = actor, L_ActorEmail = actorEmail, L_TargetID = target,
      L_TargetEmail = targetEmail, L_Details = details\<rparr>"

definition recordReauthFailure :: "Deps \<Rightarrow> Session \<Rightarrow> string \<Rightarrow> unit io" where
  "recordReauthFailure d sess label = do {
     r \<leftarrow> IncrExpire (''reauthfail:'' @ S_UserID sess) reauthFailWindow;
     (case r of
        Inl _ \<Rightarrow> State_Monad.return ()
      | Inr count \<Rightarrow>
          if count \<noteq> reauthFailAlertThreshold then State_Monad.return ()
          else do {
            _ \<leftarrow> Publish AdminChannel ''reauth.repeated_failures'';
            logAudit d (log_params ''reauth.repeated_failures'' (S_UserID sess) (S_Email sess) [] []
              (json_obj [(''label'', d_quote d label), (''count'', show_int count)])) }) }"

text \<open>A session without a creation time is infinitely old.\<close>

definition stale :: "int \<Rightarrow> Session \<Rightarrow> bool" where
  "stale t sess \<longleftrightarrow> (case S_CreatedAt sess of None \<Rightarrow> True | Some c \<Rightarrow> t - c > reauthWindow)"

definition requireRecentLogin :: "Deps \<Rightarrow> string option \<Rightarrow> Session \<Rightarrow> string \<Rightarrow> unit guarded" where
  "requireRecentLogin d c sess label = do {
     w \<leftarrow> State_Monad.get;
     (if stale (now w) sess then do {
        recordReauthFailure d sess label;
        State_Monad.return (Inl (reject c 403 ''reauth_required'')) }
      else State_Monad.return (Inr ())) }"

section \<open>Guards\<close>

definition request_session :: "Deps \<Rightarrow> Request \<Rightarrow> Session option res io" where
  "request_session d r =
     SessionFromRequest d (R_Context r) (sessionToken r) (clientIP r) (loginCountry r) (R_UserAgent r)"

text \<open>The prefix the guards and self-service handlers share, up to and including the check of \<open>ok\<close>.\<close>

definition authenticate :: "Deps \<Rightarrow> Request \<Rightarrow> string \<Rightarrow> Session guarded" where
  "authenticate d r missing =
     (if sessionToken r = [] then State_Monad.return (Inl (reject None 401 missing))
      else do {
        s \<leftarrow> request_session d r;
        State_Monad.return (case s of
           Inl _ \<Rightarrow> Inl (internal None)
         | Inr None \<Rightarrow> Inl (reject None 401 ''invalid or expired session'')
         | Inr (Some sess) \<Rightarrow> Inr sess) })"

text \<open>From here on the cookie has been refreshed.\<close>

definition cookie :: "Request \<Rightarrow> string option" where "cookie r = Some (sessionToken r)"

definition check_origin_csrf :: "Deps \<Rightarrow> Request \<Rightarrow> Session \<Rightarrow> Response + Session" where
  "check_origin_csrf d r sess =
     (if \<not> originAllowed d r then Inl (reject (cookie r) 403 ''origin not allowed'')
      else if \<not> validateCSRF r sess then Inl (reject (cookie r) 403 ''missing or invalid CSRF token'')
      else Inr sess)"

definition then_check :: "'a guarded \<Rightarrow> ('a \<Rightarrow> Response + 'b) \<Rightarrow> 'b guarded" where
  "then_check m f = do { r \<leftarrow> m; State_Monad.return (case r of Inl resp \<Rightarrow> Inl resp | Inr a \<Rightarrow> f a) }"

definition requireAdmin :: "Deps \<Rightarrow> Request \<Rightarrow> Session guarded" where
  "requireAdmin d r =
     then_check (authenticate d r ''missing session cookie'') (\<lambda>sess.
       if S_Role sess \<noteq> RoleAdmin then Inl (reject (cookie r) 403 ''forbidden'')
       else check_origin_csrf d r sess)"

definition requireActiveSessionWithToken :: "Deps \<Rightarrow> Request \<Rightarrow> Session guarded" where
  "requireActiveSessionWithToken d r =
     then_check (authenticate d r ''missing bearer token'') (\<lambda>sess.
       if S_Role sess = RolePending \<or> S_Locked sess then Inl (reject (cookie r) 403 ''forbidden'')
       else Inr sess)"

definition RequireActiveSession :: "Deps \<Rightarrow> Request \<Rightarrow> Session guarded" where
  "RequireActiveSession d r =
     then_check (requireActiveSessionWithToken d r) (check_origin_csrf d r)"

definition RequireAdminSession :: "Deps \<Rightarrow> Request \<Rightarrow> Session guarded" where
  "RequireAdminSession d r =
     then_check (RequireActiveSession d r) (\<lambda>sess.
       if S_Role sess \<noteq> RoleAdmin then Inl (reject (cookie r) 403 ''forbidden'') else Inr sess)"

text \<open>The middlewares; the session goes into the context, the refreshed cookie into the response.\<close>

definition with_cookie :: "string option \<Rightarrow> Response \<Rightarrow> Response" where
  "with_cookie c resp = resp\<lparr>Rs_Cookie := if Rs_Cookie resp = None then c else Rs_Cookie resp\<rparr>"

definition RequireAdminMiddleware :: "Deps \<Rightarrow> (Request \<Rightarrow> Response io) \<Rightarrow> Request \<Rightarrow> Response io" where
  "RequireAdminMiddleware d handler r =
     guard_bind (requireAdmin d r) (\<lambda>sess. do {
       resp \<leftarrow> handler (r\<lparr>R_Context := Some sess\<rparr>);
       State_Monad.return (with_cookie (cookie r) resp) })"

definition RequireAdminReauthMiddleware :: "Deps \<Rightarrow> (Request \<Rightarrow> Response io) \<Rightarrow> Request \<Rightarrow> Response io" where
  "RequireAdminReauthMiddleware d handler r =
     RequireAdminMiddleware d (\<lambda>r'. case R_Context r' of
         None \<Rightarrow> State_Monad.return (reject None 401 ''invalid or expired session'')
       | Some sess \<Rightarrow>
           guard_bind (requireRecentLogin d None sess (R_Method r' @ '' '' @ R_Path r')) (\<lambda>_. handler r')) r"

text \<open>Module tokens.\<close>

definition module_session :: "Deps \<Rightarrow> Request \<Rightarrow> string \<Rightarrow> string \<Rightarrow> string \<Rightarrow> Session guarded" where
  "module_session d r token module invalid = do {
     s \<leftarrow> ValidateModuleToken d token module (clientIP r) (loginCountry r) (R_UserAgent r);
     State_Monad.return (case s of
        Inl _ \<Rightarrow> Inl (internal None)
      | Inr None \<Rightarrow> Inl (reject None 401 invalid)
      | Inr (Some sess) \<Rightarrow>
          if S_Role sess = RolePending \<or> S_Locked sess then Inl (reject None 403 ''forbidden'') else Inr sess) }"

definition RequireModuleToken :: "Deps \<Rightarrow> string \<Rightarrow> bool \<Rightarrow> Request \<Rightarrow> Session guarded" where
  "RequireModuleToken d module allowQuery r =
     (let bearer = bearerToken r;
          token = (if bearer = [] \<and> allowQuery then query_get r ''t'' else bearer) in
      if token = [] then State_Monad.return (Inl (reject None 401 ''missing module token''))
      else module_session d r token module ''invalid or expired module token'')"

definition RequireSessionOrModuleToken :: "Deps \<Rightarrow> string \<Rightarrow> Request \<Rightarrow> Session guarded" where
  "RequireSessionOrModuleToken d module r =
     (let by_module =
        (if bearerToken r = [] then State_Monad.return (Inl (reject None 401 ''missing session cookie or bearer token''))
         else module_session d r (bearerToken r) module ''invalid or expired session'') in
      if sessionToken r = [] then by_module
      else do {
        s \<leftarrow> request_session d r;
        (case s of
           Inl _ \<Rightarrow> State_Monad.return (Inl (internal None))
         | Inr (Some sess) \<Rightarrow>
             State_Monad.return (if S_Role sess = RolePending \<or> S_Locked sess
               then Inl (reject None 403 ''forbidden'') else Inr sess)
         | Inr None \<Rightarrow> by_module) })"

section \<open>Reasoning\<close>

lemma wp_guard_bind [io_simps]:
  "wp (guard_bind m f) Q =
     wp m (\<lambda>r t. (\<forall>resp. r = Inl resp \<longrightarrow> Q resp t) \<and> (\<forall>a. r = Inr a \<longrightarrow> wp (f a) Q t))"
  by (auto simp: wp_def guard_bind_def fun_eq_iff split: prod.splits sum.splits)

lemma wp_or_internal [io_simps]:
  "wp (or_internal c m f) Q =
     wp m (\<lambda>r t. (\<forall>e. r = Inl e \<longrightarrow> Q (internal c) t) \<and> (\<forall>a. r = Inr a \<longrightarrow> wp (f a) Q t))"
  by (auto simp: wp_def or_internal_def fun_eq_iff split: prod.splits sum.splits)

lemma wp_or_reject [io_simps]:
  "wp (or_reject c st msg m f) Q =
     wp m (\<lambda>r t. (\<forall>e. r = Inl e \<longrightarrow> Q (reject c st msg) t) \<and> (\<forall>a. r = Inr a \<longrightarrow> wp (f a) Q t))"
  by (auto simp: wp_def or_reject_def fun_eq_iff split: prod.splits sum.splits)

lemma wp_then_check [io_simps]:
  "wp (then_check m f) Q =
     wp m (\<lambda>r t. (\<forall>resp. r = Inl resp \<longrightarrow> Q (Inl resp) t) \<and> (\<forall>a. r = Inr a \<longrightarrow> Q (f a) t))"
  by (auto simp: wp_def then_check_def fun_eq_iff split: prod.splits sum.splits)

lemma keeps_guard_bind [inv_intros]: "keeps I m \<Longrightarrow> (\<And>a. keeps I (f a)) \<Longrightarrow> keeps I (guard_bind m f)"
  unfolding guard_bind_def by (intro inv_intros)

lemma keeps_or_internal [inv_intros]: "keeps I m \<Longrightarrow> (\<And>a. keeps I (f a)) \<Longrightarrow> keeps I (or_internal c m f)"
  unfolding or_internal_def by (intro inv_intros)

lemma keeps_or_reject [inv_intros]: "keeps I m \<Longrightarrow> (\<And>a. keeps I (f a)) \<Longrightarrow> keeps I (or_reject c st msg m f)"
  unfolding or_reject_def by (intro inv_intros)

lemma keeps_then_check [inv_intros]: "keeps I m \<Longrightarrow> keeps I (then_check m f)"
  unfolding then_check_def by (intro inv_intros)

lemma keeps_logAudit [inv_intros]: "misc_stable I \<Longrightarrow> keeps I (logAudit d p)"
  unfolding logAudit_def by (intro inv_intros)

lemma keeps_request_session [inv_intros]: "store_stable I \<Longrightarrow> keeps I (request_session d r)"
  unfolding request_session_def by (intro inv_intros)

lemma keeps_requireAdmin [inv_intros]: "store_stable I \<Longrightarrow> keeps I (requireAdmin d r)"
  unfolding requireAdmin_def authenticate_def by (intro inv_intros)

lemma keeps_RequireActive [inv_intros]: "store_stable I \<Longrightarrow> keeps I (RequireActiveSession d r)"
  unfolding RequireActiveSession_def requireActiveSessionWithToken_def authenticate_def by (intro inv_intros)

lemma keeps_requireRecentLogin [inv_intros]: "store_stable I \<Longrightarrow> keeps I (requireRecentLogin d c s l)"
  unfolding requireRecentLogin_def recordReauthFailure_def by (intro inv_intros store_misc)

section \<open>What a guard that lets a request pass has checked\<close>

text \<open>The live session of the request's cookie (or the one an outer guard has put in the context).\<close>

definition authenticated :: "Deps \<Rightarrow> world \<Rightarrow> Request \<Rightarrow> Session \<Rightarrow> bool" where
  "authenticated d w r sess \<longleftrightarrow> sessionToken r \<noteq> [] \<and>
     (R_Context r = Some sess \<or> R_Context r = None \<and> \<not> too_old (now w) sess \<and>
       (\<exists>stored. vk_str w (sessionKeyPrefix @ SessionID d (sessionToken r)) = Some (JSession stored)
          \<and> plain_session d (d_MasterKeyEnv d) stored = Inr sess))"

lemma wp_authenticate:
  assumes "cache_ok (gcm w)"
    and "\<And>s t. authenticated d w r s \<Longrightarrow> Q (Inr s) t" and "\<And>resp t. Rs_Status resp \<ge> 400 \<Longrightarrow> Q (Inl resp) t"
  shows "wp (authenticate d r missing) Q w"
proof (cases "sessionToken r = [] \<or> R_Context r \<noteq> None")
  case True
  then show ?thesis
    using assms(2,3)
    by (auto simp: authenticate_def request_session_def SessionFromRequest_def io_simps authenticated_def
        reject_def answer_def)
next
  case False
  have "wp (request_session d r) (\<lambda>a _. valid_answer d (SessionID d (sessionToken r)) w a) w"
    using False wp_validateByID_sound [OF assms(1)]
    by (simp add: request_session_def SessionFromRequest_def ValidateSession_def)
  then show ?thesis
    using False unfolding authenticate_def if_not_P [OF False [unfolded de_Morgan_disj, THEN conjunct1]] wp_bind wp_return
    by (elim wp_mono) (auto simp: valid_answer_def authenticated_def reject_def answer_def internal_def
        intro!: assms(2,3) split: sum.splits option.splits)
qed

end
