(* ===== verification/Handlers.thy ===== *)
theory Handlers
  imports Http
begin

text \<open>
  The handlers of package \<open>auth\<close>: administration of users (\<open>auth/admin.go\<close>), login, callback,
  logout and self-service (\<open>auth/handlers.go\<close>, \<open>auth/mysessions.go\<close>), and the wizard's
  configuration endpoints (\<open>setup/\<close>).
\<close>

section \<open>Administration of users\<close>

text \<open>The answer \<open>Some reason\<close> blocks the action.\<close>

definition guardAgainstLastAdmin :: "string \<Rightarrow> string option res io" where
  "guardAgainstLastAdmin targetSubject =
     try_bind (UserRole targetSubject) (\<lambda>role.
       if role \<noteq> Some RoleAdmin then ok None
       else try_bind AdminCount (\<lambda>count.
         ok (if count \<le> 1 then Some ''cannot lock or delete the last remaining admin'' else None)))"

definition guardAgainstSelfOrLastAdmin :: "string \<Rightarrow> string \<Rightarrow> string option res io" where
  "guardAgainstSelfOrLastAdmin actingSubject targetSubject =
     (if targetSubject = actingSubject
      then ok (Some ''cannot perform this action on your own account'')
      else guardAgainstLastAdmin targetSubject)"

definition enqueueMail :: "Deps \<Rightarrow> string \<Rightarrow> string \<Rightarrow> string list \<Rightarrow> unit io" where
  "enqueueMail d subject kind args = do {
     u \<leftarrow> GetUser d subject;
     (case u of
        Inr (Some user) \<Rightarrow>
          if U_Email user = [] then State_Monad.return ()
          else do { _ \<leftarrow> Enqueue d (U_Email user) kind (U_Name user # args); State_Monad.return () }
      | _ \<Rightarrow> State_Monad.return ()) }"

text \<open>The email looked up for the audit entry.\<close>

definition target_email :: "Deps \<Rightarrow> string \<Rightarrow> string io" where
  "target_email d subject = do {
     u \<leftarrow> GetUser d subject;
     State_Monad.return (case u of Inr (Some user) \<Rightarrow> U_Email user | _ \<Rightarrow> []) }"

definition UsersHandler :: "Deps \<Rightarrow> Request \<Rightarrow> Response io" where
  "UsersHandler d r =
     guard_bind (requireAdmin d r) (\<lambda>_.
     or_internal (cookie r) (ListUsers d) (\<lambda>us.
     State_Monad.return (answer (cookie r) 200 (UserList us))))"

text \<open>\<open>admin_action\<close>: the admin with a fresh login, and the user id from the path.\<close>

definition admin_action :: "Deps \<Rightarrow> Request \<Rightarrow> string \<Rightarrow> (Session \<Rightarrow> string \<Rightarrow> Response io) \<Rightarrow> Response io" where
  "admin_action d r label act =
     guard_bind (requireAdmin d r) (\<lambda>sess.
     guard_bind (requireRecentLogin d (cookie r) sess label) (\<lambda>_.
       if R_PathID r = [] then State_Monad.return (reject (cookie r) 400 ''missing user id'')
       else act sess (R_PathID r)))"

definition ApproveUserHandler :: "Deps \<Rightarrow> Request \<Rightarrow> Response io" where
  "ApproveUserHandler d r = admin_action d r ''approve_user'' (\<lambda>sess subject.
     or_internal (cookie r) (ApproveUser subject) (\<lambda>n.
       if n = 0 then State_Monad.return (reject (cookie r) 404 ''no such user'')
       else do {
         role \<leftarrow> UserRole subject;
         _ \<leftarrow> (case role of
                Inr (Some rl) \<Rightarrow> UpdateSessionsRole subject rl False
              | _ \<Rightarrow> ok ());
         _ \<leftarrow> Publish (UserChannel subject) ''user.approved'';
         enqueueMail d subject ''approved'' [d_FrontendBaseURL d];
         email \<leftarrow> target_email d subject;
         logAudit d (log_params ''user.approved'' (S_UserID sess) (S_Email sess) subject email []);
         State_Monad.return (answer (cookie r) 204 Empty) }))"

definition LockUserHandler :: "Deps \<Rightarrow> Request \<Rightarrow> Response io" where
  "LockUserHandler d r = admin_action d r ''lock_user'' (\<lambda>sess subject.
     or_internal (cookie r) (guardAgainstSelfOrLastAdmin (S_UserID sess) subject) (\<lambda>blocked.
       case blocked of
         Some reason \<Rightarrow> State_Monad.return (reject (cookie r) 400 reason)
       | None \<Rightarrow>
           or_internal (cookie r) (LockUser subject) (\<lambda>n.
             if n = 0 then State_Monad.return (reject (cookie r) 404 ''no such user'')
             else do {
               _ \<leftarrow> RevokeUserSessions d subject;
               enqueueMail d subject ''locked'' [];
               email \<leftarrow> target_email d subject;
               logAudit d (log_params ''user.locked'' (S_UserID sess) (S_Email sess) subject email []);
               State_Monad.return (answer (cookie r) 204 Empty) })))"

definition UnlockUserHandler :: "Deps \<Rightarrow> Request \<Rightarrow> Response io" where
  "UnlockUserHandler d r = admin_action d r ''unlock_user'' (\<lambda>sess subject.
     or_internal (cookie r) (UnlockUser subject) (\<lambda>n.
       if n = 0 then State_Monad.return (reject (cookie r) 404 ''no such user'')
       else do {
         enqueueMail d subject ''unlocked'' [d_FrontendBaseURL d];
         email \<leftarrow> target_email d subject;
         logAudit d (log_params ''user.unlocked'' (S_UserID sess) (S_Email sess) subject email []);
         State_Monad.return (answer (cookie r) 204 Empty) }))"

definition DeleteUserHandler :: "Deps \<Rightarrow> Request \<Rightarrow> Response io" where
  "DeleteUserHandler d r = admin_action d r ''delete_user'' (\<lambda>sess subject.
     or_internal (cookie r) (guardAgainstSelfOrLastAdmin (S_UserID sess) subject) (\<lambda>blocked.
       case blocked of
         Some reason \<Rightarrow> State_Monad.return (reject (cookie r) 400 reason)
       | None \<Rightarrow>
           or_internal (cookie r) (GetUser d subject) (\<lambda>target.
           or_internal (cookie r) (DeleteUser subject) (\<lambda>n.
             if n = 0 then State_Monad.return (reject (cookie r) 404 ''no such user'')
             else do {
               _ \<leftarrow> RevokeUserSessions d subject;
               _ \<leftarrow> (case target of
                      Some user \<Rightarrow>
                        if U_Email user = [] then ok () else Enqueue d (U_Email user) ''deleted'' [U_Name user]
                    | None \<Rightarrow> ok ());
               logAudit d (log_params ''user.deleted'' (S_UserID sess) (S_Email sess) subject
                 (case target of Some user \<Rightarrow> U_Email user | None \<Rightarrow> []) []);
               State_Monad.return (answer (cookie r) 204 Empty) }))))"

section \<open>Login\<close>

definition oauthStateTTL :: int where "oauthStateTTL = 300000000000"
definition oauthStateKeyPrefix :: string where "oauthStateKeyPrefix = ''oauthstate:''"
definition lastCountryKeyPrefix :: string where "lastCountryKeyPrefix = ''lastcountry:''"
definition lastCountryTTL :: int where "lastCountryTTL = 31536000000000000"

definition sanitizeReturnPath :: "string \<Rightarrow> string" where
  "sanitizeReturnPath raw =
     (if raw = [] \<or> length raw > 256 then []
      else if \<not> has_prefix raw ''/'' \<or> has_prefix raw ''//'' then []
      else if index_any raw [CHR '' '', CHR 0x09, CHR 0x0A, CHR 0x0D] \<noteq> None then []
      else raw)"

definition mailLocation :: "string \<Rightarrow> string \<Rightarrow> string" where
  "mailLocation city country =
     (if city = [] then country else if country = [] then city else city @ '', '' @ country)"

definition frontendCallbackURL :: "Deps \<Rightarrow> string" where
  "frontendCallbackURL d = trim_right_slash (d_FrontendBaseURL d) @ ''/auth/complete''"

text \<open>\<open>oauth2.GenerateVerifier\<close>: 32 random bytes, encoded.\<close>

definition LoginHandler :: "Deps \<Rightarrow> Request \<Rightarrow> Response io" where
  "LoginHandler d r = do {
     p \<leftarrow> resolveProvider d;
     (case p of
        Inl _ \<Rightarrow> State_Monad.return (reject None 412 ''provider'')
      | Inr _ \<Rightarrow> do {
          state \<leftarrow> randomToken;
          codeVerifier \<leftarrow> randomToken;
          nonce \<leftarrow> randomToken;
          let reauth = (query_get r ''reauth'' = ''1'');
          let returnPath = sanitizeReturnPath (query_get r ''return'');
          or_internal None (SetWithTTL (oauthStateKeyPrefix @ state)
            (JOauth \<lparr>O_CodeVerifier = codeVerifier, O_Reauth = reauth, O_ReturnPath = returnPath, O_Nonce = nonce\<rparr>)
            oauthStateTTL) (\<lambda>_.
          State_Monad.return (answer None 302 (AuthRedirect state codeVerifier nonce reauth))) }) }"

text \<open>\<open>Provider.Exchange\<close>: the id token must carry the nonce of the login and a subject.\<close>

definition nonce_mismatch :: err where "nonce_mismatch = ErrInvalid ''nonce_mismatch''"

definition Exchange :: "Deps \<Rightarrow> nat \<Rightarrow> string \<Rightarrow> string \<Rightarrow> string \<Rightarrow> (Claims \<times> string) res" where
  "Exchange d n code codeVerifier expectedNonce =
     res_bind (d_exchange d n code codeVerifier) (\<lambda>(claims, nonce, refreshToken).
       if expectedNonce \<noteq> [] \<and> nonce \<noteq> expectedNonce then Inl nonce_mismatch
       else if C_Subject claims = [] then Inl (ErrInvalid ''id_token has no sub claim'')
       else Inr (claims, refreshToken))"

definition checkAndRecordLoginCountry :: "string \<Rightarrow> string \<Rightarrow> (bool \<times> string) io" where
  "checkAndRecordLoginCountry subject country =
     (if country = [] then State_Monad.return (False, [])
      else do {
        r \<leftarrow> Get (lastCountryKeyPrefix @ subject);
        _ \<leftarrow> SetWithTTL (lastCountryKeyPrefix @ subject) (Txt country) lastCountryTTL;
        State_Monad.return (case r of
           Inr (Some (Txt prev)) \<Rightarrow> if prev \<noteq> [] \<and> prev \<noteq> country then (True, prev) else (False, [])
         | _ \<Rightarrow> (False, [])) })"

text \<open>\<open>geoip.IsHostingOrVPN\<close>: a keyword in the name of the network's organisation.\<close>

definition hostingOrVPNKeywords :: "string list" where
  "hostingOrVPNKeywords =
    [''amazon'', ''aws'', ''google cloud'', ''google llc'', ''microsoft'', ''azure'', ''digitalocean'',
     ''linode'', ''akamai'', ''cloudflare'', ''hetzner'', ''ovh'', ''vultr'', ''contabo'', ''scaleway'',
     ''leaseweb'', ''m247'', ''choopa'', ''datacamp'', ''hostinger'', ''oracle cloud'', ''alibaba'',
     ''tencent'', ''ionos'', ''netcup'', ''upcloud'', ''packet'', ''equinix'', ''rackspace'',
     ''fastly'', ''nordvpn'', ''nord security'', ''expressvpn'', ''surfshark'', ''protonvpn'',
     ''proton ag'', ''mullvad'', ''private internet access'', ''ipvanish'', ''cyberghost'',
     ''tunnelbear'', ''windscribe'', ''hide.me'', ''privado'', ''perfect privacy'', ''airvpn'',
     ''torguard'', ''vpnunlimited'', ''purevpn'', ''astrill'', ''hola networks'']"

definition IsHostingOrVPN :: "string \<Rightarrow> bool" where
  "IsHostingOrVPN org \<longleftrightarrow> org \<noteq> [] \<and> list_ex (contains (to_lower org)) hostingOrVPNKeywords"

definition show_bool :: "bool \<Rightarrow> string" where
  "show_bool b = (if b then ''true'' else ''false'')"

definition auditLoginFailureWithSubject ::
  "Deps \<Rightarrow> string \<Rightarrow> string \<Rightarrow> string \<Rightarrow> string \<Rightarrow> string \<Rightarrow> string \<Rightarrow> unit io" where
  "auditLoginFailureWithSubject d reason ip country asnOrg subject email =
     logAudit d (log_params ''auth.login_failed'' (if subject \<noteq> [] then subject else ip) email
       subject (if subject \<noteq> [] then email else [])
       (json_obj [(''reason'', d_quote d reason), (''country'', d_quote d country),
          (''asn_org'', d_quote d asnOrg), (''hosting_or_vpn'', show_bool (IsHostingOrVPN asnOrg)),
          (''ip'', d_quote d ip)]))"

definition callback_error :: "Deps \<Rightarrow> string \<Rightarrow> Response" where
  "callback_error d e = answer None 302 (Redirect (frontendCallbackURL d) [(''error'', e)])"

text \<open>A failing call sends the browser back with \<open>server_error\<close> or the given error.\<close>

definition or_redirect :: "Deps \<Rightarrow> string \<Rightarrow> 'a res io \<Rightarrow> ('a \<Rightarrow> Response io) \<Rightarrow> Response io" where
  "or_redirect d e m f = do {
     r \<leftarrow> m;
     case r of Inl _ \<Rightarrow> State_Monad.return (callback_error d e) | Inr a \<Rightarrow> f a }"

fun mail_admins :: "Deps \<Rightarrow> Claims \<Rightarrow> UserRow list \<Rightarrow> unit io" where
  "mail_admins d claims [] = State_Monad.return ()"
| "mail_admins d claims (admin # admins) = do {
     _ \<leftarrow> (if U_Email admin = [] then ok ()
          else Enqueue d (U_Email admin) ''pending_approval''
            [U_Name admin, d_FrontendBaseURL d, C_Name claims, C_Email claims]);
     mail_admins d claims admins }"

text \<open>What the login does after the session exists: audit, country baseline, events and mails.\<close>

definition after_login ::
  "Deps \<Rightarrow> Request \<Rightarrow> Claims \<Rightarrow> string \<Rightarrow> string \<Rightarrow> unit io" where
  "after_login d r claims refreshToken sessionRole = do {
     let ip = clientIP r;
     let country = loginCountry r;
     let city = fst (d_city d ip);
     let subject = C_Subject claims;
     logAudit d (log_params ''auth.login'' subject (C_Email claims) [] []
       (json_obj [(''role'', d_quote d sessionRole), (''refresh_token_issued'', show_bool (refreshToken \<noteq> [])),
          (''country'', d_quote d country), (''asn_org'', d_quote d (d_asn d ip)),
          (''hosting_or_vpn'', show_bool (IsHostingOrVPN (d_asn d ip))), (''ip'', d_quote d ip)]));
     a \<leftarrow> checkAndRecordLoginCountry subject country;
     _ \<leftarrow> Publish (UserChannel subject) ''session.new'';
     p \<leftarrow> GetNotificationPrefs subject;
     let prefs = (case p of Inr q \<Rightarrow> q | Inl _ \<Rightarrow> default_prefs);
     _ \<leftarrow> (if P_NewLogin prefs \<and> C_Email claims \<noteq> []
          then Enqueue d (C_Email claims) ''login''
            [C_Name claims, ip, mailLocation city country, R_UserAgent r, d_FrontendBaseURL d]
          else ok ());
     (if fst a then do {
        logAudit d (log_params ''auth.country_anomaly'' subject (C_Email claims) subject (C_Email claims)
          (json_obj [(''source'', ''\"login\"''), (''country'', d_quote d country),
             (''previous_country'', d_quote d (snd a)), (''ip'', d_quote d ip)]));
        _ \<leftarrow> (if P_CountryAnomaly prefs \<and> C_Email claims \<noteq> []
             then Enqueue d (C_Email claims) ''anomaly''
               [C_Name claims, ip, mailLocation city country, snd a, d_FrontendBaseURL d]
             else ok ());
        State_Monad.return () }
      else State_Monad.return ()) }"

definition login_session :: "Deps \<Rightarrow> Request \<Rightarrow> int \<Rightarrow> Claims \<Rightarrow> string \<Rightarrow> bool \<Rightarrow> Session" where
  "login_session d r t claims sessionRole sessionLocked =
     \<lparr>S_UserID = C_Subject claims, S_Email = C_Email claims, S_EmailVerified = C_EmailVerified claims,
      S_Name = C_Name claims, S_PreferredUsername = C_PreferredUsername claims, S_Picture = C_Picture claims,
      S_Role = sessionRole, S_Locked = sessionLocked, S_CreatedAt = Some t, S_IP = clientIP r,
      S_UserAgent = R_UserAgent r, S_Country = loginCountry r, S_City = fst (d_city d (clientIP r)),
      S_Region = snd (d_city d (clientIP r)), S_ASNOrg = d_asn d (clientIP r), S_CSRFToken = []\<rparr>"

text \<open>The role and the lock of the session: a locked or unapproved user gets a pending one.\<close>

definition session_role :: "string \<Rightarrow> bool \<Rightarrow> bool \<Rightarrow> string" where
  "session_role derivedRole approved locked =
     (if locked then RolePending else if \<not> approved then RolePending else derivedRole)"

text \<open>Approval and lock: read from the database only once the wizard is complete.\<close>

definition admission :: "string \<Rightarrow> (bool \<times> bool) res io" where
  "admission subject =
     try_bind WizardComplete (\<lambda>wizardDone.
       if wizardDone then
         try_bind (UserApproved subject) (\<lambda>approved.
         try_bind (UserLocked subject) (\<lambda>locked. ok (approved, locked)))
       else ok (True, False))"

text \<open>From the row of the user on: notify the administrators of a new request, open the session.\<close>

definition open_session ::
  "Deps \<Rightarrow> Request \<Rightarrow> oauthStatePayload \<Rightarrow> Claims \<Rightarrow> string \<Rightarrow> string \<Rightarrow> bool \<Rightarrow> bool \<Rightarrow> bool \<Rightarrow> Response io" where
  "open_session d r payload claims refreshToken derivedRole approved locked wasNew = do {
     let sessionRole = session_role derivedRole approved locked;
     _ \<leftarrow> (if wasNew \<and> \<not> approved then do {
           _ \<leftarrow> Publish AdminChannel ''user.pending'';
           admins \<leftarrow> ListAdmins d;
           (case admins of Inl _ \<Rightarrow> State_Monad.return () | Inr as \<Rightarrow> mail_admins d claims as) }
         else State_Monad.return ());
     w \<leftarrow> State_Monad.get;
     or_redirect d ''server_error''
       (CreateSession d (login_session d r (now w) claims sessionRole locked) refreshToken) (\<lambda>token. do {
       after_login d r claims refreshToken sessionRole;
       State_Monad.return (answer (Some token) 302 (Redirect (frontendCallbackURL d)
         ([(''email'', C_Email claims), (''role'', sessionRole)]
          @ (if O_ReturnPath payload \<noteq> [] then [(''return'', O_ReturnPath payload)] else [])))) }) }"

text \<open>The callback after a successful exchange.\<close>

definition complete_login :: "Deps \<Rightarrow> Request \<Rightarrow> oauthStatePayload \<Rightarrow> Claims \<Rightarrow> string \<Rightarrow> Response io" where
  "complete_login d r payload claims refreshToken =
     or_redirect d ''group_prefix_unavailable'' ResolveGroupPrefix (\<lambda>groupPrefix.
       let derivedRole = DeriveRole (C_Groups claims) groupPrefix in
       if derivedRole = RolePending then do {
         auditLoginFailureWithSubject d ''access_denied'' (clientIP r) (loginCountry r) (d_asn d (clientIP r))
           (C_Subject claims) (C_Email claims);
         State_Monad.return (callback_error d ''access_denied'') }
       else or_redirect d ''server_error'' (admission (C_Subject claims)) (\<lambda>(approved, locked).
         or_redirect d ''server_error''
           (UpsertUser d (C_Subject claims) (C_Email claims) (C_Name claims) derivedRole approved)
           (open_session d r payload claims refreshToken derivedRole approved locked)))"

definition json_oauth :: "sval \<Rightarrow> oauthStatePayload res" where
  "json_oauth v = (case v of JOauth p \<Rightarrow> Inr p | _ \<Rightarrow> Inl ErrDecode)"

definition after_exchange :: "Deps \<Rightarrow> Request \<Rightarrow> oauthStatePayload \<Rightarrow> (Claims \<times> string) res \<Rightarrow> Response io" where
  "after_exchange d r payload ex =
     (case ex of
        Inl e \<Rightarrow> do {
          let reason = (if e = nonce_mismatch then ''nonce_mismatch'' else ''exchange_failed'');
          auditLoginFailureWithSubject d reason (clientIP r) (loginCountry r) (d_asn d (clientIP r)) [] [];
          State_Monad.return (callback_error d reason) }
      | Inr (claims, refreshToken) \<Rightarrow> complete_login d r payload claims refreshToken)"

definition with_payload :: "Deps \<Rightarrow> Request \<Rightarrow> oauthStatePayload \<Rightarrow> Response io" where
  "with_payload d r payload =
     or_redirect d ''provider_unavailable'' (resolveProvider d) (\<lambda>_. do {
       ex \<leftarrow> query (\<lambda>w. Exchange d (calls w) (query_get r ''code'') (O_CodeVerifier payload) (O_Nonce payload));
       after_exchange d r payload ex })"

definition CallbackHandler :: "Deps \<Rightarrow> Request \<Rightarrow> Response io" where
  "CallbackHandler d r =
     (let state = query_get r ''state''; code = query_get r ''code'' in
      if state = [] \<or> code = [] then State_Monad.return (callback_error d ''missing_state_or_code'')
      else or_redirect d ''server_error'' (Get (oauthStateKeyPrefix @ state)) (\<lambda>rawState. do {
        _ \<leftarrow> Del (oauthStateKeyPrefix @ state);
        (case rawState of
           None \<Rightarrow> State_Monad.return (callback_error d ''invalid_or_expired_state'')
         | Some v \<Rightarrow>
             or_redirect d ''invalid_or_expired_state'' (State_Monad.return (json_oauth v)) (with_payload d r)) }))"

section \<open>Self-service\<close>

definition MeHandler :: "Deps \<Rightarrow> Request \<Rightarrow> Response io" where
  "MeHandler d r =
     guard_bind (authenticate d r ''missing session cookie'') (\<lambda>sess. do {
       issuer \<leftarrow> IssuerURL d (d_MasterKeyEnv d);
       State_Monad.return (answer (cookie r) 200 (Me sess
         (case issuer of Inr (Some u) \<Rightarrow> Some (trim_right_slash u @ ''/settings/account'') | _ \<Rightarrow> None))) })"

definition DeleteSelfHandler :: "Deps \<Rightarrow> Request \<Rightarrow> Response io" where
  "DeleteSelfHandler d r =
     guard_bind (then_check (authenticate d r ''missing session cookie'') (check_origin_csrf d r)) (\<lambda>sess.
     guard_bind (requireRecentLogin d (cookie r) sess ''delete_self'') (\<lambda>_.
     or_internal (cookie r) (guardAgainstLastAdmin (S_UserID sess)) (\<lambda>blocked.
       case blocked of
         Some reason \<Rightarrow> State_Monad.return (reject (cookie r) 400 reason)
       | None \<Rightarrow>
           or_internal (cookie r) (DeleteUser (S_UserID sess)) (\<lambda>n.
             if n = 0 then State_Monad.return (reject (cookie r) 404 ''no such user'')
             else do {
               _ \<leftarrow> RevokeUserSessions d (S_UserID sess);
               logAudit d (log_params ''user.self_deleted'' (S_UserID sess) (S_Email sess) [] [] []);
               _ \<leftarrow> (if S_Email sess = [] then ok () else Enqueue d (S_Email sess) ''deleted'' [S_Name sess]);
               State_Monad.return (answer (cookie r) 204 Empty) }))))"

text \<open>The body of a \<open>PATCH\<close>, decoded; a member that is absent is \<open>None\<close>.\<close>

record PrefsPatch =
  PP_UILanguage :: "string option"
  PP_Theme :: "string option"
  PP_NewLogin :: "bool option"
  PP_CountryAnomaly :: "bool option"
  PP_NewDevice :: "bool option"
  PP_SessionRevoked :: "bool option"

definition unless_None :: "'a option \<Rightarrow> ('a \<Rightarrow> unit res io) \<Rightarrow> unit res io" where
  "unless_None x f = (case x of None \<Rightarrow> ok () | Some a \<Rightarrow> f a)"

definition UserPrefsHandler :: "Deps \<Rightarrow> Request \<Rightarrow> PrefsPatch option \<Rightarrow> Response io" where
  "UserPrefsHandler d r body =
     guard_bind (then_check (authenticate d r ''missing session cookie'') (check_origin_csrf d r)) (\<lambda>sess.
       let uid = S_UserID sess; c = cookie r in
       if R_Method r = ''GET'' then
         or_reject c 500 ''internal error'' (GetUserLanguage uid) (\<lambda>lang.
         or_reject c 500 ''internal error'' (GetUserTheme uid) (\<lambda>theme.
         or_reject c 500 ''internal error'' (GetNotificationPrefs uid) (\<lambda>prefs.
         State_Monad.return (answer c 200 (Prefs lang theme prefs)))))
       else if R_Method r = ''PATCH'' then
         (case body of
            None \<Rightarrow> State_Monad.return (reject c 400 ''invalid request body'')
          | Some p \<Rightarrow>
              or_reject c 500 ''internal error'' (unless_None (PP_UILanguage p) (SetUserLanguage uid)) (\<lambda>_.
              or_reject c 500 ''internal error'' (unless_None (PP_Theme p) (SetUserTheme uid)) (\<lambda>_.
              or_reject c 500 ''internal error''
                (if PP_NewLogin p \<noteq> None \<or> PP_CountryAnomaly p \<noteq> None \<or> PP_NewDevice p \<noteq> None
                    \<or> PP_SessionRevoked p \<noteq> None
                 then SetNotificationPrefs uid (PP_NewLogin p) (PP_CountryAnomaly p) (PP_NewDevice p) (PP_SessionRevoked p)
                 else ok ()) (\<lambda>_.
              State_Monad.return (answer c 204 Empty)))))
       else State_Monad.return (reject c 405 ''method not allowed''))"

text \<open>Logout looks the session up by the token itself, not by its hash.\<close>

definition LogoutHandler :: "Deps \<Rightarrow> Request \<Rightarrow> Response io" where
  "LogoutHandler d r =
     (if R_Method r \<noteq> ''POST'' then State_Monad.return (reject None 405 ''method not allowed'')
      else let token = sessionToken r in
      if token = [] then State_Monad.return (reject None 401 ''missing session cookie'')
      else do {
        s \<leftarrow> request_session d r;
        raw \<leftarrow> Get (sessionKeyPrefix @ token);
        (case raw of
           Inr (Some (JSession stored)) \<Rightarrow> bestEffortRevokeAtIdP d [stored]
         | _ \<Rightarrow> State_Monad.return ());
        or_internal None (DeleteSession d token) (\<lambda>_. do {
          (case s of
             Inr (Some sess) \<Rightarrow> logAudit d (log_params ''auth.logout'' (S_UserID sess) (S_Email sess) [] [] [])
           | _ \<Rightarrow> State_Monad.return ());
          State_Monad.return (answer (Some []) 204 Empty) }) })"

definition mark_current :: "string \<Rightarrow> ActiveSession list \<Rightarrow> ActiveSession list" where
  "mark_current currentID sessions =
     (if currentID = [] then sessions
      else map (\<lambda>s. if AS_ID s = currentID then s\<lparr>AS_Current := True\<rparr> else s) sessions)"

definition MySessionsHandler :: "Deps \<Rightarrow> Request \<Rightarrow> Response io" where
  "MySessionsHandler d r =
     guard_bind (RequireActiveSession d r) (\<lambda>sess.
     or_internal (cookie r) (ListActiveSessionsForUser d (S_UserID sess)) (\<lambda>sessions.
     State_Monad.return (answer (cookie r) 200 (Listed (mark_current (SessionID d (sessionToken r)) sessions)))))"

definition RevokeMySessionHandler :: "Deps \<Rightarrow> Request \<Rightarrow> Response io" where
  "RevokeMySessionHandler d r =
     guard_bind (RequireActiveSession d r) (\<lambda>sess.
       if R_PathID r = [] then State_Monad.return (reject (cookie r) 400 ''missing session id'')
       else do {
         res \<leftarrow> RevokeOwnSessionByID d (S_UserID sess) (R_PathID r);
         (case res of
            (_, Some _) \<Rightarrow> State_Monad.return (internal (cookie r))
          | (revoked, None) \<Rightarrow>
              State_Monad.return (if revoked then answer (cookie r) 204 Empty
                else reject (cookie r) 404 ''no such session'')) })"

end
