(* ===== verification/HandlerLaws.thy ===== *)
theory HandlerLaws
  imports Handlers
begin

text \<open>
  What the guards and handlers guarantee: who gets past a guard; that no administrative action
  removes the last administrator; what locking a user does; what the callback lets in. Then the
  situations in which they let somebody in, or keep something, that they should not.
\<close>

section \<open>Guards\<close>

text \<open>Part of the state no session operation touches.\<close>

definition same_db :: "world \<Rightarrow> world \<Rightarrow> bool" where
  "same_db w t \<longleftrightarrow> users t = users w \<and> settings t = settings w \<and> now t = now w \<and> outcomes t = outcomes w"

lemma store_stable_same_db [simp, inv_intros]: "store_stable (same_db w)"
  by (simp add: same_db_def store_stable_def misc_stable_def)

lemma misc_stable_same_db [simp, inv_intros]: "misc_stable (same_db w)"
  by (rule store_misc) simp

lemma same_db_refl [simp]: "same_db w w"
  by (simp add: same_db_def)

lemma same_db_trans: "same_db w t \<Longrightarrow> same_db t u \<Longrightarrow> same_db w u"
  by (simp add: same_db_def)

definition passed :: "Deps \<Rightarrow> world \<Rightarrow> Request \<Rightarrow> Session \<Rightarrow> bool" where
  "passed d w r sess \<longleftrightarrow> authenticated d w r sess \<and> originAllowed d r \<and> validateCSRF r sess"

lemma check_origin_csrf_Inr: "check_origin_csrf d r s = Inr s' \<longleftrightarrow> s' = s \<and> originAllowed d r \<and> validateCSRF r s"
  by (auto simp: check_origin_csrf_def)

lemma check_origin_csrf_cases:
  assumes "originAllowed d r \<Longrightarrow> validateCSRF r s \<Longrightarrow> Q (Inr s)" and "\<And>resp. Rs_Status resp \<ge> 400 \<Longrightarrow> Q (Inl resp)"
  shows "Q (check_origin_csrf d r s)"
  using assms by (auto simp: check_origin_csrf_def reject_def answer_def)

lemma check_origin_csrf_Inl: "check_origin_csrf d r s = Inl resp \<Longrightarrow> Rs_Status resp = 403"
  by (auto simp: check_origin_csrf_def reject_def answer_def split: if_splits)

lemma wp_requireAdmin:
  assumes "cache_ok (gcm w)"
    and "\<And>s t. same_db w t \<Longrightarrow> passed d w r s \<Longrightarrow> S_Role s = RoleAdmin \<Longrightarrow> Q (Inr s) t"
    and "\<And>resp t. same_db w t \<Longrightarrow> Rs_Status resp \<ge> 400 \<Longrightarrow> Q (Inl resp) t"
  shows "wp (requireAdmin d r) Q w"
proof -
  have "wp (requireAdmin d r) (\<lambda>a _. (\<forall>s. a = Inr s \<longrightarrow> passed d w r s \<and> S_Role s = RoleAdmin)
      \<and> (\<forall>resp. a = Inl resp \<longrightarrow> Rs_Status resp \<ge> 400)) w"
    unfolding requireAdmin_def wp_then_check
    by (rule wp_authenticate [OF assms(1)])
      (auto simp: passed_def check_origin_csrf_Inr reject_def answer_def dest!: check_origin_csrf_Inl)
  moreover have "wp (requireAdmin d r) (\<lambda>_. same_db w) w"
    by (rule keeps_wpD) (auto intro!: inv_intros)
  ultimately have "wp (requireAdmin d r) (\<lambda>a t. ((\<forall>s. a = Inr s \<longrightarrow> passed d w r s \<and> S_Role s = RoleAdmin)
      \<and> (\<forall>resp. a = Inl resp \<longrightarrow> Rs_Status resp \<ge> 400)) \<and> same_db w t) w"
    by (simp add: wp_conj)
  then show ?thesis
  proof (rule wp_mono)
    fix a :: "Response + Session" and t assume a: "((\<forall>s. a = Inr s \<longrightarrow> passed d w r s \<and> S_Role s = RoleAdmin)
      \<and> (\<forall>resp. a = Inl resp \<longrightarrow> Rs_Status resp \<ge> 400)) \<and> same_db w t"
    then show "Q a t" using assms(2,3) by (cases a) auto
  qed
qed

lemma wp_RequireActive:
  assumes "cache_ok (gcm w)"
    and "\<And>s t. passed d w r s \<Longrightarrow> S_Role s \<noteq> RolePending \<Longrightarrow> \<not> S_Locked s \<Longrightarrow> Q (Inr s) t"
    and "\<And>resp t. Rs_Status resp \<ge> 400 \<Longrightarrow> Q (Inl resp) t"
  shows "wp (RequireActiveSession d r) Q w"
  unfolding RequireActiveSession_def requireActiveSessionWithToken_def wp_then_check
proof (rule wp_authenticate [OF assms(1)])
  fix s t assume s: "authenticated d w r s"
  have "Q (check_origin_csrf d r s) t" if "S_Role s \<noteq> RolePending" "\<not> S_Locked s"
    by (rule check_origin_csrf_cases [of d r s "\<lambda>x. Q x t"])
      (use s that in \<open>simp_all add: passed_def assms(2,3)\<close>)
  then show "(\<forall>resp. Inr s = Inl resp \<longrightarrow> (\<forall>ra. Inl resp = Inl ra \<longrightarrow> Q (Inl ra) t) \<and>
        (\<forall>a. Inl resp = Inr a \<longrightarrow> Q (check_origin_csrf d r a) t)) \<and>
     (\<forall>a. Inr s = Inr a \<longrightarrow>
        (\<forall>resp. (if S_Role a = RolePending \<or> S_Locked a then Inl (reject (cookie r) 403 ''forbidden'') else Inr a) = Inl resp
            \<longrightarrow> Q (Inl resp) t) \<and>
        (\<forall>b. (if S_Role a = RolePending \<or> S_Locked a then Inl (reject (cookie r) 403 ''forbidden'') else Inr a) = Inr b
            \<longrightarrow> Q (check_origin_csrf d r b) t))"
    by (auto simp: reject_def answer_def assms(3))
qed (simp add: assms(3))

text \<open>A fresh login ends the chain of guards of the sensitive actions.\<close>

lemma wp_requireRecentLogin:
  assumes "\<And>t. same_db w t \<Longrightarrow> \<not> stale (now w) s \<Longrightarrow> Q (Inr ()) t"
    and "\<And>resp t. same_db w t \<Longrightarrow> Rs_Status resp = 403 \<Longrightarrow> Q (Inl resp) t"
  shows "wp (requireRecentLogin d c s l) Q w"
proof -
  have k: "wp (recordReauthFailure d s l) (\<lambda>_. same_db w) w"
    by (rule keeps_wpD) (auto simp: recordReauthFailure_def intro!: inv_intros)
  show ?thesis
    unfolding requireRecentLogin_def wp_bind wp_get
    using assms(1) [OF same_db_refl]
    by (auto simp: io_simps reject_def answer_def intro!: wp_mono [OF k] assms(2))
qed

lemma wp_admin_action:
  assumes "cache_ok (gcm w)"
    and "\<And>s t. same_db w t \<Longrightarrow> passed d w r s \<Longrightarrow> S_Role s = RoleAdmin \<Longrightarrow> \<not> stale (now w) s \<Longrightarrow>
        R_PathID r \<noteq> [] \<Longrightarrow> wp (act s (R_PathID r)) Q t"
    and "\<And>resp t. same_db w t \<Longrightarrow> Rs_Status resp \<ge> 400 \<Longrightarrow> Q resp t"
  shows "wp (admin_action d r l act) Q w"
  unfolding admin_action_def wp_guard_bind
proof (rule wp_requireAdmin [OF assms(1)], goal_cases)
  case (1 s t)
  have "wp (requireRecentLogin d (cookie r) s l) (\<lambda>a u. (\<forall>resp. a = Inl resp \<longrightarrow> Q resp u) \<and>
     (\<forall>x. a = Inr x \<longrightarrow> wp (if R_PathID r = [] then State_Monad.return (reject (cookie r) 400 ''missing user id'')
        else act s (R_PathID r)) Q u)) t"
  proof (rule wp_requireRecentLogin, goal_cases)
    case (1 u)
    then have "same_db w u" "\<not> stale (now w) s"
      using \<open>same_db w t\<close> by (auto simp: same_db_def)
    with \<open>passed d w r s\<close> \<open>S_Role s = RoleAdmin\<close> show ?case
      by (auto simp: io_simps reject_def answer_def intro!: assms(2,3))
  next
    case (2 resp u)
    then show ?case using \<open>same_db w t\<close> by (auto intro!: assms(3) intro: same_db_trans)
  qed
  then show ?case by simp
qed (auto intro!: assms(3))

text \<open>
  C12: the middleware of the sensitive routes guards its handler. If the outcome of a request depends
  on the handler at all, the request came from a live session of an administrator that logged in
  within the last 15 minutes, from an allowed origin, and with the session's CSRF token unless the
  method is a safe one.
\<close>

theorem reauth_middleware_guards:
  assumes "cache_ok (gcm w)"
    and "run_state (RequireAdminReauthMiddleware d h r) w \<noteq> run_state (RequireAdminReauthMiddleware d h' r) w"
  shows "\<exists>s. authenticated d w r s \<and> S_Role s = RoleAdmin \<and> \<not> stale (now w) s
    \<and> originAllowed d r \<and> validateCSRF r s"
proof -
  obtain g t where gt: "run_state (requireAdmin d r) w = (g, t)" by fastforce
  have "wp (requireAdmin d r) (\<lambda>a t. (\<forall>s. a = Inr s \<longrightarrow> passed d w r s \<and> S_Role s = RoleAdmin) \<and> same_db w t) w"
    by (rule wp_requireAdmin [OF assms(1)]) simp_all
  then have *: "\<And>s. g = Inr s \<Longrightarrow> passed d w r s \<and> S_Role s = RoleAdmin" "same_db w t"
    by (auto simp: wp_run gt)
  obtain s where s: "g = Inr s"
    using assms(2) by (cases g) (auto simp: RequireAdminReauthMiddleware_def RequireAdminMiddleware_def guard_bind_def gt)
  have "\<not> stale (now t) s"
  proof
    assume "stale (now t) s"
    then have "run_state (RequireAdminReauthMiddleware d f r) w = run_state (RequireAdminReauthMiddleware d h r) w" for f
      by (simp add: RequireAdminReauthMiddleware_def RequireAdminMiddleware_def guard_bind_def gt s requireRecentLogin_def
          split: prod.splits)
    with assms(2) show False by metis
  qed
  with * s show ?thesis by (auto simp: passed_def same_db_def)
qed

text \<open>The session a bearer token of a module stands for.\<close>

definition module_authenticated :: "Deps \<Rightarrow> world \<Rightarrow> string \<Rightarrow> string \<Rightarrow> Session \<Rightarrow> bool" where
  "module_authenticated d w module token s \<longleftrightarrow>
     (\<exists>sid stored. vk_str w (moduleTokenKeyPrefix @ SessionID d token)
          = Some (JModTok \<lparr>M_Module = module, M_SessionID = sid\<rparr>)
        \<and> vk_str w (sessionKeyPrefix @ sid) = Some (JSession stored)
        \<and> plain_session d (d_MasterKeyEnv d) stored = Inr s \<and> \<not> too_old (now w) s)"

lemma wp_module_session:
  assumes "cache_ok (gcm w)"
    and "\<And>s t. module_authenticated d w module token s \<Longrightarrow> S_Role s \<noteq> RolePending \<Longrightarrow> \<not> S_Locked s \<Longrightarrow> Q (Inr s) t"
    and "\<And>resp t. Q (Inl resp) t"
  shows "wp (module_session d r token module invalid) Q w"
proof -
  have "wp (ValidateModuleToken d token module (clientIP r) (loginCountry r) (R_UserAgent r))
      (\<lambda>a _. \<forall>s. a = Inr (Some s) \<longrightarrow> module_authenticated d w module token s) w"
    using module_token_sound [OF assms(1)] by (auto simp: wp_run module_authenticated_def)
  then show ?thesis
    unfolding module_session_def wp_bind wp_return
    by (rule wp_mono) (auto intro!: assms(2,3) split: sum.splits option.splits)
qed

text \<open>
  A module endpoint that accepts only module tokens is entered only with a token issued for that
  module whose session is live, approved and not locked; an endpoint for browsers only with such a
  session, an allowed origin and the CSRF token.
\<close>

theorem session_guards_sound:
  assumes "cache_ok (gcm w)"
  shows "(\<forall>s. fst (run_state (RequireModuleToken d module allowQuery r) w) = Inr s \<longrightarrow>
      S_Role s \<noteq> RolePending \<and> \<not> S_Locked s
      \<and> (module_authenticated d w module (bearerToken r) s
         \<or> allowQuery \<and> bearerToken r = [] \<and> module_authenticated d w module (query_get r ''t'') s))
    \<and> (\<forall>s. fst (run_state (RequireActiveSession d r) w) = Inr s \<longrightarrow>
      S_Role s \<noteq> RolePending \<and> \<not> S_Locked s \<and> authenticated d w r s \<and> originAllowed d r \<and> validateCSRF r s)"
proof -
  let ?tok = "if bearerToken r = [] \<and> allowQuery then query_get r ''t'' else bearerToken r"
  have "wp (RequireModuleToken d module allowQuery r) (\<lambda>a _. \<forall>s. a = Inr s \<longrightarrow>
      S_Role s \<noteq> RolePending \<and> \<not> S_Locked s \<and> module_authenticated d w module ?tok s) w"
    unfolding RequireModuleToken_def Let_def wp_if wp_return
    by (auto intro!: wp_module_session [OF assms])
  moreover have "wp (RequireActiveSession d r) (\<lambda>a _. \<forall>s. a = Inr s \<longrightarrow>
      S_Role s \<noteq> RolePending \<and> \<not> S_Locked s \<and> passed d w r s) w"
    by (rule wp_RequireActive [OF assms]) auto
  ultimately show ?thesis
    by (auto simp: wp_run passed_def split: if_splits)
qed

section \<open>The client's address\<close>

text \<open>
  Only a proxy can set the client's address. A peer with a public address, by the same
  classification the outgoing requests are guarded with, is always taken by its own address,
  whatever \<open>X-Forwarded-For\<close> says.
\<close>

theorem clientIP_of_public_peer:
  assumes "parse_ip (peer_host r) = Some ip" and "isPublicIP ip"
  shows "clientIP r = peer_host r"
proof -
  have "peer_host r \<noteq> []" using assms(1) by (auto simp: parse_ip_def parse_addr_def)
  moreover have "to4 ip = ip" using assms(1) by (auto simp: parse_ip_def)
  ultimately show ?thesis
    using assms by (auto simp: clientIP_def Let_def isTrustedProxyPeer_def isPublicIP_def split: if_splits)
qed

section \<open>Administrators\<close>

lemma wp_query_db:
  assumes "\<And>t. same_db w t \<Longrightarrow> Q (q w) t" and "\<And>t. same_db w t \<Longrightarrow> Q (Inl ErrExternal) t"
  shows "wp (query q) Q w"
  unfolding wp_query by (intro conjI impI; rule assms) (simp_all add: same_db_def)

text \<open>The rows say that \<open>subject\<close> may go: not an administrator, or not the only one.\<close>

definition may_remove :: "UserRow list \<Rightarrow> string \<Rightarrow> bool" where
  "may_remove us subject \<longleftrightarrow>
     map_option U_Role (find_user us subject) \<noteq> Some RoleAdmin \<or> length (filter is_admin_row us) \<ge> 2"

lemma wp_guardAgainstLastAdmin:
  assumes "\<And>t. same_db w t \<Longrightarrow> may_remove (users w) subject \<Longrightarrow> Q (Inr None) t"
    and "\<And>r t. same_db w t \<Longrightarrow> r \<noteq> Inr None \<Longrightarrow> Q r t"
  shows "wp (guardAgainstLastAdmin subject) Q w"
  unfolding guardAgainstLastAdmin_def UserRole_def wp_try
proof (rule wp_query_db, goal_cases)
  case (1 t)
  have count: "wp (try_bind AdminCount (\<lambda>count. ok (if count \<le> 1
        then Some ''cannot lock or delete the last remaining admin'' else None))) Q t"
    unfolding AdminCount_def wp_try
  proof (rule wp_query_db, goal_cases)
    case (1 u)
    then have "same_db w u" "users t = users w" using \<open>same_db w t\<close> by (auto simp: same_db_def)
    then show ?case using assms by (auto simp: wp_ok may_remove_def)
  next
    case (2 u)
    then show ?case using \<open>same_db w t\<close> assms(2) by (auto simp: same_db_def)
  qed
  show ?case
    using 1 count assms(1) by (simp add: wp_ok may_remove_def)
qed (simp add: assms(2))

lemma wp_guardSelfOrLast:
  assumes "\<And>t. same_db w t \<Longrightarrow> may_remove (users w) subject \<Longrightarrow> subject \<noteq> acting \<Longrightarrow> Q (Inr None) t"
    and "\<And>r t. same_db w t \<Longrightarrow> r \<noteq> Inr None \<Longrightarrow> Q r t"
  shows "wp (guardAgainstSelfOrLastAdmin acting subject) Q w"
  using assms by (auto simp: guardAgainstSelfOrLastAdmin_def io_simps intro!: wp_guardAgainstLastAdmin)

lemma admin_remains:
  assumes ok: "users_ok us" and admin: "list_ex is_admin_row us" and may: "may_remove us subject"
  shows "list_ex is_admin_row (filter (\<lambda>u. U_Subject u \<noteq> subject) us)"
proof (rule ccontr)
  assume none: "\<not> list_ex is_admin_row (filter (\<lambda>u. U_Subject u \<noteq> subject) us)"
  then have all: "\<And>u. u \<in> set us \<Longrightarrow> is_admin_row u \<Longrightarrow> U_Subject u = subject"
    by (auto simp: list_ex_iff)
  obtain a where a: "a \<in> set us" "is_admin_row a" using admin by (auto simp: list_ex_iff)
  have inj: "inj_on U_Subject (set us)" and d: "distinct us"
    using ok by (simp_all add: users_ok_def distinct_map)
  then have only: "u = a" if "u \<in> set us" "is_admin_row u" for u
    using all a that by (metis inj_onD)
  obtain u where u: "find_user us subject = Some u" "u \<in> set us" "U_Subject u = subject"
    using a all find_user_None find_user_Some by (metis not_None_eq)
  then have "u = a" using all a inj by (metis inj_onD)
  then have "map_option U_Role (find_user us subject) = Some RoleAdmin"
    using u a by (simp add: is_admin_row_def RoleAdmin_def)
  then have two: "length (filter is_admin_row us) \<ge> 2" using may by (simp add: may_remove_def)
  have "set (filter is_admin_row us) \<subseteq> {a}" using only by auto
  then have "card (set (filter is_admin_row us)) \<le> 1"
    by (metis card.empty card.insert card_mono empty_iff finite.emptyI finite.insertI One_nat_def)
  moreover have "card (set (filter is_admin_row us)) = length (filter is_admin_row us)"
    using d by (intro distinct_card) simp
  ultimately show False using two by simp
qed

text \<open>Deleting a row changes only the rows, or nothing.\<close>

lemma wp_DeleteUser:
  assumes "\<And>t r. users t = users w \<Longrightarrow> Q r t"
    and "\<And>t r. users t = filter (\<lambda>u. U_Subject u \<noteq> subject) (users w) \<Longrightarrow> Q r t"
  shows "wp (DeleteUser subject) Q w"
  unfolding DeleteUser_def wp_command using assms by auto

lemma wp_users_kept:
  "keeps (\<lambda>t :: world. users t = us) m \<Longrightarrow> users w = us \<Longrightarrow> (\<And>r t. users t = us \<Longrightarrow> Q r t) \<Longrightarrow> wp m Q w"
  by (rule wp_mono [OF keeps_wpD])

lemma store_stable_users_eq [simp, inv_intros]: "store_stable (\<lambda>t. users t = us)"
  by (simp add: store_stable_def misc_stable_def)

lemma misc_stable_users_eq [simp, inv_intros]: "misc_stable (\<lambda>t. users t = us)"
  by (rule store_misc) simp

text \<open>An administrator's row is there.\<close>

definition has_admin :: "world \<Rightarrow> bool" where
  "has_admin t \<longleftrightarrow> list_ex is_admin_row (users t)"

lemma stable_has_admin [simp, inv_intros]: "store_stable has_admin" "misc_stable has_admin"
  by (simp_all add: has_admin_def [abs_def] store_stable_def misc_stable_def)

lemma wp_delete_then:
  assumes "same_db w t" "may_remove (users w) subject" "users_ok (users w)" "has_admin w"
    and "\<And>n. keeps has_admin (f n)"
  shows "wp (or_internal c (DeleteUser subject) f) (\<lambda>_. has_admin) t"
  unfolding wp_or_internal
proof (rule wp_DeleteUser, goal_cases)
  case (1 u r)
  then have "has_admin u" using assms(1,4) by (simp add: has_admin_def same_db_def)
  then show ?case using keeps_wpD [OF assms(5)] by auto
next
  case (2 u r)
  then have "has_admin u"
    using assms(1-4) admin_remains by (simp add: has_admin_def same_db_def)
  then show ?case using keeps_wpD [OF assms(5)] by auto
qed

lemma wp_DeleteUserHandler:
  assumes "cache_ok (gcm w)" "users_ok (users w)" "has_admin w"
  shows "wp (DeleteUserHandler d r) (\<lambda>_. has_admin) w"
  unfolding DeleteUserHandler_def
proof (rule wp_admin_action [OF assms(1)], goal_cases)
  case (1 s t)
  then show ?case
    unfolding wp_or_internal [of _ "guardAgainstSelfOrLastAdmin _ _"]
  proof (intro wp_guardSelfOrLast, goal_cases)
    case (1 u)
    then have wu: "same_db w u" "may_remove (users w) (R_PathID r)"
      using same_db_trans by (auto simp: same_db_def)
    have "keeps (same_db w) (GetUser d (R_PathID r))" by (intro inv_intros)
    from keeps_wpD [OF this wu(1)] have "wp (GetUser d (R_PathID r)) (\<lambda>a v. same_db w v) u" .
    then have g: "wp (GetUser d (R_PathID r)) (\<lambda>a v. (\<forall>e. a = Inl e \<longrightarrow> has_admin v) \<and>
        (\<forall>target. a = Inr target \<longrightarrow> wp (or_internal (cookie r) (DeleteUser (R_PathID r)) (f target)) (\<lambda>_. has_admin) v)) u"
      if "\<And>target n. keeps has_admin (f target n)" for f
    proof (rule wp_mono, intro conjI allI impI)
      fix a v assume "same_db w v"
      then show "has_admin v" using assms(3) by (simp add: has_admin_def same_db_def)
      show "wp (or_internal (cookie r) (DeleteUser (R_PathID r)) (f target)) (\<lambda>_. has_admin) v" for target
        by (rule wp_delete_then [OF \<open>same_db w v\<close> wu(2) assms(2,3) that])
    qed
    show ?case
      by (simp add: wp_or_internal [of _ "GetUser d (R_PathID r)"] split del: if_split del: all_simps ex_simps)
        (rule g, auto intro!: inv_intros split: option.splits)
  next
    case (2 a u)
    then show ?case using assms(3)
      by (auto simp: io_simps has_admin_def same_db_def split: option.splits)
  qed
qed (use assms(3) in \<open>simp add: has_admin_def same_db_def\<close>)

lemma wp_checked:
  assumes "cache_ok (gcm w)"
    and "\<And>s t. same_db w t \<Longrightarrow> passed d w r s \<Longrightarrow> Q (Inr s) t"
    and "\<And>resp t. same_db w t \<Longrightarrow> Rs_Status resp \<ge> 400 \<Longrightarrow> Q (Inl resp) t"
  shows "wp (then_check (authenticate d r m) (check_origin_csrf d r)) Q w"
proof -
  have a: "wp (authenticate d r m) (\<lambda>a t. ((\<forall>s. a = Inr s \<longrightarrow> authenticated d w r s)
      \<and> (\<forall>resp. a = Inl resp \<longrightarrow> Rs_Status resp \<ge> 400)) \<and> same_db w t) w"
    unfolding wp_conj
    by (intro conjI wp_authenticate [OF assms(1)] keeps_wpD) (auto simp: authenticate_def intro!: inv_intros)
  show ?thesis
    unfolding wp_then_check
  proof (rule wp_mono [OF a], intro conjI allI impI, goal_cases)
    case (2 a t s)
    then show ?case
      by (intro check_origin_csrf_cases [of d r s "\<lambda>x. Q x t"]) (simp_all add: passed_def assms(2,3))
  qed (auto intro!: assms(3))
qed

lemma wp_DeleteSelfHandler:
  assumes "cache_ok (gcm w)" "users_ok (users w)" "has_admin w"
  shows "wp (DeleteSelfHandler d r) (\<lambda>_. has_admin) w"
  unfolding DeleteSelfHandler_def wp_guard_bind [of "then_check _ _"]
proof (rule wp_checked [OF assms(1)], goal_cases)
  case (1 s t)
  have "wp (requireRecentLogin d (cookie r) s ''delete_self'') (\<lambda>_ u. same_db w u) t"
    by (rule wp_requireRecentLogin) (use 1 in \<open>auto intro: same_db_trans\<close>)
  moreover have "wp (or_internal (cookie r) (guardAgainstLastAdmin (S_UserID s)) (\<lambda>blocked.
       case blocked of
         Some reason \<Rightarrow> State_Monad.return (reject (cookie r) 400 reason)
       | None \<Rightarrow>
           or_internal (cookie r) (DeleteUser (S_UserID s)) (\<lambda>n.
             if n = 0 then State_Monad.return (reject (cookie r) 404 ''no such user'')
             else do {
               _ \<leftarrow> RevokeUserSessions d (S_UserID s);
               logAudit d (log_params ''user.self_deleted'' (S_UserID s) (S_Email s) [] [] []);
               _ \<leftarrow> (if S_Email s = [] then ok () else Enqueue d (S_Email s) ''deleted'' [S_Name s]);
               State_Monad.return (answer (cookie r) 204 Empty) })))
      (\<lambda>_. has_admin) u" if "same_db w u" for u
    unfolding wp_or_internal [of _ "guardAgainstLastAdmin _"]
  proof (rule wp_guardAgainstLastAdmin, goal_cases)
    case (1 v)
    then have "same_db w v" "may_remove (users w) (S_UserID s)"
      using that by (auto simp: same_db_def)
    then show ?case by (auto intro!: wp_delete_then assms(2,3) inv_intros)
  next
    case (2 a v)
    then show ?case using assms(3) that
      by (auto simp: io_simps has_admin_def same_db_def split: option.splits)
  qed
  moreover have "has_admin u" if "same_db w u" for u
    using that assms(3) by (simp add: has_admin_def same_db_def)
  ultimately show ?case
    by (simp add: wp_guard_bind split del: if_split) (erule wp_mono, simp split del: if_split)
qed (use assms(3) in \<open>auto simp: has_admin_def same_db_def\<close>)

text \<open>
  C13: no deletion removes the last administrator: whatever calls fail, and whoever asks, if there
  is a user with the role of an administrator before \<open>DeleteUserHandler\<close> or \<open>DeleteSelfHandler\<close>,
  there is one afterwards.
\<close>

theorem deletion_keeps_an_admin:
  assumes "cache_ok (gcm w)" "users_ok (users w)" "list_ex is_admin_row (users w)"
  shows "list_ex is_admin_row (users (snd (run_state (DeleteUserHandler d r) w)))
    \<and> list_ex is_admin_row (users (snd (run_state (DeleteSelfHandler d r) w)))"
  using wp_DeleteUserHandler [of w d r] wp_DeleteSelfHandler [of w d r] assms
  by (simp add: has_admin_def wp_run)

section \<open>Locking a user\<close>

definition lock_rows :: "string \<Rightarrow> UserRow list \<Rightarrow> UserRow list" where
  "lock_rows subject us = map (\<lambda>u. if U_Subject u = subject then u\<lparr>U_Locked := True\<rparr> else u) us"

lemma wp_LockUserHandler:
  assumes "cache_ok (gcm w)"
  shows "wp (LockUserHandler d r) (\<lambda>resp t. Rs_Status resp = 204 \<longrightarrow>
     users t = lock_rows (R_PathID r) (users w) \<and> find_user (users w) (R_PathID r) \<noteq> None
     \<and> may_remove (users w) (R_PathID r)
     \<and> (\<exists>s. passed d w r s \<and> S_Role s = RoleAdmin \<and> \<not> stale (now w) s \<and> S_UserID s \<noteq> R_PathID r)) w"
    (is "wp _ (\<lambda>resp t. Rs_Status resp = 204 \<longrightarrow> ?ok t) w")
  unfolding LockUserHandler_def
proof (rule wp_admin_action [OF assms], goal_cases)
  case (1 s t)
  show ?case
    unfolding wp_or_internal [of _ "guardAgainstSelfOrLastAdmin _ _"]
  proof (intro wp_guardSelfOrLast, goal_cases)
    case (1 u)
    let ?us = "lock_rows (R_PathID r) (users w)"
    have users: "users u = users w" "users t = users w"
      using 1 \<open>same_db w t\<close> by (auto simp: same_db_def)
    have okI: "?ok v" if "users v = ?us" "find_user (users w) (R_PathID r) \<noteq> None" for v
      using that 1 users \<open>passed d w r s\<close> \<open>S_Role s = RoleAdmin\<close> \<open>\<not> stale (now w) s\<close> by auto
    have n: "affected (R_PathID r) u \<noteq> 0 \<Longrightarrow> find_user (users w) (R_PathID r) \<noteq> None"
      by (auto simp: affected_def users find_user_None filter_empty_conv)
    have tail: "wp (do { _ \<leftarrow> RevokeUserSessions d (R_PathID r);
               enqueueMail d (R_PathID r) ''locked'' [];
               email \<leftarrow> target_email d (R_PathID r);
               logAudit d (log_params ''user.locked'' (S_UserID s) (S_Email s) (R_PathID r) email []);
               State_Monad.return (answer (cookie r) 204 Empty) }) (\<lambda>resp v. Rs_Status resp = 204 \<longrightarrow> ?ok v) v"
      if v: "users v = ?us" "find_user (users w) (R_PathID r) \<noteq> None" for v
      by (rule wp_users_kept [where us = ?us])
        (use v okI in \<open>auto simp: enqueueMail_def target_email_def intro!: inv_intros split: option.splits\<close>)
    have rows: "users (update_user (R_PathID r) (\<lambda>u. u\<lparr>U_Locked := True\<rparr>) (u\<lparr>calls := k\<rparr>)) = ?us" for k
      by (simp add: update_user_def lock_rows_def users)
    show ?case
      using n tail rows
      by (auto simp: wp_or_internal [of _ "LockUser _"] LockUser_def wp_command internal_def reject_def answer_def io_simps affected_def)
  next
    case (2 a u)
    then show ?case by (auto simp: io_simps reject_def answer_def internal_def split: option.splits)
  qed
qed auto

text \<open>
  What a lock that is answered with 204 means, whatever calls fail: the request came from a live
  session of an administrator with a login in the last 15 minutes, from an allowed origin and with
  its CSRF token; the target is another, existing user and not the last administrator; and exactly
  that user's row is now locked.
\<close>

theorem lock_effective:
  assumes "cache_ok (gcm w)" and "run_state (LockUserHandler d r) w = (resp, t)" and "Rs_Status resp = 204"
  shows "users t = lock_rows (R_PathID r) (users w)
    \<and> find_user (users w) (R_PathID r) \<noteq> None \<and> may_remove (users w) (R_PathID r)
    \<and> (\<exists>s. passed d w r s \<and> S_Role s = RoleAdmin \<and> \<not> stale (now w) s \<and> S_UserID s \<noteq> R_PathID r)"
  using wp_LockUserHandler [OF assms(1), of d r] assms(2,3) by (simp add: wp_run)

end
