(* ===== verification/LoginLaws.thy ===== *)
theory LoginLaws
  imports HandlerLaws
begin

text \<open>
  The login: who gets a session at the callback and with which role, under every pattern of
  failing calls; logout; and the situations in which a lock, an approval or a logout does not
  have the effect it should.
\<close>

section \<open>The session a login creates\<close>

text \<open>What of a session is stored in clear text and decides what it may do.\<close>

definition grants :: "storedSession \<Rightarrow> string \<Rightarrow> string \<Rightarrow> bool \<Rightarrow> bool" where
  "grants stored subject role locked \<longleftrightarrow>
     T_UserID stored = subject \<and> T_Role stored = role \<and> T_Locked stored = locked"

definition holds_session :: "Deps \<Rightarrow> world \<Rightarrow> string \<Rightarrow> string \<Rightarrow> string \<Rightarrow> bool \<Rightarrow> bool" where
  "holds_session d t token subject role locked \<longleftrightarrow>
     (\<exists>stored e. vk t (sessionKeyPrefix @ SessionID d token) = Some (VStr (JSession stored), e)
        \<and> grants stored subject role locked)"

lemma misc_stable_holds [simp, inv_intros]: "misc_stable (\<lambda>t. holds_session d t tok s rl l)"
  by (simp add: holds_session_def misc_stable_def)

lemma wp_encryptSession_grants:
  "wp (encryptSession d k sess) (\<lambda>r _. \<forall>st. r = Inr st \<longrightarrow> grants st (S_UserID sess) (S_Role sess) (S_Locked sess)) w"
  by (simp add: encryptSession_def io_simps wp_any grants_def)

lemma wp_store_grants:
  assumes "grants stored (S_UserID sess) (S_Role sess) (S_Locked sess)"
  shows "wp (try_bind (SetWithTTL (sessionKeyPrefix @ SessionID d token) (JSession stored) SessionTTL) (\<lambda>_.
      try_bind (AddSetMember (userSessionsKeyPrefix @ S_UserID sess) (SessionID d token) SessionTTL) (\<lambda>_. ok token)))
    (\<lambda>r t. \<forall>tok. r = Inr tok \<longrightarrow> holds_session d t tok (S_UserID sess) (S_Role sess) (S_Locked sess)) w"
proof -
  let ?I = "\<lambda>t. holds_session d t token (S_UserID sess) (S_Role sess) (S_Locked sess)"
  have put: "?I (put_str (sessionKeyPrefix @ SessionID d token) (JSession stored) SessionTTL (w\<lparr>calls := n\<rparr>))" for n
    using assms by (simp add: holds_session_def put_str_def)
  have add: "keeps ?I (AddSetMember (userSessionsKeyPrefix @ S_UserID sess) (SessionID d token) SessionTTL)"
    unfolding AddSetMember_def SAdd_def Expire_def
    by (intro inv_intros keeps_command)
      (auto simp: holds_session_def put_members_def set_expiry_def split: option.splits)
  have "wp (AddSetMember (userSessionsKeyPrefix @ S_UserID sess) (SessionID d token) SessionTTL)
      (\<lambda>r t. r = Inr () \<longrightarrow> ?I t) (put_str (sessionKeyPrefix @ SessionID d token) (JSession stored) SessionTTL (w\<lparr>calls := n\<rparr>))" for n
    by (rule wp_mono [OF keeps_wpD [OF add put]]) simp
  then show ?thesis by (simp add: SetWithTTL_def io_simps wp_command)
qed

lemma wp_CreateSession_grants:
  "wp (CreateSession d sess refreshToken)
     (\<lambda>r t. \<forall>tok. r = Inr tok \<longrightarrow> holds_session d t tok (S_UserID sess) (S_Role sess) (S_Locked sess)) w"
proof -
  have enc: "wp (try_bind (encryptSession d mk s) (\<lambda>stored0.
       try_bind (if refreshToken \<noteq> [] then
                   try_bind (encrypt_if_io d mk refreshToken) (\<lambda>e. ok (stored0\<lparr>T_RefreshTokenEnc := e\<rparr>))
                 else ok stored0) (\<lambda>stored.
       let sid = SessionID d token in
       try_bind (SetWithTTL (sessionKeyPrefix @ sid) (JSession stored) SessionTTL) (\<lambda>_.
       try_bind (AddSetMember (userSessionsKeyPrefix @ S_UserID s) sid SessionTTL) (\<lambda>_.
       ok token)))))
     (\<lambda>r t. \<forall>tok. r = Inr tok \<longrightarrow> holds_session d t tok (S_UserID sess) (S_Role sess) (S_Locked sess)) u"
    if s: "S_UserID s = S_UserID sess" "S_Role s = S_Role sess" "S_Locked s = S_Locked sess" for mk s token u
    unfolding wp_try [of "encryptSession _ _ _"]
  proof (rule wp_mono [OF wp_encryptSession_grants], intro conjI allI impI, goal_cases)
    case (2 r t stored0)
    then have g: "grants (stored0\<lparr>T_RefreshTokenEnc := e\<rparr>) (S_UserID s) (S_Role s) (S_Locked s)"
        "grants stored0 (S_UserID s) (S_Role s) (S_Locked s)" for e
      by (auto simp: grants_def)
    note st = wp_store_grants [OF g(1), of d token, unfolded s] wp_store_grants [OF g(2), of d token, unfolded s]
    show ?case
    proof (cases "refreshToken = []")
      case False
      show ?thesis
        unfolding if_P [OF False] wp_try [of "try_bind _ _"] wp_try [of "encrypt_if_io _ _ _"] wp_let wp_ok s
        by (rule wp_any) (auto simp: st)
    qed (simp add: st s Let_def)
  qed auto
  have mk: "wp (try_bind (master_key d) f) Q u" if "\<And>mk. wp (f mk) Q u" "\<And>e. Q (Inl e) u" for f Q u
    using that by (auto simp: master_key_def ResolveMasterKey_def fail_def io_simps)
  let ?s = "sess\<lparr>S_CreatedAt := Some (case S_CreatedAt sess of None \<Rightarrow> now w | Some c \<Rightarrow> c)\<rparr>"
  have s: "(if S_CreatedAt sess = None then sess\<lparr>S_CreatedAt := Some (now w)\<rparr> else sess) = ?s"
    by (cases "S_CreatedAt sess") auto
  show ?thesis
  proof (cases "S_CSRFToken ?s = []")
    case True
    show ?thesis
      unfolding CreateSession_def wp_bind wp_get wp_let s if_P [OF True] wp_return
      by (rule wp_any, rule wp_any, rule mk, rule enc) simp_all
  next
    case False
    show ?thesis
      unfolding CreateSession_def wp_bind wp_get wp_let s if_not_P [OF False] wp_return
      by (rule wp_any, rule mk, rule enc) simp_all
  qed
qed

section \<open>The callback\<close>

text \<open>After the session exists only other keys are written.\<close>

lemma keeps_after_login:
  "keeps (\<lambda>t. holds_session d' t tok s rl l) (after_login d r claims rt role)"
proof -
  have c: "keeps (\<lambda>t. holds_session d' t tok s rl l) (checkAndRecordLoginCountry sub country)" for sub country
    unfolding checkAndRecordLoginCountry_def SetWithTTL_def
    by (intro inv_intros keeps_command)
      (auto simp: holds_session_def put_str_def lastCountryKeyPrefix_def sessionKeyPrefix_def)
  show ?thesis unfolding after_login_def by (intro inv_intros c)
qed

text \<open>What the database says of a user at login.\<close>

definition admitted :: "world \<Rightarrow> string \<Rightarrow> bool \<times> bool" where
  "admitted w subject =
     (if wizard_done w
      then (case find_user (users w) subject of None \<Rightarrow> (False, False) | Some u \<Rightarrow> (U_Approved u, U_Locked u))
      else (True, False))"

lemma wp_admission:
  assumes "\<And>t. same_db w t \<Longrightarrow> Q (Inr (admitted w subject)) t" and "\<And>e t. same_db w t \<Longrightarrow> Q (Inl e) t"
  shows "wp (admission subject) Q w"
  unfolding admission_def wp_try [of WizardComplete]
proof (rule wp_WizardComplete, goal_cases)
  case (1 n)
  have db: "same_db w (w\<lparr>calls := n\<rparr>)" by (simp add: same_db_def)
  have "wp (try_bind (UserApproved subject) (\<lambda>approved. try_bind (UserLocked subject) (\<lambda>locked. ok (approved, locked))))
      Q (w\<lparr>calls := n\<rparr>)" if "wizard_done w"
    unfolding wp_try UserApproved_def
  proof (rule wp_query_db, goal_cases)
    case (1 t)
    then have t: "same_db w t" "users t = users w" using db by (auto simp: same_db_def)
    have "wp (UserLocked subject) (\<lambda>r t. (\<forall>e. r = Inl e \<longrightarrow> Q (Inl e) t) \<and> (\<forall>locked. r = Inr locked \<longrightarrow>
         wp (ok (case find_user (users w) subject of None \<Rightarrow> False | Some u \<Rightarrow> U_Approved u, locked)) Q t)) t"
      unfolding UserLocked_def
    proof (rule wp_query_db, goal_cases)
      case (1 u)
      then have "Q (Inr (admitted w subject)) u" using t(1) assms(1) same_db_trans by blast
      then show ?case using t that by (auto simp: wp_ok admitted_def split: option.splits)
    next
      case (2 u)
      then show ?case using t(1) assms(2) same_db_trans by blast
    qed
    then show ?case by simp
  next
    case (2 t)
    then show ?case using db assms(2) by (auto intro: same_db_trans)
  qed
  then show ?case
    using assms(1) [OF db] by (auto simp: io_simps admitted_def)
next
  case (2 e n)
  then show ?case using assms(2) by (simp add: same_db_def)
qed

lemma admitted_same_db: "same_db w u \<Longrightarrow> admitted u = admitted w"
  by (simp add: admitted_def wizard_done_def same_db_def fun_eq_iff)

definition no_cookie :: "Response \<Rightarrow> bool" where
  "no_cookie resp \<longleftrightarrow> Rs_Cookie resp = None"

lemma no_cookie_error [simp]: "no_cookie (callback_error d e)"
  by (simp add: no_cookie_def callback_error_def answer_def)

lemma wp_or_redirect [io_simps]:
  "wp (or_redirect d e m f) Q =
     wp m (\<lambda>r t. (\<forall>x. r = Inl x \<longrightarrow> Q (callback_error d e) t) \<and> (\<forall>a. r = Inr a \<longrightarrow> wp (f a) Q t))"
  by (auto simp: wp_def or_redirect_def fun_eq_iff split: prod.splits sum.splits)

text \<open>A login that ends in a cookie: the session under the token, and why it was granted.\<close>

definition login_of :: "Deps \<Rightarrow> world \<Rightarrow> Claims \<Rightarrow> string \<Rightarrow> world \<Rightarrow> bool" where
  "login_of d w claims tok t \<longleftrightarrow>
     (\<exists>pre. settings w groupPrefixSettingKey = Some pre
        \<and> DeriveRole (C_Groups claims) pre \<noteq> RolePending
        \<and> holds_session d t tok (C_Subject claims)
            (session_role (DeriveRole (C_Groups claims) pre) (fst (admitted w (C_Subject claims)))
               (snd (admitted w (C_Subject claims))))
            (snd (admitted w (C_Subject claims))))"

lemma wp_open_session:
  "wp (open_session d r payload claims rt role approved locked wasNew)
     (\<lambda>resp t. \<forall>tok. Rs_Cookie resp = Some tok \<longrightarrow>
        holds_session d t tok (C_Subject claims) (session_role role approved locked) locked) w"
  unfolding open_session_def wp_let wp_bind wp_get wp_or_redirect wp_return
proof (rule wp_any, rule wp_mono [OF wp_CreateSession_grants], intro conjI allI impI, goal_cases)
  case (2 a t res u token)
  then have "holds_session d u token (C_Subject claims) (session_role role approved locked) locked"
    by (simp add: login_session_def)
  then have "wp (after_login d r claims rt (session_role role approved locked))
      (\<lambda>_ v. holds_session d v token (C_Subject claims) (session_role role approved locked) locked) u"
    by (rule keeps_wpD [OF keeps_after_login])
  then show ?case by (rule wp_mono) (simp add: answer_def)
qed (simp add: callback_error_def answer_def)

lemma wp_complete_login:
  "wp (complete_login d r payload claims rt)
     (\<lambda>resp t. \<forall>tok. Rs_Cookie resp = Some tok \<longrightarrow> login_of d w claims tok t) w"
proof -
  let ?Q = "\<lambda>resp t. \<forall>tok. Rs_Cookie resp = Some tok \<longrightarrow> login_of d w claims tok t"
  have err: "?Q (callback_error d e) t" for e t
    by (simp add: callback_error_def answer_def)
  have granted: "wp (or_redirect d ''server_error'' (UpsertUser d (C_Subject claims) (C_Email claims) (C_Name claims)
           (DeriveRole (C_Groups claims) pre) (fst (admitted w (C_Subject claims))))
         (open_session d r payload claims rt (DeriveRole (C_Groups claims) pre)
           (fst (admitted w (C_Subject claims))) (snd (admitted w (C_Subject claims))))) ?Q t"
    if pre: "settings w groupPrefixSettingKey = Some pre" "DeriveRole (C_Groups claims) pre \<noteq> RolePending" for pre t
    unfolding wp_or_redirect
    by (rule wp_any, intro conjI allI impI)
      (use pre err in \<open>auto simp: login_of_def intro: wp_mono [OF wp_open_session]\<close>)
  have after: "wp (let derivedRole = DeriveRole (C_Groups claims) pre in
       if derivedRole = RolePending then do {
         auditLoginFailureWithSubject d ''access_denied'' (clientIP r) (loginCountry r) (d_asn d (clientIP r))
           (C_Subject claims) (C_Email claims);
         State_Monad.return (callback_error d ''access_denied'') }
       else or_redirect d ''server_error'' (admission (C_Subject claims)) (\<lambda>(approved, locked).
         or_redirect d ''server_error''
           (UpsertUser d (C_Subject claims) (C_Email claims) (C_Name claims) derivedRole approved)
           (open_session d r payload claims rt derivedRole approved locked))) ?Q (w\<lparr>calls := n\<rparr>)"
    if pre: "settings w groupPrefixSettingKey = Some pre" for pre n
  proof (cases "DeriveRole (C_Groups claims) pre = RolePending")
    case True
    show ?thesis
      unfolding wp_let if_P [OF True] wp_bind wp_return by (rule wp_any, rule err)
  next
    case False
    have "admitted (w\<lparr>calls := n\<rparr>) s = admitted w s" for s by (simp add: admitted_def wizard_done_def)
    then show ?thesis
      unfolding wp_let if_not_P [OF False] wp_or_redirect [of _ _ "admission _"]
      by (intro wp_admission)
        (use err granted [OF pre False] in \<open>auto split: prod.splits simp del: wp_or_redirect\<close>)
  qed
  have "wp ResolveGroupPrefix (\<lambda>x t. (\<forall>e. x = Inl e \<longrightarrow> t = t)
      \<and> (\<forall>pre. x = Inr pre \<longrightarrow> settings w groupPrefixSettingKey = Some pre \<and> (\<exists>n. t = w\<lparr>calls := n\<rparr>))) w"
    by (auto simp: ResolveGroupPrefix_def wp_try wp_GetSetting wp_ok wp_fail split: option.splits)
  then show ?thesis
    unfolding complete_login_def wp_or_redirect [of _ _ ResolveGroupPrefix]
    by (rule wp_mono) (use after err in \<open>auto simp del: wp_or_redirect\<close>)
qed

lemma login_of_same_db: "login_of d u claims tok v \<Longrightarrow> same_db w u \<Longrightarrow> login_of d w claims tok v"
  by (simp add: login_of_def admitted_same_db) (simp add: same_db_def)

section \<open>The state is used up\<close>

text \<open>Nothing a login writes after the deletion of its state is under the key of a state.\<close>

definition spent :: "string \<Rightarrow> world \<Rightarrow> bool" where
  "spent state w \<longleftrightarrow> vk w (oauthStateKeyPrefix @ state) = None"

lemma misc_stable_spent [simp, inv_intros]: "misc_stable (spent x)"
  by (simp add: spent_def misc_stable_def)

lemma state_key_neq [simp]:
  "oauthStateKeyPrefix @ a \<noteq> sessionKeyPrefix @ b" "oauthStateKeyPrefix @ a \<noteq> userSessionsKeyPrefix @ b"
  "oauthStateKeyPrefix @ a \<noteq> lastCountryKeyPrefix @ b"
  by (simp_all add: oauthStateKeyPrefix_def prefix_defs lastCountryKeyPrefix_def)

lemma keeps_spent_put:
  "oauthStateKeyPrefix @ x \<noteq> k \<Longrightarrow> keeps (spent x) (SetWithTTL k v ttl)"
  "oauthStateKeyPrefix @ x \<noteq> k \<Longrightarrow> keeps (spent x) (AddSetMember k m ttl)"
  unfolding SetWithTTL_def AddSetMember_def SAdd_def Expire_def
  by (intro inv_intros keeps_command; simp add: spent_def put_str_def put_members_def set_expiry_def split: option.split)+

lemma keeps_spent_users: "keeps (spent x) (UpsertUser d subject email nm role approved)"
  unfolding UpsertUser_def
  by (intro inv_intros keeps_command; simp add: spent_def upsert_row_def update_user_def Let_def split: option.split)

lemma keeps_or_redirect [inv_intros]:
  "keeps I m \<Longrightarrow> (\<And>a. keeps I (f a)) \<Longrightarrow> keeps I (or_redirect d e m f)"
  unfolding or_redirect_def by (intro inv_intros)

lemma keeps_mail_admins: "misc_stable I \<Longrightarrow> keeps I (mail_admins d claims as)"
  by (induction as) (auto intro!: inv_intros)

lemma keeps_ListAdmins:
  assumes "misc_stable I"
  shows "keeps I (ListAdmins d)"
proof -
  have "keeps I (decrypt_rows d us)" for us
    by (induction us) (auto intro!: inv_intros assms)
  then show ?thesis
    unfolding ListAdmins_def by (intro inv_intros assms)
qed

lemma keeps_spent_CreateSession: "keeps (spent x) (CreateSession d sess tok)"
  unfolding CreateSession_def Let_def randomToken_def by (intro inv_intros keeps_spent_put) simp_all

lemma keeps_spent_after: "keeps (spent x) (after_login d r claims tok role)"
  unfolding after_login_def checkAndRecordLoginCountry_def GetNotificationPrefs_def Let_def
  by (intro inv_intros keeps_spent_put) simp_all

lemma keeps_spent_payload: "keeps (spent x) (with_payload d r payload)"
  unfolding with_payload_def after_exchange_def complete_login_def open_session_def admission_def ResolveGroupPrefix_def
    UserApproved_def UserLocked_def auditLoginFailureWithSubject_def Let_def case_prod_beta
  by (rule keeps_spent_CreateSession keeps_spent_after keeps_spent_users keeps_mail_admins keeps_ListAdmins misc_stable_spent
      inv_intros)+

lemma wp_state_spent:
  "wp (CallbackHandler d r) (\<lambda>resp t. Rs_Cookie resp \<noteq> None \<longrightarrow> outcomes w (Suc (calls w)) \<noteq> Lost \<longrightarrow>
     spent (query_get r ''state'') t) w"
proof -
  let ?x = "query_get r ''state''"
  let ?Q = "\<lambda>resp t. Rs_Cookie resp \<noteq> None \<longrightarrow> outcomes w (Suc (calls w)) \<noteq> Lost \<longrightarrow> spent ?x t"
  have none: "?Q (callback_error d e) u" for e u
    by (simp add: callback_error_def answer_def)
  have rest: "wp (case v of None \<Rightarrow> State_Monad.return (callback_error d ''invalid_or_expired_state'')
         | Some v \<Rightarrow> or_redirect d ''invalid_or_expired_state'' (State_Monad.return (json_oauth v)) (with_payload d r)) ?Q u"
    if "spent ?x u" for v u
  proof -
    have "keeps (spent ?x) (or_redirect d ''invalid_or_expired_state'' (State_Monad.return (json_oauth y)) (with_payload d r))" for y
      by (intro inv_intros keeps_spent_payload)
    from keeps_wpD [OF this that] have "wp (or_redirect d ''invalid_or_expired_state'' (State_Monad.return (json_oauth y)) (with_payload d r)) ?Q u" for y
      by (rule wp_mono) simp
    then show ?thesis
      using none by (cases v) (auto simp: wp_return)
  qed
  have lost: "wp m ?Q u" if "outcomes w (Suc (calls w)) = Lost" for m u
    using that by (intro wp_any) simp
  have "wp (Del (oauthStateKeyPrefix @ ?x)) (\<lambda>_ u. wp (case v of None \<Rightarrow> State_Monad.return (callback_error d ''invalid_or_expired_state'')
         | Some v \<Rightarrow> or_redirect d ''invalid_or_expired_state'' (State_Monad.return (json_oauth v)) (with_payload d r)) ?Q u)
       (w\<lparr>calls := Suc (calls w)\<rparr>)" for v
  proof -
    let ?f = "case v of None \<Rightarrow> State_Monad.return (callback_error d ''invalid_or_expired_state'')
         | Some v \<Rightarrow> or_redirect d ''invalid_or_expired_state'' (State_Monad.return (json_oauth v)) (with_payload d r)"
    have gone: "wp ?f ?Q (del_key (oauthStateKeyPrefix @ ?x) u)" for u
      by (rule rest) (simp add: spent_def del_key_def)
    show ?thesis
      unfolding Del_def wp_command
      by (intro conjI impI, rule gone, rule lost, simp, rule gone)
  qed
  then show ?thesis
    using none unfolding CallbackHandler_def Let_def
    by (cases "?x = [] \<or> query_get r ''code'' = []")
      (auto simp: wp_return wp_or_redirect [of _ _ "Get _"] wp_bind intro!: wp_GetI)
qed

text \<open>
  C11: who a login lets in, whatever calls fail. A session cookie is set only when the state of the
  request is one a login stored, the IdP has accepted the code with that login's verifier, nonce
  and a subject, and the user is in a group of the configured prefix. The session under the cookie
  is that subject's, and its role is the one of the groups only for a user who is approved and not
  locked; for others it is pending, and locked when the user is. The wizard's state decides
  whether approval and lock are looked at. Afterwards the state is gone from Valkey, so that no other
  callback can use it, unless the one command that deletes it, the second call of the handler, is lost.
\<close>

theorem callback_sound:
  assumes "run_state (CallbackHandler d r) w = (resp, t)" and "Rs_Cookie resp = Some tok"
  shows "\<exists>payload n claims rt.
      vk_str w (oauthStateKeyPrefix @ query_get r ''state'') = Some (JOauth payload)
    \<and> Exchange d n (query_get r ''code'') (O_CodeVerifier payload) (O_Nonce payload) = Inr (claims, rt)
    \<and> login_of d w claims tok t
    \<and> (outcomes w (Suc (calls w)) \<noteq> Lost \<longrightarrow> vk t (oauthStateKeyPrefix @ query_get r ''state'') = None)"
proof -
  let ?st = "vk_str w (oauthStateKeyPrefix @ query_get r ''state'')"
  let ?Q = "\<lambda>resp t. \<forall>tok. Rs_Cookie resp = Some tok \<longrightarrow> (\<exists>payload n claims rt. ?st = Some (JOauth payload)
    \<and> Exchange d n (query_get r ''code'') (O_CodeVerifier payload) (O_Nonce payload) = Inr (claims, rt)
    \<and> login_of d w claims tok t)"
  have err: "?Q (callback_error d e) u" for e u
    by (simp add: callback_error_def answer_def)
  have finish: "wp (complete_login d r payload claims rt) ?Q u"
    if "same_db w u" "?st = Some (JOauth payload)"
      "Exchange d n (query_get r ''code'') (O_CodeVerifier payload) (O_Nonce payload) = Inr (claims, rt)"
    for payload claims rt n u
    by (rule wp_mono [OF wp_complete_login]) (use that login_of_same_db in blast)
  have exchanged: "wp (after_exchange d r payload ex) ?Q u"
    if u: "same_db w u" "?st = Some (JOauth payload)"
      and ex: "\<And>claims rt. ex = Inr (claims, rt) \<Longrightarrow> \<exists>n. Exchange d n (query_get r ''code'') (O_CodeVerifier payload) (O_Nonce payload) = Inr (claims, rt)"
    for ex payload u
  proof (cases ex)
    case (Inl e)
    show ?thesis unfolding after_exchange_def Inl sum.case wp_let wp_bind wp_return by (rule wp_any, rule err)
  next
    case (Inr p)
    obtain claims rt where p: "p = (claims, rt)" by fastforce
    with ex Inr obtain n where "Exchange d n (query_get r ''code'') (O_CodeVerifier payload) (O_Nonce payload) = Inr (claims, rt)"
      by blast
    with finish [OF u] show ?thesis by (simp add: after_exchange_def Inr p)
  qed
  have provided: "wp (with_payload d r payload) ?Q u" if u: "same_db w u" "?st = Some (JOauth payload)" for payload u
  proof -
    have "keeps (same_db w) (resolveProvider d)" by (intro inv_intros)
    from keeps_wpD [OF this u(1)] show ?thesis
      unfolding with_payload_def wp_or_redirect
    proof (rule wp_mono, intro conjI allI impI)
      fix x v assume v: "same_db w v"
      show "wp (do {
          ex \<leftarrow> query (\<lambda>w. Exchange d (calls w) (query_get r ''code'') (O_CodeVerifier payload) (O_Nonce payload));
          after_exchange d r payload ex }) ?Q v"
        unfolding wp_bind
        by (rule wp_query_db) (rule exchanged [OF same_db_trans [OF v] u(2)], assumption, blast)+
    qed (use err in blast)
  qed
  have "wp (CallbackHandler d r) ?Q w"
  proof (cases "query_get r ''state'' = [] \<or> query_get r ''code'' = []")
    case True
    then show ?thesis using err by (simp add: CallbackHandler_def io_simps)
  next
    case False
    have del: "wp (Del k) (\<lambda>_. same_db w) (w\<lparr>calls := n\<rparr>)" for k n
      by (rule keeps_wpD) (auto intro!: inv_intros simp: same_db_def)
    show ?thesis
      unfolding CallbackHandler_def Let_def if_not_P [OF False] wp_or_redirect [of _ _ "Get _"]
    proof (rule wp_GetI, goal_cases)
      case (3 v)
      show ?case
        using 3 provided err
        by (auto simp: wp_bind wp_or_redirect [of _ _ "State_Monad.return _"] wp_return json_oauth_def
            intro!: wp_mono [OF del] split: sval.splits)
    qed (use err in \<open>auto simp: wp_bind wp_return intro!: wp_any\<close>)
  qed
  moreover have "outcomes w (Suc (calls w)) \<noteq> Lost \<longrightarrow> spent (query_get r ''state'') t"
    using wp_state_spent [of d r w] assms by (simp add: wp_run)
  ultimately show ?thesis using assms unfolding spent_def by (fastforce simp: wp_run)
qed

end
