(* ===== verification/LoginFlows.thy ===== *)
theory LoginFlows
  imports LoginLaws
begin

text \<open>
  Logout, and concrete sequences in which a lock, an approval, a logout or the approval of new
  users does not have the effect it should; then the worlds the login properties are applied to.
\<close>

section \<open>Logout\<close>

lemma wp_DeleteSession:
  "wp (DeleteSession d token)
     (\<lambda>r t. r = Inr () \<longrightarrow> SessionID d token = [] \<or> vk t (sessionKeyPrefix @ SessionID d token) = None) w"
  by (simp add: DeleteSession_def Let_def wp_ok wp_bind)
    (intro impI, rule wp_any, rule wp_any, simp add: wp_Del del_key_def)

text \<open>
  A logout that is answered with 204 has ended the session, whatever else fails: the cookie is
  cleared, and presenting the token again gives no session.
\<close>

theorem logout_ends_session:
  assumes "run_state (LogoutHandler d r) w = (resp, t)" and "Rs_Status resp = 204"
  shows "Rs_Cookie resp = Some []
    \<and> fst (run_state (ValidateSession d (sessionToken r) ip country ua) t) \<in> {Inr None, Inl ErrExternal}"
proof -
  let ?tok = "sessionToken r"
  let ?gone = "\<lambda>t. SessionID d ?tok = [] \<or> vk t (sessionKeyPrefix @ SessionID d ?tok) = None"
  have "keeps ?gone (logAudit d p)" for p
    by (intro inv_intros) (simp add: misc_stable_def)
  note audit = keeps_wpD [OF this]
  have tail: "wp (or_internal None (DeleteSession d ?tok) (\<lambda>_. do {
          (case s of
             Inr (Some sess) \<Rightarrow> logAudit d (log_params ''auth.logout'' (S_UserID sess) (S_Email sess) [] [] [])
           | _ \<Rightarrow> State_Monad.return ());
          State_Monad.return (answer (Some []) 204 Empty) }))
      (\<lambda>resp t. Rs_Status resp = 204 \<longrightarrow> Rs_Cookie resp = Some [] \<and> ?gone t) u" for s :: "Session option res" and u
    unfolding wp_or_internal
    by (rule wp_mono [OF wp_DeleteSession])
      (auto simp: io_simps internal_def reject_def answer_def intro: audit split: sum.splits option.splits)
  have "wp (LogoutHandler d r) (\<lambda>resp t. Rs_Status resp = 204 \<longrightarrow> Rs_Cookie resp = Some [] \<and> ?gone t) w"
  proof (cases "R_Method r \<noteq> ''POST'' \<or> ?tok = []")
    case True
    then show ?thesis by (auto simp: LogoutHandler_def io_simps reject_def answer_def)
  next
    case False
    then show ?thesis
      unfolding LogoutHandler_def Let_def by (simp add: wp_bind) (rule wp_any, rule wp_any, rule wp_any, rule tail)
  qed
  then have gone: "Rs_Cookie resp = Some []" "?gone t"
    using assms by (auto simp: wp_run)
  have "fst (run_state (validateSessionByID d [] ip country ua) t) = Inr None"
    by (simp add: validateSessionByID_def ok_def)
  with gone show ?thesis
    using no_session_no_answer [of t "SessionID d ?tok" d ip country ua] by (auto simp: ValidateSession_def)
qed

section \<open>Concrete worlds\<close>

definition enc :: "string \<Rightarrow> string" where
  "enc p = (case fst (Encrypt plain_aead [] (Some (replicate 12 (CHR ''n''))) sample_key p) of Inr e \<Rightarrow> e | Inl _ \<Rightarrow> [])"

definition configured :: "string \<Rightarrow> string option" where
  "configured = [oidcIssuerSettingKey \<mapsto> enc ''i'', oidcClientIDSettingKey \<mapsto> enc ''c'',
     oidcClientSecretSettingKey \<mapsto> enc ''s'', groupPrefixSettingKey \<mapsto> ''m_'']"

definition row :: "string \<Rightarrow> string \<Rightarrow> bool \<Rightarrow> bool \<Rightarrow> UserRow" where
  "row subject role approved locked =
     \<lparr>U_Subject = subject, U_Email = [], U_Name = [], U_Role = role, U_Approved = approved, U_Locked = locked,
      U_CreatedAt = 0, U_LastLoginAt = 0, U_Language = [], U_Theme = [], U_Prefs = default_prefs\<rparr>"

definition live :: "string \<Rightarrow> string \<Rightarrow> bool \<Rightarrow> storedSession" where
  "live subject role locked = sample_stored\<lparr>T_UserID := subject, T_Role := role, T_Locked := locked\<rparr>"

text \<open>\<open>u1\<close> is an administrator with the token \<open>t\<close>; \<open>u2\<close> has the token \<open>s\<close>.\<close>

definition office :: "UserRow list \<Rightarrow> world" where
  "office us = empty_world\<lparr>users := us, settings := configured, vk :=
     [sessionKeyPrefix @ ''74'' \<mapsto> (VStr (JSession (live ''u1'' ''admin'' False)), Some (hours 24)),
      userSessionsKeyPrefix @ ''u1'' \<mapsto> (VSet [''74''], Some (hours 24)),
      sessionKeyPrefix @ ''73'' \<mapsto> (VStr (JSession (live ''u2'' ''pending'' True)), Some (hours 24)),
      userSessionsKeyPrefix @ ''u2'' \<mapsto> (VSet [''73''], Some (hours 24))]\<rparr>"

definition post :: "string \<Rightarrow> Request" where
  "post target = \<lparr>R_Method = ''POST'', R_Path = ''/'', R_Cookie = ''t'', R_Authorization = [], R_Origin = [],
     R_CSRFHeader = ''c'', R_UserAgent = [], R_CFCountry = [], R_XFF = [], R_RemoteAddr = ''192.0.2.1:5'',
     R_Query = [], R_PathID = target, R_Context = None\<rparr>"

section \<open>What does not work as it should\<close>

text \<open>
  Approving a locked user makes their live session a full one. \<open>u2\<close> is locked and holds the
  locked, pending session of a login after the lock. \<open>ApproveUserHandler\<close> writes the role from the
  database and \<open>locked = false\<close> into it: the user is still locked in the database, and the session
  passes every guard.
\<close>

theorem approval_unlocks_session:
  "(let (resp, t) = run_state (ApproveUserHandler sample_deps (post ''u2''))
          (office [row ''u1'' ''admin'' True False, row ''u2'' ''user'' True True])
    in (Rs_Status resp, map_option U_Locked (find_user (users t) ''u2''),
        map_sum id (map_option (\<lambda>s. (S_Role s, S_Locked s))) (fst (run_state (ValidateSession sample_deps ''s'' [] [] []) t))))
   = (204, Some True, Inr (Some (''user'', False)))"
  by code_simp

text \<open>
  The guard of the last administrator counts locked ones. With one administrator and one locked
  administrator, the first can delete their own account; nobody is left who could act as one.
\<close>

theorem last_active_admin_can_go:
  "(let (resp, t) = run_state (DeleteSelfHandler sample_deps (post []))
          (office [row ''u1'' ''admin'' True False, row ''u2'' ''admin'' True True])
    in (Rs_Status resp, map (\<lambda>u. (U_Subject u, U_Role u, U_Locked u)) (users t)))
   = (204, [(''u2'', ''admin'', True)])"
  by code_simp

text \<open>
  Logout does not revoke the refresh token. \<open>LogoutHandler\<close> looks the stored session up under the
  token itself, while sessions are stored under its hash; so nothing is found, and nothing is
  revoked at the IdP. The revocation of all sessions of the same user in the same state does it.
\<close>

theorem logout_keeps_refresh_token:
  "(let w = (office [row ''u1'' ''admin'' True False])\<lparr>vk :=
          [sessionKeyPrefix @ ''74'' \<mapsto> (VStr (JSession refreshable), Some (hours 24)),
           userSessionsKeyPrefix @ ''u1'' \<mapsto> (VSet [''74''], Some (hours 24))]\<rparr>;
        (resp, t) = run_state (LogoutHandler sample_deps (post [])) w;
        (revoked, u) = run_state (RevokeUserSessions sample_deps ''u1'') w
    in (Rs_Status resp, idp_revoked t, revoked, idp_revoked u)) = (204, [], Inr (), [''rt''])"
  by code_simp

text \<open>
  When the only administrator loses the role at the IdP, approval is off. \<open>WizardComplete\<close> asks
  for an administrator's row, and the administrator's next login rewrites that row with the new
  role. From then on the wizard counts as incomplete, and the callback takes every user for
  approved and not locked, whatever the database says of them.
\<close>

lemma wp_UpsertUser_rows:
  assumes "\<And>u. u \<in> set (users w) \<Longrightarrow> is_admin_row u \<Longrightarrow> U_Subject u = s" and "role \<noteq> RoleAdmin"
  shows "wp (UpsertUser d s email name role approved) (\<lambda>r t. is_ok r \<longrightarrow> \<not> list_ex is_admin_row (users t)) w"
proof -
  have row: "\<not> list_ex is_admin_row (users (upsert_row s e n role approved (t\<lparr>calls := k\<rparr>)))"
    if "users t = users w" for e n t k
    using assms that
    by (auto simp: upsert_row_def list_ex_iff update_user_def is_admin_row_def RoleAdmin_def find_user_None split: if_splits)
  have upsert: "wp (try_bind (command (\<lambda>_. Inr ()) (upsert_row s e n role approved)) (\<lambda>_. ok x))
      (\<lambda>r t. is_ok r \<longrightarrow> \<not> list_ex is_admin_row (users t)) t" if "users t = users w" for e n t x
    unfolding wp_try wp_command by (simp add: wp_ok row [OF that])
  have enc: "wp (try_bind (encrypt_if_io d k p) f) Q t" if "users t = users w"
    "\<And>a u. users u = users w \<Longrightarrow> wp (f a) Q u" "\<And>e u. Q (Inl e) u" for k p f t and Q :: "bool res \<Rightarrow> world \<Rightarrow> bool"
    unfolding wp_try by (rule wp_encrypt_if) (use that in \<open>auto simp: enc_frameD\<close>)
  have "wp (try_bind (encrypt_if_io d (d_PoolKey d) email) (\<lambda>encEmail.
     try_bind (encrypt_if_io d (d_PoolKey d) name) (\<lambda>encName.
     try_bind (command (\<lambda>_. Inr ()) (upsert_row s encEmail encName role approved)) (\<lambda>_. ok x))))
     (\<lambda>r t. is_ok r \<longrightarrow> \<not> list_ex is_admin_row (users t)) (w\<lparr>calls := n\<rparr>)" for x :: bool and n
    by (intro enc upsert) simp_all
  then show ?thesis unfolding UpsertUser_def wp_try [of "query _"] wp_query by simp
qed

theorem demotion_disables_approval:
  assumes "\<And>u. u \<in> set (users w) \<Longrightarrow> is_admin_row u \<Longrightarrow> U_Subject u = s" and "role \<noteq> RoleAdmin"
    and "run_state (UpsertUser d s email name role approved) w = (Inr new, t)"
  shows "\<not> wizard_done t \<and> fst (run_state (admission subject) t) \<in> {Inr (True, False), Inl ErrExternal}"
proof -
  have n: "\<not> wizard_done t"
    using wp_UpsertUser_rows [OF assms(1,2), where w = w and d = d and email = email and name = name and approved = approved] assms(3) by (simp add: wp_run wizard_done_def)
  have "wp (admission subject) (\<lambda>r _. r \<in> {Inr (True, False), Inl ErrExternal}) t"
    unfolding admission_def wp_try [of WizardComplete] WizardComplete_def missingSteps_def OIDCConfigured_def
      GroupPrefixConfigured_def HasAdmin_def
    using n by (auto simp: wp_try wp_ok wp_GetSetting wp_query wizard_done_def)
  with n show ?thesis by (simp add: wp_run)
qed

section \<open>The properties at concrete worlds\<close>

text \<open>A request of \<open>u1\<close> that logs in with the code \<open>c\<close>, the state \<open>x\<close> and the groups given.\<close>

definition idp_deps :: "string list \<Rightarrow> Deps" where
  "idp_deps groups = sample_deps\<lparr>d_exchange := \<lambda>_ _ _.
     Inr (sample_claims\<lparr>C_Email := [], C_Groups := groups\<rparr>, [], [])\<rparr>"

definition pending_login :: "UserRow list \<Rightarrow> world" where
  "pending_login us = (office us)\<lparr>vk :=
     [oauthStateKeyPrefix @ ''x'' \<mapsto> (VStr (JOauth \<lparr>O_CodeVerifier = ''v'', O_Reauth = False, O_ReturnPath = [], O_Nonce = []\<rparr>), None)]\<rparr>"

definition callback :: Request where
  "callback = (post [])\<lparr>R_Method := ''GET'', R_Cookie := [], R_Query := [(''state'', ''x''), (''code'', ''c'')]\<rparr>"

text \<open>\<open>u1\<close> is locked, so the login ends in a pending, locked session.\<close>

theorem callback_sound_witness:
  "let d = idp_deps [''m_user''];
       w = pending_login [row ''u1'' ''user'' True True, row ''u0'' ''admin'' True False];
       t = snd (run_state (CallbackHandler d callback) w)
   in \<exists>tok. Rs_Cookie (fst (run_state (CallbackHandler d callback) w)) = Some tok
        \<and> (\<exists>claims. login_of d w claims tok t) \<and> vk t (oauthStateKeyPrefix @ ''x'') = None"
proof -
  let ?d = "idp_deps [''m_user'']" and ?w = "pending_login [row ''u1'' ''user'' True True, row ''u0'' ''admin'' True False]"
  obtain resp t where rt: "run_state (CallbackHandler ?d callback) ?w = (resp, t)" by fastforce
  have "Rs_Cookie (fst (run_state (CallbackHandler ?d callback) ?w)) \<noteq> None" by code_simp
  then obtain tok where tok: "Rs_Cookie resp = Some tok" using rt by auto
  from callback_sound [OF rt tok] obtain claims where "login_of ?d ?w claims tok t"
    and "outcomes ?w (Suc (calls ?w)) \<noteq> Lost \<longrightarrow> vk t (oauthStateKeyPrefix @ query_get callback ''state'') = None"
    by blast
  moreover have "outcomes ?w (Suc (calls ?w)) \<noteq> Lost" "query_get callback ''state'' = ''x''" by code_simp+
  ultimately show ?thesis using tok unfolding Let_def rt fst_conv snd_conv by metis
qed

text \<open>The lock of \<open>u2\<close> by \<open>u1\<close>, and what it changes.\<close>

lemma office_cache [simp]: "cache_ok (gcm (office us))"
  by (simp add: office_def empty_world_def)

theorem lock_effective_witness:
  "find_user (users (office [row ''u1'' ''admin'' True False, row ''u2'' ''user'' True False])) ''u2'' \<noteq> None
   \<and> users (snd (run_state (LockUserHandler sample_deps (post ''u2'')) (office [row ''u1'' ''admin'' True False, row ''u2'' ''user'' True False])))
       = lock_rows ''u2'' [row ''u1'' ''admin'' True False, row ''u2'' ''user'' True False]"
proof -
  let ?w = "(office [row ''u1'' ''admin'' True False, row ''u2'' ''user'' True False])"
  obtain resp t where rt: "run_state (LockUserHandler sample_deps (post ''u2'')) ?w = (resp, t)" by fastforce
  have "Rs_Status (fst (run_state (LockUserHandler sample_deps (post ''u2'')) ?w)) = 204" by code_simp
  then have "Rs_Status resp = 204" using rt by simp
  from lock_effective [OF office_cache rt this] rt show ?thesis by (simp add: post_def office_def)
qed

theorem deletion_keeps_an_admin_witness:
  "list_ex is_admin_row (users (snd (run_state (DeleteUserHandler sample_deps (post ''u2''))
     (office [row ''u1'' ''admin'' True False, row ''u2'' ''admin'' True False]))))"
proof -
  have "users_ok (users (office [row ''u1'' ''admin'' True False, row ''u2'' ''admin'' True False]))"
    "list_ex is_admin_row (users (office [row ''u1'' ''admin'' True False, row ''u2'' ''admin'' True False]))"
    by (simp_all add: office_def row_def users_ok_def is_admin_row_def)
  from deletion_keeps_an_admin [OF office_cache this] show ?thesis ..
qed

theorem logout_ends_session_witness:
  "fst (run_state (ValidateSession sample_deps ''t'' [] [] [])
     (snd (run_state (LogoutHandler sample_deps (post [])) (office [row ''u1'' ''admin'' True False])))) \<in> {Inr None, Inl ErrExternal}"
proof -
  let ?w = "office [row ''u1'' ''admin'' True False]"
  obtain resp t where rt: "run_state (LogoutHandler sample_deps (post [])) ?w = (resp, t)" by fastforce
  have "Rs_Status (fst (run_state (LogoutHandler sample_deps (post [])) ?w)) = 204" by code_simp
  then have "Rs_Status resp = 204" using rt by simp
  from logout_ends_session [OF rt this, of "[]" "[]" "[]"] rt show ?thesis by (simp add: sessionToken_def post_def)
qed

theorem demotion_disables_approval_witness:
  "\<exists>t. users t = [(row ''u1'' ''user'' True False)\<lparr>U_LastLoginAt := 1000\<rparr>] \<and> \<not> wizard_done t
    \<and> fst (run_state (admission ''u9'') t) \<in> {Inr (True, False), Inl ErrExternal}"
proof -
  let ?w = "office [row ''u1'' ''admin'' True False]"
  obtain r t where rt: "run_state (UpsertUser sample_deps ''u1'' [] [] ''user'' True) ?w = (r, t)" by fastforce
  have "fst (run_state (UpsertUser sample_deps ''u1'' [] [] ''user'' True) ?w) = Inr False"
    "users (snd (run_state (UpsertUser sample_deps ''u1'' [] [] ''user'' True) ?w))
      = [(row ''u1'' ''user'' True False)\<lparr>U_LastLoginAt := 1000\<rparr>]"
    by code_simp+
  then have r: "r = Inr False" and us: "users t = [(row ''u1'' ''user'' True False)\<lparr>U_LastLoginAt := 1000\<rparr>]"
    using rt by simp_all
  have "u \<in> set (users ?w) \<Longrightarrow> is_admin_row u \<Longrightarrow> U_Subject u = ''u1''" for u
    by (simp add: office_def row_def)
  from demotion_disables_approval [OF this _ rt [unfolded r], of "''u9''"] us show ?thesis
    by (auto simp: RoleAdmin_def)
qed

text \<open>The middleware in front of two handlers that answer differently: the outcome differs, so \<open>t\<close> is fresh.\<close>

theorem reauth_middleware_guards_witness:
  "\<exists>s. authenticated sample_deps (office [row ''u1'' ''admin'' True False]) (post []) s
     \<and> S_Role s = RoleAdmin \<and> \<not> stale (now (office [row ''u1'' ''admin'' True False])) s"
proof -
  let ?w = "office [row ''u1'' ''admin'' True False]"
  let ?run = "\<lambda>n. run_state (RequireAdminReauthMiddleware sample_deps
      (\<lambda>_. State_Monad.return (answer None n Empty)) (post [])) ?w"
  have "Rs_Status (fst (?run 200)) \<noteq> Rs_Status (fst (?run 204))" by code_simp
  then have "?run 200 \<noteq> ?run 204" by (rule contrapos_nn) (rule arg_cong)
  from reauth_middleware_guards [OF office_cache this] show ?thesis by blast
qed

theorem session_guards_sound_witness:
  "\<exists>s. authenticated sample_deps (office [row ''u1'' ''admin'' True False]) (post []) s \<and> S_Role s \<noteq> RolePending"
proof -
  let ?w = "office [row ''u1'' ''admin'' True False]"
  have "(case fst (run_state (RequireActiveSession sample_deps (post [])) ?w) of Inl _ \<Rightarrow> False | Inr _ \<Rightarrow> True)"
    by code_simp
  then obtain s where "fst (run_state (RequireActiveSession sample_deps (post [])) ?w) = Inr s"
    by (auto split: sum.splits)
  with session_guards_sound [OF office_cache, of sample_deps "[]" False "post []" "[row ''u1'' ''admin'' True False]"]
  show ?thesis by blast
qed

theorem clientIP_of_public_peer_witness:
  "clientIP ((post [])\<lparr>R_RemoteAddr := ''93.184.216.34:80'', R_XFF := ''10.0.0.1''\<rparr>) = ''93.184.216.34''"
proof -
  let ?r = "(post [])\<lparr>R_RemoteAddr := ''93.184.216.34:80'', R_XFF := ''10.0.0.1''\<rparr>"
  have "(case parse_ip (peer_host ?r) of None \<Rightarrow> False | Some ip \<Rightarrow> isPublicIP ip)" by code_simp
  then obtain ip where "parse_ip (peer_host ?r) = Some ip" "isPublicIP ip" by (auto split: option.splits)
  moreover have "peer_host ?r = ''93.184.216.34''" by code_simp
  ultimately show ?thesis using clientIP_of_public_peer by metis
qed

end
