(* ===== verification/Workers.thy ===== *)
theory Workers
  imports Manifest Crypto
begin

text \<open>
  \<open>modules/deno.go\<close>, the worker pool: how the process of a module is configured (database URL,
  keys, network grants, command line), and the operations that start, restart and stop it. The
  operating system is the list of live processes and the outcome of each spawn.
\<close>

section \<open>Data\<close>

record WorkerOptions =
  WO_EgressHosts :: "string list"
  WO_Jobs :: "string \<rightharpoonup> string"
  WO_SkipTLSVerify :: bool
  WO_EgressPolicy :: "string list"
  WO_DBRolePassword :: string
  WO_PIIMigrated :: bool

record denoWorker =
  W_name :: string
  W_entrypoint :: string
  W_sockPath :: string
  W_dbURL :: string
  W_dbRolePassword :: string
  W_piiKey :: string
  W_legacyPIIKey :: string
  W_piiMigrated :: bool
  W_moduleRoot :: string
  W_egressHosts :: "string list"
  W_moduleEgressHosts :: "string list"
  W_skipTLSVerify :: bool
  W_egressPolicy :: "string list"
  W_jobEntrypoints :: "string \<rightharpoonup> string"
  W_poolSize :: int
  W_pid :: nat

text \<open>
  The fields of \<open>WorkerPool\<close> that are set once (by \<open>NewWorkerPool\<close>), with HMAC-SHA256 and the
  name \<open>os.CreateTemp\<close> picks for the bootstrap script as parameters.
\<close>

record PoolConfig =
  PC_dataDir :: string
  PC_dbHostPort :: string
  PC_dbName :: string
  PC_piiKey :: string
  PC_dnsResolver :: string
  PC_connPoolSize :: int
  PC_hmac :: "string \<Rightarrow> string \<Rightarrow> string"
  PC_tempScript :: "string \<Rightarrow> nat \<Rightarrow> string"

definition defaultConnPoolSize :: int where "defaultConnPoolSize = 4"

definition NewWorkerPool ::
  "string \<Rightarrow> string \<Rightarrow> string \<Rightarrow> string \<Rightarrow> int \<Rightarrow> (string \<Rightarrow> string \<Rightarrow> string)
     \<Rightarrow> (string \<Rightarrow> nat \<Rightarrow> string) \<Rightarrow> PoolConfig" where
  "NewWorkerPool dataDir dbHostPort dbName piiKey connPoolSize hmac tmp =
     \<lparr>PC_dataDir = dataDir, PC_dbHostPort = dbHostPort, PC_dbName = dbName, PC_piiKey = piiKey,
      PC_dnsResolver = ''127.0.0.11:53'',
      PC_connPoolSize = (if connPoolSize < 1 then defaultConnPoolSize else connPoolSize),
      PC_hmac = hmac, PC_tempScript = tmp\<rparr>"

text \<open>\<open>ConnPoolSize\<close>: the setting, given as what \<open>GetSetting\<close> answers.\<close>

definition ConnPoolSize :: "string option res \<Rightarrow> int" where
  "ConnPoolSize setting =
     (case setting of
        Inr (Some val) \<Rightarrow>
          if val = [] then defaultConnPoolSize
          else (case atoi val of
                  Some n \<Rightarrow> if n < 1 then defaultConnPoolSize else n
                | None \<Rightarrow> defaultConnPoolSize)
      | _ \<Rightarrow> defaultConnPoolSize)"

text \<open>What becomes of a spawn: the script, \<open>cmd.Start\<close>, or the wait for the socket may fail.\<close>

datatype spawn_outcome = ScriptFails | ExecFails | NoSocket | Up

record process =
  P_pid :: nat
  P_module :: string
  P_args :: "string list"
  P_env :: "string list"

text \<open>
  \<open>workers\<close> is the pool's map; \<open>spawned\<close> counts the spawns, which number the processes. \<open>procs\<close>
  are the live processes, \<open>told\<close> the numbers of those whose context was cancelled (\<open>stopping\<close> is
  set): the kill is asynchronous, nobody waits for it, and such a process is alive until it exits.
  \<open>crashes\<close> are the calls of \<open>onCrash\<close>.
\<close>

record pool_state =
  workers :: "string \<rightharpoonup> denoWorker"
  procs :: "process list"
  told :: "nat list"
  crashes :: "string list"
  spawned :: nat
  spawn :: "nat \<Rightarrow> spawn_outcome"

section \<open>Configuring a worker\<close>

text \<open>\<open>url.QueryEscape\<close>: unreserved bytes, \<open>+\<close> for a space, \<open>%XX\<close> for the rest.\<close>

definition unreserved :: "char \<Rightarrow> bool" where
  "unreserved c \<longleftrightarrow> is_lower c \<or> is_upper c \<or> is_digit c \<or> c \<in> {CHR ''-'', CHR ''_'', CHR ''.'', CHR ''~''}"

definition upper_hex :: "nat \<Rightarrow> char" where
  "upper_hex n = ''0123456789ABCDEF'' ! n"

definition QueryEscape :: "string \<Rightarrow> string" where
  "QueryEscape s = concat (map (\<lambda>c.
     if unreserved c then [c] else if c = CHR '' '' then ''+''
     else [CHR ''%'', upper_hex (byte c div 16), upper_hex (byte c mod 16)]) s)"

definition effectiveEgressHosts :: "PoolConfig \<Rightarrow> string list \<Rightarrow> string list" where
  "effectiveEgressHosts p manifestHosts =
     fold (\<lambda>h out. if h \<noteq> [] \<and> h \<notin> set out then out @ [h] else out)
       (PC_dbHostPort p # PC_dnsResolver p # manifestHosts) []"

text \<open>The key and the legacy key of the worker's environment.\<close>

definition pii_keys :: "PoolConfig \<Rightarrow> string \<Rightarrow> bool \<Rightarrow> (string \<times> string) res" where
  "pii_keys p name migrated =
     (if PC_piiKey p = [] then Inr ([], [])
      else res_bind (DeriveModuleKey (PC_hmac p) (PC_piiKey p) name) (\<lambda>derived.
        Inr (if migrated then (derived, []) else (PC_piiKey p, derived))))"

definition db_url :: "PoolConfig \<Rightarrow> string \<Rightarrow> string \<Rightarrow> string \<Rightarrow> string" where
  "db_url p schemaName roleName password =
     ''postgres://'' @ QueryEscape roleName @ '':'' @ QueryEscape password @ ''@'' @ PC_dbHostPort p
     @ ''/'' @ PC_dbName p @ ''?search_path='' @ schemaName @ '',public''"

definition sock_path :: "PoolConfig \<Rightarrow> string \<Rightarrow> string" where
  "sock_path p name = path_join [PC_dataDir p, name, ''worker.sock'']"

text \<open>The worker \<open>buildWorker\<close> is about to start.\<close>

definition configure :: "PoolConfig \<Rightarrow> string \<Rightarrow> string \<Rightarrow> WorkerOptions \<Rightarrow> nat \<Rightarrow> denoWorker res" where
  "configure p name entrypoint opts pid =
     (if WO_DBRolePassword opts = [] then Inl (ErrInvalid ''no DB role password'')
      else res_bind (moduleIdentifiers name) (\<lambda>(schemaName, roleName).
           res_bind (pii_keys p name (WO_PIIMigrated opts)) (\<lambda>(currentPIIKey, legacyPIIKey).
           Inr \<lparr>W_name = name, W_entrypoint = entrypoint, W_sockPath = sock_path p name,
             W_dbURL = db_url p schemaName roleName (WO_DBRolePassword opts),
             W_dbRolePassword = WO_DBRolePassword opts, W_piiKey = currentPIIKey,
             W_legacyPIIKey = legacyPIIKey, W_piiMigrated = WO_PIIMigrated opts,
             W_moduleRoot = path_dir (sock_path p name),
             W_egressHosts = effectiveEgressHosts p (WO_EgressHosts opts),
             W_moduleEgressHosts = WO_EgressHosts opts, W_skipTLSVerify = WO_SkipTLSVerify opts,
             W_egressPolicy = WO_EgressPolicy opts, W_jobEntrypoints = WO_Jobs opts,
             W_poolSize = PC_connPoolSize p, W_pid = pid\<rparr>)))"

definition worker_args :: "PoolConfig \<Rightarrow> denoWorker \<Rightarrow> string list" where
  "worker_args p w =
     [''run'', ''--no-prompt'', ''--allow-read='' @ W_moduleRoot w, ''--allow-write='' @ W_moduleRoot w,
      ''--allow-env=MODULAB_DB_URL,MODULAB_MODULE_PII_KEY,MODULAB_MODULE_PII_LEGACY_KEY,PG*'',
      ''--allow-net='' @ join_with '','' ((''unix:'' @ W_sockPath w) # W_egressHosts w)]
     @ (if W_egressHosts w \<noteq> [] \<and> W_skipTLSVerify w
        then [''--unsafely-ignore-certificate-errors='' @ join_with '','' (W_egressHosts w)] else [])
     @ [PC_tempScript p (W_name w) (W_pid w)]"

definition worker_env :: "denoWorker \<Rightarrow> string list" where
  "worker_env w =
     [''MODULAB_DB_URL='' @ W_dbURL w]
     @ (if W_piiKey w \<noteq> [] then [''MODULAB_MODULE_PII_KEY='' @ W_piiKey w] else [])
     @ (if W_legacyPIIKey w \<noteq> [] then [''MODULAB_MODULE_PII_LEGACY_KEY='' @ W_legacyPIIKey w] else [])"

section \<open>Operations of the pool\<close>

text \<open>
  \<open>denoWorker.stop\<close> tells the process to go and does not wait for it. The idle connections it
  closes are those of the theory \<open>ConnPool\<close> (\<open>drain_conn\<close>).
\<close>

definition stop :: "denoWorker \<Rightarrow> pool_state \<Rightarrow> pool_state" where
  "stop w s = s\<lparr>told := W_pid w # told s\<rparr>"

text \<open>The end of a process, killed or not; the goroutine of \<open>start\<close> reports those nobody stopped.\<close>

definition exit_process :: "nat \<Rightarrow> pool_state \<Rightarrow> pool_state" where
  "exit_process pid s = s\<lparr>procs := filter (\<lambda>q. P_pid q \<noteq> pid) (procs s),
     crashes := crashes s @ map P_module (filter (\<lambda>q. P_pid q = pid \<and> pid \<notin> set (told s)) (procs s))\<rparr>"

definition popAndStop :: "string \<Rightarrow> pool_state \<Rightarrow> pool_state" where
  "popAndStop name s =
     (case workers s name of
        None \<Rightarrow> s
      | Some w \<Rightarrow> stop w (s\<lparr>workers := (workers s)(name := None)\<rparr>))"

text \<open>\<open>denoWorker.start\<close>; a worker whose socket does not appear is stopped again.\<close>

definition start :: "PoolConfig \<Rightarrow> denoWorker \<Rightarrow> pool_state \<Rightarrow> unit res \<times> pool_state" where
  "start p w s =
     (let q = \<lparr>P_pid = W_pid w, P_module = W_name w, P_args = worker_args p w, P_env = worker_env w\<rparr>;
          s' = s\<lparr>procs := q # procs s\<rparr> in
      case spawn s (W_pid w) of
        ScriptFails \<Rightarrow> (Inl (ErrInvalid ''create bootstrap script''), s)
      | ExecFails \<Rightarrow> (Inl (ErrInvalid ''exec deno''), s)
      | NoSocket \<Rightarrow> (Inl (ErrInvalid ''socket did not appear''), stop w s')
      | Up \<Rightarrow> (Inr (), s'))"

definition buildWorker ::
  "PoolConfig \<Rightarrow> string \<Rightarrow> string \<Rightarrow> WorkerOptions \<Rightarrow> pool_state \<Rightarrow> denoWorker res \<times> pool_state" where
  "buildWorker p name entrypoint opts s =
     (case configure p name entrypoint opts (spawned s) of
        Inl e \<Rightarrow> (Inl e, s)
      | Inr w \<Rightarrow>
          (case start p w (s\<lparr>spawned := Suc (spawned s)\<rparr>) of
             (Inl e, t) \<Rightarrow> (Inl e, t)
           | (Inr _, t) \<Rightarrow> (Inr w, t)))"

definition register :: "denoWorker \<Rightarrow> string \<Rightarrow> pool_state \<Rightarrow> pool_state" where
  "register w name s = s\<lparr>workers := (workers s)(name \<mapsto> w)\<rparr>"

definition Start :: "PoolConfig \<Rightarrow> string \<Rightarrow> string \<Rightarrow> WorkerOptions \<Rightarrow> pool_state \<Rightarrow> unit res \<times> pool_state" where
  "Start p name entrypoint opts s =
     (case buildWorker p name entrypoint opts (popAndStop name s) of
        (Inl e, t) \<Rightarrow> (Inl e, t)
      | (Inr w, t) \<Rightarrow> (Inr (), register w name t))"

definition Stop :: "string \<Rightarrow> pool_state \<Rightarrow> pool_state" where
  "Stop name s =
     (case workers s name of
        None \<Rightarrow> s
      | Some w \<Rightarrow> (stop w s)\<lparr>workers := (workers s)(name := None)\<rparr>)"

text \<open>\<open>StopAll\<close> ranges over the map: a process is told when its worker is in it.\<close>

definition StopAll :: "pool_state \<Rightarrow> pool_state" where
  "StopAll s = s\<lparr>told := map P_pid (filter (\<lambda>q. case workers s (P_module q) of
       Some w \<Rightarrow> W_pid w = P_pid q | None \<Rightarrow> False) (procs s)) @ told s, workers := Map.empty\<rparr>"

definition Running :: "string \<Rightarrow> pool_state \<Rightarrow> bool" where
  "Running name s \<longleftrightarrow> workers s name \<noteq> None"

definition CurrentModuleEgressHosts :: "string \<Rightarrow> pool_state \<Rightarrow> string list option" where
  "CurrentModuleEgressHosts name s = map_option W_moduleEgressHosts (workers s name)"

text \<open>The options a reload keeps, and the reload. The second answer is what \<open>onEgressDeny\<close> is told.\<close>

definition reload_opts :: "denoWorker \<Rightarrow> string list \<Rightarrow> WorkerOptions" where
  "reload_opts w allowed =
     \<lparr>WO_EgressHosts = allowed, WO_Jobs = W_jobEntrypoints w, WO_SkipTLSVerify = W_skipTLSVerify w,
      WO_EgressPolicy = W_egressPolicy w, WO_DBRolePassword = W_dbRolePassword w,
      WO_PIIMigrated = W_piiMigrated w\<rparr>"

definition ReloadEgress ::
  "PoolConfig \<Rightarrow> string \<Rightarrow> string list \<Rightarrow> pool_state \<Rightarrow> unit res \<times> string list \<times> pool_state" where
  "ReloadEgress p name hosts s =
     (case workers s name of
        None \<Rightarrow> (Inl (ErrInvalid ''no running worker''), [], s)
      | Some w \<Rightarrow>
          (let (allowed, rejected) = filterEgressHosts hosts (W_egressPolicy w);
               (r, t) = Start p name (W_entrypoint w) (reload_opts w allowed) s
           in (r, rejected, t)))"

section \<open>Grants\<close>

lemma set_effective_aux:
  "set (fold (\<lambda>h out. if h \<noteq> [] \<and> h \<notin> set out then out @ [h] else out) hs out) = set out \<union> (set hs - {[]})"
  by (induction hs arbitrary: out) auto

lemma set_effectiveEgressHosts:
  "set (effectiveEgressHosts p hs) = insert (PC_dbHostPort p) (insert (PC_dnsResolver p) (set hs)) - {[]}"
  unfolding effectiveEgressHosts_def by (subst set_effective_aux) auto

lemma distinct_effective_aux:
  "distinct out \<Longrightarrow> distinct (fold (\<lambda>h out. if h \<noteq> [] \<and> h \<notin> set out then out @ [h] else out) hs out)"
  by (induction hs arbitrary: out) auto

lemma distinct_effectiveEgressHosts: "distinct (effectiveEgressHosts p hs)"
  unfolding effectiveEgressHosts_def by (rule distinct_effective_aux) simp

text \<open>The network grants as Deno reads them: what stands between the commas of \<open>--allow-net\<close>.\<close>

definition net_grants :: "denoWorker \<Rightarrow> string list" where
  "net_grants w = split_on CHR '','' (join_with '','' ((''unix:'' @ W_sockPath w) # W_egressHosts w))"

text \<open>What \<open>configure\<close> fixes, whatever the module asked for.\<close>

lemma configure_Inr:
  assumes "configure p name ep opts pid = Inr w"
  shows "W_name w = name" "W_pid w = pid" "W_egressHosts w = effectiveEgressHosts p (WO_EgressHosts opts)"
    "W_sockPath w = sock_path p name" "W_entrypoint w = ep" "W_egressPolicy w = WO_EgressPolicy opts"
    "W_moduleEgressHosts w = WO_EgressHosts opts" "W_dbRolePassword w = WO_DBRolePassword opts"
    "W_piiMigrated w = WO_PIIMigrated opts" "W_skipTLSVerify w = WO_SkipTLSVerify opts"
    "W_jobEntrypoints w = WO_Jobs opts" "pii_keys p name (WO_PIIMigrated opts) = Inr (W_piiKey w, W_legacyPIIKey w)"
  using assms by (auto simp: configure_def res_bind_Inr_iff split: if_splits prod.splits)

end
