(* ===== verification/WorkerLaws.thy ===== *)
theory WorkerLaws
  imports Workers
begin

text \<open>
  What the worker pool keeps: with starts, stops and exits of processes interleaved, a module has
  at most one live process, and none once it is neither in the map nor being started. Then what a
  reload may grant, and two ways around the pool's promises.
\<close>

section \<open>Interleaved operations\<close>

text \<open>
  \<open>Start\<close> holds the lock of its module and takes the lock of the map only to pop and to register,
  so other operations run in between. \<open>starting\<close> holds the modules whose lock is taken, with the
  worker once it is built. \<open>Stop\<close> and \<open>StopAll\<close> take only the lock of the map.
\<close>

record sched =
  pool :: pool_state
  starting :: "string \<rightharpoonup> denoWorker option"

datatype pool_event = Begin string | Build string | Register string | StopEv string | StopAllEv | Exit nat

inductive pool_step :: "PoolConfig \<Rightarrow> sched \<Rightarrow> pool_event \<Rightarrow> sched \<Rightarrow> bool" for p where
  start_begin: "starting r n = None \<Longrightarrow>
    pool_step p r (Begin n) (r\<lparr>pool := popAndStop n (pool r), starting := (starting r)(n \<mapsto> None)\<rparr>)"
| build: "starting r n = Some None \<Longrightarrow> buildWorker p n ep opts (pool r) = (Inr w, t) \<Longrightarrow>
    pool_step p r (Build n) (r\<lparr>pool := t, starting := (starting r)(n \<mapsto> Some w)\<rparr>)"
| build_fails: "starting r n = Some None \<Longrightarrow> buildWorker p n ep opts (pool r) = (Inl e, t) \<Longrightarrow>
    pool_step p r (Build n) (r\<lparr>pool := t, starting := (starting r)(n := None)\<rparr>)"
| register: "starting r n = Some (Some w) \<Longrightarrow>
    pool_step p r (Register n) (r\<lparr>pool := register w n (pool r), starting := (starting r)(n := None)\<rparr>)"
| stop: "pool_step p r (StopEv n) (r\<lparr>pool := Stop n (pool r)\<rparr>)"
| stop_all: "pool_step p r StopAllEv (r\<lparr>pool := StopAll (pool r)\<rparr>)"
| exit: "pool_step p r (Exit pid) (r\<lparr>pool := exit_process pid (pool r)\<rparr>)"

inductive_cases pool_stepE: "pool_step p r l t"

text \<open>The worker that answers for a module: registered, or built and about to be.\<close>

definition owner :: "sched \<Rightarrow> string \<Rightarrow> denoWorker option" where
  "owner r n = (case starting r n of Some b \<Rightarrow> b | None \<Rightarrow> workers (pool r) n)"

text \<open>The live processes nobody has told to stop.\<close>

definition active :: "pool_state \<Rightarrow> process list" where
  "active s = filter (\<lambda>q. P_pid q \<notin> set (told s)) (procs s)"

definition pool_ok :: "sched \<Rightarrow> bool" where
  "pool_ok r \<longleftrightarrow>
     (\<forall>n. starting r n \<noteq> None \<longrightarrow> workers (pool r) n = None)
     \<and> (\<forall>n w. owner r n = Some w \<longrightarrow> W_name w = n \<and> W_pid w < spawned (pool r) \<and> W_pid w \<notin> set (told (pool r)))
     \<and> (\<forall>m n v w. owner r m = Some v \<longrightarrow> owner r n = Some w \<longrightarrow> W_pid v = W_pid w \<longrightarrow> m = n)
     \<and> (\<forall>q \<in> set (active (pool r)). \<exists>w. owner r (P_module q) = Some w \<and> W_pid w = P_pid q)
     \<and> distinct (map P_pid (procs (pool r)))
     \<and> (\<forall>i \<in> P_pid ` set (procs (pool r)) \<union> set (told (pool r)). i < spawned (pool r))"

lemma pool_okI:
  assumes "\<And>n. starting r n \<noteq> None \<Longrightarrow> workers (pool r) n = None"
    and "\<And>n w. owner r n = Some w \<Longrightarrow> W_name w = n \<and> W_pid w < spawned (pool r) \<and> W_pid w \<notin> set (told (pool r))"
    and "\<And>m n v w. owner r m = Some v \<Longrightarrow> owner r n = Some w \<Longrightarrow> W_pid v = W_pid w \<Longrightarrow> m = n"
    and "\<And>q. q \<in> set (active (pool r)) \<Longrightarrow> \<exists>w. owner r (P_module q) = Some w \<and> W_pid w = P_pid q"
    and "distinct (map P_pid (procs (pool r)))"
    and "\<And>i. i \<in> P_pid ` set (procs (pool r)) \<or> i \<in> set (told (pool r)) \<Longrightarrow> i < spawned (pool r)"
  shows "pool_ok r"
  unfolding pool_ok_def Un_iff Ball_def by (insert assms, intro conjI allI impI; blast)

lemma pool_okD:
  assumes "pool_ok r"
  shows "starting r n \<noteq> None \<Longrightarrow> workers (pool r) n = None"
    and "owner r n = Some w \<Longrightarrow> W_name w = n \<and> W_pid w < spawned (pool r) \<and> W_pid w \<notin> set (told (pool r))"
    and "owner r m = Some v \<Longrightarrow> owner r n = Some w \<Longrightarrow> W_pid v = W_pid w \<Longrightarrow> m = n"
    and "q \<in> set (active (pool r)) \<Longrightarrow> \<exists>w. owner r (P_module q) = Some w \<and> W_pid w = P_pid q"
    and "distinct (map P_pid (procs (pool r)))"
    and "q \<in> set (procs (pool r)) \<Longrightarrow> P_pid q < spawned (pool r)"
    and "i \<in> set (told (pool r)) \<Longrightarrow> i < spawned (pool r)"
proof -
  note ok = assms [unfolded pool_ok_def]
  show "starting r n \<noteq> None \<Longrightarrow> workers (pool r) n = None" using ok by simp
  show "owner r n = Some w \<Longrightarrow> W_name w = n \<and> W_pid w < spawned (pool r) \<and> W_pid w \<notin> set (told (pool r))"
    using ok by simp
  show "owner r m = Some v \<Longrightarrow> owner r n = Some w \<Longrightarrow> W_pid v = W_pid w \<Longrightarrow> m = n" using ok by meson
  show "q \<in> set (active (pool r)) \<Longrightarrow> \<exists>w. owner r (P_module q) = Some w \<and> W_pid w = P_pid q" using ok by simp
  show "distinct (map P_pid (procs (pool r)))" using ok by simp
  show "q \<in> set (procs (pool r)) \<Longrightarrow> P_pid q < spawned (pool r)" "i \<in> set (told (pool r)) \<Longrightarrow> i < spawned (pool r)"
    using ok by simp_all
qed

text \<open>Two operations of the pool: giving up the worker of a module, and adopting a new one.\<close>

lemma pool_ok_drop:
  assumes ok: "pool_ok r"
    and p: "procs (pool t) = filter P (procs (pool r))" and s: "spawned (pool t) = spawned (pool r)"
    and ts: "told (pool t) = ts @ told (pool r)" "\<And>i. i \<in> set ts \<Longrightarrow> i < spawned (pool r)"
    and o: "\<And>m. owner t m = owner r m \<or> owner t m = None"
    and kept: "\<And>m w. owner t m = Some w \<Longrightarrow> W_pid w \<notin> set ts"
    and gone: "\<And>q. q \<in> set (procs (pool r)) \<Longrightarrow> P_pid q \<notin> set ts \<Longrightarrow> P q \<Longrightarrow> q \<in> set (active (pool r)) \<Longrightarrow>
      owner t (P_module q) = owner r (P_module q)"
    and st: "\<And>m. starting t m \<noteq> None \<Longrightarrow> workers (pool t) m = None"
  shows "pool_ok t"
proof (rule pool_okI)
  fix n w assume w: "owner t n = Some w"
  then have "owner r n = Some w" using o [of n] by auto
  then show "W_name w = n \<and> W_pid w < spawned (pool t) \<and> W_pid w \<notin> set (told (pool t))"
    using pool_okD(2) [OF ok] s kept [OF w] ts(1) by simp
next
  fix m n v w assume "owner t m = Some v" "owner t n = Some w" "W_pid v = W_pid w"
  then show "m = n" using o [of m] o [of n] pool_okD(3) [OF ok, of m v n w] by auto
next
  fix q assume "q \<in> set (active (pool t))"
  then have "q \<in> set (active (pool r))" "q \<in> set (procs (pool r))" "P q" "P_pid q \<notin> set ts"
    using p ts(1) by (auto simp: active_def)
  then show "\<exists>w. owner t (P_module q) = Some w \<and> W_pid w = P_pid q"
    using gone pool_okD(4) [OF ok] by metis
next
  fix i assume "i \<in> P_pid ` set (procs (pool t)) \<or> i \<in> set (told (pool t))"
  then show "i < spawned (pool t)" using p ts s pool_okD(6,7) [OF ok] by auto
qed (use pool_okD(5) [OF ok] p st in \<open>auto intro: distinct_map_filter\<close>)

lemma buildWorker_cases:
  assumes "buildWorker p n ep opts s = (res, u)"
  obtains (fails) e where "res = Inl e" "procs u = procs s" "workers u = workers s" "spawned u \<ge> spawned s" "told u = told s"
  | (starts) w q where "configure p n ep opts (spawned s) = Inr w" "workers u = workers s"
      "spawned u = Suc (spawned s)" "procs u = q # procs s" "P_pid q = spawned s" "P_module q = n"
      "res = Inr w \<and> told u = told s \<or> (\<exists>e. res = Inl e) \<and> told u = spawned s # told s"
proof (cases "configure p n ep opts (spawned s)")
  case (Inl e)
  then have "res = Inl e" "u = s" using assms(1) by (auto simp: buildWorker_def)
  then show ?thesis using fails by simp
next
  case (Inr w)
  note w = configure_Inr(1,2) [OF Inr]
  note b = assms(1) [unfolded buildWorker_def Inr sum.case start_def Let_def]
  show ?thesis
  proof (cases "spawn s (spawned s)")
    case Up
    then show ?thesis using b w by (intro starts [OF Inr]) auto
  next
    case NoSocket
    then show ?thesis using b w by (intro starts [OF Inr]) (auto simp: stop_def)
  qed (use b w fails in \<open>auto simp: stop_def\<close>)
qed

lemma pool_ok_spawned:
  assumes ok: "pool_ok r" and none: "owner r n = None" and w: "workers (pool r) n = None"
    and starts: "workers u = workers (pool r)" "spawned u = Suc (spawned (pool r))" "procs u = q # procs (pool r)"
      "P_pid q = spawned (pool r)" "P_module q = n"
      "res = Inr w \<and> told u = told (pool r) \<or> (\<exists>e. res = Inl e) \<and> told u = spawned (pool r) # told (pool r)"
    and w': "W_name w = n" "W_pid w = spawned (pool r)"
    and t: "t = r\<lparr>pool := u, starting := (starting r)(n := case res of Inr w \<Rightarrow> Some (Some w) | Inl _ \<Rightarrow> None)\<rparr>"
  shows "pool_ok t"
proof -
  have lt: "\<And>q. q \<in> set (procs (pool r)) \<Longrightarrow> P_pid q \<noteq> spawned (pool r)" "spawned (pool r) \<notin> set (told (pool r))"
    "\<And>m v. owner r m = Some v \<Longrightarrow> W_pid v \<noteq> spawned (pool r)"
    using pool_okD(2,6,7) [OF ok] by fastforce+
  have n: "owner t n = (case res of Inr w \<Rightarrow> Some w | Inl _ \<Rightarrow> None)"
    using t starts w by (auto simp: owner_def)
  have old: "owner t m = owner r m" if "m \<noteq> n" for m using that t starts by (simp add: owner_def split: option.splits)
  show ?thesis
  proof (rule pool_okI)
    fix m v assume "owner t m = Some v"
    then show "W_name v = m \<and> W_pid v < spawned (pool t) \<and> W_pid v \<notin> set (told (pool t))"
      using starts w' n old [of m] lt pool_okD(2) [OF ok] t by (cases "m = n") (auto intro: less_SucI)
  next
    fix m m' v v' assume "owner t m = Some v" "owner t m' = Some v'" "W_pid v = W_pid v'"
    then show "m = m'"
      using starts w' n old [of m] old [of m'] lt(3) pool_okD(3) [OF ok, of m v m' v']
      by (cases "m = n"; cases "m' = n") auto
  next
    fix x assume x: "x \<in> set (active (pool t))"
    show "\<exists>w. owner t (P_module x) = Some w \<and> W_pid w = P_pid x"
    proof (cases "x = q")
      case True
      then show ?thesis using x starts w' n t by (auto simp: active_def)
    next
      case False
      then have "x \<in> set (active (pool r))"
        using x starts(3,6) t unfolding active_def by (auto simp del: filter.simps)
      then obtain v where v: "owner r (P_module x) = Some v" "W_pid v = P_pid x" using pool_okD(4) [OF ok] by blast
      then show ?thesis using none old [of "P_module x"] by (cases "P_module x = n") auto
    qed
  next
    fix m assume "starting t m \<noteq> None"
    then show "workers (pool t) m = None"
      using starts t w pool_okD(1) [OF ok] by (auto split: if_splits)
  next
    show "distinct (map P_pid (procs (pool t)))"
      using starts t pool_okD(5) [OF ok] lt(1) by fastforce
  next
    fix i assume "i \<in> P_pid ` set (procs (pool t)) \<or> i \<in> set (told (pool t))"
    then show "i < spawned (pool t)"
      using starts t less_SucI [OF pool_okD(6) [OF ok]] less_SucI [OF pool_okD(7) [OF ok]] by auto
  qed
qed

lemma pool_ok_adopt:
  assumes ok: "pool_ok r" and none: "owner r n = None" and st: "starting r n = Some None"
    and b: "buildWorker p n ep opts (pool r) = (res, u)"
    and t: "t = r\<lparr>pool := u, starting := (starting r)(n := case res of Inr w \<Rightarrow> Some (Some w) | Inl _ \<Rightarrow> None)\<rparr>"
  shows "pool_ok t"
proof -
  have w: "workers (pool r) n = None" using pool_okD(1) [OF ok] st by simp
  have own: "owner t m = owner r m" if "m \<noteq> n" "workers u = workers (pool r)" for m
    using that t by (simp add: owner_def split: option.splits)
  from b show ?thesis
  proof (cases rule: buildWorker_cases)
    case (fails e)
    have "owner t m = owner r m" for m
      using own [of m] fails none w t by (cases "m = n") (simp_all add: owner_def)
    moreover have "active (pool t) = active (pool r)" using fails t by (simp add: active_def)
    ultimately show ?thesis
      using fails t w
      by (intro pool_okI) (auto dest: pool_okD(2,3,4,6,7) [OF ok] simp: pool_okD(1,5) [OF ok] split: if_splits intro: order_less_le_trans)
  next
    case (starts w q)
    then have w': "W_name w = n" "W_pid w = spawned (pool r)" using configure_Inr(1,2) by blast+
    show ?thesis by (rule pool_ok_spawned [OF ok none \<open>workers (pool r) n = None\<close> starts(2-7) w' t])
  qed
qed

lemma owner_told:
  assumes ok: "pool_ok r" and w: "workers (pool r) n = Some w"
  shows "owner r n = Some w" "W_pid w < spawned (pool r)" "owner r m = Some v \<Longrightarrow> m \<noteq> n \<Longrightarrow> W_pid v \<noteq> W_pid w"
    "starting r n = None"
proof -
  show "starting r n = None" using pool_okD(1) [OF ok, of n] w by fastforce
  then show o: "owner r n = Some w" using w by (simp add: owner_def)
  then show "W_pid w < spawned (pool r)" using pool_okD(2) [OF ok] by blast
  show "owner r m = Some v \<Longrightarrow> m \<noteq> n \<Longrightarrow> W_pid v \<noteq> W_pid w" using pool_okD(3) [OF ok _ o] by blast
qed

lemma pool_ok_forget:
  assumes ok: "pool_ok r" and w: "workers (pool r) n = Some w"
    and t: "workers (pool t) = (workers (pool r))(n := None)" "procs (pool t) = procs (pool r)"
      "told (pool t) = W_pid w # told (pool r)" "spawned (pool t) = spawned (pool r)"
    and st: "starting t = starting r \<or> starting t = (starting r)(n \<mapsto> None)"
  shows "pool_ok t"
proof -
  note w' = owner_told [OF ok w]
  have o: "owner t m = (if m = n then None else owner r m)" for m
    using st t w'(4) by (cases "m = n") (auto simp: owner_def split: option.splits)
  show ?thesis
  proof (rule pool_ok_drop [OF ok, where P = "\<lambda>_. True" and ts = "[W_pid w]"])
    fix q assume q: "q \<in> set (active (pool r))" "P_pid q \<notin> set [W_pid w]"
    then obtain v where "owner r (P_module q) = Some v" "W_pid v = P_pid q" using pool_okD(4) [OF ok] by blast
    then show "owner t (P_module q) = owner r (P_module q)" using q o w'(1) by auto
  next
    fix m v assume "owner t m = Some v"
    then show "W_pid v \<notin> set [W_pid w]" using o w'(3) by (auto split: if_splits)
  next
    fix m assume "starting t m \<noteq> None"
    then show "workers (pool t) m = None" using t(1) st pool_okD(1) [OF ok] by (auto split: if_splits)
  qed (use t w' o in auto)
qed

lemma pool_ok_all_told:
  assumes ok: "pool_ok r"
  shows "pool_ok (r\<lparr>pool := StopAll (pool r)\<rparr>)"
proof -
  let ?t = "r\<lparr>pool := StopAll (pool r)\<rparr>"
  let ?go = "\<lambda>q. case workers (pool r) (P_module q) of Some w \<Rightarrow> W_pid w = P_pid q | None \<Rightarrow> False"
  have o: "owner ?t m = (case starting r m of Some b \<Rightarrow> b | None \<Rightarrow> None)" for m
    by (simp add: owner_def StopAll_def split: option.splits)
  show ?thesis
  proof (rule pool_ok_drop [OF ok, where P = "\<lambda>_. True" and ts = "map P_pid (filter ?go (procs (pool r)))"])
    fix m v assume v: "owner ?t m = Some v"
    show "W_pid v \<notin> set (map P_pid (filter ?go (procs (pool r))))"
    proof
      assume "W_pid v \<in> set (map P_pid (filter ?go (procs (pool r))))"
      then obtain q :: process and w where q: "workers (pool r) (P_module q) = Some w" "W_pid w = W_pid v"
        by (auto split: option.splits)
      have "starting r m \<noteq> None" "owner r m = Some v" using v o by (auto simp: owner_def split: option.splits)
      then show False
        using q pool_okD(1) [OF ok, of m] owner_told(3) [OF ok q(1), of m v] by (cases "m = P_module q") auto
    qed
  next
    fix q assume q: "q \<in> set (active (pool r))" "q \<in> set (procs (pool r))"
      "P_pid q \<notin> set (map P_pid (filter ?go (procs (pool r))))"
    obtain v where v: "owner r (P_module q) = Some v" "W_pid v = P_pid q" using q(1) pool_okD(4) [OF ok] by blast
    then have "starting r (P_module q) \<noteq> None" using q(2,3) by (auto simp: owner_def split: option.splits)
    then show "owner ?t (P_module q) = owner r (P_module q)" using o by (auto simp: owner_def split: option.splits)
  next
    show "owner ?t m = owner r m \<or> owner ?t m = None" for m unfolding o by (simp add: owner_def split: option.splits)
  qed (use pool_okD(6) [OF ok] in \<open>auto simp: StopAll_def\<close>)
qed

lemma pool_ok_step:
  assumes ok: "pool_ok r" and step: "pool_step p r l t"
  shows "pool_ok t"
  using step
proof (cases rule: pool_step.cases)
  case (start_begin n)
  show ?thesis
  proof (cases "workers (pool r) n")
    case None
    with start_begin show ?thesis
      by (intro pool_ok_drop [OF ok, where P = "\<lambda>_. True" and ts = "[]"])
        (auto simp: popAndStop_def owner_def pool_okD(1) [OF ok] split: if_splits option.splits)
  next
    case (Some w)
    with start_begin show ?thesis
      by (intro pool_ok_forget [OF ok Some]) (simp_all add: popAndStop_def stop_def)
  qed
next
  case (build n ep opts w t')
  then have "owner r n = None" by (simp add: owner_def)
  from pool_ok_adopt [OF ok this build(3,4)] build(2) show ?thesis by simp
next
  case (build_fails n ep opts e t')
  then have "owner r n = None" by (simp add: owner_def)
  from pool_ok_adopt [OF ok this build_fails(3,4)] build_fails(2) show ?thesis by simp
next
  case (register n w)
  then show ?thesis
    by (intro pool_ok_drop [OF ok, where P = "\<lambda>_. True" and ts = "[]"])
      (auto simp: register_def owner_def pool_okD(1) [OF ok] split: if_splits option.splits)
next
  case (stop n)
  show ?thesis
  proof (cases "workers (pool r) n")
    case None
    with stop ok show ?thesis by (simp add: Stop_def)
  next
    case (Some w)
    with stop show ?thesis by (intro pool_ok_forget [OF ok Some]) (simp_all add: Stop_def stop_def)
  qed
next
  case stop_all
  with pool_ok_all_told [OF ok] show ?thesis by simp
next
  case (exit pid)
  then show ?thesis
    by (intro pool_ok_drop [OF ok, where P = "\<lambda>q. P_pid q \<noteq> pid" and ts = "[]"])
      (auto simp: exit_process_def owner_def pool_okD(1) [OF ok] split: option.splits)
qed

definition fresh_pool :: "sched \<Rightarrow> bool" where
  "fresh_pool r \<longleftrightarrow> workers (pool r) = Map.empty \<and> starting r = Map.empty \<and> procs (pool r) = [] \<and> told (pool r) = []"

interpretation pools: step_system fresh_pool "pool_step p" pool_ok
  by unfold_locales
    (auto simp: fresh_pool_def owner_def active_def intro: pool_okI pool_ok_step)


section \<open>Reloading the network grants\<close>

lemma Start_registers:
  assumes "Start p name ep opts s = (Inr (), t)"
  obtains w where "configure p name ep opts (spawned s) = Inr w" "workers t name = Some w"
proof -
  have "spawned (popAndStop name s) = spawned s" by (simp add: popAndStop_def stop_def split: option.splits)
  with assms that show ?thesis
    by (auto simp: Start_def buildWorker_def register_def split: prod.splits sum.splits)
qed

text \<open>
  What a reload grants. The worker that runs afterwards may reach the database, the resolver and
  those of the requested hosts that the module's policy admits, and no others; the refused ones are
  reported; and entrypoint, jobs, policy, password and the TLS and key settings are those of the
  worker before.
\<close>

theorem reload_grants_policy:
  assumes "workers s name = Some w" and "ReloadEgress p name hosts s = (Inr (), denied, t)"
  shows "\<exists>v. workers t name = Some v
    \<and> set (W_egressHosts v) = insert (PC_dbHostPort p) (insert (PC_dnsResolver p)
        {h \<in> set hosts. matchesEgressPolicy h (W_egressPolicy w)}) - {[]}
    \<and> denied = filter (\<lambda>h. \<not> matchesEgressPolicy h (W_egressPolicy w)) hosts
    \<and> W_entrypoint v = W_entrypoint w \<and> W_jobEntrypoints v = W_jobEntrypoints w
    \<and> W_egressPolicy v = W_egressPolicy w \<and> W_dbRolePassword v = W_dbRolePassword w
    \<and> W_skipTLSVerify v = W_skipTLSVerify w \<and> W_piiMigrated v = W_piiMigrated w"
proof -
  let ?ok = "filter (\<lambda>h. matchesEgressPolicy h (W_egressPolicy w)) hosts"
  have "Start p name (W_entrypoint w) (reload_opts w ?ok) s = (Inr (), t)"
    and d: "denied = filter (\<lambda>h. \<not> matchesEgressPolicy h (W_egressPolicy w)) hosts"
    using assms by (auto simp: ReloadEgress_def filterEgressHosts_eq split: prod.splits)
  from this(1) obtain v where v: "configure p name (W_entrypoint w) (reload_opts w ?ok) (spawned s) = Inr v"
    "workers t name = Some v" by (rule Start_registers)
  then show ?thesis
    using d by (auto simp: configure_Inr [OF v(1)] set_effectiveEgressHosts reload_opts_def)
qed

section \<open>A grant the policy never admitted\<close>

definition host_alphabet :: string where
  "host_alphabet = ''abcdefghijklmnopqrstuvwxyz0123456789.-''"

definition plain_host :: "string \<Rightarrow> bool" where
  "plain_host h \<longleftrightarrow> h \<noteq> [] \<and> list_all (\<lambda>c. c \<in> set host_alphabet) h"

lemma host_chars:
  "\<forall>c \<in> set (CHR '','' # host_alphabet). \<not> is_space c \<and> lower_char c = c
     \<and> c \<notin> set (''/?#:@[]*'')"
  by code_simp

lemma index_any_None: "index_any s cs = None \<longleftrightarrow> set s \<inter> set cs = {}"
  by (induction s) auto

lemma normalize_plain:
  assumes "h \<noteq> []" and sub: "set h \<subseteq> set (CHR '','' # host_alphabet)"
  shows "normalizeEgressHost h = h"
proof -
  have c: "\<not> is_space c" "lower_char c = c" "c \<notin> set (''/?#:@[]*'')" if "c \<in> set h" for c
    using host_chars sub that by blast+
  have "CHR '':'' \<notin> set h" using c(3) by auto
  then have "\<not> contains h ''://''" "last_index_byte h CHR '':'' = None"
    by (auto simp: contains_iff last_index_byte_None)
  moreover have "index_any h [CHR ''/'', CHR ''?'', CHR ''#''] = None" "last_index_byte h CHR ''@'' = None"
    using c(3) by (auto simp: index_any_None last_index_byte_None)
  moreover have "trim_space h = h" "to_lower h = h"
    using c(1,2) by (auto simp: trim_space_id to_lower_def intro: map_idI)
  moreover have "trim_set [CHR ''['', CHR '']''] h = h"
    using c(3) by (auto simp: trim_set_def trim_left_by_id trim_right_by_id)
  ultimately show ?thesis
    using assms(1) by (simp add: normalizeEgressHost_def contains_def split_host_port_def)
qed

lemma split_join_parts:
  "xs \<noteq> [] \<Longrightarrow> set (split_on d (join_with [d] xs)) = (\<Union>x \<in> set xs. set (split_on d x))"
proof (induction xs)
  case (Cons x xs)
  then show ?case by (cases "xs = []") (simp_all add: join_with_Cons split_on_at_sep)
qed simp

text \<open>
  The grants are joined with commas and never checked for commas. For every suffix pattern a
  module's policy may have, and every plain host outside it, there is a runtime host the policy
  admits by its suffix, and that gives the worker a grant for the other host.
\<close>

theorem comma_grants_any_host:
  assumes "plain_host d" and "plain_host e" and "\<not> has_suffix e (CHR ''.'' # d)"
    and "workers s name = Some w" and "W_egressPolicy w = [''*.'' @ d]"
    and "ReloadEgress p name [e @ '',a.'' @ d] s = (Inr (), denied, t)"
  shows "denied = [] \<and> \<not> matchesEgressPolicy e (W_egressPolicy w)
    \<and> (\<exists>v. workers t name = Some v \<and> e \<in> set (net_grants v))"
proof -
  let ?h = "e @ '',a.'' @ d"
  have alpha: "set d \<subseteq> set host_alphabet" "set e \<subseteq> set host_alphabet" "d \<noteq> []" "e \<noteq> []"
    using assms(1,2) by (auto simp: plain_host_def list_all_iff)
  have "CHR ''a'' \<in> set host_alphabet" "CHR ''.'' \<in> set host_alphabet" by (simp_all add: host_alphabet_def)
  then have norm: "normalizeEgressHost ?h = ?h" "normalizeEgressHost e = e"
    using alpha by (auto intro!: normalize_plain)
  have marks: "CHR '','' \<notin> set e" "CHR ''/'' \<notin> set d"
    using alpha host_chars by (auto simp: host_alphabet_def)
  have d: "\<not> is_space c \<and> lower_char c = c" if "c \<in> set d" for c
    by (rule conjE [OF bspec [OF host_chars, of c]]) (use that alpha(1) in auto)
  have "\<not> is_space CHR ''*''" "\<not> is_space CHR ''.''" by code_simp+
  then have pat: "trim_space (''*.'' @ d) = ''*.'' @ d" "to_lower d = d"
    using d by (auto simp: to_lower_def intro!: map_idI trim_space_id)
  have adm: "pattern_admits h addr (''*.'' @ d) \<longleftrightarrow> (\<exists>l. l \<noteq> [] \<and> h = l @ ''.'' @ d)" for h addr
    using pattern_admits_suffix [OF _ pat(1) alpha(3)] pat marks by (simp add: contains_byte_iff)
  have yes: "matchesEgressPolicy ?h (W_egressPolicy w)"
    unfolding assms(5) matches_iff norm list.set bex_simps adm by (intro conjI disjI1 exI [of _ "e @ '',a''"]) simp_all
  have no: "\<not> matchesEgressPolicy e (W_egressPolicy w)"
    using assms(3) unfolding assms(5) matches_iff norm list.set bex_simps adm by (auto simp: has_suffix_iff)
  obtain v where v: "workers t name = Some v"
      "set (W_egressHosts v) = insert (PC_dbHostPort p) (insert (PC_dnsResolver p) {?h}) - {[]}" "denied = []"
    using reload_grants_policy [OF assms(4,6)] yes by auto
  have "e \<in> set (split_on CHR '','' ?h)"
    using split_on_append [OF marks(1)] by simp
  then have "e \<in> set (net_grants v)"
    using v(2) by (auto simp: net_grants_def split_join_parts simp del: join_with.simps)
  with v no show ?thesis by blast
qed

section \<open>A stop that comes too early\<close>

lemma build_keeps_workers:
  "buildWorker p n ep opts s = (Inr w, u) \<Longrightarrow>
     workers u = workers s \<and> W_name w = n \<and> (\<exists>q \<in> set (procs u). P_module q = n \<and> P_pid q = W_pid w)"
  using configure_Inr(1)
  by (fastforce simp: buildWorker_def start_def stop_def Let_def split: sum.splits spawn_outcome.splits prod.splits)

text \<open>
  C31: \<open>Stop\<close> does not wait for a start of the same module. One that comes between the start's spawn
  and its registration finds no worker and returns; afterwards the module runs, with a live process.
\<close>

theorem stop_misses_start:
  assumes "starting r n = None" and "buildWorker p n ep opts (popAndStop n (pool r)) = (Inr w, u)"
  shows "\<exists>t. steps (pool_step p) r [Begin n, Build n, StopEv n, Register n] t
    \<and> workers (pool t) n = Some w \<and> (\<exists>q \<in> set (procs (pool t)). P_module q = n \<and> P_pid q = W_pid w)"
proof -
  let ?a = "r\<lparr>pool := popAndStop n (pool r), starting := (starting r)(n \<mapsto> None)\<rparr>"
  let ?b = "?a\<lparr>pool := u, starting := (starting ?a)(n \<mapsto> Some w)\<rparr>"
  let ?c = "?b\<lparr>pool := Stop n (pool ?b)\<rparr>"
  let ?d = "?c\<lparr>pool := register w n (pool ?c), starting := (starting ?c)(n := None)\<rparr>"
  note u = build_keeps_workers [OF assms(2)]
  have "workers u n = None" using u by (simp add: popAndStop_def stop_def split: option.splits)
  then have "Stop n u = u" by (simp add: Stop_def)
  moreover have "pool_step p r (Begin n) ?a" using assms(1) by (rule start_begin)
  moreover have "pool_step p ?a (Build n) ?b" using assms(2) by (intro build) simp_all
  moreover have "pool_step p ?b (StopEv n) ?c" by (rule pool_step.stop)
  moreover have "pool_step p ?c (Register n) ?d" by (rule pool_step.register) simp
  ultimately show ?thesis
    using u by (intro exI [of _ ?d]) (auto simp: register_def fun_upd_same simp del: fun_upd_apply intro!: exI)
qed

section \<open>The properties at concrete pools\<close>

definition sample_pool :: PoolConfig where
  "sample_pool = NewWorkerPool ''/m'' ''db:5432'' ''modulab'' [] 0 (\<lambda>_ _. []) (\<lambda>_ _. ''/tmp/w.ts'')"

definition idle_pool :: pool_state where
  "idle_pool = \<lparr>workers = Map.empty, procs = [], told = [], crashes = [], spawned = 0, spawn = \<lambda>_. Up\<rparr>"

definition sample_opts :: WorkerOptions where
  "sample_opts = \<lparr>WO_EgressHosts = [], WO_Jobs = Map.empty, WO_SkipTLSVerify = False,
     WO_EgressPolicy = [''*.ui.com''], WO_DBRolePassword = ''pw'', WO_PIIMigrated = True\<rparr>"

definition running_pool :: pool_state where
  "running_pool = snd (Start sample_pool ''m'' ''/m/m/h.ts'' sample_opts idle_pool)"

lemma sample_build:
  "\<exists>w. buildWorker sample_pool ''m'' ''/m/m/h.ts'' sample_opts (popAndStop ''m'' idle_pool)
     = (Inr w, snd (buildWorker sample_pool ''m'' ''/m/m/h.ts'' sample_opts (popAndStop ''m'' idle_pool)))"
proof -
  have "is_ok (fst (buildWorker sample_pool ''m'' ''/m/m/h.ts'' sample_opts (popAndStop ''m'' idle_pool)))"
    by code_simp
  then show ?thesis by (metis is_ok_ex prod.collapse)
qed

theorem stop_misses_start_witness:
  "\<exists>t. steps (pool_step sample_pool) \<lparr>pool = idle_pool, starting = Map.empty\<rparr>
      [Begin ''m'', Build ''m'', StopEv ''m'', Register ''m''] t \<and> workers (pool t) ''m'' \<noteq> None"
proof -
  obtain w u where "buildWorker sample_pool ''m'' ''/m/m/h.ts'' sample_opts (popAndStop ''m'' idle_pool) = (Inr w, u)"
    using sample_build by blast
  then show ?thesis
    using stop_misses_start [of "\<lparr>pool = idle_pool, starting = Map.empty\<rparr>" "''m''"] by fastforce
qed

text \<open>A restart: the new process is up while the old one, told to stop, is still alive.\<close>

definition restarting :: "sched" where
  "restarting = (let old = popAndStop ''m'' running_pool;
      b = buildWorker sample_pool ''m'' ''/m/m/h.ts'' sample_opts old
    in \<lparr>pool = snd b, starting = [''m'' \<mapsto> (case fst b of Inr w \<Rightarrow> Some w | Inl _ \<Rightarrow> None)]\<rparr>)"

lemma restarting_steps:
  "steps (pool_step sample_pool) \<lparr>pool = idle_pool, starting = Map.empty\<rparr>
     [Begin ''m'', Build ''m'', Register ''m'', Begin ''m'', Build ''m''] restarting"
proof -
  let ?r = "\<lparr>pool = idle_pool, starting = Map.empty\<rparr>"
  let ?build = "buildWorker sample_pool ''m'' ''/m/m/h.ts'' sample_opts"
  let ?a = "\<lparr>pool = popAndStop ''m'' idle_pool, starting = [''m'' \<mapsto> None]\<rparr>"
  obtain w u where b: "?build (popAndStop ''m'' idle_pool) = (Inr w, u)" using sample_build by blast
  let ?b = "\<lparr>pool = u, starting = [''m'' \<mapsto> Some w]\<rparr>"
  let ?c = "\<lparr>pool = running_pool, starting = Map.empty\<rparr>"
  let ?d = "\<lparr>pool = popAndStop ''m'' running_pool, starting = [''m'' \<mapsto> None]\<rparr>"
  have run: "running_pool = register w ''m'' u" using b by (simp add: running_pool_def Start_def)
  have "is_ok (fst (?build (popAndStop ''m'' running_pool)))" by code_simp
  then obtain v t where c: "?build (popAndStop ''m'' running_pool) = (Inr v, t)" by (metis is_ok_ex prod.collapse)
  note one = start_begin [of ?r "''m''" sample_pool] and two = build [of ?a "''m''" sample_pool]
    and three = pool_step.register [of ?b "''m''" w sample_pool] and four = start_begin [of ?c "''m''" sample_pool]
    and five = build [of ?d "''m''" sample_pool]
  have "pool_step sample_pool ?r (Begin ''m'') ?a" "pool_step sample_pool ?a (Build ''m'') ?b"
    "pool_step sample_pool ?b (Register ''m'') ?c" "pool_step sample_pool ?c (Begin ''m'') ?d"
    "pool_step sample_pool ?d (Build ''m'') restarting"
    using one two b three run four five c by (simp_all add: restarting_def Let_def)
  then show ?thesis by (elim steps_step) (rule steps_refl)
qed


lemma sample_running:
  obtains w where "workers running_pool ''m'' = Some w" "W_egressPolicy w = [''*.ui.com'']"
proof -
  have "map_option W_egressPolicy (workers running_pool ''m'') = Some [''*.ui.com'']" by code_simp
  then show ?thesis using that by auto
qed

lemma sample_reload:
  assumes "hosts = [''a.ui.com'', ''x.org''] \<or> hosts = [''evil.org'' @ '',a.'' @ ''ui.com'']"
  obtains denied t where "ReloadEgress sample_pool ''m'' hosts running_pool = (Inr (), denied, t)"
proof -
  have "fst (ReloadEgress sample_pool ''m'' [''a.ui.com'', ''x.org''] running_pool) = Inr ()"
    "fst (ReloadEgress sample_pool ''m'' [''evil.org'' @ '',a.'' @ ''ui.com''] running_pool) = Inr ()"
    by code_simp+
  then show ?thesis using assms that by (metis prod.collapse)
qed

theorem reload_grants_policy_witness:
  "\<exists>(t :: pool_state) v. workers t ''m'' = Some v
     \<and> ''a.ui.com'' \<in> set (W_egressHosts v) \<and> ''x.org'' \<notin> set (W_egressHosts v)"
proof -
  obtain w where w: "workers running_pool ''m'' = Some w" "W_egressPolicy w = [''*.ui.com'']"
    by (rule sample_running)
  obtain denied t where r: "ReloadEgress sample_pool ''m'' [''a.ui.com'', ''x.org''] running_pool = (Inr (), denied, t)"
    using sample_reload by blast
  have "matchesEgressPolicy ''a.ui.com'' [''*.ui.com'']" "\<not> matchesEgressPolicy ''x.org'' [''*.ui.com'']"
    "''x.org'' \<notin> {PC_dbHostPort sample_pool, PC_dnsResolver sample_pool}" by code_simp+
  with reload_grants_policy [OF w(1) r] w(2) show ?thesis by auto
qed

theorem comma_grants_any_host_witness:
  "\<exists>(t :: pool_state) v. workers t ''m'' = Some v \<and> ''evil.org'' \<in> set (net_grants v)
     \<and> \<not> matchesEgressPolicy ''evil.org'' [''*.ui.com'']"
proof -
  obtain w where w: "workers running_pool ''m'' = Some w" "W_egressPolicy w = [''*.'' @ ''ui.com'']"
    using sample_running by auto
  obtain denied t where r: "ReloadEgress sample_pool ''m'' [''evil.org'' @ '',a.'' @ ''ui.com''] running_pool = (Inr (), denied, t)"
    using sample_reload by blast
  have "plain_host ''ui.com''" "plain_host ''evil.org''" "\<not> has_suffix ''evil.org'' (CHR ''.'' # ''ui.com'')"
    by code_simp+
  from comma_grants_any_host [OF this w r] w(2) show ?thesis by auto
qed

end
