(* ===== verification/ConnPool.thy ===== *)
theory ConnPool
  imports Prelude
begin

text \<open>
  The connection pool of a worker (\<open>getConn\<close>, \<open>releaseConn\<close>, \<open>dispatch\<close> and the drain of
  \<open>stop\<close> in \<open>modules/deno.go\<close>) under concurrent requests. Each request runs \<open>dispatch\<close>; a step
  of the system is one atomic action of one request (a channel operation, a section under the
  mutex, a dial, a round trip), or one round of the loop of \<open>stop\<close>, which requests that have
  already looked the worker up go on beside. \<open>cap\<close> is \<open>poolSize\<close>, which is also the capacity of the channel.
\<close>

section \<open>Requests and their steps\<close>

text \<open>
  Where \<open>dispatch\<close> stands; the first number is the attempt (1, or 2 for the retry). \<open>Missed\<close> is
  between the first \<open>select\<close> of \<open>getConn\<close>, which found no idle connection, and the mutex.
\<close>

datatype phase =
    Asking nat
  | Missed nat
  | Dialing nat
  | Waiting nat
  | Holding nat nat
  | Finished bool

record conn_pool =
  idle :: "nat list"
  numConns :: int
  dials :: nat
  reqs :: "phase list"

datatype conn_event =
    New
  | TryIdle nat
  | Reserve nat
  | DialOk nat
  | DialFail nat
  | Wake nat
  | Cancel nat
  | ReplyOk nat
  | ReplyErr nat
  | Drain

definition set_phase :: "nat \<Rightarrow> phase \<Rightarrow> conn_pool \<Rightarrow> conn_pool" where
  "set_phase i ph s = s\<lparr>reqs := (reqs s)[i := ph]\<rparr>"

text \<open>The first \<open>select\<close> of \<open>getConn\<close>, and the section under the mutex.\<close>

definition try_idle :: "nat \<Rightarrow> nat \<Rightarrow> conn_pool \<Rightarrow> conn_pool" where
  "try_idle i a s =
     (case idle s of
        c # cs \<Rightarrow> set_phase i (Holding a c) (s\<lparr>idle := cs\<rparr>)
      | [] \<Rightarrow> set_phase i (Missed a) s)"

definition reserve :: "nat \<Rightarrow> nat \<Rightarrow> nat \<Rightarrow> conn_pool \<Rightarrow> conn_pool" where
  "reserve cap i a s =
     (if numConns s < int cap then set_phase i (Dialing a) (s\<lparr>numConns := numConns s + 1\<rparr>)
      else set_phase i (Waiting a) s)"

definition dial_ok :: "nat \<Rightarrow> nat \<Rightarrow> conn_pool \<Rightarrow> conn_pool" where
  "dial_ok i a s = set_phase i (Holding a (dials s)) (s\<lparr>dials := Suc (dials s)\<rparr>)"

definition dial_fails :: "nat \<Rightarrow> conn_pool \<Rightarrow> conn_pool" where
  "dial_fails i s = set_phase i (Finished False) (s\<lparr>numConns := numConns s - 1\<rparr>)"

text \<open>The last \<open>select\<close> of \<open>getConn\<close>: a released connection, or the end of the context.\<close>

definition wake :: "nat \<Rightarrow> nat \<Rightarrow> conn_pool \<Rightarrow> conn_pool option" where
  "wake i a s =
     (case idle s of
        c # cs \<Rightarrow> Some (set_phase i (Holding a c) (s\<lparr>idle := cs\<rparr>))
      | [] \<Rightarrow> None)"

definition releaseConn :: "nat \<Rightarrow> nat option \<Rightarrow> conn_pool \<Rightarrow> conn_pool" where
  "releaseConn cap conn s =
     (case conn of
        None \<Rightarrow> s\<lparr>numConns := numConns s - 1\<rparr>
      | Some c \<Rightarrow>
          if length (idle s) < cap then s\<lparr>idle := idle s @ [c]\<rparr>
          else s\<lparr>numConns := numConns s - 1\<rparr>)"

text \<open>
  A round of the drain in \<open>denoWorker.stop\<close>: an idle connection is taken and closed. The counter
  is not lowered.
\<close>

definition drain_conn :: "conn_pool \<Rightarrow> conn_pool option" where
  "drain_conn s = (case idle s of c # cs \<Rightarrow> Some (s\<lparr>idle := cs\<rparr>) | [] \<Rightarrow> None)"

text \<open>What \<open>dispatch\<close> does after a round trip: one retry, on another connection.\<close>

definition after_roundtrip :: "nat \<Rightarrow> nat \<Rightarrow> nat \<Rightarrow> nat \<Rightarrow> bool \<Rightarrow> conn_pool \<Rightarrow> conn_pool" where
  "after_roundtrip cap i a c ok s =
     (if ok then set_phase i (Finished True) (releaseConn cap (Some c) s)
      else set_phase i (if a = 1 then Asking 2 else Finished False) (releaseConn cap None s))"

definition at_phase :: "conn_pool \<Rightarrow> nat \<Rightarrow> phase option" where
  "at_phase s i = (if i < length (reqs s) then Some (reqs s ! i) else None)"

fun conn_exec :: "nat \<Rightarrow> conn_pool \<Rightarrow> conn_event \<Rightarrow> conn_pool option" where
  "conn_exec cap s New = Some (s\<lparr>reqs := reqs s @ [Asking 1]\<rparr>)"
| "conn_exec cap s (TryIdle i) = (case at_phase s i of Some (Asking a) \<Rightarrow> Some (try_idle i a s) | _ \<Rightarrow> None)"
| "conn_exec cap s (Reserve i) = (case at_phase s i of Some (Missed a) \<Rightarrow> Some (reserve cap i a s) | _ \<Rightarrow> None)"
| "conn_exec cap s (DialOk i) = (case at_phase s i of Some (Dialing a) \<Rightarrow> Some (dial_ok i a s) | _ \<Rightarrow> None)"
| "conn_exec cap s (DialFail i) = (case at_phase s i of Some (Dialing a) \<Rightarrow> Some (dial_fails i s) | _ \<Rightarrow> None)"
| "conn_exec cap s (Wake i) = (case at_phase s i of Some (Waiting a) \<Rightarrow> wake i a s | _ \<Rightarrow> None)"
| "conn_exec cap s (Cancel i) =
     (case at_phase s i of Some (Waiting a) \<Rightarrow> Some (set_phase i (Finished False) s) | _ \<Rightarrow> None)"
| "conn_exec cap s (ReplyOk i) =
     (case at_phase s i of Some (Holding a c) \<Rightarrow> Some (after_roundtrip cap i a c True s) | _ \<Rightarrow> None)"
| "conn_exec cap s (ReplyErr i) =
     (case at_phase s i of Some (Holding a c) \<Rightarrow> Some (after_roundtrip cap i a c False s) | _ \<Rightarrow> None)"
| "conn_exec cap s Drain = drain_conn s"

definition conn_step :: "nat \<Rightarrow> conn_pool \<Rightarrow> conn_event \<Rightarrow> conn_pool \<Rightarrow> bool" where
  "conn_step cap s l t \<longleftrightarrow> conn_exec cap s l = Some t"

definition new_pool :: conn_pool where
  "new_pool = \<lparr>idle = [], numConns = 0, dials = 0, reqs = []\<rparr>"

section \<open>The accounting\<close>

text \<open>A request that has, or is dialling, a connection counts one.\<close>

fun holds :: "phase \<Rightarrow> nat" where
  "holds (Dialing a) = 1"
| "holds (Holding a c) = 1"
| "holds _ = 0"

definition busy :: "conn_pool \<Rightarrow> nat" where
  "busy s = sum_list (map holds (reqs s))"

definition conns_ok :: "nat \<Rightarrow> conn_pool \<Rightarrow> bool" where
  "conns_ok cap s \<longleftrightarrow> int (length (idle s)) + int (busy s) \<le> numConns s \<and> numConns s \<le> int cap"

text \<open>What the counter counts too much.\<close>

definition excess :: "conn_pool \<Rightarrow> int" where
  "excess s = numConns s - int (length (idle s)) - int (busy s)"

lemma at_phase_Some: "at_phase s i = Some ph \<longleftrightarrow> i < length (reqs s) \<and> reqs s ! i = ph"
  by (auto simp: at_phase_def)

lemma busy_set_phase:
  "i < length (reqs s) \<Longrightarrow> int (busy (set_phase i ph s)) = int (busy s) + int (holds ph) - int (holds (reqs s ! i))"
proof -
  assume i: "i < length (reqs s)"
  then have "holds (reqs s ! i) \<le> busy s"
    unfolding busy_def using member_le_sum_list [of "holds (reqs s ! i)" "map holds (reqs s)"] by simp
  then show ?thesis
    using i by (simp add: busy_def set_phase_def map_update sum_list_update)
qed

lemma busy_simps [simp]:
  "busy (s\<lparr>idle := x\<rparr>) = busy s" "busy (s\<lparr>numConns := n\<rparr>) = busy s" "busy (s\<lparr>dials := d\<rparr>) = busy s"
  "busy (s\<lparr>reqs := reqs s @ [Asking a]\<rparr>) = busy s"
  by (simp_all add: busy_def)

lemma set_phase_simps [simp]:
  "idle (set_phase i ph s) = idle s" "numConns (set_phase i ph s) = numConns s"
  "reqs (set_phase i ph s) = (reqs s)[i := ph]" "dials (set_phase i ph s) = dials s"
  by (simp_all add: set_phase_def)

lemma busy_pos:
  assumes "i < length (reqs s)" and "holds (reqs s ! i) = 1"
  shows "busy s > 0"
proof -
  have "1 \<in> set (map holds (reqs s))" using assms by (force simp: in_set_conv_nth)
  then show ?thesis unfolding busy_def using member_le_sum_list [of 1 "map holds (reqs s)"] by simp
qed

lemmas conn_defs = try_idle_def reserve_def dial_ok_def dial_fails_def wake_def releaseConn_def after_roundtrip_def
  drain_conn_def

lemma conns_ok_step:
  assumes ok: "conns_ok cap s" and step: "conn_step cap s l t"
  shows "conns_ok cap t" and "excess t = excess s + (if l = Drain then 1 else 0)"
proof -
  have hold: "busy s > 0" if "at_phase s i = Some (Holding a c)" for i a c
    using busy_pos [of i s] that by (auto simp: at_phase_Some)
  show ex: "excess t = excess s + (if l = Drain then 1 else 0)"
    using step
    by (cases l) (auto simp: conn_step_def excess_def at_phase_Some conn_defs busy_set_phase
        split: option.splits phase.splits list.splits if_splits)
  have "numConns t \<le> int cap"
    using ok step hold
    by (cases l) (auto simp: conn_step_def conns_ok_def at_phase_Some conn_defs
        split: option.splits phase.splits list.splits if_splits)
  then show "conns_ok cap t" using ok ex by (simp add: conns_ok_def excess_def split: if_splits)
qed

lemma excess_steps:
  "steps (conn_step cap) s ls t \<Longrightarrow> conns_ok cap s \<Longrightarrow> excess t = excess s + int (count_list ls Drain)"
proof (induction rule: steps.induct)
  case (steps_step s l t ls u)
  from conns_ok_step [OF steps_step.prems steps_step.hyps(1)] steps_step.IH show ?case by simp
qed simp

interpretation conns: step_system "\<lambda>s. s = new_pool" "conn_step cap" "conns_ok cap" for cap
proof unfold_locales
  show "conns_ok cap s" if "s = new_pool" for s
    using that by (simp add: new_pool_def conns_ok_def busy_def)
qed (rule conns_ok_step(1))

text \<open>
  C15: the counter is exact in every interleaving, failures and a stop of the worker included: it is
  the number of idle connections, plus that of the requests that hold or dial one, plus that of the
  idle connections a stop has closed, which it leaves in the counter; and it is never more than the
  size of the pool. So until the worker is stopped it is the number of connections there are, and a
  healthy connection that is released always finds room in the channel.
\<close>

theorem conn_accounting:
  assumes "steps (conn_step cap) new_pool ls t"
  shows "numConns t = int (length (idle t)) + int (busy t) + int (count_list ls Drain) \<and> numConns t \<le> int cap
    \<and> (\<forall>i a c. at_phase t i = Some (Holding a c) \<longrightarrow> idle (releaseConn cap (Some c) t) = idle t @ [c])"
proof -
  have ok: "conns_ok cap t" using conns.reachable_inv [OF refl assms] .
  have "excess t = excess new_pool + int (count_list ls Drain)"
    by (rule excess_steps [OF assms]) (simp add: conns.init_inv)
  then have "excess t = int (count_list ls Drain)" by (simp add: excess_def new_pool_def busy_def)
  moreover have "length (idle t) < cap" if "at_phase t i = Some (Holding a c)" for i a c
    using ok busy_pos [of i t] that by (auto simp: at_phase_Some conns_ok_def)
  ultimately show ?thesis using ok by (auto simp: conns_ok_def excess_def releaseConn_def)
qed

section \<open>Every request comes to an end\<close>

text \<open>The steps a request may still take, a retry included.\<close>

fun rank :: "phase \<Rightarrow> nat" where
  "rank (Asking a) = (if a = 1 then 8 else 4)"
| "rank (Missed a) = (if a = 1 then 7 else 3)"
| "rank (Dialing a) = (if a = 1 then 6 else 2)"
| "rank (Waiting a) = (if a = 1 then 6 else 2)"
| "rank (Holding a c) = (if a = 1 then 5 else 1)"
| "rank (Finished b) = 0"

lemma releaseConn_reqs [simp]: "reqs (releaseConn cap c s) = reqs s"
  by (simp add: releaseConn_def split: option.splits)

definition failure :: "conn_event \<Rightarrow> bool" where
  "failure l \<longleftrightarrow> (case l of DialFail _ \<Rightarrow> True | ReplyErr _ \<Rightarrow> True | Cancel _ \<Rightarrow> True | Drain \<Rightarrow> True | _ \<Rightarrow> False)"

text \<open>The request that takes a step; an arrival and the stop of the worker are no request's.\<close>

fun event_req :: "conn_event \<Rightarrow> nat option" where
  "event_req New = None" | "event_req Drain = None" | "event_req (TryIdle i) = Some i"
| "event_req (Reserve i) = Some i" | "event_req (DialOk i) = Some i" | "event_req (DialFail i) = Some i"
| "event_req (Wake i) = Some i" | "event_req (Cancel i) = Some i" | "event_req (ReplyOk i) = Some i"
| "event_req (ReplyErr i) = Some i"

text \<open>A step moves one request forward.\<close>

lemma step_one_request:
  assumes "conn_step cap s l t" and "event_req l = Some i"
  shows "i < length (reqs s)" "reqs t = (reqs s)[i := reqs t ! i]" "rank (reqs t ! i) < rank (reqs s ! i)"
    "reqs t ! i = Finished False \<Longrightarrow> failure l" "reqs t ! i = Waiting a \<Longrightarrow> \<not> numConns s < int cap"
  using assms
  by (cases l; force simp: conn_step_def at_phase_Some try_idle_def reserve_def dial_ok_def dial_fails_def
      wake_def after_roundtrip_def failure_def split: option.splits phase.splits list.splits if_splits)+

lemma step_no_request:
  "conn_step cap s l t \<Longrightarrow> event_req l = None \<Longrightarrow> reqs t = reqs s @ (if l = New then [Asking 1] else [])"
  by (cases l) (auto simp: conn_step_def drain_conn_def split: list.splits)

text \<open>
  C16: no request runs for ever. In any run, whatever fails, however many requests come and go beside
  it and whether or not the worker is stopped, the steps a request takes and the steps it has left
  never exceed the steps it had; so it takes at most eight, its retry included. Between them it may
  wait for a connection; nothing but its context bounds that wait.
\<close>

theorem requests_terminate:
  assumes "steps (conn_step cap) s ls t" and "i < length (reqs s)"
  shows "length (filter (\<lambda>l. event_req l = Some i) ls) + rank (reqs t ! i) \<le> rank (reqs s ! i)
    \<and> rank (reqs s ! i) \<le> 8"
proof
  show "rank (reqs s ! i) \<le> 8" by (cases "reqs s ! i") simp_all
  show "length (filter (\<lambda>l. event_req l = Some i) ls) + rank (reqs t ! i) \<le> rank (reqs s ! i)"
    using assms
  proof (induction rule: steps.induct)
    case (steps_step s l t ls u)
    show ?case
    proof (cases "event_req l")
      case None
      from step_no_request [OF steps_step.hyps(1) this] steps_step show ?thesis using None by (auto simp: nth_append)
    next
      case (Some j)
      note one = step_one_request [OF steps_step.hyps(1) Some]
      have "i < length (reqs t)" using one(2) steps_step.prems by (metis length_list_update)
      moreover have "j \<noteq> i \<Longrightarrow> reqs t ! i = reqs s ! i" using one(2) by (metis nth_list_update_neq)
      ultimately show ?thesis using steps_step.IH one(3) Some by (cases "j = i") auto
    qed
  qed simp
qed

section \<open>Waiting requests are served\<close>

definition waiting :: "conn_pool \<Rightarrow> bool" where
  "waiting s \<longleftrightarrow> (\<exists>a. Waiting a \<in> set (reqs s))"

text \<open>Without failures, a request waits only while the pool is full.\<close>

definition served :: "nat \<Rightarrow> conn_pool \<Rightarrow> bool" where
  "served cap s \<longleftrightarrow> conns_ok cap s \<and> excess s = 0 \<and> Finished False \<notin> set (reqs s) \<and> (waiting s \<longrightarrow> numConns s = int cap)"

lemma numConns_quiet:
  assumes "conns_ok cap s" and "conn_step cap s l t" and "\<not> failure l"
  shows "numConns s \<le> numConns t"
proof -
  have "length (idle s) < cap" if "i < length (reqs s)" "reqs s ! i = Holding a c" for i a c
    using assms(1) busy_pos [of i s] that by (auto simp: conns_ok_def)
  then show ?thesis
    using assms(2,3)
    by (cases l) (auto simp: failure_def conn_step_def at_phase_Some conn_defs
        split: option.splits phase.splits list.splits if_splits)
qed

lemma served_step:
  assumes "served cap s" and step: "conn_step cap s l t" and quiet: "\<not> failure l"
  shows "served cap t"
proof (cases "event_req l")
  case None
  then have "l = New" using quiet by (cases l) (simp_all add: failure_def)
  then show ?thesis
    using assms by (auto simp: served_def waiting_def conn_step_def conns_ok_def excess_def)
next
  case (Some i)
  note one = step_one_request [OF step Some]
  have ok: "conns_ok cap s" "conns_ok cap t" "excess t = 0" "Finished False \<notin> set (reqs s)"
    using assms conns_ok_step [OF _ step] by (auto simp: served_def failure_def)
  have new: "x = reqs t ! i \<or> x \<in> set (reqs s)" if "x \<in> set (reqs t)" for x
    using that one(2) set_update_subset_insert by (metis insert_iff subset_iff)
  have "Finished False \<notin> set (reqs t)" using new ok(4) one(4) quiet by metis
  moreover have "numConns t = int cap" if "waiting t"
  proof -
    from that obtain a where "Waiting a \<in> set (reqs t)" unfolding waiting_def by blast
    then have "reqs t ! i = Waiting a \<or> waiting s" using new unfolding waiting_def by metis
    then have "\<not> numConns s < int cap" using one(5) [of a] assms(1) by (auto simp: served_def)
    then show ?thesis using numConns_quiet [OF ok(1) step quiet] ok(2) by (simp add: conns_ok_def)
  qed
  ultimately show ?thesis using ok(2,3) by (simp add: served_def)
qed

interpretation quiet: step_system "\<lambda>s. s = new_pool" "\<lambda>s l t. conn_step cap s l t \<and> \<not> failure l" "served cap" for cap
proof unfold_locales
  show "served cap s" if "s = new_pool" for s
    using that conns.init_inv by (simp add: served_def waiting_def new_pool_def excess_def busy_def)
qed (use served_step in blast)

lemma steps_quiet:
  "steps (conn_step cap) s ls t \<Longrightarrow> list_all (\<lambda>l. \<not> failure l) ls \<Longrightarrow>
     steps (\<lambda>s l t. conn_step cap s l t \<and> \<not> failure l) s ls t"
  by (induction rule: steps.induct) auto

text \<open>
  C17: the pool serves everybody as long as nothing fails. A run without failed dials, failed round
  trips, cancelled contexts or a stop of the worker that cannot go on without a new request has answered every request.
\<close>

theorem all_requests_served:
  assumes "steps (conn_step cap) new_pool ls t" and "list_all (\<lambda>l. \<not> failure l) ls" and "0 < cap"
    and stuck: "\<And>l. l \<noteq> New \<Longrightarrow> \<not> failure l \<Longrightarrow> conn_exec cap t l = None"
  shows "\<forall>ph \<in> set (reqs t). ph = Finished True"
proof
  have t: "served cap t" using quiet.reachable_inv [OF refl steps_quiet [OF assms(1,2)]] .
  have idle: "False" if "i < length (reqs t)" "rank (reqs t ! i) > 0" "\<not> waiting t" for i
    using that stuck [of "TryIdle i"] stuck [of "Reserve i"] stuck [of "DialOk i"] stuck [of "ReplyOk i"]
    by (cases "reqs t ! i") (auto simp: at_phase_def failure_def waiting_def in_set_conv_nth)
  have held: "False" if "i < length (reqs t)" "holds (reqs t ! i) = 1" for i
    using that stuck [of "DialOk i"] stuck [of "ReplyOk i"]
    by (cases "reqs t ! i") (auto simp: at_phase_def failure_def)
  have "\<not> waiting t"
  proof
    assume "waiting t"
    then obtain i a where i: "i < length (reqs t)" "reqs t ! i = Waiting a"
      by (auto simp: waiting_def in_set_conv_nth)
    have "idle t = []" using stuck [of "Wake i"] i by (auto simp: at_phase_def failure_def wake_def split: list.splits)
    then have "busy t \<noteq> 0" using t \<open>waiting t\<close> \<open>0 < cap\<close> by (auto simp: served_def excess_def)
    then obtain ph where "ph \<in> set (reqs t)" "holds ph \<noteq> 0" by (auto simp: busy_def sum_list_eq_0_iff)
    moreover have "holds ph \<le> 1" for ph by (cases ph) simp_all
    ultimately have "\<exists>j < length (reqs t). holds (reqs t ! j) = 1"
      by (metis One_nat_def in_set_conv_nth le_neq_implies_less less_Suc0)
    then show False using held by blast
  qed
  fix ph assume "ph \<in> set (reqs t)"
  then obtain i where i: "i < length (reqs t)" "reqs t ! i = ph" by (auto simp: in_set_conv_nth)
  then have "rank ph = 0" using idle \<open>\<not> waiting t\<close> by blast
  then show "ph = Finished True"
    using t \<open>ph \<in> set (reqs t)\<close>
    by (cases "ph = Finished False"; cases ph) (simp_all add: served_def split: if_splits)
qed

text \<open>
  A failure can leave requests waiting for a connection nobody will give them. When the last
  connection of the pool is lost while others wait, the counter goes back to zero, there is room for
  a new connection, but only a new request or the end of a context makes anything move.
\<close>

theorem lost_wakeup:
  assumes "conns_ok cap s" and "excess s = 0" and "idle s = []" and "at_phase s i = Some (Dialing a)"
    and others: "\<And>j. j < length (reqs s) \<Longrightarrow> j \<noteq> i \<Longrightarrow> (\<exists>b. reqs s ! j = Waiting b \<or> reqs s ! j = Finished (b = 1))"
    and "conn_exec cap s (DialFail i) = Some t"
  shows "numConns t = 0 \<and> (\<forall>l. conn_exec cap t l \<noteq> None \<longrightarrow> l = New \<or> (\<exists>j. l = Cancel j))"
proof -
  have i: "i < length (reqs s)" "reqs s ! i = Dialing a" using assms(4) by (simp_all add: at_phase_Some)
  have t: "idle t = []" "reqs t = (reqs s)[i := Finished False]" "numConns t = numConns s - 1"
    using assms(3,4,6) by (auto simp: dial_fails_def)
  have calm: "(\<exists>b. reqs t ! j = Waiting b \<or> reqs t ! j = Finished (b = 1))" if "j < length (reqs t)" for j
    using others [of j] that i t by (cases "j = i") (auto simp: nth_list_update intro: exI [of _ "2"])
  have "sum_list (map holds (reqs t)) = 0"
    using calm by (fastforce simp: sum_list_eq_0_iff in_set_conv_nth)
  moreover have "excess t = 0"
    using conns_ok_step(2) [OF assms(1), of "DialFail i" t] assms(2,6) by (simp add: conn_step_def)
  ultimately have "numConns t = 0" using t by (simp add: excess_def busy_def)
  moreover have "l = New \<or> (\<exists>j. l = Cancel j)" if "conn_exec cap t l \<noteq> None" for l
    using that calm t(1)
    by (cases l) (fastforce simp: at_phase_Some wake_def drain_conn_def split: option.splits phase.splits)+
  ultimately show ?thesis by blast
qed

section \<open>The properties at concrete runs\<close>

fun run_events :: "nat \<Rightarrow> conn_pool \<Rightarrow> conn_event list \<Rightarrow> conn_pool option" where
  "run_events cap s [] = Some s"
| "run_events cap s (l # ls) = (case conn_exec cap s l of None \<Rightarrow> None | Some t \<Rightarrow> run_events cap t ls)"

lemma run_events_steps: "run_events cap s ls = Some t \<Longrightarrow> steps (conn_step cap) s ls t"
  by (induction ls arbitrary: s) (auto simp: conn_step_def split: option.splits)

text \<open>Two requests on a pool of one connection: the second waits for the first.\<close>

definition two_requests :: "conn_event list" where
  "two_requests = [New, New, TryIdle 0, Reserve 0, TryIdle 1, Reserve 1, DialOk 0, ReplyOk 0, Wake 1, ReplyOk 1]"

lemma two_requests_run:
  "steps (conn_step 1) new_pool two_requests
     \<lparr>idle = [0], numConns = 1, dials = 1, reqs = [Finished True, Finished True]\<rparr>"
  by (rule run_events_steps) code_simp

text \<open>The worker is stopped while the second request holds its connection.\<close>

definition stopped_run :: "conn_event list" where
  "stopped_run = [New, New, TryIdle 0, Reserve 0, TryIdle 1, Reserve 1, DialOk 0, DialOk 1, ReplyOk 0, Drain, ReplyOk 1]"

lemma stopped_run_steps:
  "steps (conn_step 2) new_pool stopped_run
     \<lparr>idle = [1], numConns = 2, dials = 2, reqs = [Finished True, Finished True]\<rparr>"
  by (rule run_events_steps) code_simp

theorem conn_accounting_witness:
  "\<exists>t. steps (conn_step 2) new_pool stopped_run t \<and> numConns t = 2 \<and> idle t = [1]
     \<and> numConns t = int (length (idle t)) + int (busy t) + int (count_list stopped_run Drain) \<and> numConns t \<le> int 2"
proof -
  let ?t = "\<lparr>idle = [1], numConns = 2, dials = 2, reqs = [Finished True, Finished True]\<rparr>"
  from conn_accounting [OF stopped_run_steps]
  have "numConns ?t = int (length (idle ?t)) + int (busy ?t) + int (count_list stopped_run Drain) \<and> numConns ?t \<le> int 2"
    by blast
  with stopped_run_steps show ?thesis by (intro exI [of _ ?t]) simp
qed

theorem requests_terminate_witness:
  "length (filter (\<lambda>l. event_req l = Some 1) (drop 2 two_requests)) \<le> 8"
proof -
  have "steps (conn_step 1) (new_pool\<lparr>reqs := [Asking 1, Asking 1]\<rparr>) (drop 2 two_requests)
     \<lparr>idle = [0], numConns = 1, dials = 1, reqs = [Finished True, Finished True]\<rparr>"
    by (rule run_events_steps) code_simp
  from requests_terminate [OF this, of 1] show ?thesis by simp
qed

theorem all_requests_served_witness:
  "\<exists>t. steps (conn_step 1) new_pool two_requests t \<and> (\<forall>ph \<in> set (reqs t). ph = Finished True)"
proof -
  let ?t = "\<lparr>idle = [0], numConns = 1, dials = 1, reqs = [Finished True, Finished True]\<rparr>"
  have "conn_exec 1 ?t l = None" if "l \<noteq> New" "\<not> failure l" for l
    using that by (cases l) (auto simp: at_phase_def nth_Cons' failure_def split: if_splits)
  moreover have "list_all (\<lambda>l. \<not> failure l) two_requests" by code_simp
  ultimately have "\<forall>ph \<in> set (reqs ?t). ph = Finished True"
    using all_requests_served [OF two_requests_run] by simp
  with two_requests_run show ?thesis by blast
qed

text \<open>The first request loses its connection and cannot dial again; the second waits.\<close>

definition losing :: "conn_event list" where
  "losing = [New, New, TryIdle 0, Reserve 0, TryIdle 1, Reserve 1, DialOk 0, ReplyErr 0, TryIdle 0, Reserve 0]"

theorem lost_wakeup_witness:
  "\<exists>t. steps (conn_step 1) new_pool (losing @ [DialFail 0]) t \<and> at_phase t 1 = Some (Waiting 1)
     \<and> numConns t = 0 \<and> (\<forall>l. conn_exec 1 t l \<noteq> None \<longrightarrow> l = New \<or> (\<exists>j. l = Cancel j))"
proof -
  let ?s = "\<lparr>idle = [], numConns = 1, dials = 1, reqs = [Dialing 2, Waiting 1]\<rparr>"
  let ?t = "\<lparr>idle = [], numConns = 0, dials = 1, reqs = [Finished False, Waiting 1]\<rparr>"
  have "steps (conn_step 1) new_pool (losing @ [DialFail 0]) ?t" by (rule run_events_steps) code_simp
  moreover have "conns_ok 1 ?s" "excess ?s = 0" "at_phase ?s 0 = Some (Dialing 2)" "conn_exec 1 ?s (DialFail 0) = Some ?t"
    by (simp_all add: conns_ok_def excess_def busy_def at_phase_def dial_fails_def set_phase_def)
  then have "numConns ?t = 0 \<and> (\<forall>l. conn_exec 1 ?t l \<noteq> None \<longrightarrow> l = New \<or> (\<exists>j. l = Cancel j))"
    by (intro lost_wakeup [of 1 ?s 0 2]) (auto simp: less_Suc_eq)
  ultimately show ?thesis by (auto simp: at_phase_def simp del: conn_exec.simps)
qed

end
