(* ===== verification/Bootstrap.thy ===== *)
theory Bootstrap
  imports Http
begin

text \<open>
  \<open>bootstrap/manager.go\<close>: the token gate in front of the setup wizard. The manager's state is
  shared by concurrent requests; each of its methods runs under the mutex, and \<open>Middleware\<close> calls
  several of them, so requests interleave between the calls.
\<close>

section \<open>State and methods\<close>

definition failuresBeforeIPBlock :: int where "failuresBeforeIPBlock = 5"
definition ipBlockDuration :: int where "ipBlockDuration = 3600000000000"
definition failuresBeforeGlobalPause :: int where "failuresBeforeGlobalPause = 10"

text \<open>A zero \<open>time.Time\<close> is \<open>None\<close>: no instant is before it.\<close>

record attemptState =
  At_failures :: nat
  At_nextAllowed :: "int option"
  At_blockedUntil :: "int option"

record Manager =
  Mg_token :: string
  Mg_completed :: bool
  Mg_paused :: bool
  Mg_globalFailures :: int
  Mg_attempts :: "string \<rightharpoonup> attemptState"

definition new_manager :: "string \<Rightarrow> Manager" where
  "new_manager token = \<lparr>Mg_token = token, Mg_completed = False, Mg_paused = False, Mg_globalFailures = 0,
     Mg_attempts = Map.empty\<rparr>"

definition Complete :: "Manager \<Rightarrow> Manager" where
  "Complete m = m\<lparr>Mg_completed := True\<rparr>"

definition Completed :: "Manager \<Rightarrow> bool" where
  "Completed m = Mg_completed m"

definition validate :: "string \<Rightarrow> Manager \<Rightarrow> bool" where
  "validate supplied m \<longleftrightarrow> supplied = Mg_token m"

definition blockedFor :: "int \<Rightarrow> string \<Rightarrow> Manager \<Rightarrow> int" where
  "blockedFor t ip m =
     (case Mg_attempts m ip of
        None \<Rightarrow> 0
      | Some st \<Rightarrow>
          (case At_blockedUntil st of
             Some b \<Rightarrow> if t < b then b - t
               else (case At_nextAllowed st of Some n \<Rightarrow> if t < n then n - t else 0 | None \<Rightarrow> 0)
           | None \<Rightarrow> (case At_nextAllowed st of Some n \<Rightarrow> if t < n then n - t else 0 | None \<Rightarrow> 0)))"

text \<open>\<open>time.Duration(1<<uint(n-1)) * time.Second\<close> on 64-bit signed integers.\<close>

definition backoff :: "nat \<Rightarrow> 64 word" where
  "backoff failures = push_bit (failures - 1) 1 * 1000000000"

definition recordFailure :: "int \<Rightarrow> string \<Rightarrow> Manager \<Rightarrow> (int \<times> bool) \<times> Manager" where
  "recordFailure t ip m =
     (let st = (case Mg_attempts m ip of
                  None \<Rightarrow> \<lparr>At_failures = 0, At_nextAllowed = None, At_blockedUntil = None\<rparr>
                | Some st \<Rightarrow> st);
          failures = Suc (At_failures st);
          globalFailures = Mg_globalFailures m + 1;
          wait = sint (backoff failures);
          blocked = (int failures \<ge> failuresBeforeIPBlock);
          st' = st\<lparr>At_failures := failures, At_nextAllowed := Some (t + wait),
                   At_blockedUntil := (if blocked then Some (t + ipBlockDuration) else At_blockedUntil st)\<rparr>
      in ((wait, blocked),
          m\<lparr>Mg_globalFailures := globalFailures, Mg_attempts := (Mg_attempts m)(ip \<mapsto> st'),
            Mg_paused := (Mg_paused m \<or> globalFailures \<ge> failuresBeforeGlobalPause)\<rparr>))"

definition recordSuccess :: "string \<Rightarrow> Manager \<Rightarrow> Manager" where
  "recordSuccess ip m = m\<lparr>Mg_attempts := (Mg_attempts m)(ip := None)\<rparr>"

text \<open>The package's own \<open>clientIP\<close>, which takes the peer's host when nothing else applies.\<close>

definition bootstrap_clientIP :: "Request \<Rightarrow> string" where
  "bootstrap_clientIP r =
     (let host = peer_host r; xff = R_XFF r in
      if xff \<noteq> [] \<and> isTrustedProxyPeer host
      then (case index_of xff '','' of Some i \<Rightarrow> trim_space (take i xff) | None \<Rightarrow> trim_space xff)
      else host)"

section \<open>The middleware\<close>

text \<open>
  The status a refused request gets, with the seconds of \<open>Retry-After\<close>, or \<open>Forward\<close>: the wizard's
  handler runs. The three parts of \<open>Middleware\<close> are the sections between which others may run.
\<close>

datatype verdict = NotFound | Unavailable | TooMany int | Unauthorized int | Forward

definition closed :: "Manager \<Rightarrow> verdict option" where
  "closed m = (if Mg_completed m then Some NotFound else if Mg_paused m then Some Unavailable else None)"

definition throttled :: "int \<Rightarrow> string \<Rightarrow> Manager \<Rightarrow> verdict option" where
  "throttled t ip m =
     (let wait = blockedFor t ip m in if wait > 0 then Some (TooMany (wait div 1000000000)) else None)"

definition verdict_of :: "int \<Rightarrow> string \<Rightarrow> string \<Rightarrow> Manager \<Rightarrow> verdict \<times> Manager" where
  "verdict_of t ip supplied m =
     (if supplied \<noteq> [] \<and> validate supplied m then (Forward, recordSuccess ip m)
      else (let ((retryAfter, blocked), m') = recordFailure t ip m in
            (if blocked then TooMany (ipBlockDuration div 1000000000)
             else Unauthorized (retryAfter div 1000000000), m')))"

definition Middleware :: "int \<Rightarrow> Request \<Rightarrow> string \<Rightarrow> Manager \<Rightarrow> verdict \<times> Manager" where
  "Middleware t r supplied m =
     (case closed m of
        Some v \<Rightarrow> (v, m)
      | None \<Rightarrow>
          (case throttled t (bootstrap_clientIP r) m of
             Some v \<Rightarrow> (v, m)
           | None \<Rightarrow> verdict_of t (bootstrap_clientIP r) supplied m))"

section \<open>Concurrent requests\<close>

text \<open>
  A request that has passed the first check is in flight: it has its address, and its token is still
  to be looked at. At most \<open>n\<close> are in flight at a time.
\<close>

record gate =
  mgr :: Manager
  inflight :: "(string \<times> string) list"
  forwarded :: nat

datatype gate_event = Arrive string string | Throttle nat int | Judge nat int | Done_setup

inductive gate_step :: "nat \<Rightarrow> gate \<Rightarrow> gate_event \<Rightarrow> gate \<Rightarrow> bool" for n where
  arrive: "closed (mgr g) = None \<Longrightarrow> length (inflight g) < n \<Longrightarrow>
    gate_step n g (Arrive ip tok) (g\<lparr>inflight := inflight g @ [(ip, tok)]\<rparr>)"
| refuse: "closed (mgr g) \<noteq> None \<Longrightarrow> gate_step n g (Arrive ip tok) g"
| throttle: "i < length (inflight g) \<Longrightarrow> throttled t (fst (inflight g ! i)) (mgr g) \<noteq> None \<Longrightarrow>
    gate_step n g (Throttle i t) (g\<lparr>inflight := take i (inflight g) @ drop (Suc i) (inflight g)\<rparr>)"
| judge: "i < length (inflight g) \<Longrightarrow>
    verdict_of t (fst (inflight g ! i)) (snd (inflight g ! i)) (mgr g) = (v, m) \<Longrightarrow>
    gate_step n g (Judge i t) (g\<lparr>mgr := m, inflight := take i (inflight g) @ drop (Suc i) (inflight g),
      forwarded := (if v = Forward then Suc (forwarded g) else forwarded g)\<rparr>)"
| complete: "gate_step n g Done_setup (g\<lparr>mgr := Complete (mgr g)\<rparr>)"

inductive_cases gate_stepE: "gate_step n g e h"

definition open_gate :: "string \<Rightarrow> gate \<Rightarrow> bool" where
  "open_gate token g \<longleftrightarrow> g = \<lparr>mgr = new_manager token, inflight = [], forwarded = 0\<rparr>"

text \<open>The accounting of wrong tokens.\<close>

definition gate_ok :: "nat \<Rightarrow> gate \<Rightarrow> bool" where
  "gate_ok n g \<longleftrightarrow>
     length (inflight g) \<le> n \<and> 0 \<le> Mg_globalFailures (mgr g)
     \<and> (if Mg_paused (mgr g) then Mg_globalFailures (mgr g) + int (length (inflight g)) \<le> 9 + int n
        else Mg_globalFailures (mgr g) \<le> 9)
     \<and> (\<forall>ip st. Mg_attempts (mgr g) ip = Some st \<longrightarrow> int (At_failures st) \<le> Mg_globalFailures (mgr g))"

lemma recordFailure_facts:
  assumes "recordFailure t ip m = (x, m')"
  shows "Mg_globalFailures m' = Mg_globalFailures m + 1"
    "Mg_paused m' = (Mg_paused m \<or> Mg_globalFailures m + 1 \<ge> 10)"
    "Mg_completed m' = Mg_completed m" "Mg_token m' = Mg_token m"
    "\<And>k. k \<noteq> ip \<Longrightarrow> Mg_attempts m' k = Mg_attempts m k"
    "\<exists>st. Mg_attempts m' ip = Some st
       \<and> At_failures st = Suc (case Mg_attempts m ip of None \<Rightarrow> 0 | Some s \<Rightarrow> At_failures s)"
  using assms by (auto simp: recordFailure_def Let_def failuresBeforeGlobalPause_def split: option.splits)

lemma verdict_cases:
  assumes "verdict_of t ip supplied m = (v, m')"
  obtains (forward) "v = Forward" "supplied = Mg_token m" "supplied \<noteq> []" "m' = recordSuccess ip m"
  | (failed) x where "v \<noteq> Forward" "recordFailure t ip m = (x, m')"
  using assms by (auto simp: verdict_of_def validate_def split: if_splits prod.splits)

lemma gate_ok_step:
  assumes ok: "gate_ok n g" and "gate_step n g e h"
  shows "gate_ok n h"
  using assms(2)
proof (cases rule: gate_step.cases)
  case (judge i t v m)
  have len: "length (take i (inflight g) @ drop (Suc i) (inflight g)) = length (inflight g) - 1"
    using judge(3) by simp
  from judge(4) show ?thesis
  proof (cases rule: verdict_cases)
    case forward
    then show ?thesis using ok judge(2,3) len by (auto simp: gate_ok_def recordSuccess_def split: if_splits)
  next
    case (failed x)
    note f = recordFailure_facts [OF failed(2)]
    have "int (At_failures st) \<le> Mg_globalFailures m" if "Mg_attempts m k = Some st" for k st
      using that f(1,5,6) ok
      by (cases "k = fst (inflight g ! i)") (fastforce simp: gate_ok_def split: option.splits)+
    then show ?thesis
      using ok judge(2,3) len f(1,2) by (auto simp: gate_ok_def split: if_splits)
  qed
qed (use ok in \<open>auto simp: gate_ok_def closed_def Complete_def split: if_splits\<close>)

interpretation gates: step_system "open_gate token" "gate_step n" "gate_ok n" for token n
proof unfold_locales
  show "gate_ok n g" if "open_gate token g" for g
    using that by (simp add: open_gate_def new_manager_def gate_ok_def)
qed (rule gate_ok_step)

lemma backoff_exact:
  assumes "f \<le> 33"
  shows "sint (backoff (Suc f)) = 2 ^ f * 1000000000"
proof -
  have "(2 :: int) ^ f \<le> 2 ^ 33" using assms by (intro power_increasing) auto
  then have "(2 :: int) ^ f * 1000000000 < 2 ^ 63" by simp
  then have "(2 ^ f * 1000000000 + 2 ^ 63) mod (2 :: int) ^ 64 - 2 ^ 63 = 2 ^ f * 1000000000"
    by (subst mod_pos_pos_trivial) simp_all
  moreover have eq: "backoff (Suc f) = word_of_int (2 ^ f * 1000000000)"
    by (simp add: backoff_def push_bit_eq_mult)
  ultimately show ?thesis
    unfolding eq int_word_sint by simp
qed


text \<open>
  Without the token nothing gets through, and nothing reopens a completed gate. If no request in
  flight or arriving carries the token, none is forwarded; and from the completion on no request
  enters, so at most those that were in flight then are forwarded.
\<close>

definition carries :: "string \<Rightarrow> gate_event \<Rightarrow> bool" where
  "carries token e \<longleftrightarrow> (case e of Arrive ip tok \<Rightarrow> tok = token | _ \<Rightarrow> False)"

lemma gate_step_facts:
  assumes "gate_step n g e h"
  shows "Mg_token (mgr h) = Mg_token (mgr g)"
    and "Mg_completed (mgr g) \<Longrightarrow> Mg_completed (mgr h)
      \<and> forwarded h + length (inflight h) \<le> forwarded g + length (inflight g)"
    and "Mg_token (mgr g) \<notin> snd ` set (inflight g) \<Longrightarrow> \<not> carries (Mg_token (mgr g)) e \<Longrightarrow>
      forwarded h = forwarded g \<and> Mg_token (mgr g) \<notin> snd ` set (inflight h)"
  using assms
proof (atomize (full), cases rule: gate_step.cases)
  case (judge i t v m)
  have sub: "set (take i (inflight g) @ drop (Suc i) (inflight g)) \<subseteq> set (inflight g)"
    using set_take_subset set_drop_subset by fastforce
  have mem: "snd (inflight g ! i) \<in> snd ` set (inflight g)" using judge(3) by simp
  from judge(4) show "Mg_token (mgr h) = Mg_token (mgr g)
     \<and> (Mg_completed (mgr g) \<longrightarrow> Mg_completed (mgr h)
        \<and> forwarded h + length (inflight h) \<le> forwarded g + length (inflight g))
     \<and> (Mg_token (mgr g) \<notin> snd ` set (inflight g) \<longrightarrow> \<not> carries (Mg_token (mgr g)) e \<longrightarrow>
        forwarded h = forwarded g \<and> Mg_token (mgr g) \<notin> snd ` set (inflight h))"
  proof (cases rule: verdict_cases)
    case forward
    then show ?thesis using judge(1-3) sub mem by (auto simp: recordSuccess_def)
  next
    case (failed x)
    then show ?thesis using judge(1-3) sub recordFailure_facts(3,4) [OF failed(2)] by auto
  qed
qed (auto simp: closed_def Complete_def carries_def dest!: in_set_takeD in_set_dropD split: if_splits)

theorem gate_stays_closed:
  assumes "steps (gate_step n) g es h"
  shows "(Mg_token (mgr g) \<notin> snd ` set (inflight g) \<longrightarrow> list_all (\<lambda>e. \<not> carries (Mg_token (mgr g)) e) es
      \<longrightarrow> forwarded h = forwarded g)
    \<and> (Mg_completed (mgr g) \<longrightarrow> Mg_completed (mgr h)
      \<and> forwarded h + length (inflight h) \<le> forwarded g + length (inflight g))"
  using assms
proof (induction rule: steps.induct)
  case (steps_step s l t ls u)
  then show ?case using gate_step_facts [OF steps_step(1)] by force
qed simp

text \<open>
  The fifth failure of an address, and every later one, shuts it out for an hour: until then the
  gate refuses it without looking at its token, even the right one.
\<close>

theorem address_blocked_for_an_hour:
  assumes "recordFailure t ip m = ((wait, blocked), m')"
    and "Mg_attempts m ip = Some st" and "At_failures st \<ge> 4"
    and "bootstrap_clientIP r = ip" and "t \<le> u" and "u < t + ipBlockDuration"
  shows "blocked \<and> fst (Middleware u r supplied m') \<noteq> Forward \<and> snd (Middleware u r supplied m') = m'"
  using assms
  by (auto simp: recordFailure_def Let_def Middleware_def throttled_def blockedFor_def failuresBeforeIPBlock_def
      closed_def)

section \<open>The token\<close>

definition base58Alphabet :: string where
  "base58Alphabet = ''123456789ABCDEFGHJKLMNPQRSTUVWXYZabcdefghijkmnopqrstuvwxyz''"

text \<open>\<open>base58Encode\<close>: the digits of the number, least significant first, then reversed.\<close>

definition bytes_val :: "string \<Rightarrow> nat" where
  "bytes_val s = foldl (\<lambda>n c. 256 * n + byte c) 0 s"

fun b58_digits :: "nat \<Rightarrow> string" where
  "b58_digits n = (if n = 0 then [] else base58Alphabet ! (n mod 58) # b58_digits (n div 58))"

declare b58_digits.simps [simp del]

definition base58Encode :: "string \<Rightarrow> string" where
  "base58Encode input =
     replicate (length (takeWhile (\<lambda>c. byte c = 0) input)) CHR ''1'' @ rev (b58_digits (bytes_val input))"

definition generateToken :: "string res io" where
  "generateToken = do { buf \<leftarrow> read_random 32; ok (''mlab_'' @ base58Encode buf) }"

text \<open>Reading it back.\<close>

definition b58_index :: "char \<Rightarrow> nat" where
  "b58_index c = length (takeWhile (\<lambda>d. d \<noteq> c) base58Alphabet)"

definition b58_val :: "string \<Rightarrow> nat" where
  "b58_val s = foldl (\<lambda>n c. 58 * n + b58_index c) 0 s"

fun bytes_of :: "nat \<Rightarrow> nat \<Rightarrow> string" where
  "bytes_of 0 n = []"
| "bytes_of (Suc k) n = bytes_of k (n div 256) @ [char_of (n mod 256)]"

lemma b58_index_nth: "i < 58 \<Longrightarrow> b58_index (base58Alphabet ! i) = i"
proof -
  have "list_all (\<lambda>i. b58_index (base58Alphabet ! i) = i) [0..<58]" by code_simp
  then show "i < 58 \<Longrightarrow> ?thesis" by (simp add: list_all_iff)
qed

lemma b58_val_digits: "foldl (\<lambda>n c. 58 * n + b58_index c) 0 (rev (b58_digits n)) = n"
proof (induction n rule: b58_digits.induct)
  case (1 n)
  then show ?case by (subst b58_digits.simps) (simp add: b58_index_nth)
qed

lemma b58_val_zeros: "foldl (\<lambda>n c. 58 * n + b58_index c) 0 (replicate k CHR ''1'') = 0"
proof -
  have "b58_index CHR ''1'' = 0" by code_simp
  then show ?thesis by (induction k) simp_all
qed

lemma bytes_of_val: "bytes_of (length s) (bytes_val s) = s"
proof (induction s rule: rev_induct)
  case (snoc c s)
  have "byte c < 256" "char_of (byte c) = c" by (simp_all add: byte_def)
  then have "bytes_val (s @ [c]) div 256 = bytes_val s" "bytes_val (s @ [c]) mod 256 = byte c"
    by (simp_all add: bytes_val_def)
  then show ?case using snoc by (simp add: byte_def)
qed simp

text \<open>
  The token says everything that was drawn: its 32 random bytes are read back from it, so two
  draws give the same token only if they are equal.
\<close>

theorem token_round_trip:
  "bytes_of (length buf) (b58_val (base58Encode buf)) = buf"
  by (simp add: b58_val_def base58Encode_def b58_val_zeros b58_val_digits bytes_of_val)

section \<open>The properties at concrete runs\<close>

text \<open>One wrong token from one address, with two requests allowed in flight.\<close>

definition first_gate :: gate where
  "first_gate = \<lparr>mgr = new_manager ''mlab_x'', inflight = [], forwarded = 0\<rparr>"

lemma one_wrong_token:
  obtains h where "steps (gate_step 2) first_gate [Arrive ''a'' ''y'', Judge 0 0] h" "Mg_globalFailures (mgr h) = 1"
proof -
  let ?g = "first_gate\<lparr>inflight := inflight first_gate @ [(''a'', ''y'')]\<rparr>"
  have a: "gate_step 2 first_gate (Arrive ''a'' ''y'') ?g"
    by (rule arrive) (simp_all add: first_gate_def new_manager_def closed_def)
  obtain v m where vm: "verdict_of 0 (fst (inflight ?g ! 0)) (snd (inflight ?g ! 0)) (mgr ?g) = (v, m)" by fastforce
  then have "Mg_globalFailures m = 1"
    by (auto simp: verdict_of_def validate_def recordFailure_def first_gate_def new_manager_def Let_def)
  moreover have "gate_step 2 ?g (Judge 0 0) (?g\<lparr>mgr := m, inflight := take 0 (inflight ?g) @ drop (Suc 0) (inflight ?g),
      forwarded := (if v = Forward then Suc (forwarded ?g) else forwarded ?g)\<rparr>)"
    using vm by (intro judge) simp_all
  ultimately show ?thesis using a by (intro that [of "?g\<lparr>mgr := m, inflight := take 0 (inflight ?g) @ drop (Suc 0) (inflight ?g),
      forwarded := (if v = Forward then Suc (forwarded ?g) else forwarded ?g)\<rparr>"]) auto
qed


theorem gate_stays_closed_witness:
  "\<exists>h. steps (gate_step 2) first_gate [Arrive ''a'' ''y'', Judge 0 0] h \<and> forwarded h = 0"
proof -
  obtain h where h: "steps (gate_step 2) first_gate [Arrive ''a'' ''y'', Judge 0 0] h"
    by (rule one_wrong_token)
  with gate_stays_closed [OF h] show ?thesis
    by (auto simp: first_gate_def new_manager_def carries_def)
qed

theorem address_blocked_for_an_hour_witness:
  "\<exists>m. fst (Middleware 5 \<lparr>R_Method = [], R_Path = [], R_Cookie = [], R_Authorization = [], R_Origin = [],
     R_CSRFHeader = [], R_UserAgent = [], R_CFCountry = [], R_XFF = [], R_RemoteAddr = ''192.0.2.1:5'',
     R_Query = [], R_PathID = [], R_Context = None\<rparr> ''mlab_x'' m) \<noteq> Forward \<and> Mg_token m = ''mlab_x''"
proof -
  let ?r = "\<lparr>R_Method = [], R_Path = [], R_Cookie = [], R_Authorization = [], R_Origin = [],
     R_CSRFHeader = [], R_UserAgent = [], R_CFCountry = [], R_XFF = [], R_RemoteAddr = ''192.0.2.1:5'',
     R_Query = [], R_PathID = [], R_Context = None\<rparr>"
  let ?m = "(new_manager ''mlab_x'')\<lparr>Mg_attempts := [''192.0.2.1'' \<mapsto>
      \<lparr>At_failures = 4, At_nextAllowed = None, At_blockedUntil = None\<rparr>]\<rparr>"
  obtain wait blocked m' where f: "recordFailure 0 ''192.0.2.1'' ?m = ((wait, blocked), m')"
    by (metis prod.exhaust)
  have "bootstrap_clientIP ?r = ''192.0.2.1''" by code_simp
  then have "fst (Middleware 5 ?r ''mlab_x'' m') \<noteq> Forward"
    using address_blocked_for_an_hour [OF f, of _ ?r 5] by (simp add: ipBlockDuration_def)
  moreover have "Mg_token m' = ''mlab_x''" using recordFailure_facts(4) [OF f] by (simp add: new_manager_def)
  ultimately show ?thesis by blast
qed

end
