(* ===== verification/SetupHandlers.thy ===== *)
theory SetupHandlers
  imports Bootstrap Setup "HOL-Library.Multiset"
begin

text \<open>
  The handlers of package \<open>setup\<close>: the steps of the wizard (\<open>oidc.go\<close>, \<open>groupprefix.go\<close>,
  \<open>complete.go\<close>, \<open>wizard.go\<close>) and the settings an administrator configures afterwards (\<open>smtp.go\<close>,
  \<open>geoip.go\<close>, \<open>timezone.go\<close>). A request body is the record it decodes to, or \<open>None\<close>.
\<close>

section \<open>Status and initialisation\<close>

definition StatusHandler :: "Request \<Rightarrow> Response" where
  "StatusHandler r = answer None 200 (Flag True)"

definition InitHandler :: "Request \<Rightarrow> Response" where
  "InitHandler r = answer None 200 (Flag True)"

definition method_not_allowed :: Response where
  "method_not_allowed = reject None 405 ''method not allowed''"

section \<open>OIDC\<close>

record OIDCConfigRequest =
  OR_IssuerURL :: string
  OR_ClientID :: string
  OR_ClientSecret :: string

definition OIDCStatusHandler :: "Deps \<Rightarrow> string \<Rightarrow> Request \<Rightarrow> Response io" where
  "OIDCStatusHandler d masterKey r =
     or_internal None (GetSetting oidcIssuerSettingKey) (\<lambda>encIssuer.
       case encIssuer of
         None \<Rightarrow> State_Monad.return (answer None 200 (OIDC None))
       | Some ei \<Rightarrow>
           or_reject None 500 ''decrypt oidc_issuer_url'' (decrypt_io d masterKey ei) (\<lambda>issuer.
           or_internal None (GetSetting oidcClientIDSettingKey) (\<lambda>encClientID.
           or_reject None 500 ''decrypt oidc_client_id'' (decrypt_io d masterKey (coalesce encClientID [])) (\<lambda>clientID.
           State_Monad.return (answer None 200 (OIDC (Some (issuer, clientID)))))))) "

text \<open>From the accepted request on: encrypt all three, then write them one by one.\<close>

definition save_oidc :: "Deps \<Rightarrow> string \<Rightarrow> string \<Rightarrow> string \<Rightarrow> string \<Rightarrow> unit res io" where
  "save_oidc d masterKey issuer clientID secret =
     try_bind (encrypt_io d masterKey issuer) (\<lambda>encIssuer.
     try_bind (encrypt_io d masterKey clientID) (\<lambda>encClientID.
     try_bind (encrypt_io d masterKey secret) (\<lambda>encryptedSecret.
     try_bind (SetSetting oidcIssuerSettingKey encIssuer) (\<lambda>_.
     try_bind (SetSetting oidcClientIDSettingKey encClientID) (\<lambda>_.
     SetSetting oidcClientSecretSettingKey encryptedSecret)))))"

definition OIDCConfigureHandler :: "Deps \<Rightarrow> string \<Rightarrow> Request \<Rightarrow> OIDCConfigRequest option \<Rightarrow> Response io" where
  "OIDCConfigureHandler d masterKey r body =
     (if R_Method r \<noteq> ''POST'' then State_Monad.return method_not_allowed
      else case body of
        None \<Rightarrow> State_Monad.return (reject None 400 ''invalid request body'')
      | Some req \<Rightarrow>
          let issuer = trim_space (OR_IssuerURL req); client = trim_space (OR_ClientID req);
              secret = OR_ClientSecret req in
          if issuer = [] \<or> client = [] \<or> secret = [] then
            State_Monad.return (reject None 400 ''issuer_url, client_id, and client_secret are all required'')
          else if \<not> has_prefix issuer ''https://'' \<and> \<not> has_prefix issuer ''http://'' then
            State_Monad.return (reject None 400 ''issuer_url must be an absolute http(s) URL'')
          else or_internal None (save_oidc d masterKey issuer client secret) (\<lambda>_. do {
            _ \<leftarrow> Log d masterKey (log_params ''setup.oidc_configured'' [] [] [] []
                  (json_obj [(''issuer_url'', d_quote d issuer), (''client_id'', d_quote d client)]));
            State_Monad.return (answer None 200 (OIDC (Some (issuer, client)))) }))"

section \<open>Group prefix\<close>

definition GroupPrefixStatusHandler :: "Request \<Rightarrow> Response io" where
  "GroupPrefixStatusHandler r =
     or_internal None (GetSetting groupPrefixSettingKey) (\<lambda>v.
       State_Monad.return (answer None 200 (GroupPrefix v)))"

definition GroupPrefixConfigureHandler :: "Deps \<Rightarrow> string \<Rightarrow> Request \<Rightarrow> string option \<Rightarrow> Response io" where
  "GroupPrefixConfigureHandler d masterKey r body =
     (if R_Method r \<noteq> ''POST'' then State_Monad.return method_not_allowed
      else case body of
        None \<Rightarrow> State_Monad.return (reject None 400 ''invalid request body'')
      | Some raw \<Rightarrow>
          let pre = trim_space raw in
          if pre = [] then State_Monad.return (reject None 400 ''prefix must not be empty'')
          else if \<not> validGroupPrefix pre then
            State_Monad.return (reject None 400 ''prefix may only contain letters, digits, underscores, and hyphens'')
          else or_internal None (SetSetting groupPrefixSettingKey pre) (\<lambda>_. do {
            _ \<leftarrow> Log d masterKey (log_params ''setup.group_prefix_configured'' [] [] [] []
                  (json_obj [(''prefix'', d_quote d pre)]));
            State_Monad.return (answer None 200 (GroupPrefix (Some pre))) }))"

section \<open>Completion\<close>

text \<open>The answer, and the manager afterwards.\<close>

definition CompleteHandler :: "Deps \<Rightarrow> Request \<Rightarrow> Manager \<Rightarrow> (Response \<times> Manager) io" where
  "CompleteHandler d r m =
     (if R_Method r \<noteq> ''POST'' then State_Monad.return (method_not_allowed, m)
      else do {
        missing \<leftarrow> missingSteps;
        (case missing of
           Inl _ \<Rightarrow> State_Monad.return (internal None, m)
         | Inr ms \<Rightarrow>
             if ms \<noteq> [] then State_Monad.return (answer None 412 (body.Completed False ms), m)
             else do {
               logAudit d (log_params ''setup.completed'' ''bootstrap'' [] [] [] []);
               State_Monad.return (answer None 200 (body.Completed True []), Complete m) }) })"

section \<open>SMTP\<close>

definition smtpHostSettingKey :: string where "smtpHostSettingKey = ''smtp_host''"
definition smtpPortSettingKey :: string where "smtpPortSettingKey = ''smtp_port''"
definition smtpUsernameSettingKey :: string where "smtpUsernameSettingKey = ''smtp_username''"
definition smtpPasswordSettingKey :: string where "smtpPasswordSettingKey = ''smtp_password_enc''"
definition smtpFromAddressSettingKey :: string where "smtpFromAddressSettingKey = ''smtp_from_address''"
definition smtpEncryptionSettingKey :: string where "smtpEncryptionSettingKey = ''smtp_encryption''"
definition smtpUseTLSSettingKeyLegacy :: string where "smtpUseTLSSettingKeyLegacy = ''smtp_use_tls''"

lemmas smtp_keys = smtpHostSettingKey_def smtpPortSettingKey_def smtpUsernameSettingKey_def smtpPasswordSettingKey_def
  smtpFromAddressSettingKey_def smtpEncryptionSettingKey_def smtpUseTLSSettingKeyLegacy_def

definition SMTPEncryptionNone :: string where "SMTPEncryptionNone = ''none''"
definition SMTPEncryptionSTARTTLS :: string where "SMTPEncryptionSTARTTLS = ''starttls''"
definition SMTPEncryptionTLS :: string where "SMTPEncryptionTLS = ''tls''"

record SMTPRuntimeConfig =
  SM_Host :: string
  SM_Port :: int
  SM_Username :: string
  SM_Password :: string
  SM_FromAddress :: string
  SM_Encryption :: string

definition SMTPConfigured :: "bool res io" where
  "SMTPConfigured = try_bind (GetSetting smtpHostSettingKey) (\<lambda>v. ok (v \<noteq> None))"

definition resolveSMTPEncryption :: "string res io" where
  "resolveSMTPEncryption =
     try_bind (GetSetting smtpEncryptionSettingKey) (\<lambda>e.
       if coalesce e [] \<noteq> [] then ok (coalesce e [])
       else try_bind (GetSetting smtpUseTLSSettingKeyLegacy) (\<lambda>legacy.
         ok (if coalesce legacy [] = ''true'' then SMTPEncryptionSTARTTLS else SMTPEncryptionNone)))"

definition ResolveSMTPConfig :: "Deps \<Rightarrow> string \<Rightarrow> SMTPRuntimeConfig res io" where
  "ResolveSMTPConfig d masterKey =
     try_bind (GetSetting smtpHostSettingKey) (\<lambda>encHost.
       case encHost of
         None \<Rightarrow> fail (ErrInvalid ''smtp has not been configured yet'')
       | Some eh \<Rightarrow>
           try_bind (decrypt_if_io d masterKey eh) (\<lambda>host.
           try_bind (GetSetting smtpPortSettingKey) (\<lambda>portStr.
           case atoi (coalesce portStr []) of
             None \<Rightarrow> fail (ErrInvalid ''stored smtp port is not a number'')
           | Some port \<Rightarrow>
               try_bind (GetSetting smtpUsernameSettingKey) (\<lambda>encUsername.
               try_bind (decrypt_if_io d masterKey (coalesce encUsername [])) (\<lambda>username.
               try_bind (GetSetting smtpFromAddressSettingKey) (\<lambda>encFromAddress.
               try_bind (decrypt_if_io d masterKey (coalesce encFromAddress [])) (\<lambda>fromAddress.
               try_bind resolveSMTPEncryption (\<lambda>encryption.
               try_bind (GetSetting smtpPasswordSettingKey) (\<lambda>encryptedPassword.
               try_bind (if coalesce encryptedPassword [] \<noteq> []
                         then decrypt_io d masterKey (coalesce encryptedPassword []) else ok []) (\<lambda>password.
               ok \<lparr>SM_Host = host, SM_Port = port, SM_Username = username, SM_Password = password,
                   SM_FromAddress = fromAddress, SM_Encryption = encryption\<rparr>))))))))))"

definition SMTPStatusHandler :: "Deps \<Rightarrow> string \<Rightarrow> Request \<Rightarrow> Response io" where
  "SMTPStatusHandler d masterKey r =
     or_internal None (GetSetting smtpHostSettingKey) (\<lambda>encHost.
       case encHost of
         None \<Rightarrow> State_Monad.return (answer None 200 (SMTP None))
       | Some eh \<Rightarrow>
           or_reject None 500 ''decrypt smtp_host'' (decrypt_if_io d masterKey eh) (\<lambda>host.
           or_internal None (GetSetting smtpPortSettingKey) (\<lambda>portStr.
           or_internal None (GetSetting smtpUsernameSettingKey) (\<lambda>encUsername.
           or_reject None 500 ''decrypt smtp_username'' (decrypt_if_io d masterKey (coalesce encUsername [])) (\<lambda>username.
           or_internal None (GetSetting smtpFromAddressSettingKey) (\<lambda>encFromAddress.
           or_reject None 500 ''decrypt smtp_from_address'' (decrypt_if_io d masterKey (coalesce encFromAddress [])) (\<lambda>fromAddress.
           or_internal None resolveSMTPEncryption (\<lambda>encryption.
           State_Monad.return (answer None 200 (SMTP (Some
             (host, case atoi (coalesce portStr []) of Some p \<Rightarrow> p | None \<Rightarrow> 0, username, fromAddress, encryption))))))))))))"

text \<open>The request after its fields are trimmed and the encryption has its default; the test of it.\<close>

definition smtp_trimmed :: "SMTPRuntimeConfig \<Rightarrow> SMTPRuntimeConfig" where
  "smtp_trimmed q = q\<lparr>SM_Host := trim_space (SM_Host q), SM_Username := trim_space (SM_Username q),
     SM_FromAddress := trim_space (SM_FromAddress q),
     SM_Encryption := (if trim_space (SM_Encryption q) = [] then SMTPEncryptionSTARTTLS
                       else trim_space (SM_Encryption q))\<rparr>"

definition smtp_encryption_ok :: "SMTPRuntimeConfig \<Rightarrow> bool" where
  "smtp_encryption_ok q \<longleftrightarrow> SM_Encryption q \<in> {SMTPEncryptionNone, SMTPEncryptionSTARTTLS, SMTPEncryptionTLS}"

fun set_settings :: "(string \<times> string) list \<Rightarrow> unit res io" where
  "set_settings [] = ok ()"
| "set_settings ((k, v) # kvs) = try_bind (SetSetting k v) (\<lambda>_. set_settings kvs)"

fun delete_settings :: "string list \<Rightarrow> unit res io" where
  "delete_settings [] = ok ()"
| "delete_settings (k # ks) = try_bind (DeleteSetting k) (\<lambda>_. delete_settings ks)"

text \<open>
  The settings of an accepted request; they are written in the order in which Go ranges over the
  map: any order, so it is a parameter.
\<close>

definition smtp_settings :: "Deps \<Rightarrow> string \<Rightarrow> SMTPRuntimeConfig \<Rightarrow> (string \<times> string) list res io" where
  "smtp_settings d masterKey q =
     try_bind (encrypt_io d masterKey (SM_Host q)) (\<lambda>encHost.
     try_bind (encrypt_if_io d masterKey (SM_Username q)) (\<lambda>encUsername.
     try_bind (encrypt_io d masterKey (SM_FromAddress q)) (\<lambda>encFromAddress.
     let kvs = [(smtpHostSettingKey, encHost), (smtpPortSettingKey, show_int (SM_Port q)),
         (smtpUsernameSettingKey, encUsername), (smtpFromAddressSettingKey, encFromAddress),
         (smtpEncryptionSettingKey, SM_Encryption q)] in
     if SM_Password q \<noteq> []
     then try_bind (encrypt_io d masterKey (SM_Password q)) (\<lambda>e. ok (kvs @ [(smtpPasswordSettingKey, e)]))
     else ok kvs)))"

definition save_smtp ::
  "Deps \<Rightarrow> string \<Rightarrow> ((string \<times> string) list \<Rightarrow> (string \<times> string) list) \<Rightarrow> SMTPRuntimeConfig \<Rightarrow> unit res io" where
  "save_smtp d masterKey shuffle q =
     try_bind (smtp_settings d masterKey q) (\<lambda>kvs.
     try_bind (set_settings (shuffle kvs)) (\<lambda>_.
     DeleteSetting smtpUseTLSSettingKeyLegacy))"

definition SMTPConfigureHandler ::
  "Deps \<Rightarrow> string \<Rightarrow> ((string \<times> string) list \<Rightarrow> (string \<times> string) list) \<Rightarrow> Request \<Rightarrow> SMTPRuntimeConfig option \<Rightarrow> Response io" where
  "SMTPConfigureHandler d masterKey shuffle r body =
     (if R_Method r \<noteq> ''POST'' then State_Monad.return method_not_allowed
      else case body of
        None \<Rightarrow> State_Monad.return (reject None 400 ''invalid request body'')
      | Some raw \<Rightarrow>
          let req = smtp_trimmed raw in
          if SM_Host req = [] \<or> SM_Port req \<le> 0 \<or> SM_FromAddress req = [] then
            State_Monad.return (reject None 400 ''host, port, and from_address are all required'')
          else if \<not> smtp_encryption_ok req then State_Monad.return (reject None 400 ''encryption must be one of'')
          else or_internal None (save_smtp d masterKey shuffle req) (\<lambda>_.
            State_Monad.return (answer None 200 (SMTP (Some
              (SM_Host req, SM_Port req, SM_Username req, SM_FromAddress req, SM_Encryption req))))))"

text \<open>\<open>SMTPTestHandler\<close>, with \<open>SendTest\<close> as a parameter: the stored password fills in an empty one.\<close>

definition SMTPTestHandler ::
  "Deps \<Rightarrow> string \<Rightarrow> (SMTPRuntimeConfig \<Rightarrow> string \<Rightarrow> bool) \<Rightarrow> Request \<Rightarrow> (SMTPRuntimeConfig \<times> string) option \<Rightarrow> Response io" where
  "SMTPTestHandler d masterKey sendTest r body =
     (if R_Method r \<noteq> ''POST'' then State_Monad.return method_not_allowed
      else case body of
        None \<Rightarrow> State_Monad.return (reject None 400 ''invalid request body'')
      | Some (raw, rawTo) \<Rightarrow>
          let req = smtp_trimmed raw; recipient = trim_space rawTo in
          if SM_Host req = [] \<or> SM_Port req \<le> 0 \<or> SM_FromAddress req = [] \<or> recipient = [] then
            State_Monad.return (reject None 400 ''host, port, from_address, and to are all required'')
          else if \<not> smtp_encryption_ok req then State_Monad.return (reject None 400 ''encryption must be one of'')
          else do {
            password \<leftarrow> (if SM_Password req = [] then do {
                encPwd \<leftarrow> GetSetting smtpPasswordSettingKey;
                (case encPwd of
                   Inr (Some e) \<Rightarrow>
                     if e = [] then State_Monad.return []
                     else do { dec \<leftarrow> decrypt_io d masterKey e;
                               State_Monad.return (case dec of Inr p \<Rightarrow> p | Inl _ \<Rightarrow> []) }
                 | _ \<Rightarrow> State_Monad.return []) }
              else State_Monad.return (SM_Password req));
            State_Monad.return (if sendTest (req\<lparr>SM_Password := password\<rparr>) recipient
              then answer None 200 (Flag True) else reject None 502 ''smtp test failed'') })"

definition SMTPDeleteHandler :: "Request \<Rightarrow> Response io" where
  "SMTPDeleteHandler r =
     (if R_Method r \<noteq> ''DELETE'' then State_Monad.return method_not_allowed
      else or_internal None (delete_settings [smtpHostSettingKey, smtpPortSettingKey, smtpUsernameSettingKey,
          smtpPasswordSettingKey, smtpFromAddressSettingKey, smtpEncryptionSettingKey, smtpUseTLSSettingKeyLegacy])
        (\<lambda>_. State_Monad.return (answer None 204 Empty)))"

section \<open>GeoIP and the time zone\<close>

definition geoIPAccountIDSettingKey :: string where "geoIPAccountIDSettingKey = ''geoip_maxmind_account_id_enc''"
definition geoIPLicenseKeySettingKey :: string where "geoIPLicenseKeySettingKey = ''geoip_maxmind_license_key_enc''"
definition GeoIPLastUpdateAtSettingKey :: string where "GeoIPLastUpdateAtSettingKey = ''geoip_last_update_at''"
definition GeoIPLastUpdateErrorSettingKey :: string where "GeoIPLastUpdateErrorSettingKey = ''geoip_last_update_error''"
definition GeoIPLastCheckAtSettingKey :: string where "GeoIPLastCheckAtSettingKey = ''geoip_last_check_at''"
definition GeoIPCheckTimeSettingKey :: string where "GeoIPCheckTimeSettingKey = ''geoip_check_time''"

definition ParseGeoIPCheckTime :: "string \<Rightarrow> (int \<times> int) res" where
  "ParseGeoIPCheckTime raw =
     (case splitn CHR '':'' 2 raw of
        [a, b] \<Rightarrow>
          (case (atoi a, atoi b) of
             (Some h, Some m) \<Rightarrow>
               if h < 0 \<or> h > 23 \<or> m < 0 \<or> m > 59 then Inl (ErrInvalid ''geoip check time'') else Inr (h, m)
           | _ \<Rightarrow> Inl (ErrInvalid ''geoip check time''))
      | _ \<Rightarrow> Inl (ErrInvalid ''geoip check time''))"

definition GeoIPConfigured :: "bool res io" where
  "GeoIPConfigured = try_bind (GetSetting geoIPAccountIDSettingKey) (\<lambda>v. ok (v \<noteq> None))"

definition ResolveGeoIPConfig :: "Deps \<Rightarrow> string \<Rightarrow> (string \<times> string) res io" where
  "ResolveGeoIPConfig d masterKey =
     try_bind (GetSetting geoIPAccountIDSettingKey) (\<lambda>encAccountID.
       case encAccountID of
         None \<Rightarrow> fail (ErrInvalid ''geoip has not been configured yet'')
       | Some ea \<Rightarrow>
           try_bind (decrypt_if_io d masterKey ea) (\<lambda>accountID.
           try_bind (GetSetting geoIPLicenseKeySettingKey) (\<lambda>encLicenseKey.
           try_bind (decrypt_if_io d masterKey (coalesce encLicenseKey [])) (\<lambda>licenseKey.
           ok (accountID, licenseKey)))))"

record GeoIPConfigRequest =
  GR_AccountID :: string
  GR_LicenseKey :: string
  GR_CheckTime :: string

definition setting_or_empty :: "string \<Rightarrow> string io" where
  "setting_or_empty k = do {
     v \<leftarrow> GetSetting k;
     State_Monad.return (case v of Inr (Some s) \<Rightarrow> s | _ \<Rightarrow> []) }"

definition GeoIPConfigureHandler ::
  "Deps \<Rightarrow> string \<Rightarrow> ((string \<times> string) list \<Rightarrow> (string \<times> string) list) \<Rightarrow> Request \<Rightarrow> GeoIPConfigRequest option \<Rightarrow> Response io" where
  "GeoIPConfigureHandler d masterKey shuffle r body =
     (if R_Method r \<noteq> ''POST'' then State_Monad.return method_not_allowed
      else case body of
        None \<Rightarrow> State_Monad.return (reject None 400 ''invalid request body'')
      | Some req \<Rightarrow>
          let account = trim_space (GR_AccountID req); license = trim_space (GR_LicenseKey req) in
          if account = [] then State_Monad.return (reject None 400 ''account_id is required'')
          else or_internal None (encrypt_io d masterKey account) (\<lambda>encAccountID.
            or_internal None (if license \<noteq> [] then try_bind (encrypt_io d masterKey license) (\<lambda>e. ok [(geoIPLicenseKeySettingKey, e)])
                              else ok []) (\<lambda>licenseSetting.
              if GR_CheckTime req \<noteq> [] \<and> \<not> is_ok (ParseGeoIPCheckTime (GR_CheckTime req)) then
                State_Monad.return (reject None 400 ''invalid geoip check time'')
              else or_internal None (if GR_CheckTime req \<noteq> [] then SetSetting GeoIPCheckTimeSettingKey (GR_CheckTime req) else ok ()) (\<lambda>_.
                or_internal None (set_settings (shuffle ((geoIPAccountIDSettingKey, encAccountID) # licenseSetting))) (\<lambda>_. do {
                  lastUpdateAt \<leftarrow> setting_or_empty GeoIPLastUpdateAtSettingKey;
                  lastUpdateError \<leftarrow> setting_or_empty GeoIPLastUpdateErrorSettingKey;
                  State_Monad.return (answer None 200 (GeoIP (Some (account, lastUpdateAt, lastUpdateError)))) })))))"

definition GeoIPDeleteHandler :: "Request \<Rightarrow> Response io" where
  "GeoIPDeleteHandler r =
     (if R_Method r \<noteq> ''DELETE'' then State_Monad.return method_not_allowed
      else or_internal None (delete_settings [geoIPAccountIDSettingKey, geoIPLicenseKeySettingKey,
          GeoIPLastUpdateAtSettingKey, GeoIPLastUpdateErrorSettingKey, GeoIPLastCheckAtSettingKey])
        (\<lambda>_. State_Monad.return (answer None 204 Empty)))"

definition SystemTimezoneSettingKey :: string where "SystemTimezoneSettingKey = ''system_timezone''"
definition DefaultSystemTimezone :: string where "DefaultSystemTimezone = ''UTC''"

text \<open>\<open>time.LoadLocation\<close> is the parameter \<open>zones\<close>: which names it knows.\<close>

definition ParseSystemTimezone :: "(string \<Rightarrow> bool) \<Rightarrow> string \<Rightarrow> string res" where
  "ParseSystemTimezone zones raw =
     (let z = trim_space raw in
      if z = [] then Inl (ErrInvalid ''system timezone must not be empty'')
      else if zones z then Inr z else Inl (ErrInvalid ''invalid IANA timezone''))"

definition SystemTimezoneRaw :: "(string \<Rightarrow> bool) \<Rightarrow> string io" where
  "SystemTimezoneRaw zones = do {
     v \<leftarrow> GetSetting SystemTimezoneSettingKey;
     State_Monad.return (case v of
        Inr (Some val) \<Rightarrow> if val = [] \<or> \<not> is_ok (ParseSystemTimezone zones val) then DefaultSystemTimezone else val
      | _ \<Rightarrow> DefaultSystemTimezone) }"

section \<open>Saving and resolving\<close>

lemma encrypt_if_io_nonempty: "p \<noteq> [] \<Longrightarrow> encrypt_io d k p = encrypt_if_io d k p"
  by (simp add: encrypt_if_io_def)

text \<open>
  An encryption that ends with a ciphertext \<open>e\<close> of \<open>p\<close>, in a state that differs from the one before
  only by the draw; and the settings written when every call succeeds.
\<close>

lemma wp_try_encrypt_io:
  assumes "cache_ok (gcm w)" and "aead_ok (d_aead d)" and "buildGCM k = Inr key" and "p \<noteq> []"
    and "\<And>e t. enc_frame w t \<Longrightarrow> cache_ok (gcm t) \<Longrightarrow> plain d k e = Inr p \<Longrightarrow> e \<noteq> [] \<Longrightarrow> wp (f e) Q t"
  shows "wp (try_bind (encrypt_io d k p) f) Q w"
  unfolding encrypt_if_io_nonempty [OF assms(4)] wp_try
  using assms by (intro wp_encrypt_plain [of w d k key]) auto

lemma wp_set_settings:
  "all_done w \<Longrightarrow> distinct (map fst kvs) \<Longrightarrow>
     (\<And>n. Q (Inr ()) (w\<lparr>settings := settings w ++ map_of kvs, calls := n\<rparr>)) \<Longrightarrow> wp (set_settings kvs) Q w"
proof (induction kvs arbitrary: w)
  case (Cons kv kvs)
  obtain k v where kv: "kv = (k, v)" by fastforce
  let ?w = "w\<lparr>calls := Suc (calls w), settings := (settings w)(k \<mapsto> v)\<rparr>"
  have "(settings w)(k \<mapsto> v) ++ map_of kvs = settings w ++ map_of (kv # kvs)"
    using Cons.prems(2) kv by (simp add: map_add_upd_left dom_map_of_conv_image_fst)
  then have post: "?w\<lparr>settings := settings ?w ++ map_of kvs, calls := n\<rparr>
      = w\<lparr>settings := settings w ++ map_of (kv # kvs), calls := n\<rparr>" for n by simp
  have "wp (set_settings kvs) Q ?w"
    by (rule Cons.IH) (use Cons.prems(1,2) in simp, use Cons.prems(2) in simp, unfold post, rule Cons.prems(3))
  then show ?case
    using Cons.prems(1) kv by (simp add: SetSetting_def wp_try wp_command_done)
next
  case Nil
  show ?case using Nil(3) [of "calls w"] by (simp add: wp_ok)
qed

text \<open>The settings of a stored SMTP configuration, and what resolving them gives.\<close>

definition smtp_stored :: "Deps \<Rightarrow> string \<Rightarrow> SMTPRuntimeConfig \<Rightarrow> (string \<rightharpoonup> string) \<Rightarrow> bool" where
  "smtp_stored d mk q m \<longleftrightarrow>
     (\<exists>eh eu ef ep. m smtpHostSettingKey = Some eh \<and> plain d mk eh = Inr (SM_Host q)
        \<and> m smtpUsernameSettingKey = Some eu \<and> plain d mk eu = Inr (SM_Username q)
        \<and> m smtpFromAddressSettingKey = Some ef \<and> plain d mk ef = Inr (SM_FromAddress q)
        \<and> m smtpPasswordSettingKey = Some ep \<and> plain d mk ep = Inr (SM_Password q) \<and> ep \<noteq> []
        \<and> m smtpPortSettingKey = Some (show_int (SM_Port q))
        \<and> m smtpEncryptionSettingKey = Some (SM_Encryption q))"

lemma atoi_show_int:
  assumes "0 < n" and "n \<le> max_int64"
  shows "atoi (show_int n) = Some n"
proof -
  have u: "parse_uint (show_nat (nat n)) = Some (nat n)" by (rule parse_show_nat)
  then have "list_all is_digit (show_nat (nat n))" "show_nat (nat n) \<noteq> []"
    by (auto simp: parse_uint_def split: if_splits)
  then obtain c cs where "show_nat (nat n) = c # cs" "is_digit c" by (cases "show_nat (nat n)") auto
  moreover from this(2) have "c \<noteq> CHR ''-''" "c \<noteq> CHR ''+''" by (auto simp: is_digit_def byte_def)
  ultimately show ?thesis
    using u assms by (simp add: atoi_def show_int_def Let_def min_int64_def)
qed

lemma wp_try_decrypt:
  assumes "cache_ok (gcm w)" "all_done w" "plain d k e = Inr p"
    and "\<And>t. cache_ok (gcm t) \<Longrightarrow> all_done t \<Longrightarrow> settings t = settings w \<Longrightarrow> wp (f p) Q t"
  shows "wp (try_bind (decrypt_if_io d k e) f) Q w"
  unfolding wp_try using assms by (intro wp_decrypt_plain) (auto simp: enc_frameD)

lemma wp_try_setting:
  assumes "cache_ok (gcm w)" "all_done w"
    and "\<And>t. cache_ok (gcm t) \<Longrightarrow> all_done t \<Longrightarrow> settings t = settings w \<Longrightarrow> wp (f (settings w k)) Q t"
  shows "wp (try_bind (GetSetting k) f) Q w"
  using assms by (simp add: wp_try GetSetting_def wp_query_done)

lemma wp_ResolveSMTP:
  assumes "smtp_stored d mk q (settings w)" "cache_ok (gcm w)" "all_done w"
    and q: "0 < SM_Port q" "SM_Port q \<le> max_int64" "SM_Encryption q \<noteq> []"
  shows "wp (ResolveSMTPConfig d mk) (\<lambda>r _. r = Inr q) w"
proof -
  obtain eh eu ef ep where s: "settings w smtpHostSettingKey = Some eh" "plain d mk eh = Inr (SM_Host q)"
    "settings w smtpUsernameSettingKey = Some eu" "plain d mk eu = Inr (SM_Username q)"
    "settings w smtpFromAddressSettingKey = Some ef" "plain d mk ef = Inr (SM_FromAddress q)"
    "settings w smtpPasswordSettingKey = Some ep" "plain d mk ep = Inr (SM_Password q)" "ep \<noteq> []"
    "settings w smtpPortSettingKey = Some (show_int (SM_Port q))"
    "settings w smtpEncryptionSettingKey = Some (SM_Encryption q)"
    using assms(1) by (auto simp: smtp_stored_def)
  show ?thesis
    unfolding ResolveSMTPConfig_def
    by (rule wp_try_setting [OF assms(2,3)], simp add: s(1),
        rule wp_try_decrypt, assumption, assumption, rule s(2),
        rule wp_try_setting, assumption, assumption, simp add: s(10) coalesce_def atoi_show_int [OF q(1,2)],
        rule wp_try_setting, assumption, assumption, simp add: s(3) coalesce_def,
        rule wp_try_decrypt, assumption, assumption, rule s(4),
        rule wp_try_setting, assumption, assumption, simp add: s(5) coalesce_def,
        rule wp_try_decrypt, assumption, assumption, rule s(6))
      (simp add: resolveSMTPEncryption_def GetSetting_def wp_try wp_query_done s(7,11) coalesce_def q(3) wp_ok
        decrypt_io_if [OF s(9)] s(9) wp_decrypt_plain s(8))
qed

lemma map_of_perm:
  assumes "mset xs = mset ys" and "distinct (map fst ys)"
  shows "distinct (map fst xs)" "map_of xs = map_of ys"
proof -
  show d: "distinct (map fst xs)"
    using assms by (metis mset_eq_imp_distinct_iff mset_map)
  have "set xs = set ys" using assms(1) by (rule mset_eq_setD)
  then show "map_of xs = map_of ys" using d assms(2) by (metis map_of_inject_set)
qed

text \<open>The encrypted settings of a request with a password.\<close>

definition smtp_encrypted :: "Deps \<Rightarrow> string \<Rightarrow> SMTPRuntimeConfig \<Rightarrow> (string \<times> string) list \<Rightarrow> bool" where
  "smtp_encrypted d mk q kvs \<longleftrightarrow> distinct (map fst kvs) \<and> smtpUseTLSSettingKeyLegacy \<notin> fst ` set kvs
     \<and> (\<forall>m. smtp_stored d mk q (m ++ map_of kvs))"

lemma wp_smtp_settings:
  assumes w: "cache_ok (gcm w)" and k: "aead_ok (d_aead d)" "buildGCM mk = Inr key"
    and q: "SM_Host q \<noteq> []" "SM_FromAddress q \<noteq> []" "SM_Password q \<noteq> []"
  shows "wp (smtp_settings d mk q)
     (\<lambda>r t. \<exists>kvs. r = Inr kvs \<and> smtp_encrypted d mk q kvs \<and> enc_frame w t \<and> cache_ok (gcm t)) w"
  unfolding smtp_settings_def Let_def if_P [OF q(3)]
  by (rule wp_try_encrypt_io [OF w k q(1)], rule wp_try_encrypt [OF _ k], assumption,
      rule wp_try_encrypt_io [OF _ k q(2)], assumption, rule wp_try_encrypt_io [OF _ k q(3)], assumption)
    (auto simp: wp_ok smtp_encrypted_def smtp_stored_def smtp_keys intro: enc_frame_trans)

lemma wp_save_smtp:
  assumes w: "cache_ok (gcm w)" "all_done w" and k: "aead_ok (d_aead d)" "buildGCM mk = Inr key"
    and shuffle: "\<And>xs. mset (shuffle xs) = mset xs"
    and q: "SM_Host q \<noteq> []" "SM_FromAddress q \<noteq> []" "SM_Password q \<noteq> []"
  shows "wp (save_smtp d mk shuffle q)
     (\<lambda>r t. r = Inr () \<and> smtp_stored d mk q (settings t) \<and> cache_ok (gcm t) \<and> all_done t) w"
  unfolding save_smtp_def wp_try [of "smtp_settings _ _ _"]
proof (rule wp_mono [OF wp_smtp_settings [OF w(1) k q]], elim exE conjE, hypsubst, intro conjI allI impI)
  fix t kvs kvs' assume kvs: "smtp_encrypted d mk q kvs" and t: "enc_frame w t" "cache_ok (gcm t)"
    and "(Inr kvs :: (string \<times> string) list res) = Inr kvs'"
  then have eq: "kvs' = kvs" by simp
  have dn: "all_done t" using w(2) enc_frameD(13) [OF t(1)] by simp
  have d: "distinct (map fst kvs)" using kvs by (simp add: smtp_encrypted_def)
  note p = map_of_perm [OF shuffle d]
  have "smtp_stored d mk q ((settings t ++ map_of kvs)(smtpUseTLSSettingKeyLegacy := None))"
    using kvs by (auto simp: smtp_encrypted_def smtp_stored_def smtp_keys)
  then show "wp (try_bind (set_settings (shuffle kvs')) (\<lambda>_. DeleteSetting smtpUseTLSSettingKeyLegacy))
     (\<lambda>r t. r = Inr () \<and> smtp_stored d mk q (settings t) \<and> cache_ok (gcm t) \<and> all_done t) t"
    unfolding wp_try eq using dn p t(2)
    by (intro wp_set_settings) (auto simp: DeleteSetting_def wp_command_done)
qed auto

text \<open>
  An SMTP configuration that is accepted is the one that is used. In whatever order the map of
  settings is written, resolving the configuration afterwards gives the request, trimmed, password
  included.
\<close>

theorem smtp_round_trip:
  assumes "cache_ok (gcm w)" "all_done w" "aead_ok (d_aead d)" "buildGCM mk = Inr key"
    and "\<And>xs. mset (shuffle xs) = mset xs"
    and "run_state (SMTPConfigureHandler d mk shuffle r (Some raw)) w = (resp, t)" and "Rs_Status resp = 200"
    and "SM_Password raw \<noteq> []" and "SM_Port raw \<le> max_int64"
  shows "fst (run_state (ResolveSMTPConfig d mk) t) = Inr (smtp_trimmed raw)"
proof -
  let ?q = "smtp_trimmed raw"
  have q: "R_Method r = ''POST''" "SM_Host ?q \<noteq> []" "SM_FromAddress ?q \<noteq> []" "0 < SM_Port ?q" "smtp_encryption_ok ?q"
    using assms(6,7) by (auto simp: SMTPConfigureHandler_def Let_def method_not_allowed_def reject_def answer_def
        split: if_splits)
  have same: "SM_Password ?q = SM_Password raw" "SM_Port ?q = SM_Port raw" by (simp_all add: smtp_trimmed_def)
  have enc: "SM_Encryption ?q \<noteq> []"
    using q(5) by (auto simp: smtp_encryption_ok_def SMTPEncryptionNone_def SMTPEncryptionSTARTTLS_def SMTPEncryptionTLS_def)
  have "wp (SMTPConfigureHandler d mk shuffle r (Some raw))
     (\<lambda>_ t. smtp_stored d mk ?q (settings t) \<and> cache_ok (gcm t) \<and> all_done t) w"
    using q assms(8) same
    by (auto simp: SMTPConfigureHandler_def Let_def wp_or_internal wp_return not_le
        intro!: wp_mono [OF wp_save_smtp [OF assms(1-5)]])
  then have "smtp_stored d mk ?q (settings t)" "cache_ok (gcm t)" "all_done t"
    using assms(6) by (simp_all add: wp_run)
  from wp_ResolveSMTP [OF this q(4) _ enc] assms(9) same show ?thesis by (simp add: wp_run)
qed

text \<open>The request of an administrator, with its settings written in reverse.\<close>

theorem smtp_round_trip_witness:
  "\<exists>t. fst (run_state (ResolveSMTPConfig sample_deps sample_key) t) =
     Inr \<lparr>SM_Host = ''mx'', SM_Port = 587, SM_Username = [], SM_Password = ''pw'', SM_FromAddress = ''a@b'',
          SM_Encryption = ''starttls''\<rparr>"
proof -
  let ?raw = "\<lparr>SM_Host = '' mx'', SM_Port = 587, SM_Username = [], SM_Password = ''pw'', SM_FromAddress = ''a@b'',
          SM_Encryption = []\<rparr>"
  let ?r = "\<lparr>R_Method = ''POST'', R_Path = [], R_Cookie = [], R_Authorization = [], R_Origin = [],
     R_CSRFHeader = [], R_UserAgent = [], R_CFCountry = [], R_XFF = [], R_RemoteAddr = [],
     R_Query = [], R_PathID = [], R_Context = None\<rparr>"
  obtain resp t where rt: "run_state (SMTPConfigureHandler sample_deps sample_key rev ?r (Some ?raw)) empty_world = (resp, t)"
    by fastforce
  have "Rs_Status (fst (run_state (SMTPConfigureHandler sample_deps sample_key rev ?r (Some ?raw)) empty_world)) = 200"
    by code_simp
  then have "Rs_Status resp = 200" using rt by simp
  moreover have "cache_ok (gcm empty_world)" "all_done empty_world" "aead_ok (d_aead sample_deps)"
    by (simp_all add: empty_world_def all_done_def sample_deps_def plain_aead_ok)
  moreover have "is_ok (buildGCM sample_key)" by code_simp
  then obtain key where "buildGCM sample_key = Inr key" by (auto simp: is_ok_ex)
  moreover have "smtp_trimmed ?raw = \<lparr>SM_Host = ''mx'', SM_Port = 587, SM_Username = [], SM_Password = ''pw'', SM_FromAddress = ''a@b'',
          SM_Encryption = ''starttls''\<rparr>" by code_simp
  ultimately show ?thesis
    using smtp_round_trip [of empty_world sample_deps sample_key key rev ?r ?raw resp t] rt by (auto simp: max_int64_def)
qed

section \<open>The wizard's end\<close>

text \<open>
  The wizard ends exactly when it is complete. An answer of 200 means that the three steps are in
  the database and that the gate is closed, and closed it stays: every later request gets 404. Any
  other answer leaves the gate as it was.
\<close>

theorem completion_closes_gate:
  assumes "run_state (CompleteHandler d r m) w = ((resp, m'), t)"
  shows "if Rs_Status resp = 200 then wizard_done w \<and> m' = Complete m \<and> (\<forall>u (r' :: Request) s. Middleware u r' s m' = (NotFound, m'))
    else m' = m"
proof -
  have "wp missingSteps (\<lambda>a _. \<forall>ms. a = Inr ms \<longrightarrow> (ms = [] \<longleftrightarrow> wizard_done w)) w"
    unfolding missingSteps_def OIDCConfigured_def GroupPrefixConfigured_def HasAdmin_def
    by (auto simp: io_simps wp_GetSetting wp_query wizard_done_def)
  then have "wp (CompleteHandler d r m) (\<lambda>(resp, m') _. if Rs_Status resp = 200 then wizard_done w \<and> m' = Complete m else m' = m) w"
    unfolding CompleteHandler_def by (auto simp: wp_bind wp_return method_not_allowed_def reject_def elim!: wp_mono)
      (auto simp: wp_bind wp_return answer_def internal_def reject_def split: sum.splits intro: wp_any)
  then show ?thesis
    using assms by (auto simp: wp_run Middleware_def closed_def Complete_def split: if_splits)
qed

text \<open>A finished wizard: the provider, the group prefix and an administrator are in the database.\<close>

definition finished_setup :: world where
  "finished_setup = empty_world\<lparr>
     settings := [oidcIssuerSettingKey \<mapsto> ''i'', groupPrefixSettingKey \<mapsto> ''g''],
     users := [\<lparr>U_Subject = ''u1'', U_Email = [], U_Name = [], U_Role = RoleAdmin, U_Approved = True, U_Locked = False,
        U_CreatedAt = 0, U_LastLoginAt = 0, U_Language = [], U_Theme = [], U_Prefs = default_prefs\<rparr>]\<rparr>"

definition complete_request :: Request where
  "complete_request = \<lparr>R_Method = ''POST'', R_Path = [], R_Cookie = [], R_Authorization = [], R_Origin = [],
     R_CSRFHeader = [], R_UserAgent = [], R_CFCountry = [], R_XFF = [], R_RemoteAddr = [],
     R_Query = [], R_PathID = [], R_Context = None\<rparr>"

theorem completion_closes_gate_witness:
  "fst (Middleware 0 complete_request ''tok''
     (snd (fst (run_state (CompleteHandler sample_deps complete_request (new_manager ''tok'')) finished_setup)))) = NotFound"
proof -
  obtain resp m' t where run:
      "run_state (CompleteHandler sample_deps complete_request (new_manager ''tok'')) finished_setup = ((resp, m'), t)"
    by (metis prod.exhaust)
  have "Rs_Status (fst (fst (run_state (CompleteHandler sample_deps complete_request (new_manager ''tok'')) finished_setup))) = 200"
    by code_simp
  then have "Rs_Status resp = 200" using run by simp
  with completion_closes_gate [OF run] have "\<forall>u (r' :: Request) s. Middleware u r' s m' = (NotFound, m')"
    unfolding if_P [OF \<open>Rs_Status resp = 200\<close>] by (elim conjE)
  then show ?thesis using run by simp
qed

end
