(* ===== verification/Site.thy ===== *)
theory Site
  imports World Users Workers Archive Setup "HOL-Library.AList" "HOL-Library.Char_ord" "HOL-Library.List_Lexorder"
begin

text \<open>
  The state of the module lifecycle (package \<open>modules\<close>): beside the world of the handlers, the data
  directory, the rows of \<open>installed_modules\<close> and \<open>module_registry\<close>, the schemas and roles of Postgres
  and the worker pool. Every call draws its outcome from the same sequence as the handlers' calls.
  The queries of \<open>db/modules.go\<close> and the file operations are defined here.
\<close>

section \<open>State\<close>

text \<open>
  A directory is the list of its files, by their paths below it; a file path excludes files below
  it, and directories exist as far as they hold files. The JSON of a manifest is the manifest.
\<close>

type_synonym tree = "(string \<times> string) list"

record InstalledModuleRow =
  IM_Name :: string
  IM_Version :: string
  IM_Tier :: int
  IM_Source :: string
  IM_ReleaseURL :: string
  IM_SHA256 :: string
  IM_Manifest :: "Manifest option"
  IM_Status :: string
  IM_Pinned :: bool
  IM_AutoUpdate :: bool
  IM_CosignVerified :: bool
  IM_CachedZipPath :: "string option"
  IM_AvailableVersion :: "string option"
  IM_LastUpdateCheck :: "int option"
  IM_LogoURL :: "string option"
  IM_InstalledAt :: int
  IM_UpdatedAt :: int
  IM_PIIMigratedAt :: "int option"
  IM_DBRolePasswordEnc :: "string option"

definition ModuleStatusInstalling :: string where "ModuleStatusInstalling = ''installing''"
definition ModuleStatusActive :: string where "ModuleStatusActive = ''active''"
definition ModuleStatusDegraded :: string where "ModuleStatusDegraded = ''degraded''"
definition ModuleStatusFailed :: string where "ModuleStatusFailed = ''failed''"
definition ModuleStatusIsolated :: string where "ModuleStatusIsolated = ''isolated''"

lemmas module_status = ModuleStatusInstalling_def ModuleStatusActive_def ModuleStatusDegraded_def
  ModuleStatusFailed_def ModuleStatusIsolated_def

text \<open>A registry entry (\<open>store/registry.go\<close>), without the texts that are only shown.\<close>

record Entry =
  En_Name :: string
  En_Source :: string
  En_SourceRepo :: string
  En_ReleaseAsset :: string
  En_CosignSigURL :: string
  En_CosignPubKey :: string
  En_Category :: string
  En_LatestVersion :: string
  En_LogoURL :: string
  En_BrowseURL :: string
  En_SyncedAt :: int

text \<open>A row of \<open>custom_sources\<close>; URL, name and token are stored encrypted and handed out decrypted.\<close>

record CustomSourceRow =
  CS_ID :: string
  CS_RepoURL :: string
  CS_Name :: string
  CS_PubKey :: string
  CS_Token :: string
  CS_Kind :: string
  CS_AddedBy :: string
  CS_AddedAt :: int

text \<open>
  Postgres: the SQL texts committed in each schema, the roles with their password (\<open>None\<close> for
  \<open>NOLOGIN\<close>), the privileges granted, the owners of tables and sequences.
\<close>

record postgres =
  pg_schemas :: "string \<Rightarrow> string list option"
  pg_roles :: "string \<Rightarrow> string option option"
  pg_grants :: "(string \<times> string \<times> string) list"
  pg_owner :: "string \<times> string \<Rightarrow> string option"

text \<open>\<open>requests\<close>: the URLs asked for, with the bearer token that went along.\<close>

record site =
  core :: world
  disk :: "string \<Rightarrow> tree option"
  zips :: "string \<Rightarrow> string option"
  installed :: "InstalledModuleRow list"
  registry :: "Entry list"
  sources :: "CustomSourceRow list"
  module_migrations :: "(string \<times> string) list"
  pg :: postgres
  fleet :: pool_state
  requests :: "(string \<times> string option) list"

type_synonym 'a sio = "(site, 'a) state"

section \<open>Calls\<close>

definition core_io :: "'a io \<Rightarrow> 'a sio" where
  "core_io m = State_Monad.State (\<lambda>s. let (a, w) = run_state m (core s) in (a, s\<lparr>core := w\<rparr>))"

definition update_site :: "(site \<Rightarrow> site) \<Rightarrow> unit sio" where
  "update_site f = State_Monad.State (\<lambda>s. ((), f s))"

definition ticked :: "site \<Rightarrow> site" where
  "ticked s = s\<lparr>core := (core s)\<lparr>calls := Suc (calls (core s))\<rparr>\<rparr>"

definition next_outcome :: "site \<Rightarrow> outcome" where
  "next_outcome s = outcomes (core s) (calls (core s))"

definition db_query :: "(site \<Rightarrow> 'a res) \<Rightarrow> 'a res sio" where
  "db_query q = State_Monad.State (\<lambda>s.
     (case next_outcome s of Done \<Rightarrow> q s | _ \<Rightarrow> Inl ErrExternal, ticked s))"

definition db_exec :: "(site \<Rightarrow> 'a res) \<Rightarrow> (site \<Rightarrow> site) \<Rightarrow> 'a res sio" where
  "db_exec q f = State_Monad.State (\<lambda>s.
     case next_outcome s of
       Done \<Rightarrow> (q s, f (ticked s))
     | Lost \<Rightarrow> (Inl ErrExternal, ticked s)
     | Unacked \<Rightarrow> (Inl ErrExternal, f (ticked s)))"

text \<open>A call that takes effect exactly when it reports success.\<close>

definition os_call :: "(site \<Rightarrow> 'a res) \<Rightarrow> (site \<Rightarrow> site) \<Rightarrow> 'a res sio" where
  "os_call q f = State_Monad.State (\<lambda>s.
     case next_outcome s of
       Done \<Rightarrow> (case q s of Inl e \<Rightarrow> (Inl e, ticked s) | Inr a \<Rightarrow> (Inr a, f (ticked s)))
     | _ \<Rightarrow> (Inl ErrExternal, ticked s))"

section \<open>Rows of \<open>installed_modules\<close>\<close>

definition find_row :: "InstalledModuleRow list \<Rightarrow> string \<Rightarrow> InstalledModuleRow option" where
  "find_row rs name = List.find (\<lambda>r. IM_Name r = name) rs"

definition patch_row :: "string \<Rightarrow> (InstalledModuleRow \<Rightarrow> InstalledModuleRow) \<Rightarrow> site \<Rightarrow> site" where
  "patch_row name f s = s\<lparr>installed := map (\<lambda>r. if IM_Name r = name then f r else r) (installed s)\<rparr>"

definition row_affected :: "string \<Rightarrow> site \<Rightarrow> bool" where
  "row_affected name s \<longleftrightarrow> find_row (installed s) name \<noteq> None"

definition nonempty :: "string \<Rightarrow> string option" where
  "nonempty v = (if v = [] then None else Some v)"

text \<open>The name is the primary key: inserting a second row of the same name is an error.\<close>

definition InsertInstalledModule ::
  "string \<Rightarrow> string \<Rightarrow> int \<Rightarrow> string \<Rightarrow> string \<Rightarrow> string \<Rightarrow> Manifest \<Rightarrow> bool \<Rightarrow> string \<Rightarrow> unit res sio" where
  "InsertInstalledModule name version tier source releaseURL sha256 manifest cosignVerified logoURL =
     db_exec (\<lambda>s. if row_affected name s then Inl ErrExternal else Inr ())
       (\<lambda>s. if row_affected name s then s else s\<lparr>installed := installed s @
          [\<lparr>IM_Name = name, IM_Version = version, IM_Tier = tier, IM_Source = source, IM_ReleaseURL = releaseURL,
            IM_SHA256 = sha256, IM_Manifest = Some manifest, IM_Status = ModuleStatusInstalling,
            IM_Pinned = False, IM_AutoUpdate = False, IM_CosignVerified = cosignVerified,
            IM_CachedZipPath = None, IM_AvailableVersion = None, IM_LastUpdateCheck = None,
            IM_LogoURL = nonempty logoURL, IM_InstalledAt = now (core s), IM_UpdatedAt = now (core s),
            IM_PIIMigratedAt = None, IM_DBRolePasswordEnc = None\<rparr>]\<rparr>)"

definition patch :: "string \<Rightarrow> (int \<Rightarrow> InstalledModuleRow \<Rightarrow> InstalledModuleRow) \<Rightarrow> bool res sio" where
  "patch name f = db_exec (\<lambda>s. Inr (row_affected name s)) (\<lambda>s. patch_row name (f (now (core s))) s)"

definition UpdateModuleStatus :: "string \<Rightarrow> string \<Rightarrow> bool res sio" where
  "UpdateModuleStatus name status = patch name (\<lambda>t r. r\<lparr>IM_Status := status, IM_UpdatedAt := t\<rparr>)"

definition GetInstalledModule :: "string \<Rightarrow> InstalledModuleRow option res sio" where
  "GetInstalledModule name = db_query (\<lambda>s. Inr (find_row (installed s) name))"

definition ListInstalledModules :: "InstalledModuleRow list res sio" where
  "ListInstalledModules = db_query (\<lambda>s. Inr (sort_key IM_Name (installed s)))"

definition DeleteInstalledModule :: "string \<Rightarrow> bool res sio" where
  "DeleteInstalledModule name =
     db_exec (\<lambda>s. Inr (row_affected name s))
       (\<lambda>s. s\<lparr>installed := filter (\<lambda>r. IM_Name r \<noteq> name) (installed s)\<rparr>)"

definition SetModuleCachedZip :: "string \<Rightarrow> string \<Rightarrow> bool res sio" where
  "SetModuleCachedZip name path = patch name (\<lambda>t r. r\<lparr>IM_CachedZipPath := Some path, IM_UpdatedAt := t\<rparr>)"

definition ClearModuleCachedZip :: "string \<Rightarrow> bool res sio" where
  "ClearModuleCachedZip name = patch name (\<lambda>t r. r\<lparr>IM_CachedZipPath := None, IM_UpdatedAt := t\<rparr>)"

definition SetModuleAvailableVersion :: "string \<Rightarrow> string \<Rightarrow> bool res sio" where
  "SetModuleAvailableVersion name version =
     patch name (\<lambda>t r. r\<lparr>IM_AvailableVersion := nonempty version, IM_LastUpdateCheck := Some t, IM_UpdatedAt := t\<rparr>)"

definition SetModulePinned :: "string \<Rightarrow> bool \<Rightarrow> bool res sio" where
  "SetModulePinned name pinned = patch name (\<lambda>t r. r\<lparr>IM_Pinned := pinned, IM_UpdatedAt := t\<rparr>)"

definition SetModuleAutoUpdate :: "string \<Rightarrow> bool \<Rightarrow> bool res sio" where
  "SetModuleAutoUpdate name autoUpdate = patch name (\<lambda>t r. r\<lparr>IM_AutoUpdate := autoUpdate, IM_UpdatedAt := t\<rparr>)"

definition updateInstalledModuleRecord ::
  "string \<Rightarrow> string \<Rightarrow> int \<Rightarrow> string \<Rightarrow> string \<Rightarrow> Manifest \<Rightarrow> bool \<Rightarrow> string \<Rightarrow> bool res sio" where
  "updateInstalledModuleRecord name version tier sha256 releaseURL manifest cosignVerified logoURL =
     patch name (\<lambda>t r. r\<lparr>IM_Version := version, IM_Tier := tier, IM_SHA256 := sha256, IM_ReleaseURL := releaseURL,
       IM_Manifest := Some manifest, IM_CosignVerified := cosignVerified, IM_LogoURL := nonempty logoURL,
       IM_UpdatedAt := t\<rparr>)"

text \<open>The password of the module's database role, encrypted under the pool's key.\<close>

definition SetModuleDBRolePassword :: "Deps \<Rightarrow> string \<Rightarrow> string \<Rightarrow> bool res sio" where
  "SetModuleDBRolePassword d moduleName password =
     try_bind (core_io (encrypt_io d (d_PoolKey d) password)) (\<lambda>enc.
     patch moduleName (\<lambda>_ r. r\<lparr>IM_DBRolePasswordEnc := Some enc\<rparr>))"

definition GetModuleDBRolePassword :: "Deps \<Rightarrow> string \<Rightarrow> string option res sio" where
  "GetModuleDBRolePassword d moduleName =
     try_bind (db_query (\<lambda>s. Inr (map_option IM_DBRolePasswordEnc (find_row (installed s) moduleName)))) (\<lambda>v.
     case v of
       Some (Some enc) \<Rightarrow>
         if enc = [] then ok None
         else try_bind (core_io (decrypt_io d (d_PoolKey d) enc)) (\<lambda>plain. ok (Some plain))
     | _ \<Rightarrow> ok None)"

definition ClearModuleDBRolePassword :: "string \<Rightarrow> bool res sio" where
  "ClearModuleDBRolePassword moduleName = patch moduleName (\<lambda>_ r. r\<lparr>IM_DBRolePasswordEnc := None\<rparr>)"

definition IsModulePIIMigrated :: "string \<Rightarrow> bool res sio" where
  "IsModulePIIMigrated moduleName =
     db_query (\<lambda>s. Inr (case find_row (installed s) moduleName of
        None \<Rightarrow> False | Some r \<Rightarrow> IM_PIIMigratedAt r \<noteq> None))"

definition SetModulePIIMigrated :: "string \<Rightarrow> bool res sio" where
  "SetModulePIIMigrated moduleName = patch moduleName (\<lambda>t r. r\<lparr>IM_PIIMigratedAt := Some t\<rparr>)"

text \<open>\<open>store.GetEntry\<close>.\<close>

definition GetEntry :: "string \<Rightarrow> Entry option res sio" where
  "GetEntry name = db_query (\<lambda>s. Inr (List.find (\<lambda>e. En_Name e = name) (registry s)))"

section \<open>Custom sources\<close>

definition CreateCustomSource ::
  "Deps \<Rightarrow> string \<Rightarrow> string \<Rightarrow> string \<Rightarrow> string \<Rightarrow> string \<Rightarrow> string \<Rightarrow> CustomSourceRow res sio" where
  "CreateCustomSource d repoURL name pubKeyPEM token kind addedBy =
     try_bind (core_io (encrypt_io d (d_PoolKey d) repoURL)) (\<lambda>encURL.
     try_bind (core_io (encrypt_io d (d_PoolKey d) name)) (\<lambda>encName.
     try_bind (core_io (encrypt_if_io d (d_PoolKey d) token)) (\<lambda>encToken.
     let row = (\<lambda>u n t k s. \<lparr>CS_ID = ''cs'' @ show_nat k, CS_RepoURL = u, CS_Name = n, CS_PubKey = pubKeyPEM,
           CS_Token = t, CS_Kind = (if kind = [] then ''github'' else kind), CS_AddedBy = addedBy, CS_AddedAt = now (core s)\<rparr>) in
     db_exec (\<lambda>s. Inr (row repoURL name token (Suc (calls (core s))) s))
       (\<lambda>s. s\<lparr>sources := sources s @ [row encURL encName encToken (calls (core s)) s]\<rparr>))))"

primrec decrypt_sources :: "Deps \<Rightarrow> CustomSourceRow list \<Rightarrow> CustomSourceRow list res sio" where
  "decrypt_sources d [] = ok []"
| "decrypt_sources d (r # rs) =
     try_bind (core_io (decrypt_if_io d (d_PoolKey d) (CS_RepoURL r))) (\<lambda>url.
     try_bind (core_io (decrypt_if_io d (d_PoolKey d) (CS_Name r))) (\<lambda>name.
     try_bind (core_io (decrypt_if_io d (d_PoolKey d) (CS_Token r))) (\<lambda>token.
     try_bind (decrypt_sources d rs) (\<lambda>out.
     ok (r\<lparr>CS_RepoURL := url, CS_Name := name, CS_Token := token\<rparr> # out)))))"

definition ListCustomSources :: "Deps \<Rightarrow> CustomSourceRow list res sio" where
  "ListCustomSources d = try_bind (db_query (\<lambda>s. Inr (sort_key CS_AddedAt (sources s)))) (decrypt_sources d)"

definition GetCustomSourceByRepoURL :: "Deps \<Rightarrow> string \<Rightarrow> CustomSourceRow option res sio" where
  "GetCustomSourceByRepoURL d repoURL =
     try_bind (ListCustomSources d) (\<lambda>rows. ok (List.find (\<lambda>r. CS_RepoURL r = repoURL) rows))"

text \<open>A field that is \<open>None\<close> keeps its value; the row is read back afterwards.\<close>

definition encrypt_patch :: "(string \<Rightarrow> string res io) \<Rightarrow> string option \<Rightarrow> string option res sio" where
  "encrypt_patch enc v =
     (case v of None \<Rightarrow> ok None | Some p \<Rightarrow> try_bind (core_io (enc p)) (\<lambda>e. ok (Some e)))"

definition UpdateCustomSource ::
  "Deps \<Rightarrow> string \<Rightarrow> string option \<Rightarrow> string option \<Rightarrow> string option \<Rightarrow> CustomSourceRow option res sio" where
  "UpdateCustomSource d i name pubKeyPEM token =
     try_bind (encrypt_patch (encrypt_io d (d_PoolKey d)) name) (\<lambda>encName.
     try_bind (encrypt_patch (encrypt_if_io d (d_PoolKey d)) token) (\<lambda>encToken.
     try_bind (db_exec (\<lambda>s. Inr (list_ex (\<lambda>r. CS_ID r = i) (sources s)))
       (\<lambda>s. s\<lparr>sources := map (\<lambda>r. if CS_ID r = i
          then r\<lparr>CS_Name := coalesce encName (CS_Name r), CS_PubKey := coalesce pubKeyPEM (CS_PubKey r),
                 CS_Token := coalesce encToken (CS_Token r)\<rparr> else r) (sources s)\<rparr>)) (\<lambda>affected.
     if \<not> affected then ok None
     else try_bind (ListCustomSources d) (\<lambda>rows. ok (List.find (\<lambda>r. CS_ID r = i) rows)))))"

definition DeleteCustomSource :: "string \<Rightarrow> bool res sio" where
  "DeleteCustomSource i = db_exec (\<lambda>s. Inr (list_ex (\<lambda>r. CS_ID r = i) (sources s)))
     (\<lambda>s. s\<lparr>sources := filter (\<lambda>r. CS_ID r \<noteq> i) (sources s)\<rparr>)"

section \<open>Files\<close>

definition clash :: "tree \<Rightarrow> string \<Rightarrow> bool" where
  "clash t p \<longleftrightarrow> list_ex (\<lambda>(q, _). has_prefix q (p @ ''/'') \<or> has_prefix p (q @ ''/'')) t"

definition files_of :: "site \<Rightarrow> string \<Rightarrow> tree" where
  "files_of s dir = (case disk s dir of Some t \<Rightarrow> t | None \<Rightarrow> [])"

definition put_tree :: "string \<Rightarrow> tree option \<Rightarrow> site \<Rightarrow> site" where
  "put_tree dir t s = s\<lparr>disk := (disk s)(dir := t)\<rparr>"

definition MkdirAll :: "string \<Rightarrow> unit res sio" where
  "MkdirAll dir = os_call (\<lambda>_. Inr ()) (\<lambda>s. if disk s dir = None then put_tree dir (Some []) s else s)"

text \<open>A failed removal may or may not have removed the files.\<close>

definition RemoveAll :: "string \<Rightarrow> unit res sio" where
  "RemoveAll dir = db_exec (\<lambda>_. Inr ()) (put_tree dir None)"

text \<open>\<open>rename(2)\<close> on directories: the target may exist only when it is empty.\<close>

definition Rename :: "string \<Rightarrow> string \<Rightarrow> unit res sio" where
  "Rename src dst = os_call
     (\<lambda>s. if disk s src = None \<or> (src \<noteq> dst \<and> files_of s dst \<noteq> []) then Inl ErrExternal else Inr ())
     (\<lambda>s. put_tree dst (disk s src) (put_tree src None s))"

text \<open>
  \<open>copyFile\<close>: a failure leaves the target as it was, or truncated. \<open>copyDir\<close> makes the target
  directory and copies file by file.
\<close>

definition copyFile :: "string \<Rightarrow> string \<times> string \<Rightarrow> unit res sio" where
  "copyFile dst f = State_Monad.State (\<lambda>s.
     let put = (\<lambda>bytes. put_tree dst (Some (AList.update (fst f) bytes (files_of s dst))) (ticked s)) in
     if clash (files_of s dst) (fst f) then (Inl ErrExternal, ticked s)
     else case next_outcome s of
       Done \<Rightarrow> (Inr (), put (snd f))
     | Lost \<Rightarrow> (Inl ErrExternal, ticked s)
     | Unacked \<Rightarrow> (Inl ErrExternal, put []))"

primrec copy_files :: "string \<Rightarrow> tree \<Rightarrow> unit res sio" where
  "copy_files dst [] = ok ()"
| "copy_files dst (f # fs) = try_bind (copyFile dst f) (\<lambda>_. copy_files dst fs)"

definition copyDir :: "tree \<Rightarrow> string \<Rightarrow> unit res sio" where
  "copyDir src dst = try_bind (MkdirAll dst) (\<lambda>_. copy_files dst src)"

text \<open>The uploads: the files below \<open>storage\<close>.\<close>

definition in_storage :: "string \<times> string \<Rightarrow> bool" where
  "in_storage f \<longleftrightarrow> has_prefix (fst f) ''storage/''"

definition move_storage :: "string \<Rightarrow> string \<Rightarrow> unit res sio" where
  "move_storage oldDir newDir = os_call
     (\<lambda>s. if clash (files_of s newDir) ''storage'' \<or> map_of (files_of s newDir) ''storage'' \<noteq> None
           \<or> disk s newDir = None then Inl ErrExternal else Inr ())
     (\<lambda>s. put_tree oldDir (Some (filter (\<lambda>f. \<not> in_storage f) (files_of s oldDir)))
          (put_tree newDir (Some (files_of s newDir @ filter in_storage (files_of s oldDir))) s))"

section \<open>Weakest preconditions\<close>

lemma wp_core [io_simps]: "wp (core_io m) Q = (\<lambda>s. wp m (\<lambda>a w. Q a (s\<lparr>core := w\<rparr>)) (core s))"
  by (simp add: wp_def core_io_def fun_eq_iff split: prod.splits)

lemma wp_update_site [io_simps]: "wp (update_site f) Q = (\<lambda>s. Q () (f s))"
  by (simp add: wp_def update_site_def fun_eq_iff)

lemma wp_db_query:
  "wp (db_query q) Q s \<longleftrightarrow>
     (next_outcome s = Done \<longrightarrow> Q (q s) (ticked s)) \<and> (next_outcome s \<noteq> Done \<longrightarrow> Q (Inl ErrExternal) (ticked s))"
  by (cases "next_outcome s") (auto simp: wp_def db_query_def)

lemma wp_db_exec:
  "wp (db_exec q f) Q s \<longleftrightarrow>
     (next_outcome s = Done \<longrightarrow> Q (q s) (f (ticked s)))
     \<and> (next_outcome s = Lost \<longrightarrow> Q (Inl ErrExternal) (ticked s))
     \<and> (next_outcome s = Unacked \<longrightarrow> Q (Inl ErrExternal) (f (ticked s)))"
  by (cases "next_outcome s") (auto simp: wp_def db_exec_def)

lemma wp_os_call:
  "wp (os_call q f) Q s \<longleftrightarrow>
     (\<forall>a. next_outcome s = Done \<longrightarrow> q s = Inr a \<longrightarrow> Q (Inr a) (f (ticked s)))
     \<and> (\<forall>e. next_outcome s = Done \<longrightarrow> q s = Inl e \<longrightarrow> Q (Inl e) (ticked s))
     \<and> (next_outcome s \<noteq> Done \<longrightarrow> Q (Inl ErrExternal) (ticked s))"
  by (cases "next_outcome s"; cases "q s") (auto simp: wp_def os_call_def)

lemma ticked_simps [simp]:
  "disk (ticked s) = disk s" "zips (ticked s) = zips s" "installed (ticked s) = installed s"
  "registry (ticked s) = registry s" "sources (ticked s) = sources s" "module_migrations (ticked s) = module_migrations s" "pg (ticked s) = pg s"
  "fleet (ticked s) = fleet s" "requests (ticked s) = requests s" "now (core (ticked s)) = now (core s)"
  "outcomes (core (ticked s)) = outcomes (core s)" "gcm (core (ticked s)) = gcm (core s)"
  "settings (core (ticked s)) = settings (core s)" "files_of (ticked s) = files_of s"
  "row_affected n (ticked s) = row_affected n s"
  by (simp_all add: ticked_def files_of_def row_affected_def fun_eq_iff)

section \<open>Preservation\<close>

text \<open>
  Most invariants of the lifecycle do not look at the world of the handlers: they survive every call
  that only uses it, and for the others it is enough to look at the update.
\<close>

definition off_core :: "(site \<Rightarrow> bool) \<Rightarrow> bool" where
  "off_core I \<longleftrightarrow> (\<forall>s w. I (s\<lparr>core := w\<rparr>) = I s)"

lemma off_core_ticked [simp]: "off_core I \<Longrightarrow> I (ticked s) = I s"
  by (simp add: off_core_def ticked_def)

lemma keeps_core [inv_intros]: "off_core I \<Longrightarrow> keeps I (core_io m)"
  by (auto simp: keeps_def core_io_def off_core_def split: prod.splits)

lemma keeps_db_query [inv_intros]: "off_core I \<Longrightarrow> keeps I (db_query q)"
  by (simp add: keeps_def db_query_def)

lemma keeps_db_exec: "off_core I \<Longrightarrow> (\<And>s. I s \<Longrightarrow> I (f s)) \<Longrightarrow> keeps I (db_exec q f)"
  by (auto simp: keeps_def db_exec_def split: outcome.splits)

lemma keeps_os_call: "off_core I \<Longrightarrow> (\<And>s a. I s \<Longrightarrow> q s = Inr a \<Longrightarrow> I (f (ticked s))) \<Longrightarrow> keeps I (os_call q f)"
  by (auto simp: keeps_def os_call_def split: outcome.splits sum.splits)

lemma wp_keeps: "keeps I m \<Longrightarrow> I s \<Longrightarrow> (\<And>a t. I t \<Longrightarrow> Q a t) \<Longrightarrow> wp m Q s"
  by (rule wp_mono [OF keeps_wpD])

lemma wp_try_keeps:
  "keeps I m \<Longrightarrow> I s \<Longrightarrow> (\<And>e t. I t \<Longrightarrow> Q (Inl e) t) \<Longrightarrow> (\<And>a t. I t \<Longrightarrow> wp (f a) Q t) \<Longrightarrow> wp (try_bind m f) Q s"
  unfolding wp_try by (erule (1) wp_keeps) auto

lemma wp_bind_keeps:
  "keeps I m \<Longrightarrow> I s \<Longrightarrow> (\<And>a t. I t \<Longrightarrow> wp (f a) Q t) \<Longrightarrow> wp (m \<bind> f) Q s"
  unfolding wp_bind by (erule (1) wp_keeps) auto

end
