(* ===== verification/ModuleSchema.thy ===== *)
theory ModuleSchema
  imports Site
begin

text \<open>
  \<open>modules/migrations.go\<close>: the Postgres schema and role of a module, and its migrations at install
  and at update. What a module's SQL does is a parameter: whether Postgres accepts a text after the
  texts executed before, and the tables and sequences there are then. The transaction commands a
  file may hold are not: they are executed like the rest, in the transaction the migrations run in.
\<close>

section \<open>Parameters\<close>

text \<open>
  A file of SQL as Postgres splits it: stretches of statements, between \<open>BEGIN\<close>, \<open>COMMIT\<close> and
  \<open>ROLLBACK\<close>.
\<close>

datatype sql_piece = Sql string | SqlBegin | SqlCommit | SqlRollback

text \<open>
  \<open>Deps\<close> of package \<open>modules\<close>, with what is outside the program: the network, the archive and YAML
  decoders, SHA-256, cosign, the SQL of modules and the answers of their workers.
\<close>

record MDeps =
  M_deps :: Deps
  M_pool :: PoolConfig
  M_DataDir :: string
  M_sha256 :: "string \<Rightarrow> string"
  M_officialKey :: string
  M_cosignAvailable :: bool
  M_cosign :: "string \<Rightarrow> string \<Rightarrow> string \<Rightarrow> bool"          \<comment> \<open>key, bundle, file\<close>
  M_urlParse :: "string \<Rightarrow> (string \<times> string \<times> string) option"  \<comment> \<open>scheme, host, path\<close>
  M_fetch :: "nat \<Rightarrow> string \<Rightarrow> stream option"
  M_assets :: "nat \<Rightarrow> string \<Rightarrow> (string \<times> string) list option"
  M_unzip :: "string \<Rightarrow> zip_entry list option"
  M_os :: "nat \<Rightarrow> string \<Rightarrow> bool"
  M_yaml :: "string \<Rightarrow> Manifest option"
  M_script :: "string \<Rightarrow> sql_piece list"
  M_sql :: "bool \<Rightarrow> string list \<Rightarrow> string \<Rightarrow> bool"           \<comment> \<open>search path set, texts before, text\<close>
  M_tables :: "string list \<Rightarrow> string list"
  M_sequences :: "string list \<Rightarrow> string list"
  M_crudTable :: "string list \<Rightarrow> ManifestCrud \<Rightarrow> bool"
  M_egressHosts :: "nat \<Rightarrow> string \<Rightarrow> string list option"

section \<open>Schema and role\<close>

definition pg_update :: "(postgres \<Rightarrow> postgres) \<Rightarrow> site \<Rightarrow> site" where
  "pg_update f s = s\<lparr>pg := f (pg s)\<rparr>"

definition create_schema :: "string \<Rightarrow> unit res sio" where
  "create_schema schema = db_exec (\<lambda>_. Inr ())
     (pg_update (\<lambda>p. if pg_schemas p schema = None then p\<lparr>pg_schemas := (pg_schemas p)(schema \<mapsto> [])\<rparr> else p))"

definition set_role :: "string \<Rightarrow> string \<Rightarrow> site \<Rightarrow> site" where
  "set_role role password = pg_update (\<lambda>p. p\<lparr>pg_roles := (pg_roles p)(role \<mapsto> Some password)\<rparr>)"

definition role_exists :: "string \<Rightarrow> site \<Rightarrow> bool" where
  "role_exists role s \<longleftrightarrow> pg_roles (pg s) role \<noteq> None"

definition alter_role :: "string \<Rightarrow> string \<Rightarrow> unit res sio" where
  "alter_role role password = db_exec
     (\<lambda>s. if role_exists role s then Inr () else Inl ErrExternal)
     (\<lambda>s. if role_exists role s then set_role role password s else s)"

definition create_role :: "string \<Rightarrow> string \<Rightarrow> unit res sio" where
  "create_role role password = db_exec
     (\<lambda>s. if role_exists role s then Inl ErrExternal else Inr ())
     (\<lambda>s. if role_exists role s then s else set_role role password s)"

text \<open>32 random bytes in hexadecimal.\<close>

definition generateRolePassword :: "string res io" where
  "generateRolePassword = do { buf \<leftarrow> read_random 32; ok (hex_encode buf) }"

text \<open>The password: the stored one, or a new one that is stored before the role gets it.\<close>

definition role_password :: "Deps \<Rightarrow> string \<Rightarrow> string \<Rightarrow> string res sio" where
  "role_password d moduleName role =
     try_bind (GetModuleDBRolePassword d moduleName) (\<lambda>stored.
     try_bind (db_query (\<lambda>s. Inr (role_exists role s))) (\<lambda>roleExists.
     case stored of
       None \<Rightarrow>
         try_bind (core_io generateRolePassword) (\<lambda>password.
         try_bind (SetModuleDBRolePassword d moduleName password) (\<lambda>_.
         try_bind (if roleExists then alter_role role password else create_role role password) (\<lambda>_.
         ok password)))
     | Some password \<Rightarrow>
         if \<not> roleExists then try_bind (create_role role password) (\<lambda>_. ok password)
         else ok password))"

definition grant_kinds :: "string list" where
  "grant_kinds = [''usage, create on schema'', ''default privileges on tables'', ''default privileges on sequences'',
     ''all tables'', ''all sequences'']"

primrec grant_each :: "string \<Rightarrow> string \<Rightarrow> string list \<Rightarrow> unit res sio" where
  "grant_each schema role [] = ok ()"
| "grant_each schema role (k # ks) =
     try_bind (db_exec (\<lambda>_. Inr ()) (pg_update (\<lambda>p. p\<lparr>pg_grants := List.insert (k, schema, role) (pg_grants p)\<rparr>)))
       (\<lambda>_. grant_each schema role ks)"

primrec own_each :: "string \<Rightarrow> string \<Rightarrow> string list \<Rightarrow> unit res sio" where
  "own_each schema role [] = ok ()"
| "own_each schema role (n # ns) =
     try_bind (db_exec (\<lambda>_. Inr ()) (pg_update (\<lambda>p. p\<lparr>pg_owner := (pg_owner p)((schema, n) \<mapsto> role)\<rparr>)))
       (\<lambda>_. own_each schema role ns)"

definition schema_log :: "string \<Rightarrow> site \<Rightarrow> string list" where
  "schema_log schema s = (case pg_schemas (pg s) schema of Some l \<Rightarrow> l | None \<Rightarrow> [])"

definition provisionSchema :: "MDeps \<Rightarrow> string \<Rightarrow> string \<Rightarrow> string \<Rightarrow> string res sio" where
  "provisionSchema md moduleName schemaName roleName =
     try_bind (create_schema schemaName) (\<lambda>_.
     try_bind (role_password (M_deps md) moduleName roleName) (\<lambda>password.
     try_bind (grant_each schemaName roleName grant_kinds) (\<lambda>_.
     try_bind (db_query (\<lambda>s. Inr (M_tables md (schema_log schemaName s)))) (\<lambda>tableNames.
     try_bind (own_each schemaName roleName tableNames) (\<lambda>_.
     try_bind (db_query (\<lambda>s. Inr (M_sequences md (schema_log schemaName s)))) (\<lambda>seqNames.
     try_bind (own_each schemaName roleName seqNames) (\<lambda>_.
     try_bind (db_exec (\<lambda>_. Inr ()) (pg_update (\<lambda>p. p\<lparr>pg_grants :=
        filter (\<lambda>(_, sch, r). \<not> (sch = ''public'' \<and> r = roleName)) (pg_grants p)\<rparr>))) (\<lambda>_.   \<comment> \<open>revoke on public\<close>
     try_bind (db_exec (\<lambda>_. Inr ()) (\<lambda>s. s)) (\<lambda>_.            \<comment> \<open>create table module_migrations\<close>
     ok password)))))))))"

definition EnsureModuleDBRole :: "MDeps \<Rightarrow> string \<Rightarrow> string res sio" where
  "EnsureModuleDBRole md moduleName =
     (case moduleIdentifiers moduleName of
        Inl e \<Rightarrow> fail e
      | Inr (schemaName, roleName) \<Rightarrow> provisionSchema md moduleName schemaName roleName)"

definition modulePIIMigrated :: "string \<Rightarrow> bool sio" where
  "modulePIIMigrated moduleName = do {
     r \<leftarrow> IsModulePIIMigrated moduleName;
     State_Monad.return (case r of Inr b \<Rightarrow> b | Inl _ \<Rightarrow> False) }"

definition moduleDBRolePassword :: "MDeps \<Rightarrow> string \<Rightarrow> string sio" where
  "moduleDBRolePassword md moduleName = do {
     r \<leftarrow> GetModuleDBRolePassword (M_deps md) moduleName;
     State_Monad.return (case r of Inr (Some p) \<Rightarrow> p | _ \<Rightarrow> []) }"

text \<open>\<open>dropModuleSchema\<close>: only the first statement's failure is reported.\<close>

definition dropModuleSchema :: "string \<Rightarrow> unit res sio" where
  "dropModuleSchema moduleName =
     (case moduleIdentifiers moduleName of
        Inl e \<Rightarrow> fail e
      | Inr (schemaName, roleName) \<Rightarrow>
          try_bind (db_exec (\<lambda>_. Inr ()) (pg_update (\<lambda>p. p\<lparr>pg_schemas := (pg_schemas p)(schemaName := None)\<rparr>))) (\<lambda>_. do {
            _ \<leftarrow> db_exec (\<lambda>_. Inr ()) (\<lambda>s. s\<lparr>module_migrations :=
                   filter (\<lambda>(m, _). m \<noteq> moduleName) (module_migrations s)\<rparr>);
            _ \<leftarrow> db_exec (\<lambda>_. Inr ()) (pg_update (\<lambda>p. p\<lparr>pg_roles := (pg_roles p)(roleName := None)\<rparr>));
            _ \<leftarrow> ClearModuleDBRolePassword moduleName;
            ok () }))"

section \<open>Migrations\<close>

text \<open>The \<open>.sql\<close> files right below \<open>migrations\<close>, by name.\<close>

definition sql_files :: "tree \<Rightarrow> tree" where
  "sql_files t = sort_key fst
     (filter (\<lambda>(n, _). CHR ''/'' \<notin> set n \<and> has_suffix n ''.sql'')
       (map (\<lambda>(p, c). (drop (length ''migrations/'') p, c)) (filter (\<lambda>(p, _). has_prefix p ''migrations/'') t)))"

definition sqlFilesInDir :: "tree \<Rightarrow> tree res sio" where
  "sqlFilesInDir extracted = os_call (\<lambda>_. Inr (sql_files extracted)) (\<lambda>s. s)"

definition connectAsModuleRole :: "string \<Rightarrow> string \<Rightarrow> unit res sio" where
  "connectAsModuleRole roleName password =
     db_query (\<lambda>s. if pg_roles (pg s) roleName = Some (Some password) then Inr () else Inl ErrExternal)"

text \<open>
  The connection of the migrations, with the texts executed so far: inside a transaction (the number
  says whether it is the first one, with the \<open>search_path\<close> that \<open>SET LOCAL\<close> gave it), or outside, where
  the rest of a file is a transaction of its own.
\<close>

datatype tx_mode = InTx bool "string list" | NoTx "string list"

fun mode_log :: "tx_mode \<Rightarrow> string list" where
  "mode_log (InTx b l) = l"
| "mode_log (NoTx l) = l"

fun with_log :: "tx_mode \<Rightarrow> string list \<Rightarrow> tx_mode" where
  "with_log (InTx b l) l' = InTx b l'"
| "with_log (NoTx l) l' = NoTx l'"

text \<open>One piece: what is committed afterwards and where the connection is, or an error.\<close>

fun exec_piece :: "MDeps \<Rightarrow> string list \<Rightarrow> tx_mode \<Rightarrow> sql_piece \<Rightarrow> (string list \<times> tx_mode) option" where
  "exec_piece md db m (Sql q) =
     (if M_sql md (m = InTx True (mode_log m)) (mode_log m) q then Some (db, with_log m (mode_log m @ [q])) else None)"
| "exec_piece md db m SqlCommit = Some (mode_log m, NoTx (mode_log m))"
| "exec_piece md db m SqlRollback = Some (db, NoTx db)"
| "exec_piece md db m SqlBegin = Some (db, case m of NoTx l \<Rightarrow> InTx False l | _ \<Rightarrow> m)"

text \<open>One file: an error ends it and undoes what is not committed; its end commits what is outside a transaction.\<close>

fun exec_script :: "MDeps \<Rightarrow> string list \<Rightarrow> tx_mode \<Rightarrow> sql_piece list \<Rightarrow> string list \<times> tx_mode option" where
  "exec_script md db m [] = (case m of NoTx l \<Rightarrow> (l, Some m) | InTx _ _ \<Rightarrow> (db, Some m))"
| "exec_script md db m (p # ps) =
     (case exec_piece md db m p of None \<Rightarrow> (db, None) | Some (db', m') \<Rightarrow> exec_script md db' m' ps)"

definition set_log :: "string \<Rightarrow> string list \<Rightarrow> site \<Rightarrow> site" where
  "set_log schema l = pg_update (\<lambda>p. p\<lparr>pg_schemas := (pg_schemas p)(schema \<mapsto> l)\<rparr>)"

text \<open>\<open>tx.Exec\<close> of a file's content.\<close>

definition tx_exec :: "MDeps \<Rightarrow> string \<Rightarrow> tx_mode \<Rightarrow> string \<Rightarrow> tx_mode res sio" where
  "tx_exec md schema m text = db_exec
     (\<lambda>s. case snd (exec_script md (schema_log schema s) m (M_script md text)) of None \<Rightarrow> Inl ErrExternal | Some m' \<Rightarrow> Inr m')
     (\<lambda>s. let l = fst (exec_script md (schema_log schema s) m (M_script md text)) in
        if l = schema_log schema s then s else set_log schema l s)"

text \<open>Reading and executing the files.\<close>

primrec exec_files :: "MDeps \<Rightarrow> string \<Rightarrow> tx_mode \<Rightarrow> tree \<Rightarrow> tx_mode res sio" where
  "exec_files md schema m [] = ok m"
| "exec_files md schema m (f # fs) =
     try_bind (os_call (\<lambda>_. Inr ()) (\<lambda>s. s)) (\<lambda>_.
     try_bind (tx_exec md schema m (snd f)) (\<lambda>m'. exec_files md schema m' fs))"

text \<open>
  One transaction: begin, search path, the files, commit. What is not committed is not visible, and a
  failed commit may or may not have happened. On a connection that has left the transaction the
  last commit does nothing but warn.
\<close>

definition run_in_tx :: "MDeps \<Rightarrow> string \<Rightarrow> tree \<Rightarrow> unit res sio" where
  "run_in_tx md schemaName files =
     try_bind (db_query (\<lambda>s. Inr (schema_log schemaName s))) (\<lambda>log.
     try_bind (db_query (\<lambda>_. Inr ())) (\<lambda>_.
     try_bind (exec_files md schemaName (InTx True log) files) (\<lambda>m.
     db_exec (\<lambda>_. Inr ()) (case m of InTx _ l \<Rightarrow> set_log schemaName l | NoTx _ \<Rightarrow> (\<lambda>s. s)))))"

definition runModuleMigrations :: "MDeps \<Rightarrow> string \<Rightarrow> tree \<Rightarrow> unit res sio" where
  "runModuleMigrations md moduleName extracted =
     (case moduleIdentifiers moduleName of
        Inl e \<Rightarrow> fail e
      | Inr (schemaName, roleName) \<Rightarrow>
          try_bind (sqlFilesInDir extracted) (\<lambda>files.
          try_bind (provisionSchema md moduleName schemaName roleName) (\<lambda>password.
          if files = [] then ok ()
          else try_bind (connectAsModuleRole roleName password) (\<lambda>_. run_in_tx md schemaName files))))"

definition appliedMigrations :: "string \<Rightarrow> string list res sio" where
  "appliedMigrations moduleName =
     db_query (\<lambda>s. Inr (map snd (filter (\<lambda>(m, _). m = moduleName) (module_migrations s))))"

definition record_applied :: "string \<Rightarrow> string \<Rightarrow> unit res sio" where
  "record_applied moduleName file = db_exec (\<lambda>_. Inr ())
     (\<lambda>s. s\<lparr>module_migrations := List.insert (moduleName, file) (module_migrations s)\<rparr>)"

primrec record_each :: "string \<Rightarrow> tree \<Rightarrow> unit res sio" where
  "record_each moduleName [] = ok ()"
| "record_each moduleName (f # fs) = do { _ \<leftarrow> record_applied moduleName (fst f); record_each moduleName fs }"

definition runModuleUpdateMigrations :: "MDeps \<Rightarrow> string \<Rightarrow> tree \<Rightarrow> unit res sio" where
  "runModuleUpdateMigrations md moduleName extracted =
     (case moduleIdentifiers moduleName of
        Inl e \<Rightarrow> fail e
      | Inr (schemaName, roleName) \<Rightarrow>
          try_bind (sqlFilesInDir extracted) (\<lambda>allFiles.
          try_bind (provisionSchema md moduleName schemaName roleName) (\<lambda>password.
          if allFiles = [] then ok ()
          else do {
            applied \<leftarrow> appliedMigrations moduleName;
            (let pending = filter (\<lambda>f. fst f \<notin> set (case applied of Inr ns \<Rightarrow> ns | Inl _ \<Rightarrow> [])) allFiles in
             if pending = [] then ok ()
             else try_bind (connectAsModuleRole roleName password) (\<lambda>_.
                  try_bind (run_in_tx md schemaName pending) (\<lambda>_.
                  record_each moduleName pending))) })))"

end
