(* ===== verification/Lifecycle.thy ===== *)
theory Lifecycle
  imports ModuleSchema
begin

text \<open>
  Installing, updating and removing modules (\<open>modules/installer.go\<close>, \<open>updater.go\<close>, \<open>uninstaller.go\<close>,
  \<open>status.go\<close>, \<open>verifier.go\<close>). Temporary directories are private to the call that makes them: their
  contents are values here, not part of the disk.
\<close>

section \<open>Downloads\<close>

text \<open>A custom source's token, with the repository it may be sent to.\<close>

record githubCredential =
  GC_token :: string
  GC_repo :: string

definition no_credential :: githubCredential where
  "no_credential = \<lparr>GC_token = [], GC_repo = []\<rparr>"

definition authorizes :: "MDeps \<Rightarrow> githubCredential \<Rightarrow> string \<Rightarrow> bool" where
  "authorizes md c rawURL =
     (if GC_token c = [] \<or> GC_repo c = [] then False
      else case M_urlParse md rawURL of
        None \<Rightarrow> False
      | Some (scheme, host, upath) \<Rightarrow>
          if scheme \<noteq> ''https'' then False
          else if contains upath ''..'' then False
          else
            let path = to_lower (trim_prefix upath ''/''); repo = to_lower (GC_repo c) in
            if to_lower host = ''github.com'' then has_prefix path (repo @ ''/'')
            else if to_lower host = ''api.github.com'' then has_prefix path (''repos/'' @ repo @ ''/'')
            else False)"

definition githubRepoPath :: "string \<Rightarrow> string" where
  "githubRepoPath repoURL =
     (if \<not> has_prefix repoURL ''https://github.com/'' then []
      else case split_on CHR ''/'' (trim_suffix (trim_prefix repoURL ''https://github.com/'') ''/'') of
        [a, b] \<Rightarrow> if a = [] \<or> b = [] then [] else a @ ''/'' @ b
      | _ \<Rightarrow> [])"

definition resolveCustomSourceCredential :: "MDeps \<Rightarrow> string \<Rightarrow> string \<Rightarrow> githubCredential sio" where
  "resolveCustomSourceCredential md source sourceRepo =
     (if source \<noteq> ''custom'' then State_Monad.return no_credential
      else do {
        r \<leftarrow> GetCustomSourceByRepoURL (M_deps md) sourceRepo;
        State_Monad.return (case r of
          Inr (Some row) \<Rightarrow>
            if CS_Token row = [] \<or> githubRepoPath sourceRepo = [] then no_credential
            else \<lparr>GC_token = CS_Token row, GC_repo = githubRepoPath sourceRepo\<rparr>
        | _ \<Rightarrow> no_credential) })"

text \<open>
  A request: the URL and the token are noted, and the network answers. It stands for what the HTTP
  client makes of it, redirects included; only the request itself is noted.
\<close>

definition http_do :: "(nat \<Rightarrow> string \<Rightarrow> 'a option) \<Rightarrow> string \<Rightarrow> string option \<Rightarrow> 'a res sio" where
  "http_do net url token = State_Monad.State (\<lambda>s.
     (case net (calls (core s)) url of None \<Rightarrow> Inl ErrExternal | Some a \<Rightarrow> Inr a,
      (ticked s)\<lparr>requests := requests s @ [(url, token)]\<rparr>))"

text \<open>The pieces of a release download URL: owner and repository, tag, file.\<close>

definition split_at :: "string \<Rightarrow> string \<Rightarrow> (string \<times> string) option" where
  "split_at s sep = (case index_of s sep of
      None \<Rightarrow> None | Some i \<Rightarrow> Some (take i s, drop (i + length sep) s))"

definition resolveGithubAssetURL :: "MDeps \<Rightarrow> string \<Rightarrow> githubCredential \<Rightarrow> string res sio" where
  "resolveGithubAssetURL md rawURL cred =
     (case split_at (trim_prefix rawURL ''https://github.com/'') ''/releases/download/'' of
        None \<Rightarrow> fail (ErrInvalid ''not a releases/download URL'')
      | Some (ownerRepo, rest) \<Rightarrow>
          (case split_at rest ''/'' of
             None \<Rightarrow> fail (ErrInvalid ''could not split tag/filename'')
           | Some (tag, filename) \<Rightarrow>
               let apiURL = ''https://api.github.com/repos/'' @ ownerRepo @ ''/releases/tags/'' @ tag in
               if \<not> authorizes md cred apiURL then fail (ErrInvalid ''refusing to send custom-source token'')
               else try_bind (http_do (M_assets md) apiURL (Some (GC_token cred))) (\<lambda>assets.
                 case List.find (\<lambda>(name, url). name = filename) assets of
                   None \<Rightarrow> fail (ErrInvalid ''asset not found in release'')
                 | Some (_, url) \<Rightarrow>
                     if \<not> authorizes md cred url then fail (ErrInvalid ''release asset URL is outside'')
                     else ok url)))"

text \<open>\<open>downloadFile\<close>, up to the file's content; creating and writing the file is one more call.\<close>

definition downloadFile :: "MDeps \<Rightarrow> string \<Rightarrow> int \<Rightarrow> githubCredential \<Rightarrow> string res sio" where
  "downloadFile md rawURL maxBytes cred =
     try_bind (if authorizes md cred rawURL \<and> has_prefix rawURL ''https://github.com/'' \<and> contains rawURL ''/releases/download/''
               then resolveGithubAssetURL md rawURL cred else ok rawURL) (\<lambda>url.
     try_bind (http_do (M_fetch md) url (if authorizes md cred url then Some (GC_token cred) else None)) (\<lambda>body.
     os_call (\<lambda>_. download_copy body maxBytes) (\<lambda>s. s)))"

section \<open>Verification\<close>

definition hashSHA256File :: "MDeps \<Rightarrow> string \<Rightarrow> string res sio" where
  "hashSHA256File md archive = os_call (\<lambda>_. Inr (hex_encode (M_sha256 md archive))) (\<lambda>s. s)"

definition readHexFile :: "string \<Rightarrow> string res sio" where
  "readHexFile content = os_call (\<lambda>_. case GoStrings.fields (trim_space content) of
      [] \<Rightarrow> Inl (ErrInvalid ''sha256 file is empty'') | p # _ \<Rightarrow> Inr p) (\<lambda>s. s)"

definition VerifySHA256 :: "MDeps \<Rightarrow> string \<Rightarrow> string \<Rightarrow> string res sio" where
  "VerifySHA256 md archive expectedHex = os_call (\<lambda>_.
     let got = hex_encode (M_sha256 md archive) in
     if \<not> equal_fold got expectedHex then Inl (ErrInvalid ''sha256 mismatch'') else Inr got) (\<lambda>s. s)"

text \<open>\<open>cosign verify-blob\<close> is a parameter; the temporary key file may fail.\<close>

definition VerifyCosign :: "MDeps \<Rightarrow> string \<Rightarrow> string \<Rightarrow> string \<Rightarrow> bool res sio" where
  "VerifyCosign md archive bundle pubKeyPEM =
     (let key = (if pubKeyPEM = [] then M_officialKey md else pubKeyPEM) in
      if \<not> M_cosignAvailable md then fail (ErrInvalid ''cosign binary not available'')
      else if \<not> contains key ''-----BEGIN PUBLIC KEY-----'' then fail ErrKey
      else os_call (\<lambda>_. if M_cosign md key bundle archive then Inr True else Inl (ErrInvalid ''cosign verify-blob failed'')) (\<lambda>s. s))"

definition maxSHA256FileBytes :: int where "maxSHA256FileBytes = 1024"
definition maxSigFileBytes :: int where "maxSigFileBytes = 4096"

definition SettingKeyInstallDownloadTimeoutSeconds :: string where
  "SettingKeyInstallDownloadTimeoutSeconds = ''modules_install_download_timeout_seconds''"
definition SettingKeyMaxModuleZIPBytes :: string where "SettingKeyMaxModuleZIPBytes = ''max_module_zip_bytes''"

definition InstallDownloadTimeoutSeconds :: "int sio" where
  "InstallDownloadTimeoutSeconds = do {
     r \<leftarrow> core_io (GetSetting SettingKeyInstallDownloadTimeoutSeconds);
     State_Monad.return (case r of
       Inr (Some val) \<Rightarrow> (case atoi val of Some n \<Rightarrow> if n \<le> 0 then 300 else n | None \<Rightarrow> 300)
     | _ \<Rightarrow> 300) }"

definition max_zip_bytes :: "int sio" where
  "max_zip_bytes = do { r \<leftarrow> core_io (GetSetting SettingKeyMaxModuleZIPBytes); State_Monad.return (MaxModuleZIPBytes r) }"

text \<open>The address of a release's archive.\<close>

definition zip_url :: "Entry \<Rightarrow> string" where
  "zip_url e =
     (if has_prefix (En_ReleaseAsset e) ''https://'' \<or> has_prefix (En_ReleaseAsset e) ''http://'' then En_ReleaseAsset e
      else En_SourceRepo e @ ''/releases/download/'' @ En_LatestVersion e @ ''/'' @ En_ReleaseAsset e)"

text \<open>
  Download, checksum and signature, the same in \<open>Install\<close> and \<open>Update\<close>: the archive, its hash and
  whether the signature was verified. The two downloads run side by side; both are always made.
\<close>

definition verify_signature :: "MDeps \<Rightarrow> Entry \<Rightarrow> githubCredential \<Rightarrow> string \<Rightarrow> bool res sio" where
  "verify_signature md e cred archive =
     (if En_CosignSigURL e \<noteq> [] then
        try_bind (downloadFile md (En_CosignSigURL e) maxSigFileBytes cred) (\<lambda>bundle.
        VerifyCosign md archive bundle (En_CosignPubKey e))
      else if En_Source e \<noteq> ''official'' then do {
        dl \<leftarrow> downloadFile md (zip_url e @ ''.sig'') maxSigFileBytes cred;
        (case dl of
           Inl _ \<Rightarrow> ok False
         | Inr bundle \<Rightarrow> do {
             r \<leftarrow> VerifyCosign md archive bundle (En_CosignPubKey e);
             ok (case r of Inr b \<Rightarrow> b | Inl _ \<Rightarrow> False) }) }
      else fail (ErrInvalid ''official module has no cosign_sig_url''))"

definition fetch_release :: "MDeps \<Rightarrow> Entry \<Rightarrow> int \<Rightarrow> githubCredential \<Rightarrow> (string \<times> string \<times> bool) res sio" where
  "fetch_release md e maxZIPBytes cred =
     try_bind (os_call (\<lambda>_. Inr ()) (\<lambda>s. s)) (\<lambda>_. do {                 \<comment> \<open>temporary directory\<close>
       _ \<leftarrow> InstallDownloadTimeoutSeconds;
       zipR \<leftarrow> downloadFile md (zip_url e) maxZIPBytes cred;
       hashR \<leftarrow> downloadFile md (zip_url e @ ''.sha256'') maxSHA256FileBytes cred;
       try_bind (State_Monad.return zipR) (\<lambda>archive.
       try_bind (State_Monad.return hashR) (\<lambda>hashFile.
       try_bind (readHexFile hashFile) (\<lambda>expectedHex.
       try_bind (VerifySHA256 md archive expectedHex) (\<lambda>gotHex.
       try_bind (verify_signature md e cred archive) (\<lambda>cosignVerified.
       ok (archive, gotHex, cosignVerified)))))) })"

section \<open>Unpacking\<close>

text \<open>\<open>extractZIP\<close> into a directory of its own, as a tree; then the manifest in it.\<close>

definition tree_of :: "string \<Rightarrow> out_fs \<Rightarrow> tree" where
  "tree_of dir fs = fold (\<lambda>(f, bytes) t. AList.update (drop (length dir + 1) f) bytes t) (out_files fs) []"

definition unpack :: "MDeps \<Rightarrow> string \<Rightarrow> int \<Rightarrow> tree res sio" where
  "unpack md archive maxZIPBytes = State_Monad.State (\<lambda>s.
     (case extractZIP (M_os md (calls (core s))) (M_unzip md archive) ''/x'' maxZIPBytes \<lparr>out_dirs = [], out_files = []\<rparr> of
        (Inl e, _) \<Rightarrow> Inl e
      | (Inr _, fs) \<Rightarrow> Inr (tree_of ''/x'' fs), ticked s))"

definition read_manifest :: "MDeps \<Rightarrow> tree \<Rightarrow> Manifest res sio" where
  "read_manifest md t = os_call (\<lambda>_. case map_of t ''manifest.yaml'' of
      None \<Rightarrow> Inl ErrExternal | Some text \<Rightarrow> parseManifest (M_yaml md text)) (\<lambda>s. s)"

text \<open>\<open>validateCrudTable\<close> compares the table with the declared columns: a parameter on the SQL so far.\<close>

definition validateCrudTable :: "MDeps \<Rightarrow> string \<Rightarrow> ManifestCrud option \<Rightarrow> unit res sio" where
  "validateCrudTable md name crud =
     (case moduleIdentifiers name of
        Inl e \<Rightarrow> fail e
      | Inr (sch, _) \<Rightarrow> db_query (\<lambda>s. case crud of
          None \<Rightarrow> Inl (ErrInvalid ''crud block missing'')
        | Some c \<Rightarrow> if M_crudTable md (schema_log sch s) c then Inr () else Inl (ErrInvalid ''table does not match'')))"

definition check_tier1 :: "MDeps \<Rightarrow> Manifest \<Rightarrow> string \<Rightarrow> unit res sio" where
  "check_tier1 md mf name = (if Mf_Tier mf = 1 then validateCrudTable md name (Mf_Crud mf) else ok ())"

section \<open>Workers\<close>

definition fleet_io :: "(pool_state \<Rightarrow> 'a \<times> pool_state) \<Rightarrow> 'a sio" where
  "fleet_io f = State_Monad.State (\<lambda>s. let (a, p) = f (fleet s) in (a, s\<lparr>fleet := p\<rparr>))"

definition worker_opts :: "MDeps \<Rightarrow> string \<Rightarrow> Manifest \<Rightarrow> string list \<Rightarrow> WorkerOptions sio" where
  "worker_opts md name mf egress = do {
     password \<leftarrow> moduleDBRolePassword md name;
     migrated \<leftarrow> modulePIIMigrated name;
     (let destDir = path_join [M_DataDir md, name] in
      State_Monad.return \<lparr>WO_EgressHosts = egress,
        WO_Jobs = ResolveJobEntrypoints destDir (Mf_Jobs mf) (Mf_EgressHostsHandler mf),
        WO_SkipTLSVerify = Mf_TLSSkipVerify mf, WO_EgressPolicy = Mf_DynamicEgressAllow mf,
        WO_DBRolePassword = password, WO_PIIMigrated = migrated\<rparr>) }"

definition start_worker :: "MDeps \<Rightarrow> string \<Rightarrow> Manifest \<Rightarrow> string list \<Rightarrow> unit res sio" where
  "start_worker md name mf egress = do {
     opts \<leftarrow> worker_opts md name mf egress;
     fleet_io (Start (M_pool md) name (path_join [path_join [M_DataDir md, name], Mf_Handler mf]) opts) }"

text \<open>Asking the worker for its hosts and restarting it with them, best effort.\<close>

definition reload_dynamic :: "MDeps \<Rightarrow> string \<Rightarrow> Manifest \<Rightarrow> unit sio" where
  "reload_dynamic md name mf =
     (if Mf_DynamicEgress mf \<and> Mf_EgressHostsHandler mf \<noteq> [] then do {
        s \<leftarrow> State_Monad.get;
        update_site ticked;
        (case M_egressHosts md (calls (core s)) name of
           None \<Rightarrow> State_Monad.return ()
         | Some hosts \<Rightarrow> fleet_io (\<lambda>p. case ReloadEgress (M_pool md) name hosts p of (_, _, p') \<Rightarrow> ((), p'))) }
      else State_Monad.return ())"

section \<open>Install\<close>

text \<open>A failure after the row is inserted marks the module failed.\<close>

definition failing :: "string \<Rightarrow> 'a res sio \<Rightarrow> ('a \<Rightarrow> 'b res sio) \<Rightarrow> 'b res sio" where
  "failing name m f = do {
     r \<leftarrow> m;
     (case r of
        Inr a \<Rightarrow> f a
      | Inl e \<Rightarrow> do { _ \<leftarrow> UpdateModuleStatus name ModuleStatusFailed; fail e }) }"

text \<open>From the inserted row on: the files, the migrations, the worker, the status.\<close>

definition activate :: "MDeps \<Rightarrow> Manifest \<Rightarrow> string \<Rightarrow> tree \<Rightarrow> unit res sio" where
  "activate md mf name extracted =
     (let destDir = path_join [M_DataDir md, name] in
      failing name (MkdirAll destDir) (\<lambda>_.
      failing name (copyDir extracted destDir) (\<lambda>_.
      failing name (runModuleMigrations md (Mf_Name mf) extracted) (\<lambda>_.
      failing name (check_tier1 md mf (Mf_Name mf)) (\<lambda>_.
      failing name (if Mf_Tier mf \<ge> 2 then start_worker md (Mf_Name mf) mf (Mf_EgressAllowlist mf) else ok ()) (\<lambda>_. do {
        (if Mf_Tier mf \<ge> 2 then reload_dynamic md (Mf_Name mf) mf else State_Monad.return ());
        active \<leftarrow> UpdateModuleStatus name ModuleStatusActive;
        (case active of
           Inl e \<Rightarrow> do {
             (if Mf_Tier mf \<ge> 2 then fleet_io (\<lambda>p. ((), Stop (Mf_Name mf) p)) else State_Monad.return ());
             fail e }
         | Inr _ \<Rightarrow> ok ()) }))))))"

definition Install :: "MDeps \<Rightarrow> Entry \<Rightarrow> unit res sio" where
  "Install md e =
     (if En_LatestVersion e = [] then fail (ErrInvalid ''no version known'')
      else do {
        maxZIPBytes \<leftarrow> max_zip_bytes;
        try_bind (GetInstalledModule (En_Name e)) (\<lambda>row.
        if row \<noteq> None then fail (ErrInvalid ''already installed'')
        else do {
          cred \<leftarrow> resolveCustomSourceCredential md (En_Source e) (En_SourceRepo e);
          try_bind (fetch_release md e maxZIPBytes cred) (\<lambda>(archive, gotHex, cosignVerified).
          try_bind (unpack md archive maxZIPBytes) (\<lambda>extracted.
          try_bind (read_manifest md extracted) (\<lambda>mf.
          if Mf_Name mf \<noteq> En_Name e then fail (ErrInvalid ''manifest name mismatch'')
          else try_bind (State_Monad.return (validateManifestTier mf)) (\<lambda>_.
          try_bind (InsertInstalledModule (Mf_Name mf) (Mf_Version mf) (Mf_Tier mf) (En_Source e) (zip_url e) gotHex mf
                      cosignVerified (En_LogoURL e)) (\<lambda>_.
          activate md mf (En_Name e) extracted))))) }) })"

definition InstallManual :: "MDeps \<Rightarrow> string \<Rightarrow> unit res sio" where
  "InstallManual md archive = do {
     maxZIPBytes \<leftarrow> max_zip_bytes;
     try_bind (os_call (\<lambda>_. Inr ()) (\<lambda>s. s)) (\<lambda>_.                 \<comment> \<open>temporary directory\<close>
     try_bind (unpack md archive maxZIPBytes) (\<lambda>extracted.
     try_bind (read_manifest md extracted) (\<lambda>mf.
     try_bind (State_Monad.return (validateManifestTier mf)) (\<lambda>_.
     try_bind (GetInstalledModule (Mf_Name mf)) (\<lambda>row.
     if row \<noteq> None then fail (ErrInvalid ''already installed'')
     else try_bind (hashSHA256File md archive) (\<lambda>gotHex.
       try_bind (InsertInstalledModule (Mf_Name mf) (Mf_Version mf) (Mf_Tier mf) ''manual'' [] gotHex mf False []) (\<lambda>_.
       activate md mf (Mf_Name mf) extracted))))))) }"

section \<open>Update\<close>

text \<open>Going back to the cached archive of the version before, whose content is the file \<open>cachedZip\<close>.\<close>

definition rollback :: "MDeps \<Rightarrow> string \<Rightarrow> string \<Rightarrow> err \<Rightarrow> unit res sio" where
  "rollback md name cachedZip origErr =
     (if cachedZip = [] then do { _ \<leftarrow> UpdateModuleStatus name ModuleStatusFailed; fail origErr }
      else do {
        _ \<leftarrow> UpdateModuleStatus name ModuleStatusDegraded;
        failing name (os_call (\<lambda>_. Inr ()) (\<lambda>s. s)) (\<lambda>_. do {      \<comment> \<open>temporary directory\<close>
          maxZIPBytes \<leftarrow> max_zip_bytes;
          failing name (do { s \<leftarrow> State_Monad.get;
                             (case zips s cachedZip of None \<Rightarrow> fail ErrExternal | Some z \<Rightarrow> unpack md z maxZIPBytes) }) (\<lambda>extracted.
          failing name (copyDir extracted (path_join [M_DataDir md, name])) (\<lambda>_. do {
            _ \<leftarrow> UpdateModuleStatus name ModuleStatusActive;
            fail origErr })) }) })"

definition or_rollback :: "MDeps \<Rightarrow> string \<Rightarrow> string \<Rightarrow> 'a res sio \<Rightarrow> ('a \<Rightarrow> unit res sio) \<Rightarrow> unit res sio" where
  "or_rollback md name cachedZip m f = do {
     r \<leftarrow> m; (case r of Inr a \<Rightarrow> f a | Inl e \<Rightarrow> rollback md name cachedZip e) }"

text \<open>
  The swap of the directories, and what undoes it: the new files beside the old directory, the old
  one out of the way, the new one in its place, the uploads over to it, the old one removed.
\<close>

definition swap_dirs :: "string \<Rightarrow> string \<Rightarrow> string \<Rightarrow> tree \<Rightarrow> unit res sio" where
  "swap_dirs destDir newDir oldDir extracted =
     try_bind (MkdirAll newDir) (\<lambda>_. do {
       copied \<leftarrow> copyDir extracted newDir;
       (case copied of
          Inl e \<Rightarrow> do { _ \<leftarrow> RemoveAll newDir; fail e }
        | Inr _ \<Rightarrow> do {
            away \<leftarrow> Rename destDir oldDir;
            (case away of
               Inl e \<Rightarrow> do { _ \<leftarrow> RemoveAll newDir; fail e }
             | Inr _ \<Rightarrow> do {
                 inPlace \<leftarrow> Rename newDir destDir;
                 (case inPlace of
                    Inl e \<Rightarrow> do { _ \<leftarrow> Rename oldDir destDir; _ \<leftarrow> RemoveAll newDir; fail e }
                  | Inr _ \<Rightarrow> do {
                      s \<leftarrow> State_Monad.get;
                      _ \<leftarrow> (if list_ex in_storage (files_of s oldDir) then move_storage oldDir destDir else ok ());
                      _ \<leftarrow> RemoveAll oldDir;
                      ok () }) }) }) })"

text \<open>
  The names beside the module's directory, as the file system resolves them. No version is checked:
  one with a \<open>/\<close> or a \<open>..\<close> component names some other directory.
\<close>

definition new_dir :: "string \<Rightarrow> string \<Rightarrow> string" where
  "new_dir destDir version = path_clean (destDir @ ''.new-'' @ version)"

definition old_dir :: "string \<Rightarrow> string \<Rightarrow> string" where
  "old_dir destDir version = path_clean (destDir @ ''.old-'' @ version)"

text \<open>
  From the accepted manifest on, the same in \<open>Update\<close> and \<open>UpdateManual\<close>: files, migrations, row.
\<close>

definition apply_update ::
  "MDeps \<Rightarrow> string \<Rightarrow> InstalledModuleRow \<Rightarrow> string \<Rightarrow> Manifest \<Rightarrow> tree \<Rightarrow> string \<Rightarrow> string \<Rightarrow> string \<Rightarrow> bool \<Rightarrow> string \<Rightarrow> unit res sio" where
  "apply_update md name row target mf extracted cachedZip gotHex zipURL cosignVerified logoURL =
     (let destDir = path_join [M_DataDir md, name] in
      or_rollback md name cachedZip
        (swap_dirs destDir (new_dir destDir target) (old_dir destDir (IM_Version row)) extracted) (\<lambda>_.
      or_rollback md name cachedZip (runModuleUpdateMigrations md name extracted) (\<lambda>_.
      or_rollback md name cachedZip (check_tier1 md mf name) (\<lambda>_.
      try_bind (updateInstalledModuleRecord name (Mf_Version mf) (Mf_Tier mf) gotHex zipURL mf cosignVerified logoURL) (\<lambda>_.
      try_bind (UpdateModuleStatus name ModuleStatusActive) (\<lambda>_. do {
        _ \<leftarrow> SetModuleAvailableVersion name [];
        (if cachedZip \<noteq> [] then do {
           _ \<leftarrow> db_exec (\<lambda>_. Inr ()) (\<lambda>s. s\<lparr>zips := (zips s)(cachedZip := None)\<rparr>);
           _ \<leftarrow> ClearModuleCachedZip name;
           State_Monad.return () }
         else State_Monad.return ());
        ok () }))))))"

text \<open>\<open>cacheCurrentZIP\<close>: the archive of the installed version, into a file; a failure may leave a part of it.\<close>

definition cacheCurrentZIP :: "MDeps \<Rightarrow> string \<Rightarrow> string \<Rightarrow> int \<Rightarrow> githubCredential \<Rightarrow> unit res sio" where
  "cacheCurrentZIP md releaseURL path maxBytes cred = do {
     _ \<leftarrow> InstallDownloadTimeoutSeconds;
     try_bind (downloadFile md releaseURL maxBytes cred) (\<lambda>content.
     db_exec (\<lambda>_. Inr ()) (\<lambda>s. s\<lparr>zips := (zips s)(path \<mapsto> content)\<rparr>)) }"

definition cached_zip_path :: "MDeps \<Rightarrow> string \<Rightarrow> string \<Rightarrow> string" where
  "cached_zip_path md name version =
     path_join [path_join [M_DataDir md, ''.rollback''], name @ ''-'' @ version @ ''.zip'']"

definition Update :: "MDeps \<Rightarrow> Entry \<Rightarrow> unit res sio" where
  "Update md e =
     (let name = En_Name e in
      if En_LatestVersion e = [] then fail (ErrInvalid ''no target version known'')
      else try_bind (GetInstalledModule name) (\<lambda>found.
        case found of
          None \<Rightarrow> fail (ErrInvalid ''not installed'')
        | Some row \<Rightarrow>
            if IM_Pinned row then fail (ErrInvalid ''module is pinned'')
            else if IM_Version row = En_LatestVersion e then fail (ErrInvalid ''already on latest version'')
            else do {
              maxZIPBytes \<leftarrow> max_zip_bytes;
              try_bind (MkdirAll (path_join [M_DataDir md, ''.rollback''])) (\<lambda>_. do {
                cred \<leftarrow> resolveCustomSourceCredential md (En_Source e) (En_SourceRepo e);
                cached \<leftarrow> cacheCurrentZIP md (IM_ReleaseURL row) (cached_zip_path md name (IM_Version row)) maxZIPBytes cred;
                cachedZip \<leftarrow> (case cached of
                    Inl _ \<Rightarrow> State_Monad.return []
                  | Inr _ \<Rightarrow> do {
                      _ \<leftarrow> SetModuleCachedZip name (cached_zip_path md name (IM_Version row));
                      State_Monad.return (cached_zip_path md name (IM_Version row)) });
                try_bind (fetch_release md e maxZIPBytes cred) (\<lambda>(archive, gotHex, cosignVerified).
                try_bind (unpack md archive maxZIPBytes) (\<lambda>extracted.
                try_bind (read_manifest md extracted) (\<lambda>mf.
                if Mf_Name mf \<noteq> name then fail (ErrInvalid ''manifest name mismatch'')
                else try_bind (State_Monad.return (validateManifestTier mf)) (\<lambda>_.
                apply_update md name row (En_LatestVersion e) mf extracted cachedZip gotHex (zip_url e)
                  cosignVerified (En_LogoURL e))))) }) }))"

definition UpdateManual :: "MDeps \<Rightarrow> string \<Rightarrow> unit res sio" where
  "UpdateManual md archive =
     try_bind (os_call (\<lambda>_. Inr ()) (\<lambda>s. s)) (\<lambda>_. do {              \<comment> \<open>temporary directory\<close>
       maxZIPBytes \<leftarrow> max_zip_bytes;
       try_bind (unpack md archive maxZIPBytes) (\<lambda>extracted.
       try_bind (read_manifest md extracted) (\<lambda>mf.
       try_bind (GetInstalledModule (Mf_Name mf)) (\<lambda>found.
       case found of
         None \<Rightarrow> fail (ErrInvalid ''not installed'')
       | Some row \<Rightarrow>
           if IM_Pinned row then fail (ErrInvalid ''module is pinned'')
           else try_bind (State_Monad.return (validateManifestTier mf)) (\<lambda>_.
             try_bind (hashSHA256File md archive) (\<lambda>gotHex.
             apply_update md (Mf_Name mf) row (Mf_Version mf) mf extracted [] gotHex [] False []))))) })"

section \<open>Uninstall\<close>

definition Uninstall :: "MDeps \<Rightarrow> string \<Rightarrow> unit res sio" where
  "Uninstall md name =
     try_bind (GetInstalledModule name) (\<lambda>found.
     case found of
       None \<Rightarrow> fail (ErrInvalid ''not installed'')
     | Some row \<Rightarrow>
         if IM_Pinned row then fail (ErrInvalid ''module is pinned'')
         else if IM_Status row = ModuleStatusInstalling then fail (ErrInvalid ''installation is still in progress'')
         else try_bind (UpdateModuleStatus name ModuleStatusIsolated) (\<lambda>_. do {
           fleet_io (\<lambda>p. ((), Stop name p));
           _ \<leftarrow> RemoveAll (path_join [M_DataDir md, name]);
           (case IM_CachedZipPath row of
              Some p \<Rightarrow> if p = [] then State_Monad.return () else do {
                _ \<leftarrow> db_exec (\<lambda>_. Inr ()) (\<lambda>s. s\<lparr>zips := (zips s)(p := None)\<rparr>);
                State_Monad.return () }
            | None \<Rightarrow> State_Monad.return ());
           try_bind (DeleteInstalledModule name) (\<lambda>_. ok ()) }))"

end
