(* ===== verification/SchemaLaws.thy ===== *)
theory SchemaLaws
  imports ModuleSchema Sessions WorkerLaws
begin

text \<open>
  What the migrations of a module guarantee, whatever calls fail: a run of migrations is committed as
  a whole or not at all, and only in the module's own schema; and what provisioning does to the role.
\<close>

section \<open>Frames\<close>

definition logs_are :: "(string \<Rightarrow> string list) \<Rightarrow> site \<Rightarrow> bool" where
  "logs_are l s \<longleftrightarrow> (\<forall>sch. schema_log sch s = l sch)"

text \<open>What provisioning and migrating never touch.\<close>

definition around :: "site \<Rightarrow> site \<Rightarrow> bool" where
  "around s t \<longleftrightarrow> disk t = disk s \<and> zips t = zips s \<and> registry t = registry s \<and> sources t = sources s \<and> fleet t = fleet s
     \<and> requests t = requests s"

lemma off_core_intros [simp]:
  "off_core (logs_are l)" "off_core (\<lambda>s. module_migrations s = mm)" "off_core (around s)"
  "off_core (\<lambda>s. P (pg s))" "off_core (\<lambda>s. installed s = rs)" "off_core (\<lambda>s. Pd (disk s))"
  "off_core (\<lambda>s. Pi (installed s))"
  by (simp_all add: off_core_def logs_are_def schema_log_def around_def)

lemma schema_log_simps [simp]:
  "schema_log sch (ticked s) = schema_log sch s" "schema_log sch (s\<lparr>core := w\<rparr>) = schema_log sch s"
  "schema_log sch (patch_row n f s) = schema_log sch s" "schema_log sch (set_role r p s) = schema_log sch s"
  "schema_log sch (pg_update (\<lambda>p. p\<lparr>pg_grants := g p\<rparr>) s) = schema_log sch s"
  "schema_log sch (pg_update (\<lambda>p. p\<lparr>pg_owner := h p\<rparr>) s) = schema_log sch s"
  "schema_log sch (s\<lparr>module_migrations := mm\<rparr>) = schema_log sch s"
  by (simp_all add: schema_log_def patch_row_def set_role_def pg_update_def)

lemma logs_are_simps [simp]:
  "logs_are l (ticked s) = logs_are l s" "logs_are l (s\<lparr>core := w\<rparr>) = logs_are l s"
  "logs_are l (patch_row n f s) = logs_are l s" "logs_are l (set_role r p s) = logs_are l s"
  "logs_are l (pg_update (\<lambda>p. p\<lparr>pg_grants := g p\<rparr>) s) = logs_are l s"
  "logs_are l (pg_update (\<lambda>p. p\<lparr>pg_owner := h p\<rparr>) s) = logs_are l s"
  "logs_are l (s\<lparr>module_migrations := mm\<rparr>) = logs_are l s"
  by (simp_all add: logs_are_def)

text \<open>An invariant that every single statement of provisioning keeps.\<close>

definition provision_stable :: "(site \<Rightarrow> bool) \<Rightarrow> bool" where
  "provision_stable I \<longleftrightarrow> off_core I \<and> (\<forall>s n enc. I s \<longrightarrow> I (patch_row n (\<lambda>r. r\<lparr>IM_DBRolePasswordEnc := enc\<rparr>) s))
     \<and> (\<forall>s r p. I s \<longrightarrow> I (set_role r p s))
     \<and> (\<forall>s g. I s \<longrightarrow> I (pg_update (\<lambda>p. p\<lparr>pg_grants := g p\<rparr>) s))
     \<and> (\<forall>s h. I s \<longrightarrow> I (pg_update (\<lambda>p. p\<lparr>pg_owner := h p\<rparr>) s))
     \<and> (\<forall>s sch. I s \<longrightarrow> pg_schemas (pg s) sch = None
           \<longrightarrow> I (pg_update (\<lambda>p. p\<lparr>pg_schemas := (pg_schemas p)(sch \<mapsto> [])\<rparr>) s))"

lemma keeps_patch: "off_core I \<Longrightarrow> (\<And>s t. I s \<Longrightarrow> I (patch_row n (f t) s)) \<Longrightarrow> keeps I (patch n f)"
  unfolding patch_def by (rule keeps_db_exec) auto

lemma keeps_grant_each: "provision_stable I \<Longrightarrow> keeps I (grant_each sch r ks)"
  by (induction ks) (auto intro!: inv_intros keeps_db_exec simp: provision_stable_def)

lemma keeps_own_each: "provision_stable I \<Longrightarrow> keeps I (own_each sch r ks)"
  by (induction ks) (auto intro!: inv_intros keeps_db_exec simp: provision_stable_def)

lemma keeps_role_password: "provision_stable I \<Longrightarrow> keeps I (role_password d n role)"
  unfolding role_password_def GetModuleDBRolePassword_def SetModuleDBRolePassword_def alter_role_def create_role_def
  by (intro inv_intros keeps_patch keeps_db_exec) (auto simp: provision_stable_def)

lemma keeps_create_schema: "provision_stable I \<Longrightarrow> keeps I (create_schema sch)"
  unfolding create_schema_def
  by (intro keeps_db_exec) (auto simp: provision_stable_def pg_update_def)

lemma keeps_provisionSchema: "provision_stable I \<Longrightarrow> keeps I (provisionSchema md n sch role)"
  unfolding provisionSchema_def
  by (intro inv_intros keeps_create_schema keeps_role_password keeps_grant_each keeps_own_each keeps_db_exec)
    (auto simp: provision_stable_def)

lemma provision_stable_logs [simp]: "provision_stable (logs_are l)"
  by (auto simp: provision_stable_def) (auto simp: logs_are_def schema_log_def pg_update_def, metis option.simps(4))

lemma provision_stable_migrations [simp]: "provision_stable (\<lambda>s. module_migrations s = mm)"
  by (auto simp: provision_stable_def pg_update_def patch_row_def set_role_def)

lemma provision_stable_around [simp]: "provision_stable (around s)"
  by (auto simp: provision_stable_def pg_update_def patch_row_def set_role_def around_def)

lemma provision_stable_conj: "provision_stable I \<Longrightarrow> provision_stable J \<Longrightarrow> provision_stable (\<lambda>s. I s \<and> J s)"
  by (auto simp: provision_stable_def off_core_def)

section \<open>A transaction\<close>

text \<open>A file without transaction commands, and the texts it executes.\<close>

fun sql_text :: "sql_piece \<Rightarrow> string option" where
  "sql_text (Sql q) = Some q"
| "sql_text _ = None"

definition plain_script :: "MDeps \<Rightarrow> string \<times> string \<Rightarrow> bool" where
  "plain_script md f \<longleftrightarrow> list_all (\<lambda>p. sql_text p \<noteq> None) (M_script md (snd f))"

definition texts_of :: "MDeps \<Rightarrow> tree \<Rightarrow> string list" where
  "texts_of md fs = concat (map (\<lambda>f. map (the \<circ> sql_text) (M_script md (snd f))) fs)"

lemma exec_plain:
  "list_all (\<lambda>p. sql_text p \<noteq> None) ps \<Longrightarrow>
     \<exists>r. exec_script md db (InTx b l) ps = (db, r) \<and> (r = None \<or> r = Some (InTx b (l @ map (the \<circ> sql_text) ps)))"
proof (induction ps arbitrary: l)
  case (Cons p ps)
  then obtain q where "p = Sql q" by (cases p) auto
  with Cons.prems Cons.IH [of "l @ [q]"] show ?case by auto
qed simp

lemma wp_exec_files:
  assumes "list_all (plain_script md) fs"
    and "\<And>t. I t \<Longrightarrow> Q (Inr (InTx b (l @ texts_of md fs))) t" and "\<And>e t. I t \<Longrightarrow> Q (Inl e) t" and "off_core I" and "I s"
  shows "wp (exec_files md sch (InTx b l) fs) Q s"
  using assms
proof (induction fs arbitrary: l s)
  case (Cons f fs)
  have "wp (tx_exec md sch (InTx b l) (snd f))
      (\<lambda>r t. I t \<and> (\<forall>m. r = Inr m \<longrightarrow> m = InTx b (l @ texts_of md [f]))) t" if t: "I t" for t
  proof -
    have "list_all (\<lambda>p. sql_text p \<noteq> None) (M_script md (snd f))" using Cons.prems(1) by (simp add: plain_script_def)
    from exec_plain [OF this, of md "schema_log sch t" b l] obtain r
      where "exec_script md (schema_log sch t) (InTx b l) (M_script md (snd f)) = (schema_log sch t, r)"
        "r = None \<or> r = Some (InTx b (l @ texts_of md [f]))" by (auto simp: texts_of_def)
    then show ?thesis using t Cons.prems(4) by (auto simp: tx_exec_def wp_db_exec)
  qed
  moreover have "wp (exec_files md sch (InTx b (l @ texts_of md [f])) fs) Q t" if "I t" for t
    by (rule Cons.IH) (use Cons.prems that in \<open>auto simp: texts_of_def\<close>)
  ultimately have "wp (try_bind (tx_exec md sch (InTx b l) (snd f)) (\<lambda>m'. exec_files md sch m' fs)) Q t" if "I t" for t
    unfolding wp_try using that Cons.prems(3) by (fastforce elim: wp_mono)
  then show ?case
    using Cons.prems(3-5) by (simp add: wp_try [of "os_call _ _"] wp_os_call)
qed (simp add: wp_ok texts_of_def)

lemma schema_log_commit:
  "schema_log sch' (set_log sch log s) = (if sch' = sch then log else schema_log sch' s)"
  by (simp add: schema_log_def set_log_def pg_update_def)

definition settled :: "site \<Rightarrow> site \<Rightarrow> bool" where
  "settled s t \<longleftrightarrow> logs_are (\<lambda>x. schema_log x s) t \<and> around s t \<and> module_migrations t = module_migrations s"

lemma settled_refl [simp]: "settled s s"
  by (simp add: settled_def logs_are_def around_def)

lemma settled_stable [simp]: "provision_stable (settled s)"
  unfolding settled_def by (intro provision_stable_conj) simp_all

lemma settled_off_core [simp]: "off_core (settled s)"
  using settled_stable [of s] by (simp only: provision_stable_def)

lemma settled_log: "settled s t \<Longrightarrow> schema_log sch t = schema_log sch s"
  by (simp add: settled_def logs_are_def)

definition committed :: "string \<Rightarrow> string list \<Rightarrow> site \<Rightarrow> site \<Rightarrow> bool" where
  "committed sch new s t \<longleftrightarrow> logs_are ((\<lambda>x. schema_log x s)(sch := schema_log sch s @ new)) t \<and> around s t"

lemma committed_off_core [simp]: "off_core (committed sch new s)"
  by (simp add: committed_def off_core_def around_def)

lemma committed_nil: "settled s t \<Longrightarrow> committed sch [] s t"
  by (simp add: settled_def committed_def logs_are_def)

lemma committed_commit:
  "settled s t \<Longrightarrow> committed sch new s (set_log sch (schema_log sch s @ new) t)"
  by (simp add: settled_def committed_def logs_are_def schema_log_commit) (simp add: around_def set_log_def pg_update_def)

text \<open>All or nothing: without an error everything is committed; with one, all of it or nothing.\<close>

definition tx_result :: "string \<Rightarrow> string list \<Rightarrow> site \<Rightarrow> unit res \<Rightarrow> site \<Rightarrow> bool" where
  "tx_result sch new s r t \<longleftrightarrow> (settled s t \<and> \<not> is_ok r) \<or> committed sch new s t"

lemma tx_result_error [simp]: "settled s t \<Longrightarrow> tx_result sch new s (Inl e) t"
  by (simp add: tx_result_def)

lemma wp_run_in_tx:
  assumes "settled s0 s" and "list_all (plain_script md) files"
  shows "wp (run_in_tx md sch files) (tx_result sch (texts_of md files) s0) s"
proof -
  let ?Q = "tx_result sch (texts_of md files) s0"
  have "wp (exec_files md sch (InTx True (schema_log sch s)) files)
      (\<lambda>r t. (\<forall>e. r = Inl e \<longrightarrow> ?Q (Inl e) t)
        \<and> (\<forall>m. r = Inr m \<longrightarrow> wp (db_exec (\<lambda>_. Inr ()) (case m of InTx _ l \<Rightarrow> set_log sch l | NoTx _ \<Rightarrow> (\<lambda>s. s))) ?Q t)) (ticked (ticked s))"
    by (rule wp_exec_files [where I = "settled s0", OF assms(2)])
      (auto simp: assms(1) wp_db_exec settled_log [OF assms(1)] tx_result_def committed_commit)
  then show ?thesis
    unfolding run_in_tx_def by (auto simp: wp_try wp_db_query assms(1))
qed

lemma keeps_record_each: "off_core I \<Longrightarrow> (\<And>s mm. I s \<Longrightarrow> I (s\<lparr>module_migrations := mm\<rparr>)) \<Longrightarrow> keeps I (record_each n fs)"
  by (induction fs) (auto simp: record_applied_def intro!: inv_intros keeps_db_exec)

lemma keeps_committed_record: "keeps (committed sch new s) (record_each n fs)"
  by (rule keeps_record_each) (auto simp: committed_def around_def)

section \<open>The migrations of an update\<close>

text \<open>The files an update runs: those not on record; all of them when the record cannot be read.\<close>

definition pending :: "site \<Rightarrow> string \<Rightarrow> tree \<Rightarrow> tree" where
  "pending s n files = filter (\<lambda>f. (n, fst f) \<notin> set (module_migrations s)) files"

lemma pending_applied:
  "filter (\<lambda>f. fst f \<notin> snd ` {x \<in> set (module_migrations s). case x of (m, _) \<Rightarrow> m = n}) files = pending s n files"
  unfolding pending_def by (intro filter_cong refl) force

text \<open>No operation changes which calls fail.\<close>

definition calls_as :: "(nat \<Rightarrow> outcome) \<Rightarrow> site \<Rightarrow> bool" where
  "calls_as oc s \<longleftrightarrow> outcomes (core s) = oc"

lemma misc_outcomes: "misc_stable (\<lambda>w. outcomes w = oc)"
  by (simp add: misc_stable_def)

lemma keeps_calls:
  "keeps (\<lambda>w. outcomes w = oc) m \<Longrightarrow> keeps (calls_as oc) (core_io m)"
  "keeps (calls_as oc) (db_query q)"
  "(\<And>s. core (f s) = core s) \<Longrightarrow> keeps (calls_as oc) (db_exec e f)"
  "(\<And>s. core (f s) = core s) \<Longrightarrow> keeps (calls_as oc) (os_call c f)"
  by (auto simp: keeps_def calls_as_def core_io_def db_query_def db_exec_def os_call_def
      split: prod.splits outcome.splits sum.splits)

lemma core_updates [simp]:
  "core (pg_update f s) = core s" "core (set_role r p s) = core s" "core (patch_row n g s) = core s"
  "core (set_log sch l s) = core s"
  by (simp_all add: pg_update_def set_role_def patch_row_def set_log_def)

lemma keeps_calls_each:
  "keeps (calls_as oc) (grant_each sch r ks)" "keeps (calls_as oc) (own_each sch r ks)"
  by (induction ks) (auto intro!: keeps_ok keeps_try keeps_calls)

lemma keeps_calls_role: "keeps (calls_as oc) (role_password d n role)"
proof -
  have "keeps (calls_as oc) (GetModuleDBRolePassword d n)" "keeps (calls_as oc) (SetModuleDBRolePassword d n pw)"
    "keeps (calls_as oc) (core_io generateRolePassword)" for pw
    unfolding GetModuleDBRolePassword_def SetModuleDBRolePassword_def patch_def generateRolePassword_def
    by (auto intro!: keeps_try keeps_calls keeps_ok keeps_fail keeps_encrypt keeps_decrypt keeps_bind keeps_read_random misc_outcomes
        split: option.splits)
  then show ?thesis
    unfolding role_password_def alter_role_def create_role_def
    by (auto intro!: keeps_try keeps_calls keeps_ok keeps_fail split: option.splits)
qed

lemma keeps_calls_provision: "keeps (calls_as oc) (provisionSchema md n sch role)"
  unfolding provisionSchema_def create_schema_def
  by (intro keeps_try keeps_calls keeps_ok keeps_calls_each keeps_calls_role) simp_all

lemma keeps_calls_tx: "keeps (calls_as oc) (run_in_tx md sch files)"
proof -
  have "keeps (calls_as oc) (exec_files md sch m files)" for m
    by (induction files arbitrary: m) (auto simp: tx_exec_def Let_def intro!: keeps_try keeps_calls keeps_ok)
  then show ?thesis
    unfolding run_in_tx_def by (intro keeps_try keeps_calls) (simp_all split: tx_mode.splits)
qed

lemma keeps_record_tx: "keeps (\<lambda>s. module_migrations s = mm) (run_in_tx md sch files)"
proof -
  have set: "module_migrations (set_log sch l s) = module_migrations s" for l s
    by (simp add: set_log_def pg_update_def)
  have "keeps (\<lambda>s. module_migrations s = mm) (exec_files md sch m files)" for m
    by (induction files arbitrary: m) (auto simp: tx_exec_def Let_def set intro!: inv_intros keeps_db_exec keeps_os_call)
  then show ?thesis
    unfolding run_in_tx_def by (intro inv_intros keeps_db_exec) (auto simp: set split: tx_mode.splits)
qed

lemma wp_keeps_both: "keeps I m \<Longrightarrow> I s \<Longrightarrow> wp m Q s \<Longrightarrow> wp m (\<lambda>r t. I t \<and> Q r t) s"
  unfolding wp_conj by (simp add: keeps_wpD)

definition update_result :: "MDeps \<Rightarrow> string \<Rightarrow> string \<Rightarrow> tree \<Rightarrow> site \<Rightarrow> unit res \<Rightarrow> site \<Rightarrow> bool" where
  "update_result md n sch files s r t \<longleftrightarrow>
     (\<exists>new. (new = pending s n files \<or> \<not> all_done (core s) \<and> new = files) \<and> tx_result sch (texts_of md new) s r t)
     \<and> (all_done (core s) \<and> is_ok r \<longrightarrow> pending t n files = [])"

lemma update_result_error: "settled s t \<Longrightarrow> update_result md n sch files s (Inl e) t"
  by (auto simp: update_result_def)

lemma update_result_fails:
  "tx_result sch (texts_of md new) s (Inl e) t \<Longrightarrow> new = pending s n files \<or> \<not> all_done (core s) \<and> new = files \<Longrightarrow>
     update_result md n sch files s (Inl e) t"
  unfolding update_result_def by auto

lemma update_result_nothing:
  assumes "settled s t" and "pending s n files = [] \<or> \<not> all_done (core s) \<and> files = []"
  shows "update_result md n sch files s (Inr ()) t"
proof -
  have "pending t n files = pending s n files" using assms(1) by (simp add: pending_def settled_def)
  moreover have "tx_result sch (texts_of md []) s (Inr ()) t"
    using committed_nil [OF assms(1)] by (simp add: tx_result_def texts_of_def)
  ultimately show ?thesis using assms(2) unfolding update_result_def by metis
qed

lemma wp_record_each:
  "all_done (core s) \<Longrightarrow> wp (record_each n fs)
     (\<lambda>_ t. set (module_migrations s) \<subseteq> set (module_migrations t) \<and> (\<forall>f \<in> set fs. (n, fst f) \<in> set (module_migrations t))) s"
proof (induction fs arbitrary: s)
  case (Cons f fs)
  let ?t = "ticked s\<lparr>module_migrations := List.insert (n, fst f) (module_migrations (ticked s))\<rparr>"
  have "all_done (core ?t)" "next_outcome s = Done" using Cons.prems by (simp_all add: all_done_def next_outcome_def)
  then show ?case using Cons.IH [of ?t] by (auto simp: wp_bind record_applied_def wp_db_exec elim!: wp_mono)
qed (simp add: wp_ok)

lemma wp_recorded:
  assumes t: "committed sch (texts_of md new) s0 t" "calls_as (outcomes (core s0)) t" "module_migrations t = module_migrations s0"
    and new: "new = pending s0 n files \<or> \<not> all_done (core s0) \<and> new = files"
  shows "wp (record_each n new) (update_result md n sch files s0) t"
proof (cases "all_done (core s0)")
  case True
  then have "all_done (core t)" using t(2) by (simp add: all_done_def calls_as_def)
  from wp_keeps_both [OF keeps_committed_record t(1) wp_record_each [OF this]] show ?thesis
  proof (rule wp_mono)
    fix r u
    assume u: "committed sch (texts_of md new) s0 u \<and> set (module_migrations t) \<subseteq> set (module_migrations u)
      \<and> (\<forall>f \<in> set new. (n, fst f) \<in> set (module_migrations u))"
    then have "pending u n files = []" using new True t(3) by (fastforce simp: pending_def filter_empty_conv)
    then show "update_result md n sch files s0 r u" using u new by (auto simp: update_result_def tx_result_def)
  qed
next
  case False
  show ?thesis
    by (rule wp_keeps [OF keeps_committed_record t(1)]) (use False new in \<open>auto simp: update_result_def tx_result_def\<close>)
qed

lemma wp_tx_and_record:
  assumes "settled s0 s" and "calls_as (outcomes (core s0)) s"
    and new: "new = pending s0 n files \<or> \<not> all_done (core s0) \<and> new = files" and plain: "list_all (plain_script md) files"
  shows "wp (try_bind (run_in_tx md sch new) (\<lambda>_. record_each n new)) (update_result md n sch files s0) s"
proof -
  have "list_all (plain_script md) new" using new plain by (auto simp: pending_def list_all_iff)
  note tx = wp_keeps_both [OF keeps_calls_tx assms(2) wp_run_in_tx [OF assms(1) this]]
  have "module_migrations s = module_migrations s0" using assms(1) by (simp add: settled_def)
  note tx = wp_keeps_both [OF keeps_record_tx this tx]
  show ?thesis
    unfolding wp_try
    by (rule wp_mono [OF tx]) (use new in \<open>auto simp: tx_result_def intro: wp_recorded update_result_fails\<close>)
qed

lemma wp_update_migrations:
  assumes ids: "moduleIdentifiers n = Inr (sch, role)" and plain: "list_all (plain_script md) (sql_files tree)"
  shows "wp (runModuleUpdateMigrations md n tree) (update_result md n sch (sql_files tree) s) s"
proof -
  let ?Q = "update_result md n sch (sql_files tree) s"
  let ?J = "\<lambda>t. settled s t \<and> calls_as (outcomes (core s)) t"
  let ?new = "\<lambda>new. new = pending s n (sql_files tree) \<or> \<not> all_done (core s) \<and> new = sql_files tree"
  have J: "keeps ?J m" if "keeps (settled s) m" "keeps (calls_as (outcomes (core s))) m" for m :: "'a res sio"
    using that by (simp add: keeps_wp wp_conj)
  have connect: "wp (try_bind (connectAsModuleRole role password) (\<lambda>_. try_bind (run_in_tx md sch new) (\<lambda>_. record_each n new))) ?Q t"
    if "?J t" "?new new" for password new t
    unfolding connectAsModuleRole_def
    by (rule wp_try_keeps [where I = ?J, OF J [OF keeps_db_query [OF settled_off_core] keeps_calls(2)] that(1)])
      (use that plain in \<open>auto intro!: update_result_error wp_tx_and_record\<close>)
  have applied: "wp (appliedMigrations n) (\<lambda>r t. ?J t \<and>
      (r = Inr (map snd (filter (\<lambda>(m, _). m = n) (module_migrations s))) \<or> \<not> all_done (core s) \<and> r = Inl ErrExternal)) t"
    if "?J t" for t
    using that by (auto simp: appliedMigrations_def wp_db_query settled_def calls_as_def next_outcome_def all_done_def)
  have body: "wp (if sql_files tree = [] then ok () else appliedMigrations n \<bind> (\<lambda>applied.
        let pending = filter (\<lambda>f. fst f \<notin> set (case applied of Inr ns \<Rightarrow> ns | Inl _ \<Rightarrow> [])) (sql_files tree) in
             if pending = [] then ok ()
             else try_bind (connectAsModuleRole role password) (\<lambda>_.
                  try_bind (run_in_tx md sch pending) (\<lambda>_. record_each n pending)))) ?Q t"
    if t: "?J t" for password t
  proof (cases "sql_files tree = []")
    case True
    then show ?thesis using t by (auto simp: wp_ok pending_def intro!: update_result_nothing)
  next
    case False
    then show ?thesis
      unfolding wp_bind if_not_P [OF False]
      by (auto intro!: update_result_nothing wp_mono [OF applied [OF t]] connect simp: Let_def pending_applied wp_ok)
  qed
  have start: "settled s (ticked s)" "calls_as (outcomes (core s)) (ticked s)" by (simp_all add: calls_as_def)
  note prov = wp_try_keeps [where I = ?J, OF J [OF keeps_provisionSchema [OF settled_stable] keeps_calls_provision] _ update_result_error body]
  show ?thesis
    unfolding runModuleUpdateMigrations_def ids sum.case prod.case sqlFilesInDir_def
    by (subst wp_try) (auto simp: wp_os_call start update_result_error intro!: prov)
qed

text \<open>
  What a run of migrations does to the schemas of Postgres, abstractly: it appends its texts to one
  schema, or it fails and appends nothing.
\<close>

definition migration_spec :: "string \<Rightarrow> string list \<Rightarrow> bool \<Rightarrow> (string \<Rightarrow> string list) \<Rightarrow> (string \<Rightarrow> string list) \<Rightarrow> bool" where
  "migration_spec sch new success l l' \<longleftrightarrow> l' = l(sch := l sch @ new) \<or> (l' = l \<and> \<not> success)"

definition logs :: "site \<Rightarrow> string \<Rightarrow> string list" where
  "logs s = (\<lambda>sch. schema_log sch s)"

lemma logs_are_iff: "logs_are l t \<longleftrightarrow> logs t = l"
  by (auto simp: logs_are_def logs_def fun_eq_iff)

lemma tx_result_spec: "tx_result sch new s r t \<Longrightarrow> migration_spec sch new (is_ok r) (logs s) (logs t)"
  by (auto simp: tx_result_def settled_def committed_def logs_are_iff migration_spec_def) (auto simp: logs_def)

text \<open>
  C20: the migrations of an update refine this specification, whatever calls fail, for files that hold
  no transaction command of their own: the files that are not on record are committed as a whole or not
  at all, in the module's own schema and no other, and all of them when no error is reported. Only when
  calls fail may it be all the files instead, as a record that cannot be read counts as empty. After a
  success without failed calls no file is left for the next update. Files on disk, registry, sources
  and workers stay as they are.
\<close>

theorem update_migrations_refine:
  assumes "moduleIdentifiers n = Inr (sch, role)" and "list_all (plain_script md) (sql_files tree)"
    and "run_state (runModuleUpdateMigrations md n tree) s = (r, t)"
  shows "(\<exists>new. (new = pending s n (sql_files tree) \<or> \<not> all_done (core s) \<and> new = sql_files tree)
        \<and> migration_spec sch (texts_of md new) (is_ok r) (logs s) (logs t)
        \<and> disk t = disk s \<and> registry t = registry s \<and> sources t = sources s \<and> fleet t = fleet s)
     \<and> (all_done (core s) \<and> is_ok r \<longrightarrow> pending t n (sql_files tree) = [])"
proof -
  have frame: "disk t = disk s \<and> registry t = registry s \<and> sources t = sources s \<and> fleet t = fleet s"
    if "tx_result sch new s r t" for new
    using that by (auto simp: tx_result_def settled_def committed_def around_def)
  have "update_result md n sch (sql_files tree) s r t"
    using wp_update_migrations [OF assms(1,2), of s] assms(3) by (simp add: wp_run)
  then show ?thesis unfolding update_result_def using tx_result_spec frame by blast
qed

section \<open>The role\<close>

text \<open>A role that has not got the password on file.\<close>

definition half_provisioned ::
  "MDeps \<Rightarrow> string \<Rightarrow> string \<Rightarrow> string \<Rightarrow> string option \<Rightarrow> InstalledModuleRow \<Rightarrow> site \<Rightarrow> bool" where
  "half_provisioned md n role p q row s \<longleftrightarrow>
     find_row (installed s) n = Some row \<and> pg_roles (pg s) role = Some q \<and> q \<noteq> Some p
     \<and> (\<exists>e. IM_DBRolePasswordEnc row = Some e \<and> e \<noteq> [] \<and> plain (M_deps md) (d_PoolKey (M_deps md)) e = Inr p)"

definition role_and_row :: "string \<Rightarrow> string \<Rightarrow> string option \<Rightarrow> InstalledModuleRow \<Rightarrow> site \<Rightarrow> bool" where
  "role_and_row n role q row s \<longleftrightarrow> find_row (installed s) n = Some row \<and> pg_roles (pg s) role = Some q"

lemma role_and_row_off_core [simp]: "off_core (role_and_row n role q row)"
  by (simp add: off_core_def role_and_row_def)

lemma role_and_row_pg [simp]:
  "role_and_row n role q row (pg_update (\<lambda>p. p\<lparr>pg_grants := g p\<rparr>) s) = role_and_row n role q row s"
  "role_and_row n role q row (pg_update (\<lambda>p. p\<lparr>pg_owner := h p\<rparr>) s) = role_and_row n role q row s"
  "role_and_row n role q row (pg_update (\<lambda>p. if c p then p\<lparr>pg_schemas := f p\<rparr> else p) s) = role_and_row n role q row s"
  by (simp_all add: role_and_row_def pg_update_def)

lemma keeps_role_and_row_each:
  "keeps (role_and_row n role q row) (grant_each sch r ks)" "keeps (role_and_row n role q row) (own_each sch r ks)"
  by (induction ks) (auto intro!: inv_intros keeps_db_exec)

lemma wp_role_password_stuck:
  assumes "half_provisioned md n role p q row s" and "cache_ok (gcm (core s))"
  shows "wp (role_password (M_deps md) n role) (\<lambda>r t. role_and_row n role q row t \<and> r \<in> {Inl ErrExternal, Inr p}) s"
  using assms
  by (auto simp: role_password_def GetModuleDBRolePassword_def half_provisioned_def wp_try wp_db_query wp_core
      decrypt_io_if wp_ok role_and_row_def role_exists_def intro!: wp_decrypt_plain)

lemma wp_provision_stuck:
  assumes "half_provisioned md n role p q row s" and "cache_ok (gcm (core s))"
  shows "wp (provisionSchema md n sch role) (\<lambda>r t. role_and_row n role q row t \<and> (\<forall>p'. r = Inr p' \<longrightarrow> p' = p)) s"
proof -
  let ?J = "role_and_row n role q row"
  let ?Q = "\<lambda>r t. ?J t \<and> (\<forall>p'. r = Inr p' \<longrightarrow> p' = p)"
  define rest where "rest = (\<lambda>password.
     try_bind (grant_each sch role grant_kinds) (\<lambda>_.
     try_bind (db_query (\<lambda>s. Inr (M_tables md (schema_log sch s)))) (\<lambda>tableNames.
     try_bind (own_each sch role tableNames) (\<lambda>_.
     try_bind (db_query (\<lambda>s. Inr (M_sequences md (schema_log sch s)))) (\<lambda>seqNames.
     try_bind (own_each sch role seqNames) (\<lambda>_.
     try_bind (db_exec (\<lambda>_. Inr ()) (pg_update (\<lambda>p. p\<lparr>pg_grants :=
        filter (\<lambda>(_, sch, r). \<not> (sch = ''public'' \<and> r = role)) (pg_grants p)\<rparr>))) (\<lambda>_.
     try_bind (db_exec (\<lambda>_. Inr ()) (\<lambda>s. s)) (\<lambda>_.
     ok (password :: string)))))))))"
  have rest: "wp (rest p) ?Q t" if "?J t" for t
    unfolding rest_def
    by (rule wp_try_keeps [where I = ?J], (auto intro!: inv_intros keeps_role_and_row_each keeps_db_exec that)[3])+
      (auto simp: wp_ok)
  let ?c = "pg_update (\<lambda>p. if pg_schemas p sch = None then p\<lparr>pg_schemas := (pg_schemas p)(sch \<mapsto> [])\<rparr> else p)"
  have half: "half_provisioned md n role p q row (?c (ticked s))" "cache_ok (gcm (core (?c (ticked s))))"
    and J: "?J (ticked s)" "?J (?c (ticked s))"
    using assms by (auto simp: half_provisioned_def role_and_row_def pg_update_def)
  have "wp (try_bind (role_password (M_deps md) n role) rest) ?Q (?c (ticked s))"
    unfolding wp_try by (rule wp_mono [OF wp_role_password_stuck [OF half]]) (auto intro: rest)
  then show ?thesis
    unfolding provisionSchema_def rest_def [symmetric] create_schema_def
    by (auto simp: wp_try [of "db_exec _ _"] wp_db_exec J)
qed

text \<open>
  A role that has missed its password never gets it. When a role exists without the password on
  file (its \<open>ALTER ROLE\<close> failed after the password was stored), provisioning finds the password on
  file, takes the role for done and leaves both as they are; the migrations of the module fail, now
  and whenever they are tried again.
\<close>

theorem half_provisioned_role_stuck:
  assumes "half_provisioned md n role p q row s" and "cache_ok (gcm (core s))"
    and "moduleIdentifiers n = Inr (sch, role)" and "sql_files tree \<noteq> []"
    and "run_state (runModuleMigrations md n tree) s = (r, t)"
  shows "\<not> is_ok r \<and> half_provisioned md n role p q row t"
proof -
  let ?J = "role_and_row n role q row"
  let ?Q = "\<lambda>r t. \<not> is_ok r \<and> ?J t"
  have J: "?J s" and q: "q \<noteq> Some p" using assms(1) by (simp_all add: half_provisioned_def role_and_row_def)
  have connect: "wp (try_bind (connectAsModuleRole role p) f) ?Q t" if "?J t" for t f
    using that q by (auto simp: connectAsModuleRole_def wp_try wp_db_query role_and_row_def)
  have "half_provisioned md n role p q row (ticked s)" "cache_ok (gcm (core (ticked s)))"
    using assms(1,2) by (simp_all add: half_provisioned_def)
  note prov = wp_mono [OF wp_provision_stuck [OF this]]
  have "wp (runModuleMigrations md n tree) ?Q s"
    unfolding runModuleMigrations_def assms(3) sum.case prod.case sqlFilesInDir_def
    by (auto simp: wp_try [of "os_call _ _"] wp_try [of "provisionSchema _ _ _ _"] wp_os_call J assms(4) intro!: prov connect)
  then show ?thesis
    using assms(1,5) by (auto simp: wp_run half_provisioned_def role_and_row_def)
qed

section \<open>The properties at a concrete site\<close>

definition sample_mdeps :: MDeps where
  "sample_mdeps = \<lparr>M_deps = sample_deps, M_pool = sample_pool, M_DataDir = ''/m'', M_sha256 = (\<lambda>x. x),
     M_officialKey = ''-----BEGIN PUBLIC KEY-----k'', M_cosignAvailable = True, M_cosign = (\<lambda>key bundle file. bundle = file),
     M_urlParse = (\<lambda>_. None), M_fetch = (\<lambda>_ _. Some \<lparr>st_bytes = ''zip'', st_ok = True\<rparr>), M_assets = (\<lambda>_ _. None),
     M_unzip = (\<lambda>_. Some []), M_os = (\<lambda>_ _. True), M_yaml = (\<lambda>_. None), M_script = (\<lambda>q. [Sql q]),
     M_sql = (\<lambda>_ _ _. True),
     M_tables = (\<lambda>_. []), M_sequences = (\<lambda>_. []), M_crudTable = (\<lambda>_ _. True), M_egressHosts = (\<lambda>_ _. None)\<rparr>"

definition sample_row :: InstalledModuleRow where
  "sample_row = \<lparr>IM_Name = ''m'', IM_Version = ''1'', IM_Tier = 2, IM_Source = ''official'', IM_ReleaseURL = ''https://r/1.zip'',
     IM_SHA256 = [], IM_Manifest = None, IM_Status = ModuleStatusActive, IM_Pinned = False, IM_AutoUpdate = False,
     IM_CosignVerified = True, IM_CachedZipPath = None, IM_AvailableVersion = None, IM_LastUpdateCheck = None,
     IM_LogoURL = None, IM_InstalledAt = 0, IM_UpdatedAt = 0, IM_PIIMigratedAt = None,
     IM_DBRolePasswordEnc = None\<rparr>"

definition empty_site :: site where
  "empty_site = \<lparr>core = empty_world, disk = (\<lambda>_. None), zips = (\<lambda>_. None), installed = [], registry = [], sources = [],
     module_migrations = [], pg = \<lparr>pg_schemas = (\<lambda>_. None), pg_roles = (\<lambda>_. None), pg_grants = [], pg_owner = (\<lambda>_. None)\<rparr>,
     fleet = idle_pool, requests = []\<rparr>"

text \<open>An update with a file on record, and a new one.\<close>

definition migrating_site :: site where
  "migrating_site = empty_site\<lparr>installed := [sample_row], module_migrations := [(''m'', ''1.sql'')]\<rparr>"

theorem update_migrations_refine_witness:
  "let tree = [(''migrations/1.sql'', ''a''), (''migrations/2.sql'', ''b'')];
       rt = run_state (runModuleUpdateMigrations sample_mdeps ''m'' tree) migrating_site in
   logs (snd rt) ''module_m'' = [''b'']"
proof -
  let ?tree = "[(''migrations/1.sql'', ''a''), (''migrations/2.sql'', ''b'')]"
  have ids: "moduleIdentifiers ''m'' = Inr (''module_m'', ''module_m_role'')"
    and plain: "list_all (plain_script sample_mdeps) (sql_files ?tree)" by code_simp+
  obtain r t where rt: "run_state (runModuleUpdateMigrations sample_mdeps ''m'' ?tree) migrating_site = (r, t)"
    by fastforce
  have "is_ok (fst (run_state (runModuleUpdateMigrations sample_mdeps ''m'' ?tree) migrating_site))" by code_simp
  then have ok: "is_ok r" using rt by simp
  have "sql_files ?tree = [(''1.sql'', ''a''), (''2.sql'', ''b'')]" by code_simp
  moreover have "logs migrating_site ''module_m'' = []"
    by (simp add: logs_def schema_log_def migrating_site_def empty_site_def)
  moreover have "pending migrating_site ''m'' [(''1.sql'', ''a''), (''2.sql'', ''b'')] = [(''2.sql'', ''b'')]"
    by code_simp
  moreover have "texts_of sample_mdeps [(''2.sql'', ''b'')] = [''b'']" by code_simp
  moreover have "all_done (core migrating_site)" by (simp add: migrating_site_def empty_site_def empty_world_def all_done_def)
  ultimately show ?thesis
    using update_migrations_refine [OF ids plain rt] ok rt by (auto simp: migration_spec_def Let_def)
qed

text \<open>A role from before the passwords, whose \<open>ALTER ROLE\<close> fails.\<close>

definition upgraded_site :: site where
  "upgraded_site = (let s = migrating_site in s\<lparr>pg := (pg s)\<lparr>pg_roles := [''module_m_role'' \<mapsto> None]\<rparr>,
     core := empty_world\<lparr>outcomes := (\<lambda>n. if n = 5 then Lost else Done)\<rparr>\<rparr>)"

theorem half_provisioned_role_stuck_witness:
  "\<exists>s. s = snd (run_state (runModuleMigrations sample_mdeps ''m'' [(''migrations/1.sql'', ''a'')]) upgraded_site)
     \<and> \<not> is_ok (fst (run_state (runModuleMigrations sample_mdeps ''m'' [(''migrations/1.sql'', ''a'')]) s))"
proof -
  let ?run = "run_state (runModuleMigrations sample_mdeps ''m'' [(''migrations/1.sql'', ''a'')])"
  let ?s = "snd (?run upgraded_site)"
  have ids: "moduleIdentifiers ''m'' = Inr (''module_m'', ''module_m_role'')" by code_simp
  have files: "sql_files [(''migrations/1.sql'', ''a'')] \<noteq> []" by code_simp
  have "(case find_row (installed ?s) ''m'' of None \<Rightarrow> False | Some row \<Rightarrow>
      (case IM_DBRolePasswordEnc row of None \<Rightarrow> False | Some e \<Rightarrow> e \<noteq> [] \<and> is_ok (plain sample_deps sample_key e)))
      \<and> pg_roles (pg ?s) ''module_m_role'' = Some None" by code_simp
  then obtain p row where "half_provisioned sample_mdeps ''m'' ''module_m_role'' p None row ?s"
    by (auto simp: half_provisioned_def is_ok_ex sample_mdeps_def sample_deps_def split: option.splits)
  moreover have "cache_ok (gcm (core ?s))" by code_simp
  moreover obtain r t where rt: "?run ?s = (r, t)" by fastforce
  ultimately have "\<not> is_ok r" using half_provisioned_role_stuck ids files by blast
  then show ?thesis using rt by auto
qed

end
