(* ===== verification/LifecycleLaws.thy ===== *)
theory LifecycleLaws
  imports Lifecycle SchemaLaws
begin

text \<open>
  What installing, updating and removing a module guarantee under every pattern of failing calls:
  the files of the directory swap and of a rollback, the tokens that leave the site, what is verified
  before a row becomes active, and the modules that are pinned.
\<close>

section \<open>File operations\<close>

text \<open>The directories in \<open>D\<close> may have changed, and calls were made; nothing else happened.\<close>

definition touched :: "string set \<Rightarrow> site \<Rightarrow> site \<Rightarrow> bool" where
  "touched D s t \<longleftrightarrow> (\<forall>d. d \<notin> D \<longrightarrow> disk t d = disk s d) \<and> zips t = zips s \<and> installed t = installed s
     \<and> registry t = registry s \<and> sources t = sources s \<and> module_migrations t = module_migrations s
     \<and> pg t = pg s \<and> fleet t = fleet s \<and> requests t = requests s \<and> outcomes (core t) = outcomes (core s)"

lemma touched_refl [simp]: "touched D s s"
  by (simp add: touched_def)

lemma touched_trans: "touched D s t \<Longrightarrow> touched D t u \<Longrightarrow> touched D s u"
  by (simp add: touched_def)

lemma touched_mono: "touched D s t \<Longrightarrow> D \<subseteq> E \<Longrightarrow> touched E s t"
  by (auto simp: touched_def)

lemma touched_ticked [simp]: "touched D s (ticked t) = touched D s t" "touched D (ticked s) t = touched D s t"
  by (simp_all add: touched_def)

lemma touched_put [simp]:
  "d \<in> D \<Longrightarrow> touched D s (put_tree d x t) = touched D s t" "d \<in> D \<Longrightarrow> touched D (put_tree d x s) t = touched D s t"
  by (auto simp: touched_def put_tree_def)

lemma put_tree_simps [simp]:
  "disk (put_tree d x s) = (disk s)(d := x)"
  "files_of (put_tree d x s) e = (if e = d then (case x of Some t \<Rightarrow> t | None \<Rightarrow> []) else files_of s e)"
  "next_outcome (put_tree d x s) = next_outcome s" "installed (put_tree d x s) = installed s"
  "core (put_tree d x s) = core s"
  by (simp_all add: put_tree_def files_of_def next_outcome_def)

lemma files_of_some [simp]: "disk s d = Some t \<Longrightarrow> files_of s d = t" "disk s d = None \<Longrightarrow> files_of s d = []"
  by (simp_all add: files_of_def)

lemma wp_copyFile:
  assumes "\<And>t. touched {dst} s t \<Longrightarrow> disk s dst \<noteq> None \<longrightarrow> disk t dst \<noteq> None \<Longrightarrow> Q (Inl ErrExternal) t"
    and "Q (Inr ()) (put_tree dst (Some (AList.update (fst f) (snd f) (files_of s dst))) (ticked s))"
  shows "wp (copyFile dst f) Q s"
  using assms by (auto simp: wp_def copyFile_def Let_def split: outcome.splits)

lemma wp_copy_files:
  "wp (copy_files dst fs) (\<lambda>r t. touched {dst} s t
     \<and> (is_ok r \<longrightarrow> map_of (files_of t dst) = map_of (files_of s dst) ++ map_of (rev fs))
     \<and> (disk s dst \<noteq> None \<longrightarrow> disk t dst \<noteq> None)) s"
proof (induction fs arbitrary: s)
  case (Cons f fs)
  let ?u = "put_tree dst (Some (AList.update (fst f) (snd f) (files_of s dst))) (ticked s)"
  have m: "map_of (AList.update (fst f) (snd f) al) ++ map_of (rev fs) = map_of al ++ map_of (rev (f # fs))" for al
    by (rule ext) (simp add: map_add_def update_conv split: option.split)
  have "wp (copy_files dst fs) (\<lambda>r t. touched {dst} s t
     \<and> (is_ok r \<longrightarrow> map_of (files_of t dst) = map_of (files_of s dst) ++ map_of (rev (f # fs)))
     \<and> (disk s dst \<noteq> None \<longrightarrow> disk t dst \<noteq> None)) ?u"
    by (rule wp_mono [OF Cons.IH]) (simp add: m del: rev.simps)
  then show ?case
    unfolding copy_files.simps wp_try by (intro wp_copyFile) simp_all
qed (simp add: wp_ok)

lemma wp_MkdirAll:
  assumes "Q (Inr ()) (if disk s d = None then put_tree d (Some []) (ticked s) else ticked s)" "Q (Inl ErrExternal) (ticked s)"
  shows "wp (MkdirAll d) Q s"
  using assms by (simp add: MkdirAll_def wp_os_call)

lemma wp_copyDir:
  "wp (copyDir fs dst) (\<lambda>r t. touched {dst} s t
     \<and> (is_ok r \<longrightarrow> disk t dst \<noteq> None \<and> map_of (files_of t dst) = map_of (files_of s dst) ++ map_of (rev fs))) s"
  unfolding copyDir_def wp_try by (rule wp_MkdirAll) (auto intro!: wp_mono [OF wp_copy_files])

section \<open>The swap of an update\<close>

definition uploads :: "tree \<Rightarrow> tree" where "uploads d = filter in_storage d"

text \<open>The archive leaves the name \<open>storage\<close> alone.\<close>

definition storage_free :: "tree \<Rightarrow> bool" where
  "storage_free fs \<longleftrightarrow> (\<forall>p c. (p, c) \<in> set fs \<longrightarrow> p \<noteq> ''storage'' \<and> \<not> in_storage (p, c))"

definition swapped :: "tree \<Rightarrow> tree \<Rightarrow> bool \<Rightarrow> tree \<Rightarrow> bool" where
  "swapped fs d reliable d' \<longleftrightarrow>
     (map_of d' = map_of fs \<or> (\<forall>p. map_of d' p = (case map_of fs p of Some c \<Rightarrow> Some c | None \<Rightarrow> map_of (uploads d) p)))
     \<and> (storage_free fs \<and> reliable \<longrightarrow> (\<forall>p. in_storage (p, []) \<longrightarrow> map_of d' p = map_of d p))
     \<and> (uploads fs \<noteq> [] \<longrightarrow> map_of d' = map_of fs)"

lemma wp_RemoveAll: "(\<And>r t. t = ticked s \<or> t = put_tree d None (ticked s) \<Longrightarrow> Q r t) \<Longrightarrow> wp (RemoveAll d) Q s"
  by (auto simp: RemoveAll_def wp_db_exec)

lemma wp_Rename:
  "wp (Rename src dst) Q s \<longleftrightarrow>
     (if next_outcome s = Done \<and> disk s src \<noteq> None \<and> (src = dst \<or> files_of s dst = [])
      then Q (Inr ()) (put_tree dst (disk s src) (put_tree src None (ticked s))) else Q (Inl ErrExternal) (ticked s))"
  by (auto simp: Rename_def wp_os_call)

lemma wp_bind_Rename:
  assumes "disk s src \<noteq> None \<Longrightarrow> src = dst \<or> files_of s dst = [] \<Longrightarrow>
      wp (f (Inr ())) Q (put_tree dst (disk s src) (put_tree src None (ticked s)))"
    and "wp (f (Inl ErrExternal)) Q (ticked s)"
  shows "wp (Rename src dst \<bind> f) Q s"
  using assms by (auto simp: wp_bind wp_Rename)

lemma clash_storage: "clash f ''storage'' \<longleftrightarrow> uploads f \<noteq> [] \<or> (\<exists>(q, c) \<in> set f. has_prefix ''storage'' (q @ ''/''))"
  by (fastforce simp: clash_def uploads_def in_storage_def list_ex_iff filter_empty_conv)

lemma no_prefix_storage: "\<not> has_prefix ''storage'' (q @ ''/'')"
proof
  assume "has_prefix ''storage'' (q @ ''/'')"
  then have "CHR ''/'' \<in> set (take (length (q @ ''/'')) ''storage'')" unfolding has_prefix_def by (simp only: set_append) simp
  then have "CHR ''/'' \<in> set ''storage''" by (rule in_set_takeD)
  then show False by simp
qed

lemma map_of_uploads: "map_of (uploads d) p = (if in_storage (p, []) then map_of d p else None)"
  by (induction d) (auto simp: uploads_def in_storage_def)

lemma storage_free_map: "storage_free f \<Longrightarrow> in_storage (p, []) \<Longrightarrow> map_of f p = None"
  by (cases "map_of f p") (auto simp: storage_free_def in_storage_def dest: map_of_SomeD)

lemma swapped_move:
  assumes "\<not> clash f ''storage''"
  shows "swapped f d b (f @ filter in_storage d)"
proof -
  have none: "uploads f = []" using assms by (simp add: clash_storage)
  have both: "map_of (f @ filter in_storage d) p = (case map_of f p of Some c \<Rightarrow> Some c | None \<Rightarrow> map_of (uploads d) p)" for p
    by (simp add: map_add_def uploads_def split: option.split)
  have keeps: "storage_free f \<Longrightarrow> in_storage (p, []) \<Longrightarrow> map_of (f @ filter in_storage d) p = map_of d p" for p
    using both [of p] by (simp add: storage_free_map map_of_uploads)
  from both have "\<forall>p. map_of (f @ filter in_storage d) p = (case map_of f p of Some c \<Rightarrow> Some c | None \<Rightarrow> map_of (uploads d) p)"
    by blast
  with none keeps show ?thesis unfolding swapped_def by blast
qed

lemma swapped_keep:
  assumes "uploads d = [] \<or> \<not> reliable \<or> \<not> storage_free f"
  shows "swapped f d reliable f"
proof -
  have "map_of d p = None" if "uploads d = []" "in_storage (p, [])" for p
    using map_of_uploads [of d p] that by simp
  then show ?thesis using assms by (auto simp: swapped_def storage_free_map)
qed

lemma not_storage_free: "clash f ''storage'' \<or> map_of f ''storage'' \<noteq> None \<Longrightarrow> \<not> storage_free f"
  by (auto simp: clash_storage no_prefix_storage uploads_def storage_free_def filter_empty_conv dest!: map_of_SomeD)

text \<open>The end of a swap, from the state in which the new directory is in place.\<close>

lemma wp_finish_swap:
  assumes "disk s old = Some d" "disk s dest = Some f" "old \<noteq> dest" "distinct (map fst d)"
    and Q: "\<And>t f'. disk t dest = Some f' \<Longrightarrow> swapped f d (all_done (core s)) f' \<Longrightarrow> Q (Inr ()) t"
  shows "wp (State_Monad.get \<bind> (\<lambda>s.
     (if list_ex in_storage (files_of s old) then move_storage old dest else ok ()) \<bind> (\<lambda>_.
     RemoveAll old \<bind> (\<lambda>_. ok ())))) Q s"
proof -
  have remove: "wp (RemoveAll old) (\<lambda>_. Q (Inr ())) t"
    if "disk t dest = Some f'" "swapped f d (all_done (core s)) f'" for t f'
    by (rule wp_RemoveAll) (use that assms(3) in \<open>auto intro!: Q\<close>)
  have keep: "swapped f d (all_done (core s)) f"
    if "\<not> list_ex in_storage d \<or> \<not> all_done (core s) \<or> clash f ''storage'' \<or> map_of f ''storage'' \<noteq> None"
    using that not_storage_free [of f] by (intro swapped_keep) (auto simp: uploads_def filter_empty_conv list_ex_iff)
  have move: "swapped f d b (f @ filter in_storage d)" if "\<not> clash f ''storage''" for b
    using that by (rule swapped_move)
  show ?thesis
    using assms(1-3)
    by (auto simp: wp_bind wp_get wp_ok move_storage_def wp_os_call next_outcome_def all_done_def
        intro!: remove keep move split: if_splits)
qed

lemma beside_dirs:
  assumes "is_abs dest" and "path_clean dest = dest" and "CHR ''/'' \<notin> set v" and "CHR ''/'' \<notin> set w"
  shows "new_dir dest v = dest @ ''.new-'' @ v" "old_dir dest w = dest @ ''.old-'' @ w"
  using assms by (simp_all add: new_dir_def old_dir_def path_clean_suffix)

text \<open>A version with slashes can name the module's own directory.\<close>

lemma new_dir_aliases: "new_dir ''/m/m'' ''/../m'' = ''/m/m''"
  by code_simp

definition intact :: "string \<Rightarrow> string \<Rightarrow> tree \<Rightarrow> site \<Rightarrow> bool" where
  "intact dest old d t \<longleftrightarrow> disk t dest = Some d \<or> disk t dest = None \<and> disk t old = Some d"

definition swap_result :: "string \<Rightarrow> string \<Rightarrow> tree \<Rightarrow> tree \<Rightarrow> tree \<Rightarrow> bool \<Rightarrow> unit res \<Rightarrow> site \<Rightarrow> bool" where
  "swap_result dest old d leftover extracted reliable r t \<longleftrightarrow>
     (if is_ok r then \<exists>f f'. map_of f = map_of leftover ++ map_of (rev extracted)
        \<and> disk t dest = Some f' \<and> swapped f d reliable f'
      else intact dest old d t)"

lemma intactI [simp]:
  "disk t dest = Some d \<Longrightarrow> intact dest old d t" "disk t dest = None \<Longrightarrow> disk t old = Some d \<Longrightarrow> intact dest old d t"
  by (simp_all add: intact_def)

lemma wp_RemoveAll_intact:
  "intact dest old d s \<Longrightarrow> new \<noteq> dest \<Longrightarrow> new \<noteq> old \<Longrightarrow> wp (RemoveAll new \<bind> (\<lambda>_. fail e)) (\<lambda>r t. \<not> is_ok r \<and> intact dest old d t) s"
  unfolding wp_bind by (rule wp_RemoveAll) (auto simp: wp_fail intact_def)

lemma wp_swap_dirs:
  assumes "disk s dest = Some d" "distinct (map fst d)" and ne: "new \<noteq> dest" "old \<noteq> dest" "new \<noteq> old"
  shows "wp (swap_dirs dest new old extracted) (swap_result dest old d (files_of s new) extracted (all_done (core s))) s"
    (is "wp _ ?Q s")
proof -
  note ne = ne ne [symmetric]
  have fails: "wp (RemoveAll new \<bind> (\<lambda>_. fail e)) ?Q t" if "intact dest old d t" for e t
    by (rule wp_mono [OF wp_RemoveAll_intact [OF that ne(1,3)]]) (simp add: swap_result_def)
  have swap: "wp (Rename dest old \<bind> (\<lambda>away. case away of
               Inl e \<Rightarrow> RemoveAll new \<bind> (\<lambda>_. fail e)
             | Inr _ \<Rightarrow> Rename new dest \<bind> (\<lambda>inPlace. case inPlace of
                    Inl e \<Rightarrow> Rename old dest \<bind> (\<lambda>_. RemoveAll new \<bind> (\<lambda>_. fail e))
                  | Inr _ \<Rightarrow> State_Monad.get \<bind> (\<lambda>s.
                      (if list_ex in_storage (files_of s old) then move_storage old dest else ok ()) \<bind> (\<lambda>_.
                      RemoveAll old \<bind> (\<lambda>_. ok ())))))) ?Q t"
    if t: "disk t dest = Some d" "disk t new = Some f" "map_of f = map_of (files_of s new) ++ map_of (rev extracted)"
      "outcomes (core t) = outcomes (core s)" for t f
  proof -
    let ?a = "put_tree old (Some d) (put_tree dest None (ticked t))"
    let ?b = "put_tree dest (Some f) (put_tree new None (ticked ?a))"
    have finish: "wp (State_Monad.get \<bind> (\<lambda>s.
        (if list_ex in_storage (files_of s old) then move_storage old dest else ok ()) \<bind> (\<lambda>_.
        RemoveAll old \<bind> (\<lambda>_. ok ())))) ?Q ?b"
      by (rule wp_finish_swap [of _ _ d _ f]) (use assms t ne in \<open>auto simp: all_done_def swap_result_def\<close>)
    have restore: "wp (Rename old dest \<bind> (\<lambda>_. RemoveAll new \<bind> (\<lambda>_. fail e))) ?Q (ticked ?a)" for e
      by (rule wp_bind_Rename) (simp_all add: fails ne)
    show ?thesis
      by (rule wp_bind_Rename, simp_all add: t ne fails, rule wp_bind_Rename) (use t ne finish restore in simp_all)
  qed
  have copied: "wp (copyDir extracted new) (\<lambda>r t. touched {new} s t
     \<and> (is_ok r \<longrightarrow> disk t new \<noteq> None \<and> map_of (files_of t new) = map_of (files_of s new) ++ map_of (rev extracted))) u"
    if "touched {new} s u" "files_of u new = files_of s new" for u
    by (rule wp_mono [OF wp_copyDir]) (use that touched_trans in auto)
  have kept: "disk u dest = Some d \<and> outcomes (core u) = outcomes (core s)" if "touched {new} s u" for u
    using that assms(1) ne by (auto simp: touched_def)
  let ?rest = "\<lambda>copied. case copied of
          Inl e \<Rightarrow> RemoveAll new \<bind> (\<lambda>_. fail e)
        | Inr _ \<Rightarrow> Rename dest old \<bind> (\<lambda>away. case away of
               Inl e \<Rightarrow> RemoveAll new \<bind> (\<lambda>_. fail e)
             | Inr _ \<Rightarrow> Rename new dest \<bind> (\<lambda>inPlace. case inPlace of
                    Inl e \<Rightarrow> Rename old dest \<bind> (\<lambda>_. RemoveAll new \<bind> (\<lambda>_. fail e))
                  | Inr _ \<Rightarrow> State_Monad.get \<bind> (\<lambda>s.
                      (if list_ex in_storage (files_of s old) then move_storage old dest else ok ()) \<bind> (\<lambda>_.
                      RemoveAll old \<bind> (\<lambda>_. ok ())))))"
  have rest: "wp (copyDir extracted new \<bind> ?rest) ?Q u" if u: "touched {new} s u" "files_of u new = files_of s new" for u
    unfolding wp_bind [of "copyDir _ _"]
  proof (rule wp_mono [OF copied [OF u]])
    fix r t
    assume r: "touched {new} s t \<and> (is_ok r \<longrightarrow> disk t new \<noteq> None
      \<and> map_of (files_of t new) = map_of (files_of s new) ++ map_of (rev extracted))"
    then have t: "disk t dest = Some d" "outcomes (core t) = outcomes (core s)" using kept [of t] by simp_all
    show "wp (?rest r) ?Q t"
    proof (cases r)
      case (Inl e) show ?thesis unfolding Inl sum.case by (rule fails) (simp add: t)
    next
      case (Inr x)
      with r obtain f where "disk t new = Some f" "map_of f = map_of (files_of s new) ++ map_of (rev extracted)" by auto
      with t show ?thesis unfolding Inr sum.case by (intro swap)
    qed
  qed
  have bottom: "?Q (Inl e) (ticked s)" for e :: err
    using assms(1) by (simp add: swap_result_def)
  show ?thesis
    unfolding swap_dirs_def wp_try
    by (rule wp_MkdirAll) (use bottom rest in simp_all)
qed


text \<open>An update during which moving the uploads fails: it succeeds, and the upload is gone.\<close>

definition uploads_site :: site where
  "uploads_site = empty_site\<lparr>disk := [''/m/m'' \<mapsto> [(''manifest.yaml'', ''old''), (''storage/a'', ''upload'')]],
     core := empty_world\<lparr>outcomes := (\<lambda>n. if n = 5 then Lost else Done)\<rparr>\<rparr>"


end
