(* ===== verification/InstallLaws.thy ===== *)
theory InstallLaws
  imports LifecycleLaws
begin

text \<open>
  What the lifecycle operations do to the rows of \<open>installed_modules\<close> and which requests they make:
  pinned modules stay as they are, an active module has been verified, and a custom source's token
  goes to its own repository. All three are invariants that only look at the rows and the requests;
  a locale states what such an invariant has to allow, and each operation keeps it.
\<close>

section \<open>What a release has been checked for\<close>

definition cosign_key :: "MDeps \<Rightarrow> Entry \<Rightarrow> string" where
  "cosign_key md e = (if En_CosignPubKey e = [] then M_officialKey md else En_CosignPubKey e)"

definition released :: "MDeps \<Rightarrow> Entry \<Rightarrow> string \<Rightarrow> string \<Rightarrow> bool \<Rightarrow> bool" where
  "released md e archive gotHex verified \<longleftrightarrow> gotHex = hex_encode (M_sha256 md archive)
     \<and> (verified \<longrightarrow> (\<exists>bundle. M_cosign md (cosign_key md e) bundle archive))
     \<and> (En_Source e = ''official'' \<longrightarrow> verified)"

definition unpacked :: "MDeps \<Rightarrow> string \<Rightarrow> tree \<Rightarrow> bool" where
  "unpacked md archive t \<longleftrightarrow> (\<exists>k m fs. extractZIP (M_os md k) (M_unzip md archive) ''/x'' m \<lparr>out_dirs = [], out_files = []\<rparr>
     = (Inr (), fs) \<and> t = tree_of ''/x'' fs)"

definition manifest_of :: "MDeps \<Rightarrow> tree \<Rightarrow> Manifest \<Rightarrow> bool" where
  "manifest_of md t mf \<longleftrightarrow> (\<exists>text. map_of t ''manifest.yaml'' = Some text \<and> parseManifest (M_yaml md text) = Inr mf)"

section \<open>Invariants of rows and requests\<close>

text \<open>A patch of a row that leaves alone what was verified.\<close>

definition light :: "(InstalledModuleRow \<Rightarrow> InstalledModuleRow) \<Rightarrow> bool" where
  "light f \<longleftrightarrow> (\<forall>r. IM_Name (f r) = IM_Name r \<and> IM_SHA256 (f r) = IM_SHA256 r \<and> IM_Manifest (f r) = IM_Manifest r
     \<and> IM_Source (f r) = IM_Source r \<and> IM_CosignVerified (f r) = IM_CosignVerified r)"

lemma light_patches [simp]:
  "light (\<lambda>r. r\<lparr>IM_Status := x, IM_UpdatedAt := t\<rparr>)" "light (\<lambda>r. r\<lparr>IM_CachedZipPath := z, IM_UpdatedAt := t\<rparr>)"
  "light (\<lambda>r. r\<lparr>IM_AvailableVersion := v, IM_LastUpdateCheck := c, IM_UpdatedAt := t\<rparr>)"
  "light (\<lambda>r. r\<lparr>IM_DBRolePasswordEnc := e\<rparr>)" "light (\<lambda>r. r\<lparr>IM_PIIMigratedAt := p\<rparr>)"
  by (simp_all add: light_def)

lemma keeps_bind_post:
  assumes "\<And>s. I s \<Longrightarrow> wp m (\<lambda>a t. I t \<and> P a) s" and "\<And>a. P a \<Longrightarrow> keeps I (f a)"
  shows "keeps I (m \<bind> f)"
  unfolding keeps_wp wp_bind using assms by (blast intro: wp_mono keeps_wpD)

lemma wp_cases:
  "(b \<Longrightarrow> wp m Q s) \<Longrightarrow> (\<not> b \<Longrightarrow> wp n Q s) \<Longrightarrow> wp (if b then m else n) Q s"
  "(x = None \<Longrightarrow> wp m Q s) \<Longrightarrow> (\<And>a. x = Some a \<Longrightarrow> wp (f a) Q s) \<Longrightarrow> wp (case x of None \<Rightarrow> m | Some a \<Rightarrow> f a) Q s"
  by (simp_all split: option.split)

text \<open>\<open>gives m R\<close>: a value that \<open>m\<close> returns satisfies \<open>R\<close>, whatever the state.\<close>

definition gives :: "(site, 'a res) state \<Rightarrow> ('a \<Rightarrow> bool) \<Rightarrow> bool" where
  "gives m R \<longleftrightarrow> (\<forall>s. wp m (\<lambda>a _. \<forall>x. a = Inr x \<longrightarrow> R x) s)"

named_theorems gives_intros

lemma givesD: "gives m R \<Longrightarrow> wp m (\<lambda>a _. \<forall>x. a = Inr x \<longrightarrow> R x) s"
  by (simp add: gives_def)

lemma gives_mono: "gives m R \<Longrightarrow> (\<And>x. R x \<Longrightarrow> S x) \<Longrightarrow> gives m S"
  unfolding gives_def by (fast intro: wp_mono)

lemma gives_basic [gives_intros]:
  "R x \<Longrightarrow> gives (ok x) R" "gives (fail e) R" "(\<And>x. a = Inr x \<Longrightarrow> R x) \<Longrightarrow> gives (State_Monad.return a) R"
  by (simp_all add: gives_def io_simps)

lemma gives_if [gives_intros]: "(b \<Longrightarrow> gives m R) \<Longrightarrow> (\<not> b \<Longrightarrow> gives n R) \<Longrightarrow> gives (if b then m else n) R"
  by simp

lemma gives_bind: "(\<And>a. gives (f a) R) \<Longrightarrow> gives (m \<bind> f) R"
  unfolding gives_def [of "m \<bind> f"] wp_bind by (rule allI, rule wp_any) (rule givesD)

lemma gives_try: "gives m S \<Longrightarrow> (\<And>x. S x \<Longrightarrow> gives (f x) R) \<Longrightarrow> gives (try_bind m f) R"
  unfolding gives_def [of "try_bind m f"] wp_try by (intro allI wp_mono [OF givesD]) (auto intro: givesD)

lemma gives_os: "(\<And>s x. q s = Inr x \<Longrightarrow> R x) \<Longrightarrow> gives (os_call q f) R"
  by (auto simp: gives_def wp_os_call)

lemma gives_any: "gives m (\<lambda>_. True)"
  by (simp add: gives_def wp_any)

lemma keeps_try_gives:
  "keeps I m \<Longrightarrow> gives m R \<Longrightarrow> (\<And>x. R x \<Longrightarrow> keeps I (f x)) \<Longrightarrow> keeps I (try_bind m f)"
  unfolding keeps_wp [of I "try_bind m f"] wp_try
proof (intro allI impI)
  fix w assume m: "keeps I m" "gives m R" and f: "\<And>x. R x \<Longrightarrow> keeps I (f x)" and w: "I w"
  have "wp m (\<lambda>a t. I t \<and> (\<forall>x. a = Inr x \<longrightarrow> R x)) w"
    unfolding wp_conj using keeps_wpD [OF m(1) w] givesD [OF m(2)] by blast
  then show "wp m (\<lambda>a t. (\<forall>e. a = Inl e \<longrightarrow> I t) \<and> (\<forall>x. a = Inr x \<longrightarrow> wp (f x) (\<lambda>_. I) t)) w"
    by (rule wp_mono) (auto intro: keeps_wpD f)
qed

lemma gives_VerifyCosign:
  "gives (VerifyCosign md archive bundle key) (\<lambda>b. b \<and> M_cosign md (if key = [] then M_officialKey md else key) bundle archive)"
  unfolding VerifyCosign_def Let_def by (intro gives_intros gives_os) (auto split: if_splits)

lemma gives_signature:
  "gives (verify_signature md e cred archive) (\<lambda>b. (b \<longrightarrow> (\<exists>bundle. M_cosign md (cosign_key md e) bundle archive))
     \<and> (En_Source e = ''official'' \<longrightarrow> b))"
proof -
  have optional: "gives (case a of Inl x \<Rightarrow> ok False
      | Inr bundle \<Rightarrow> VerifyCosign md archive bundle (En_CosignPubKey e) \<bind> (\<lambda>r. ok (case r of Inl x \<Rightarrow> False | Inr b \<Rightarrow> b)))
     (\<lambda>b. b \<longrightarrow> (\<exists>bundle. M_cosign md (cosign_key md e) bundle archive))" for a
    by (cases a) (auto simp: gives_def io_simps cosign_key_def split: sum.splits
        intro!: wp_mono [OF givesD [OF gives_VerifyCosign]])
  have required: "gives (VerifyCosign md archive sig (En_CosignPubKey e))
     (\<lambda>b. (b \<longrightarrow> (\<exists>bundle. M_cosign md (cosign_key md e) bundle archive)) \<and> (En_Source e = ''official'' \<longrightarrow> b))" for sig
    by (rule gives_mono [OF gives_VerifyCosign]) (auto simp: cosign_key_def)
  show ?thesis
    unfolding verify_signature_def
    by (intro gives_intros gives_try [OF gives_any] gives_bind required) (simp add: optional)
qed

lemma gives_fetch: "gives (fetch_release md e m cred) (\<lambda>(archive, gotHex, verified). released md e archive gotHex verified)"
proof -
  have hash: "gives (VerifySHA256 md archive h) (\<lambda>g. g = hex_encode (M_sha256 md archive))" for archive h
    unfolding VerifySHA256_def Let_def by (rule gives_os) (auto split: if_splits)
  show ?thesis
    unfolding fetch_release_def
    apply (rule gives_try [OF gives_any], rule gives_bind, rule gives_bind, rule gives_bind)
    apply (rule gives_try [OF gives_any], rule gives_try [OF gives_any], rule gives_try [OF gives_any])
    by (rule gives_try [OF hash], rule gives_try [OF gives_signature], rule gives_basic) (simp add: released_def)
qed

lemma gives_unpack: "gives (unpack md archive m) (unpacked md archive)"
  unfolding gives_def unpack_def unpacked_def by (auto simp: wp_def split: prod.splits sum.splits) blast

lemma gives_manifest: "gives (read_manifest md tree) (manifest_of md tree)"
  unfolding read_manifest_def manifest_of_def by (rule gives_os) (auto split: option.splits)

lemma gives_tier: "gives (State_Monad.return (validateManifestTier mf)) (\<lambda>_. validateManifestTier mf = Inr ())"
  by (rule gives_basic) simp

lemma wp_failI: "J s \<Longrightarrow> wp (fail e) (\<lambda>_. J) s"
  by (simp add: wp_fail)

lemma keeps_quiet:
  assumes "off_core I"
  shows "keeps I (os_call q (\<lambda>s. s))" "keeps I max_zip_bytes" "keeps I (unpack md archive m)" "keeps I (read_manifest md tree)"
proof -
  show "keeps I (os_call q (\<lambda>s. s))" "keeps I max_zip_bytes" "keeps I (read_manifest md tree)"
    using assms unfolding max_zip_bytes_def read_manifest_def by (auto intro!: inv_intros keeps_os_call)
  show "keeps I (unpack md archive m)"
    using assms by (simp add: keeps_def unpack_def)
qed

locale row_invariant =
  fixes I :: "site \<Rightarrow> bool" and name :: string and may :: "string \<Rightarrow> string option \<Rightarrow> bool"
  assumes only_rows: "installed s = installed t \<Longrightarrow> requests s = requests t \<Longrightarrow> I s = I t"
    and light_patch: "light f \<Longrightarrow> I s \<Longrightarrow> I (patch_row name f s)"
    and request: "may u tok \<Longrightarrow> I s \<Longrightarrow> I (s\<lparr>requests := requests s @ [(u, tok)]\<rparr>)"
    and plain_request: "may u None"
begin

lemma off: "off_core I"
  unfolding off_core_def by (intro allI only_rows) simp_all

lemmas keeps_world [inv_intros] = keeps_core [OF off] keeps_db_query [OF off]

lemma keeps_exec: "(\<And>s. installed (f s) = installed s \<and> requests (f s) = requests s) \<Longrightarrow> keeps I (db_exec q f)"
  by (rule keeps_db_exec [OF off], erule iffD1 [OF only_rows, rotated 2]) simp_all

lemma keeps_os: "(\<And>s. installed (f s) = installed s \<and> requests (f s) = requests s) \<Longrightarrow> keeps I (os_call q f)"
  by (rule keeps_os_call [OF off], erule iffD1 [OF only_rows, rotated 2]) simp_all

lemma keeps_nop [inv_intros]: "keeps I (os_call q (\<lambda>s. s))" "keeps I (db_exec q (\<lambda>s. s))"
  by (rule keeps_os keeps_exec; simp)+

lemma keeps_pg [inv_intros]: "keeps I (db_exec q (pg_update f))"
  by (rule keeps_exec) (simp add: pg_update_def)

lemma keeps_fleet_io [inv_intros]: "keeps I (fleet_io f)"
  unfolding keeps_def fleet_io_def
  by (auto split: prod.splits elim!: iffD1 [OF only_rows, rotated 2])

lemma keeps_ticked [inv_intros]: "keeps I (update_site ticked)"
  using off_core_ticked [OF off] by (simp add: keeps_def update_site_def)

lemma keeps_light [inv_intros]: "(\<And>t. light (f t)) \<Longrightarrow> keeps I (patch name f)"
  unfolding patch_def by (rule keeps_db_exec [OF off]) (simp add: light_patch)

lemma keeps_row_patches [inv_intros]:
  "keeps I (UpdateModuleStatus name st)" "keeps I (SetModuleCachedZip name z)" "keeps I (ClearModuleCachedZip name)"
  "keeps I (SetModuleAvailableVersion name v)" "keeps I (SetModuleDBRolePassword d name p)"
  unfolding UpdateModuleStatus_def SetModuleCachedZip_def ClearModuleCachedZip_def SetModuleAvailableVersion_def
    SetModuleDBRolePassword_def
  by (intro inv_intros; simp)+

lemma keeps_GetInstalledModule [inv_intros]: "keeps I (GetInstalledModule n)"
  unfolding GetInstalledModule_def by (intro inv_intros)

text \<open>Schema, role and migrations.\<close>

lemma keeps_each [inv_intros]:
  "keeps I (grant_each sch r ks)" "keeps I (own_each sch r ks)" "keeps I (exec_files md sch m fs)" "keeps I (record_each n fs)"
  by (induction ks, (simp, intro inv_intros)+) (induction fs arbitrary: m;
    auto intro!: inv_intros keeps_exec simp: record_applied_def tx_exec_def Let_def set_log_def pg_update_def)+

lemma keeps_provision [inv_intros]: "keeps I (provisionSchema md name sch role)"
  unfolding provisionSchema_def create_schema_def role_password_def GetModuleDBRolePassword_def alter_role_def create_role_def
  by (intro inv_intros keeps_exec) (simp_all add: set_role_def pg_update_def)

lemma keeps_run_in_tx [inv_intros]: "keeps I (run_in_tx md sch files)"
  unfolding run_in_tx_def
  by (intro keeps_try keeps_world keeps_each keeps_exec) (auto simp: set_log_def pg_update_def split: tx_mode.splits)

lemma keeps_migrations [inv_intros]:
  "keeps I (runModuleMigrations md name tree)" "keeps I (runModuleUpdateMigrations md name tree)"
  unfolding runModuleMigrations_def runModuleUpdateMigrations_def sqlFilesInDir_def connectAsModuleRole_def
    appliedMigrations_def
  by (intro inv_intros)+

text \<open>Files.\<close>

lemma keeps_copy_files [inv_intros]: "keeps I (copy_files dst fs)"
proof (induction fs)
  case (Cons f fs)
  have "I t = I s" if "t = ticked s \<or> (\<exists>d x. t = put_tree d x (ticked s))" for s t
    by (rule only_rows) (use that in \<open>auto simp: put_tree_def\<close>)
  then have "keeps I (copyFile dst f)"
    by (auto simp: keeps_def copyFile_def Let_def split: outcome.splits)
  with Cons show ?case by (auto intro!: inv_intros)
qed (simp, intro inv_intros)

lemma keeps_dirs [inv_intros]: "keeps I (MkdirAll d)" "keeps I (RemoveAll d)" "keeps I (Rename a b)" "keeps I (move_storage a b)"
  unfolding MkdirAll_def RemoveAll_def Rename_def move_storage_def
  by (intro keeps_os keeps_exec; simp add: put_tree_def)+

lemma keeps_swap [inv_intros]: "keeps I (copyDir tree d)" "keeps I (swap_dirs dest new old tree)"
  unfolding copyDir_def swap_dirs_def by (intro inv_intros)+

lemma keeps_unpack [inv_intros]: "keeps I (unpack md archive m)"
  using off_core_ticked [OF off] by (auto simp: keeps_def unpack_def)

lemma keeps_read [inv_intros]:
  "keeps I (read_manifest md tree)" "keeps I (hashSHA256File md a)" "keeps I max_zip_bytes" "keeps I InstallDownloadTimeoutSeconds"
  "keeps I (check_tier1 md mf n)"
  unfolding read_manifest_def hashSHA256File_def max_zip_bytes_def InstallDownloadTimeoutSeconds_def check_tier1_def
    validateCrudTable_def
  by (intro inv_intros)+

text \<open>Downloads, with a credential whose token may go where it is authorized.\<close>

lemma keeps_http [inv_intros]: "may u tok \<Longrightarrow> keeps I (http_do net u tok)"
proof -
  assume m: "may u tok"
  have "I ((ticked s)\<lparr>requests := requests s @ [(u, tok)]\<rparr>)" if "I s" for s
    using request [OF m, of "ticked s"] off_core_ticked [OF off, of s] that by simp
  then show ?thesis by (auto simp: keeps_def http_do_def)
qed

lemma keeps_download [inv_intros]:
  assumes "\<And>u. authorizes md cred u \<Longrightarrow> may u (Some (GC_token cred))"
  shows "keeps I (downloadFile md u m cred)"
  unfolding downloadFile_def resolveGithubAssetURL_def
  by (intro inv_intros) (auto intro!: assms plain_request)

lemma keeps_fetch [inv_intros]:
  assumes "\<And>u. authorizes md cred u \<Longrightarrow> may u (Some (GC_token cred))"
  shows "keeps I (fetch_release md e m cred)"
  unfolding fetch_release_def verify_signature_def readHexFile_def VerifySHA256_def VerifyCosign_def
  by (intro inv_intros) (auto intro: assms)

text \<open>Going back and applying.\<close>

lemma keeps_rollback [inv_intros]: "keeps I (rollback md name z e)"
  unfolding rollback_def failing_def by (intro inv_intros)

lemma keeps_or_rollback [inv_intros]:
  "keeps I m \<Longrightarrow> (\<And>a. keeps I (f a)) \<Longrightarrow> keeps I (or_rollback md name z m f)"
  unfolding or_rollback_def by (intro inv_intros)

lemma keeps_activate [inv_intros]: "Mf_Name mf = name \<Longrightarrow> keeps I (activate md mf name tree)"
  unfolding activate_def failing_def start_worker_def reload_dynamic_def worker_opts_def moduleDBRolePassword_def
    modulePIIMigrated_def GetModuleDBRolePassword_def IsModulePIIMigrated_def
  by (simp only:) (intro inv_intros)

lemma keeps_apply_update [inv_intros]:
  assumes "\<And>a b c d e f g. keeps I (updateInstalledModuleRecord name a b c d e f g)"
  shows "keeps I (apply_update md name row target mf tree z h u c l)"
  unfolding apply_update_def by (intro inv_intros assms keeps_exec) auto

lemma keeps_cache [inv_intros]:
  assumes "\<And>u. authorizes md cred u \<Longrightarrow> may u (Some (GC_token cred))"
  shows "keeps I (cacheCurrentZIP md u p m cred)"
  unfolding cacheCurrentZIP_def by (intro inv_intros keeps_exec) (auto intro: assms)

lemma keeps_resolve: "keeps I (resolveCustomSourceCredential md source repo)"
proof -
  have "keeps I (decrypt_sources d rs)" for d rs
    by (induction rs) (auto intro!: inv_intros)
  then show ?thesis
    unfolding resolveCustomSourceCredential_def GetCustomSourceByRepoURL_def ListCustomSources_def
    by (intro inv_intros)
qed

text \<open>
  An update: \<open>K\<close> holds until the credential is resolved and gives \<open>P\<close> of it, under which the token
  may go where it is authorized.
\<close>

lemma wp_Update:
  assumes "En_Name e = name" "K s"
    and K: "\<And>t. K t \<Longrightarrow> I t" "\<And>q :: site \<Rightarrow> InstalledModuleRow option res. keeps K (db_query q)"
      "keeps K max_zip_bytes" "\<And>d. keeps K (MkdirAll d)"
    and cred: "\<And>t. K t \<Longrightarrow> wp (resolveCustomSourceCredential md (En_Source e) (En_SourceRepo e)) (\<lambda>c t. I t \<and> P c) t"
    and tok: "\<And>c u. P c \<Longrightarrow> authorizes md c u \<Longrightarrow> may u (Some (GC_token c))"
    and recorded: "\<And>a b c d e f g. keeps I (updateInstalledModuleRecord name a b c d e f g)"
  shows "wp (Update md e) (\<lambda>_. I) s"
proof -
  have fetch: "wp (resolveCustomSourceCredential md (En_Source e) (En_SourceRepo e) \<bind> f) (\<lambda>_. I) t"
    if "K t" "\<And>c. P c \<Longrightarrow> keeps I (f c)" for f :: "githubCredential \<Rightarrow> unit res sio" and t
    unfolding wp_bind by (rule wp_mono [OF cred [OF that(1)]]) (simp add: keeps_wpD that(2))
  show ?thesis
    unfolding Update_def Let_def GetInstalledModule_def assms(1)
    by (intro wp_cases wp_failI wp_try_keeps [OF K(2)] wp_bind_keeps [OF K(3)] wp_try_keeps [OF K(4)] fetch K(1) assms(2);
        (assumption | intro inv_intros tok recorded; assumption))
qed

lemma keeps_Uninstall:
  assumes "keeps I (DeleteInstalledModule name)"
  shows "keeps I (Uninstall md name)"
  unfolding Uninstall_def by (intro inv_intros assms keeps_exec) simp_all

lemma keeps_manual:
  assumes "\<And>a b c d e f g. keeps I (updateInstalledModuleRecord name a b c d e f g)"
  shows "keeps I (try_bind (hashSHA256File md z) (\<lambda>h. apply_update md name row v mf tree [] h [] False []))"
  by (intro inv_intros assms)

text \<open>An installation: likewise, with what is known of the row that is inserted.\<close>

lemma wp_Install:
  assumes "En_Name e = name" "K s"
    and K: "\<And>t. K t \<Longrightarrow> I t" "\<And>q :: site \<Rightarrow> InstalledModuleRow option res. keeps K (db_query q)" "keeps K max_zip_bytes"
    and cred: "\<And>t. K t \<Longrightarrow> wp (resolveCustomSourceCredential md (En_Source e) (En_SourceRepo e)) (\<lambda>c t. I t \<and> P c) t"
    and tok: "\<And>c u. P c \<Longrightarrow> authorizes md c u \<Longrightarrow> may u (Some (GC_token c))"
    and inserted: "\<And>archive gotHex cv tree mf. released md e archive gotHex cv \<Longrightarrow> unpacked md archive tree \<Longrightarrow>
        manifest_of md tree mf \<Longrightarrow> validateManifestTier mf = Inr () \<Longrightarrow> Mf_Name mf = name \<Longrightarrow>
        keeps I (InsertInstalledModule name (Mf_Version mf) (Mf_Tier mf) (En_Source e) (zip_url e) gotHex mf cv (En_LogoURL e))"
  shows "wp (Install md e) (\<lambda>_. I) s"
proof -
  have fetch: "wp (resolveCustomSourceCredential md (En_Source e) (En_SourceRepo e) \<bind> f) (\<lambda>_. I) t"
    if "K t" "\<And>c. P c \<Longrightarrow> keeps I (f c)" for f :: "githubCredential \<Rightarrow> unit res sio" and t
    unfolding wp_bind by (rule wp_mono [OF cred [OF that(1)]]) (simp add: keeps_wpD that(2))
  have insert: "keeps I (try_bind (unpack md archive m) (\<lambda>extracted.
          try_bind (read_manifest md extracted) (\<lambda>mf.
          if Mf_Name mf \<noteq> name then fail (ErrInvalid ''manifest name mismatch'')
          else try_bind (State_Monad.return (validateManifestTier mf)) (\<lambda>_.
          try_bind (InsertInstalledModule (Mf_Name mf) (Mf_Version mf) (Mf_Tier mf) (En_Source e) (zip_url e) gotHex mf
                      cv (En_LogoURL e)) (\<lambda>_.
          activate md mf name extracted)))))" if "released md e archive gotHex cv" for archive gotHex cv m
    by (intro keeps_try_gives [OF _ gives_unpack] keeps_try_gives [OF _ gives_manifest] keeps_if
        keeps_try_gives [OF _ gives_tier] keeps_try [of I "InsertInstalledModule _ _ _ _ _ _ _ _ _"] keeps_fail)
      (simp_all add: inserted [OF that] keeps_activate keeps_unpack keeps_read inv_intros)
  have steps: "keeps I (try_bind (fetch_release md e m c) (\<lambda>(archive, gotHex, cosignVerified).
          try_bind (unpack md archive m) (\<lambda>extracted.
          try_bind (read_manifest md extracted) (\<lambda>mf.
          if Mf_Name mf \<noteq> name then fail (ErrInvalid ''manifest name mismatch'')
          else try_bind (State_Monad.return (validateManifestTier mf)) (\<lambda>_.
          try_bind (InsertInstalledModule (Mf_Name mf) (Mf_Version mf) (Mf_Tier mf) (En_Source e) (zip_url e) gotHex mf
                      cosignVerified (En_LogoURL e)) (\<lambda>_.
          activate md mf name extracted))))))" if "P c" for m c
    by (rule keeps_try_gives [OF _ gives_fetch]) (auto intro: keeps_fetch tok that insert)
  show ?thesis
    unfolding Install_def Let_def GetInstalledModule_def assms(1)
    by (intro wp_cases wp_failI wp_try_keeps [OF K(2)] wp_bind_keeps [OF K(3)] fetch steps K(1) assms(2); assumption?)
qed

end

section \<open>Tokens of custom sources\<close>

text \<open>The token stored with a custom source of that repository.\<close>

definition own_token :: "Deps \<Rightarrow> CustomSourceRow list \<Rightarrow> string \<Rightarrow> string \<Rightarrow> bool" where
  "own_token d cs repo tok \<longleftrightarrow> (\<exists>c\<in>set cs. plain d (d_PoolKey d) (CS_RepoURL c) = Inr repo
     \<and> plain d (d_PoolKey d) (CS_Token c) = Inr tok)"

text \<open>
  Where a repository of GitHub is: by HTTPS on one of its two hosts, at a path whose first
  components are those of the repository (behind \<open>repos\<close> on the API's host), with something below
  them and no component that walks up.
\<close>

definition repo_url :: "MDeps \<Rightarrow> string \<Rightarrow> string \<Rightarrow> bool" where
  "repo_url md repo u \<longleftrightarrow> repo \<noteq> [] \<and> (\<exists>host upath root below. M_urlParse md u = Some (''https'', host, upath)
     \<and> ''..'' \<notin> set (split_on CHR ''/'' upath)
     \<and> map to_lower (split_on CHR ''/'' (trim_prefix upath ''/'')) = root @ below \<and> below \<noteq> []
     \<and> (to_lower host = ''github.com'' \<and> root = split_on CHR ''/'' (to_lower repo)
        \<or> to_lower host = ''api.github.com'' \<and> root = ''repos'' # split_on CHR ''/'' (to_lower repo)))"

lemma part_of_split: "w \<in> set (split_on d s) \<Longrightarrow> contains s w"
proof (induction s arbitrary: w)
  case (Cons c s)
  have ahead: "\<exists>v. s = hd (split_on d s) @ v"
    by (induction s) (auto split: list.splits)
  have "contains (c # s) w" if "contains s w"
    using that unfolding contains_iff by (metis append_Cons)
  moreover have "contains (c # s) (c # hd (split_on d s))"
    using ahead unfolding contains_iff by (metis append_Cons append_Nil)
  moreover have "w = [] \<or> w \<in> set (split_on d s) \<or> w = c # hd (split_on d s)"
    using Cons.prems by (cases "split_on d s") (auto split: if_splits)
  moreover have "contains (c # s) []" unfolding contains_iff by (rule exI [of _ "[]"]) simp
  ultimately show ?case using Cons.IH by blast
qed (simp add: contains_iff)

lemma authorizes_repo_url:
  assumes "authorizes md c u"
  shows "repo_url md (GC_repo c) u"
proof -
  obtain scheme host upath where u: "M_urlParse md u = Some (scheme, host, upath)" and https: "scheme = ''https''"
    and up: "\<not> contains upath ''..''" and repo: "GC_repo c \<noteq> []"
    and path: "(to_lower host = ''github.com'' \<and> has_prefix (to_lower (trim_prefix upath ''/'')) (to_lower (GC_repo c) @ ''/''))
      \<or> (to_lower host = ''api.github.com'' \<and> has_prefix (to_lower (trim_prefix upath ''/'')) (''repos/'' @ to_lower (GC_repo c) @ ''/''))"
    using assms unfolding authorizes_def Let_def by (auto split: option.splits if_splits)
  define root where "root = (if to_lower host = ''github.com'' then split_on CHR ''/'' (to_lower (GC_repo c))
     else ''repos'' # split_on CHR ''/'' (to_lower (GC_repo c)))"
  have "\<exists>x. split_on CHR ''/'' (to_lower (trim_prefix upath ''/'')) = root @ split_on CHR ''/'' x"
    using path split_on_append [of "CHR ''/''" "''repos''"]
    by (auto simp: has_prefix_iff root_def split_on_at_sep)
  then obtain x where "map to_lower (split_on CHR ''/'' (trim_prefix upath ''/'')) = root @ split_on CHR ''/'' x"
    using split_on_lower [of "CHR ''/''"] by (auto simp: is_upper_def is_lower_def byte_def)
  moreover have "''..'' \<notin> set (split_on CHR ''/'' upath)" using up part_of_split by blast
  moreover have "split_on CHR ''/'' x \<noteq> []" by simp
  ultimately show ?thesis
    unfolding repo_url_def using u https repo path root_def by (auto intro!: exI)
qed

text \<open>
  Whether a request may carry a token: to the repository of the entry, which comes from a custom
  source with that token.
\<close>

definition may_carry :: "MDeps \<Rightarrow> CustomSourceRow list \<Rightarrow> Entry \<Rightarrow> string \<Rightarrow> string option \<Rightarrow> bool" where
  "may_carry md cs e u tok \<longleftrightarrow> (case tok of
       None \<Rightarrow> True
     | Some k \<Rightarrow> En_Source e = ''custom'' \<and> own_token (M_deps md) cs (En_SourceRepo e) k
         \<and> repo_url md (githubRepoPath (En_SourceRepo e)) u)"

definition good_cred :: "MDeps \<Rightarrow> CustomSourceRow list \<Rightarrow> Entry \<Rightarrow> githubCredential \<Rightarrow> bool" where
  "good_cred md cs e c \<longleftrightarrow> c = no_credential
     \<or> En_Source e = ''custom'' \<and> GC_repo c = githubRepoPath (En_SourceRepo e)
       \<and> own_token (M_deps md) cs (En_SourceRepo e) (GC_token c)"

lemma no_credential_nowhere [simp]: "\<not> authorizes md no_credential u"
  by (simp add: authorizes_def no_credential_def)

lemma good_cred_may: "good_cred md cs e c \<Longrightarrow> authorizes md c u \<Longrightarrow> may_carry md cs e u (Some (GC_token c))"
  using authorizes_repo_url [of md c u] by (auto simp: good_cred_def may_carry_def)

definition same_sources :: "CustomSourceRow list \<Rightarrow> (site \<Rightarrow> bool) \<Rightarrow> site \<Rightarrow> bool" where
  "same_sources cs I s \<longleftrightarrow> sources s = cs \<and> cache_ok (gcm (core s)) \<and> I s"

lemma wp_decrypt_sources:
  assumes "off_core I" "same_sources cs I s"
  shows "wp (decrypt_sources d rs) (\<lambda>r t. same_sources cs I t
     \<and> (\<forall>out. r = Inr out \<longrightarrow> (\<forall>o'\<in>set out. own_token d rs (CS_RepoURL o') (CS_Token o')))) s"
  using assms(2)
proof (induction rs arbitrary: s)
  case (Cons x rs)
  have step: "same_sources cs I (t\<lparr>core := w\<rparr>)" if "same_sources cs I t" "cache_ok (gcm w)" for t w
    using that assms(1) by (simp add: same_sources_def off_core_def)
  have dec: "wp (try_bind (core_io (decrypt_if_io d k e)) f) Q t"
    if "same_sources cs I t" "\<And>u er. same_sources cs I u \<Longrightarrow> Q (Inl er) u"
      "\<And>p u. plain d k e = Inr p \<Longrightarrow> same_sources cs I u \<Longrightarrow> wp (f p) Q u"
    for k e and f :: "string \<Rightarrow> CustomSourceRow list res sio" and Q t
  proof -
    have "cache_ok (gcm (core t))" using that(1) by (simp add: same_sources_def)
    then show ?thesis
      unfolding wp_try wp_core by (rule wp_decrypt_plain) (use that(2,3) step [OF that(1)] in auto)
  qed
  show ?case
    unfolding decrypt_sources.simps
    by (intro dec Cons.prems) (auto simp: wp_try [of "decrypt_sources _ _"] wp_ok own_token_def intro!: wp_mono [OF Cons.IH])
qed (simp add: wp_ok)

lemma own_token_cong: "set cs = set cs' \<Longrightarrow> own_token d cs = own_token d cs'"
  by (simp add: own_token_def fun_eq_iff)

lemma find_own:
  "List.find (\<lambda>r. CS_RepoURL r = repo) rows = Some row
     \<Longrightarrow> \<forall>o'\<in>set rows. own_token d cs (CS_RepoURL o') (CS_Token o') \<Longrightarrow> own_token d cs repo (CS_Token row)"
  by (auto simp: find_Some_iff)

lemma wp_resolve:
  assumes "off_core I" "same_sources cs I s"
  shows "wp (resolveCustomSourceCredential md (En_Source e) (En_SourceRepo e)) (\<lambda>c t. I t \<and> good_cred md cs e c) s"
proof -
  let ?Q = "\<lambda>r t. I t \<and> (\<forall>row. r = Inr (Some row) \<longrightarrow> own_token (M_deps md) cs (En_SourceRepo e) (CS_Token row))"
  have s: "same_sources cs I (ticked s)" "I (ticked s)"
    using assms by (simp_all add: same_sources_def)
  have "wp (GetCustomSourceByRepoURL (M_deps md) (En_SourceRepo e)) ?Q s"
    unfolding GetCustomSourceByRepoURL_def ListCustomSources_def wp_try wp_db_query
    using assms own_token_cong [of "sort_key CS_AddedAt cs" cs]
    by (auto simp: s same_sources_def wp_ok intro: find_own intro!: wp_mono [OF wp_decrypt_sources [OF assms(1) s(1)]])
  then show ?thesis
    unfolding resolveCustomSourceCredential_def wp_if wp_bind wp_return
    using assms(2) by (auto simp: good_cred_def same_sources_def elim!: wp_mono split: sum.split option.split)
qed

lemma keeps_same_sources:
  assumes "off_core I"
  shows "keeps (same_sources cs I) (db_query q)" "keeps (same_sources cs I) max_zip_bytes"
    "(\<And>s x. I (put_tree d x s) = I s) \<Longrightarrow> keeps (same_sources cs I) (MkdirAll d)"
proof -
  have t: "same_sources cs I (ticked s) = same_sources cs I s" for s
    using assms by (simp add: same_sources_def)
  show "keeps (same_sources cs I) (db_query q)"
    by (simp add: keeps_def db_query_def t)
  have "same_sources cs I (s\<lparr>core := (core s)\<lparr>calls := Suc (calls (core s))\<rparr>\<rparr>) = same_sources cs I s" for s
    using t [of s] by (simp add: ticked_def)
  then show "keeps (same_sources cs I) max_zip_bytes"
    by (simp add: keeps_def max_zip_bytes_def GetSetting_def query_def core_io_def)
  have src: "sources (put_tree d x s) = sources s" for d x s by (simp add: put_tree_def)
  show "keeps (same_sources cs I) (MkdirAll d)" if "\<And>s x. I (put_tree d x s) = I s"
    unfolding keeps_wp by (auto intro!: wp_MkdirAll simp: t) (simp add: same_sources_def that assms src)
qed

definition confined :: "MDeps \<Rightarrow> CustomSourceRow list \<Rightarrow> Entry \<Rightarrow> (string \<times> string option) set \<Rightarrow> site \<Rightarrow> bool" where
  "confined md cs e old s \<longleftrightarrow> (\<forall>(u, tok) \<in> set (requests s). (u, tok) \<in> old \<or> may_carry md cs e u tok)"

interpretation confinement: row_invariant "confined md cs e old" name "may_carry md cs e" for md cs e old name
  by unfold_locales (auto simp: confined_def patch_row_def may_carry_def)

text \<open>
  C22: an installation or update sends a token nowhere but where it belongs. Every request it makes
  that carries a token goes by HTTPS to github.com or api.github.com, to a path below the repository of
  the module's own custom source, by components and without one that walks up, and the token is the
  one stored with a source of that repository; entries of other sources never carry one. These are the
  requests the program makes; the redirects its HTTP client follows are not modelled. This holds whichever calls fail, and for whatever the registry entry and
  the release listing of GitHub say.
\<close>

theorem tokens_confined:
  assumes "cache_ok (gcm (core s))" and "operation \<in> {Install md e, Update md e}" and "run_state operation s = (r, t)"
    and "(u, tok) \<in> set (requests t)" and "(u, tok) \<notin> set (requests s)"
  shows "may_carry md (sources s) e u tok"
proof -
  let ?I = "confined md (sources s) e (set (requests s))"
  note off = confinement.off [of md "sources s" e "set (requests s)"]
  have K: "same_sources (sources s) ?I s"
    using assms(1) by (auto simp: same_sources_def confined_def)
  have I: "same_sources (sources s) ?I t \<Longrightarrow> ?I t" for t
    by (simp add: same_sources_def)
  have put: "?I (put_tree d x t) = ?I t" for d x t
    by (simp add: confined_def put_tree_def)
  have other: "keeps ?I (db_exec q f)" if "\<And>s. requests (f s) = requests s" for q and f
    using that by (intro keeps_db_exec off) (simp add: confined_def)
  note keeps = keeps_same_sources(1,2) [OF off] keeps_same_sources(3) [OF off put]
  have "wp (Install md e) (\<lambda>_. ?I) s"
    by (rule confinement.wp_Install [OF refl K I keeps(1,2) wp_resolve [OF off] good_cred_may])
      (auto simp: InsertInstalledModule_def intro: other)
  moreover have "wp (Update md e) (\<lambda>_. ?I) s"
    by (rule confinement.wp_Update [OF refl K I keeps wp_resolve [OF off] good_cred_may])
      (auto simp: updateInstalledModuleRecord_def patch_def patch_row_def intro: other)
  ultimately have "?I t"
    using assms(2,3) by (auto simp: wp_run)
  then show ?thesis using assms(4,5) by (auto simp: confined_def)
qed

section \<open>Verified rows\<close>

text \<open>What holds of a row that \<open>Install\<close> makes for an entry.\<close>

definition vetted :: "MDeps \<Rightarrow> Entry \<Rightarrow> InstalledModuleRow \<Rightarrow> bool" where
  "vetted md e r \<longleftrightarrow> IM_Source r = En_Source e \<and> (\<exists>archive tree mf.
     released md e archive (IM_SHA256 r) (IM_CosignVerified r) \<and> unpacked md archive tree \<and> manifest_of md tree mf
     \<and> validateManifestTier mf = Inr () \<and> Mf_Name mf = En_Name e \<and> IM_Manifest r = Some mf)"

definition all_vetted :: "MDeps \<Rightarrow> Entry \<Rightarrow> site \<Rightarrow> bool" where
  "all_vetted md e s \<longleftrightarrow> (\<forall>r\<in>set (installed s). IM_Name r = En_Name e \<longrightarrow> vetted md e r)"

interpretation vetting: row_invariant "all_vetted md e" "En_Name e" "\<lambda>_ _. True" for md e
  by unfold_locales (auto simp: all_vetted_def patch_row_def vetted_def light_def)

text \<open>
  C21: an installed module has been verified. Whatever fails on the way, a row that is there for the
  name of an entry after its installation records the hash of an archive that unpacks, within the
  limits, to files with an accepted manifest of that name; if the row claims a verified signature,
  cosign accepted one for the archive under the key of the entry (the official key by default), and
  for an official entry it always did.
\<close>

theorem install_verified:
  assumes "find_row (installed s) (En_Name e) = None" and "run_state (Install md e) s = (r, t)"
    and "row \<in> set (installed t)" and "IM_Name row = En_Name e"
  shows "vetted md e row"
proof -
  let ?I = "all_vetted md e"
  note off = vetting.off [of md e]
  have I: "?I s"
    using assms(1) by (auto simp: all_vetted_def find_row_def find_None_iff)
  have ins: "keeps ?I (InsertInstalledModule (En_Name e) v ti (En_Source e) u h mf cv l)"
    if "released md e archive h cv" "unpacked md archive tree" "manifest_of md tree mf" "validateManifestTier mf = Inr ()"
      "Mf_Name mf = En_Name e" for v ti u h mf cv l archive tree
    unfolding InsertInstalledModule_def using that
    by (intro keeps_db_exec off) (auto simp: all_vetted_def vetted_def)
  have "wp (Install md e) (\<lambda>_. ?I) s"
    by (rule vetting.wp_Install [where K = ?I and P = "\<lambda>_. True", OF refl I])
      (auto intro: vetting.keeps_world vetting.keeps_read ins keeps_wpD [OF vetting.keeps_resolve])
  then show ?thesis
    using assms(2-4) by (auto simp: wp_run all_vetted_def)
qed

section \<open>Pinned modules\<close>

text \<open>A row is there, as long as operations go by another name.\<close>

definition kept :: "InstalledModuleRow \<Rightarrow> string \<Rightarrow> site \<Rightarrow> bool" where
  "kept r name s \<longleftrightarrow> (IM_Name r \<noteq> name \<longrightarrow> r \<in> set (installed s))"

interpretation keeping: row_invariant "kept r name" name "\<lambda>_ _. True" for r name
  by unfold_locales (force simp: kept_def patch_row_def)+

lemma keeps_kept:
  "keeps (kept r name) (updateInstalledModuleRecord name a b c d e f g)" "keeps (kept r name) (DeleteInstalledModule name)"
  unfolding updateInstalledModuleRecord_def DeleteInstalledModule_def patch_def
  by (intro keeps_db_exec keeping.off; force simp: kept_def patch_row_def)+

lemma find_row_unique: "r \<in> set rs \<Longrightarrow> distinct (map IM_Name rs) \<Longrightarrow> find_row rs (IM_Name r) = Some r"
  by (induction rs) (auto simp: find_row_def)

text \<open>
  C23: a pinned module stays as it is. No update from a registry entry, no update from an uploaded
  archive and no removal changes or deletes its row, whatever it is called with and whichever calls
  fail; the name of a module is unique among the rows.
\<close>

theorem pinned_row_kept:
  assumes "r \<in> set (installed s)" and "IM_Pinned r" and "distinct (map IM_Name (installed s))"
    and "operation \<in> {Update md e, UpdateManual md z, Uninstall md n}" and "run_state operation s = (x, t)"
  shows "r \<in> set (installed t)"
proof -
  let ?Q = "\<lambda>(_ :: unit res) t. r \<in> set (installed t)"
  have find: "find_row rs n' = Some r' \<Longrightarrow> IM_Name r = n' \<Longrightarrow> r \<in> set rs \<Longrightarrow> distinct (map IM_Name rs) \<Longrightarrow> IM_Pinned r'" for rs n' r'
    using find_row_unique [of r rs] assms(2) by auto
  have own: "wp (try_bind (GetInstalledModule n') f) ?Q u"
    if "installed u = installed s" "IM_Name r = n'" "\<And>t. r \<in> set (installed t) \<Longrightarrow> wp (f (Some r)) ?Q t" for n' f u
    unfolding GetInstalledModule_def wp_try wp_db_query
    using that assms(1) find_row_unique [OF assms(1,3)] by auto
  have "wp (Update md e) ?Q s"
  proof (cases "IM_Name r = En_Name e")
    case True then show ?thesis
      unfolding Update_def Let_def by (auto simp: wp_fail assms(1,2) intro!: own wp_cases)
  next
    case False
    have "wp (Update md e) (\<lambda>_. kept r (En_Name e)) s"
      by (rule keeping.wp_Update [where K = "kept r (En_Name e)" and P = "\<lambda>_. True", OF refl])
        (use assms(1) in \<open>auto simp: kept_def [of r _ s] intro: keeping.keeps_world keeping.keeps_read keeping.keeps_dirs
           keeps_kept keeps_wpD [OF keeping.keeps_resolve]\<close>)
    then show ?thesis by (rule wp_mono) (use False in \<open>simp add: kept_def\<close>)
  qed
  moreover have "wp (Uninstall md n) ?Q s"
  proof (cases "IM_Name r = n")
    case True then show ?thesis
      unfolding Uninstall_def by (auto simp: wp_fail assms(2) intro!: own)
  next
    case False
    have "wp (Uninstall md n) (\<lambda>_. kept r n) s"
      by (rule keeps_wpD [OF keeping.keeps_Uninstall [OF keeps_kept(2)]]) (simp add: kept_def assms(1))
    then show ?thesis by (rule wp_mono) (use False in \<open>simp add: kept_def\<close>)
  qed
  moreover have "wp (UpdateManual md z) ?Q s"
  proof -
    let ?R = "\<lambda>t. installed t = installed s"
    have R: "off_core ?R" by (simp add: off_core_def)
    have row: "wp (try_bind (GetInstalledModule n') (\<lambda>found. case found of None \<Rightarrow> fail (ErrInvalid ''not installed'')
       | Some row \<Rightarrow>
           if IM_Pinned row then fail (ErrInvalid ''module is pinned'')
           else try_bind (State_Monad.return (validateManifestTier mf)) (\<lambda>_.
             try_bind (hashSHA256File md z) (\<lambda>h. apply_update md n' row (Mf_Version mf) mf tree [] h [] False [])))) ?Q u"
      if "?R u" for n' mf tree u
    proof (cases "IM_Name r = n'")
      case True then show ?thesis using that by (auto simp: wp_fail assms(2) intro!: own)
    next
      case False
      show ?thesis
        by (rule wp_keeps [where I = "kept r n'"])
          (use False that assms(1) in \<open>auto simp: kept_def [of r _ u] kept_def [of r n'] intro!: inv_intros keeping.keeps_manual keeps_kept\<close>)
    qed
    show ?thesis
      unfolding UpdateManual_def
      by (rule wp_try_keeps [OF keeps_quiet(1) [OF R]], simp, simp add: assms(1),
          rule wp_bind_keeps [OF keeps_quiet(2) [OF R]], assumption,
          rule wp_try_keeps [OF keeps_quiet(3) [OF R]], assumption, simp add: assms(1),
          rule wp_try_keeps [OF keeps_quiet(4) [OF R]], assumption, simp add: assms(1), rule row, assumption)
  qed
  ultimately show ?thesis
    using assms(4,5) by (auto simp: wp_run)
qed

section \<open>The properties at a concrete site\<close>

definition shop_mdeps :: MDeps where
  "shop_mdeps = sample_mdeps\<lparr>
     M_fetch := (\<lambda>_ u. Some \<lparr>st_bytes = (if has_suffix u ''.sha256'' then hex_encode ''zip'' else ''zip''), st_ok = True\<rparr>),
     M_unzip := (\<lambda>_. Some [\<lparr>z_name = ''manifest.yaml'', z_dir = False, z_stream = \<lparr>st_bytes = ''m'', st_ok = True\<rparr>, z_open = True\<rparr>]),
     M_yaml := (\<lambda>_. Some sample_manifest),
     M_urlParse := (\<lambda>u. case split_at (drop 8 u) ''/'' of None \<Rightarrow> None | Some (h, p) \<Rightarrow> Some (''https'', h, CHR ''/'' # p)),
     M_assets := (\<lambda>_ _. Some (map (\<lambda>f. (f, ''https://api.github.com/repos/o/r/assets/'' @ f)) [''x.zip'', ''x.zip.sha256'']))\<rparr>"

definition official_entry :: Entry where
  "official_entry = \<lparr>En_Name = ''unifi'', En_Source = ''official'', En_SourceRepo = ''https://github.com/o/r'',
     En_ReleaseAsset = ''x.zip'', En_CosignSigURL = ''https://r/sig'', En_CosignPubKey = [], En_Category = [],
     En_LatestVersion = ''v1'', En_LogoURL = [], En_BrowseURL = [], En_SyncedAt = 0\<rparr>"

definition custom_entry :: Entry where
  "custom_entry = official_entry\<lparr>En_Source := ''custom'', En_CosignSigURL := []\<rparr>"

theorem install_verified_witness:
  "\<exists>row archive sig. find_row (installed (snd (run_state (Install shop_mdeps official_entry) empty_site))) ''unifi'' = Some row
     \<and> IM_SHA256 row = hex_encode archive \<and> M_cosign shop_mdeps (M_officialKey shop_mdeps) sig archive"
proof -
  let ?run = "run_state (Install shop_mdeps official_entry) empty_site"
  obtain r t where rt: "?run = (r, t)" by fastforce
  have "find_row (installed empty_site) (En_Name official_entry) = None"
    by (simp add: empty_site_def find_row_def)
  note vet = install_verified [OF this rt]
  have "find_row (installed (snd ?run)) ''unifi'' \<noteq> None" by code_simp
  then obtain row where row: "find_row (installed t) ''unifi'' = Some row" using rt by auto
  then have "row \<in> set (installed t)" "IM_Name row = En_Name official_entry"
    by (auto simp: find_row_def find_Some_iff official_entry_def)
  from vet [OF this] show ?thesis
    using rt row
    by (auto simp: vetted_def released_def cosign_key_def official_entry_def shop_mdeps_def sample_mdeps_def)
qed

text \<open>A private source, whose archive and checksum are fetched through the API with its token.\<close>

definition private_site :: site where
  "private_site = snd (run_state (CreateCustomSource sample_deps ''https://github.com/o/r'' ''n'' [] ''tok'' ''github'' ''s1'') empty_site)"

theorem tokens_confined_witness:
  "list_ex (\<lambda>(u, tok). tok = Some ''tok'' \<and> may_carry shop_mdeps (sources private_site) custom_entry u tok)
     (requests (snd (run_state (Install shop_mdeps custom_entry) private_site)))"
proof -
  let ?run = "run_state (Install shop_mdeps custom_entry) private_site"
  obtain r t where rt: "?run = (r, t)" by fastforce
  have cache: "cache_ok (gcm (core private_site))" by code_simp
  have "list_ex (\<lambda>(u, tok). tok = Some ''tok'') (requests (snd ?run))" "requests private_site = []" by code_simp+
  then obtain u where "(u, Some ''tok'') \<in> set (requests t)" and "(u, Some ''tok'') \<notin> set (requests private_site)"
    using rt by (auto simp: list_ex_iff)
  then have "may_carry shop_mdeps (sources private_site) custom_entry u (Some ''tok'')"
    using tokens_confined [OF cache _ rt] by simp
  with \<open>(u, Some ''tok'') \<in> set (requests t)\<close> show ?thesis using rt by (auto simp: list_ex_iff)
qed

theorem pinned_row_kept_witness:
  "let r = sample_row\<lparr>IM_Pinned := True\<rparr>; s = empty_site\<lparr>installed := [r]\<rparr> in
     r \<in> set (installed (snd (run_state (Uninstall sample_mdeps ''m'') s)))"
proof -
  let ?r = "sample_row\<lparr>IM_Pinned := True\<rparr>" and ?s = "empty_site\<lparr>installed := [sample_row\<lparr>IM_Pinned := True\<rparr>]\<rparr>"
  obtain x t where rt: "run_state (Uninstall sample_mdeps ''m'') ?s = (x, t)" by fastforce
  show ?thesis
    using pinned_row_kept [of ?r ?s "Uninstall sample_mdeps ''m''" sample_mdeps undefined undefined "''m''"] rt by simp
qed

end
