(* ===== verification/Crud.thy ===== *)
theory Crud
  imports Http Manifest
begin

text \<open>
  \<open>modules/crud.go\<close>: the generic table handler that serves the API of a tier-1 module. The table is
  a list of rows; a statement is logged with its text and arguments, and may be lost or go through
  unacknowledged. Rows of the JSON answer are lists of columns with their values.
\<close>

section \<open>Values\<close>

datatype json = JNull | JBool bool | JNum string | JStr string | JOther

text \<open>A value of a column; an instant is kept as its text, a time of the server as a number.\<close>

datatype cell = VText string | VInt int | VFloat string | VBool bool | VDate string | VTime string | VStamp int | VUuid string

text \<open>A row: the value of each column, \<open>None\<close> for \<open>NULL\<close>.\<close>

type_synonym row = "string \<Rightarrow> cell option"
type_synonym json_row = "(string \<times> cell option) list"

record crud_site =
  cr_world :: world
  cr_tables :: "string \<times> string \<Rightarrow> row list option"
  cr_columns :: "string \<times> string \<Rightarrow> (string \<times> string) list"
  cr_log :: "(string \<times> cell option list) list"

type_synonym 'a cio = "(crud_site, 'a) state"

text \<open>
  What surrounds the handler: the key of encrypted columns, how Postgres reads a UUID, the ids it
  generates, whether it accepts a row in a table, and whether a number is within a \<open>float64\<close>.
\<close>

record CDeps =
  C_deps :: Deps
  C_PIIKey :: string
  C_uuid :: "string \<Rightarrow> string option"
  C_gen :: "nat \<Rightarrow> string"
  C_accepts :: "string \<times> string \<Rightarrow> row list \<Rightarrow> row \<Rightarrow> bool"
  C_float :: "string \<Rightarrow> bool"

datatype crud_body = CRows "json_row list" | CRow json_row | CMessage string | CNone

type_synonym crud_response = "nat \<times> crud_body"

definition crud_internal :: crud_response where "crud_internal = (500, CMessage ''internal server error'')"

section \<open>Columns\<close>

definition idColumn :: string where "idColumn = ''id''"
definition createdAtColumn :: string where "createdAtColumn = ''created_at''"
definition updatedAtColumn :: string where "updatedAtColumn = ''updated_at''"
definition createdByColumn :: string where "createdByColumn = ''created_by''"

lemmas crud_columns = idColumn_def createdAtColumn_def updatedAtColumn_def createdByColumn_def

definition crudSelectColumns :: "ManifestCrud \<Rightarrow> string list" where
  "crudSelectColumns crud = [idColumn, createdAtColumn, updatedAtColumn]
     @ (if Crud_OwnerScoped crud then [createdByColumn] else []) @ map Field_Name (Crud_Fields crud)"

definition crudColumnIsUUID :: "ManifestCrud \<Rightarrow> string \<Rightarrow> bool" where
  "crudColumnIsUUID crud name \<longleftrightarrow>
     name = idColumn \<or> list_ex (\<lambda>f. Field_Name f = name \<and> Field_Type f = ''uuid'') (Crud_Fields crud)"

text \<open>\<open>pgx.Identifier.Sanitize\<close>: NUL bytes go, quotes are doubled, quotes around.\<close>

definition quoteIdent :: "string \<Rightarrow> string" where
  "quoteIdent name = CHR 0x22 # concat (map (\<lambda>c. if c = CHR 0x22 then [CHR 0x22, CHR 0x22] else [c])
     (filter (\<lambda>c. c \<noteq> CHR 0x00) name)) @ [CHR 0x22]"

definition quotedCrudSelectColumn :: "ManifestCrud \<Rightarrow> string \<Rightarrow> string" where
  "quotedCrudSelectColumn crud name =
     (if crudColumnIsUUID crud name then quoteIdent name @ ''::text AS '' @ quoteIdent name else quoteIdent name)"

text \<open>What the columns of a row are in the answer to such a statement.\<close>

definition select_cell :: "ManifestCrud \<Rightarrow> string \<Rightarrow> cell option \<Rightarrow> cell option" where
  "select_cell crud name v = (if crudColumnIsUUID crud name
     then map_option (\<lambda>c. case c of VUuid u \<Rightarrow> VText u | _ \<Rightarrow> c) v else v)"

definition select_row :: "ManifestCrud \<Rightarrow> row \<Rightarrow> json_row" where
  "select_row crud r = map (\<lambda>c. (c, select_cell crud c (r c))) (crudSelectColumns crud)"

section \<open>Statements\<close>

type_synonym tables = "string \<times> string \<Rightarrow> row list option"

definition crud_call :: "string \<Rightarrow> cell option list \<Rightarrow> (crud_site \<Rightarrow> 'a res) \<Rightarrow> (crud_site \<Rightarrow> tables) \<Rightarrow> 'a res cio" where
  "crud_call text args q f = State_Monad.State (\<lambda>s.
     let w = cr_world s;
         lost = s\<lparr>cr_log := cr_log s @ [(text, args)], cr_world := w\<lparr>calls := Suc (calls w)\<rparr>\<rparr>;
         through = (case q s of Inl _ \<Rightarrow> lost | Inr _ \<Rightarrow> lost\<lparr>cr_tables := f s\<rparr>) in
     case outcomes w (calls w) of
       Done \<Rightarrow> (q s, through) | Lost \<Rightarrow> (Inl ErrExternal, lost) | Unacked \<Rightarrow> (Inl ErrExternal, through))"

definition crud_io :: "'a io \<Rightarrow> 'a cio" where
  "crud_io m = State_Monad.State (\<lambda>s. let (a, w) = run_state m (cr_world s) in (a, s\<lparr>cr_world := w\<rparr>))"

definition rows_of :: "string \<times> string \<Rightarrow> crud_site \<Rightarrow> row list" where
  "rows_of t s = (case cr_tables s t of None \<Rightarrow> [] | Some rs \<Rightarrow> rs)"

definition put_rows :: "string \<times> string \<Rightarrow> row list \<Rightarrow> crud_site \<Rightarrow> tables" where
  "put_rows t rs s = (cr_tables s)(t \<mapsto> rs)"

text \<open>A statement on a table that is not there is an error.\<close>

definition on_table :: "string \<times> string \<Rightarrow> crud_site \<Rightarrow> 'a res \<Rightarrow> 'a res" where
  "on_table t s r = (if cr_tables s t = None then Inl ErrExternal else r)"

definition target :: "string \<Rightarrow> ManifestCrud \<Rightarrow> string" where
  "target schema crud = quoteIdent schema @ ''.'' @ quoteIdent (Crud_Table crud)"

definition returned :: "ManifestCrud \<Rightarrow> string" where
  "returned crud = join_with '', '' (map (quotedCrudSelectColumn crud) (crudSelectColumns crud))"

definition placeholders :: "nat \<Rightarrow> string list" where
  "placeholders n = map (\<lambda>i. CHR ''$'' # show_nat (Suc i)) [0..<n]"

definition owned_by :: "string \<Rightarrow> row \<Rightarrow> bool" where
  "owned_by user r \<longleftrightarrow> r createdByColumn = Some (VText user)"

definition has_id :: "string \<Rightarrow> row \<Rightarrow> bool" where
  "has_id i r \<longleftrightarrow> r idColumn = Some (VUuid i)"

text \<open>\<open>ORDER BY created_at DESC\<close>; rows of the same instant in the order they were inserted.\<close>

definition stamp :: "row \<Rightarrow> int" where
  "stamp r = (case r createdAtColumn of Some (VStamp t) \<Rightarrow> t | _ \<Rightarrow> 0)"

definition newest_first :: "row list \<Rightarrow> row list" where
  "newest_first rs = sort_key (\<lambda>r. - stamp r) rs"

definition visible :: "ManifestCrud \<Rightarrow> string \<Rightarrow> row list \<Rightarrow> row list" where
  "visible crud user rs = (if Crud_OwnerScoped crud then filter (owned_by user) rs else rs)"

definition select_page :: "string \<Rightarrow> ManifestCrud \<Rightarrow> string \<Rightarrow> int \<Rightarrow> int \<Rightarrow> json_row list res cio" where
  "select_page schema crud user pageSize offset =
     crud_call (''SELECT '' @ returned crud @ '' FROM '' @ target schema crud
         @ (if Crud_OwnerScoped crud then '' WHERE '' @ quoteIdent createdByColumn @ '' = $1'' else [])
         @ '' ORDER BY '' @ quoteIdent createdAtColumn @ '' DESC LIMIT '' @ show_int pageSize @ '' OFFSET '' @ show_int offset)
       (if Crud_OwnerScoped crud then [Some (VText user)] else [])
       (\<lambda>s. let t = (schema, Crud_Table crud) in
         on_table t s (Inr (map (select_row crud)
           (take (nat pageSize) (drop (nat offset) (newest_first (visible crud user (rows_of t s))))))))
       cr_tables"

text \<open>The new row: the given columns, and the defaults of the others.\<close>

definition new_row :: "CDeps \<Rightarrow> (string \<times> cell option) list \<Rightarrow> world \<Rightarrow> row" where
  "new_row cd vals w = (\<lambda>c. if c = idColumn then Some (VUuid (C_gen cd (calls w)))
     else if c = createdAtColumn \<or> c = updatedAtColumn then Some (VStamp (now w))
     else case map_of vals c of Some v \<Rightarrow> v | None \<Rightarrow> None)"

text \<open>
  The id is the primary key. A statement without columns is not SQL: \<open>INSERT INTO t () VALUES ()\<close> is a
  syntax error.
\<close>

definition insert_row :: "CDeps \<Rightarrow> string \<Rightarrow> ManifestCrud \<Rightarrow> (string \<times> cell option) list \<Rightarrow> json_row res cio" where
  "insert_row cd schema crud vals = (let t = (schema, Crud_Table crud) in
     crud_call (''INSERT INTO '' @ target schema crud @ '' ('' @ join_with '', '' (map (quoteIdent \<circ> fst) vals) @ '') VALUES (''
         @ join_with '', '' (placeholders (length vals)) @ '') RETURNING '' @ returned crud)
       (map snd vals)
       (\<lambda>s. on_table t s (
         if vals = [] then Inl ErrExternal
         else let r = new_row cd vals (cr_world s) in
           if \<not> list_ex (\<lambda>r'. r' idColumn = r idColumn) (rows_of t s) \<and> C_accepts cd t (rows_of t s) r then Inr (select_row crud r) else Inl ErrExternal))
       (\<lambda>s. put_rows t (rows_of t s @ [new_row cd vals (cr_world s)]) s))"

definition patched :: "(string \<times> cell option) list \<Rightarrow> int \<Rightarrow> row \<Rightarrow> row" where
  "patched vals t r = (\<lambda>c. if c = updatedAtColumn then Some (VStamp t)
     else case map_of vals c of Some v \<Rightarrow> v | None \<Rightarrow> r c)"

definition patch_rows :: "string \<Rightarrow> (string \<times> cell option) list \<Rightarrow> int \<Rightarrow> row list \<Rightarrow> row list" where
  "patch_rows i vals t rs = map (\<lambda>r. if has_id i r then patched vals t r else r) rs"

text \<open>An id that is not a UUID for Postgres is an error.\<close>

definition with_id :: "CDeps \<Rightarrow> string \<Rightarrow> (string \<Rightarrow> 'a res) \<Rightarrow> 'a res" where
  "with_id cd rowID f = (case C_uuid cd rowID of None \<Rightarrow> Inl ErrExternal | Some i \<Rightarrow> f i)"

definition update_row :: "CDeps \<Rightarrow> string \<Rightarrow> ManifestCrud \<Rightarrow> (string \<times> cell option) list \<Rightarrow> string \<Rightarrow> unit res cio" where
  "update_row cd schema crud vals rowID = (let t = (schema, Crud_Table crud) in
     crud_call (''UPDATE '' @ target schema crud @ '' SET ''
         @ join_with '', '' (map2 (\<lambda>c p. quoteIdent c @ '' = '' @ p) (map fst vals) (placeholders (length vals))
             @ [quoteIdent updatedAtColumn @ '' = now()''])
         @ '' WHERE '' @ quoteIdent idColumn @ '' = $'' @ show_nat (Suc (length vals)))
       (map snd vals @ [Some (VText rowID)])
       (\<lambda>s. on_table t s (with_id cd rowID (\<lambda>i.
         if list_all (C_accepts cd t (rows_of t s)) (filter (has_id i) (patch_rows i vals (now (cr_world s)) (rows_of t s)))
         then Inr () else Inl ErrExternal)))
       (\<lambda>s. case C_uuid cd rowID of None \<Rightarrow> cr_tables s
          | Some i \<Rightarrow> put_rows t (patch_rows i vals (now (cr_world s)) (rows_of t s)) s))"

definition delete_row :: "CDeps \<Rightarrow> string \<Rightarrow> ManifestCrud \<Rightarrow> string \<Rightarrow> unit res cio" where
  "delete_row cd schema crud rowID = (let t = (schema, Crud_Table crud) in
     crud_call (''DELETE FROM '' @ target schema crud @ '' WHERE '' @ quoteIdent idColumn @ '' = $1'') [Some (VText rowID)]
       (\<lambda>s. on_table t s (with_id cd rowID (\<lambda>_. Inr ())))
       (\<lambda>s. case C_uuid cd rowID of None \<Rightarrow> cr_tables s
          | Some i \<Rightarrow> put_rows t (filter (\<lambda>r. \<not> has_id i r) (rows_of t s)) s))"

text \<open>The first row with the id, if any.\<close>

definition find_id :: "CDeps \<Rightarrow> string \<Rightarrow> ManifestCrud \<Rightarrow> string \<Rightarrow> string \<Rightarrow> row option res cio" where
  "find_id cd schema crud selected rowID = (let t = (schema, Crud_Table crud) in
     crud_call (''SELECT '' @ selected @ '' FROM '' @ target schema crud @ '' WHERE '' @ quoteIdent idColumn @ '' = $1'')
       [Some (VText rowID)]
       (\<lambda>s. on_table t s (with_id cd rowID (\<lambda>i. Inr (List.find (has_id i) (rows_of t s))))) cr_tables)"

section \<open>Dates and times: \<open>time.Parse\<close>\<close>

definition getnum :: "bool \<Rightarrow> string \<Rightarrow> (nat \<times> string) option" where
  "getnum fixed s =
     (case s of
        [] \<Rightarrow> None
      | c # t \<Rightarrow>
          if \<not> is_digit c then None
          else (case t of
              d # u \<Rightarrow> if is_digit d then Some (10 * digit_val c + digit_val d, u)
                       else if fixed then None else Some (digit_val c, t)
            | [] \<Rightarrow> if fixed then None else Some (digit_val c, [])))"

definition expect :: "char \<Rightarrow> string \<Rightarrow> string option" where
  "expect c s = (case s of d # t \<Rightarrow> if d = c then Some t else None | [] \<Rightarrow> None)"

definition leap :: "nat \<Rightarrow> bool" where
  "leap y \<longleftrightarrow> y mod 4 = 0 \<and> (y mod 100 \<noteq> 0 \<or> y mod 400 = 0)"

definition days_in :: "nat \<Rightarrow> nat \<Rightarrow> nat" where
  "days_in m y = (if m = 2 then if leap y then 29 else 28 else if m \<in> {4, 6, 9, 11} then 30 else 31)"

text \<open>The date at the head of a text, checked against the calendar, and the rest.\<close>

definition parse_date :: "string \<Rightarrow> string option" where
  "parse_date s =
     (if length s < 4 \<or> \<not> list_all is_digit (take 4 s) then None
      else Option.bind (expect CHR ''-'' (drop 4 s)) (\<lambda>s1.
      Option.bind (getnum True s1) (\<lambda>(m, s2).
      Option.bind (expect CHR ''-'' s2) (\<lambda>s3.
      Option.bind (getnum True s3) (\<lambda>(d, rest).
      if m < 1 \<or> 12 < m \<or> d < 1 \<or> days_in m (digits_val (take 4 s)) < d then None else Some rest)))))"

definition date_ok :: "string \<Rightarrow> bool" where
  "date_ok s \<longleftrightarrow> parse_date s = Some []"

text \<open>The seconds may have a fraction, after a period or a comma.\<close>

definition skip_fraction :: "string \<Rightarrow> string" where
  "skip_fraction s =
     (case s of c # d # t \<Rightarrow> if (c = CHR ''.'' \<or> c = CHR '','') \<and> is_digit d then dropWhile is_digit t else s | _ \<Rightarrow> s)"

definition zone_ok :: "string \<Rightarrow> bool" where
  "zone_ok s \<longleftrightarrow> s = ''Z'' \<or>
     (length s = 6 \<and> (hd s = CHR ''+'' \<or> hd s = CHR ''-'') \<and> s ! 3 = CHR '':''
      \<and> (case getnum True (take 2 (drop 1 s)) of None \<Rightarrow> False | Some (h, _) \<Rightarrow> h \<le> 24)
      \<and> (case getnum True (drop 4 s) of None \<Rightarrow> False | Some (m, _) \<Rightarrow> m \<le> 60))"

definition rfc3339_ok :: "string \<Rightarrow> bool" where
  "rfc3339_ok s \<longleftrightarrow>
     (case Option.bind (parse_date s) (\<lambda>s1.
           Option.bind (expect CHR ''T'' s1) (\<lambda>s2.
           Option.bind (getnum False s2) (\<lambda>(h, s3).
           Option.bind (expect CHR '':'' s3) (\<lambda>s4.
           Option.bind (getnum True s4) (\<lambda>(m, s5).
           Option.bind (expect CHR '':'' s5) (\<lambda>s6.
           Option.bind (getnum True s6) (\<lambda>(sec, s7).
           if h \<ge> 24 \<or> m \<ge> 60 \<or> sec \<ge> 60 then None else Some (skip_fraction s7)))))))) of
        None \<Rightarrow> False | Some zone \<Rightarrow> zone_ok zone)"

section \<open>Field values\<close>

text \<open>A JSON number that is an integer; \<open>json.Number\<close> also reads one from a string.\<close>

definition json_integer :: "string \<Rightarrow> int option" where
  "json_integer s =
     (let ds = (case s of c # t \<Rightarrow> if c = CHR ''-'' then t else s | [] \<Rightarrow> [])
      in if ds \<noteq> [] \<and> list_all is_digit ds \<and> (length ds = 1 \<or> hd ds \<noteq> CHR ''0'') then atoi s else None)"

definition is_hex_digit :: "char \<Rightarrow> bool" where
  "is_hex_digit c \<longleftrightarrow> unhex c \<noteq> None"

definition crudUUIDRe :: "string \<Rightarrow> bool" where
  "crudUUIDRe s \<longleftrightarrow> length s = 36
     \<and> list_all (\<lambda>i. if i \<in> {8, 13, 18, 23} then s ! i = CHR ''-'' else is_hex_digit (s ! i)) [0..<36]"

definition decodeCrudFieldValue :: "CDeps \<Rightarrow> ManifestCrudField \<Rightarrow> json \<Rightarrow> cell res" where
  "decodeCrudFieldValue cd f raw =
     (let bad = Inl (ErrInvalid ''unexpected value''); ty = Field_Type f in
      if ty = ''string'' \<or> ty = ''text'' then (case raw of JStr s \<Rightarrow> Inr (VText s) | _ \<Rightarrow> bad)
      else if ty = ''integer'' then
        (case raw of
           JNum n \<Rightarrow> (case json_integer n of Some i \<Rightarrow> Inr (VInt i) | None \<Rightarrow> bad)
         | JStr n \<Rightarrow> (case json_integer n of Some i \<Rightarrow> Inr (VInt i) | None \<Rightarrow> bad)
         | _ \<Rightarrow> bad)
      else if ty = ''float'' then (case raw of JNum n \<Rightarrow> if C_float cd n then Inr (VFloat n) else bad | _ \<Rightarrow> bad)
      else if ty = ''boolean'' then (case raw of JBool b \<Rightarrow> Inr (VBool b) | _ \<Rightarrow> bad)
      else if ty = ''date'' then (case raw of JStr s \<Rightarrow> if date_ok s then Inr (VDate s) else bad | _ \<Rightarrow> bad)
      else if ty = ''datetime'' then (case raw of JStr s \<Rightarrow> if rfc3339_ok s then Inr (VTime s) else bad | _ \<Rightarrow> bad)
      else if ty = ''uuid'' then (case raw of JStr s \<Rightarrow> if crudUUIDRe s then Inr (VUuid (to_lower s)) else bad | _ \<Rightarrow> bad)
      else bad)"

definition encryptCrudValue :: "CDeps \<Rightarrow> cell \<Rightarrow> cell res cio" where
  "encryptCrudValue cd val =
     (if C_PIIKey cd = [] then fail ErrKey
      else case val of
        VText s \<Rightarrow> try_bind (crud_io (encrypt_io (C_deps cd) (C_PIIKey cd) s)) (\<lambda>e. ok (VText e))
      | _ \<Rightarrow> fail (ErrInvalid ''only string/text fields can be encrypted''))"

text \<open>One encrypted column of an answer, then all of them.\<close>

definition decrypt_cell :: "CDeps \<Rightarrow> cell option \<Rightarrow> cell option res cio" where
  "decrypt_cell cd v =
     (case v of
        None \<Rightarrow> ok None
      | Some (VText e) \<Rightarrow>
          if e = [] then ok (Some (VText e))
          else if C_PIIKey cd = [] then fail ErrKey
          else try_bind (crud_io (decrypt_io (C_deps cd) (C_PIIKey cd) e)) (\<lambda>p. ok (Some (VText p)))
      | Some _ \<Rightarrow> fail (ErrInvalid ''encrypted column did not return a string''))"

primrec decrypt_fields :: "CDeps \<Rightarrow> ManifestCrudField list \<Rightarrow> json_row \<Rightarrow> json_row res cio" where
  "decrypt_fields cd [] m = ok m"
| "decrypt_fields cd (f # fs) m =
     (if \<not> Field_Encrypted f then decrypt_fields cd fs m
      else case map_of m (Field_Name f) of
        None \<Rightarrow> decrypt_fields cd fs m
      | Some v \<Rightarrow> try_bind (decrypt_cell cd v) (\<lambda>p.
          decrypt_fields cd fs (map (\<lambda>(c, x). (c, if c = Field_Name f then p else x)) m)))"

definition decryptCrudRow :: "CDeps \<Rightarrow> ManifestCrud \<Rightarrow> json_row \<Rightarrow> json_row res cio" where
  "decryptCrudRow cd crud m = decrypt_fields cd (Crud_Fields crud) m"

primrec decrypt_rows :: "CDeps \<Rightarrow> ManifestCrud \<Rightarrow> json_row list \<Rightarrow> json_row list res cio" where
  "decrypt_rows cd crud [] = ok []"
| "decrypt_rows cd crud (m # ms) =
     try_bind (decryptCrudRow cd crud m) (\<lambda>r. try_bind (decrypt_rows cd crud ms) (\<lambda>rs. ok (r # rs)))"

section \<open>Handlers\<close>

definition defaultCrudPageSize :: int where "defaultCrudPageSize = 50"
definition maxCrudPageSize :: int where "maxCrudPageSize = 200"
definition maxCrudPage :: int where "maxCrudPage = 100000"

definition positive_or :: "int \<Rightarrow> string \<Rightarrow> int" where
  "positive_or dflt v = (case atoi v of Some n \<Rightarrow> if n > 0 then n else dflt | None \<Rightarrow> dflt)"

definition crud_answer :: "nat \<Rightarrow> crud_body \<Rightarrow> crud_response cio" where
  "crud_answer status b = State_Monad.return (status, b)"

definition or_500 :: "'a res cio \<Rightarrow> ('a \<Rightarrow> crud_response cio) \<Rightarrow> crud_response cio" where
  "or_500 m f = do { r \<leftarrow> m; case r of Inl _ \<Rightarrow> State_Monad.return crud_internal | Inr a \<Rightarrow> f a }"

definition listCrudRows :: "CDeps \<Rightarrow> Request \<Rightarrow> string \<Rightarrow> ManifestCrud \<Rightarrow> string \<Rightarrow> crud_response cio" where
  "listCrudRows cd r schema crud user =
     (let pageSize = min (positive_or defaultCrudPageSize (query_get r ''page_size'')) maxCrudPageSize;
          page = positive_or 1 (query_get r ''page'') in
      if page > maxCrudPage then crud_answer 400 (CMessage ''page must not exceed the maximum'')
      else or_500 (select_page schema crud user pageSize ((page - 1) * pageSize)) (\<lambda>maps.
           or_500 (decrypt_rows cd crud maps) (\<lambda>out. crud_answer 200 (CRows out))))"

text \<open>
  The columns of an insert or update, read from the body field by field: the response that ends the
  request, or the values.
\<close>

definition field_value :: "CDeps \<Rightarrow> ManifestCrudField \<Rightarrow> json \<Rightarrow> (crud_response + cell) cio" where
  "field_value cd f raw =
     (case decodeCrudFieldValue cd f raw of
        Inl _ \<Rightarrow> State_Monad.return (Inl (400, CMessage ''invalid field''))
      | Inr val \<Rightarrow>
          if Field_Encrypted f then do {
            enc \<leftarrow> encryptCrudValue cd val;
            (case enc of Inl _ \<Rightarrow> State_Monad.return (Inl crud_internal) | Inr e \<Rightarrow> State_Monad.return (Inr e)) }
          else State_Monad.return (Inr val))"

primrec insert_values ::
  "CDeps \<Rightarrow> (string \<Rightarrow> json option) \<Rightarrow> ManifestCrudField list \<Rightarrow> (crud_response + (string \<times> cell option) list) cio" where
  "insert_values cd body [] = State_Monad.return (Inr [])"
| "insert_values cd body (f # fs) =
     (case body (Field_Name f) of
        Some raw \<Rightarrow>
          if raw = JNull then
            (if Field_Required f then State_Monad.return (Inl (400, CMessage ''field is required'')) else insert_values cd body fs)
          else do {
            val \<leftarrow> field_value cd f raw;
            (case val of
               Inl resp \<Rightarrow> State_Monad.return (Inl resp)
             | Inr v \<Rightarrow> do {
                 rest \<leftarrow> insert_values cd body fs;
                 State_Monad.return (case rest of Inl resp \<Rightarrow> Inl resp | Inr vs \<Rightarrow> Inr ((Field_Name f, Some v) # vs)) }) }
      | None \<Rightarrow>
          if Field_Required f then State_Monad.return (Inl (400, CMessage ''field is required'')) else insert_values cd body fs)"

primrec update_values ::
  "CDeps \<Rightarrow> (string \<Rightarrow> json option) \<Rightarrow> ManifestCrudField list \<Rightarrow> (crud_response + (string \<times> cell option) list) cio" where
  "update_values cd body [] = State_Monad.return (Inr [])"
| "update_values cd body (f # fs) =
     (case body (Field_Name f) of
        None \<Rightarrow> update_values cd body fs
      | Some raw \<Rightarrow> do {
          val \<leftarrow> (if raw = JNull then
                   State_Monad.return (if Field_Required f then Inl (400, CMessage ''field is required'') else Inr None)
                 else do {
                   v \<leftarrow> field_value cd f raw;
                   State_Monad.return (case v of Inl resp \<Rightarrow> Inl resp | Inr c \<Rightarrow> Inr (Some c)) });
          (case val of
             Inl resp \<Rightarrow> State_Monad.return (Inl resp)
           | Inr v \<Rightarrow> do {
               rest \<leftarrow> update_values cd body fs;
               State_Monad.return (case rest of Inl resp \<Rightarrow> Inl resp | Inr vs \<Rightarrow> Inr ((Field_Name f, v) # vs)) }) })"

text \<open>The decoded body: an object, of whose members of the same name the last counts.\<close>

definition members :: "(string \<times> json) list \<Rightarrow> string \<Rightarrow> json option" where
  "members b = map_of (rev b)"

definition createCrudRow ::
  "CDeps \<Rightarrow> (string \<times> json) list option \<Rightarrow> string \<Rightarrow> ManifestCrud \<Rightarrow> string \<Rightarrow> crud_response cio" where
  "createCrudRow cd body schema crud user =
     (case body of
        None \<Rightarrow> crud_answer 400 (CMessage ''invalid JSON body'')
      | Some b \<Rightarrow> do {
          vals \<leftarrow> insert_values cd (members b) (Crud_Fields crud);
          (case vals of
             Inl resp \<Rightarrow> State_Monad.return resp
           | Inr vs \<Rightarrow>
               or_500 (insert_row cd schema crud
                   (vs @ (if Crud_OwnerScoped crud then [(createdByColumn, Some (VText user))] else []))) (\<lambda>m.
               or_500 (decryptCrudRow cd crud m) (\<lambda>out. crud_answer 201 (CRow out)))) })"

text \<open>\<open>ownsCrudRow\<close>: the response that ends the request, unless the row is there and the user's own.\<close>

definition ownsCrudRow :: "CDeps \<Rightarrow> string \<Rightarrow> ManifestCrud \<Rightarrow> string \<Rightarrow> string \<Rightarrow> crud_response option cio" where
  "ownsCrudRow cd schema crud user rowID = do {
     found \<leftarrow> find_id cd schema crud (if Crud_OwnerScoped crud then quoteIdent createdByColumn else ''1'') rowID;
     State_Monad.return (case found of
        Inl _ \<Rightarrow> Some crud_internal
      | Inr None \<Rightarrow> Some (404, CMessage ''not found'')
      | Inr (Some row) \<Rightarrow>
          if \<not> Crud_OwnerScoped crud then None
          else (case row createdByColumn of
              Some (VText createdBy) \<Rightarrow> if createdBy \<noteq> user then Some (403, CMessage ''forbidden'') else None
            | _ \<Rightarrow> Some crud_internal)) }"

definition updateCrudRow ::
  "CDeps \<Rightarrow> (string \<times> json) list option \<Rightarrow> string \<Rightarrow> ManifestCrud \<Rightarrow> string \<Rightarrow> string \<Rightarrow> crud_response cio" where
  "updateCrudRow cd body schema crud user rowID = do {
     refused \<leftarrow> ownsCrudRow cd schema crud user rowID;
     (case refused of
        Some resp \<Rightarrow> State_Monad.return resp
      | None \<Rightarrow>
          (case body of
             None \<Rightarrow> crud_answer 400 (CMessage ''invalid JSON body'')
           | Some b \<Rightarrow> do {
               vals \<leftarrow> update_values cd (members b) (Crud_Fields crud);
               (case vals of
                  Inl resp \<Rightarrow> State_Monad.return resp
                | Inr vs \<Rightarrow> or_500 (update_row cd schema crud vs rowID) (\<lambda>_. crud_answer 204 CNone)) })) }"

definition deleteCrudRow :: "CDeps \<Rightarrow> string \<Rightarrow> ManifestCrud \<Rightarrow> string \<Rightarrow> string \<Rightarrow> crud_response cio" where
  "deleteCrudRow cd schema crud user rowID = do {
     refused \<leftarrow> ownsCrudRow cd schema crud user rowID;
     (case refused of
        Some resp \<Rightarrow> State_Monad.return resp
      | None \<Rightarrow> or_500 (delete_row cd schema crud rowID) (\<lambda>_. crud_answer 204 CNone)) }"

text \<open>The table and row a path names.\<close>

definition crud_path :: "string \<Rightarrow> string \<Rightarrow> string \<times> string" where
  "crud_path moduleName path =
     (case splitn CHR ''/'' 2 (trim_set ''/'' (trim_prefix path (''/v1/modules/'' @ moduleName @ ''/api/''))) of
        [t, i] \<Rightarrow> (t, i) | t # _ \<Rightarrow> (t, []) | [] \<Rightarrow> ([], []))"

definition ServeCrudRequest ::
  "CDeps \<Rightarrow> Request \<Rightarrow> (string \<times> json) list option \<Rightarrow> string \<Rightarrow> Manifest option \<Rightarrow> string \<Rightarrow> crud_response cio" where
  "ServeCrudRequest cd r body moduleName stored user =
     (case Option.bind stored Mf_Crud of
        None \<Rightarrow> crud_answer 500 (CMessage ''module: invalid stored manifest'')
      | Some crud \<Rightarrow>
          let (table, rowID) = crud_path moduleName (R_Path r) in
          if table \<noteq> Crud_Table crud then crud_answer 404 (CMessage ''not found'')
          else (case moduleIdentifiers moduleName of
              Inl _ \<Rightarrow> crud_answer 500 (CMessage ''module: invalid name'')
            | Inr (schema, _) \<Rightarrow>
                if R_Method r = ''GET'' \<and> rowID = [] then listCrudRows cd r schema crud user
                else if R_Method r = ''POST'' \<and> rowID = [] then createCrudRow cd body schema crud user
                else if R_Method r = ''PATCH'' \<and> rowID \<noteq> [] then updateCrudRow cd body schema crud user rowID
                else if R_Method r = ''DELETE'' \<and> rowID \<noteq> [] then deleteCrudRow cd schema crud user rowID
                else crud_answer 404 (CMessage ''not found'')))"

section \<open>The check of the table at installation\<close>

definition checkColumn :: "(string \<times> string) list \<Rightarrow> string \<Rightarrow> string list \<Rightarrow> unit res" where
  "checkColumn actual name acceptable =
     (case map_of actual name of
        None \<Rightarrow> Inl (ErrInvalid ''missing column'')
      | Some dataType \<Rightarrow> if dataType \<in> set acceptable then Inr () else Inl (ErrInvalid ''column type''))"

definition check_columns :: "ManifestCrud \<Rightarrow> (string \<times> string) list \<Rightarrow> unit res" where
  "check_columns crud actual =
     (if actual = [] then Inl (ErrInvalid ''table does not exist'')
      else res_bind (checkColumn actual idColumn [''uuid'']) (\<lambda>_.
        res_bind (checkColumn actual createdAtColumn [''timestamp with time zone'', ''timestamp without time zone'']) (\<lambda>_.
        res_bind (checkColumn actual updatedAtColumn [''timestamp with time zone'', ''timestamp without time zone'']) (\<lambda>_.
        res_bind (if Crud_OwnerScoped crud then checkColumn actual createdByColumn [''text''] else Inr ()) (\<lambda>_.
        check_all (\<lambda>f. checkColumn actual (Field_Name f)
            (case crudFieldTypeInfo (Field_Type f) of Some ts \<Rightarrow> ts | None \<Rightarrow> [])) (Crud_Fields crud))))))"

end
