(* ===== verification/CrudLaws.thy ===== *)
theory CrudLaws
  imports Crud
begin

text \<open>
  The table handler of tier-1 modules: the rows stay well-typed, users of an owner-scoped table see
  and change their own rows only, and what is created is what is answered.
\<close>

section \<open>Rules\<close>

definition called :: "crud_site \<Rightarrow> crud_site \<Rightarrow> bool" where
  "called s t \<longleftrightarrow> cr_tables t = cr_tables s \<and> gcm (cr_world t) = gcm (cr_world s)
     \<and> now (cr_world t) = now (cr_world s) \<and> outcomes (cr_world t) = outcomes (cr_world s)"

lemma called_rows: "called s t \<Longrightarrow> rows_of x t = rows_of x s"
  by (simp add: called_def rows_of_def)

lemma wp_crud_call:
  assumes "\<And>t. called s t \<Longrightarrow> (\<forall>e. q s = Inl e \<longrightarrow> Q (Inl e) t) \<and> Q (Inl ErrExternal) t"
    and "\<And>t a. q s = Inr a \<Longrightarrow> called (s\<lparr>cr_tables := f s\<rparr>) t \<Longrightarrow> Q (Inl ErrExternal) t \<and> Q (Inr a) t"
  shows "wp (crud_call text args q f) Q s"
  using assms by (auto simp: wp_def crud_call_def Let_def called_def split: outcome.splits sum.splits)

lemma wp_crud_io: "wp (crud_io m) Q s = wp m (\<lambda>a w. Q a (s\<lparr>cr_world := w\<rparr>)) (cr_world s)"
  by (simp add: wp_def crud_io_def split: prod.splits)

lemma wp_or_500:
  "wp (or_500 m f) Q s = wp m (\<lambda>r t. case r of Inl _ \<Rightarrow> Q crud_internal t | Inr a \<Rightarrow> wp (f a) Q t) s"
proof -
  have "(\<lambda>r :: _ res. wp (case r of Inl _ \<Rightarrow> State_Monad.return crud_internal | Inr a \<Rightarrow> f a) Q)
      = (\<lambda>r t. case r of Inl _ \<Rightarrow> Q crud_internal t | Inr a \<Rightarrow> wp (f a) Q t)"
    by (intro ext) (simp add: wp_return split: sum.split)
  then show ?thesis by (simp only: or_500_def wp_bind)
qed

text \<open>Encrypting and decrypting leaves the tables alone.\<close>

definition coded :: "crud_site \<Rightarrow> crud_site \<Rightarrow> bool" where
  "coded s t \<longleftrightarrow> cr_tables t = cr_tables s \<and> now (cr_world t) = now (cr_world s)
     \<and> outcomes (cr_world t) = outcomes (cr_world s) \<and> (cache_ok (gcm (cr_world s)) \<longrightarrow> cache_ok (gcm (cr_world t)))"

lemma coded_refl [simp]: "coded s s" and coded_trans: "coded s t \<Longrightarrow> coded t u \<Longrightarrow> coded s u"
  by (auto simp: coded_def)

lemma coded_rows: "coded s t \<Longrightarrow> rows_of x t = rows_of x s"
  by (simp add: coded_def rows_of_def)

lemma coded_frame: "enc_frame (cr_world s) w \<Longrightarrow> (cache_ok (gcm (cr_world s)) \<Longrightarrow> cache_ok (gcm w)) \<Longrightarrow> coded s (s\<lparr>cr_world := w\<rparr>)"
  by (simp add: coded_def enc_frameD)

section \<open>Values\<close>

definition kind_ok :: "string \<Rightarrow> cell \<Rightarrow> bool" where
  "kind_ok ty v \<longleftrightarrow> (case v of
       VText _ \<Rightarrow> ty = ''string'' \<or> ty = ''text''
     | VInt i \<Rightarrow> ty = ''integer'' \<and> min_int64 \<le> i \<and> i \<le> max_int64
     | VFloat _ \<Rightarrow> ty = ''float''
     | VBool _ \<Rightarrow> ty = ''boolean''
     | VDate s \<Rightarrow> ty = ''date'' \<and> date_ok s
     | VTime s \<Rightarrow> ty = ''datetime'' \<and> rfc3339_ok s
     | VUuid u \<Rightarrow> ty = ''uuid'' \<and> crudUUIDRe u
     | VStamp _ \<Rightarrow> False)"

lemma hex_digit_lower: "is_hex_digit c \<Longrightarrow> is_hex_digit (lower_char c)"
  by (auto simp: is_hex_digit_def unhex_def lower_char_def is_upper_def is_digit_def byte_def split: if_splits)

lemma crudUUIDRe_lower: "crudUUIDRe s \<Longrightarrow> crudUUIDRe (to_lower s)"
  by (auto simp: crudUUIDRe_def to_lower_def list_all_iff hex_digit_lower)

lemma decode_kind: "decodeCrudFieldValue cd f raw = Inr v \<Longrightarrow> kind_ok (Field_Type f) v"
  by (auto simp: decodeCrudFieldValue_def Let_def kind_ok_def json_integer_def crudUUIDRe_lower
      split: if_splits json.splits option.splits list.splits dest!: atoi_range)

text \<open>What a field's column holds for a value: the value, or a ciphertext of it.\<close>

definition stored :: "CDeps \<Rightarrow> ManifestCrudField \<Rightarrow> cell \<Rightarrow> cell \<Rightarrow> bool" where
  "stored cd f v c \<longleftrightarrow> (if Field_Encrypted f
     then \<exists>p e. v = VText p \<and> c = VText e \<and> e \<noteq> [] \<and> plain (C_deps cd) (C_PIIKey cd) e = Inr p else c = v)"

lemma wp_encryptCrudValue:
  assumes "cache_ok (gcm (cr_world s))" and "aead_ok (d_aead (C_deps cd))"
  shows "wp (encryptCrudValue cd v) (\<lambda>r t. coded s t \<and> (\<forall>c. r = Inr c \<longrightarrow> (\<exists>p e. v = VText p \<and> c = VText e \<and> e \<noteq> []
     \<and> plain (C_deps cd) (C_PIIKey cd) e = Inr p))) s"
  using assms unfolding encryptCrudValue_def
  by (cases v) (auto simp: wp_fail wp_ok wp_try wp_crud_io coded_frame intro!: wp_encrypt_io_plain)

text \<open>The value of a field in the body of a request.\<close>

definition submitted :: "CDeps \<Rightarrow> (string \<Rightarrow> json option) \<Rightarrow> ManifestCrudField \<Rightarrow> cell \<Rightarrow> bool" where
  "submitted cd body f v \<longleftrightarrow> (\<exists>raw. body (Field_Name f) = Some raw \<and> raw \<noteq> JNull \<and> decodeCrudFieldValue cd f raw = Inr v)"

text \<open>A response that ends a request early: a message.\<close>

definition refusal :: "crud_response \<Rightarrow> bool" where
  "refusal resp \<longleftrightarrow> (\<exists>m. snd resp = CMessage m)"

lemma refusal_simps [simp]: "refusal (n, CMessage m)" "refusal crud_internal"
  by (simp_all add: refusal_def crud_internal_def)

definition returns :: "('a \<Rightarrow> bool) \<Rightarrow> crud_response + 'a \<Rightarrow> bool" where
  "returns P r \<longleftrightarrow> (case r of Inl resp \<Rightarrow> refusal resp | Inr a \<Rightarrow> P a)"

lemma returns_simps [simp]: "returns P (Inl resp) = refusal resp" "returns P (Inr a) = P a"
  by (simp_all add: returns_def)

lemma returns_mono: "returns P r \<Longrightarrow> (\<And>a. P a \<Longrightarrow> R a) \<Longrightarrow> returns R r"
  by (cases r) simp_all

lemma wp_field_value:
  assumes "cache_ok (gcm (cr_world s))" and "aead_ok (d_aead (C_deps cd))"
  shows "wp (field_value cd f raw) (\<lambda>r t. coded s t
     \<and> returns (\<lambda>c. \<exists>v. decodeCrudFieldValue cd f raw = Inr v \<and> stored cd f v c) r) s"
  unfolding field_value_def
  by (auto simp: wp_return wp_bind wp_if stored_def split: sum.split intro!: wp_mono [OF wp_encryptCrudValue [OF assms]])

text \<open>The values of an insert: what each field got, and nothing else.\<close>

definition inserted :: "CDeps \<Rightarrow> (string \<Rightarrow> json option) \<Rightarrow> ManifestCrudField list \<Rightarrow> (string \<times> cell option) list \<Rightarrow> bool" where
  "inserted cd body fs vs \<longleftrightarrow> fst ` set vs \<subseteq> Field_Name ` set fs \<and>
     (\<forall>f\<in>set fs. case map_of vs (Field_Name f) of
        None \<Rightarrow> \<not> Field_Required f \<and> body (Field_Name f) \<in> {None, Some JNull}
      | Some c \<Rightarrow> \<exists>v x. c = Some x \<and> submitted cd body f v \<and> stored cd f v x)"

lemma other_column: "fst ` set vs \<subseteq> Field_Name ` set fs \<Longrightarrow> \<forall>g\<in>set fs. Field_Name g \<noteq> n \<Longrightarrow> map_of vs n = None"
  unfolding map_of_eq_None_iff by (metis imageE subsetD)

lemma inserted_skip:
  "inserted cd body fs vs \<Longrightarrow> \<forall>g\<in>set fs. Field_Name g \<noteq> Field_Name f \<Longrightarrow> \<not> Field_Required f
     \<Longrightarrow> body (Field_Name f) \<in> {None, Some JNull} \<Longrightarrow> inserted cd body (f # fs) vs"
proof -
  assume *: "inserted cd body fs vs" "\<forall>g\<in>set fs. Field_Name g \<noteq> Field_Name f" "\<not> Field_Required f"
    "body (Field_Name f) \<in> {None, Some JNull}"
  then have "map_of vs (Field_Name f) = None" by (intro other_column) (simp_all add: inserted_def)
  with * show ?thesis by (auto simp: inserted_def)
qed

lemma inserted_add:
  "inserted cd body fs vs \<Longrightarrow> \<forall>g\<in>set fs. Field_Name g \<noteq> Field_Name f \<Longrightarrow> submitted cd body f v \<Longrightarrow> stored cd f v x
     \<Longrightarrow> inserted cd body (f # fs) ((Field_Name f, Some x) # vs)"
  by (auto simp: inserted_def)

lemma wp_insert_values:
  assumes "distinct (map Field_Name fs)" and "aead_ok (d_aead (C_deps cd))"
  shows "cache_ok (gcm (cr_world s)) \<Longrightarrow>
     wp (insert_values cd body fs) (\<lambda>r t. coded s t \<and> returns (inserted cd body fs) r) s"
  using assms(1)
proof (induction fs arbitrary: s)
  case Nil then show ?case by (simp add: wp_return inserted_def)
next
  case (Cons f fs)
  let ?Q = "\<lambda>r t. coded s t \<and> returns (inserted cd body (f # fs)) r"
  have new: "\<forall>g\<in>set fs. Field_Name g \<noteq> Field_Name f" using Cons.prems(2) by (simp, metis imageI)
  have skip: "wp (insert_values cd body fs) ?Q s" if "\<not> Field_Required f" "body (Field_Name f) \<in> {None, Some JNull}"
    by (rule wp_mono [OF Cons.IH]) (use Cons.prems that new in \<open>auto intro: inserted_skip elim: returns_mono\<close>)
  have rest: "wp (insert_values cd body fs) (\<lambda>r t. ?Q (case r of Inl resp \<Rightarrow> Inl resp | Inr vs \<Rightarrow> Inr ((Field_Name f, Some x) # vs)) t) t"
    if "coded s t" "\<exists>v. submitted cd body f v \<and> stored cd f v x" for t x
  proof (rule wp_mono [OF Cons.IH])
    show "cache_ok (gcm (cr_world t))" "distinct (map Field_Name fs)" using that Cons.prems by (simp_all add: coded_def)
  qed (use that new in \<open>auto intro: coded_trans inserted_add split: sum.splits\<close>)
  show ?case
  proof (cases "body (Field_Name f) \<in> {None, Some JNull}")
    case True then show ?thesis using skip by (auto simp: wp_return)
  next
    case False
    then obtain raw where raw: "body (Field_Name f) = Some raw" "raw \<noteq> JNull" by auto
    show ?thesis
      using raw by (auto simp: wp_bind wp_return submitted_def split: sum.split
          intro!: wp_mono [OF wp_field_value [OF Cons.prems(1) assms(2)]] rest)
  qed
qed

text \<open>The values of an update.\<close>

definition changed :: "CDeps \<Rightarrow> (string \<Rightarrow> json option) \<Rightarrow> ManifestCrudField list \<Rightarrow> (string \<times> cell option) list \<Rightarrow> bool" where
  "changed cd body fs vs \<longleftrightarrow> fst ` set vs \<subseteq> Field_Name ` set fs \<and>
     (\<forall>f\<in>set fs. \<forall>c. map_of vs (Field_Name f) = Some c \<longrightarrow> (case c of
        None \<Rightarrow> \<not> Field_Required f
      | Some x \<Rightarrow> \<exists>v. submitted cd body f v \<and> stored cd f v x))"

lemma changed_skip:
  "changed cd body fs vs \<Longrightarrow> \<forall>g\<in>set fs. Field_Name g \<noteq> Field_Name f \<Longrightarrow> changed cd body (f # fs) vs"
proof -
  assume *: "changed cd body fs vs" "\<forall>g\<in>set fs. Field_Name g \<noteq> Field_Name f"
  then have "map_of vs (Field_Name f) = None" by (intro other_column) (simp_all add: changed_def)
  with * show ?thesis by (auto simp: changed_def)
qed

lemma changed_add:
  "changed cd body fs vs \<Longrightarrow> \<forall>g\<in>set fs. Field_Name g \<noteq> Field_Name f
     \<Longrightarrow> (case c of None \<Rightarrow> \<not> Field_Required f | Some x \<Rightarrow> \<exists>v. submitted cd body f v \<and> stored cd f v x)
     \<Longrightarrow> changed cd body (f # fs) ((Field_Name f, c) # vs)"
  by (auto simp: changed_def)

lemma wp_update_values:
  assumes "distinct (map Field_Name fs)" and "aead_ok (d_aead (C_deps cd))"
  shows "cache_ok (gcm (cr_world s)) \<Longrightarrow>
     wp (update_values cd body fs) (\<lambda>r t. coded s t \<and> returns (changed cd body fs) r) s"
  using assms(1)
proof (induction fs arbitrary: s)
  case Nil then show ?case by (simp add: wp_return changed_def)
next
  case (Cons f fs)
  let ?Q = "\<lambda>r t. coded s t \<and> returns (changed cd body (f # fs)) r"
  have new: "\<forall>g\<in>set fs. Field_Name g \<noteq> Field_Name f" using Cons.prems(2) by (simp, metis imageI)
  have skip: "wp (update_values cd body fs) ?Q s"
    by (rule wp_mono [OF Cons.IH]) (use Cons.prems new in \<open>auto intro: changed_skip elim: returns_mono\<close>)
  have rest: "wp (update_values cd body fs) (\<lambda>r t. ?Q (case r of Inl resp \<Rightarrow> Inl resp | Inr vs \<Rightarrow> Inr ((Field_Name f, c) # vs)) t) t"
    if "coded s t" "case c of None \<Rightarrow> \<not> Field_Required f | Some x \<Rightarrow> \<exists>v. submitted cd body f v \<and> stored cd f v x" for t c
  proof (rule wp_mono [OF Cons.IH])
    show "cache_ok (gcm (cr_world t))" "distinct (map Field_Name fs)" using that Cons.prems by (simp_all add: coded_def)
  qed (use that new in \<open>auto intro: coded_trans changed_add split: sum.splits\<close>)
  show ?case
  proof (cases "body (Field_Name f)")
    case None then show ?thesis using skip by simp
  next
    case (Some raw)
    show ?thesis
    proof (cases "raw = JNull")
      case True then show ?thesis using Some rest [of s None] by (auto simp: wp_bind wp_return)
    next
      case False then show ?thesis
        using Some by (auto simp: wp_bind wp_return submitted_def split: sum.split
          intro!: wp_mono [OF wp_field_value [OF Cons.prems(1) assms(2)]] rest)
    qed
  qed
qed

section \<open>Well-typed tables\<close>

text \<open>
  A row has an id and time stamps, its owner if the table is owner-scoped, and in the column of each
  field a value of the field's type (for an encrypted field, a ciphertext that decrypts), or \<open>NULL\<close>
  if the field is not required.
\<close>

definition cell_ok :: "CDeps \<Rightarrow> ManifestCrudField \<Rightarrow> cell \<Rightarrow> bool" where
  "cell_ok cd f c \<longleftrightarrow> (\<exists>v. kind_ok (Field_Type f) v \<and> stored cd f v c)"

definition row_ok :: "CDeps \<Rightarrow> ManifestCrud \<Rightarrow> row \<Rightarrow> bool" where
  "row_ok cd crud r \<longleftrightarrow> (\<exists>i. r idColumn = Some (VUuid i)) \<and> (\<exists>t. r createdAtColumn = Some (VStamp t))
     \<and> (\<exists>t. r updatedAtColumn = Some (VStamp t))
     \<and> (Crud_OwnerScoped crud \<longrightarrow> (\<exists>u. r createdByColumn = Some (VText u)))
     \<and> (\<forall>f\<in>set (Crud_Fields crud). case r (Field_Name f) of None \<Rightarrow> \<not> Field_Required f | Some c \<Rightarrow> cell_ok cd f c)"

definition distinct_ids :: "row list \<Rightarrow> bool" where
  "distinct_ids rs \<longleftrightarrow> distinct (map (\<lambda>r. r idColumn) rs)"

definition table_ok :: "CDeps \<Rightarrow> ManifestCrud \<Rightarrow> row list \<Rightarrow> bool" where
  "table_ok cd crud rs \<longleftrightarrow> list_all (row_ok cd crud) rs \<and> distinct_ids rs"

text \<open>An accepted declaration: distinct names, none of a managed column.\<close>

lemma accepted_fields:
  assumes "validateCrudFields crud = Inr ()"
  shows "distinct (map Field_Name (Crud_Fields crud))"
    and "\<forall>f\<in>set (Crud_Fields crud). Field_Name f \<notin> {idColumn, createdAtColumn, updatedAtColumn, createdByColumn}"
    and "\<forall>f\<in>set (Crud_Fields crud). Field_Encrypted f \<longrightarrow> Field_Type f \<in> {''string'', ''text''}"
proof -
  have "check_fields implicitCrudColumnNames (Crud_Fields crud) = Inr ()"
    using assms by (simp add: validateCrudFields_def split: if_splits)
  note ok = check_fields_ok [OF this]
  show "distinct (map Field_Name (Crud_Fields crud))"
    and "\<forall>f\<in>set (Crud_Fields crud). Field_Encrypted f \<longrightarrow> Field_Type f \<in> {''string'', ''text''}" using ok by blast+
  have "set (map Field_Name (Crud_Fields crud)) \<inter> {idColumn, createdAtColumn, updatedAtColumn, createdByColumn} = {}"
    using ok by (simp add: implicitCrudColumnNames_def crud_columns)
  then show "\<forall>f\<in>set (Crud_Fields crud). Field_Name f \<notin> {idColumn, createdAtColumn, updatedAtColumn, createdByColumn}"
    unfolding set_map by blast
qed

lemma managed_columns [simp]:
  "idColumn \<noteq> createdAtColumn" "idColumn \<noteq> updatedAtColumn" "idColumn \<noteq> createdByColumn" "createdAtColumn \<noteq> updatedAtColumn"
  "createdAtColumn \<noteq> createdByColumn" "updatedAtColumn \<noteq> createdByColumn"
  "createdAtColumn \<noteq> idColumn" "updatedAtColumn \<noteq> idColumn" "createdByColumn \<noteq> idColumn" "updatedAtColumn \<noteq> createdAtColumn"
  "createdByColumn \<noteq> createdAtColumn" "createdByColumn \<noteq> updatedAtColumn"
  by (simp_all add: crud_columns)

definition owner_value :: "ManifestCrud \<Rightarrow> string \<Rightarrow> (string \<times> cell option) list" where
  "owner_value crud user = (if Crud_OwnerScoped crud then [(createdByColumn, Some (VText user))] else [])"

lemma new_row_ok:
  assumes crud: "validateCrudFields crud = Inr ()" and vs: "inserted cd body (Crud_Fields crud) vs"
  shows "row_ok cd crud (new_row cd (vs @ owner_value crud user) w)"
proof -
  note acc = accepted_fields [OF crud]
  have by_col: "map_of vs createdByColumn = None"
    by (rule other_column [of _ "Crud_Fields crud"]) (use vs acc(2) in \<open>simp_all add: inserted_def\<close>)
  have field: "case new_row cd (vs @ owner_value crud user) w (Field_Name f) of
      None \<Rightarrow> \<not> Field_Required f | Some c \<Rightarrow> cell_ok cd f c" if "f \<in> set (Crud_Fields crud)" for f
  proof -
    have n: "Field_Name f \<notin> {idColumn, createdAtColumn, updatedAtColumn, createdByColumn}" using acc(2) that by blast
    have "case map_of vs (Field_Name f) of
        None \<Rightarrow> \<not> Field_Required f \<and> body (Field_Name f) \<in> {None, Some JNull}
      | Some c \<Rightarrow> \<exists>v x. c = Some x \<and> submitted cd body f v \<and> stored cd f v x"
      using vs that by (simp add: inserted_def)
    then show ?thesis
      using n by (auto simp: new_row_def owner_value_def cell_ok_def submitted_def map_add_def dest: decode_kind split: option.splits)
  qed
  show ?thesis
    unfolding row_ok_def using field by_col by (auto simp: new_row_def owner_value_def map_add_def)
qed

lemma patched_ok:
  assumes crud: "validateCrudFields crud = Inr ()" and vs: "changed cd body (Crud_Fields crud) vs"
  shows "row_ok cd crud r \<Longrightarrow> row_ok cd crud (patched vs t r)" and "patched vs t r idColumn = r idColumn"
    and "patched vs t r createdByColumn = r createdByColumn"
proof -
  note acc = accepted_fields [OF crud]
  have cols: "map_of vs idColumn = None" "map_of vs createdAtColumn = None" "map_of vs createdByColumn = None"
    by (rule other_column [of _ "Crud_Fields crud"]; use vs acc(2) in \<open>simp add: changed_def\<close>)+
  have field: "case patched vs t r (Field_Name f) of None \<Rightarrow> \<not> Field_Required f | Some c \<Rightarrow> cell_ok cd f c"
    if "f \<in> set (Crud_Fields crud)" and r: "row_ok cd crud r" for f
  proof -
    have n: "Field_Name f \<noteq> updatedAtColumn" using acc(2) that by blast
    have c: "map_of vs (Field_Name f) = Some c \<Longrightarrow> (case c of None \<Rightarrow> \<not> Field_Required f
      | Some x \<Rightarrow> \<exists>v. submitted cd body f v \<and> stored cd f v x)" for c
      using vs that by (simp add: changed_def)
    have o': "case r (Field_Name f) of None \<Rightarrow> \<not> Field_Required f | Some c \<Rightarrow> cell_ok cd f c"
      using r that by (simp add: row_ok_def)
    show ?thesis
      using n o' by (auto simp: patched_def cell_ok_def submitted_def dest!: c decode_kind split: option.splits)
  qed
  show "row_ok cd crud (patched vs t r)" if "row_ok cd crud r"
    unfolding row_ok_def using field [OF _ that] that cols by (auto simp: patched_def row_ok_def)
  show "patched vs t r idColumn = r idColumn" "patched vs t r createdByColumn = r createdByColumn"
    using cols by (simp_all add: patched_def)
qed

section \<open>Answers\<close>

text \<open>Decryption as a function: what an encrypted column shows, and an answer with all of them.\<close>

definition revealed :: "CDeps \<Rightarrow> cell option \<Rightarrow> cell option res" where
  "revealed cd v = (case v of
       None \<Rightarrow> Inr None
     | Some (VText e) \<Rightarrow> if e = [] then Inr v else if C_PIIKey cd = [] then Inl ErrKey
         else res_bind (plain (C_deps cd) (C_PIIKey cd) e) (\<lambda>p. Inr (Some (VText p)))
     | Some _ \<Rightarrow> Inl (ErrInvalid ''encrypted column did not return a string''))"

primrec reveal_fields :: "CDeps \<Rightarrow> ManifestCrudField list \<Rightarrow> json_row \<Rightarrow> json_row res" where
  "reveal_fields cd [] m = Inr m"
| "reveal_fields cd (f # fs) m =
     (if \<not> Field_Encrypted f then reveal_fields cd fs m
      else case map_of m (Field_Name f) of
        None \<Rightarrow> reveal_fields cd fs m
      | Some v \<Rightarrow> res_bind (revealed cd v) (\<lambda>p. reveal_fields cd fs (map (\<lambda>(c, x). (c, if c = Field_Name f then p else x)) m)))"

lemma wp_decrypt_cell:
  assumes "cache_ok (gcm (cr_world s))"
  shows "wp (decrypt_cell cd v) (\<lambda>r t. coded s t \<and> r = revealed cd v) s"
  using assms
  by (cases v rule: option.exhaust [case_names None Some]; (cases "the v")?)
    (auto simp: decrypt_cell_def revealed_def wp_ok wp_fail wp_try wp_crud_io decrypt_io_if coded_frame res_bind_def
      intro!: wp_decrypt_plain split: sum.splits)

lemma wp_decrypt_fields:
  "cache_ok (gcm (cr_world s)) \<Longrightarrow> wp (decrypt_fields cd fs m) (\<lambda>r t. coded s t \<and> r = reveal_fields cd fs m) s"
proof (induction fs arbitrary: s m)
  case (Cons f fs)
  have step: "wp (decrypt_fields cd fs m') (\<lambda>r u. coded s u \<and> r = reveal_fields cd fs m') t" if "coded s t" for t m'
    by (rule wp_mono [OF Cons.IH]) (use that Cons.prems in \<open>auto simp: coded_def\<close>)
  show ?case
    using step [of s] by (auto simp: wp_try res_bind_def split: option.split sum.splits
        intro!: wp_mono [OF wp_decrypt_cell [OF Cons.prems]] step)
qed (simp add: wp_ok)

lemma wp_decryptCrudRow:
  "cache_ok (gcm (cr_world s)) \<Longrightarrow> wp (decryptCrudRow cd crud m) (\<lambda>r t. coded s t \<and> r = reveal_fields cd (Crud_Fields crud) m) s"
  unfolding decryptCrudRow_def by (rule wp_decrypt_fields)

primrec reveal_rows :: "CDeps \<Rightarrow> ManifestCrud \<Rightarrow> json_row list \<Rightarrow> json_row list res" where
  "reveal_rows cd crud [] = Inr []"
| "reveal_rows cd crud (m # ms) =
     res_bind (reveal_fields cd (Crud_Fields crud) m) (\<lambda>r. res_bind (reveal_rows cd crud ms) (\<lambda>rs. Inr (r # rs)))"

lemma wp_decrypt_rows:
  "cache_ok (gcm (cr_world s)) \<Longrightarrow> wp (decrypt_rows cd crud ms) (\<lambda>r t. coded s t \<and> r = reveal_rows cd crud ms) s"
proof (induction ms arbitrary: s)
  case (Cons m ms)
  have step: "wp (decrypt_rows cd crud ms) (\<lambda>r u. coded s u \<and> r = reveal_rows cd crud ms) t" if "coded s t" for t
    by (rule wp_mono [OF Cons.IH]) (use that Cons.prems in \<open>auto simp: coded_def\<close>)
  show ?case
    by (auto simp: wp_try wp_ok res_bind_def split: sum.splits intro!: wp_mono [OF wp_decryptCrudRow [OF Cons.prems]] wp_mono [OF step])
qed (simp add: wp_ok)

lemma map_of_set: "map_of (map (\<lambda>(c, x). (c, if c = n then p else x)) m) k =
    (if k = n then map_option (\<lambda>_. p) (map_of m n) else map_of m k)"
  by (induction m) auto

lemma reveal_fields_other:
  "reveal_fields cd fs m = Inr m' \<Longrightarrow> (\<forall>f\<in>set fs. Field_Encrypted f \<longrightarrow> Field_Name f \<noteq> k) \<Longrightarrow> map_of m' k = map_of m k"
  by (induction fs arbitrary: m) (auto simp: res_bind_Inr_iff map_of_set split: if_splits option.splits)

lemma reveal_fields_own:
  assumes "reveal_fields cd fs m = Inr m'" and "distinct (map Field_Name fs)" and "f \<in> set fs" "Field_Encrypted f"
    and "map_of m (Field_Name f) = Some v"
  shows "\<exists>v'. revealed cd v = Inr v' \<and> map_of m' (Field_Name f) = Some v'"
  using assms
proof (induction fs arbitrary: m)
  case (Cons g fs)
  have ne: "Field_Name h \<noteq> Field_Name g" if "h \<in> set fs" for h using Cons.prems(2) that by (simp, metis imageI)
  show ?case
  proof (cases "f = g")
    case True
    with Cons.prems obtain p where "revealed cd v = Inr p"
      "reveal_fields cd fs (map (\<lambda>(c, x). (c, if c = Field_Name g then p else x)) m) = Inr m'"
      by (auto simp: res_bind_Inr_iff)
    then show ?thesis
      using reveal_fields_other [of cd fs _ m' "Field_Name g"] ne True Cons.prems(5) by (auto simp: map_of_set)
  next
    case False
    then have f: "f \<in> set fs" using Cons.prems by simp
    then show ?thesis
      using Cons.prems Cons.IH ne [OF f] by (auto simp: res_bind_Inr_iff map_of_set split: if_splits option.splits)
  qed
qed simp

section \<open>What a request does to a table\<close>

definition others :: "string \<Rightarrow> row list \<Rightarrow> row list" where
  "others user rs = filter (\<lambda>r. \<not> owned_by user r) rs"

definition only_own :: "string \<Rightarrow> crud_body \<Rightarrow> bool" where
  "only_own user b \<longleftrightarrow> (case b of
       CRows ms \<Rightarrow> \<forall>m\<in>set ms. map_of m createdByColumn = Some (Some (VText user))
     | CRow m \<Rightarrow> map_of m createdByColumn = Some (Some (VText user))
     | _ \<Rightarrow> True)"

definition request_ok :: "CDeps \<Rightarrow> ManifestCrud \<Rightarrow> string \<Rightarrow> string \<times> string \<Rightarrow> crud_site \<Rightarrow> crud_response \<Rightarrow> crud_site \<Rightarrow> bool" where
  "request_ok cd crud user x s resp t \<longleftrightarrow>
     (table_ok cd crud (rows_of x s) \<longrightarrow> table_ok cd crud (rows_of x t)) \<and> (\<forall>y. y \<noteq> x \<longrightarrow> cr_tables t y = cr_tables s y)
     \<and> (Crud_OwnerScoped crud \<and> distinct_ids (rows_of x s) \<longrightarrow>
          others user (rows_of x t) = others user (rows_of x s) \<and> only_own user (snd resp))"

lemma request_ok_untouched:
  "cr_tables t = cr_tables s \<Longrightarrow> (Crud_OwnerScoped crud \<Longrightarrow> only_own user (snd resp)) \<Longrightarrow> request_ok cd crud user x s resp t"
  by (simp add: request_ok_def rows_of_def)

lemma messages_own [simp]: "only_own user (CMessage m)" "only_own user CNone" "only_own user (snd crud_internal)"
  by (simp_all add: only_own_def crud_internal_def)

lemma rows_put [simp]: "rows_of x (s\<lparr>cr_tables := put_rows x rs u\<rparr>) = rs"
  by (simp add: rows_of_def put_rows_def)

lemma map_of_select: "map_of (select_row crud r) c =
    (if c \<in> set (crudSelectColumns crud) then Some (select_cell crud c (r c)) else None)"
proof -
  have "map_of (map (\<lambda>c. (c, g c)) cs) c = (if c \<in> set cs then Some (g c) else None)" for cs and g :: "string \<Rightarrow> cell option"
    by (induction cs) auto
  then show ?thesis by (simp add: select_row_def)
qed

lemma select_owner:
  assumes "validateCrudFields crud = Inr ()" "Crud_OwnerScoped crud" "owned_by user r"
  shows "map_of (select_row crud r) createdByColumn = Some (Some (VText user))"
  using assms accepted_fields(2) [OF assms(1)]
  by (auto simp: map_of_select crudSelectColumns_def select_cell_def crudColumnIsUUID_def owned_by_def list_ex_iff)

lemma reveal_owner:
  assumes "validateCrudFields crud = Inr ()" "reveal_fields cd (Crud_Fields crud) m = Inr m'"
  shows "map_of m' createdByColumn = map_of m createdByColumn"
  using accepted_fields(2) [OF assms(1)] by (intro reveal_fields_other [OF assms(2)]) auto

lemma reveal_rows_in: "reveal_rows cd crud ms = Inr out \<Longrightarrow> m' \<in> set out
    \<Longrightarrow> \<exists>m\<in>set ms. reveal_fields cd (Crud_Fields crud) m = Inr m'"
  by (induction ms arbitrary: out) (auto simp: res_bind_Inr_iff)

lemma in_page: "r \<in> set (take n (drop k (newest_first (visible crud user rs)))) \<Longrightarrow> Crud_OwnerScoped crud \<Longrightarrow> owned_by user r"
  by (auto simp: newest_first_def visible_def dest!: in_set_takeD in_set_dropD)

lemma wp_listCrudRows:
  assumes crud: "validateCrudFields crud = Inr ()" and cache: "cache_ok (gcm (cr_world s))"
  shows "wp (listCrudRows cd r schema crud user) (request_ok cd crud user (schema, Crud_Table crud) s) s"
proof -
  let ?R = "request_ok cd crud user (schema, Crud_Table crud) s"
  have bad: "?R crud_internal t" if "cr_tables t = cr_tables s" for t
    using that by (rule request_ok_untouched) simp
  have page: "wp (or_500 (decrypt_rows cd crud ms) (\<lambda>out. crud_answer 200 (CRows out))) ?R t"
    if t: "called s t" and ms: "\<forall>m\<in>set ms. Crud_OwnerScoped crud \<longrightarrow> map_of m createdByColumn = Some (Some (VText user))" for ms t
  proof -
    have c: "cache_ok (gcm (cr_world t))" using t cache by (simp add: called_def)
    show ?thesis
      unfolding wp_or_500 crud_answer_def wp_return
    proof (rule wp_mono [OF wp_decrypt_rows [OF c]])
      fix res u assume u: "coded t u \<and> res = reveal_rows cd crud ms"
      then have same: "cr_tables u = cr_tables s" using t by (simp add: coded_def called_def)
      show "case res of Inl _ \<Rightarrow> ?R crud_internal u | Inr out \<Rightarrow> ?R (200, CRows out) u"
      proof (cases res)
        case Inl then show ?thesis using bad [OF same] by simp
      next
        case (Inr out)
        have "only_own user (CRows out)" if "Crud_OwnerScoped crud"
          using that ms u Inr reveal_rows_in [of cd crud ms out] reveal_owner [OF crud, of cd]
          by (fastforce simp: only_own_def)
        then show ?thesis using Inr same by (simp add: request_ok_untouched)
      qed
    qed
  qed
  have "wp (or_500 (select_page schema crud user n k) (\<lambda>maps.
           or_500 (decrypt_rows cd crud maps) (\<lambda>out. crud_answer 200 (CRows out)))) ?R s" for n k
    unfolding wp_or_500 [of "select_page _ _ _ _ _"] unfolding select_page_def
    by (rule wp_crud_call)
      (auto simp: on_table_def Let_def bad called_def [of s] split: if_splits intro!: page select_owner [OF crud] dest!: in_page)
  then show ?thesis
    unfolding listCrudRows_def Let_def crud_answer_def by (auto simp: wp_return intro: request_ok_untouched)
qed

lemma wp_createCrudRow:
  assumes crud: "validateCrudFields crud = Inr ()" and cache: "cache_ok (gcm (cr_world s))" and aead: "aead_ok (d_aead (C_deps cd))"
  shows "wp (createCrudRow cd body schema crud user) (request_ok cd crud user (schema, Crud_Table crud) s) s"
proof (cases body)
  case None then show ?thesis by (simp add: createCrudRow_def crud_answer_def wp_return request_ok_untouched)
next
  case (Some b)
  let ?x = "(schema, Crud_Table crud)"
  let ?R = "request_ok cd crud user ?x s"
  have refused: "?R resp t" if "coded s t" "refusal resp" for resp t
    using that by (intro request_ok_untouched) (auto simp: coded_def refusal_def)
  have grown: "request_ok cd crud user ?x s resp u"
    if u: "rows_of ?x u = rows_of ?x s @ [new_row cd (vs @ owner_value crud user) w]" "\<And>y. y \<noteq> ?x \<Longrightarrow> cr_tables u y = cr_tables s y"
      and fresh: "\<not> list_ex (\<lambda>r'. r' idColumn = new_row cd (vs @ owner_value crud user) w idColumn) (rows_of ?x s)"
      and vs: "inserted cd (members b) (Crud_Fields crud) vs" and own: "Crud_OwnerScoped crud \<Longrightarrow> only_own user (snd resp)" for u vs w resp
  proof -
    have "owned_by user (new_row cd (vs @ owner_value crud user) w)" if "Crud_OwnerScoped crud"
    proof -
      have "map_of vs createdByColumn = None"
        by (rule other_column [of _ "Crud_Fields crud"]) (use vs accepted_fields(2) [OF crud] in \<open>simp_all add: inserted_def\<close>)
      then show ?thesis using that by (simp add: owned_by_def new_row_def owner_value_def map_add_def)
    qed
    moreover have "table_ok cd crud (rows_of ?x u)" if "table_ok cd crud (rows_of ?x s)"
      using that fresh new_row_ok [OF crud vs] by (auto simp: table_ok_def u(1) distinct_ids_def list_ex_iff image_iff)
    ultimately show ?thesis using own u by (auto simp: request_ok_def others_def)
  qed
  have insert: "wp (or_500 (insert_row cd schema crud (vs @ owner_value crud user)) (\<lambda>m.
        or_500 (decryptCrudRow cd crud m) (\<lambda>out. crud_answer 201 (CRow out)))) ?R t"
    if t: "coded s t" and vs: "inserted cd (members b) (Crud_Fields crud) vs" for vs t
  proof -
    let ?r = "new_row cd (vs @ owner_value crud user) (cr_world t)"
    have rows: "rows_of ?x t = rows_of ?x s" using t by (simp add: coded_rows)
    have lost: "?R crud_internal u" if "called t u" for u
      using that t by (intro request_ok_untouched) (auto simp: called_def coded_def)
    have through: "?R crud_internal u \<and> wp (or_500 (decryptCrudRow cd crud (select_row crud ?r)) (\<lambda>out. crud_answer 201 (CRow out))) ?R u"
      if u: "called (t\<lparr>cr_tables := put_rows ?x (rows_of ?x t @ [?r]) t\<rparr>) u"
        and fresh: "\<not> list_ex (\<lambda>r'. r' idColumn = ?r idColumn) (rows_of ?x t)" for u
    proof
      have g: "rows_of ?x v = rows_of ?x s @ [?r]" "\<And>y. y \<noteq> ?x \<Longrightarrow> cr_tables v y = cr_tables s y" if "coded u v" for v
        using that u t rows by (auto simp: coded_def called_def rows_of_def put_rows_def)
      show "?R crud_internal u" using g [of u] fresh rows vs by (intro grown) auto
      have c: "cache_ok (gcm (cr_world u))" using u t cache by (auto simp: called_def coded_def)
      show "wp (or_500 (decryptCrudRow cd crud (select_row crud ?r)) (\<lambda>out. crud_answer 201 (CRow out))) ?R u"
        unfolding wp_or_500 crud_answer_def wp_return
      proof (rule wp_mono [OF wp_decryptCrudRow [OF c]])
        fix res v assume v: "coded u v \<and> res = reveal_fields cd (Crud_Fields crud) (select_row crud ?r)"
        show "case res of Inl _ \<Rightarrow> ?R crud_internal v | Inr out \<Rightarrow> ?R (201, CRow out) v"
        proof (cases res)
          case Inl then show ?thesis using g [of v] v fresh rows vs by (auto intro!: grown)
        next
          case (Inr out)
          have "map_of vs createdByColumn = None"
            by (rule other_column [of _ "Crud_Fields crud"]) (use vs accepted_fields(2) [OF crud] in \<open>simp_all add: inserted_def\<close>)
          then have "owned_by user ?r" if "Crud_OwnerScoped crud"
            using that by (simp add: owned_by_def new_row_def owner_value_def map_add_def)
          then have "only_own user (CRow out)" if "Crud_OwnerScoped crud"
            using that reveal_owner [OF crud, of cd "select_row crud ?r" out] v Inr select_owner [OF crud] by (simp add: only_own_def)
          then show ?thesis using Inr g [of v] v fresh rows vs by (auto intro!: grown)
        qed
      qed
    qed
    show ?thesis
      unfolding wp_or_500 [of "insert_row _ _ _ _"] unfolding insert_row_def Let_def
      by (rule wp_crud_call) (auto simp: on_table_def Let_def lost split: if_splits dest!: through)
  qed
  show ?thesis
    unfolding createCrudRow_def Some owner_value_def [symmetric] option.case wp_bind
    by (rule wp_mono [OF wp_insert_values [OF accepted_fields(1) [OF crud] aead cache]])
      (auto simp: wp_return split: sum.split intro!: insert refused)
qed

text \<open>The check before a change: it goes on only with the row, and the user's own where that matters.\<close>

lemma wp_ownsCrudRow:
  "wp (ownsCrudRow cd schema crud user rowID) (\<lambda>r t. called s t \<and> (\<forall>resp. r = Some resp \<longrightarrow> refusal resp)
     \<and> (r = None \<longrightarrow> (\<exists>i row. C_uuid cd rowID = Some i \<and> List.find (has_id i) (rows_of (schema, Crud_Table crud) s) = Some row
          \<and> (Crud_OwnerScoped crud \<longrightarrow> owned_by user row)))) s"
  unfolding ownsCrudRow_def find_id_def Let_def wp_bind wp_return
  by (rule wp_crud_call)
    (auto simp: on_table_def with_id_def owned_by_def called_def split: if_splits option.splits cell.splits)

lemma id_owner:
  assumes "List.find (has_id i) rs = Some row" "distinct_ids rs" "owned_by user row" "r \<in> set rs" "has_id i r"
  shows "owned_by user r"
proof -
  have "row \<in> set rs" "has_id i row" using assms(1) by (auto simp: find_Some_iff)
  then have "r = row"
    using assms(2,4,5) by (auto simp: distinct_ids_def distinct_map has_id_def inj_on_def)
  then show ?thesis using assms(3) by simp
qed

lemma patch_rows_ok:
  assumes crud: "validateCrudFields crud = Inr ()" and vs: "changed cd body (Crud_Fields crud) vs"
  shows "table_ok cd crud rs \<Longrightarrow> table_ok cd crud (patch_rows i vs t rs)"
    and "\<forall>r\<in>set rs. has_id i r \<longrightarrow> owned_by user r \<Longrightarrow> others user (patch_rows i vs t rs) = others user rs"
proof -
  note pr = patched_ok [OF crud vs]
  have ids: "map (\<lambda>r. r idColumn) (patch_rows i vs t rs) = map (\<lambda>r. r idColumn) rs"
    unfolding patch_rows_def map_map by (rule map_cong [OF refl]) (simp add: pr(2))
  have "list_all (row_ok cd crud) rs \<Longrightarrow> list_all (row_ok cd crud) (patch_rows i vs t rs)"
    by (auto simp: list_all_iff patch_rows_def pr(1))
  then show "table_ok cd crud (patch_rows i vs t rs)" if "table_ok cd crud rs"
    using that unfolding table_ok_def distinct_ids_def ids by blast
  have own: "owned_by user (patched vs t r) = owned_by user r" for r
    by (simp add: owned_by_def pr(3))
  show "others user (patch_rows i vs t rs) = others user rs" if "\<forall>r\<in>set rs. has_id i r \<longrightarrow> owned_by user r"
    using that by (induction rs) (auto simp: others_def patch_rows_def own)
qed

lemma wp_updateCrudRow:
  assumes crud: "validateCrudFields crud = Inr ()" and cache: "cache_ok (gcm (cr_world s))" and aead: "aead_ok (d_aead (C_deps cd))"
  shows "wp (updateCrudRow cd body schema crud user rowID) (request_ok cd crud user (schema, Crud_Table crud) s) s"
proof -
  let ?x = "(schema, Crud_Table crud)"
  let ?R = "request_ok cd crud user ?x s"
  have refused: "?R resp t" if "called s t \<or> (\<exists>u. called s u \<and> coded u t)" "refusal resp" for resp t
    using that by (intro request_ok_untouched) (auto simp: coded_def called_def refusal_def)
  have change: "wp (or_500 (update_row cd schema crud vs rowID) (\<lambda>_. crud_answer 204 CNone)) ?R t"
    if t: "called s u" "coded u t" and vs: "changed cd (members b) (Crud_Fields crud) vs"
      and row: "C_uuid cd rowID = Some i" "List.find (has_id i) (rows_of ?x s) = Some row" "Crud_OwnerScoped crud \<longrightarrow> owned_by user row"
    for vs t u b i row
  proof -
    have rows: "rows_of ?x t = rows_of ?x s" using t by (simp add: coded_rows called_rows)
    have lost: "?R crud_internal v" if "called t v" for v
      using that t by (intro request_ok_untouched) (auto simp: called_def coded_def)
    have through: "?R resp v" if "called (t\<lparr>cr_tables := put_rows ?x (patch_rows i vs z (rows_of ?x t)) t\<rparr>) v"
      "only_own user (snd resp)" for v z resp
    proof -
      have r: "rows_of ?x v = patch_rows i vs z (rows_of ?x s)" using that(1) rows called_rows [OF that(1), of ?x] by simp
      have y: "cr_tables v y = cr_tables s y" if "y \<noteq> ?x" for y
        using \<open>called _ v\<close> t that by (auto simp: called_def coded_def put_rows_def)
      show ?thesis
        unfolding request_ok_def r
        using y that(2) patch_rows_ok [OF crud vs] id_owner [OF row(2)] row(3) by auto
    qed
    show ?thesis
      unfolding wp_or_500 unfolding update_row_def Let_def crud_answer_def wp_return
      by (rule wp_crud_call) (auto simp: on_table_def with_id_def row(1) lost split: if_splits intro: through)
  qed
  show ?thesis
    unfolding updateCrudRow_def wp_bind [of "ownsCrudRow _ _ _ _ _"]
  proof (rule wp_mono [OF wp_ownsCrudRow], elim conjE)
    fix r t
    assume t: "called s t" and res: "\<forall>resp. r = Some resp \<longrightarrow> refusal resp"
      and row: "r = None \<longrightarrow> (\<exists>i row. C_uuid cd rowID = Some i \<and> List.find (has_id i) (rows_of ?x s) = Some row
          \<and> (Crud_OwnerScoped crud \<longrightarrow> owned_by user row))"
    have c: "cache_ok (gcm (cr_world t))" using t cache by (simp add: called_def)
    show "wp (case r of Some resp \<Rightarrow> State_Monad.return resp | None \<Rightarrow> (case body of
             None \<Rightarrow> crud_answer 400 (CMessage ''invalid JSON body'')
           | Some b \<Rightarrow> update_values cd (members b) (Crud_Fields crud) \<bind> (\<lambda>vals. case vals of
                  Inl resp \<Rightarrow> State_Monad.return resp
                | Inr vs \<Rightarrow> or_500 (update_row cd schema crud vs rowID) (\<lambda>_. crud_answer 204 CNone)))) ?R t"
    proof (cases r)
      case (Some resp) then show ?thesis using res t by (simp add: wp_return refused)
    next
      case None
      then obtain i row where row: "C_uuid cd rowID = Some i" "List.find (has_id i) (rows_of ?x s) = Some row"
        "Crud_OwnerScoped crud \<longrightarrow> owned_by user row" using row by blast
      show ?thesis
      proof (cases body)
        case None then show ?thesis using \<open>r = None\<close> t by (simp add: crud_answer_def wp_return refused)
      next
        case (Some b) show ?thesis
          unfolding \<open>r = None\<close> Some option.case wp_bind
          by (rule wp_mono [OF wp_update_values [OF accepted_fields(1) [OF crud] aead c]])
            (auto simp: wp_return split: sum.split intro!: refused change [OF t _ _ row] intro: t)
      qed
    qed
  qed
qed

lemma wp_deleteCrudRow:
  "wp (deleteCrudRow cd schema crud user rowID) (request_ok cd crud user (schema, Crud_Table crud) s) s"
proof -
  let ?x = "(schema, Crud_Table crud)"
  let ?R = "request_ok cd crud user ?x s"
  have refused: "?R resp t" if "called s t" "refusal resp" for resp t
    using that by (intro request_ok_untouched) (auto simp: called_def refusal_def)
  have change: "wp (or_500 (delete_row cd schema crud rowID) (\<lambda>_. crud_answer 204 CNone)) ?R t"
    if t: "called s t" and row: "C_uuid cd rowID = Some i" "List.find (has_id i) (rows_of ?x s) = Some row"
      "Crud_OwnerScoped crud \<longrightarrow> owned_by user row" for t i row
  proof -
    have lost: "?R crud_internal v" if "called t v" for v
      using that t by (intro request_ok_untouched) (auto simp: called_def)
    have through: "?R resp v" if v: "called (t\<lparr>cr_tables := put_rows ?x (filter (\<lambda>r. \<not> has_id i r) (rows_of ?x t)) t\<rparr>) v"
      and o': "only_own user (snd resp)" for v resp
    proof -
      have r: "rows_of ?x v = filter (\<lambda>r. \<not> has_id i r) (rows_of ?x s)" using called_rows [OF v, of ?x] called_rows [OF t, of ?x] by simp
      have y: "cr_tables v y = cr_tables s y" if "y \<noteq> ?x" for y
        using v t that by (auto simp: called_def put_rows_def)
      have "others user (filter (\<lambda>r. \<not> has_id i r) (rows_of ?x s)) = others user (rows_of ?x s)"
        if "Crud_OwnerScoped crud" "distinct_ids (rows_of ?x s)"
        using id_owner [OF row(2) that(2)] row(3) that(1) by (auto simp: others_def intro!: filter_cong)
      moreover have "table_ok cd crud (filter (\<lambda>r. \<not> has_id i r) (rows_of ?x s))" if "table_ok cd crud (rows_of ?x s)"
        using that by (auto simp: table_ok_def list_all_iff distinct_ids_def distinct_map_filter)
      ultimately show ?thesis unfolding request_ok_def r using y o' by auto
    qed
    show ?thesis
      unfolding wp_or_500 unfolding delete_row_def Let_def crud_answer_def wp_return
      by (rule wp_crud_call) (auto simp: on_table_def with_id_def row(1) lost split: if_splits intro: through)
  qed
  show ?thesis
    unfolding deleteCrudRow_def wp_bind
    by (rule wp_mono [OF wp_ownsCrudRow]) (auto simp: wp_return refused split: option.split intro: change)
qed

lemma wp_serve:
  assumes "validateCrudFields crud = Inr ()" "cache_ok (gcm (cr_world s))" "aead_ok (d_aead (C_deps cd))"
    and "Option.bind manifest Mf_Crud = Some crud" "moduleIdentifiers name = Inr (schema, role)"
  shows "wp (ServeCrudRequest cd r body name manifest user) (request_ok cd crud user (schema, Crud_Table crud) s) s"
  unfolding ServeCrudRequest_def assms(4) option.case
  by (auto simp: assms(5) crud_answer_def wp_return request_ok_untouched split: prod.split
      intro!: wp_listCrudRows wp_createCrudRow wp_updateCrudRow wp_deleteCrudRow assms)

section \<open>What is created is what is answered\<close>

definition shown :: "cell \<Rightarrow> cell" where
  "shown v = (case v of VUuid u \<Rightarrow> VText u | _ \<Rightarrow> v)"

text \<open>The column of a field in the answer to a body: the submitted value in plain, or \<open>NULL\<close>.\<close>

definition answers :: "CDeps \<Rightarrow> (string \<Rightarrow> json option) \<Rightarrow> ManifestCrudField \<Rightarrow> json_row \<Rightarrow> bool" where
  "answers cd body f out \<longleftrightarrow> (case map_of out (Field_Name f) of
       None \<Rightarrow> False
     | Some None \<Rightarrow> body (Field_Name f) \<in> {None, Some JNull}
     | Some (Some x) \<Rightarrow> \<exists>v. submitted cd body f v \<and> x = shown v)"

lemma column_uuid:
  assumes "validateCrudFields crud = Inr ()" "f \<in> set (Crud_Fields crud)"
  shows "crudColumnIsUUID crud (Field_Name f) = (Field_Type f = ''uuid'')"
proof -
  have "g = f" if "g \<in> set (Crud_Fields crud)" "Field_Name g = Field_Name f" for g
    using accepted_fields(1) [OF assms(1)] assms(2) that by (auto simp: distinct_map inj_on_def)
  then show ?thesis
    using assms(2) accepted_fields(2) [OF assms(1)] by (auto simp: crudColumnIsUUID_def list_ex_iff)
qed

lemma select_field:
  assumes crud: "validateCrudFields crud = Inr ()" and f: "f \<in> set (Crud_Fields crud)"
    and v: "kind_ok (Field_Type f) v" "stored cd f v c"
  shows "select_cell crud (Field_Name f) (Some c) = Some (if Field_Encrypted f then c else shown v)"
  using v column_uuid [OF crud f] accepted_fields(3) [OF crud] f
  by (auto simp: select_cell_def stored_def shown_def kind_ok_def split: if_splits cell.splits)

lemma answers_new_row:
  assumes crud: "validateCrudFields crud = Inr ()" and f: "f \<in> set (Crud_Fields crud)"
    and vs: "inserted cd body (Crud_Fields crud) vs"
    and out: "reveal_fields cd (Crud_Fields crud) (select_row crud (new_row cd (vs @ owner_value crud user) w)) = Inr out"
  shows "answers cd body f out"
proof -
  let ?r = "new_row cd (vs @ owner_value crud user) w" and ?n = "Field_Name f"
  have n: "?n \<notin> {idColumn, createdAtColumn, updatedAtColumn, createdByColumn}" using accepted_fields(2) [OF crud] f by blast
  then have r: "?r ?n = (case map_of vs ?n of Some c \<Rightarrow> c | None \<Rightarrow> None)"
    by (auto simp: new_row_def owner_value_def map_add_def split: option.split)
  have at: "map_of (select_row crud ?r) ?n = Some (select_cell crud ?n (?r ?n))"
    using f by (simp add: map_of_select crudSelectColumns_def)
  have empty: "select_cell crud ?n None = None" by (simp add: select_cell_def)
  have plain_at: "map_of out ?n = Some (select_cell crud ?n (?r ?n))" if "\<not> Field_Encrypted f"
  proof -
    have "\<forall>g\<in>set (Crud_Fields crud). Field_Encrypted g \<longrightarrow> Field_Name g \<noteq> ?n"
      using that f accepted_fields(1) [OF crud] by (auto simp: distinct_map inj_on_def)
    then show ?thesis using reveal_fields_other [OF out] at by simp
  qed
  have sealed_at: "\<exists>x. revealed cd (select_cell crud ?n (?r ?n)) = Inr x \<and> map_of out ?n = Some x" if "Field_Encrypted f"
    using reveal_fields_own [OF out accepted_fields(1) [OF crud] f that at] .
  show ?thesis
  proof (cases "map_of vs ?n")
    case None
    then have "body ?n \<in> {None, Some JNull}" using vs f by (auto simp: inserted_def split: option.splits)
    moreover have "map_of out ?n = Some None"
      using None r plain_at sealed_at by (cases "Field_Encrypted f") (auto simp: empty revealed_def)
    ultimately show ?thesis by (simp add: answers_def)
  next
    case (Some c)
    then obtain v x where x: "c = Some x" "submitted cd body f v" "stored cd f v x"
      using vs f by (auto simp: inserted_def dest!: bspec)
    have "kind_ok (Field_Type f) v" using x(2) by (auto simp: submitted_def dest: decode_kind)
    then have sel: "select_cell crud ?n (?r ?n) = Some (if Field_Encrypted f then x else shown v)"
      using select_field [OF crud f _ x(3)] Some x(1) r by simp
    have "map_of out ?n = Some (Some (shown v))"
    proof (cases "Field_Encrypted f")
      case True
      then obtain p e where "v = VText p" "x = VText e" "e \<noteq> []" "plain (C_deps cd) (C_PIIKey cd) e = Inr p"
        using x(3) by (auto simp: stored_def)
      then show ?thesis using True sealed_at sel by (auto simp: revealed_def shown_def split: if_splits)
    qed (use plain_at sel in simp)
    then show ?thesis using x(2) by (auto simp: answers_def)
  qed
qed

lemma wp_create_answers:
  assumes crud: "validateCrudFields crud = Inr ()" and cache: "cache_ok (gcm (cr_world s))" and aead: "aead_ok (d_aead (C_deps cd))"
  shows "wp (createCrudRow cd (Some b) schema crud user)
    (\<lambda>resp t. \<forall>out. snd resp = CRow out \<longrightarrow> (\<forall>f\<in>set (Crud_Fields crud). answers cd (members b) f out)) s"
proof -
  let ?Q = "\<lambda>resp t. \<forall>out. snd resp = CRow out \<longrightarrow> (\<forall>f\<in>set (Crud_Fields crud). answers cd (members b) f out)"
  have insert: "wp (or_500 (insert_row cd schema crud (vs @ owner_value crud user)) (\<lambda>m.
        or_500 (decryptCrudRow cd crud m) (\<lambda>out. crud_answer 201 (CRow out)))) ?Q t"
    if t: "coded s t" and vs: "inserted cd (members b) (Crud_Fields crud) vs" for vs t
  proof -
    have through: "wp (or_500 (decryptCrudRow cd crud (select_row crud (new_row cd (vs @ owner_value crud user) w)))
        (\<lambda>out. crud_answer 201 (CRow out))) ?Q u" if "called (t\<lparr>cr_tables := T\<rparr>) u" for u w T
    proof -
      have c: "cache_ok (gcm (cr_world u))" using that t cache by (auto simp: called_def coded_def)
      show ?thesis
        unfolding wp_or_500 crud_answer_def wp_return
        by (rule wp_mono [OF wp_decryptCrudRow [OF c]])
          (use answers_new_row [OF crud _ vs] in \<open>auto simp: crud_internal_def split: sum.split\<close>)
    qed
    show ?thesis
      unfolding wp_or_500 [of "insert_row _ _ _ _"] unfolding insert_row_def Let_def
      by (rule wp_crud_call) (auto simp: on_table_def Let_def crud_internal_def split: if_splits intro: through)
  qed
  show ?thesis
    unfolding createCrudRow_def owner_value_def [symmetric] option.case wp_bind
    by (rule wp_mono [OF wp_insert_values [OF accepted_fields(1) [OF crud] aead cache]])
      (auto simp: wp_return refusal_def split: sum.split intro!: insert)
qed

text \<open>A page is never longer than the maximum.\<close>

lemma reveal_rows_length: "reveal_rows cd crud ms = Inr out \<Longrightarrow> length out = length ms"
  by (induction ms arbitrary: out) (auto simp: res_bind_Inr_iff)

lemma wp_list_length:
  assumes cache: "cache_ok (gcm (cr_world s))"
  shows "wp (listCrudRows cd r schema crud user) (\<lambda>resp t. \<forall>out. snd resp = CRows out \<longrightarrow> length out \<le> 200) s"
proof -
  let ?Q = "\<lambda>resp t. \<forall>out. snd resp = CRows out \<longrightarrow> length out \<le> 200"
  have page: "wp (or_500 (decrypt_rows cd crud ms) (\<lambda>out. crud_answer 200 (CRows out))) ?Q t"
    if "called s t" "length ms \<le> 200" for ms t
  proof -
    have c: "cache_ok (gcm (cr_world t))" using that cache by (simp add: called_def)
    show ?thesis
      unfolding wp_or_500 crud_answer_def wp_return
      by (rule wp_mono [OF wp_decrypt_rows [OF c]])
        (use that(2) in \<open>auto simp: crud_internal_def dest: reveal_rows_length split: sum.split\<close>)
  qed
  have "wp (or_500 (select_page schema crud user (min n maxCrudPageSize) k) (\<lambda>maps.
           or_500 (decrypt_rows cd crud maps) (\<lambda>out. crud_answer 200 (CRows out)))) ?Q s" for n k
    unfolding wp_or_500 [of "select_page _ _ _ _ _"] unfolding select_page_def
    by (rule wp_crud_call)
      (auto simp: on_table_def Let_def crud_internal_def called_def [of s] maxCrudPageSize_def split: if_splits intro!: page)
  then show ?thesis
    unfolding listCrudRows_def Let_def crud_answer_def by (auto simp: wp_return)
qed

text \<open>
  C24: the rows of a CRUD table stay well-typed. Whatever is posted, patched or deleted, and whichever
  statements are lost or go through unacknowledged: if the declared fields are acceptable and the
  rows of the table conform to them (types, required fields, owners, decryptable ciphertexts in
  encrypted columns, distinct ids), they do after the request.
\<close>

theorem crud_rows_typed:
  assumes "validateCrudFields crud = Inr ()" and "cache_ok (gcm (cr_world s))" and "aead_ok (d_aead (C_deps cd))"
    and "Option.bind manifest Mf_Crud = Some crud" and "moduleIdentifiers name = Inr (schema, role)"
    and "table_ok cd crud (rows_of (schema, Crud_Table crud) s)"
    and "run_state (ServeCrudRequest cd r body name manifest user) s = (resp, t)"
  shows "table_ok cd crud (rows_of (schema, Crud_Table crud) t)"
  using wp_serve [OF assms(1-5), of r body user] assms(6,7) by (simp add: wp_run request_ok_def)

text \<open>
  C25: users of an owner-scoped table do not get at each other's rows. A request leaves the rows that
  are not the user's own as they are, and every other table; all rows of its answer are the user's own.
\<close>

theorem crud_owner_isolation:
  assumes "validateCrudFields crud = Inr ()" and "cache_ok (gcm (cr_world s))" and "aead_ok (d_aead (C_deps cd))"
    and "Option.bind manifest Mf_Crud = Some crud" and "moduleIdentifiers name = Inr (schema, role)"
    and "Crud_OwnerScoped crud" and "distinct_ids (rows_of (schema, Crud_Table crud) s)"
    and "run_state (ServeCrudRequest cd r body name manifest user) s = (resp, t)"
  shows "others user (rows_of (schema, Crud_Table crud) t) = others user (rows_of (schema, Crud_Table crud) s)
    \<and> (\<forall>y. y \<noteq> (schema, Crud_Table crud) \<longrightarrow> cr_tables t y = cr_tables s y) \<and> only_own user (snd resp)"
  using wp_serve [OF assms(1-5), of r body user] assms(6-8) by (simp_all add: wp_run request_ok_def)

text \<open>
  What is created is what is answered. The row a \<open>POST\<close> answers with has, for every declared field,
  the submitted value in plain, though the table has a ciphertext where the field is encrypted; a field
  is \<open>NULL\<close> only if it was not submitted.
\<close>

theorem created_answered:
  assumes "validateCrudFields crud = Inr ()" and "cache_ok (gcm (cr_world s))" and "aead_ok (d_aead (C_deps cd))"
    and "run_state (createCrudRow cd (Some b) schema crud user) s = ((status, CRow out), t)"
    and "f \<in> set (Crud_Fields crud)"
  shows "answers cd (members b) f out"
  using wp_create_answers [OF assms(1-3), of b schema user] assms(4,5) by (simp add: wp_run)

text \<open>A page of a listing has at most 200 rows, whatever page size the query asks for.\<close>

theorem page_bounded:
  assumes "cache_ok (gcm (cr_world s))"
    and "run_state (listCrudRows cd r schema crud user) s = ((status, CRows out), t)"
  shows "length out \<le> 200"
  using wp_list_length [OF assms(1), of cd r schema crud user] assms(2) by (simp add: wp_run)

text \<open>
  A \<open>POST\<close> that gives no value, on a table that is not owner-scoped, fails although no field is required:
  \<open>INSERT INTO t () VALUES ()\<close> is not SQL.
\<close>

lemma no_values: "\<forall>f\<in>set fs. \<not> Field_Required f \<and> body (Field_Name f) \<in> {None, Some JNull}
    \<Longrightarrow> insert_values cd body fs = State_Monad.return (Inr [])"
  by (induction fs) auto

theorem empty_post_fails:
  assumes "\<not> Crud_OwnerScoped crud"
    and "\<forall>f\<in>set (Crud_Fields crud). \<not> Field_Required f \<and> members b (Field_Name f) \<in> {None, Some JNull}"
  shows "fst (run_state (createCrudRow cd (Some b) schema crud user) s) = crud_internal"
proof -
  have "wp (createCrudRow cd (Some b) schema crud user) (\<lambda>resp _. resp = crud_internal) s"
    unfolding createCrudRow_def option.case no_values [OF assms(2)] wp_bind wp_return
    by (simp add: assms(1) wp_or_500 insert_row_def Let_def on_table_def) (rule wp_crud_call, auto split: if_splits)
  then show ?thesis by (cases "run_state (createCrudRow cd (Some b) schema crud user) s") (simp add: wp_run)
qed

section \<open>Witnesses\<close>

lemma splitn_code [code]:
  "splitn d n s = (if n = 0 then [] else if n = 1 then [s] else case s of [] \<Rightarrow> [[]]
     | c # t \<Rightarrow> if c = d then [] # splitn d (n - 1) t
         else (case splitn d n t of [] \<Rightarrow> [[c]] | w # ws \<Rightarrow> (c # w) # ws))"
  by (cases "(d, n, s)" rule: splitn.cases) (simp_all split: list.split)

definition note_crud :: ManifestCrud where
  "note_crud = \<lparr>Crud_Table = ''notes'', Crud_Fields = [\<lparr>Field_Name = ''title'', Field_Type = ''string'',
     Field_Required = True, Field_Encrypted = True\<rparr>], Crud_OwnerScoped = True\<rparr>"

definition note_deps :: CDeps where
  "note_deps = \<lparr>C_deps = sample_deps, C_PIIKey = sample_key, C_uuid = (\<lambda>s. if s = [] then None else Some s),
     C_gen = (\<lambda>n. ''id'' @ show_nat n), C_accepts = (\<lambda>_ _ _. True), C_float = (\<lambda>_. False)\<rparr>"

definition note_request :: "string \<Rightarrow> Request" where
  "note_request method = \<lparr>R_Method = method, R_Path = ''/v1/modules/m/api/notes'', R_Cookie = [], R_Authorization = [],
     R_Origin = [], R_CSRFHeader = [], R_UserAgent = [], R_CFCountry = [], R_XFF = [], R_RemoteAddr = [],
     R_Query = [], R_PathID = [], R_Context = None\<rparr>"

definition note_body :: "(string \<times> json) list" where "note_body = [(''title'', JStr ''hi'')]"

definition note_x :: "string \<times> string" where
  "note_x = (case moduleIdentifiers ''m'' of Inr (schema, _) \<Rightarrow> (schema, ''notes'') | Inl _ \<Rightarrow> ([], []))"

text \<open>A table with a note of another user, and one without.\<close>

definition note_site :: crud_site where
  "note_site = \<lparr>cr_world = empty_world, cr_tables = (\<lambda>_. None)(note_x \<mapsto>
     [(\<lambda>_. None)(''id'' \<mapsto> VUuid ''other'', ''created_by'' \<mapsto> VText ''u2'')]), cr_columns = (\<lambda>_. []), cr_log = []\<rparr>"

definition vacant_site :: crud_site where
  "vacant_site = note_site\<lparr>cr_tables := (\<lambda>_. None)(note_x \<mapsto> [])\<rparr>"

definition posted :: "crud_site \<Rightarrow> crud_response \<times> crud_site" where
  "posted s = run_state (ServeCrudRequest note_deps (note_request ''POST'') (Some note_body) ''m''
     (Some (sample_manifest\<lparr>Mf_Crud := Some note_crud\<rparr>)) ''u1'') s"

lemma note_ok:
  "validateCrudFields note_crud = Inr ()" "cache_ok (gcm (cr_world note_site))" "aead_ok (d_aead (C_deps note_deps))"
  "Option.bind (Some (sample_manifest\<lparr>Mf_Crud := Some note_crud\<rparr>)) Mf_Crud = Some note_crud"
proof -
  show "validateCrudFields note_crud = Inr ()" by code_simp
  show "cache_ok (gcm (cr_world note_site))" by (simp add: note_site_def empty_world_def cache_ok_def)
qed (simp_all add: note_deps_def sample_deps_def plain_aead_ok)

lemma note_module: obtains role where "moduleIdentifiers ''m'' = Inr (fst note_x, role)"
proof -
  have "case moduleIdentifiers ''m'' of Inr (schema, _) \<Rightarrow> schema = fst note_x | Inl _ \<Rightarrow> False" by code_simp
  then show thesis using that by (auto split: sum.splits)
qed

lemma note_table: "(fst note_x, Crud_Table note_crud) = note_x"
  by code_simp

theorem crud_rows_typed_witness:
  "length (rows_of note_x (snd (posted vacant_site))) = 1
     \<and> table_ok note_deps note_crud (rows_of note_x (snd (posted vacant_site)))"
proof
  show "length (rows_of note_x (snd (posted vacant_site))) = 1" by code_simp
  obtain resp t where rt: "posted vacant_site = (resp, t)" by fastforce
  have c: "cache_ok (gcm (cr_world vacant_site))" using note_ok(2) by (simp add: vacant_site_def)
  have "rows_of note_x vacant_site = []" by (simp add: vacant_site_def rows_of_def)
  then have v: "table_ok note_deps note_crud (rows_of note_x vacant_site)" by (simp add: table_ok_def distinct_ids_def)
  obtain role where m: "moduleIdentifiers ''m'' = Inr (fst note_x, role)" by (rule note_module)
  show "table_ok note_deps note_crud (rows_of note_x (snd (posted vacant_site)))"
    using crud_rows_typed [OF note_ok(1) c note_ok(3,4) m, unfolded note_table, OF v rt [unfolded posted_def]] rt by simp
qed

theorem crud_owner_isolation_witness:
  "length (rows_of note_x (snd (posted note_site))) = 2
     \<and> others ''u1'' (rows_of note_x (snd (posted note_site))) = others ''u1'' (rows_of note_x note_site)"
proof
  show "length (rows_of note_x (snd (posted note_site))) = 2" by code_simp
  obtain resp t where rt: "posted note_site = (resp, t)" by fastforce
  have o': "Crud_OwnerScoped note_crud" by (simp add: note_crud_def)
  have d: "distinct_ids (rows_of note_x note_site)" by (simp add: note_site_def rows_of_def distinct_ids_def)
  obtain role where m: "moduleIdentifiers ''m'' = Inr (fst note_x, role)" by (rule note_module)
  show "others ''u1'' (rows_of note_x (snd (posted note_site))) = others ''u1'' (rows_of note_x note_site)"
    using crud_owner_isolation [OF note_ok m o', unfolded note_table, OF d rt [unfolded posted_def]] rt by simp
qed

definition created :: "crud_response \<times> crud_site" where
  "created = run_state (createCrudRow note_deps (Some note_body) (fst note_x) note_crud ''u1'') note_site"

theorem created_answered_witness:
  "\<exists>out. snd (fst created) = CRow out \<and> answers note_deps (members note_body) (hd (Crud_Fields note_crud)) out"
proof -
  have "case snd (fst created) of CRow _ \<Rightarrow> True | _ \<Rightarrow> False" by code_simp
  then obtain out where "snd (fst created) = CRow out" by (auto split: crud_body.splits)
  then obtain status t where r: "created = ((status, CRow out), t)"
    by (metis prod.collapse)
  have "hd (Crud_Fields note_crud) \<in> set (Crud_Fields note_crud)" by (simp add: note_crud_def)
  then have a: "answers note_deps (members note_body) (hd (Crud_Fields note_crud)) out"
    by (rule created_answered [OF note_ok(1-3) r [unfolded created_def]])
  have "snd (fst created) = CRow out" unfolding r by simp
  with a show ?thesis by blast
qed

end
