(* ===== verification/Jobs.thy ===== *)
theory Jobs
  imports SchemaLaws
begin

text \<open>
  \<open>modules/jobs.go\<close>: the scheduler. Once a minute it looks at the schedules of the installed modules
  and starts a goroutine for each job that is due, unless one is in flight for that job already. The
  scheduler, the goroutines and the rest of Core interleave.
\<close>

section \<open>Schedules\<close>

text \<open>The fields of a local time that a schedule looks at.\<close>

record clock =
  Minute :: nat
  Hour :: nat
  Day :: nat
  Month :: nat
  Weekday :: nat

definition cronFieldMatches :: "string \<Rightarrow> nat \<Rightarrow> bool" where
  "cronFieldMatches field value \<longleftrightarrow>
     (if field = ''*'' then True
      else case atoi field of None \<Rightarrow> False | Some n \<Rightarrow> n = int value)"

definition cronMatchesMinute :: "string \<Rightarrow> clock \<Rightarrow> bool" where
  "cronMatchesMinute expr clk =
     (case GoStrings.fields expr of
        [minute, hour, day, month, weekday] \<Rightarrow>
          cronFieldMatches minute (Minute clk) \<and> cronFieldMatches hour (Hour clk)
          \<and> cronFieldMatches day (Day clk) \<and> cronFieldMatches month (Month clk)
          \<and> cronFieldMatches weekday (Weekday clk)
      | _ \<Rightarrow> False)"

section \<open>The runner\<close>

text \<open>What a worker answers to a job; the text of a notification is one string.\<close>

record WorkerResponse =
  WR_Status :: int
  WR_RestartHosts :: "string list option"
  WR_Notifications :: "string list"

text \<open>A goroutine of \<open>dispatchJob\<close>; \<open>F_answered\<close> when only its deferred \<open>Delete\<close> is left.\<close>

record flight =
  F_module :: string
  F_job :: string
  F_key :: string
  F_answered :: bool

text \<open>
  \<open>jr_running\<close> is the map \<open>running\<close>; \<open>jr_rows\<close> and \<open>jr_jobs\<close> are what is left of the tick that is being
  worked on, at the time \<open>jr_now\<close>.
\<close>

record runner =
  jr_site :: site
  jr_running :: "string list"
  jr_flights :: "flight list"
  jr_now :: clock
  jr_rows :: "InstalledModuleRow list"
  jr_jobs :: "(string \<times> ManifestJob) list"

definition NewJobRunner :: "site \<Rightarrow> clock \<Rightarrow> runner" where
  "NewJobRunner s clk = \<lparr>jr_site = s, jr_running = [], jr_flights = [], jr_now = clk, jr_rows = [], jr_jobs = []\<rparr>"

text \<open>The jobs of a row that are looked at: active, of tier 2 or above, with a manifest and a worker.\<close>

definition row_jobs :: "pool_state \<Rightarrow> InstalledModuleRow \<Rightarrow> (string \<times> ManifestJob) list" where
  "row_jobs p row =
     (if IM_Tier row < 2 \<or> IM_Status row \<noteq> ModuleStatusActive then []
      else case IM_Manifest row of
        None \<Rightarrow> []
      | Some mf \<Rightarrow> if \<not> Running (IM_Name row) p then [] else map (Pair (IM_Name row)) (Mf_Jobs mf))"

definition job_key :: "string \<Rightarrow> string \<Rightarrow> string" where
  "job_key moduleName jobName = moduleName @ ''/'' @ jobName"

text \<open>One job of a tick: \<open>LoadOrStore\<close>, and a goroutine if the key is new.\<close>

definition consider_job :: "clock \<Rightarrow> string \<times> ManifestJob \<Rightarrow> runner \<Rightarrow> runner" where
  "consider_job clk mj r =
     (let (m, job) = mj; key = job_key m (Job_Name job) in
      if \<not> cronMatchesMinute (Job_Schedule job) clk then r
      else if key \<in> set (jr_running r) then r
      else r\<lparr>jr_running := key # jr_running r,
             jr_flights := jr_flights r @ [\<lparr>F_module = m, F_job = Job_Name job, F_key = key, F_answered = False\<rparr>]\<rparr>)"

text \<open>The whole tick, when nothing comes between.\<close>

definition tick :: "clock \<Rightarrow> runner \<Rightarrow> runner" where
  "tick clk r =
     (let (res, s) = run_state ListInstalledModules (jr_site r) in
      case res of
        Inl _ \<Rightarrow> r\<lparr>jr_site := s\<rparr>
      | Inr rows \<Rightarrow> fold (\<lambda>row r. fold (consider_job clk) (row_jobs (fleet (jr_site r)) row) r) rows (r\<lparr>jr_site := s\<rparr>))"

text \<open>\<open>Dispatch\<close>: without a worker an error, else what the worker answers.\<close>

definition Dispatch :: "string \<Rightarrow> 'a res \<Rightarrow> pool_state \<Rightarrow> 'a res" where
  "Dispatch name reply p = (case workers p name of None \<Rightarrow> Inl (ErrInvalid ''worker not found'') | Some _ \<Rightarrow> reply)"

text \<open>What a goroutine does with the answer: restart hosts first, then notifications.\<close>

primrec publish_all :: "string list \<Rightarrow> unit sio" where
  "publish_all [] = State_Monad.return ()"
| "publish_all (n # ns) = do { _ \<leftarrow> core_io (Publish AdminChannel (''module.notification'' @ n)); publish_all ns }"

definition dispatchJob :: "PoolConfig \<Rightarrow> string \<Rightarrow> WorkerResponse res \<Rightarrow> unit sio" where
  "dispatchJob p moduleName reply = State_Monad.State (\<lambda>s.
     case Dispatch moduleName reply (fleet s) of
       Inl _ \<Rightarrow> ((), s)
     | Inr resp \<Rightarrow>
         if WR_Status resp \<ge> 400 then ((), s)
         else
           let s1 = (case WR_RestartHosts resp of
                 None \<Rightarrow> s
               | Some hosts \<Rightarrow> s\<lparr>fleet := snd (snd (ReloadEgress p moduleName hosts (fleet s)))\<rparr>)
           in run_state (publish_all (WR_Notifications resp)) s1)"

section \<open>Interleaving\<close>

text \<open>
  The scheduler takes a tick, a row, a job; a goroutine gets its answer, or returns; the rest of Core
  does something to the site.
\<close>

datatype job_event = Ticks clock | NextRow | NextJob | Answers nat "WorkerResponse res" | Returns nat | Elsewhere site

definition drop_nth :: "nat \<Rightarrow> 'a list \<Rightarrow> 'a list" where
  "drop_nth i xs = take i xs @ drop (Suc i) xs"

fun job_exec :: "PoolConfig \<Rightarrow> runner \<Rightarrow> job_event \<Rightarrow> runner option" where
  "job_exec p r (Ticks clk) =
     (if jr_rows r \<noteq> [] \<or> jr_jobs r \<noteq> [] then None
      else let (res, s) = run_state ListInstalledModules (jr_site r) in
        Some (r\<lparr>jr_site := s, jr_now := clk, jr_rows := (case res of Inl _ \<Rightarrow> [] | Inr rows \<Rightarrow> rows)\<rparr>))"
| "job_exec p r NextRow =
     (case (jr_jobs r, jr_rows r) of
        ([], row # rows) \<Rightarrow> Some (r\<lparr>jr_rows := rows, jr_jobs := row_jobs (fleet (jr_site r)) row\<rparr>)
      | _ \<Rightarrow> None)"
| "job_exec p r NextJob =
     (case jr_jobs r of [] \<Rightarrow> None | mj # mjs \<Rightarrow> Some (consider_job (jr_now r) mj (r\<lparr>jr_jobs := mjs\<rparr>)))"
| "job_exec p r (Answers i reply) =
     (if i < length (jr_flights r) \<and> \<not> F_answered (jr_flights r ! i)
      then let f = jr_flights r ! i in
        Some (r\<lparr>jr_site := snd (run_state (dispatchJob p (F_module f) reply) (jr_site r)),
                jr_flights := (jr_flights r)[i := f\<lparr>F_answered := True\<rparr>]\<rparr>)
      else None)"
| "job_exec p r (Returns i) =
     (if i < length (jr_flights r) \<and> F_answered (jr_flights r ! i)
      then Some (r\<lparr>jr_running := filter (\<lambda>k. k \<noteq> F_key (jr_flights r ! i)) (jr_running r),
                   jr_flights := drop_nth i (jr_flights r)\<rparr>)
      else None)"
| "job_exec p r (Elsewhere s) = Some (r\<lparr>jr_site := s\<rparr>)"

text \<open>The states the runner can get into.\<close>

inductive job_run :: "PoolConfig \<Rightarrow> runner \<Rightarrow> runner \<Rightarrow> bool" for p r where
  start: "job_run p r r"
| step: "job_run p r t \<Longrightarrow> job_exec p t e = Some u \<Longrightarrow> job_run p r u"

inductive_cases job_runE: "job_run p r t"

section \<open>The running map\<close>

text \<open>The map has exactly the keys of the goroutines in flight, and no key is in flight twice.\<close>

definition runner_ok :: "runner \<Rightarrow> bool" where
  "runner_ok r \<longleftrightarrow> set (jr_running r) = set (map F_key (jr_flights r)) \<and> distinct (map F_key (jr_flights r))
     \<and> (\<forall>f\<in>set (jr_flights r). F_key f = job_key (F_module f) (F_job f))"

lemma runner_ok_new: "runner_ok (NewJobRunner s clk)"
  by (simp add: runner_ok_def NewJobRunner_def)

lemma runner_ok_consider: "runner_ok r \<Longrightarrow> runner_ok (consider_job clk mj r)"
  by (auto simp: consider_job_def runner_ok_def Let_def split: prod.splits)

lemma runner_ok_fields:
  "runner_ok (r\<lparr>jr_site := s\<rparr>) = runner_ok r" "runner_ok (r\<lparr>jr_now := clk\<rparr>) = runner_ok r"
  "runner_ok (r\<lparr>jr_rows := rows\<rparr>) = runner_ok r" "runner_ok (r\<lparr>jr_jobs := mjs\<rparr>) = runner_ok r"
  by (simp_all add: runner_ok_def)

lemma drop_nth_map: "map f (drop_nth i xs) = drop_nth i (map f xs)"
  by (simp add: drop_nth_def take_map drop_map)

lemma drop_nth_split: "i < length xs \<Longrightarrow> xs = take i xs @ xs ! i # drop (Suc i) xs"
  by (rule id_take_nth_drop)

lemma drop_nth_distinct:
  assumes "i < length xs" "distinct xs"
  shows "distinct (drop_nth i xs)" and "set (drop_nth i xs) = set xs - {xs ! i}"
proof -
  have "distinct (take i xs @ xs ! i # drop (Suc i) xs)" using assms id_take_nth_drop [of i xs] by simp
  then show "distinct (drop_nth i xs)" by (simp add: drop_nth_def)
  have "set xs = set (take i xs @ xs ! i # drop (Suc i) xs)" using assms(1) id_take_nth_drop [of i xs] by simp
  then show "set (drop_nth i xs) = set xs - {xs ! i}"
    using \<open>distinct (take i xs @ _)\<close> by (auto simp: drop_nth_def)
qed

lemma set_drop_nth: "set (drop_nth i xs) \<subseteq> set xs"
  by (auto simp: drop_nth_def dest: in_set_takeD in_set_dropD)

lemma runner_ok_answers:
  assumes "runner_ok r" "i < length (jr_flights r)"
  shows "runner_ok (r\<lparr>jr_site := s, jr_flights := (jr_flights r)[i := (jr_flights r ! i)\<lparr>F_answered := b\<rparr>]\<rparr>)"
proof -
  let ?f = "(jr_flights r ! i)\<lparr>F_answered := b\<rparr>"
  have keys: "map F_key ((jr_flights r)[i := ?f]) = map F_key (jr_flights r)"
    using assms(2) by (metis flight.select_convs(3) flight.surjective flight.update_convs(4) list_update_id map_update nth_map length_map)
  have "jr_flights r ! i \<in> set (jr_flights r)" using assms(2) by simp
  then have "F_key ?f = job_key (F_module ?f) (F_job ?f)" using assms(1) by (simp add: runner_ok_def)
  then have "\<forall>f\<in>set ((jr_flights r)[i := ?f]). F_key f = job_key (F_module f) (F_job f)"
    using assms(1) set_update_subset_insert [of "jr_flights r" i ?f] by (auto simp: runner_ok_def)
  with keys assms(1) show ?thesis by (simp add: runner_ok_def)
qed

lemma runner_ok_returns:
  assumes "runner_ok r" "i < length (jr_flights r)"
  shows "runner_ok (r\<lparr>jr_running := filter (\<lambda>k. k \<noteq> F_key (jr_flights r ! i)) (jr_running r),
    jr_flights := drop_nth i (jr_flights r)\<rparr>)"
  using assms drop_nth_distinct [of i "map F_key (jr_flights r)"] set_drop_nth [of i "jr_flights r"]
  by (auto simp: runner_ok_def drop_nth_map simp flip: set_map)

lemma runner_ok_exec:
  assumes "job_exec p r e = Some t" "runner_ok r"
  shows "runner_ok t"
  using assms
  by (cases "(p, r, e)" rule: job_exec.cases)
    (auto simp: runner_ok_fields Let_def split: if_splits prod.splits list.splits
      intro: runner_ok_consider runner_ok_answers runner_ok_returns)

lemma runner_ok_run: "job_run p r t \<Longrightarrow> runner_ok r \<Longrightarrow> runner_ok t"
  by (induction rule: job_run.induct) (auto intro: runner_ok_exec)

section \<open>Properties\<close>

definition in_flight :: "runner \<Rightarrow> (string \<times> string) list" where
  "in_flight r = map (\<lambda>f. (F_module f, F_job f)) (jr_flights r)"

lemma distinct_in_flight: "runner_ok r \<Longrightarrow> distinct (in_flight r)"
proof -
  assume ok: "runner_ok r"
  have "map F_key (jr_flights r) = map (\<lambda>(m, j). job_key m j) (in_flight r)"
    using ok by (simp add: runner_ok_def in_flight_def)
  then show "distinct (in_flight r)" using ok by (simp add: runner_ok_def distinct_map del: map_map)
qed

text \<open>
  C26: no job overlaps itself. Whatever ticks, answers, returns and other parts of Core interleave, a
  job of a module has at most one goroutine in flight.
\<close>

theorem job_never_overlaps:
  assumes "job_run p (NewJobRunner s clk) r"
  shows "distinct (in_flight r)"
  by (rule distinct_in_flight) (rule runner_ok_run [OF assms runner_ok_new])

text \<open>Keys of modules without a slash in their names determine module and job.\<close>

definition plain_name :: "string \<Rightarrow> bool" where
  "plain_name m \<longleftrightarrow> CHR ''/'' \<notin> set m"

lemma job_key_inj:
  assumes "plain_name m" "plain_name n" "job_key m i = job_key n j"
  shows "m = n \<and> i = j"
proof -
  have "takeWhile (\<lambda>c. c \<noteq> CHR ''/'') (m @ CHR ''/'' # k) = m" if "plain_name m" for m k
    using that by (induction m) (auto simp: plain_name_def)
  from this [OF assms(1), of i] this [OF assms(2), of j] assms(3) show ?thesis
    by (auto simp: job_key_def)
qed

definition tidy :: "runner \<Rightarrow> bool" where
  "tidy r \<longleftrightarrow> runner_ok r \<and> (\<forall>f\<in>set (jr_flights r). plain_name (F_module f))"

definition due :: "clock \<Rightarrow> string \<times> ManifestJob \<Rightarrow> bool" where
  "due clk mj \<longleftrightarrow> cronMatchesMinute (Job_Schedule (snd mj)) clk"

lemma key_in_flight:
  assumes "tidy r" "plain_name m"
  shows "job_key m j \<in> set (jr_running r) \<longleftrightarrow> (m, j) \<in> set (in_flight r)"
proof -
  have keys: "set (jr_running r) = (\<lambda>f. job_key (F_module f) (F_job f)) ` set (jr_flights r)"
    using assms(1) by (auto simp: tidy_def runner_ok_def)
  have names: "plain_name (F_module f)" if "f \<in> set (jr_flights r)" for f
    using assms(1) that by (simp add: tidy_def)
  show ?thesis
    unfolding keys in_flight_def set_map image_iff prod.inject
    using job_key_inj [OF assms(2) names] by metis
qed

lemma consider_job_step:
  assumes "tidy r" "plain_name (fst mj)"
  shows "tidy (consider_job clk mj r)" and "jr_site (consider_job clk mj r) = jr_site r"
    and "set (in_flight (consider_job clk mj r)) = set (in_flight r) \<union> {(m, j). due clk mj \<and> mj = (fst mj, snd mj) \<and> m = fst mj \<and> j = Job_Name (snd mj)}"
proof -
  obtain m job where mj: "mj = (m, job)" by (cases mj)
  show "tidy (consider_job clk mj r)"
    using assms runner_ok_consider [of r clk mj] by (auto simp: tidy_def consider_job_def Let_def mj)
  show "jr_site (consider_job clk mj r) = jr_site r" by (simp add: consider_job_def Let_def mj)
  show "set (in_flight (consider_job clk mj r)) = set (in_flight r) \<union> {(m, j). due clk mj \<and> mj = (fst mj, snd mj) \<and> m = fst mj \<and> j = Job_Name (snd mj)}"
    using key_in_flight [OF assms(1), of m "Job_Name job"] assms(2)
    by (auto simp: consider_job_def Let_def mj due_def in_flight_def)
qed

definition dues :: "clock \<Rightarrow> (string \<times> ManifestJob) list \<Rightarrow> (string \<times> string) set" where
  "dues clk mjs = {(m, j). \<exists>job. (m, job) \<in> set mjs \<and> j = Job_Name job \<and> due clk (m, job)}"

lemma consider_jobs:
  "tidy r \<Longrightarrow> \<forall>mj\<in>set mjs. plain_name (fst mj) \<Longrightarrow>
     tidy (fold (consider_job clk) mjs r) \<and> jr_site (fold (consider_job clk) mjs r) = jr_site r
     \<and> set (in_flight (fold (consider_job clk) mjs r)) = set (in_flight r) \<union> dues clk mjs"
proof (induction mjs arbitrary: r)
  case (Cons mj mjs)
  have p: "plain_name (fst mj)" using Cons.prems(2) by simp
  note step = consider_job_step [OF Cons.prems(1) p, of clk]
  show ?case
    using Cons.IH [OF step(1)] Cons.prems(2) step(2,3) by (cases mj) (auto simp: dues_def)
qed (simp add: dues_def)

lemma row_jobs_name: "mj \<in> set (row_jobs p row) \<Longrightarrow> fst mj = IM_Name row"
  by (auto simp: row_jobs_def split: if_splits option.splits)

lemma consider_rows:
  "tidy r \<Longrightarrow> \<forall>row\<in>set rows. plain_name (IM_Name row) \<Longrightarrow>
     set (in_flight (fold (\<lambda>row r. fold (consider_job clk) (row_jobs (fleet (jr_site r)) row) r) rows r))
       = set (in_flight r) \<union> (\<Union>row\<in>set rows. dues clk (row_jobs (fleet (jr_site r)) row))"
proof (induction rows arbitrary: r)
  case (Cons row rows)
  have "\<forall>mj\<in>set (row_jobs (fleet (jr_site r)) row). plain_name (fst mj)"
    using Cons.prems(2) by (auto dest: row_jobs_name)
  note step = consider_jobs [OF Cons.prems(1) this, of clk]
  show ?case
    using Cons.IH [OF conjunct1 [OF step]] Cons.prems(2) step by (simp add: Un_assoc)
qed simp

text \<open>
  C27: a tick starts exactly the jobs that are due. If the rows can be read, the jobs in flight after a
  tick are those that were before and every job of an active, running module of tier 2 or above whose
  schedule matches the minute.
\<close>

theorem tick_dispatches_due:
  assumes "job_run p (NewJobRunner s clk0) r" and "\<forall>f\<in>set (jr_flights r). plain_name (F_module f)"
    and "\<forall>row\<in>set (installed (jr_site r)). plain_name (IM_Name row)" and "next_outcome (jr_site r) = Done"
  shows "(m, j) \<in> set (in_flight (tick clk r)) \<longleftrightarrow> (m, j) \<in> set (in_flight r)
     \<or> (\<exists>row\<in>set (installed (jr_site r)). \<exists>mf. IM_Name row = m \<and> IM_Tier row \<ge> 2 \<and> IM_Status row = ModuleStatusActive
          \<and> IM_Manifest row = Some mf \<and> Running m (fleet (jr_site r))
          \<and> (\<exists>job\<in>set (Mf_Jobs mf). Job_Name job = j \<and> cronMatchesMinute (Job_Schedule job) clk))"
proof -
  let ?s = "ticked (jr_site r)" and ?rows = "sort_key IM_Name (installed (jr_site r))"
  let ?r = "r\<lparr>jr_site := ?s\<rparr>"
  have run: "run_state ListInstalledModules (jr_site r) = (Inr ?rows, ?s)"
    by (simp add: ListInstalledModules_def db_query_def assms(4))
  have tidy: "tidy ?r"
    using runner_ok_run [OF assms(1) runner_ok_new] assms(2) by (simp add: tidy_def runner_ok_fields)
  have "set (in_flight (tick clk r)) = set (in_flight ?r) \<union> (\<Union>row\<in>set ?rows. dues clk (row_jobs (fleet (jr_site ?r)) row))"
    unfolding tick_def run by simp (rule consider_rows [OF tidy, of ?rows clk, simplified], use assms(3) in simp)
  moreover have "(m, j) \<in> dues clk (row_jobs (fleet (jr_site r)) row) \<longleftrightarrow> (\<exists>mf. IM_Name row = m \<and> IM_Tier row \<ge> 2
      \<and> IM_Status row = ModuleStatusActive \<and> IM_Manifest row = Some mf \<and> Running m (fleet (jr_site r))
      \<and> (\<exists>job\<in>set (Mf_Jobs mf). Job_Name job = j \<and> cronMatchesMinute (Job_Schedule job) clk))" for row
    by (cases "IM_Manifest row") (auto simp: dues_def due_def row_jobs_def image_iff)
  ultimately show ?thesis by (simp add: in_flight_def ticked_def)
qed

text \<open>Schedules that are cron expressions elsewhere and never match here: a step, and Sunday as 7.\<close>

lemma unsupported_schedules:
  "\<not> cronMatchesMinute ''*/5 * * * *'' clk" "Weekday clk < 7 \<Longrightarrow> \<not> cronMatchesMinute ''0 3 * * 7'' clk"
proof -
  have f: "GoStrings.fields ''*/5 * * * *'' = [''*/5'', ''*'', ''*'', ''*'', ''*'']"
    "GoStrings.fields ''0 3 * * 7'' = [''0'', ''3'', ''*'', ''*'', ''7'']" "atoi ''*/5'' = None" "atoi ''7'' = Some 7"
    by code_simp+
  show "\<not> cronMatchesMinute ''*/5 * * * *'' clk" "Weekday clk < 7 \<Longrightarrow> \<not> cronMatchesMinute ''0 3 * * 7'' clk"
    by (simp_all add: cronMatchesMinute_def f cronFieldMatches_def)
qed

section \<open>Witnesses\<close>

definition cron_site :: site where
  "cron_site = empty_site\<lparr>installed := [SchemaLaws.sample_row\<lparr>IM_Manifest := Some sample_manifest\<rparr>], fleet := running_pool\<rparr>"

definition noon :: clock where
  "noon = \<lparr>Minute = 0, Hour = 12, Day = 1, Month = 1, Weekday = 4\<rparr>"

fun run_jobs :: "PoolConfig \<Rightarrow> runner \<Rightarrow> job_event list \<Rightarrow> runner option" where
  "run_jobs p r [] = Some r"
| "run_jobs p r (e # es) = Option.bind (job_exec p r e) (\<lambda>t. run_jobs p t es)"

lemma run_jobs_run: "run_jobs p t es = Some u \<Longrightarrow> job_run p r t \<Longrightarrow> job_run p r u"
  by (induction es arbitrary: t) (auto simp: bind_eq_Some_conv intro: job_run.step)

text \<open>Two ticks while the job of the first is in flight.\<close>

theorem job_never_overlaps_witness:
  "\<exists>r. job_run sample_pool (NewJobRunner cron_site noon) r \<and> jr_rows r = [] \<and> in_flight r = [(''m'', ''sync'')] \<and> distinct (in_flight r)"
proof -
  let ?run = "run_jobs sample_pool (NewJobRunner cron_site noon) [Ticks noon, NextRow, NextJob, Ticks noon, NextRow, NextJob]"
  have "map_option in_flight ?run = Some [(''m'', ''sync'')]" "map_option (\<lambda>r. length (jr_rows r)) ?run = Some 0" by code_simp+
  then obtain r where r: "?run = Some r" "in_flight r = [(''m'', ''sync'')]" "jr_rows r = []" by auto
  have "job_run sample_pool (NewJobRunner cron_site noon) r" by (rule run_jobs_run [OF r(1)]) (rule job_run.start)
  from job_never_overlaps [OF this] this r show ?thesis by blast
qed

theorem tick_dispatches_due_witness:
  "(''m'', ''sync'') \<in> set (in_flight (tick noon (NewJobRunner cron_site noon)))"
proof -
  let ?r = "NewJobRunner cron_site noon"
  have h: "\<forall>f\<in>set (jr_flights ?r). plain_name (F_module f)" "next_outcome (jr_site ?r) = Done"
    "\<forall>row\<in>set (installed (jr_site ?r)). plain_name (IM_Name row)"
    by (simp_all add: NewJobRunner_def cron_site_def next_outcome_def empty_site_def empty_world_def plain_name_def SchemaLaws.sample_row_def)
  have "Running ''m'' (fleet (jr_site ?r))" by code_simp
  moreover have "cronMatchesMinute ''* * * * *'' noon" by code_simp
  ultimately show ?thesis
    using tick_dispatches_due [OF job_run.start h(1) h(3) h(2), of "''m''" "''sync''" noon]
    by (simp add: NewJobRunner_def cron_site_def SchemaLaws.sample_row_def sample_manifest_def)
qed

end
