(* ===== verification/StoreSync.thy ===== *)
theory StoreSync
  imports InstallLaws Handlers
begin

text \<open>
  Package \<open>store\<close>: the module registry and how it is filled. Entries come from the official registry,
  the community repository and the custom sources (\<open>github.go\<close>); a sync writes them to the table and
  prunes the others (\<open>sync.go\<close>); the administrator adds, changes and removes custom sources
  (\<open>custom_sources_handlers.go\<close>). The network and the decoders are parameters.
\<close>

section \<open>Data\<close>

record officialEntry =
  OE_Name :: string
  OE_Version :: string
  OE_ReleaseURL :: string
  OE_CosignSigURL :: string
  OE_Category :: string
  OE_LogoURL :: string
  OE_BrowseURL :: string

record communityManifest =
  CM_Version :: string
  CM_Category :: string
  CM_SourceRepo :: string
  CM_ReleaseURL :: string
  CM_Logo :: string
  CM_CosignSigURL :: string
  CM_CosignPubKey :: string

record customManifest =
  UM_Name :: string
  UM_Version :: string
  UM_Category :: string
  UM_Logo :: string

text \<open>A successful answer (status 2xx) to the nth request, and what the JSON and YAML decoders make of a text.\<close>

record StoreDeps =
  St_deps :: Deps
  St_http :: "nat \<Rightarrow> string \<Rightarrow> string option"
  St_urlParse :: "string \<Rightarrow> (string \<times> string \<times> string) option"      \<comment> \<open>scheme, host, path\<close>
  St_registry :: "string \<Rightarrow> officialEntry list option"
  St_listing :: "string \<Rightarrow> (string \<times> string) list option"              \<comment> \<open>name, type\<close>
  St_community :: "string \<Rightarrow> communityManifest option"
  St_custom :: "string \<Rightarrow> customManifest option"
  St_release :: "string \<Rightarrow> string option"
  St_releases :: "string \<Rightarrow> string list option"

section \<open>The table\<close>

definition upsert :: "Entry \<Rightarrow> Entry list \<Rightarrow> Entry list" where
  "upsert e es = (if list_ex (\<lambda>x. En_Name x = En_Name e) es
     then map (\<lambda>x. if En_Name x = En_Name e then e else x) es else es @ [e])"

definition UpsertEntry :: "Entry \<Rightarrow> unit res sio" where
  "UpsertEntry e = db_exec (\<lambda>_. Inr ()) (\<lambda>s. s\<lparr>registry := upsert (e\<lparr>En_SyncedAt := now (core s)\<rparr>) (registry s)\<rparr>)"

definition ListEntries :: "string \<Rightarrow> string \<Rightarrow> Entry list res sio" where
  "ListEntries source category = db_query (\<lambda>s. Inr (filter
     (\<lambda>e. (source = [] \<or> En_Source e = source) \<and> (category = [] \<or> En_Category e = category)) (sort_key En_Name (registry s))))"

text \<open>\<open>MAX\<close> over an empty table is one row with a null, which does not scan into a \<open>time.Time\<close>.\<close>

definition LastSyncedAt :: "int option res sio" where
  "LastSyncedAt = db_query (\<lambda>s. case registry s of
     [] \<Rightarrow> Inl ErrExternal | _ \<Rightarrow> Inr (Some (Max (set (map En_SyncedAt (registry s))))))"

definition is_installed :: "string \<Rightarrow> bool res sio" where
  "is_installed name = db_query (\<lambda>s. Inr (list_ex (\<lambda>r. IM_Name r = name) (installed s)))"

definition delete_entry :: "string \<Rightarrow> unit res sio" where
  "delete_entry name = db_exec (\<lambda>_. Inr ()) (\<lambda>s. s\<lparr>registry := filter (\<lambda>e. En_Name e \<noteq> name) (registry s)\<rparr>)"

primrec delete_not_installed :: "string list \<Rightarrow> unit res sio" where
  "delete_not_installed [] = ok ()"
| "delete_not_installed (n # ns) =
     try_bind (is_installed n) (\<lambda>there.
     if there then delete_not_installed ns
     else try_bind (delete_entry n) (\<lambda>_. delete_not_installed ns))"

definition DeleteEntriesBySourceRepo :: "string \<Rightarrow> unit res sio" where
  "DeleteEntriesBySourceRepo sourceRepo =
     try_bind (db_query (\<lambda>s. Inr (map En_Name (filter (\<lambda>e. En_Source e = ''custom'' \<and> En_SourceRepo e = sourceRepo) (registry s)))))
       delete_not_installed"

section \<open>Fetching\<close>

definition officialRegistryURL :: string where
  "officialRegistryURL = ''https://raw.githubusercontent.com/modulab-project/modulab-modules/main/registry.json''"
definition communityRepoRootURL :: string where
  "communityRepoRootURL = ''https://api.github.com/repos/modulab-project/modulab-community/contents/''"
definition communityRawURL :: "string \<Rightarrow> string" where
  "communityRawURL path = ''https://raw.githubusercontent.com/modulab-project/modulab-community/main/'' @ path"
definition communityExcludedDirs :: "string list" where "communityExcludedDirs = [''example-module'']"
definition customModuleReleaseAsset :: string where "customModuleReleaseAsset = ''module.zip''"
definition customManifestBranches :: "string list" where "customManifestBranches = [''main'', ''master'']"

definition seconds_setting :: "string \<Rightarrow> int \<Rightarrow> int sio" where
  "seconds_setting key dflt = do {
     r \<leftarrow> core_io (GetSetting key);
     State_Monad.return (case r of
       Inr (Some val) \<Rightarrow> (case atoi val of Some n \<Rightarrow> if n \<le> 0 then dflt else n | None \<Rightarrow> dflt)
     | _ \<Rightarrow> dflt) }"

definition GithubAPITimeoutSeconds :: "int sio" where
  "GithubAPITimeoutSeconds = seconds_setting ''store_github_api_timeout_seconds'' 15"

text \<open>At most 4 MB of an answer are read.\<close>

definition limited :: "string \<Rightarrow> string" where
  "limited s = (if length s \<le> 4194304 then s else take 4194304 s)"

definition httpGet :: "StoreDeps \<Rightarrow> string \<Rightarrow> string \<Rightarrow> string res sio" where
  "httpGet sd url token =
     try_bind (http_do (St_http sd) url (if token = [] then None else Some token)) (\<lambda>body. ok (limited body))"

definition decoded :: "(string \<Rightarrow> 'a option) \<Rightarrow> string \<Rightarrow> 'a res sio" where
  "decoded f data = (case f data of None \<Rightarrow> fail (ErrInvalid ''parse'') | Some a \<Rightarrow> ok a)"

definition officialSourceRepo :: "string \<Rightarrow> string" where
  "officialSourceRepo releaseURL =
     (case index_of releaseURL ''/releases/'' of Some i \<Rightarrow> take i releaseURL | None \<Rightarrow> releaseURL)"

definition registry_entry :: "string \<Rightarrow> string \<Rightarrow> officialEntry \<Rightarrow> Entry" where
  "registry_entry source pubKeyPEM r =
     \<lparr>En_Name = OE_Name r, En_Source = source, En_SourceRepo = officialSourceRepo (OE_ReleaseURL r),
      En_ReleaseAsset = OE_ReleaseURL r, En_CosignSigURL = OE_CosignSigURL r, En_CosignPubKey = pubKeyPEM,
      En_Category = OE_Category r, En_LatestVersion = OE_Version r, En_LogoURL = OE_LogoURL r,
      En_BrowseURL = OE_BrowseURL r, En_SyncedAt = 0\<rparr>"

definition FetchOfficialRegistry :: "StoreDeps \<Rightarrow> Entry list res sio" where
  "FetchOfficialRegistry sd = do {
     _ \<leftarrow> GithubAPITimeoutSeconds;
     s \<leftarrow> State_Monad.get;
     try_bind (httpGet sd (officialRegistryURL @ ''?_='' @ show_int (now (core s) div 1000000000)) []) (\<lambda>data.
     try_bind (decoded (St_registry sd) data) (\<lambda>raw.
     ok (map (registry_entry ''official'' []) raw))) }"

text \<open>One directory of the community repository; a manifest that cannot be had or used is skipped.\<close>

definition community_entry :: "string \<Rightarrow> communityManifest \<Rightarrow> Entry" where
  "community_entry name m =
     \<lparr>En_Name = name, En_Source = ''community'', En_SourceRepo = CM_SourceRepo m, En_ReleaseAsset = CM_ReleaseURL m,
      En_CosignSigURL = CM_CosignSigURL m, En_CosignPubKey = CM_CosignPubKey m, En_Category = CM_Category m,
      En_LatestVersion = CM_Version m,
      En_LogoURL = (if CM_Logo m = [] then [] else communityRawURL (name @ ''/'' @ CM_Logo m)),
      En_BrowseURL = [], En_SyncedAt = 0\<rparr>"

primrec community_entries :: "StoreDeps \<Rightarrow> (string \<times> string) list \<Rightarrow> Entry list sio" where
  "community_entries sd [] = State_Monad.return []"
| "community_entries sd (item # items) =
     (let (name, ty) = item in
      if ty \<noteq> ''dir'' \<or> has_prefix name ''.'' \<or> name \<in> set communityExcludedDirs then community_entries sd items
      else do {
        data \<leftarrow> httpGet sd (communityRawURL (name @ ''/manifest.yaml'')) [];
        rest \<leftarrow> community_entries sd items;
        State_Monad.return (case data of
          Inl _ \<Rightarrow> rest
        | Inr text \<Rightarrow> (case St_community sd text of
              None \<Rightarrow> rest
            | Some m \<Rightarrow> if CM_SourceRepo m = [] \<or> CM_ReleaseURL m = [] then rest else community_entry name m # rest)) })"

definition FetchCommunityRegistry :: "StoreDeps \<Rightarrow> Entry list res sio" where
  "FetchCommunityRegistry sd = do {
     _ \<leftarrow> GithubAPITimeoutSeconds;
     try_bind (httpGet sd communityRepoRootURL []) (\<lambda>data.
     try_bind (decoded (St_listing sd) data) (\<lambda>items. do {
       es \<leftarrow> community_entries sd items;
       ok es })) }"

section \<open>Custom sources\<close>

record gitProvider =
  G_kind :: string
  G_host :: string
  G_repoPath :: string

definition normalizeGitKind :: "string \<Rightarrow> string" where
  "normalizeGitKind kind = (if kind = ''forgejo'' then ''forgejo'' else ''github'')"

definition parseGitProvider :: "StoreDeps \<Rightarrow> string \<Rightarrow> string \<Rightarrow> gitProvider res" where
  "parseGitProvider sd repoURL kind =
     (case St_urlParse sd repoURL of
        None \<Rightarrow> Inl (ErrInvalid ''invalid repo url'')
      | Some (scheme, host, path) \<Rightarrow>
          if scheme \<noteq> ''https'' \<or> host = [] then Inl (ErrInvalid ''invalid repo url'')
          else let p = trim_set ''/'' path in
            (case split_on CHR ''/'' p of
               [user, repo] \<Rightarrow>
                 if user = [] \<or> repo = [] then Inl (ErrInvalid ''repo url must look like https://<host>/<owner>/<repo>'')
                 else Inr \<lparr>G_kind = normalizeGitKind kind, G_host = host, G_repoPath = p\<rparr>
             | _ \<Rightarrow> Inl (ErrInvalid ''repo url must look like https://<host>/<owner>/<repo>'')))"

definition apiBase :: "gitProvider \<Rightarrow> string" where
  "apiBase g = (if G_kind g = ''forgejo'' then ''https://'' @ G_host g @ ''/api/v1'' else ''https://api.github.com'')"

definition releasesLatestURL :: "gitProvider \<Rightarrow> string" where
  "releasesLatestURL g = apiBase g @ ''/repos/'' @ G_repoPath g @ ''/releases/latest''"
definition releasesURL :: "gitProvider \<Rightarrow> string" where
  "releasesURL g = apiBase g @ ''/repos/'' @ G_repoPath g @ ''/releases''"
definition contentsRootURL :: "gitProvider \<Rightarrow> string" where
  "contentsRootURL g = apiBase g @ ''/repos/'' @ G_repoPath g @ ''/contents/''"

definition rawURL :: "gitProvider \<Rightarrow> string \<Rightarrow> string \<Rightarrow> string" where
  "rawURL g branch path =
     (if G_kind g = ''forgejo'' then ''https://'' @ G_host g @ ''/'' @ G_repoPath g @ ''/raw/branch/'' @ branch @ ''/'' @ path
      else ''https://raw.githubusercontent.com/'' @ G_repoPath g @ ''/'' @ branch @ ''/'' @ path)"

text \<open>The manifest of a directory, from the first branch that has one.\<close>

primrec fetch_manifest :: "StoreDeps \<Rightarrow> gitProvider \<Rightarrow> string \<Rightarrow> string \<Rightarrow> string list \<Rightarrow> customManifest res sio" where
  "fetch_manifest sd g subPath token [] = fail ErrExternal"
| "fetch_manifest sd g subPath token (branch # branches) =
     (let dir = (if subPath = [] then [] else subPath @ ''/'') in do {
        data \<leftarrow> httpGet sd (rawURL g branch (dir @ ''manifest.yaml'')) token;
        (case data of
           Inl _ \<Rightarrow> fetch_manifest sd g subPath token branches
         | Inr text \<Rightarrow> try_bind (decoded (St_custom sd) text) (\<lambda>m.
             if UM_Name m = [] \<or> UM_Version m = [] then fail (ErrInvalid ''manifest.yaml missing name or version'')
             else ok (m\<lparr>UM_Logo := (if UM_Logo m = [] then [] else rawURL g branch (dir @ UM_Logo m))\<rparr>))) })"

definition fetchCustomManifestAt :: "StoreDeps \<Rightarrow> gitProvider \<Rightarrow> string \<Rightarrow> string \<Rightarrow> customManifest res sio" where
  "fetchCustomManifestAt sd g subPath token = fetch_manifest sd g subPath token customManifestBranches"

primrec fetch_registry :: "StoreDeps \<Rightarrow> gitProvider \<Rightarrow> string \<Rightarrow> string list \<Rightarrow> officialEntry list res sio" where
  "fetch_registry sd g token [] = ok []"
| "fetch_registry sd g token (branch # branches) = do {
     data \<leftarrow> httpGet sd (rawURL g branch ''registry.json'') token;
     (case data of
        Inl _ \<Rightarrow> fetch_registry sd g token branches
      | Inr text \<Rightarrow> decoded (St_registry sd) text) }"

definition fetchCustomRegistryJSON :: "StoreDeps \<Rightarrow> gitProvider \<Rightarrow> string \<Rightarrow> officialEntry list res sio" where
  "fetchCustomRegistryJSON sd g token = fetch_registry sd g token customManifestBranches"

definition buildCustomEntry :: "customManifest \<Rightarrow> string \<Rightarrow> string \<Rightarrow> string \<Rightarrow> string \<Rightarrow> Entry" where
  "buildCustomEntry m repoURL releaseAsset version pubKeyPEM =
     \<lparr>En_Name = UM_Name m, En_Source = ''custom'', En_SourceRepo = repoURL, En_ReleaseAsset = releaseAsset,
      En_CosignSigURL = [], En_CosignPubKey = pubKeyPEM, En_Category = UM_Category m, En_LatestVersion = version,
      En_LogoURL = UM_Logo m, En_BrowseURL = [], En_SyncedAt = 0\<rparr>"

text \<open>The tag of the latest release; an answer that is not there is no version.\<close>

definition FetchLatestRelease :: "StoreDeps \<Rightarrow> string \<Rightarrow> string \<Rightarrow> string \<Rightarrow> string res sio" where
  "FetchLatestRelease sd sourceRepo kind token = do {
     _ \<leftarrow> GithubAPITimeoutSeconds;
     try_bind (State_Monad.return (parseGitProvider sd sourceRepo kind)) (\<lambda>g. do {
       data \<leftarrow> httpGet sd (releasesLatestURL g) token;
       (case data of Inl _ \<Rightarrow> ok [] | Inr text \<Rightarrow> decoded (St_release sd) text) }) }"

definition FetchLatestReleaseForPrefix :: "StoreDeps \<Rightarrow> string \<Rightarrow> string \<Rightarrow> string \<Rightarrow> string \<Rightarrow> string res sio" where
  "FetchLatestReleaseForPrefix sd sourceRepo kind pre token = do {
     _ \<leftarrow> GithubAPITimeoutSeconds;
     try_bind (State_Monad.return (parseGitProvider sd sourceRepo kind)) (\<lambda>g. do {
       data \<leftarrow> httpGet sd (releasesURL g) token;
       (case data of
          Inl _ \<Rightarrow> ok []
        | Inr text \<Rightarrow> try_bind (decoded (St_releases sd) text) (\<lambda>tags.
            ok (case List.find (\<lambda>t. has_prefix t (pre @ ''-'')) tags of Some t \<Rightarrow> t | None \<Rightarrow> []))) }) }"

primrec monorepo_entries :: "StoreDeps \<Rightarrow> string \<Rightarrow> gitProvider \<Rightarrow> string \<Rightarrow> string \<Rightarrow> (string \<times> string) list \<Rightarrow> Entry list sio" where
  "monorepo_entries sd repoURL g pubKeyPEM token [] = State_Monad.return []"
| "monorepo_entries sd repoURL g pubKeyPEM token (item # items) =
     (let (name, ty) = item in
      if ty \<noteq> ''dir'' \<or> has_prefix name ''.'' then monorepo_entries sd repoURL g pubKeyPEM token items
      else do {
        m \<leftarrow> fetchCustomManifestAt sd g name token;
        (case m of
           Inl _ \<Rightarrow> monorepo_entries sd repoURL g pubKeyPEM token items
         | Inr m \<Rightarrow> do {
             version \<leftarrow> FetchLatestReleaseForPrefix sd repoURL (G_kind g) name token;
             rest \<leftarrow> monorepo_entries sd repoURL g pubKeyPEM token items;
             State_Monad.return (case version of
               Inl _ \<Rightarrow> rest
             | Inr v \<Rightarrow> buildCustomEntry m repoURL customModuleReleaseAsset v pubKeyPEM # rest) }) })"

definition fetchCustomMonorepo :: "StoreDeps \<Rightarrow> string \<Rightarrow> gitProvider \<Rightarrow> string \<Rightarrow> string \<Rightarrow> Entry list res sio" where
  "fetchCustomMonorepo sd repoURL g pubKeyPEM token = do {
     raw \<leftarrow> fetchCustomRegistryJSON sd g token;
     (case raw of
        Inr (r # rs) \<Rightarrow> ok (map (registry_entry ''custom'' pubKeyPEM) (r # rs))
      | _ \<Rightarrow>
          try_bind (httpGet sd (contentsRootURL g) token) (\<lambda>data.
          try_bind (decoded (St_listing sd) data) (\<lambda>items. do {
            es \<leftarrow> monorepo_entries sd repoURL g pubKeyPEM token items;
            ok es }))) }"

definition FetchCustomRepo :: "StoreDeps \<Rightarrow> string \<Rightarrow> string \<Rightarrow> string \<Rightarrow> string \<Rightarrow> Entry list res sio" where
  "FetchCustomRepo sd repoURL kind pubKeyPEM token = do {
     _ \<leftarrow> GithubAPITimeoutSeconds;
     try_bind (State_Monad.return (parseGitProvider sd repoURL kind)) (\<lambda>g. do {
       root \<leftarrow> fetchCustomManifestAt sd g [] token;
       (case root of
          Inr m \<Rightarrow> try_bind (FetchLatestRelease sd repoURL kind token) (\<lambda>version.
            ok [buildCustomEntry m repoURL customModuleReleaseAsset version pubKeyPEM])
        | Inl _ \<Rightarrow> try_bind (fetchCustomMonorepo sd repoURL g pubKeyPEM token) (\<lambda>entries.
            if entries = [] then fail (ErrInvalid ''no manifest.yaml found'') else ok entries)) }) }"

section \<open>Sync\<close>

text \<open>Entry by entry; the names that got through are the seen ones.\<close>

primrec upsert_each :: "Entry list \<Rightarrow> string list \<Rightarrow> string list sio" where
  "upsert_each [] seen = State_Monad.return seen"
| "upsert_each (e # es) seen = do {
     r \<leftarrow> UpsertEntry e;
     upsert_each es (case r of Inl _ \<Rightarrow> seen | Inr _ \<Rightarrow> En_Name e # seen) }"

text \<open>An entry of the community without a version gets the tag of its latest release.\<close>

primrec upsert_community :: "StoreDeps \<Rightarrow> Entry list \<Rightarrow> string list \<Rightarrow> string list sio" where
  "upsert_community sd [] seen = State_Monad.return seen"
| "upsert_community sd (e # es) seen = do {
     version \<leftarrow> (if En_LatestVersion e = [] then FetchLatestRelease sd (En_SourceRepo e) ''github'' [] else ok (En_LatestVersion e));
     r \<leftarrow> UpsertEntry (case version of Inl _ \<Rightarrow> e | Inr v \<Rightarrow> e\<lparr>En_LatestVersion := v\<rparr>);
     upsert_community sd es (case r of Inl _ \<Rightarrow> seen | Inr _ \<Rightarrow> En_Name e # seen) }"

text \<open>The errors are a map by repository URL.\<close>

primrec sync_custom :: "StoreDeps \<Rightarrow> CustomSourceRow list \<Rightarrow> string list \<Rightarrow> (string list \<times> string list) sio" where
  "sync_custom sd [] seen = State_Monad.return ([], seen)"
| "sync_custom sd (cs # css) seen = do {
     fetched \<leftarrow> FetchCustomRepo sd (CS_RepoURL cs) (CS_Kind cs) (CS_PubKey cs) (CS_Token cs);
     (case fetched of
        Inl _ \<Rightarrow> do {
          (errs, seen') \<leftarrow> sync_custom sd css seen;
          State_Monad.return (List.insert (CS_RepoURL cs) errs, seen') }
      | Inr entries \<Rightarrow> do { seen' \<leftarrow> upsert_each entries seen; sync_custom sd css seen' }) }"

primrec prune_each :: "string list \<Rightarrow> unit sio" where
  "prune_each [] = State_Monad.return ()"
| "prune_each (n # ns) = do {
     there \<leftarrow> is_installed n;
     (case there of
        Inr False \<Rightarrow> do { _ \<leftarrow> delete_entry n; prune_each ns }
      | _ \<Rightarrow> prune_each ns) }"

definition pruneStaleEntries :: "string list \<Rightarrow> unit res sio" where
  "pruneStaleEntries seen =
     try_bind (db_query (\<lambda>s. Inr (map En_Name (registry s)))) (\<lambda>names. do {
       prune_each (filter (\<lambda>n. n \<notin> set seen) names);
       ok () })"

text \<open>The sources that failed: the URLs of custom ones, and whether the official and the community one did.\<close>

definition syncAll :: "StoreDeps \<Rightarrow> (string list \<times> bool \<times> bool) sio" where
  "syncAll sd = do {
     official \<leftarrow> FetchOfficialRegistry sd;
     seen1 \<leftarrow> (case official of Inl _ \<Rightarrow> State_Monad.return [] | Inr es \<Rightarrow> upsert_each es []);
     community \<leftarrow> FetchCommunityRegistry sd;
     seen2 \<leftarrow> (case community of Inl _ \<Rightarrow> State_Monad.return seen1 | Inr es \<Rightarrow> upsert_community sd es seen1);
     listed \<leftarrow> ListCustomSources (St_deps sd);
     (let customSources = (case listed of Inl _ \<Rightarrow> [] | Inr rows \<Rightarrow> rows) in do {
        (customErrs, seen3) \<leftarrow> sync_custom sd customSources seen2;
        _ \<leftarrow> (if is_ok official \<or> is_ok community \<or> length customErrs < length customSources
              then pruneStaleEntries seen3 else ok ());
        State_Monad.return (customErrs, \<not> is_ok official, \<not> is_ok community) }) }"

definition TriggerSync :: "StoreDeps \<Rightarrow> unit sio \<Rightarrow> bool sio" where
  "TriggerSync sd onSynced = do {
     (customErrs, off, com) \<leftarrow> syncAll sd;
     onSynced;
     State_Monad.return (customErrs = [] \<and> \<not> off \<and> \<not> com) }"

definition SyncIntervalSeconds :: "int sio" where
  "SyncIntervalSeconds = seconds_setting ''store_sync_interval_seconds'' 3600"

text \<open>\<open>time.Duration(n) * time.Second\<close>, in 64 bits.\<close>

definition SyncInterval :: "int sio" where
  "SyncInterval = do { n \<leftarrow> SyncIntervalSeconds; State_Monad.return (wrap64 (n * 1000000000)) }"

section \<open>Handlers\<close>

datatype store_body =
    SSources "CustomSourceRow list"        \<comment> \<open>tokens as \<open>has_token\<close>\<close>
  | SSource CustomSourceRow
  | SEntries "Entry list" "int option"
  | SEntry Entry
  | SSynced bool
  | SMessage string
  | SGuard Response
  | SNone

type_synonym store_response = "nat \<times> store_body"

definition s_answer :: "nat \<Rightarrow> store_body \<Rightarrow> store_response sio" where
  "s_answer status b = State_Monad.return (status, b)"

definition s_try :: "'a res sio \<Rightarrow> 'r \<Rightarrow> ('a \<Rightarrow> 'r sio) \<Rightarrow> 'r sio" where
  "s_try m bad f = do { r \<leftarrow> m; case r of Inl _ \<Rightarrow> State_Monad.return bad | Inr a \<Rightarrow> f a }"

definition s_guard :: "Session guarded \<Rightarrow> (Session \<Rightarrow> store_response sio) \<Rightarrow> store_response sio" where
  "s_guard g f = do {
     r \<leftarrow> core_io g;
     case r of Inl resp \<Rightarrow> State_Monad.return (Rs_Status resp, SGuard resp) | Inr sess \<Rightarrow> f sess }"

definition logStoreAudit :: "StoreDeps \<Rightarrow> Session \<Rightarrow> string \<Rightarrow> string \<Rightarrow> unit sio" where
  "logStoreAudit sd sess ev details =
     core_io (logAudit (St_deps sd) (log_params ev (S_UserID sess) (S_Email sess) [] [] details))"

text \<open>The response names a token only by its presence.\<close>

definition toCustomSourceResponse :: "CustomSourceRow \<Rightarrow> CustomSourceRow" where
  "toCustomSourceResponse r = r\<lparr>CS_Token := (if CS_Token r = [] then [] else ''true'')\<rparr>"

definition ListCustomSourcesHandler :: "StoreDeps \<Rightarrow> store_response sio" where
  "ListCustomSourcesHandler sd =
     s_try (ListCustomSources (St_deps sd)) (500, SMessage ''failed to list custom sources'') (\<lambda>rows.
     s_answer 200 (SSources (map toCustomSourceResponse rows)))"

definition isValidGithubRepoURL :: "string \<Rightarrow> bool" where
  "isValidGithubRepoURL s \<longleftrightarrow> has_prefix s ''https://github.com/'' \<and>
     (let rest = trim_suffix (drop (length ''https://github.com/'') s) ''/'' in
      rest \<noteq> [] \<and> (case split_on CHR ''/'' rest of [a, b] \<Rightarrow> a \<noteq> [] \<and> b \<noteq> [] | _ \<Rightarrow> False))"

definition isValidCustomSourceRepoURL :: "string \<Rightarrow> string \<Rightarrow> bool" where
  "isValidCustomSourceRepoURL s kind \<longleftrightarrow>
     (if kind = ''github'' then isValidGithubRepoURL s
      else has_prefix s ''https://'' \<and>
        (let rest = trim_suffix (drop (length ''https://'') s) ''/'' in
         case index_of rest ''/'' of
           None \<Rightarrow> False
         | Some k \<Rightarrow>
             if k = 0 \<or> k = length rest - 1 then False
             else let host = take k rest; path = drop (k + 1) rest in
               host \<noteq> [] \<and> \<not> equal_fold host ''github.com''
               \<and> (case split_on CHR ''/'' path of [a, b] \<Rightarrow> a \<noteq> [] \<and> b \<noteq> [] | _ \<Rightarrow> False)))"

record addCustomSourceRequest =
  AR_RepoURL :: string
  AR_Name :: string
  AR_Kind :: string
  AR_PubKey :: string
  AR_Token :: string

definition pem_ok :: "string \<Rightarrow> bool" where
  "pem_ok k \<longleftrightarrow> k = [] \<or> contains k ''-----BEGIN PUBLIC KEY-----''"

definition AddCustomSourceHandler :: "StoreDeps \<Rightarrow> Session \<Rightarrow> addCustomSourceRequest option \<Rightarrow> store_response sio" where
  "AddCustomSourceHandler sd sess req =
     (case req of
        None \<Rightarrow> s_answer 400 (SMessage ''invalid request body'')
      | Some q \<Rightarrow>
          let repoURL = trim_space (AR_RepoURL q); name0 = trim_space (AR_Name q); kind0 = trim_space (AR_Kind q);
              pubKey = trim_space (AR_PubKey q); token = trim_space (AR_Token q);
              kind = (if kind0 = [] then ''github'' else kind0) in
          if kind \<noteq> ''github'' \<and> kind \<noteq> ''forgejo'' then s_answer 400 (SMessage ''kind must be github or forgejo'')
          else if repoURL = [] then s_answer 400 (SMessage ''repo_url is required'')
          else if \<not> isValidCustomSourceRepoURL repoURL kind then s_answer 400 (SMessage ''repo_url must be an owner/repo URL'')
          else if kind = ''forgejo'' \<and> token \<noteq> [] then s_answer 400 (SMessage ''token is only supported for github custom sources'')
          else
            let name = (if name0 \<noteq> [] then name0
                  else trim_prefix (trim_suffix repoURL ''/'') (if kind = ''github'' then ''https://github.com/'' else ''https://'')) in
            if \<not> pem_ok pubKey then s_answer 400 (SMessage ''pubkey must be a PEM-encoded public key'')
            else s_try (CreateCustomSource (St_deps sd) repoURL name pubKey token kind (S_UserID sess))
                 (500, SMessage ''failed to save custom source'') (\<lambda>row. do {
              logStoreAudit sd sess ''store.custom_source_added'' (json_obj [(''repo_url'', d_quote (St_deps sd) repoURL),
                (''name'', d_quote (St_deps sd) name), (''kind'', d_quote (St_deps sd) kind),
                (''has_pubkey'', show_bool (pubKey \<noteq> [])), (''has_token'', show_bool (token \<noteq> []))]);
              fetched \<leftarrow> FetchCustomRepo sd (CS_RepoURL row) (CS_Kind row) (CS_PubKey row) (CS_Token row);
              _ \<leftarrow> (case fetched of Inl _ \<Rightarrow> State_Monad.return [] | Inr entries \<Rightarrow> upsert_each entries []);
              s_answer 201 (SSource (toCustomSourceResponse row)) }))"

definition DeleteCustomSourceHandler :: "StoreDeps \<Rightarrow> Session \<Rightarrow> string \<Rightarrow> store_response sio" where
  "DeleteCustomSourceHandler sd sess i =
     (if i = [] then s_answer 400 (SMessage ''missing id'')
      else s_try (ListCustomSources (St_deps sd)) (500, SMessage ''failed to look up custom source'') (\<lambda>rows.
        case List.find (\<lambda>r. CS_ID r = i) rows of
          None \<Rightarrow> s_answer 404 (SMessage ''custom source not found'')
        | Some row \<Rightarrow>
            s_try (DeleteCustomSource i) (500, SMessage ''failed to delete custom source'') (\<lambda>deleted.
            if \<not> deleted then s_answer 404 (SMessage ''custom source not found'')
            else do {
              _ \<leftarrow> DeleteEntriesBySourceRepo (CS_RepoURL row);
              logStoreAudit sd sess ''store.custom_source_removed''
                (json_obj [(''repo_url'', d_quote (St_deps sd) (CS_RepoURL row)), (''name'', d_quote (St_deps sd) (CS_Name row))]);
              s_answer 204 SNone })))"

text \<open>The request of an update; a field that is \<open>None\<close> keeps its value.\<close>

definition UpdateCustomSourceHandler ::
  "StoreDeps \<Rightarrow> Session \<Rightarrow> string \<Rightarrow> (string option \<times> string option \<times> string option) option \<Rightarrow> store_response sio" where
  "UpdateCustomSourceHandler sd sess i req =
     (if i = [] then s_answer 400 (SMessage ''missing id'')
      else case req of
        None \<Rightarrow> s_answer 400 (SMessage ''invalid request body'')
      | Some (name, pubKey, token) \<Rightarrow>
          let name' = map_option trim_space name; pubKey' = map_option trim_space pubKey; token' = map_option trim_space token in
          if (case pubKey' of None \<Rightarrow> False | Some k \<Rightarrow> \<not> pem_ok k)
          then s_answer 400 (SMessage ''pubkey must be a PEM-encoded public key'')
          else s_try (UpdateCustomSource (St_deps sd) i name' pubKey' token') (500, SMessage ''failed to update custom source'') (\<lambda>updated.
            case updated of
              None \<Rightarrow> s_answer 404 (SMessage ''custom source not found'')
            | Some row \<Rightarrow> do {
                logStoreAudit sd sess ''store.custom_source_updated'' (json_obj [(''repo_url'', d_quote (St_deps sd) (CS_RepoURL row)),
                  (''name_changed'', show_bool (name \<noteq> None)), (''pubkey_changed'', show_bool (pubKey \<noteq> None)),
                  (''token_changed'', show_bool (token \<noteq> None))]);
                s_answer 200 (SSource (toCustomSourceResponse row)) }))"

definition ListHandler :: "StoreDeps \<Rightarrow> Request \<Rightarrow> store_response sio" where
  "ListHandler sd r =
     s_guard (RequireActiveSession (St_deps sd) r) (\<lambda>_.
     s_try (ListEntries (query_get r ''source'') (query_get r ''category'')) (500, SMessage ''failed to read registry'') (\<lambda>entries.
     s_try LastSyncedAt (500, SMessage ''failed to read registry'') (\<lambda>lastSync.
     s_answer 200 (SEntries entries lastSync))))"

definition DetailHandler :: "StoreDeps \<Rightarrow> Request \<Rightarrow> string \<Rightarrow> store_response sio" where
  "DetailHandler sd r name =
     s_guard (RequireActiveSession (St_deps sd) r) (\<lambda>_.
     if name = [] then s_answer 400 (SMessage ''missing module name'')
     else s_try (GetEntry name) (500, SMessage ''failed to read registry'') (\<lambda>entry.
       case entry of None \<Rightarrow> s_answer 404 (SMessage ''module not found in registry'') | Some e \<Rightarrow> s_answer 200 (SEntry e)))"

text \<open>The texts of the errors are left out of the entry and the answer.\<close>

definition SyncHandler :: "StoreDeps \<Rightarrow> unit sio \<Rightarrow> Request \<Rightarrow> store_response sio" where
  "SyncHandler sd onSynced r =
     s_guard (RequireAdminSession (St_deps sd) r) (\<lambda>sess. do {
       good \<leftarrow> TriggerSync sd onSynced;
       logStoreAudit sd sess ''store.sync_triggered'' (json_obj [(''ok'', show_bool good)]);
       s_answer 200 (SSynced good) })"

end
