(* ===== verification/StoreLaws.thy ===== *)
theory StoreLaws
  imports StoreSync
begin

text \<open>
  What syncs do to the registry: names stay distinct, entries of installed modules stay, everything else
  that no source lists goes; when the network is out, nothing or everything goes; and where the tokens
  of custom sources are sent.
\<close>

section \<open>Fetching\<close>

text \<open>The state after a request.\<close>

definition asked :: "string \<Rightarrow> string option \<Rightarrow> site \<Rightarrow> site" where
  "asked u tok s = (ticked s)\<lparr>requests := requests s @ [(u, tok)]\<rparr>"

definition bearer :: "string \<Rightarrow> string option" where
  "bearer token = (if token = [] then None else Some token)"

lemma wp_httpGet: "wp (httpGet sd u token) Q s = (case St_http sd (calls (core s)) u of
    None \<Rightarrow> Q (Inl ErrExternal) (asked u (bearer token) s)
  | Some body \<Rightarrow> Q (Inr (limited body)) (asked u (bearer token) s))"
  by (simp add: httpGet_def wp_try wp_ok wp_def http_do_def asked_def bearer_def split: option.split)

lemma wp_decoded: "wp (decoded f data) Q s = (case f data of None \<Rightarrow> Q (Inl (ErrInvalid ''parse'')) s | Some a \<Rightarrow> Q (Inr a) s)"
  by (simp add: decoded_def io_simps split: option.split)

text \<open>The URLs of a provider.\<close>

definition provider_url :: "gitProvider \<Rightarrow> string \<Rightarrow> bool" where
  "provider_url g u \<longleftrightarrow> (if G_kind g = ''forgejo'' then has_prefix u (''https://'' @ G_host g @ ''/'')
     else has_prefix u ''https://api.github.com/'' \<or> has_prefix u ''https://raw.githubusercontent.com/'')"

lemma provider_urls [simp]:
  "provider_url g (rawURL g branch path)" "provider_url g (contentsRootURL g)" "provider_url g (releasesURL g)"
  "provider_url g (releasesLatestURL g)"
  by (simp_all add: provider_url_def rawURL_def contentsRootURL_def releasesURL_def releasesLatestURL_def apiBase_def has_prefix_iff)

text \<open>
  An invariant that does not look at the call counter and allows requests to the URLs of \<open>may\<close>: fetching
  keeps it.
\<close>

locale fetching =
  fixes I :: "site \<Rightarrow> bool" and may :: "string \<Rightarrow> string option \<Rightarrow> bool"
  assumes calls: "I (s\<lparr>core := (core s)\<lparr>calls := n\<rparr>\<rparr>) = I s"
    and request: "may u tok \<Longrightarrow> I s \<Longrightarrow> I (s\<lparr>requests := requests s @ [(u, tok)]\<rparr>)"
    and plain_request: "may u None"
begin

lemma asked: "may u tok \<Longrightarrow> I s \<Longrightarrow> I (asked u tok s)"
  using request [where s = "ticked s"] by (simp add: asked_def ticked_def calls)

lemma keeps_decoded [inv_intros]: "keeps I (decoded f data)"
  by (simp add: keeps_wp wp_decoded split: option.split)

lemma keeps_httpGet: "may u (bearer token) \<Longrightarrow> keeps I (httpGet sd u token)"
  by (auto simp: keeps_wp wp_httpGet asked split: option.split)

lemma keeps_httpGet_plain [inv_intros]: "keeps I (httpGet sd u [])"
  by (rule keeps_httpGet) (simp add: bearer_def plain_request)

lemma keeps_timeout [inv_intros]: "keeps I GithubAPITimeoutSeconds"
  by (auto simp: keeps_wp GithubAPITimeoutSeconds_def seconds_setting_def io_simps wp_GetSetting calls)

lemma keeps_official: "keeps I (FetchOfficialRegistry sd)"
  unfolding FetchOfficialRegistry_def by (auto intro!: inv_intros)

lemma keeps_community_entries [inv_intros]: "keeps I (community_entries sd items)"
  by (induction items) (auto intro!: inv_intros simp: Let_def)

lemma keeps_community: "keeps I (FetchCommunityRegistry sd)"
  unfolding FetchCommunityRegistry_def by (auto intro!: inv_intros)

lemma keeps_git:
  assumes "\<forall>u. provider_url g u \<longrightarrow> may u (bearer token)"
  shows "keeps I (fetch_manifest sd g subPath token branches)" "keeps I (fetch_registry sd g token branches)"
    "keeps I (httpGet sd (contentsRootURL g) token)" "keeps I (httpGet sd (releasesLatestURL g) token)"
    "keeps I (httpGet sd (releasesURL g) token)"
proof -
  have raw: "keeps I (httpGet sd (rawURL g b path) token)" for b path
    by (rule keeps_httpGet) (simp add: assms)
  show "keeps I (fetch_manifest sd g subPath token branches)" "keeps I (fetch_registry sd g token branches)"
    by (induction branches) (auto intro!: inv_intros raw simp: Let_def)
  show "keeps I (httpGet sd (contentsRootURL g) token)" "keeps I (httpGet sd (releasesLatestURL g) token)"
    "keeps I (httpGet sd (releasesURL g) token)"
    by (rule keeps_httpGet, simp add: assms)+
qed

lemma keeps_parsed:
  "(\<And>g. parseGitProvider sd url kind = Inr g \<Longrightarrow> keeps I (f g)) \<Longrightarrow>
     keeps I (try_bind (State_Monad.return (parseGitProvider sd url kind)) f)"
  by (cases "parseGitProvider sd url kind") (auto simp: keeps_wp io_simps)

lemma keeps_latest:
  assumes "\<And>g u. parseGitProvider sd url kind = Inr g \<Longrightarrow> provider_url g u \<Longrightarrow> may u (bearer token)"
  shows "keeps I (FetchLatestRelease sd url kind token)" "keeps I (FetchLatestReleaseForPrefix sd url kind pre token)"
  unfolding FetchLatestRelease_def FetchLatestReleaseForPrefix_def
  by (auto intro!: inv_intros keeps_parsed keeps_git assms)

lemma keeps_monorepo:
  assumes "\<And>g u. parseGitProvider sd url kind = Inr g \<Longrightarrow> provider_url g u \<Longrightarrow> may u (bearer token)"
    and "parseGitProvider sd url kind = Inr g"
  shows "keeps I (monorepo_entries sd url g pk token items)"
proof -
  have k: "parseGitProvider sd url (G_kind g) = parseGitProvider sd url kind"
    using assms(2) by (auto simp: parseGitProvider_def normalizeGitKind_def Let_def split: option.splits if_splits list.splits)
  have l: "keeps I (FetchLatestReleaseForPrefix sd url (G_kind g) pre token)" for pre
    by (rule keeps_latest) (use assms(1) in \<open>simp add: k\<close>)
  show ?thesis
    by (induction items)
      (auto intro!: inv_intros l keeps_git assms simp: Let_def fetchCustomManifestAt_def)
qed

lemma keeps_custom:
  assumes "\<And>g u. parseGitProvider sd url kind = Inr g \<Longrightarrow> provider_url g u \<Longrightarrow> may u (bearer token)"
  shows "keeps I (FetchCustomRepo sd url kind pk token)"
  unfolding FetchCustomRepo_def fetchCustomManifestAt_def fetchCustomMonorepo_def fetchCustomRegistryJSON_def
  by (auto intro!: inv_intros keeps_parsed keeps_git keeps_latest keeps_monorepo [OF assms] assms split: sum.split list.split)

end

section \<open>Tokens of custom sources\<close>

definition may_send :: "StoreDeps \<Rightarrow> string \<Rightarrow> string \<Rightarrow> string \<Rightarrow> string \<Rightarrow> string option \<Rightarrow> bool" where
  "may_send sd url kind token u tok \<longleftrightarrow> tok = None \<or> (tok = Some token
     \<and> (\<exists>g. parseGitProvider sd url kind = Inr g \<and> provider_url g u))"

definition well_sent :: "StoreDeps \<Rightarrow> string \<Rightarrow> string \<Rightarrow> string \<Rightarrow> (string \<times> string option) set \<Rightarrow> site \<Rightarrow> bool" where
  "well_sent sd url kind token R s \<longleftrightarrow> (\<forall>(u, tok)\<in>set (requests s) - R. may_send sd url kind token u tok)"

interpretation sending: fetching "well_sent sd url kind token R" "may_send sd url kind token" for sd url kind token R
  by unfold_locales (auto simp: well_sent_def may_send_def)

text \<open>
  C28: the token of a custom source goes to its provider only. Whatever the network answers, a request that
  carries a token while a source is fetched carries the token of that source, and goes to the host
  of its URL (for \<open>forgejo\<close>) or to GitHub's API and raw files.
\<close>

theorem source_token_confined:
  assumes "run_state (FetchCustomRepo sd url kind pubKey token) s = (r, t)"
    and "(u, Some tok) \<in> set (requests t)" and "(u, Some tok) \<notin> set (requests s)"
  shows "tok = token \<and> (\<exists>g. parseGitProvider sd url kind = Inr g \<and> provider_url g u)"
proof -
  have "wp (FetchCustomRepo sd url kind pubKey token) (\<lambda>_. well_sent sd url kind token (set (requests s))) s"
    by (rule keeps_wpD [OF sending.keeps_custom]) (auto simp: may_send_def bearer_def well_sent_def)
  then show ?thesis
    using assms by (auto simp: wp_run well_sent_def may_send_def)
qed

section \<open>The registry\<close>

definition names :: "site \<Rightarrow> string set" where
  "names s = En_Name ` set (registry s)"

definition registry_ok :: "site \<Rightarrow> site \<Rightarrow> bool" where
  "registry_ok s0 s \<longleftrightarrow> installed s = installed s0 \<and> distinct (map En_Name (registry s))
     \<and> names s0 \<inter> IM_Name ` set (installed s0) \<subseteq> names s"

lemma off_registry_ok [simp]: "off_core (registry_ok s0)"
  by (simp add: off_core_def registry_ok_def names_def)

interpretation listing: fetching "registry_ok s0" "\<lambda>_ _. True" for s0
  by unfold_locales (simp_all add: registry_ok_def names_def)

lemma names_upsert: "En_Name ` set (upsert e es) = insert (En_Name e) (En_Name ` set es)"
  by (auto simp: upsert_def list_ex_iff image_iff)

lemma distinct_upsert: "distinct (map En_Name es) \<Longrightarrow> distinct (map En_Name (upsert e es))"
proof -
  have "map En_Name (map (\<lambda>x. if En_Name x = En_Name e then e else x) es) = map En_Name es" by simp
  then show "distinct (map En_Name es) \<Longrightarrow> distinct (map En_Name (upsert e es))"
    by (auto simp: upsert_def list_ex_iff simp del: map_map)
qed

lemma keeps_upsert [inv_intros]: "keeps (registry_ok s0) (UpsertEntry e)"
  unfolding UpsertEntry_def
  by (rule keeps_db_exec) (auto simp: registry_ok_def names_def names_upsert distinct_upsert)

lemma keeps_upserts [inv_intros]:
  "keeps (registry_ok s0) (upsert_each es seen)" "keeps (registry_ok s0) (upsert_community sd es seen)"
  by (induction es arbitrary: seen) (auto intro!: inv_intros listing.keeps_latest)

lemma keeps_sync_custom [inv_intros]: "keeps (registry_ok s0) (sync_custom sd css seen)"
  by (induction css arbitrary: seen) (auto intro!: inv_intros listing.keeps_custom)

lemma names_filter: "En_Name ` set (filter (\<lambda>e. En_Name e \<noteq> n) es) = En_Name ` set es - {n}"
  by auto

lemma wp_delete_entry:
  assumes "registry_ok s0 s" "n \<notin> IM_Name ` set (installed s0)"
  shows "wp (delete_entry n) (\<lambda>_. registry_ok s0) s"
proof (rule keeps_wpD [where I = "registry_ok s0"])
  have "registry_ok s0 (t\<lparr>registry := filter (\<lambda>e. En_Name e \<noteq> n) (registry t)\<rparr>)" if "registry_ok s0 t" for t
  proof -
    have "names (t\<lparr>registry := filter (\<lambda>e. En_Name e \<noteq> n) (registry t)\<rparr>) = names t - {n}"
      by (simp add: names_def names_filter del: set_filter)
    then show ?thesis
      using that assms(2) by (auto simp: registry_ok_def distinct_map_filter)
  qed
  then show "keeps (registry_ok s0) (delete_entry n)"
    unfolding delete_entry_def by (intro keeps_db_exec) simp_all
qed (fact assms(1))

lemma keeps_prune [inv_intros]: "keeps (registry_ok s0) (pruneStaleEntries seen)"
proof -
  have "keeps (registry_ok s0) (prune_each ns)" for ns
  proof (induction ns)
    case (Cons n ns)
    show ?case
      unfolding keeps_wp prune_each.simps io_simps
    proof (intro allI impI)
      fix s assume s: "registry_ok s0 s"
      have rest: "wp (prune_each ns) (\<lambda>_. registry_ok s0) t" if "registry_ok s0 t" for t
        using that Cons.IH by (rule keeps_wpD [rotated])
      have del: "wp (delete_entry n) (\<lambda>_. wp (prune_each ns) (\<lambda>_. registry_ok s0)) (ticked s)"
        if "\<not> list_ex (\<lambda>r. IM_Name r = n) (installed s)"
        by (rule wp_mono [OF wp_delete_entry]) (use s that rest in \<open>auto simp: registry_ok_def list_ex_iff ticked_def names_def\<close>)
      show "wp (is_installed n) (\<lambda>a. wp (case a of Inl x \<Rightarrow> prune_each ns
          | Inr True \<Rightarrow> prune_each ns | Inr False \<Rightarrow> delete_entry n \<bind> (\<lambda>_. prune_each ns)) (\<lambda>_. registry_ok s0)) s"
        unfolding is_installed_def wp_db_query using s rest del by (auto simp: io_simps split: bool.split)
    qed
  qed (auto intro!: inv_intros)
  then show ?thesis unfolding pruneStaleEntries_def by (auto intro!: inv_intros)
qed

lemma keeps_sources [inv_intros]: "off_core I \<Longrightarrow> keeps I (ListCustomSources d)"
proof -
  assume off: "off_core I"
  have "keeps I (decrypt_sources d rows)" for rows
    by (induction rows) (auto intro!: inv_intros off)
  then show ?thesis unfolding ListCustomSources_def by (auto intro!: inv_intros off)
qed

lemma keeps_syncAll: "keeps (registry_ok s0) (syncAll sd)"
  unfolding syncAll_def Let_def
  by (intro inv_intros listing.keeps_official listing.keeps_community; simp)

text \<open>
  C29: a sync keeps the entries of installed modules, and names stay unique. Whatever the sources answer
  and whichever calls fail, a module that is installed and listed is still listed after a sync; no
  name is listed twice; the installed modules are the same.
\<close>

theorem sync_keeps_installed:
  assumes "distinct (map En_Name (registry s))" and "run_state (syncAll sd) s = (r, t)"
  shows "distinct (map En_Name (registry t)) \<and> installed t = installed s
    \<and> (\<forall>row\<in>set (installed s). IM_Name row \<in> En_Name ` set (registry s) \<longrightarrow> IM_Name row \<in> En_Name ` set (registry t))"
proof -
  have "wp (syncAll sd) (\<lambda>_. registry_ok s) s"
    by (rule keeps_wpD [OF keeps_syncAll]) (simp add: registry_ok_def assms(1))
  then show ?thesis using assms(2) by (auto simp: wp_run registry_ok_def names_def)
qed

section \<open>Outages\<close>

text \<open>Every call of Core succeeds, and no request.\<close>

definition calm :: "site \<Rightarrow> site \<Rightarrow> bool" where
  "calm s0 s \<longleftrightarrow> registry s = registry s0 \<and> installed s = installed s0 \<and> sources s = sources s0
     \<and> all_done (core s) \<and> cache_ok (gcm (core s))"

interpretation calming: fetching "calm s0" "\<lambda>_ _. True" for s0
  by unfold_locales (simp_all add: calm_def)

lemma calm_done: "calm s0 s \<Longrightarrow> next_outcome s = Done"
  by (simp add: calm_def next_outcome_def all_done_def)

lemma wp_setting_any:
  "(\<And>r n. Q r (s\<lparr>core := (core s)\<lparr>calls := n\<rparr>\<rparr>)) \<Longrightarrow> wp (core_io (GetSetting k)) Q s"
  by (simp add: wp_core wp_GetSetting)

lemma outage_git:
  assumes out: "\<And>k u. St_http sd k u = None"
  shows "wp (fetch_manifest sd g subPath token bs) (\<lambda>r _. \<not> is_ok r) s"
    and "wp (fetch_registry sd g token bs) (\<lambda>r _. r = Inr []) s"
  by (induction bs arbitrary: s) (simp_all add: io_simps wp_httpGet out Let_def)

lemma outage_fails:
  assumes out: "\<And>k u. St_http sd k u = None"
  shows "wp (FetchOfficialRegistry sd) (\<lambda>r _. \<not> is_ok r) s" "wp (FetchCommunityRegistry sd) (\<lambda>r _. \<not> is_ok r) s"
    "wp (FetchCustomRepo sd url kind pk token) (\<lambda>r _. \<not> is_ok r) s"
proof -
  show "wp (FetchOfficialRegistry sd) (\<lambda>r _. \<not> is_ok r) s" "wp (FetchCommunityRegistry sd) (\<lambda>r _. \<not> is_ok r) s"
    unfolding FetchOfficialRegistry_def FetchCommunityRegistry_def GithubAPITimeoutSeconds_def seconds_setting_def
    by (simp_all add: io_simps wp_httpGet out wp_GetSetting)
  have mono: "wp (fetchCustomMonorepo sd url g pk token) (\<lambda>r _. \<not> is_ok r) t" for g t
    unfolding fetchCustomMonorepo_def fetchCustomRegistryJSON_def wp_bind
    by (rule wp_mono [OF outage_git(2) [OF out]]) (simp add: io_simps wp_httpGet out)
  have root: "wp (fetchCustomManifestAt sd g [] token \<bind> f) (\<lambda>r _. \<not> is_ok r) t"
    if "\<And>e u. wp (f (Inl e)) (\<lambda>r _. \<not> is_ok r) u" for g f t
    unfolding fetchCustomManifestAt_def wp_bind
    by (rule wp_mono [OF outage_git(1) [OF out]]) (use that in \<open>auto simp: is_ok_def split: sum.splits\<close>)
  show "wp (FetchCustomRepo sd url kind pk token) (\<lambda>r _. \<not> is_ok r) s"
    unfolding FetchCustomRepo_def GithubAPITimeoutSeconds_def seconds_setting_def wp_bind wp_try wp_return
    by (rule wp_setting_any)
      (auto intro!: root [unfolded wp_bind] wp_mono [OF mono] simp: wp_try wp_fail wp_ok)
qed

text \<open>With the state that is left.\<close>

lemma outage_calm:
  assumes out: "\<And>k u. St_http sd k u = None" and s: "calm s0 s"
  shows "wp (FetchOfficialRegistry sd) (\<lambda>r t. \<not> is_ok r \<and> calm s0 t) s"
    "wp (FetchCommunityRegistry sd) (\<lambda>r t. \<not> is_ok r \<and> calm s0 t) s"
    "wp (FetchCustomRepo sd url kind pk token) (\<lambda>r t. \<not> is_ok r \<and> calm s0 t) s"
  unfolding wp_conj
  by (simp_all add: outage_fails [OF out] keeps_wpD [OF calming.keeps_official s] keeps_wpD [OF calming.keeps_community s]
      keeps_wpD [OF calming.keeps_custom s])

text \<open>Decryption of the sources.\<close>

definition readable :: "Deps \<Rightarrow> CustomSourceRow \<Rightarrow> bool" where
  "readable d r \<longleftrightarrow> (\<forall>e\<in>{CS_RepoURL r, CS_Name r, CS_Token r}. is_ok (plain d (d_PoolKey d) e))"

lemma wp_decrypt_urls:
  assumes "list_all (readable d) rs" "calm s0 s"
  shows "wp (decrypt_sources d rs) (\<lambda>r t. calm s0 t \<and> (\<exists>out. r = Inr out
     \<and> map (\<lambda>o'. Inr (CS_RepoURL o')) out = map (\<lambda>r. plain d (d_PoolKey d) (CS_RepoURL r)) rs)) s"
  using assms
proof (induction rs arbitrary: s)
  case (Cons x rs)
  have dec: "wp (try_bind (core_io (decrypt_if_io d k e)) f) Q t"
    if "calm s0 t" "plain d k e = Inr p" "\<And>u. calm s0 u \<Longrightarrow> wp (f p) Q u" for k e p and f :: "string \<Rightarrow> CustomSourceRow list res sio" and Q t
    unfolding wp_try wp_core
    by (rule wp_decrypt_plain) (use that in \<open>auto simp: calm_def enc_frameD\<close>)
  obtain u n k where x: "plain d (d_PoolKey d) (CS_RepoURL x) = Inr u" "plain d (d_PoolKey d) (CS_Name x) = Inr n"
    "plain d (d_PoolKey d) (CS_Token x) = Inr k"
    using Cons.prems(1) by (auto simp: readable_def is_ok_ex)
  show ?case
    unfolding decrypt_sources.simps
    by (rule dec [OF Cons.prems(2) x(1)], rule dec [OF _ x(2)], assumption, rule dec [OF _ x(3)], assumption)
      (use Cons.prems(1) x(1) in \<open>auto simp: wp_try wp_ok intro!: wp_mono [OF Cons.IH]\<close>)
qed (simp add: wp_ok)

text \<open>Each failing source is counted once.\<close>

lemma wp_sync_custom_outage:
  assumes out: "\<And>k u. St_http sd k u = None" and "calm s0 s"
  shows "wp (sync_custom sd rows seen) (\<lambda>r t. distinct (fst r) \<and> set (fst r) = CS_RepoURL ` set rows \<and> snd r = seen \<and> calm s0 t) s"
  using assms(2)
proof (induction rows arbitrary: s)
  case (Cons cs rows)
  show ?case
    unfolding sync_custom.simps wp_bind
    by (rule wp_mono [OF outage_calm(3) [OF out Cons.prems]])
      (auto simp: is_ok_def io_simps split: sum.splits prod.split intro!: wp_mono [OF Cons.IH])
qed (simp add: wp_return)

lemma wp_prune_each:
  assumes "all_done (core s)"
  shows "wp (prune_each ns) (\<lambda>_ t. registry t = filter (\<lambda>e. En_Name e \<in> set ns \<longrightarrow> En_Name e \<in> IM_Name ` set (installed s)) (registry s)) s"
  using assms
proof (induction ns arbitrary: s)
  case (Cons n ns)
  have done1: "next_outcome s = Done" "next_outcome (ticked s) = Done"
    "next_outcome (s\<lparr>core := core s\<lparr>calls := Suc (calls (core s))\<rparr>\<rparr>) = Done"
    using Cons.prems by (simp_all add: next_outcome_def all_done_def ticked_def)
  have IH: "wp (prune_each ns) (\<lambda>_ t. registry t = filter (\<lambda>e. En_Name e \<in> set ns \<longrightarrow> En_Name e \<in> IM_Name ` set (installed s)) (registry u)) u"
    if "installed u = installed s" "all_done (core u)" for u
    using Cons.IH [OF that(2)] that(1) by simp
  show ?case
  proof (cases "n \<in> IM_Name ` set (installed s)")
    case True
    then have "list_ex (\<lambda>r. IM_Name r = n) (installed s)" by (auto simp: list_ex_iff)
    then show ?thesis
      using IH [of "ticked s"] Cons.prems True
      by (auto simp: io_simps is_installed_def wp_db_query done1 ticked_def elim!: wp_mono intro!: filter_cong)
  next
    case False
    then have "\<not> list_ex (\<lambda>r. IM_Name r = n) (installed s)" by (auto simp: list_ex_iff)
    then show ?thesis
      using IH [of "(ticked (ticked s))\<lparr>registry := filter (\<lambda>e. En_Name e \<noteq> n) (registry s)\<rparr>"] Cons.prems False
      by (auto simp: io_simps is_installed_def delete_entry_def wp_db_query wp_db_exec done1 ticked_def
          elim!: wp_mono intro!: filter_cong)
  qed
qed (simp add: io_simps)


lemma keeps_official_calm: "calm s0 s \<Longrightarrow> wp (ListCustomSources d) Q s \<longleftrightarrow> wp (decrypt_sources d (sort_key CS_AddedAt (sources s0))) Q (ticked s)"
  by (simp add: ListCustomSources_def wp_try wp_db_query calm_done) (simp add: calm_def)

lemma calm_ticked: "calm s0 s \<Longrightarrow> calm s0 (ticked s)"
  by (simp add: ticked_def calming.calls)

lemma failed_count:
  "distinct errs \<Longrightarrow> set errs = f ` set xs \<Longrightarrow> length errs < length xs \<longleftrightarrow> \<not> distinct (map f xs)"
  using card_length [of "map f xs"] card_distinct [of "map f xs"] distinct_card [of "map f xs"] distinct_card [of errs]
  by (auto simp: le_less)

text \<open>What is left in the registry, when the URLs of the sources are \<open>urls\<close>.\<close>

definition left_over :: "string res list \<Rightarrow> site \<Rightarrow> Entry list" where
  "left_over urls s = (if distinct urls then registry s
     else filter (\<lambda>e. En_Name e \<in> IM_Name ` set (installed s)) (registry s))"

lemma wp_outage_prune:
  assumes "calm s0 t"
  shows "wp (pruneStaleEntries []) (\<lambda>_ t. registry t = filter (\<lambda>e. En_Name e \<in> IM_Name ` set (installed s0)) (registry s0)) t"
  unfolding pruneStaleEntries_def wp_try wp_db_query
  using assms calm_ticked [OF assms]
  by (auto simp: calm_done wp_bind calm_def wp_ok intro!: wp_mono [OF wp_prune_each] filter_cong)

lemma wp_outage_custom:
  assumes out: "\<And>k u. St_http sd k u = None" and t: "calm s0 t"
    and urls: "map (\<lambda>r. Inr (CS_RepoURL r)) rows = urls"
  shows "wp (sync_custom sd rows []) (\<lambda>(errs, seen). wp (if length errs < length rows then pruneStaleEntries seen else ok ())
     (\<lambda>_ t. registry t = left_over urls s0)) t"
proof (rule wp_mono [OF wp_sync_custom_outage [OF out t]], clarsimp)
  fix errs u assume errs: "distinct errs" "set errs = CS_RepoURL ` set rows" and u: "calm s0 u"
  have "distinct urls = distinct (map CS_RepoURL rows)"
    by (auto simp: distinct_map inj_on_def simp flip: urls)
  with failed_count [OF errs] have "length errs < length rows \<longleftrightarrow> \<not> distinct urls" by simp
  then show "(length errs < length rows \<longrightarrow> wp (pruneStaleEntries []) (\<lambda>_ t. registry t = left_over urls s0) u)
      \<and> (\<not> length errs < length rows \<longrightarrow> wp (ok ()) (\<lambda>_ t. registry t = left_over urls s0) u)"
    using u wp_outage_prune [OF u] by (auto simp: left_over_def wp_ok calm_def)
qed

lemma wp_outage_sync:
  assumes out: "\<And>k u. St_http sd k u = None" and s: "calm s0 s"
    and srcs: "list_all (readable (St_deps sd)) (sources s0)"
  shows "wp (syncAll sd) (\<lambda>_ t. registry t = left_over
     (map (\<lambda>r. plain (St_deps sd) (d_PoolKey (St_deps sd)) (CS_RepoURL r)) (sort_key CS_AddedAt (sources s0))) s0) s"
proof -
  have rows: "list_all (readable (St_deps sd)) (sort_key CS_AddedAt (sources s0))"
    using srcs by (simp add: list_all_iff)
  note com = outage_calm(2) [OF out]
  show ?thesis
    unfolding syncAll_def wp_bind
    apply (rule wp_mono [OF outage_calm(1) [OF out s]])
    apply (clarsimp simp: is_ok_def wp_bind wp_return split: sum.splits)
    apply (rule wp_mono [OF com], assumption)
    apply (clarsimp simp: is_ok_def wp_bind wp_return keeps_official_calm split: sum.splits)
    apply (rule wp_mono [OF wp_decrypt_urls [OF rows calm_ticked]], assumption)
    apply (clarsimp simp: Let_def wp_bind wp_return)
    apply (rule wp_mono [OF wp_outage_custom [OF out]])
    apply (assumption, assumption)
    apply (auto simp: wp_bind wp_return split: prod.splits)
    done
qed

text \<open>
  A total outage. When no request is answered while Core's own calls succeed, a sync leaves the registry as
  it is if the custom sources have different URLs; if a URL is registered twice it counts as one
  failure, not every source seems to have failed, and every entry of a module that is not installed goes.
\<close>

theorem outage_registry:
  assumes "St_http sd = (\<lambda>_ _. None)" and "all_done (core s)" and "cache_ok (gcm (core s))"
    and "list_all (readable (St_deps sd)) (sources s)" and "run_state (syncAll sd) s = (r, t)"
  shows "registry t = (if distinct (map (\<lambda>c. plain (St_deps sd) (d_PoolKey (St_deps sd)) (CS_RepoURL c)) (sources s)) then registry s
     else filter (\<lambda>e. En_Name e \<in> IM_Name ` set (installed s)) (registry s))"
proof -
  let ?f = "\<lambda>c. plain (St_deps sd) (d_PoolKey (St_deps sd)) (CS_RepoURL c)"
  have "distinct xs \<longleftrightarrow> card (set xs) = length xs" for xs :: "string res list"
    using distinct_card card_distinct by blast
  then have "distinct (map ?f (sort_key CS_AddedAt (sources s))) = distinct (map ?f (sources s))"
    by (simp only: set_map set_sort length_map length_sort)
  then show ?thesis
    using wp_outage_sync [of sd s s] assms by (simp add: wp_run calm_def left_over_def)
qed

section \<open>The interval\<close>

lemma wrap64_range: "- 9223372036854775808 \<le> n \<Longrightarrow> n < 9223372036854775808 \<Longrightarrow> wrap64 n = n"
  by (simp add: wrap64_def)

lemma wrap64_over: "9223372036854775808 \<le> n \<Longrightarrow> n < 18446744073709551616 \<Longrightarrow> wrap64 n = n - 18446744073709551616"
proof -
  assume n: "9223372036854775808 \<le> n" "n < 18446744073709551616"
  have "(n + 9223372036854775808) mod 18446744073709551616 = ((n - 9223372036854775808) + 18446744073709551616) mod 18446744073709551616"
    by (simp add: algebra_simps)
  also have "\<dots> = n - 9223372036854775808" using n by (simp only: mod_add_self2) simp
  finally show ?thesis by (simp add: wrap64_def)
qed

text \<open>
  The pause between syncs. A setting of n seconds is n seconds up to 9223372036; above, up to 18446744073,
  the product is out of range and the pause negative, so that syncs follow each other at once.
\<close>

theorem sync_interval_range:
  assumes "settings (core s) ''store_sync_interval_seconds'' = Some v" and "atoi v = Some n" and "0 < n"
    and "next_outcome s = Done" and "run_state SyncInterval s = (p, t)"
  shows "if n \<le> 9223372036 then p = n * 1000000000 else n \<le> 18446744073 \<longrightarrow> p < 0"
proof -
  have "wp SyncInterval (\<lambda>p _. p = wrap64 (n * 1000000000)) s"
    using assms(1-4)
    by (simp add: SyncInterval_def SyncIntervalSeconds_def seconds_setting_def io_simps wp_GetSetting next_outcome_def)
  then have "p = wrap64 (n * 1000000000)" using assms(5) by (simp add: wp_run)
  then show ?thesis using assms(3) wrap64_range [of "n * 1000000000"] wrap64_over [of "n * 1000000000"] by auto
qed

section \<open>The properties at concrete sites\<close>

text \<open>
  A registry service: the official registry lists \<open>unifi\<close>, the community nothing, and the repository
  \<open>evil/x\<close> has a manifest that says \<open>unifi\<close>.
\<close>

definition web :: StoreDeps where
  "web = \<lparr>St_deps = sample_deps,
     St_http = (\<lambda>_ u. if has_prefix u officialRegistryURL then Some ''official'' else if has_suffix u ''/contents/'' then Some ''none''
       else if has_suffix u ''manifest.yaml'' then Some ''evil'' else if has_suffix u ''/latest'' then Some ''v9'' else None),
     St_urlParse = M_urlParse shop_mdeps,
     St_registry = (\<lambda>_. Some [\<lparr>OE_Name = ''unifi'', OE_Version = ''v1'', OE_ReleaseURL = ''https://github.com/o/r/releases/x.zip'',
       OE_CosignSigURL = ''https://github.com/o/r/sig'', OE_Category = [], OE_LogoURL = [], OE_BrowseURL = []\<rparr>]),
     St_listing = (\<lambda>_. Some []), St_community = (\<lambda>_. None),
     St_custom = (\<lambda>_. Some \<lparr>UM_Name = ''unifi'', UM_Version = ''9'', UM_Category = [], UM_Logo = []\<rparr>),
     St_release = (\<lambda>_. Some ''v9''), St_releases = (\<lambda>_. Some [])\<rparr>"

definition with_source :: "string \<Rightarrow> string \<Rightarrow> site \<Rightarrow> site" where
  "with_source url token s = s\<lparr>sources :=
     sources (snd (run_state (CreateCustomSource sample_deps url ''n'' [] token ''github'' ''s1'') s))\<rparr>"

definition unifi_site :: site where
  "unifi_site = empty_site\<lparr>
     installed := [sample_row\<lparr>IM_Name := ''unifi''\<rparr>], disk := [''/m/unifi'' \<mapsto> [(''manifest.yaml'', ''old'')]]\<rparr>"

definition evil_site :: site where
  "evil_site = with_source ''https://github.com/evil/x'' [] unifi_site"

definition synced :: site where
  "synced = snd (run_state (syncAll web) evil_site)"

definition unsigned_mdeps :: MDeps where
  "unsigned_mdeps = shop_mdeps\<lparr>M_cosign := \<lambda>_ _ _. False\<rparr>"

definition fake_entry :: Entry where
  "fake_entry = \<lparr>En_Name = ''unifi'', En_Source = ''custom'', En_SourceRepo = ''https://github.com/evil/x'',
     En_ReleaseAsset = ''module.zip'', En_CosignSigURL = [], En_CosignPubKey = [], En_Category = [],
     En_LatestVersion = ''v9'', En_LogoURL = [], En_BrowseURL = [], En_SyncedAt = 1000\<rparr>"

lemma fake_entry_synced: "registry synced = [fake_entry]"
  by code_simp

lemma fake_update:
  "map (\<lambda>m. (IM_Source m, IM_CosignVerified m)) (installed (snd (run_state (Update unsigned_mdeps fake_entry) unifi_site)))
     = [(''official'', False)]"
  by code_simp

text \<open>
  A custom source replaces an official module of the same name. After a sync without any failure the
  registry knows the module from the custom source alone, and an update from that entry, of a module whose
  official release was verified, leaves an unverified one, though no signature is ever valid.
\<close>

theorem official_entry_shadowed:
  "fst (run_state (syncAll web) evil_site) = ([], False, False)
     \<and> map (\<lambda>e. (En_Name e, En_Source e)) (registry synced) = [(''unifi'', ''custom'')]
     \<and> map (\<lambda>m. (IM_Source m, IM_CosignVerified m)) (installed unifi_site) = [(''official'', True)]
     \<and> map (\<lambda>m. (IM_Source m, IM_CosignVerified m))
         (installed (snd (run_state (Update unsigned_mdeps (hd (registry synced))) unifi_site))) = [(''official'', False)]"
  unfolding fake_entry_synced list.sel fake_update
  by (intro conjI refl) code_simp+

text \<open>A private source, whose files are asked for with its token.\<close>

theorem source_token_confined_witness:
  "let reqs = requests (snd (run_state (FetchCustomRepo web ''https://github.com/evil/x'' ''github'' [] ''tok'') empty_site)) in
     list_ex (\<lambda>(u, tok). tok = Some ''tok'' \<and> (\<exists>g. parseGitProvider web ''https://github.com/evil/x'' ''github'' = Inr g \<and> provider_url g u)) reqs"
proof -
  let ?run = "run_state (FetchCustomRepo web ''https://github.com/evil/x'' ''github'' [] ''tok'') empty_site"
  obtain r t where rt: "?run = (r, t)" by fastforce
  have "list_ex (\<lambda>(u, tok). tok = Some ''tok'') (requests (snd ?run))" "requests empty_site = []" by code_simp+
  then obtain u where u: "(u, Some ''tok'') \<in> set (requests t)" "(u, Some ''tok'') \<notin> set (requests empty_site)"
    using rt by (auto simp: list_ex_iff)
  with source_token_confined [OF rt u] show ?thesis using rt by (auto simp: list_ex_iff Let_def)
qed

text \<open>An entry whose source is gone stays because its module is installed.\<close>

definition orphaned :: site where
  "orphaned = empty_site\<lparr>installed := [sample_row], registry := [custom_entry\<lparr>En_Name := ''m''\<rparr>, custom_entry\<lparr>En_Name := ''x''\<rparr>]\<rparr>"

theorem sync_keeps_installed_witness:
  "''m'' \<in> En_Name ` set (registry (snd (run_state (syncAll web) orphaned)))"
proof -
  have d: "distinct (map En_Name (registry orphaned))" by code_simp
  obtain r t where rt: "run_state (syncAll web) orphaned = (r, t)" by fastforce
  have "sample_row \<in> set (installed orphaned)" "IM_Name sample_row = ''m''" "''m'' \<in> En_Name ` set (registry orphaned)"
    by (simp_all add: orphaned_def sample_row_def)
  then have "''m'' \<in> En_Name ` set (registry t)"
    using sync_keeps_installed [OF d rt] by metis
  with rt show ?thesis by simp
qed

text \<open>Two sources with one URL, and no network.\<close>

definition twice :: site where
  "twice = with_source ''https://github.com/o/r'' ''a'' (with_source ''https://github.com/o/r'' ''b'' orphaned)"

theorem outage_registry_witness:
  "map En_Name (registry (snd (run_state (syncAll (web\<lparr>St_http := \<lambda>_ _. None\<rparr>)) twice))) = [''m'']"
proof -
  let ?sd = "web\<lparr>St_http := \<lambda>_ _. None\<rparr>"
  obtain r t where rt: "run_state (syncAll ?sd) twice = (r, t)" by fastforce
  have "\<not> distinct (map (\<lambda>c. plain sample_deps sample_key (CS_RepoURL c)) (sources twice))"
    "cache_ok (gcm (core twice))" "list_all (readable sample_deps) (sources twice)"
    "map En_Name (filter (\<lambda>e. En_Name e \<in> IM_Name ` set (installed twice)) (registry twice)) = [''m'']"
    by code_simp+
  moreover have "all_done (core twice)"
    by (simp add: twice_def with_source_def orphaned_def empty_site_def empty_world_def all_done_def)
  ultimately show ?thesis
    using outage_registry [of ?sd twice r t] rt by (simp add: web_def sample_deps_def)
qed

theorem sync_interval_range_witness:
  "fst (run_state SyncInterval (empty_site\<lparr>core := empty_world\<lparr>settings := [''store_sync_interval_seconds'' \<mapsto> ''9223372037'']\<rparr>\<rparr>)) < 0"
proof -
  let ?s = "empty_site\<lparr>core := empty_world\<lparr>settings := [''store_sync_interval_seconds'' \<mapsto> ''9223372037'']\<rparr>\<rparr>"
  obtain p t where "run_state SyncInterval ?s = (p, t)" by fastforce
  moreover have "atoi ''9223372037'' = Some 9223372037" by code_simp
  ultimately show ?thesis
    using sync_interval_range [of ?s "''9223372037''" 9223372037 p t] by (simp add: next_outcome_def empty_world_def)
qed

end
