(* ===== verification/ModuleApi.thy ===== *)
theory ModuleApi
  imports StoreSync Jobs Crud
begin

text \<open>
  \<open>modules/handlers.go\<close>, \<open>status.go\<close> and the end of \<open>updater.go\<close>: the handlers an administrator manages
  modules with, the restart of a worker, the check for updates and the automatic updates.
\<close>

section \<open>Answers\<close>

record UpdateInfo =
  UI_Name :: string
  UI_InstalledVersion :: string
  UI_AvailableVersion :: string
  UI_Source :: string
  UI_LastChecked :: int

datatype api_body =
    AMessage string
  | AError err
  | AGuard Response
  | ARows "InstalledModuleRow list"
  | ARow InstalledModuleRow
  | AUpdates "UpdateInfo list"
  | AHosts "string list"
  | AFlag string bool
  | AToken string int
  | AUsers "(string \<times> string) list"
  | AContent string
  | ACrud crud_body
  | ANone

type_synonym api_response = "nat \<times> api_body"

definition a_answer :: "nat \<Rightarrow> api_body \<Rightarrow> ('s, api_response) state" where
  "a_answer status b = State_Monad.return (status, b)"

definition a_guard :: "Session guarded \<Rightarrow> (Session \<Rightarrow> api_response sio) \<Rightarrow> api_response sio" where
  "a_guard g f = do {
     r \<leftarrow> core_io g;
     case r of Inl resp \<Rightarrow> State_Monad.return (Rs_Status resp, AGuard resp) | Inr sess \<Rightarrow> f sess }"

text \<open>An operation whose error is the answer, with status 422.\<close>

definition a_do :: "'a res sio \<Rightarrow> ('a \<Rightarrow> api_response sio) \<Rightarrow> api_response sio" where
  "a_do m f = do { r \<leftarrow> m; case r of Inl e \<Rightarrow> State_Monad.return (422, AError e) | Inr a \<Rightarrow> f a }"

definition logModuleAudit :: "MDeps \<Rightarrow> LogParams \<Rightarrow> unit sio" where
  "logModuleAudit md p = core_io (logAudit (M_deps md) p)"

definition audit_by :: "MDeps \<Rightarrow> Session \<Rightarrow> string \<Rightarrow> string \<Rightarrow> string \<Rightarrow> unit sio" where
  "audit_by md sess ev module details =
     logModuleAudit md (log_params ev (S_UserID sess) (S_Email sess) module [] details)"

text \<open>The row after the fact; an error or a missing row is the zero value.\<close>

definition zero_row :: InstalledModuleRow where
  "zero_row = \<lparr>IM_Name = [], IM_Version = [], IM_Tier = 0, IM_Source = [], IM_ReleaseURL = [], IM_SHA256 = [],
     IM_Manifest = None, IM_Status = [], IM_Pinned = False, IM_AutoUpdate = False, IM_CosignVerified = False,
     IM_CachedZipPath = None, IM_AvailableVersion = None, IM_LastUpdateCheck = None, IM_LogoURL = None,
     IM_InstalledAt = 0, IM_UpdatedAt = 0, IM_PIIMigratedAt = None, IM_DBRolePasswordEnc = None\<rparr>"

definition row_or_zero :: "string \<Rightarrow> InstalledModuleRow sio" where
  "row_or_zero name = do {
     r \<leftarrow> GetInstalledModule name;
     State_Monad.return (case r of Inr (Some row) \<Rightarrow> row | _ \<Rightarrow> zero_row) }"

section \<open>Restarting a worker\<close>

text \<open>The hosts to start with: the manifest's, or what the running worker had of those the policy admits.\<close>

definition carried_egress :: "MDeps \<Rightarrow> string \<Rightarrow> Manifest \<Rightarrow> string list option \<Rightarrow> string \<Rightarrow> string list sio" where
  "carried_egress md name mf runtime trigger =
     (case runtime of
        Some hosts \<Rightarrow>
          if Mf_DynamicEgress mf \<and> hosts \<noteq> [] then
            (let (allowed, rejected) = carryOverRuntimeEgress hosts (Mf_DynamicEgressAllow mf) in do {
               (case rejected of
                  None \<Rightarrow> State_Monad.return ()
                | Some hs \<Rightarrow> logModuleAudit md (log_params ''module.egress_denied'' [] [] name []
                    (json_obj [(''rejected_hosts'', d_quote (M_deps md) hs), (''trigger'', d_quote (M_deps md) trigger)])));
               State_Monad.return allowed })
          else State_Monad.return (Mf_EgressAllowlist mf)
      | None \<Rightarrow> State_Monad.return (Mf_EgressAllowlist mf))"

definition errModuleManifestNoHandler :: err where
  "errModuleManifestNoHandler = ErrInvalid ''module manifest has no handler''"

definition row_handler :: "InstalledModuleRow \<Rightarrow> Manifest option" where
  "row_handler row = (case IM_Manifest row of
     None \<Rightarrow> None | Some mf \<Rightarrow> if Mf_Handler mf = [] then None else Some mf)"

definition current_egress :: "string \<Rightarrow> string list option sio" where
  "current_egress name = fleet_io (\<lambda>p. (CurrentModuleEgressHosts name p, p))"

definition stop_worker :: "string \<Rightarrow> unit sio" where
  "stop_worker name = fleet_io (\<lambda>p. ((), Stop name p))"

definition restartModuleWorker :: "MDeps \<Rightarrow> string \<Rightarrow> unit res sio" where
  "restartModuleWorker md name =
     try_bind (GetInstalledModule name) (\<lambda>found.
     case found of
       None \<Rightarrow> fail (ErrInvalid ''module not installed'')
     | Some row \<Rightarrow> do {
         runtime \<leftarrow> current_egress name;
         stop_worker name;
         (case row_handler row of
            None \<Rightarrow> fail errModuleManifestNoHandler
          | Some mf \<Rightarrow> do {
              hosts \<leftarrow> carried_egress md name mf runtime ''restart'';
              try_bind (start_worker md name mf hosts) (\<lambda>_. do {
                reload_dynamic md name mf;
                _ \<leftarrow> UpdateModuleStatus name ModuleStatusActive;
                ok () }) }) })"

definition restartWorkerAfterUpdate :: "MDeps \<Rightarrow> string \<Rightarrow> unit sio" where
  "restartWorkerAfterUpdate md name = do {
     runtime \<leftarrow> current_egress name;
     stop_worker name;
     found \<leftarrow> GetInstalledModule name;
     (case found of
        Inr (Some row) \<Rightarrow>
          if IM_Tier row < 2 then State_Monad.return ()
          else (case row_handler row of
             None \<Rightarrow> State_Monad.return ()
           | Some mf \<Rightarrow> do {
               hosts \<leftarrow> carried_egress md name mf runtime ''update'';
               started \<leftarrow> start_worker md name mf hosts;
               (case started of Inl _ \<Rightarrow> State_Monad.return () | Inr _ \<Rightarrow> reload_dynamic md name mf) })
      | _ \<Rightarrow> State_Monad.return ()) }"

section \<open>Updates\<close>

definition clear_available :: "InstalledModuleRow \<Rightarrow> UpdateInfo option sio" where
  "clear_available row =
     (if IM_AvailableVersion row = None \<or> IM_AvailableVersion row = Some [] then State_Monad.return None
      else do { _ \<leftarrow> SetModuleAvailableVersion (IM_Name row) []; State_Monad.return None })"

text \<open>One row of the check: an update that is available, or none; the row remembers which.\<close>

definition check_row :: "InstalledModuleRow \<Rightarrow> UpdateInfo option sio" where
  "check_row row =
     (if IM_Status row = ModuleStatusInstalling then State_Monad.return None
      else do {
        entry \<leftarrow> GetEntry (IM_Name row);
        (case entry of
           Inl _ \<Rightarrow> State_Monad.return None
         | Inr None \<Rightarrow> clear_available row
         | Inr (Some e) \<Rightarrow>
             if En_LatestVersion e = [] \<or> En_LatestVersion e = IM_Version row then clear_available row
             else do {
               _ \<leftarrow> SetModuleAvailableVersion (IM_Name row) (En_LatestVersion e);
               s \<leftarrow> State_Monad.get;
               State_Monad.return (Some \<lparr>UI_Name = IM_Name row, UI_InstalledVersion = IM_Version row,
                 UI_AvailableVersion = En_LatestVersion e, UI_Source = IM_Source row, UI_LastChecked = now (core s)\<rparr>) }) })"


primrec check_rows :: "InstalledModuleRow list \<Rightarrow> UpdateInfo list sio" where
  "check_rows [] = State_Monad.return []"
| "check_rows (row # rows) = do {
     u \<leftarrow> check_row row;
     us \<leftarrow> check_rows rows;
     State_Monad.return (case u of None \<Rightarrow> us | Some i \<Rightarrow> i # us) }"

definition CheckUpdates :: "UpdateInfo list res sio" where
  "CheckUpdates = try_bind ListInstalledModules (\<lambda>rows. do { us \<leftarrow> check_rows rows; ok us })"

definition auto_update :: "MDeps \<Rightarrow> UpdateInfo \<Rightarrow> unit sio" where
  "auto_update md u = do {
     found \<leftarrow> GetInstalledModule (UI_Name u);
     (case found of
        Inr (Some row) \<Rightarrow>
          if \<not> IM_AutoUpdate row then State_Monad.return ()
          else do {
            entry \<leftarrow> GetEntry (UI_Name u);
            (case entry of
               Inr (Some e) \<Rightarrow> do {
                 r \<leftarrow> Update md e;
                 (case r of
                    Inl _ \<Rightarrow> State_Monad.return ()
                  | Inr _ \<Rightarrow> do {
                      restartWorkerAfterUpdate md (UI_Name u);
                      logModuleAudit md (log_params ''module.updated'' [] [] (UI_Name u) []
                        (json_obj [(''from_version'', d_quote (M_deps md) (UI_InstalledVersion u)),
                          (''to_version'', d_quote (M_deps md) (UI_AvailableVersion u)), (''trigger'', ''\"auto\"'')])) }) }
             | _ \<Rightarrow> State_Monad.return ()) }
      | _ \<Rightarrow> State_Monad.return ()) }"

primrec RunAutoUpdates :: "MDeps \<Rightarrow> UpdateInfo list \<Rightarrow> unit sio" where
  "RunAutoUpdates md [] = State_Monad.return ()"
| "RunAutoUpdates md (u # us) = do { auto_update md u; RunAutoUpdates md us }"

definition RunUpdateCheckOnce :: "MDeps \<Rightarrow> unit sio" where
  "RunUpdateCheckOnce md = do {
     r \<leftarrow> CheckUpdates;
     (case r of
        Inl _ \<Rightarrow> State_Monad.return ()
      | Inr us \<Rightarrow> do {
          _ \<leftarrow> (if us \<noteq> [] then core_io (Publish AdminChannel (''module.updates_available'' @ show_nat (length us))) else ok ());
          RunAutoUpdates md us }) }"

section \<open>Handlers\<close>

definition ListInstalledHandler :: "MDeps \<Rightarrow> Request \<Rightarrow> api_response sio" where
  "ListInstalledHandler md r =
     a_guard (RequireActiveSession (M_deps md) r) (\<lambda>_.
     s_try ListInstalledModules (500, AMessage ''failed to list modules'') (\<lambda>rows. a_answer 200 (ARows rows)))"

definition CheckUpdatesHandler :: "MDeps \<Rightarrow> Request \<Rightarrow> api_response sio" where
  "CheckUpdatesHandler md r =
     a_guard (RequireAdminSession (M_deps md) r) (\<lambda>_.
     s_try CheckUpdates (500, AMessage ''update check failed'') (\<lambda>us. a_answer 200 (AUpdates us)))"

definition GetInstalledHandler :: "MDeps \<Rightarrow> Request \<Rightarrow> string \<Rightarrow> api_response sio" where
  "GetInstalledHandler md r name =
     (if name = [] then a_answer 400 (AMessage ''missing module name'')
      else a_guard (RequireSessionOrModuleToken (M_deps md) name r) (\<lambda>_.
        s_try (GetInstalledModule name) (500, AMessage ''failed to read module'') (\<lambda>found.
        case found of None \<Rightarrow> a_answer 404 (AMessage ''module not installed'') | Some row \<Rightarrow> a_answer 200 (ARow row))))"

definition GetModuleEgressHostsHandler :: "MDeps \<Rightarrow> Request \<Rightarrow> string \<Rightarrow> api_response sio" where
  "GetModuleEgressHostsHandler md r name =
     (if name = [] then a_answer 400 (AMessage ''missing module name'')
      else a_guard (RequireSessionOrModuleToken (M_deps md) name r) (\<lambda>_. do {
        hosts \<leftarrow> current_egress name;
        a_answer 200 (AHosts (case hosts of None \<Rightarrow> [] | Some hs \<Rightarrow> hs)) }))"

definition InstallHandler :: "MDeps \<Rightarrow> Request \<Rightarrow> string option \<Rightarrow> api_response sio" where
  "InstallHandler md r reqBody =
     a_guard (RequireAdminSession (M_deps md) r) (\<lambda>sess.
     if reqBody = None \<or> reqBody = Some [] then a_answer 400 (AMessage ''request body must be JSON with a non-empty name field'')
     else (let name = the reqBody in
       s_try (GetEntry name) (500, AMessage ''registry lookup failed'') (\<lambda>entry.
       case entry of
         None \<Rightarrow> a_answer 404 (AMessage ''module not found in registry'')
       | Some e \<Rightarrow> a_do (Install md e) (\<lambda>_. do {
           row \<leftarrow> row_or_zero name;
           audit_by md sess ''module.installed'' name (json_obj [(''version'', d_quote (M_deps md) (IM_Version row)),
             (''tier'', show_int (IM_Tier row)), (''source'', d_quote (M_deps md) (En_Source e))]);
           a_answer 201 (ARow row) }))))"

text \<open>What a manually uploaded archive is: its module, and the version that is installed of it.\<close>

definition peekManualUploadModule :: "MDeps \<Rightarrow> string \<Rightarrow> int \<Rightarrow> (string \<times> string option) res sio" where
  "peekManualUploadModule md archive maxZIPBytes =
     try_bind (os_call (\<lambda>_. Inr ()) (\<lambda>s. s)) (\<lambda>_.
     try_bind (unpack md archive maxZIPBytes) (\<lambda>extracted.
     try_bind (read_manifest md extracted) (\<lambda>mf.
     try_bind (GetInstalledModule (Mf_Name mf)) (\<lambda>found. ok (Mf_Name mf, map_option IM_Version found)))))"

text \<open>
  The part of a request that is uploaded: its content type, its declared and its real length, and the file
  of the form, if the form can be parsed and has one.
\<close>

record Upload =
  UP_ContentType :: string
  UP_ContentLength :: int
  UP_Body :: string
  UP_Form :: "(string \<times> string) option option"       \<comment> \<open>name and content of the field \<open>file\<close>\<close>

text \<open>\<open>MaxBytesReader\<close> and \<open>ParseMultipartForm\<close>: a body over the limit does not parse.\<close>

definition parse_form :: "Upload \<Rightarrow> int \<Rightarrow> (string \<times> string) res" where
  "parse_form u limit =
     (if limit > 0 \<and> int (length (UP_Body u)) > limit then Inl (ErrInvalid ''parse multipart form'')
      else case UP_Form u of
        None \<Rightarrow> Inl (ErrInvalid ''parse multipart form'')
      | Some None \<Rightarrow> Inl (ErrInvalid ''missing file field'')
      | Some (Some f) \<Rightarrow> Inr f)"

definition InstallManualHandler :: "MDeps \<Rightarrow> Request \<Rightarrow> Upload \<Rightarrow> api_response sio" where
  "InstallManualHandler md r u =
     a_guard (RequireAdminSession (M_deps md) r) (\<lambda>sess. do {
       maxZIPBytes \<leftarrow> max_zip_bytes;
       (if maxZIPBytes > 0 \<and> UP_ContentLength u > maxZIPBytes then a_answer 413 (AMessage ''file too large'')
        else case parse_form u maxZIPBytes of
          Inl e \<Rightarrow> a_answer 400 (AError e)
        | Inr (_, archive) \<Rightarrow>
            s_try (os_call (\<lambda>_. Inr ()) (\<lambda>s. s)) (500, AMessage ''server error'') (\<lambda>_.            \<comment> \<open>temporary file\<close>
            s_try (os_call (\<lambda>_. Inr ()) (\<lambda>s. s)) (400, AMessage ''failed to read upload'') (\<lambda>_.
            s_try (os_call (\<lambda>_. Inr ()) (\<lambda>s. s)) (500, AMessage ''server error'') (\<lambda>_.
            a_do (peekManualUploadModule md archive maxZIPBytes) (\<lambda>(name, current).
            case current of
              Some oldVersion \<Rightarrow> a_do (UpdateManual md archive) (\<lambda>_. do {
                row \<leftarrow> row_or_zero name;
                audit_by md sess ''module.updated'' name (json_obj [(''from_version'', d_quote (M_deps md) oldVersion),
                  (''to_version'', d_quote (M_deps md) (IM_Version row)), (''source'', ''\"manual\"'')]);
                a_answer 200 (ARow row) })
            | None \<Rightarrow> a_do (InstallManual md archive) (\<lambda>_. do {
                row \<leftarrow> row_or_zero name;
                audit_by md sess ''module.installed'' name (json_obj [(''version'', d_quote (M_deps md) (IM_Version row)),
                  (''tier'', show_int (IM_Tier row)), (''source'', ''\"manual\"'')]);
                a_answer 201 (ARow row) })))))) })"

definition UninstallHandler :: "MDeps \<Rightarrow> Request \<Rightarrow> string \<Rightarrow> api_response sio" where
  "UninstallHandler md r name =
     a_guard (RequireAdminSession (M_deps md) r) (\<lambda>sess.
     if name = [] then a_answer 400 (AMessage ''missing module name'')
     else do {
       row \<leftarrow> row_or_zero name;
       a_do (Uninstall md name) (\<lambda>_. do {
         audit_by md sess ''module.uninstalled'' name (json_obj [(''version'', d_quote (M_deps md) (IM_Version row)),
           (''tier'', show_int (IM_Tier row))]);
         a_answer 204 ANone }) })"

definition UpdateModuleHandler :: "MDeps \<Rightarrow> Request \<Rightarrow> string \<Rightarrow> api_response sio" where
  "UpdateModuleHandler md r name =
     a_guard (RequireAdminSession (M_deps md) r) (\<lambda>sess.
     if name = [] then a_answer 400 (AMessage ''missing module name'')
     else s_try (GetEntry name) (500, AMessage ''registry lookup failed'') (\<lambda>entry.
       case entry of
         None \<Rightarrow> a_answer 404 (AMessage ''module not found in registry'')
       | Some e \<Rightarrow> do {
           oldRow \<leftarrow> row_or_zero name;
           a_do (Update md e) (\<lambda>_. do {
             restartWorkerAfterUpdate md name;
             row \<leftarrow> row_or_zero name;
             audit_by md sess ''module.updated'' name (json_obj [(''from_version'', d_quote (M_deps md) (IM_Version oldRow)),
               (''to_version'', d_quote (M_deps md) (IM_Version row)), (''trigger'', ''\"manual\"'')]);
             a_answer 200 (ARow row) }) }))"

text \<open>A flag of the row: what the four handlers of pinning and automatic updates share.\<close>

definition set_flag :: "MDeps \<Rightarrow> Request \<Rightarrow> string \<Rightarrow> bool res sio \<Rightarrow> string \<Rightarrow> string \<Rightarrow> bool \<Rightarrow> api_response sio" where
  "set_flag md r name m failed ev val =
     a_guard (RequireAdminSession (M_deps md) r) (\<lambda>sess.
     s_try m (500, AMessage failed) (\<lambda>found.
     if \<not> found then a_answer 404 (AMessage ''module not installed'')
     else do { audit_by md sess ev name []; a_answer 200 (AFlag name val) }))"

definition PinHandler :: "MDeps \<Rightarrow> Request \<Rightarrow> string \<Rightarrow> api_response sio" where
  "PinHandler md r name = set_flag md r name (SetModulePinned name True) ''failed to pin module'' ''module.pinned'' True"

definition UnpinHandler :: "MDeps \<Rightarrow> Request \<Rightarrow> string \<Rightarrow> api_response sio" where
  "UnpinHandler md r name = set_flag md r name (SetModulePinned name False) ''failed to unpin module'' ''module.unpinned'' False"

definition AutoUpdateOnHandler :: "MDeps \<Rightarrow> Request \<Rightarrow> string \<Rightarrow> api_response sio" where
  "AutoUpdateOnHandler md r name =
     set_flag md r name (SetModuleAutoUpdate name True) ''failed to enable auto-update'' ''module.auto_update_enabled'' True"

definition AutoUpdateOffHandler :: "MDeps \<Rightarrow> Request \<Rightarrow> string \<Rightarrow> api_response sio" where
  "AutoUpdateOffHandler md r name =
     set_flag md r name (SetModuleAutoUpdate name False) ''failed to disable auto-update'' ''module.auto_update_disabled'' False"

definition RestartModuleHandler :: "MDeps \<Rightarrow> Request \<Rightarrow> string \<Rightarrow> api_response sio" where
  "RestartModuleHandler md r name =
     a_guard (RequireAdminSession (M_deps md) r) (\<lambda>sess.
     if name = [] then a_answer 400 (AMessage ''missing module name'')
     else s_try (GetInstalledModule name) (500, AMessage ''failed to look up module'') (\<lambda>found.
       case found of
         None \<Rightarrow> a_answer 404 (AMessage ''module not installed'')
       | Some row \<Rightarrow>
           if IM_Tier row < 2 then a_answer 400 (AMessage ''module has no worker to restart'')
           else do {
             restarted \<leftarrow> restartModuleWorker md name;
             (case restarted of
                Inl e \<Rightarrow> a_answer (if e = errModuleManifestNoHandler then 422 else 500) (AError e)
              | Inr _ \<Rightarrow> do {
                  row' \<leftarrow> row_or_zero name;
                  audit_by md sess ''module.restarted'' name [];
                  a_answer 200 (ARow row') }) }))"

end
