(* ===== verification/ModuleProxy.thy ===== *)
theory ModuleProxy
  imports ModuleApi
begin

text \<open>
  \<open>modules/router.go\<close>: what a module's own pages talk to. Requests to its API go to the table handler or
  to its worker, uploads are stored below its directory, and what the worker asks for in its answer (a
  restart with other hosts, notifications, audit entries) is done. The mux, MIME parsing, content
  sniffing and the image decoders are parameters.
\<close>

section \<open>Data\<close>

record WorkerAuth =
  WA_UserID :: string
  WA_UserEmail :: string
  WA_UserName :: string
  WA_Roles :: "string list"
  WA_Scopes :: "string list"

text \<open>A request to a worker; the proxy leaves the fields \<open>Job\<close> and \<open>Credentials\<close> empty.\<close>

record WorkerRequest =
  WQ_Method :: string
  WQ_Path :: string
  WQ_Body :: "string option"
  WQ_Auth :: WorkerAuth

record ModuleAuditEvent =
  ME_EventType :: string
  ME_TargetID :: string
  ME_TargetEmail :: string
  ME_Details :: string

record ApiAnswer = WorkerResponse +
  WR_Body :: string
  WR_AuditEvents :: "ModuleAuditEvent list"

record ApiDeps =
  AD_m :: MDeps
  AD_crud :: CDeps
  AD_worker :: "nat \<Rightarrow> string \<Rightarrow> WorkerRequest \<Rightarrow> ApiAnswer res"
  AD_mime :: "string \<Rightarrow> string"                             \<comment> \<open>the media type; empty when it does not parse\<close>
  AD_detect :: "string \<Rightarrow> string"                           \<comment> \<open>content sniffing\<close>
  AD_jpeg :: "string \<Rightarrow> (int \<times> int) option"
  AD_png :: "string \<Rightarrow> (int \<times> int) option"
  AD_gif :: "string \<Rightarrow> (int \<times> int) option"
  AD_json :: "string \<Rightarrow> string"                             \<comment> \<open>a JSON string\<close>
  AD_members :: "string \<Rightarrow> (string \<times> json) list option"    \<comment> \<open>a JSON object\<close>

text \<open>
  The site with the tables of the modules, what was sent to workers, and the restarts that are pending:
  each is a goroutine of its own.
\<close>

record api_site =
  ap_site :: site
  ap_tables :: tables
  ap_columns :: "string \<times> string \<Rightarrow> (string \<times> string) list"
  ap_log :: "(string \<times> cell option list) list"
  ap_sent :: "(string \<times> WorkerRequest) list"
  ap_reloads :: "(string \<times> string list) list"

type_synonym 'a aio = "(api_site, 'a) state"

definition site_io :: "'a sio \<Rightarrow> 'a aio" where
  "site_io m = State_Monad.State (\<lambda>s. let (a, t) = run_state m (ap_site s) in (a, s\<lparr>ap_site := t\<rparr>))"

text \<open>The table handler works on the same database and the same world.\<close>

definition crud_view :: "api_site \<Rightarrow> crud_site" where
  "crud_view s = \<lparr>cr_world = core (ap_site s), cr_tables = ap_tables s, cr_columns = ap_columns s, cr_log = ap_log s\<rparr>"

definition crud_put :: "crud_site \<Rightarrow> api_site \<Rightarrow> api_site" where
  "crud_put c s = s\<lparr>ap_site := (ap_site s)\<lparr>core := cr_world c\<rparr>, ap_tables := cr_tables c, ap_columns := cr_columns c, ap_log := cr_log c\<rparr>"

definition table_io :: "'a cio \<Rightarrow> 'a aio" where
  "table_io m = State_Monad.State (\<lambda>s. let (a, c) = run_state m (crud_view s) in (a, crud_put c s))"

text \<open>One request to a worker; that a body which is not JSON cannot be encoded is part of the parameter.\<close>

definition worker_call :: "ApiDeps \<Rightarrow> string \<Rightarrow> WorkerRequest \<Rightarrow> ApiAnswer res aio" where
  "worker_call ad name q = State_Monad.State (\<lambda>s.
     (Dispatch name (AD_worker ad (calls (core (ap_site s))) name q) (fleet (ap_site s)),
      s\<lparr>ap_site := ticked (ap_site s),
        ap_sent := (if Running name (fleet (ap_site s)) then ap_sent s @ [(name, q)] else ap_sent s)\<rparr>))"

definition p_guard :: "Session guarded \<Rightarrow> (Session \<Rightarrow> api_response aio) \<Rightarrow> api_response aio" where
  "p_guard g f = do {
     r \<leftarrow> site_io (core_io g);
     case r of Inl resp \<Rightarrow> State_Monad.return (Rs_Status resp, AGuard resp) | Inr sess \<Rightarrow> f sess }"

section \<open>Audit events of modules\<close>

definition maxModuleAuditDetailsLen :: nat where "maxModuleAuditDetailsLen = 2000"

definition moduleAuditEventSuffix :: "string \<Rightarrow> bool" where
  "moduleAuditEventSuffix ev \<longleftrightarrow>
     list_all (\<lambda>part. part \<noteq> [] \<and> list_all (\<lambda>c. is_lower c \<or> is_digit c \<or> c = CHR ''_'') part) (split_on CHR ''.'' ev)"

text \<open>Bytes are taken away at the end as long as the last one does not start a rune.\<close>

fun drop_tail :: "string \<Rightarrow> string" where
  "drop_tail [] = []"
| "drop_tail (c # r) = (if rune_start c then rev (c # r) else drop_tail r)"

definition truncateUTF8 :: "string \<Rightarrow> nat \<Rightarrow> string" where
  "truncateUTF8 s maxBytes = (if length s \<le> maxBytes then s else drop_tail (rev (take maxBytes s)))"

definition module_event :: "string \<Rightarrow> Session \<Rightarrow> ModuleAuditEvent \<Rightarrow> LogParams" where
  "module_event moduleName sess ev =
     log_params (''module.'' @ moduleName @ ''.'' @ ME_EventType ev) (S_UserID sess) (S_Email sess)
       (ME_TargetID ev) (ME_TargetEmail ev) (truncateUTF8 (ME_Details ev) maxModuleAuditDetailsLen)"

primrec recordModuleAuditEvents :: "MDeps \<Rightarrow> string \<Rightarrow> Session \<Rightarrow> ModuleAuditEvent list \<Rightarrow> unit sio" where
  "recordModuleAuditEvents md moduleName sess [] = State_Monad.return ()"
| "recordModuleAuditEvents md moduleName sess (ev # evs) = do {
     (if moduleAuditEventSuffix (ME_EventType ev) then logModuleAudit md (module_event moduleName sess ev)
      else State_Monad.return ());
     recordModuleAuditEvents md moduleName sess evs }"

section \<open>Uploads\<close>

definition defaultMaxUploadBytes :: int where "defaultMaxUploadBytes = 20971520"

definition MaxUploadBodyBytes :: "int sio" where
  "MaxUploadBodyBytes = do {
     r \<leftarrow> core_io (GetSetting ''max_upload_body_bytes'');
     State_Monad.return (case r of
       Inr (Some val) \<Rightarrow> (case atoi val of Some n \<Rightarrow> if n < 0 then defaultMaxUploadBytes else n | None \<Rightarrow> defaultMaxUploadBytes)
     | _ \<Rightarrow> defaultMaxUploadBytes) }"

definition allowedImageTypes :: "string list" where
  "allowedImageTypes = [''image/jpeg'', ''image/png'', ''image/webp'', ''image/gif'', ''image/avif'', ''application/pdf'']"

definition maxUploadImageDimension :: int where "maxUploadImageDimension = 12000"

definition checkUploadImageDimensions :: "int \<times> int \<Rightarrow> unit res" where
  "checkUploadImageDimensions wh =
     (let (width, height) = wh in
      if width \<le> 0 \<or> height \<le> 0 \<or> width > maxUploadImageDimension \<or> height > maxUploadImageDimension
      then Inl (ErrInvalid ''image dimensions out of allowed range'') else Inr ())"

definition validateUploadedFileStructure :: "ApiDeps \<Rightarrow> string \<Rightarrow> string \<Rightarrow> unit res" where
  "validateUploadedFileStructure ad mediaType content =
     (let image = (\<lambda>dec. case dec content of None \<Rightarrow> Inl (ErrInvalid ''not a valid image'') | Some wh \<Rightarrow> checkUploadImageDimensions wh) in
      if mediaType = ''image/jpeg'' then image (AD_jpeg ad)
      else if mediaType = ''image/png'' then image (AD_png ad)
      else if mediaType = ''image/gif'' then image (AD_gif ad)
      else if mediaType = ''application/pdf'' then
        (if \<not> has_prefix content ''%PDF-'' then Inl (ErrInvalid ''not a valid PDF'')
         else let tail = (if length content > 2048 then drop (length content - 2048) content else content) in
           if contains tail ''%%EOF'' then Inr () else Inl (ErrInvalid ''not a valid PDF''))
      else Inr ())"

record uploadedFile =
  UF_relPath :: string
  UF_bytes :: string
  UF_mimeType :: string

text \<open>
  The directory of the uploads, then the file, named by 16 random bytes and the base of the file's own
  name; a file that is rejected afterwards is removed again.
\<close>

definition upload_dir :: "MDeps \<Rightarrow> string \<Rightarrow> unit res sio" where
  "upload_dir md moduleName =
     (let dir = path_join [M_DataDir md, moduleName] in
      os_call (\<lambda>s. if list_ex (\<lambda>(p, _). p = ''storage'' \<or> p = ''storage/uploads'') (files_of s dir) then Inl ErrExternal else Inr ())
        (\<lambda>s. if disk s dir = None then put_tree dir (Some []) s else s))"

definition remove_file :: "string \<Rightarrow> string \<Rightarrow> unit res sio" where
  "remove_file dir p = db_exec (\<lambda>_. Inr ()) (\<lambda>s. put_tree dir (Some (filter (\<lambda>f. fst f \<noteq> p) (files_of s dir))) s)"

definition upload_name :: "string \<Rightarrow> string \<Rightarrow> string" where
  "upload_name buf filename = hex_encode buf @ ''-'' @ path_base filename"

definition stored_path :: "string \<Rightarrow> string" where "stored_path storedName = ''storage/uploads/'' @ storedName"

definition saveUploadedFile :: "ApiDeps \<Rightarrow> string \<Rightarrow> Upload \<Rightarrow> int \<Rightarrow> uploadedFile res sio" where
  "saveUploadedFile ad moduleName u limit =
     (let md = AD_m ad; dir = path_join [M_DataDir md, moduleName] in
      try_bind (State_Monad.return (parse_form u limit)) (\<lambda>(filename, content).
      let mediaType = AD_mime ad (AD_detect ad (take 512 content)); safeName = path_base filename in
      if mediaType \<notin> set allowedImageTypes then fail (ErrInvalid ''only image or PDF files are allowed'')
      else if safeName \<in> {''.'', ''..'', ''/''} then fail (ErrInvalid ''invalid filename'')
      else try_bind (upload_dir md moduleName) (\<lambda>_. do {
        buf \<leftarrow> core_io (read_random 16);
        (let storedName = upload_name buf filename; p = stored_path storedName in
         try_bind (copyFile dir (p, content)) (\<lambda>_.
         case validateUploadedFileStructure ad mediaType content of
           Inl e \<Rightarrow> do { _ \<leftarrow> remove_file dir p; fail e }
         | Inr _ \<Rightarrow> ok \<lparr>UF_relPath = ''uploads/'' @ storedName, UF_bytes = content, UF_mimeType = mediaType\<rparr>)) })))"

section \<open>The proxy\<close>

text \<open>
  \<open>WriteHeader\<close> and \<open>Write\<close>: a status out of range panics, and nothing after it runs; an informational one
  is followed by 200; some statuses have no body.
\<close>

definition written :: "int \<Rightarrow> string \<Rightarrow> api_response option" where
  "written status content =
     (if status < 100 \<or> status > 999 then None
      else let st = (if status < 200 \<and> status \<noteq> 101 then 200 else nat status) in
        Some (st, AContent (if st = 101 \<or> st = 204 \<or> st = 304 then [] else content)))"

definition sub_path :: "string \<Rightarrow> Request \<Rightarrow> string \<Rightarrow> string" where
  "sub_path moduleName r rawQuery =
     (let p = trim_prefix (R_Path r) (''/v1/modules/'' @ moduleName @ ''/api''); p' = (if p = [] then ''/'' else p) in
      if rawQuery = [] then p' else p' @ ''?'' @ rawQuery)"

definition worker_auth :: "Session \<Rightarrow> WorkerAuth" where
  "worker_auth sess = \<lparr>WA_UserID = S_UserID sess, WA_UserEmail = S_Email sess, WA_UserName = S_Name sess,
     WA_Roles = [S_Role sess], WA_Scopes = []\<rparr>"

definition upload_json :: "ApiDeps \<Rightarrow> uploadedFile \<Rightarrow> string" where
  "upload_json ad f = json_obj [(''file_base64'', AD_json ad (b64_encode (UF_bytes f))),
     (''file_mime_type'', AD_json ad (UF_mimeType f)), (''file_path'', AD_json ad (UF_relPath f))]"

text \<open>What the answer of the worker asks for, after it was passed on.\<close>

definition follow_up :: "ApiDeps \<Rightarrow> string \<Rightarrow> Session \<Rightarrow> ApiAnswer \<Rightarrow> unit aio" where
  "follow_up ad moduleName sess resp = do {
     (case WR_RestartHosts resp of
        None \<Rightarrow> State_Monad.return ()
      | Some hosts \<Rightarrow> State_Monad.State (\<lambda>s. ((), s\<lparr>ap_reloads := ap_reloads s @ [(moduleName, hosts)]\<rparr>)));
     site_io (publish_all (WR_Notifications resp));
     site_io (recordModuleAuditEvents (AD_m ad) moduleName sess (WR_AuditEvents resp)) }"

definition to_worker :: "ApiDeps \<Rightarrow> string \<Rightarrow> Session \<Rightarrow> WorkerRequest \<Rightarrow> api_response aio" where
  "to_worker ad moduleName sess q = do {
     reply \<leftarrow> worker_call ad moduleName q;
     (case reply of
        Inl e \<Rightarrow> a_answer (if e = ErrInvalid ''worker not found'' then 503 else 502) (AError e)
      | Inr resp \<Rightarrow>
          (case written (WR_Status resp) (WR_Body resp) of
             None \<Rightarrow> State_Monad.return (0, ANone)                        \<comment> \<open>the connection is closed\<close>
           | Some out \<Rightarrow> do { follow_up ad moduleName sess resp; State_Monad.return out })) }"

definition request_body :: "ApiDeps \<Rightarrow> string \<Rightarrow> Upload \<Rightarrow> (api_response + string option) sio" where
  "request_body ad moduleName u =
     (if AD_mime ad (UP_ContentType u) = ''multipart/form-data'' then do {
        uploadLimit \<leftarrow> MaxUploadBodyBytes;
        (if uploadLimit > 0 \<and> UP_ContentLength u > uploadLimit then State_Monad.return (Inl (413, AMessage ''file too large''))
         else do {
           saved \<leftarrow> saveUploadedFile ad moduleName u uploadLimit;
           State_Monad.return (case saved of Inl e \<Rightarrow> Inl (400, AError e) | Inr f \<Rightarrow> Inr (Some (upload_json ad f))) }) }
      else let raw = (if length (UP_Body u) \<le> 10485760 then UP_Body u else take 10485760 (UP_Body u)) in State_Monad.return (Inr (if raw = [] then None else Some raw)))"

definition ModuleProxyHandler :: "ApiDeps \<Rightarrow> Request \<Rightarrow> string \<Rightarrow> string \<Rightarrow> Upload \<Rightarrow> api_response aio" where
  "ModuleProxyHandler ad r moduleName rawQuery u =
     (if moduleName = [] then a_answer 400 (AMessage ''missing module name'')
      else p_guard (RequireModuleToken (M_deps (AD_m ad)) moduleName False r) (\<lambda>sess. do {
        found \<leftarrow> site_io (GetInstalledModule moduleName);
        (case found of
           Inr (Some row) \<Rightarrow>
             if IM_Status row \<noteq> ''active'' then a_answer 503 (AMessage (''module is '' @ IM_Status row))
             else if IM_Tier row = 1 then do {
               (status, b) \<leftarrow> table_io (ServeCrudRequest (AD_crud ad) r (AD_members ad (UP_Body u)) moduleName (IM_Manifest row) (S_UserID sess));
               a_answer status (ACrud b) }
             else do {
               b \<leftarrow> site_io (request_body ad moduleName u);
               (case b of
                  Inl resp \<Rightarrow> State_Monad.return resp
                | Inr content \<Rightarrow> to_worker ad moduleName sess
                    \<lparr>WQ_Method = R_Method r, WQ_Path = sub_path moduleName r rawQuery, WQ_Body = content, WQ_Auth = worker_auth sess\<rparr>) }
         | _ \<Rightarrow> a_answer 404 (AMessage ''module not installed'')) }))"

text \<open>The goroutine of a restart.\<close>

definition run_reload :: "ApiDeps \<Rightarrow> api_site \<Rightarrow> api_site" where
  "run_reload ad s =
     (case ap_reloads s of
        [] \<Rightarrow> s
      | (name, hosts) # rest \<Rightarrow> s\<lparr>ap_reloads := rest,
          ap_site := (ap_site s)\<lparr>fleet := snd (snd (ReloadEgress (M_pool (AD_m ad)) name hosts (fleet (ap_site s))))\<rparr>\<rparr>)"

section \<open>The key of a module's data\<close>

definition migrate_request :: "Session \<Rightarrow> WorkerRequest" where
  "migrate_request sess = \<lparr>WQ_Method = ''POST'', WQ_Path = ''/admin/migrate-pii-key'', WQ_Body = None, WQ_Auth = worker_auth sess\<rparr>"


text \<open>A restart is logged only when it fails; the row is read again at the end.\<close>

definition MigratePIIKeyHandler :: "ApiDeps \<Rightarrow> Request \<Rightarrow> string \<Rightarrow> api_response aio" where
  "MigratePIIKeyHandler ad r name =
     (let md = AD_m ad in
      p_guard (RequireAdminSession (M_deps md) r) (\<lambda>sess.
      if name = [] then a_answer 400 (AMessage ''missing module name'')
      else do {
        found \<leftarrow> site_io (GetInstalledModule name);
        (case found of
           Inl _ \<Rightarrow> a_answer 500 (AMessage ''failed to look up module'')
         | Inr None \<Rightarrow> a_answer 404 (AMessage ''module not installed'')
         | Inr (Some row) \<Rightarrow>
             if IM_Tier row < 2 then a_answer 400 (AMessage ''module has no PII key to migrate'')
             else if IM_Status row \<noteq> ''active'' then a_answer 503 (AMessage (''module is '' @ IM_Status row))
             else do {
               migrated \<leftarrow> site_io (IsModulePIIMigrated name);
               (case migrated of
                  Inl _ \<Rightarrow> a_answer 500 (AMessage ''failed to check migration status'')
                | Inr True \<Rightarrow> a_answer 409 (AMessage ''module already migrated'')
                | Inr False \<Rightarrow> do {
                    reply \<leftarrow> worker_call ad name (migrate_request sess);
                    (case reply of
                       Inl e \<Rightarrow> a_answer (if e = ErrInvalid ''worker not found'' then 503 else 502) (AError e)
                     | Inr resp \<Rightarrow>
                         if WR_Status resp < 200 \<or> WR_Status resp \<ge> 300
                         then State_Monad.return (case written (WR_Status resp) (WR_Body resp) of None \<Rightarrow> (0, ANone) | Some out \<Rightarrow> out)
                         else do {
                           marked \<leftarrow> site_io (SetModulePIIMigrated name);
                           (case marked of
                              Inl _ \<Rightarrow> a_answer 500 (AMessage ''module re-encrypted its data but Core failed to record the migration'')
                            | Inr _ \<Rightarrow> do {
                                site_io (audit_by md sess ''module.pii_key_migrated'' name []);
                                _ \<leftarrow> site_io (restartModuleWorker md name);
                                row' \<leftarrow> site_io (row_or_zero name);
                                a_answer 200 (ARow row') }) }) }) }) }))"

section \<open>Files of a module\<close>

text \<open>
  \<open>os.Stat\<close> and \<open>http.ServeFile\<close> on a file below the directory of the module, which refuses a URL with a
  dot-dot element and redirects one that ends in \<open>index.html\<close>.
\<close>

definition stat_file :: "MDeps \<Rightarrow> string \<Rightarrow> string \<Rightarrow> string option sio" where
  "stat_file md moduleName p = do {
     r \<leftarrow> db_query (\<lambda>s. Inr (map_of (files_of s (path_join [M_DataDir md, moduleName])) p));
     State_Monad.return (case r of Inl _ \<Rightarrow> None | Inr f \<Rightarrow> f) }"

definition serve_file :: "Request \<Rightarrow> string \<Rightarrow> api_response" where
  "serve_file r content =
     (if ''..'' \<in> set (split_on CHR ''/'' (R_Path r)) then (400, AMessage ''invalid URL path'')
      else if has_suffix (R_Path r) ''/index.html'' then (301, ANone)
      else (200, AContent content))"

definition served :: "MDeps \<Rightarrow> Request \<Rightarrow> string \<Rightarrow> string \<Rightarrow> api_response sio" where
  "served md r moduleName p = do {
     f \<leftarrow> stat_file md moduleName p;
     State_Monad.return (case f of None \<Rightarrow> (404, AMessage ''not found'') | Some content \<Rightarrow> serve_file r content) }"

definition ModuleLocaleHandler :: "MDeps \<Rightarrow> Request \<Rightarrow> string \<Rightarrow> string \<Rightarrow> api_response sio" where
  "ModuleLocaleHandler md r moduleName lng =
     (if moduleName = [] \<or> lng = [] then a_answer 400 (AMessage ''missing module name or language'')
      else a_guard (RequireModuleToken (M_deps md) moduleName False r) (\<lambda>_.
        if \<not> validModuleNamePathSegment moduleName then a_answer 400 (AMessage ''invalid module name'')
        else if \<not> list_all (\<lambda>c. is_lower c \<or> is_upper c \<or> c = CHR ''-'') lng then a_answer 400 (AMessage ''invalid language code'')
        else served md r moduleName (''locales/'' @ lng @ ''.json'')))"

definition ModuleBundleHandler :: "MDeps \<Rightarrow> Request \<Rightarrow> string \<Rightarrow> api_response sio" where
  "ModuleBundleHandler md r moduleName =
     (if moduleName = [] then a_answer 400 (AMessage ''missing module name'')
      else a_guard (RequireModuleToken (M_deps md) moduleName False r) (\<lambda>_.
        if \<not> validModuleNamePathSegment moduleName then a_answer 400 (AMessage ''invalid module name'')
        else served md r moduleName ''bundle/bundle.js''))"

definition ModuleStorageHandler :: "MDeps \<Rightarrow> Request \<Rightarrow> string \<Rightarrow> string \<Rightarrow> api_response sio" where
  "ModuleStorageHandler md r moduleName filePath =
     (if moduleName = [] \<or> filePath = [] then a_answer 404 (AMessage ''not found'')
      else a_guard (RequireModuleToken (M_deps md) moduleName True r) (\<lambda>_.
        case storage_target (M_DataDir md) moduleName filePath of
          Inl st \<Rightarrow> a_answer st (AMessage ''forbidden'')
        | Inr absPath \<Rightarrow> served md r moduleName (drop (length (path_join [M_DataDir md, moduleName]) + 1) absPath)))"

section \<open>Tokens and users\<close>

definition ModuleTokenHandler :: "MDeps \<Rightarrow> Request \<Rightarrow> string \<Rightarrow> api_response sio" where
  "ModuleTokenHandler md r moduleName =
     a_guard (RequireActiveSession (M_deps md) r) (\<lambda>_.
     if moduleName = [] then a_answer 400 (AMessage ''missing module name'')
     else s_try (GetInstalledModule moduleName) (500, AMessage ''internal server error'') (\<lambda>found.
       case found of
         None \<Rightarrow> a_answer 404 (AMessage ''module not installed'')
       | Some row \<Rightarrow>
           if IM_Status row \<noteq> ''active'' then a_answer 503 (AMessage (''module is '' @ IM_Status row))
           else s_try (core_io (CreateModuleToken (M_deps md) (sessionToken r) moduleName)) (500, AMessage ''internal server error'') (\<lambda>token.
             a_answer 200 (AToken token (ModuleTokenTTL div 1000000000)))))"

definition ModuleUsersDirectoryHandler :: "MDeps \<Rightarrow> Request \<Rightarrow> api_response sio" where
  "ModuleUsersDirectoryHandler md r =
     a_guard (RequireAdminSession (M_deps md) r) (\<lambda>_.
     s_try (core_io (ListUsers (M_deps md))) (500, AMessage ''internal server error'') (\<lambda>us.
     a_answer 200 (AUsers (map (\<lambda>u. (U_Subject u, U_Name u)) us))))"

section \<open>Routes\<close>

text \<open>The patterns below \<open>/v1/modules/\<close>, most specific first; a \<open>GET\<close> pattern matches \<open>HEAD\<close> too.\<close>

definition RegisterModuleRoutes :: "ApiDeps \<Rightarrow> Request \<Rightarrow> string list \<Rightarrow> string \<Rightarrow> Upload \<Rightarrow> api_response aio option" where
  "RegisterModuleRoutes ad r segments rawQuery u =
     (let get = (R_Method r = ''GET'' \<or> R_Method r = ''HEAD''); md = AD_m ad in
      case segments of
        name # rest \<Rightarrow>
          if name = [] then None
          else if get \<and> rest = [''token''] then Some (site_io (ModuleTokenHandler md r name))
          else if get \<and> length rest = 2 \<and> hd rest = ''locales'' \<and> last rest \<noteq> [] then Some (site_io (ModuleLocaleHandler md r name (last rest)))
          else if get \<and> rest = [''api'', ''_users-directory''] then Some (site_io (ModuleUsersDirectoryHandler md r))
          else if length rest \<ge> 2 \<and> hd rest = ''api'' then Some (ModuleProxyHandler ad r name rawQuery u)
          else if get \<and> rest = [''ui'', ''bundle.js''] then Some (site_io (ModuleBundleHandler md r name))
          else if get \<and> length rest \<ge> 2 \<and> hd rest = ''storage'' then Some (site_io (ModuleStorageHandler md r name (join_with ''/'' (tl rest))))
          else None
      | [] \<Rightarrow> None)"

end
