(* ===== verification/ModuleLaws.thy ===== *)
theory ModuleLaws
  imports ModuleProxy InstallLaws HandlerLaws
begin

text \<open>
  What the handlers of modules guarantee: who gets past their guards, what reaches a worker and in whose
  name, what a module can write into the audit log, where uploads go, which hosts a restarted worker may
  reach, and that modules that did not opt in are not updated.
\<close>

section \<open>Administration\<close>

text \<open>A guard only uses the world of the handlers.\<close>

lemma wp_a_guard:
  "wp (a_guard g f) Q s \<longleftrightarrow> wp g (\<lambda>a w. (\<forall>resp. a = Inl resp \<longrightarrow> Q (Rs_Status resp, AGuard resp) (s\<lparr>core := w\<rparr>))
     \<and> (\<forall>sess. a = Inr sess \<longrightarrow> wp (f sess) Q (s\<lparr>core := w\<rparr>))) (core s)"
  by (auto simp: a_guard_def wp_bind wp_core wp_return wp_run split: sum.split)

text \<open>The operations only an administrator has.\<close>

definition admin_handlers :: "MDeps \<Rightarrow> Request \<Rightarrow> string \<Rightarrow> string option \<Rightarrow> Upload \<Rightarrow> api_response sio set" where
  "admin_handlers md r name reqBody u =
     {CheckUpdatesHandler md r, InstallHandler md r reqBody, InstallManualHandler md r u, UninstallHandler md r name,
      UpdateModuleHandler md r name, PinHandler md r name, UnpinHandler md r name, AutoUpdateOnHandler md r name,
      AutoUpdateOffHandler md r name, RestartModuleHandler md r name, ModuleUsersDirectoryHandler md r}"

lemma admin_handlers_guarded:
  "h \<in> admin_handlers md r name reqBody u \<Longrightarrow> \<exists>f. h = a_guard (RequireAdminSession (M_deps md) r) f"
  by (auto simp: admin_handlers_def CheckUpdatesHandler_def InstallHandler_def InstallManualHandler_def UninstallHandler_def
      UpdateModuleHandler_def PinHandler_def UnpinHandler_def AutoUpdateOnHandler_def AutoUpdateOffHandler_def
      RestartModuleHandler_def ModuleUsersDirectoryHandler_def set_flag_def)

lemma keeps_RequireAdmin: "store_stable I \<Longrightarrow> keeps I (RequireAdminSession d r)"
  unfolding RequireAdminSession_def by (intro inv_intros)

lemma wp_RequireAdmin:
  assumes "cache_ok (gcm w)"
    and "\<And>s t. same_db w t \<Longrightarrow> passed d w r s \<Longrightarrow> S_Role s = RoleAdmin \<Longrightarrow> \<not> S_Locked s \<Longrightarrow> Q (Inr s) t"
    and "\<And>resp t. same_db w t \<Longrightarrow> Rs_Status resp \<ge> 400 \<Longrightarrow> Q (Inl resp) t"
  shows "wp (RequireAdminSession d r) Q w"
proof -
  have "wp (RequireAdminSession d r) (\<lambda>a t. ((\<forall>s. a = Inr s \<longrightarrow> passed d w r s \<and> S_Role s = RoleAdmin \<and> \<not> S_Locked s)
      \<and> (\<forall>resp. a = Inl resp \<longrightarrow> Rs_Status resp \<ge> 400)) \<and> same_db w t) w"
    unfolding wp_conj [of _ "\<lambda>a t. A a t" "\<lambda>a t. same_db w t" for A]
  proof
    show "wp (RequireAdminSession d r) (\<lambda>a t. (\<forall>s. a = Inr s \<longrightarrow> passed d w r s \<and> S_Role s = RoleAdmin \<and> \<not> S_Locked s)
      \<and> (\<forall>resp. a = Inl resp \<longrightarrow> Rs_Status resp \<ge> 400)) w"
      unfolding RequireAdminSession_def wp_then_check
      by (rule wp_RequireActive [OF assms(1)]) (auto simp: reject_def answer_def)
    show "wp (RequireAdminSession d r) (\<lambda>a. same_db w) w"
      by (rule keeps_wpD [OF keeps_RequireAdmin]) simp_all
  qed
  then show ?thesis
  proof (rule wp_mono)
    fix a :: "Response + Session" and t assume "((\<forall>s. a = Inr s \<longrightarrow> passed d w r s \<and> S_Role s = RoleAdmin \<and> \<not> S_Locked s)
      \<and> (\<forall>resp. a = Inl resp \<longrightarrow> Rs_Status resp \<ge> 400)) \<and> same_db w t"
    then show "Q a t" using assms(2,3) by (cases a) auto
  qed
qed

text \<open>
  C30: modules are managed by administrators only. Whatever an operation on modules does besides
  refusing, the request came from the live session of an administrator that is not locked, from an
  allowed origin and with the CSRF token unless its method is a safe one; a refusal leaves modules,
  files, database and workers as they were.
\<close>

theorem module_admin_guarded:
  assumes "cache_ok (gcm (core s))" and "h \<in> admin_handlers md r name reqBody u" and "run_state h s = (resp, t)"
  shows "fst resp \<ge> 400 \<and> (\<exists>w. same_db (core s) w \<and> t = s\<lparr>core := w\<rparr>)
    \<or> (\<exists>sess. authenticated (M_deps md) (core s) r sess \<and> S_Role sess = RoleAdmin \<and> \<not> S_Locked sess
        \<and> originAllowed (M_deps md) r \<and> validateCSRF r sess)"
proof -
  obtain f where f: "h = a_guard (RequireAdminSession (M_deps md) r) f"
    using admin_handlers_guarded [OF assms(2)] by blast
  have "wp h (\<lambda>resp t. fst resp \<ge> 400 \<and> (\<exists>w. same_db (core s) w \<and> t = s\<lparr>core := w\<rparr>)
      \<or> (\<exists>sess. passed (M_deps md) (core s) r sess \<and> S_Role sess = RoleAdmin \<and> \<not> S_Locked sess)) s"
    unfolding f wp_a_guard
    by (rule wp_RequireAdmin [OF assms(1)]) (auto simp: wp_run)
  then show ?thesis
    using assms(3) by (auto simp: wp_run passed_def)
qed

section \<open>Audit events\<close>

text \<open>An entry of the log that stands for what was to be logged.\<close>

definition entry_of :: "audit_row \<Rightarrow> LogParams \<Rightarrow> bool" where
  "entry_of e p \<longleftrightarrow> A_EventType e = L_EventType p \<and> A_ActorID e = L_ActorID p \<and> A_TargetID e = L_TargetID p"

definition logged_as :: "(LogParams \<Rightarrow> bool) \<Rightarrow> world \<Rightarrow> world \<Rightarrow> bool" where
  "logged_as P w t \<longleftrightarrow> (\<exists>new. audit_log t = audit_log w @ new \<and> (\<forall>e\<in>set new. \<exists>p. P p \<and> entry_of e p))"

lemma logged_as_refl: "logged_as P w w"
  by (simp add: logged_as_def)

lemma logged_as_trans:
  assumes "logged_as P w t" "logged_as P t u"
  shows "logged_as P w u"
proof -
  obtain new new' where "audit_log t = audit_log w @ new" "audit_log u = audit_log t @ new'"
    and "\<forall>e\<in>set new. \<exists>p. P p \<and> entry_of e p" "\<forall>e\<in>set new'. \<exists>p. P p \<and> entry_of e p"
    using assms by (auto simp: logged_as_def)
  then show ?thesis
    unfolding logged_as_def by (intro exI [of _ "new @ new'"]) auto
qed

lemma wp_logAudit:
  assumes "P p" and "\<And>t. logged_as P w t \<Longrightarrow> Q () t"
  shows "wp (logAudit d p) Q w"
proof -
  have one: "appends_row d mk p w t \<Longrightarrow> logged_as P w t" for mk t
    using assms(1) by (auto simp: appends_row_def logged_as_def entry_of_def)
  have "wp (logAudit d p) (\<lambda>_. logged_as P w) w"
    by (auto simp: logAudit_def io_simps logged_as_refl split: sum.split intro!: wp_mono [OF wp_Log_rows] one)
  then show ?thesis by (rule wp_mono) (use assms(2) in simp)
qed

lemma wp_record_events:
  assumes "\<And>ev. ev \<in> set evs \<Longrightarrow> moduleAuditEventSuffix (ME_EventType ev) \<Longrightarrow> P (module_event name sess ev)"
  shows "wp (recordModuleAuditEvents md name sess evs) (\<lambda>_ t. logged_as P (core s) (core t)) s"
  using assms
proof (induction evs arbitrary: s)
  case (Cons ev evs)
  have rest: "wp (recordModuleAuditEvents md name sess evs) (\<lambda>_ u. logged_as P (core s) (core u)) t"
    if "logged_as P (core s) (core t)" for t
    by (rule wp_mono [OF Cons.IH]) (use Cons.prems that in \<open>auto intro: logged_as_trans\<close>)
  show ?case
    by (auto simp: wp_bind wp_return logModuleAudit_def wp_core logged_as_refl intro!: rest wp_logAudit [of P] Cons.prems)
qed (simp add: wp_return logged_as_refl)

text \<open>The event types of Core itself.\<close>

definition core_events :: "string list" where
  "core_events =
    [''user.approved'', ''user.locked'', ''user.unlocked'', ''user.deleted'', ''user.self_deleted'',
     ''auth.login'', ''auth.logout'', ''auth.session_revoked_by_admin'', ''auth.session_revoked_by_idp'', ''auth.country_anomaly'',
     ''auth.device_anomaly'', ''auth.login_failed'', ''auth.reauth_repeated_failures'', ''config.smtp'', ''config.smtp.deleted'',
     ''config.geoip'', ''config.geoip.deleted'', ''config.oidc'', ''config.oidc.deleted'', ''config.searxng'',
     ''config.searxng.deleted'', ''config.ai_provider'', ''config.ai_provider.deleted'', ''config.ai_provider.key_cleared'', ''config.ai_settings'',
     ''ai.user_key_set'', ''ai.user_key_deleted'', ''config.search_provider'', ''config.search_provider.key_cleared'', ''config.search_settings'',
     ''search.user_key_set'', ''search.user_key_deleted'', ''config.system_limits'', ''config.system_general'', ''setup.completed'',
     ''setup.oidc_configured'', ''setup.group_prefix_configured'', ''module.installed'', ''module.uninstalled'', ''module.updated'',
     ''module.restarted'', ''module.pinned'', ''module.unpinned'', ''module.auto_update_enabled'', ''module.auto_update_disabled'',
     ''module.egress_denied'', ''geoip.download_succeeded'', ''geoip.download_failed'', ''module.pii_key_migrated'', ''feed.created'',
     ''feed.updated'', ''feed.deleted'', ''config.news_settings'', ''quicklink.created'', ''quicklink.updated'',
     ''quicklink.deleted'', ''store.sync_triggered'', ''store.custom_source_added'', ''store.custom_source_updated'', ''store.custom_source_removed'',
     ''rate_limit.exceeded'']"

lemma module_name_no_dot: "moduleNameRe name \<Longrightarrow> CHR ''.'' \<notin> set name"
  by (auto simp: moduleNameRe_def is_lower_alnum_def is_lower_def is_digit_def byte_def list_all_iff split: list.splits)

lemma core_events_no_module: "e \<in> set core_events \<Longrightarrow> split_on CHR ''.'' e \<noteq> ''module'' # name # part # parts"
proof -
  have "list_all (\<lambda>e. case split_on CHR ''.'' e of m # _ # _ # _ \<Rightarrow> m \<noteq> ''module'' | _ \<Rightarrow> True) core_events" by code_simp
  then show "e \<in> set core_events \<Longrightarrow> split_on CHR ''.'' e \<noteq> ''module'' # name # part # parts"
    by (auto simp: list_all_iff)
qed

text \<open>
  C31: a module writes into the audit log under its own name only. Whatever audit events a worker asks for,
  the entries that are appended have the event type \<open>module.<name>.<suffix>\<close> with the name of that module,
  the user of the request as actor, and never an event type of Core itself, nor one of another module.
\<close>

theorem module_events_namespaced:
  assumes "moduleNameRe name" and "run_state (recordModuleAuditEvents md name sess evs) s = (x, t)"
  shows "\<exists>new. audit_log (core t) = audit_log (core s) @ new
    \<and> (\<forall>e\<in>set new. A_ActorID e = S_UserID sess \<and> A_EventType e \<notin> set core_events
        \<and> (\<exists>part parts. split_on CHR ''.'' (A_EventType e) = ''module'' # name # part # parts))"
proof -
  let ?P = "\<lambda>p. L_ActorID p = S_UserID sess \<and> (\<exists>part parts. split_on CHR ''.'' (L_EventType p) = ''module'' # name # part # parts)"
  have "?P (module_event name sess ev)" for ev
    using module_name_no_dot [OF assms(1)]
    by (cases "split_on CHR ''.'' (ME_EventType ev)") (simp_all add: module_event_def log_params_def split_on_append)
  then have "wp (recordModuleAuditEvents md name sess evs) (\<lambda>_ t. logged_as ?P (core s) (core t)) s"
    by (intro wp_record_events) auto
  then obtain new where "audit_log (core t) = audit_log (core s) @ new" "\<forall>e\<in>set new. \<exists>p. ?P p \<and> entry_of e p"
    using assms(2) by (auto simp: wp_run logged_as_def)
  moreover from this(2) core_events_no_module
  have "\<forall>e\<in>set new. A_ActorID e = S_UserID sess \<and> A_EventType e \<notin> set core_events
        \<and> (\<exists>part parts. split_on CHR ''.'' (A_EventType e) = ''module'' # name # part # parts)"
    by (fastforce simp: entry_of_def)
  ultimately show ?thesis by blast
qed

section \<open>Truncation\<close>

lemma drop_tail_take: "\<exists>k\<le>length s. drop_tail (rev s) = take k s \<and> (k = 0 \<or> rune_start (s ! (k - 1)))"
proof (induction s rule: rev_induct)
  case (snoc c s)
  show ?case
  proof (cases "rune_start c")
    case True
    then show ?thesis by (intro exI [of _ "Suc (length s)"]) (simp add: nth_append)
  next
    case False
    obtain k where "k \<le> length s" "drop_tail (rev s) = take k s" "k = 0 \<or> rune_start (s ! (k - 1))"
      using snoc.IH by blast
    with False show ?thesis by (intro exI [of _ k]) (auto simp: nth_append)
  qed
qed simp

lemma utf8_cut:
  "utf8_ok s \<Longrightarrow> 0 < k \<Longrightarrow> k \<le> length s \<Longrightarrow> rune_start (s ! (k - 1)) \<Longrightarrow> utf8_ok (take k s) \<longleftrightarrow> byte (s ! (k - 1)) < 128"
proof (induction s arbitrary: k rule: utf8_ok.induct)
  case (2 c s)
  obtain n where n: "rune_len c = Some n" "n - 1 \<le> length s" "list_all (\<lambda>b. \<not> rune_start b) (take (n - 1) s)" "utf8_ok (drop (n - 1) s)"
    using "2.prems"(1) by (auto split: option.splits)
  have n1: "1 \<le> n" and one: "n = 1 \<longleftrightarrow> byte c < 128"
    using n(1) by (auto simp: rune_len_def split: if_splits)
  show ?case
  proof (cases "k = 1")
    case True
    then show ?thesis using n(1) n1 one by auto
  next
    case False
    then obtain j where j: "k = Suc (Suc j)" using "2.prems"(2) by (cases k; cases "k - 1") auto
    then have lt: "j < length s" and start: "rune_start (s ! j)" using "2.prems" by auto
    have "\<not> j < n - 1"
    proof
      assume "j < n - 1"
      with n(2) lt have "s ! j \<in> set (take (n - 1) s)" by (auto simp: in_set_conv_nth intro!: exI [of _ j])
      with n(3) start show False by (auto simp: list_all_iff)
    qed
    then have "utf8_ok (take (Suc j - (n - 1)) (drop (n - 1) s)) \<longleftrightarrow> byte (drop (n - 1) s ! (Suc j - (n - 1) - 1)) < 128"
      using "2.IH" [OF n(1), of "Suc j - (n - 1)"] n(4) lt start by (simp add: Suc_diff_le)
    then show ?thesis
      using \<open>\<not> j < n - 1\<close> lt n j by (simp add: Suc_diff_le take_drop min_def)
  qed
qed simp

text \<open>
  How details are truncated. A text of valid UTF-8 that is too long is cut to at most the limit, and the
  result is valid UTF-8 exactly when it is empty or ends in an ASCII character: the loop stops at the first
  byte of a rune and keeps it, also when its rune is cut off or was complete before.
\<close>

theorem truncation_splits_runes:
  assumes "utf8_ok s" and "m < length s"
  shows "length (truncateUTF8 s m) \<le> m \<and> prefix (truncateUTF8 s m) s
    \<and> (utf8_ok (truncateUTF8 s m) \<longleftrightarrow> truncateUTF8 s m = [] \<or> byte (last (truncateUTF8 s m)) < 128)"
proof -
  obtain k where k: "k \<le> length (take m s)" "drop_tail (rev (take m s)) = take k (take m s)"
    "k = 0 \<or> rune_start (take m s ! (k - 1))" using drop_tail_take by blast
  then have t: "truncateUTF8 s m = take k s" "k \<le> m"
    using assms(2) by (auto simp: truncateUTF8_def min_def)
  show ?thesis
  proof (cases "k = 0")
    case False
    then have "rune_start (s ! (k - 1))" "take k s \<noteq> []" "length (take k s) = k"
      using k t(2) assms(2) by (auto simp: min_def)
    moreover from this have "last (take k s) = s ! (k - 1)"
      using False by (subst last_conv_nth) simp_all
    ultimately show ?thesis
      using utf8_cut [OF assms(1), of k] False t assms(2) by (auto simp: take_is_prefix)
  qed (simp add: t)
qed

section \<open>Automatic updates\<close>

text \<open>A row is there, and is the only one of its name, as long as operations go by another name.\<close>

definition alone :: "InstalledModuleRow \<Rightarrow> string \<Rightarrow> site \<Rightarrow> bool" where
  "alone r name s \<longleftrightarrow> (IM_Name r \<noteq> name \<longrightarrow> r \<in> set (installed s) \<and> (\<forall>r'\<in>set (installed s). IM_Name r' = IM_Name r \<longrightarrow> r' = r))"

lemma alone_patch: "(\<And>x. IM_Name (f x) = IM_Name x) \<Longrightarrow> alone r name s \<Longrightarrow> alone r name (patch_row name f s)"
  by (force simp: alone_def patch_row_def)

interpretation alone: row_invariant "alone r name" name "\<lambda>_ _. True" for r name
proof
  fix f s assume "light f" "alone r name s"
  then show "alone r name (patch_row name f s)" by (intro alone_patch) (simp_all add: light_def)
qed (simp_all add: alone_def)

lemma keeps_alone_record: "keeps (alone r name) (updateInstalledModuleRecord name a b c d e f g)"
  unfolding updateInstalledModuleRecord_def patch_def
  by (intro keeps_db_exec alone.off alone_patch; simp)

lemma wp_alone_Update: "En_Name e = name \<Longrightarrow> alone r name s \<Longrightarrow> wp (Update md e) (\<lambda>_. alone r name) s"
  by (rule alone.wp_Update [where K = "alone r name" and P = "\<lambda>_. True"])
    (auto intro: alone.keeps_world alone.keeps_read alone.keeps_dirs keeps_alone_record keeps_wpD [OF alone.keeps_resolve])

lemma find_row_sole: "r \<in> set rs \<Longrightarrow> \<forall>r'\<in>set rs. IM_Name r' = IM_Name r \<longrightarrow> r' = r \<Longrightarrow> find_row rs (IM_Name r) = Some r"
  by (induction rs) (auto simp: find_row_def)

context row_invariant
begin

lemma keeps_start [inv_intros]: "keeps I (start_worker md n mf hosts)" "keeps I (reload_dynamic md n mf)"
  unfolding start_worker_def reload_dynamic_def worker_opts_def moduleDBRolePassword_def modulePIIMigrated_def
    GetModuleDBRolePassword_def IsModulePIIMigrated_def
  by (intro inv_intros)+

lemma keeps_log [inv_intros]: "keeps I (logModuleAudit md p)"
  unfolding logModuleAudit_def by (intro inv_intros)

lemma keeps_carried [inv_intros]: "keeps I (carried_egress md n mf runtime trigger)"
  unfolding carried_egress_def by (auto intro!: inv_intros split: option.split prod.split)

lemma keeps_restarts [inv_intros]: "keeps I (restartWorkerAfterUpdate md n)"
  unfolding restartWorkerAfterUpdate_def current_egress_def stop_worker_def
  by (auto intro!: inv_intros)

end

lemma wp_GetEntry:
  assumes "\<And>e. wp (f (Inl e)) Q (ticked s)" and "\<And>e. (\<And>x. e = Some x \<Longrightarrow> En_Name x = n) \<Longrightarrow> wp (f (Inr e)) Q (ticked s)"
  shows "wp (GetEntry n \<bind> f) Q s"
proof -
  have "En_Name x = n" if "List.find (\<lambda>e. En_Name e = n) es = Some x" for x es
    using that by (auto simp: find_Some_iff)
  then show ?thesis
    unfolding GetEntry_def wp_bind wp_db_query by (auto intro!: assms)
qed

lemma wp_auto_update:
  assumes "\<not> IM_AutoUpdate r" and r: "r \<in> set (installed s)" "\<forall>r'\<in>set (installed s). IM_Name r' = IM_Name r \<longrightarrow> r' = r"
  shows "wp (auto_update md u) (\<lambda>_ t. r \<in> set (installed t) \<and> (\<forall>r'\<in>set (installed t). IM_Name r' = IM_Name r \<longrightarrow> r' = r)) s"
proof (cases "UI_Name u = IM_Name r")
  case True
  then show ?thesis
    using assms find_row_sole [OF r] by (auto simp: auto_update_def GetInstalledModule_def io_simps wp_db_query split: option.split)
next
  case False
  let ?I = "alone r (UI_Name u)"
  have tick: "?I (ticked t) = ?I t" for t
    using alone.off by (rule off_core_ticked)
  have upd: "wp (Update md e \<bind> f) (\<lambda>_. ?I) t" if "En_Name e = UI_Name u" "?I t" "\<And>x. keeps ?I (f x)" for e t and f :: "unit res \<Rightarrow> unit sio"
    unfolding wp_bind by (rule wp_mono [OF wp_alone_Update [OF that(1,2)]]) (simp add: keeps_wpD that(3))
  have "wp (auto_update md u) (\<lambda>_. ?I) s"
    unfolding auto_update_def
    by (rule wp_bind_keeps [OF alone.keeps_GetInstalledModule, of r "UI_Name u"], simp add: alone_def r)
      (auto simp: wp_return tick intro!: wp_GetEntry upd alone.keeps_restarts alone.keeps_log inv_intros
        split: sum.split option.split)
  then show ?thesis by (rule wp_mono) (use False in \<open>simp add: alone_def\<close>)
qed

text \<open>
  C32: automatic updates are opt-in. A round of automatic updates, for whatever updates a check has found and
  whichever calls fail, leaves the row of a module that has not opted in as it is.
\<close>

theorem auto_update_opt_in:
  assumes "row \<in> set (installed s)" and "\<not> IM_AutoUpdate row" and "distinct (map IM_Name (installed s))"
    and "run_state (RunAutoUpdates md us) s = (x, t)"
  shows "row \<in> set (installed t)"
proof -
  let ?I = "\<lambda>s. row \<in> set (installed s) \<and> (\<forall>r'\<in>set (installed s). IM_Name r' = IM_Name row \<longrightarrow> r' = row)"
  have "keeps ?I (auto_update md u)" for u
    unfolding keeps_wp using wp_auto_update [OF assms(2)] by blast
  then have "keeps ?I (RunAutoUpdates md us)"
    by (induction us) (auto intro!: inv_intros)
  moreover have "?I s" using assms(1,3) by (auto dest: eq_key_imp_eq_value simp: distinct_map inj_on_def)
  ultimately show ?thesis
    using assms(4) keeps_wpD [of ?I] by (fastforce simp: wp_run)
qed

end
