(* ===== verification/ProxyLaws.thy ===== *)
theory ProxyLaws
  imports ModuleLaws
begin

text \<open>
  What reaches a worker or a table through the proxy and in whose name, where uploads go, and which
  hosts a restarted worker may reach.
\<close>

section \<open>The calls of the proxy\<close>

lemma wp_site_io [io_simps]: "wp (site_io m) Q s \<longleftrightarrow> wp m (\<lambda>a t. Q a (s\<lparr>ap_site := t\<rparr>)) (ap_site s)"
  by (simp add: wp_run site_io_def split: prod.split)

lemma wp_table_io: "wp (table_io m) Q s \<longleftrightarrow> wp m (\<lambda>a c. Q a (crud_put c s)) (crud_view s)"
  by (simp add: wp_run table_io_def split: prod.split)

lemma wp_worker_call: "wp (worker_call ad name q) Q s \<longleftrightarrow>
   Q (Dispatch name (AD_worker ad (calls (core (ap_site s))) name q) (fleet (ap_site s)))
     (s\<lparr>ap_site := ticked (ap_site s),
        ap_sent := (if Running name (fleet (ap_site s)) then ap_sent s @ [(name, q)] else ap_sent s)\<rparr>)"
  by (simp add: wp_run worker_call_def)

lemma wp_p_guard:
  "wp (p_guard g f) Q s \<longleftrightarrow> wp g (\<lambda>a w. let t = s\<lparr>ap_site := (ap_site s)\<lparr>core := w\<rparr>\<rparr> in
       (\<forall>resp. a = Inl resp \<longrightarrow> Q (Rs_Status resp, AGuard resp) t) \<and> (\<forall>sess. a = Inr sess \<longrightarrow> wp (f sess) Q t)) (core (ap_site s))"
  unfolding p_guard_def wp_bind wp_site_io wp_core Let_def
  by (rule arg_cong [where f = "\<lambda>P. wp g P (core (ap_site s))"]) (auto simp: fun_eq_iff wp_return split: sum.split)

lemma wp_RequireModuleToken:
  assumes "cache_ok (gcm w)"
    and "\<And>s t. module_authenticated d w module (bearerToken r) s \<Longrightarrow> S_Role s \<noteq> RolePending \<Longrightarrow> \<not> S_Locked s \<Longrightarrow> Q (Inr s) t"
    and "\<And>resp t. Q (Inl resp) t"
  shows "wp (RequireModuleToken d module False r) Q w"
  unfolding RequireModuleToken_def Let_def wp_if wp_return
  using assms by (auto intro!: wp_module_session [OF assms(1)])

section \<open>What the proxy does\<close>

text \<open>Modules and workers are as they were; only files and the world of the handlers may differ.\<close>

definition same_modules :: "site \<Rightarrow> site \<Rightarrow> bool" where
  "same_modules s t \<longleftrightarrow> installed t = installed s \<and> fleet t = fleet s"

lemma off_same_modules [simp]: "off_core (same_modules s)"
  by (simp add: off_core_def same_modules_def)

lemma same_modules_core [simp]: "same_modules s (t\<lparr>core := w\<rparr>) = same_modules s t"
  by (simp add: same_modules_def)

lemma same_modules_ticked [simp]: "same_modules s (ticked t) = same_modules s t"
  by (simp add: same_modules_def)

lemma keeps_modules_put: "same_modules s t \<Longrightarrow> same_modules s (put_tree d x t)"
  by (simp add: same_modules_def put_tree_def)

lemma keeps_events: "off_core I \<Longrightarrow> keeps I (publish_all ns)" "off_core I \<Longrightarrow> keeps I (recordModuleAuditEvents md name sess evs)"
  by (induction ns) (auto intro!: inv_intros, induction evs, auto intro!: inv_intros simp: logModuleAudit_def)

lemma keeps_copyFile:
  assumes "off_core I" and "\<And>s x. I s \<Longrightarrow> I (put_tree dst x s)"
  shows "keeps I (copyFile dst f)"
  using assms by (auto simp: keeps_def copyFile_def Let_def off_core_ticked split: outcome.splits)

lemma keeps_save:
  assumes "off_core I" and "\<And>d x s. I s \<Longrightarrow> I (put_tree d x s)"
  shows "keeps I (saveUploadedFile ad name u limit)"
  unfolding saveUploadedFile_def Let_def upload_dir_def remove_file_def
  by (auto intro!: inv_intros keeps_os_call keeps_db_exec keeps_copyFile assms simp: off_core_ticked [OF assms(1)]
      split: sum.split prod.split)

lemma keeps_request_body:
  assumes "off_core I" and "\<And>d x s. I s \<Longrightarrow> I (put_tree d x s)"
  shows "keeps I (request_body ad name u)"
  unfolding request_body_def MaxUploadBodyBytes_def Let_def
  by (auto intro!: inv_intros keeps_save assms)

text \<open>Nothing but the world of the handlers has changed.\<close>

definition only_world :: "api_site \<Rightarrow> api_site \<Rightarrow> bool" where
  "only_world s t \<longleftrightarrow> (\<exists>w. t = s\<lparr>ap_site := (ap_site s)\<lparr>core := w\<rparr>\<rparr>)"

text \<open>At most one request has gone to the worker of the module, and only its restart may be pending.\<close>

definition one_request :: "string \<Rightarrow> WorkerRequest \<Rightarrow> api_site \<Rightarrow> api_site \<Rightarrow> bool" where
  "one_request name q s t \<longleftrightarrow> ap_tables t = ap_tables s \<and> same_modules (ap_site s) (ap_site t)
     \<and> (ap_sent t = ap_sent s \<or> Running name (fleet (ap_site s)) \<and> ap_sent t = ap_sent s @ [(name, q)])
     \<and> (\<exists>new. ap_reloads t = ap_reloads s @ new \<and> fst ` set new \<subseteq> {name})"

lemma wp_to_worker:
  assumes "ap_tables t = ap_tables s" "same_modules (ap_site s) (ap_site t)" "ap_sent t = ap_sent s" "ap_reloads t = ap_reloads s"
  shows "wp (to_worker ad name sess q) (\<lambda>_. one_request name q s) t"
proof -
  have follow: "wp (follow_up ad name sess resp) (\<lambda>_ v. one_request name q s v) u"
    if u: "one_request name q s u" "ap_reloads u = ap_reloads s" for resp u
  proof -
    have ev: "wp (site_io (publish_all ns)) (\<lambda>_ v. wp (site_io (recordModuleAuditEvents md name sess evs)) (\<lambda>_ v. one_request name q s v) v) v"
      if v: "one_request name q s v" for ns md evs v
      unfolding wp_site_io
      by (rule wp_keeps [OF keeps_events(1) [OF off_same_modules [of "ap_site s"]]],
          use v in \<open>simp add: one_request_def\<close>, rule wp_keeps [OF keeps_events(2) [OF off_same_modules [of "ap_site s"]]])
        (use v in \<open>auto simp: one_request_def\<close>)
    have "one_request name q s (u\<lparr>ap_reloads := ap_reloads s @ [(name, hosts)]\<rparr>)" for hosts
      using u by (auto simp: one_request_def)
    then show ?thesis
      using u ev by (auto simp: follow_up_def wp_bind wp_return wp_run [of "State_Monad.State _"] split: option.split)
  qed
  have "one_request name q s (t\<lparr>ap_site := ticked (ap_site t),
      ap_sent := (if Running name (fleet (ap_site t)) then ap_sent t @ [(name, q)] else ap_sent t)\<rparr>)"
    using assms by (auto simp: one_request_def same_modules_def)
  with assms(4) show ?thesis
    unfolding to_worker_def wp_bind wp_worker_call
    by (auto simp: a_answer_def wp_return wp_bind intro!: wp_mono [OF follow] split: sum.split option.split)
qed

text \<open>What a request of \<open>sess\<close> to the module of \<open>row\<close> has done.\<close>

definition proxied :: "Request \<Rightarrow> string \<Rightarrow> Session \<Rightarrow> InstalledModuleRow \<Rightarrow> api_site \<Rightarrow> api_site \<Rightarrow> bool" where
  "proxied r rawQuery sess row s t \<longleftrightarrow>
     (if IM_Tier row = 1 then only_world s (t\<lparr>ap_tables := ap_tables s, ap_columns := ap_columns s, ap_log := ap_log s\<rparr>)
      else \<exists>content. one_request (IM_Name row) \<lparr>WQ_Method = R_Method r, WQ_Path = sub_path (IM_Name row) r rawQuery,
             WQ_Body = content, WQ_Auth = worker_auth sess\<rparr> s t)"

lemma wp_GetInstalled: "wp (site_io (GetInstalledModule name)) Q s \<longleftrightarrow>
    (next_outcome (ap_site s) = Done \<longrightarrow> Q (Inr (find_row (installed (ap_site s)) name)) (s\<lparr>ap_site := ticked (ap_site s)\<rparr>))
    \<and> (next_outcome (ap_site s) \<noteq> Done \<longrightarrow> Q (Inl ErrExternal) (s\<lparr>ap_site := ticked (ap_site s)\<rparr>))"
  by (simp add: wp_site_io GetInstalledModule_def wp_db_query)

lemma find_row_mem: "find_row rs name = Some row \<Longrightarrow> row \<in> set rs \<and> IM_Name row = name"
  by (auto simp: find_row_def find_Some_iff)

lemma wp_to_module:
  assumes "\<And>t. only_world s t \<Longrightarrow> Q t"
    and "\<And>row t. row \<in> set (installed (ap_site s)) \<Longrightarrow> IM_Name row = name \<Longrightarrow> IM_Status row = ''active'' \<Longrightarrow>
      proxied r rawQuery sess row s t \<Longrightarrow> Q t"
  shows "wp (do {
        found \<leftarrow> site_io (GetInstalledModule name);
        (case found of
           Inr (Some row) \<Rightarrow>
             if IM_Status row \<noteq> ''active'' then a_answer 503 (AMessage (''module is '' @ IM_Status row))
             else if IM_Tier row = 1 then do {
               (status, b) \<leftarrow> table_io (ServeCrudRequest (AD_crud ad) r (AD_members ad (UP_Body u)) name (IM_Manifest row) (S_UserID sess));
               a_answer status (ACrud b) }
             else do {
               b \<leftarrow> site_io (request_body ad name u);
               (case b of
                  Inl resp \<Rightarrow> State_Monad.return resp
                | Inr content \<Rightarrow> to_worker ad name sess
                    \<lparr>WQ_Method = R_Method r, WQ_Path = sub_path name r rawQuery, WQ_Body = content, WQ_Auth = worker_auth sess\<rparr>) }
         | _ \<Rightarrow> a_answer 404 (AMessage ''module not installed'')) }) (\<lambda>_. Q) (s\<lparr>ap_site := (ap_site s)\<lparr>core := w\<rparr>\<rparr>)"
proof -
  have world: "Q (s\<lparr>ap_site := (ap_site s)\<lparr>core := w\<rparr>\<rparr>)" for w
    by (rule assms(1)) (auto simp: only_world_def)
  have tick: "ticked (s\<lparr>core := w\<rparr>) = s\<lparr>core := w\<lparr>calls := Suc (calls w)\<rparr>\<rparr>" for s w
    by (simp add: ticked_def)
  have table: "wp (table_io m) (\<lambda>_. Q) (s\<lparr>ap_site := (ap_site s)\<lparr>core := w\<rparr>\<rparr>)"
    if "row \<in> set (installed (ap_site s))" "IM_Name row = name" "IM_Status row = ''active''" "IM_Tier row = 1"
    for row w and m :: "crud_response cio"
    unfolding wp_table_io wp_run [of m]
    by (auto simp: a_answer_def wp_return proxied_def only_world_def crud_put_def that intro!: assms(2) [OF that(1-3)] split: prod.split)
  have worker: "wp (site_io (request_body ad name u)) (\<lambda>b. wp (case b of Inl resp \<Rightarrow> State_Monad.return resp
        | Inr content \<Rightarrow> to_worker ad name sess \<lparr>WQ_Method = R_Method r, WQ_Path = sub_path name r rawQuery, WQ_Body = content, WQ_Auth = worker_auth sess\<rparr>)
      (\<lambda>_. Q)) (s\<lparr>ap_site := (ap_site s)\<lparr>core := w\<rparr>\<rparr>)"
    if "row \<in> set (installed (ap_site s))" "IM_Name row = name" "IM_Status row = ''active''" "IM_Tier row \<noteq> 1" for row w
    unfolding wp_site_io
    by (rule wp_keeps [OF keeps_request_body [OF off_same_modules [of "ap_site s"] keeps_modules_put]])
      (auto simp: same_modules_def one_request_def wp_return proxied_def that intro!: assms(2) [OF that(1-3)] wp_mono [OF wp_to_worker [of _ s]]
        split: sum.split)
  show ?thesis
    unfolding wp_bind wp_GetInstalled
    using world table worker find_row_mem [of "installed (ap_site s)" name]
    by (auto simp: tick a_answer_def wp_return wp_bind case_prod_unfold split: option.split)
qed

text \<open>
  C33: what a request to the API of a module can do. Unless the proxy refuses and changes nothing, the
  request has a token of that module whose session is live, approved and not locked, and the module is
  installed and active. For a module of tier 1 only its tables are touched and no worker is
  called; for the others at most one request goes to the running worker of this module, with method and
  path of the request and the identity of the session, and only a restart of this module's worker is left
  to do; rows and workers stay as they are.
\<close>

theorem proxy_sound:
  assumes "cache_ok (gcm (core (ap_site s)))" and "run_state (ModuleProxyHandler ad r name rawQuery u) s = (resp, t)"
  shows "only_world s t
    \<or> (\<exists>sess row. module_authenticated (M_deps (AD_m ad)) (core (ap_site s)) name (bearerToken r) sess
        \<and> S_Role sess \<noteq> RolePending \<and> \<not> S_Locked sess
        \<and> row \<in> set (installed (ap_site s)) \<and> IM_Name row = name \<and> IM_Status row = ''active''
        \<and> proxied r rawQuery sess row s t)"
proof -
  define Q where "Q t \<longleftrightarrow> only_world s t
    \<or> (\<exists>sess row. module_authenticated (M_deps (AD_m ad)) (core (ap_site s)) name (bearerToken r) sess
        \<and> S_Role sess \<noteq> RolePending \<and> \<not> S_Locked sess
        \<and> row \<in> set (installed (ap_site s)) \<and> IM_Name row = name \<and> IM_Status row = ''active''
        \<and> proxied r rawQuery sess row s t)" for t
  have world: "Q (s\<lparr>ap_site := (ap_site s)\<lparr>core := w\<rparr>\<rparr>)" for w
    by (auto simp: Q_def only_world_def)
  have "wp (ModuleProxyHandler ad r name rawQuery u) (\<lambda>_. Q) s"
  proof (cases "name = []")
    case True
    then show ?thesis using world [of "core (ap_site s)"] by (simp add: ModuleProxyHandler_def a_answer_def wp_return)
  next
    case False
    have inside: "wp f (\<lambda>_. Q) t" if "wp f (\<lambda>_ t. only_world s t \<or> (\<exists>row. row \<in> set (installed (ap_site s)) \<and> IM_Name row = name
          \<and> IM_Status row = ''active'' \<and> proxied r rawQuery sess row s t)) t"
        "module_authenticated (M_deps (AD_m ad)) (core (ap_site s)) name (bearerToken r) sess" "S_Role sess \<noteq> RolePending" "\<not> S_Locked sess"
      for f :: "api_response aio" and sess t
      using that by (elim wp_mono) (auto simp: Q_def)
    show ?thesis
      unfolding ModuleProxyHandler_def if_not_P [OF False] wp_p_guard
      by (rule wp_RequireModuleToken [OF assms(1)]) (auto simp: Let_def world intro!: inside [OF wp_to_module])
  qed
  then show ?thesis using assms(2) by (simp add: wp_run Q_def)
qed

section \<open>Uploads\<close>

text \<open>Only the file \<open>p\<close> of the directory \<open>dir\<close> may differ.\<close>

definition only_file :: "string \<Rightarrow> string \<Rightarrow> site \<Rightarrow> site \<Rightarrow> bool" where
  "only_file dir p s t \<longleftrightarrow> (\<forall>d. d \<noteq> dir \<longrightarrow> disk t d = disk s d)
     \<and> (\<forall>q. q \<noteq> p \<longrightarrow> map_of (files_of t dir) q = map_of (files_of s dir) q)"

lemma only_file_same: "disk t = disk s \<Longrightarrow> only_file dir p s t"
  by (simp add: only_file_def files_of_def)

lemma only_file_put:
  assumes "only_file dir p s t" "\<And>q. q \<noteq> p \<Longrightarrow> map_of tr q = map_of (files_of t dir) q"
  shows "only_file dir p s (put_tree dir (Some tr) t)"
  using assms by (auto simp: only_file_def put_tree_def files_of_def)

lemma map_of_remove: "map_of (filter (\<lambda>f. fst f \<noteq> p) tr) q = (if q = p then None else map_of tr q)"
  by (induction tr) auto

lemma wp_copyFile_only:
  "only_file dir p s t \<Longrightarrow>
   wp (copyFile dir (p, content)) (\<lambda>r u. only_file dir p s u \<and> (r = Inr () \<longrightarrow> map_of (files_of u dir) p = Some content)) t"
  by (auto simp: wp_run copyFile_def Let_def files_of_def put_tree_def update_conv' only_file_def
      split: outcome.split)

lemma hex_plain: "CHR ''/'' \<notin> set (hex_encode s)"
proof -
  have "list_all (\<lambda>n. hex_char n \<noteq> CHR ''/'') [0..<16]" by code_simp
  then have "hex_char n \<noteq> CHR ''/''" if "n < 16" for n
    using that by (auto simp: list_all_iff simp del: upt_rec_numeral)
  then have "hex_char (byte c div 16) \<noteq> CHR ''/''" "hex_char (byte c mod 16) \<noteq> CHR ''/''" for c
    using byte_lt_256 [of c] by simp_all
  then show ?thesis
    by (induction s) (simp_all add: eq_commute [of "CHR ''/''"])
qed

lemma path_base_plain: "path_base f = ''/'' \<or> CHR ''/'' \<notin> set (path_base f)"
  by (auto simp: path_base_def Let_def after_last_slash_def dest: set_takeWhileD)

definition saved_at :: "ApiDeps \<Rightarrow> string \<Rightarrow> Upload \<Rightarrow> int \<Rightarrow> site \<Rightarrow> uploadedFile res \<Rightarrow> site \<Rightarrow> string \<Rightarrow> bool" where
  "saved_at ad dir u limit s r t stored \<longleftrightarrow> CHR ''/'' \<notin> set stored \<and> only_file dir (stored_path stored) s t
     \<and> (\<forall>f. r = Inr f \<longrightarrow> UF_relPath f = ''uploads/'' @ stored \<and> map_of (files_of t dir) (stored_path stored) = Some (UF_bytes f)
        \<and> UF_mimeType f \<in> set allowedImageTypes \<and> validateUploadedFileStructure ad (UF_mimeType f) (UF_bytes f) = Inr ()
        \<and> (\<exists>filename. parse_form u limit = Inr (filename, UF_bytes f)))"

lemma saved_at_fail: "disk t = disk s \<Longrightarrow> \<exists>stored. saved_at ad dir u limit s (Inl e) t stored"
  by (intro exI [of _ "[]"]) (simp add: saved_at_def only_file_same)

lemma wp_upload_dir: "wp (upload_dir md name) (\<lambda>_ t. \<forall>p. only_file (path_join [M_DataDir md, name]) p s t) s"
  by (auto simp: upload_dir_def Let_def wp_os_call only_file_def put_tree_def files_of_def)

lemma only_file_trans: "only_file dir p s t \<Longrightarrow> only_file dir p t u \<Longrightarrow> only_file dir p s u"
  by (simp add: only_file_def)

lemma wp_save:
  "wp (saveUploadedFile ad name u limit) (\<lambda>r t. \<exists>stored. saved_at ad (path_join [M_DataDir (AD_m ad), name]) u limit s r t stored) s"
proof (cases "parse_form u limit")
  case (Inl e)
  then show ?thesis
    by (simp add: saveUploadedFile_def Let_def wp_try wp_return wp_fail saved_at_fail)
next
  case (Inr f)
  then obtain filename content where f: "parse_form u limit = Inr (filename, content)" by (cases f) auto
  let ?dir = "path_join [M_DataDir (AD_m ad), name]"
  let ?stored = "\<lambda>buf. upload_name buf filename"
  let ?Q = "\<lambda>r t. \<exists>stored. saved_at ad ?dir u limit s r t stored"
  have stores: "wp (try_bind (copyFile ?dir (stored_path st, content)) (\<lambda>_.
         case validateUploadedFileStructure ad mt content of
           Inl e \<Rightarrow> do { _ \<leftarrow> remove_file ?dir (stored_path st); fail e }
         | Inr _ \<Rightarrow> ok \<lparr>UF_relPath = ''uploads/'' @ st, UF_bytes = content, UF_mimeType = mt\<rparr>)) ?Q t"
    if t: "\<And>p. only_file ?dir p s t" and mt: "mt \<in> set allowedImageTypes" and plain: "CHR ''/'' \<notin> set st" for st t mt
  proof -
    have lost: "?Q (Inl e) v" if "only_file ?dir (stored_path st) s v" for e v
      using that plain by (auto simp: saved_at_def)
    have rm: "wp (remove_file ?dir (stored_path st)) (\<lambda>_ v. ?Q (Inl e) v) w" if "only_file ?dir (stored_path st) s w" for w e
      unfolding remove_file_def wp_db_exec
      using that by (auto intro!: lost simp: only_file_def put_tree_def files_of_def map_of_remove)
    show ?thesis
      unfolding wp_try
      by (rule wp_mono [OF wp_copyFile_only [OF t]])
        (use plain f mt in \<open>auto simp: wp_bind wp_ok wp_fail saved_at_def [of _ _ _ _ _ "Inr _"] split: sum.split intro!: lost rm\<close>)
  qed
  have prepare: "wp (upload_dir (AD_m ad) name) (\<lambda>r t. (\<forall>e. r = Inl e \<longrightarrow> ?Q (Inl e) t) \<and> (\<forall>x. r = Inr x \<longrightarrow> wp (do {
        buf \<leftarrow> core_io (read_random 16);
        try_bind (copyFile ?dir (stored_path (?stored buf), content)) (\<lambda>_.
         case validateUploadedFileStructure ad mt content of
           Inl e \<Rightarrow> do { _ \<leftarrow> remove_file ?dir (stored_path (?stored buf)); fail e }
         | Inr _ \<Rightarrow> ok \<lparr>UF_relPath = ''uploads/'' @ ?stored buf, UF_bytes = content, UF_mimeType = mt\<rparr>) }) ?Q t)) s"
    if "mt \<in> set allowedImageTypes" "path_base filename \<noteq> ''/''" for mt
  proof (rule wp_mono [OF wp_upload_dir], intro conjI allI impI)
    fix r t assume t: "\<forall>p. only_file ?dir p s t"
    then show "?Q (Inl e) t" for e
      by (intro exI [of _ "[]"]) (simp add: saved_at_def)
    have plain: "CHR ''/'' \<notin> set (?stored buf)" for buf
      using hex_plain path_base_plain [of filename] that(2) by (auto simp: upload_name_def)
    show "wp (do {
        buf \<leftarrow> core_io (read_random 16);
        try_bind (copyFile ?dir (stored_path (?stored buf), content)) (\<lambda>_.
         case validateUploadedFileStructure ad mt content of
           Inl e \<Rightarrow> do { _ \<leftarrow> remove_file ?dir (stored_path (?stored buf)); fail e }
         | Inr _ \<Rightarrow> ok \<lparr>UF_relPath = ''uploads/'' @ ?stored buf, UF_bytes = content, UF_mimeType = mt\<rparr>) }) ?Q t"
      unfolding wp_bind wp_core wp_run [of "read_random _"]
      by (rule stores [OF _ that(1) plain]) (use t in \<open>simp add: only_file_def files_of_def\<close>)
  qed
  show ?thesis
    using f prepare by (auto simp: saveUploadedFile_def Let_def wp_try wp_return wp_fail saved_at_fail)
qed

text \<open>
  C34: where an upload goes. Whichever calls fail, storing an upload touches no directory but the module's own
  and in it at most one file, directly below \<open>storage/uploads\<close>. If it succeeds that file has the content of
  the form, which has an allowed type, passed the check of its structure and is within the limit.
\<close>

theorem upload_stored:
  assumes "run_state (saveUploadedFile ad name u limit) s = (res, t)"
    and "\<forall>filename content. UP_Form u = Some (Some (filename, content)) \<longrightarrow> length content \<le> length (UP_Body u)"
  shows "\<exists>stored. CHR ''/'' \<notin> set stored \<and> only_file (path_join [M_DataDir (AD_m ad), name]) (stored_path stored) s t
    \<and> (\<forall>f. res = Inr f \<longrightarrow> UF_relPath f = ''uploads/'' @ stored
        \<and> map_of (files_of t (path_join [M_DataDir (AD_m ad), name])) (stored_path stored) = Some (UF_bytes f)
        \<and> UF_mimeType f \<in> set allowedImageTypes \<and> validateUploadedFileStructure ad (UF_mimeType f) (UF_bytes f) = Inr ()
        \<and> (0 < limit \<longrightarrow> int (length (UF_bytes f)) \<le> limit))"
proof -
  obtain stored where st: "saved_at ad (path_join [M_DataDir (AD_m ad), name]) u limit s res t stored"
    using wp_save [of ad name u limit s] assms(1) by (auto simp: wp_run)
  have "int (length b) \<le> limit" if "parse_form u limit = Inr (n, b)" "0 < limit" for n b
    using that assms(2) by (fastforce simp: parse_form_def split: if_splits option.splits)
  with st have "res = Inr f \<Longrightarrow> 0 < limit \<longrightarrow> int (length (UF_bytes f)) \<le> limit" for f
    by (auto simp: saved_at_def)
  with st show ?thesis
    unfolding saved_at_def by (intro exI [of _ stored]) simp
qed

section \<open>Restarts\<close>

text \<open>The hosts a worker is started with.\<close>

definition started_with :: "string \<Rightarrow> string list \<Rightarrow> pool_state \<Rightarrow> bool" where
  "started_with name hosts p \<longleftrightarrow> (\<exists>w. workers p name = Some w \<and> W_moduleEgressHosts w = hosts)"

lemma Start_hosts: "Start pc name ep opts p = (Inr u, q) \<Longrightarrow> started_with name (WO_EgressHosts opts) q"
  by (auto simp: Start_def buildWorker_def register_def started_with_def configure_Inr
      split: sum.splits prod.splits)

text \<open>What the restart starts the worker with.\<close>

definition restart_hosts :: "Manifest \<Rightarrow> string list option \<Rightarrow> string list" where
  "restart_hosts mf runtime =
     (case runtime of
        Some hosts \<Rightarrow> if Mf_DynamicEgress mf \<and> hosts \<noteq> [] then filter (\<lambda>h. matchesEgressPolicy h (Mf_DynamicEgressAllow mf)) hosts
          else Mf_EgressAllowlist mf
      | None \<Rightarrow> Mf_EgressAllowlist mf)"

lemma wp_carried:
  assumes "\<And>w. Q (restart_hosts mf runtime) (s\<lparr>core := w\<rparr>)"
  shows "wp (carried_egress md name mf runtime trigger) Q s"
  using assms assms [of "core s"]
  by (auto simp: carried_egress_def restart_hosts_def carryOverRuntimeEgress_def filterEgressHosts_eq wp_bind wp_return
      logModuleAudit_def wp_core wp_run [of "logAudit _ _"] split: option.split)

lemma wp_fleet_io: "wp (fleet_io f) Q s \<longleftrightarrow> Q (fst (f (fleet s))) (s\<lparr>fleet := snd (f (fleet s))\<rparr>)"
  by (simp add: wp_run fleet_io_def split: prod.split)

lemma wp_start_worker:
  assumes "\<And>e t. Q (Inl e) t" and "\<And>t. started_with name hosts (fleet t) \<Longrightarrow> Q (Inr ()) t"
  shows "wp (start_worker md name mf hosts) Q s"
proof -
  have opts: "wp (worker_opts md name mf hosts) (\<lambda>o' _. WO_EgressHosts o' = hosts) s"
    by (simp add: worker_opts_def wp_bind wp_return Let_def wp_run [of "modulePIIMigrated _"] wp_run [of "moduleDBRolePassword _ _"])
  have "Q r (u\<lparr>fleet := q\<rparr>)" if "Start pc name ep o' p = (r, q)" "WO_EgressHosts o' = hosts" for r q pc ep o' p u
    using that assms Start_hosts [of pc name ep o' p] by (cases r) auto
  then show ?thesis
    unfolding start_worker_def wp_bind
    by (intro wp_mono [OF opts]) (simp add: wp_fleet_io)
qed

text \<open>
  What a restarted worker may reach. A restart that succeeds, of a module whose hosts are not computed by a
  handler of its own, starts the worker with the hosts of the manifest; of a module with dynamic egress
  that was running with some hosts, with those among them that the dynamic policy admits.
\<close>

theorem restart_hosts_filtered:
  assumes "find_row (installed s) name = Some row" and "IM_Manifest row = Some mf"
    and "Mf_EgressHostsHandler mf = []" and "run_state (restartModuleWorker md name) s = (Inr (), t)"
  shows "started_with name (restart_hosts mf (CurrentModuleEgressHosts name (fleet s))) (fleet t)"
proof -
  let ?Q = "\<lambda>r t. r = Inr () \<longrightarrow> started_with name (restart_hosts mf (CurrentModuleEgressHosts name (fleet s))) (fleet t)"
  have status: "wp (UpdateModuleStatus name ModuleStatusActive) (\<lambda>_ v. started_with name hosts (fleet v)) u"
    if "started_with name hosts (fleet u)" for hosts u
    using that by (simp add: UpdateModuleStatus_def patch_def wp_db_exec patch_row_def)
  have "wp (restartModuleWorker md name) ?Q s"
    using assms(1-3)
    by (auto simp: restartModuleWorker_def GetInstalledModule_def wp_try wp_db_query row_handler_def wp_bind current_egress_def
        stop_worker_def wp_fleet_io wp_fail reload_dynamic_def wp_return wp_ok intro!: wp_carried wp_start_worker wp_mono [OF status])
  then show ?thesis using assms(4) by (simp add: wp_run)
qed

end
