(* ===== verification/ModuleRuns.thy ===== *)
theory ModuleRuns
  imports ProxyLaws LoginFlows CrudLaws
begin

text \<open>Concrete runs of the handlers of modules: the hypotheses of their properties can hold.\<close>

section \<open>Administration\<close>

definition admin_site :: site where
  "admin_site = empty_site\<lparr>core := office [row ''u1'' ''admin'' True False], installed := [SchemaLaws.sample_row]\<rparr>"

definition no_upload :: Upload where
  "no_upload = \<lparr>UP_ContentType = [], UP_ContentLength = 0, UP_Body = ''{}'', UP_Form = None\<rparr>"

theorem module_admin_guarded_witness:
  "\<exists>sess. authenticated sample_deps (core admin_site) (post []) sess \<and> S_Role sess = RoleAdmin"
proof -
  let ?h = "PinHandler sample_mdeps (post []) ''m''"
  obtain resp t where run: "run_state ?h admin_site = (resp, t)" by fastforce
  have "fst (fst (run_state ?h admin_site)) = 200" by code_simp
  then have "fst resp = 200" using run by simp
  moreover have "?h \<in> admin_handlers sample_mdeps (post []) ''m'' None no_upload"
    by (simp add: admin_handlers_def)
  moreover have "cache_ok (gcm (core admin_site))" by (simp add: admin_site_def)
  ultimately show ?thesis
    using module_admin_guarded [OF _ _ run] by (fastforce simp: sample_mdeps_def)
qed

section \<open>Audit events\<close>

definition sample_event :: "string \<Rightarrow> ModuleAuditEvent" where
  "sample_event ev = \<lparr>ME_EventType = ev, ME_TargetID = ''n1'', ME_TargetEmail = [], ME_Details = ''{}''\<rparr>"

theorem module_events_namespaced_witness:
  "let evs = [sample_event ''note.shared'', sample_event ''../user.deleted''];
       t = snd (run_state (recordModuleAuditEvents sample_mdeps ''notes'' sample_view evs) empty_site) in
   \<exists>e. audit_log (core t) = [e] \<and> A_EventType e \<notin> set core_events"
proof -
  let ?m = "recordModuleAuditEvents sample_mdeps ''notes'' sample_view [sample_event ''note.shared'', sample_event ''../user.deleted'']"
  obtain x t where run: "run_state ?m empty_site = (x, t)" by (rule prod.exhaust)
  have name: "moduleNameRe ''notes''" by code_simp
  have "length (audit_log (core (snd (run_state ?m empty_site)))) = 1" by code_simp
  then obtain e where e: "audit_log (core t) = [e]" using run by (auto simp: length_Suc_conv)
  moreover have "audit_log (core empty_site) = []" by code_simp
  ultimately show ?thesis
    using module_events_namespaced [OF name run] run by (auto simp: Let_def)
qed

theorem truncation_splits_runes_witness:
  "let s = [CHR ''a'', CHR 0xC3, CHR 0xA9, CHR ''b''] in
   utf8_ok s \<and> truncateUTF8 s 3 = [CHR ''a'', CHR 0xC3] \<and> \<not> utf8_ok (truncateUTF8 s 3)"
proof -
  let ?s = "[CHR ''a'', CHR 0xC3, CHR 0xA9, CHR ''b'']"
  have s: "utf8_ok ?s" by code_simp
  have t: "truncateUTF8 ?s 3 = [CHR ''a'', CHR 0xC3]" by code_simp
  moreover have "\<not> byte (CHR 0xC3) < 128" by code_simp
  ultimately have "\<not> utf8_ok (truncateUTF8 ?s 3)"
    using truncation_splits_runes [OF s, of 3] by simp
  then show ?thesis using s t by simp
qed

section \<open>Automatic updates\<close>

theorem auto_update_opt_in_witness:
  "SchemaLaws.sample_row \<in> set (installed (snd (run_state (RunAutoUpdates sample_mdeps
     [\<lparr>UI_Name = ''m'', UI_InstalledVersion = ''1'', UI_AvailableVersion = ''2'', UI_Source = ''official'', UI_LastChecked = 0\<rparr>]) admin_site)))"
  by (rule auto_update_opt_in [OF _ _ _ surjective_pairing]) (simp_all add: admin_site_def SchemaLaws.sample_row_def)

section \<open>The proxy\<close>

definition sample_answer :: ApiAnswer where
  "sample_answer = \<lparr>WR_Status = 200, WR_RestartHosts = None, WR_Notifications = [], WR_Body = ''[]'', WR_AuditEvents = []\<rparr>"

definition sample_api :: ApiDeps where
  "sample_api = \<lparr>AD_m = sample_mdeps, AD_crud = note_deps, AD_worker = (\<lambda>_ _ _. Inr sample_answer), AD_mime = (\<lambda>s. s),
     AD_detect = (\<lambda>_. ''image/webp''), AD_jpeg = (\<lambda>_. None), AD_png = (\<lambda>_. None), AD_gif = (\<lambda>_. None),
     AD_json = (\<lambda>s. s), AD_members = (\<lambda>_. None)\<rparr>"

definition notes_site :: api_site where
  "notes_site = \<lparr>ap_site = empty_site\<lparr>core := token_world, installed := [SchemaLaws.sample_row\<lparr>IM_Name := ''notes''\<rparr>],
       fleet := snd (Start sample_pool ''notes'' ''/m/notes/h.ts'' sample_opts idle_pool)\<rparr>,
     ap_tables = (\<lambda>_. None), ap_columns = (\<lambda>_. []), ap_log = [], ap_sent = [], ap_reloads = []\<rparr>"

definition notes_request :: Request where
  "notes_request = (post [])\<lparr>R_Method := ''GET'', R_Path := ''/v1/modules/notes/api/list'', R_Authorization := ''Bearer m''\<rparr>"

theorem proxy_sound_witness:
  "\<exists>sess. module_authenticated sample_deps token_world ''notes'' (bearerToken notes_request) sess
     \<and> S_Role sess \<noteq> RolePending \<and> \<not> S_Locked sess"
proof -
  let ?h = "ModuleProxyHandler sample_api notes_request ''notes'' [] no_upload"
  obtain resp t where run: "run_state ?h notes_site = (resp, t)" by fastforce
  have "length (ap_sent (snd (run_state ?h notes_site))) = 1" by code_simp
  then have "length (ap_sent t) = 1" using run by simp
  then have "\<not> only_world notes_site t" by (auto simp: only_world_def notes_site_def)
  moreover have "cache_ok (gcm (core (ap_site notes_site)))"
    by (simp add: notes_site_def token_world_def put_str_def login_world_def empty_world_def)
  ultimately show ?thesis
    using proxy_sound [OF _ run] by (fastforce simp: notes_site_def sample_api_def sample_mdeps_def)
qed

section \<open>Uploads\<close>

theorem upload_stored_witness:
  "let u = \<lparr>UP_ContentType = ''multipart/form-data'', UP_ContentLength = 4, UP_Body = ''data'', UP_Form = Some (Some (''a.webp'', ''data''))\<rparr>;
       rt = run_state (saveUploadedFile sample_api ''m'' u 100) empty_site in
   is_ok (fst rt) \<and> (\<exists>stored. map_of (files_of (snd rt) ''/m/m'') (stored_path stored) = Some ''data'')"
proof -
  let ?u = "\<lparr>UP_ContentType = ''multipart/form-data'', UP_ContentLength = 4, UP_Body = ''data'', UP_Form = Some (Some (''a.webp'', ''data''))\<rparr>"
  let ?m = "saveUploadedFile sample_api ''m'' ?u 100"
  have result: "map_sum id UF_bytes (fst (run_state ?m empty_site)) = Inr ''data''" by code_simp
  obtain res t where run: "run_state ?m empty_site = (res, t)" by fastforce
  obtain f where f: "res = Inr f" "UF_bytes f = ''data''" using result run by (cases res) auto
  have dir: "path_join [M_DataDir (AD_m sample_api), ''m''] = ''/m/m''" by code_simp
  have "\<exists>stored. map_of (files_of t ''/m/m'') (stored_path stored) = Some ''data''"
    using upload_stored [OF run] f unfolding dir by auto
  then show ?thesis using run f by (simp add: Let_def is_ok_def)
qed

section \<open>Restarts\<close>

definition dynamic_manifest :: Manifest where
  "dynamic_manifest = sample_manifest\<lparr>Mf_Name := ''m'', Mf_EgressAllowlist := [''api.example.com''],
     Mf_EgressHostsHandler := [], Mf_DynamicEgressAllow := [''*.ui.com'']\<rparr>"

definition dynamic_row :: InstalledModuleRow where
  "dynamic_row = SchemaLaws.sample_row\<lparr>IM_DBRolePasswordEnc := Some (enc ''pw''), IM_Manifest := Some dynamic_manifest\<rparr>"

definition dynamic_site :: site where
  "dynamic_site = empty_site\<lparr>installed := [dynamic_row],
     fleet := snd (Start sample_pool ''m'' ''/m/m/h.ts'' (sample_opts\<lparr>WO_EgressHosts := [''api.example.com'']\<rparr>) idle_pool)\<rparr>"

text \<open>A worker that runs with the static host of its manifest has no host left after a restart.\<close>

theorem restart_hosts_filtered_witness:
  "CurrentModuleEgressHosts ''m'' (fleet dynamic_site) = Some [''api.example.com'']
   \<and> started_with ''m'' [] (fleet (snd (run_state (restartModuleWorker sample_mdeps ''m'') dynamic_site)))"
proof -
  let ?m = "restartModuleWorker sample_mdeps ''m''"
  obtain res t where run: "run_state ?m dynamic_site = (res, t)" by fastforce
  have "fst (run_state ?m dynamic_site) = Inr ()" by code_simp
  with run have res: "run_state ?m dynamic_site = (Inr (), t)" by simp
  have hosts: "CurrentModuleEgressHosts ''m'' (fleet dynamic_site) = Some [''api.example.com'']" by code_simp
  have none: "restart_hosts dynamic_manifest (Some [''api.example.com'']) = []" by code_simp
  have "find_row (installed dynamic_site) ''m'' = Some dynamic_row"
    by (simp add: dynamic_site_def dynamic_row_def SchemaLaws.sample_row_def find_row_def)
  then have "started_with ''m'' (restart_hosts dynamic_manifest (CurrentModuleEgressHosts ''m'' (fleet dynamic_site))) (fleet t)"
    by (rule restart_hosts_filtered [OF _ _ _ res]) (simp_all add: dynamic_row_def dynamic_manifest_def)
  then show ?thesis using hosts none run by simp
qed

end
