(* ===== verification/Gateway.thy ===== *)
theory Gateway
  imports SetupHandlers GoPath
begin

text \<open>
  \<open>cmd/core/main.go\<close>: what stands in front of every endpoint. A request passes the recovery of panics,
  the split between API and web page, the security headers, the rate limit, the body limit and the
  origin check before the mux sees it. The mux, the web page and the media type parser are parameters.
\<close>

section \<open>Requests and answers\<close>

text \<open>A request with the parts only the middlewares read; the limit is what \<open>MaxBytesReader\<close> was given.\<close>

record Arrival =
  AR_Request :: Request
  AR_ContentType :: string
  AR_ContentLength :: int
  AR_BodyLimit :: "int option"

text \<open>What a handler did: an answer with its headers, or a panic before it answered, with the headers set by then.\<close>

datatype handled = Served Response "string \<rightharpoonup> string" | Panicked "string \<rightharpoonup> string"

type_synonym endpoint = "Arrival \<Rightarrow> handled io"

definition refused :: "nat \<Rightarrow> string \<Rightarrow> handled" where
  "refused status msg = Served (reject None status msg) Map.empty"

text \<open>Headers that are set before the next handler runs; the handler may set them again.\<close>

fun add_headers :: "(string \<rightharpoonup> string) \<Rightarrow> handled \<Rightarrow> handled" where
  "add_headers hs (Served resp hs') = Served resp (hs ++ hs')"
| "add_headers hs (Panicked hs') = Panicked (hs ++ hs')"

definition with_headers :: "(string \<rightharpoonup> string) \<Rightarrow> endpoint \<Rightarrow> endpoint" where
  "with_headers hs next a = do { x \<leftarrow> next a; State_Monad.return (add_headers hs x) }"

section \<open>Limits, read on every request\<close>

text \<open>An integer setting with the test it has to pass and its default.\<close>

definition int_setting :: "string \<Rightarrow> (int \<Rightarrow> bool) \<Rightarrow> int \<Rightarrow> int io" where
  "int_setting key good dflt = do {
     r \<leftarrow> GetSetting key;
     State_Monad.return (case r of
       Inr (Some val) \<Rightarrow> (case atoi val of Some n \<Rightarrow> if good n then n else dflt | None \<Rightarrow> dflt)
     | _ \<Rightarrow> dflt) }"

definition DefaultAuthRateLimitMax :: int where "DefaultAuthRateLimitMax = 20"
definition DefaultAIChatRateLimitMax :: int where "DefaultAIChatRateLimitMax = 30"
definition DefaultGlobalRateLimitMax :: int where "DefaultGlobalRateLimitMax = 600"
definition SettingKeyAuthRateLimitMax :: string where "SettingKeyAuthRateLimitMax = ''auth_rate_limit_max''"
definition SettingKeyAIChatIPRateLimitMax :: string where "SettingKeyAIChatIPRateLimitMax = ''ai_chat_ip_rate_limit_max''"
definition SettingKeyGlobalRateLimitMax :: string where "SettingKeyGlobalRateLimitMax = ''global_rate_limit_max''"

definition readRateLimitInt :: "string \<Rightarrow> int \<Rightarrow> int io" where
  "readRateLimitInt key dflt = int_setting key (\<lambda>n. n > 0) dflt"

definition AuthRateLimitMax :: "int io" where
  "AuthRateLimitMax = readRateLimitInt SettingKeyAuthRateLimitMax DefaultAuthRateLimitMax"
definition AIChatIPRateLimitMax :: "int io" where
  "AIChatIPRateLimitMax = readRateLimitInt SettingKeyAIChatIPRateLimitMax DefaultAIChatRateLimitMax"
definition GlobalRateLimitMax :: "int io" where
  "GlobalRateLimitMax = readRateLimitInt SettingKeyGlobalRateLimitMax DefaultGlobalRateLimitMax"

definition MaxBodyBytes :: "int io" where
  "MaxBodyBytes = int_setting ''max_body_bytes'' (\<lambda>n. n \<ge> 0) 1048576"
definition ProviderTimeoutSeconds :: "int io" where
  "ProviderTimeoutSeconds = int_setting ''ai_provider_timeout_seconds'' (\<lambda>n. n > 0) 30"
definition ChatRPMLimit :: "int io" where
  "ChatRPMLimit = int_setting ''ai_chat_rpm_limit'' (\<lambda>n. n \<ge> 0) 60"

section \<open>The middlewares\<close>

definition maxBodyMiddleware :: "(string \<Rightarrow> string) \<Rightarrow> endpoint \<Rightarrow> endpoint" where
  "maxBodyMiddleware mime next a =
     (if mime (AR_ContentType a) = ''multipart/form-data'' then next a
      else do {
        limit \<leftarrow> MaxBodyBytes;
        (if limit > 0 then
           (if AR_ContentLength a > limit then State_Monad.return (refused 413 ''request body too large'')
            else next (a\<lparr>AR_BodyLimit := Some limit\<rparr>))
         else next a) })"

definition isAPIPath :: "string \<Rightarrow> bool" where
  "isAPIPath path \<longleftrightarrow>
     (let p = path_clean (''/'' @ path) in
      p = ''/healthz'' \<or> has_prefix p ''/healthz/'' \<or> p = ''/v1'' \<or> has_prefix p ''/v1/'')"

definition permissionsPolicy :: string where
  "permissionsPolicy = ''geolocation=(self), clipboard-write=(self), fullscreen=(self), '' @
     ''camera=(), microphone=(), payment=(), usb=(), midi=(), '' @
     ''magnetometer=(), gyroscope=(), accelerometer=()''"

definition apiCSP :: string where
  "apiCSP = ''default-src 'none'; '' @ ''script-src 'self'; '' @ ''style-src-elem 'self'; '' @
     ''style-src-attr 'unsafe-inline'; '' @ ''img-src 'self' data:; '' @ ''connect-src 'self'; '' @
     ''object-src 'none'; '' @ ''frame-ancestors 'none'; '' @ ''base-uri 'none'; '' @
     ''report-uri /v1/csp-report; '' @ ''report-to csp-endpoint''"

definition spaCSP :: string where
  "spaCSP = ''default-src 'self'; '' @ ''script-src 'self' blob:; '' @ ''style-src-elem 'self'; '' @
     ''style-src-attr 'unsafe-inline'; '' @ ''font-src 'self' data:; '' @ ''img-src 'self' data: blob: https:; '' @
     ''connect-src 'self' api.maptiler.com; '' @ ''object-src 'none'; '' @ ''frame-ancestors 'none'; '' @
     ''base-uri 'none'; '' @ ''report-uri /v1/csp-report; '' @ ''report-to csp-endpoint''"

definition noneCSP :: string where
  "noneCSP = ''default-src 'none'; '' @ ''frame-ancestors 'none'; '' @ ''base-uri 'none'' @ [CHR 0x27]"

definition commonSecHeaders :: "string \<rightharpoonup> string" where
  "commonSecHeaders =
     [''X-Content-Type-Options'' \<mapsto> ''nosniff'', ''X-Frame-Options'' \<mapsto> ''DENY'',
      ''Referrer-Policy'' \<mapsto> ''strict-origin-when-cross-origin'',
      ''Reporting-Endpoints'' \<mapsto> ''csp-endpoint=\"/v1/csp-report\"'',
      ''Permissions-Policy'' \<mapsto> permissionsPolicy]"

definition apiSecHeadersMiddleware :: "endpoint \<Rightarrow> endpoint" where
  "apiSecHeadersMiddleware = with_headers (commonSecHeaders(''Content-Security-Policy'' \<mapsto> apiCSP))"

definition spaSecHeadersMiddleware :: "endpoint \<Rightarrow> endpoint" where
  "spaSecHeadersMiddleware = with_headers (commonSecHeaders(''Content-Security-Policy'' \<mapsto> spaCSP))"

definition recoverMiddleware :: "endpoint \<Rightarrow> endpoint" where
  "recoverMiddleware next a = do {
     x \<leftarrow> next a;
     State_Monad.return (case x of
        Served resp hs \<Rightarrow> Served resp hs
      | Panicked hs \<Rightarrow> Served (reject None 500 ''internal server error'')
          (hs ++ commonSecHeaders(''Content-Security-Policy'' \<mapsto> noneCSP))) }"

definition corsMiddleware :: "string \<Rightarrow> endpoint \<Rightarrow> endpoint" where
  "corsMiddleware origin0 next a =
     (let allowedOrigin = trim_right_slash origin0; r = AR_Request a; origin = R_Origin r;
          hs = (if origin = allowedOrigin
                then [''Access-Control-Allow-Origin'' \<mapsto> origin, ''Access-Control-Allow-Credentials'' \<mapsto> ''true'']
                else Map.empty)
            (''Access-Control-Allow-Methods'' \<mapsto> ''GET, POST, PATCH, PUT, DELETE, OPTIONS'',
             ''Access-Control-Allow-Headers'' \<mapsto> ''Content-Type, Authorization, X-ModuLab-Bootstrap-Token'') in
      with_headers hs (\<lambda>a.
        if R_Method r = ''OPTIONS'' then State_Monad.return (Served (answer None 204 Empty) Map.empty)
        else if origin \<noteq> [] \<and> origin \<noteq> allowedOrigin \<and> R_Method r \<noteq> ''GET'' \<and> R_Method r \<noteq> ''HEAD''
        then State_Monad.return (refused 403 ''cross-origin request rejected'')
        else next a) a)"

section \<open>The rate limit\<close>

definition authRateLimitWindow :: int where "authRateLimitWindow = 60000000000"
definition aiChatRateLimitWindow :: int where "aiChatRateLimitWindow = 60000000000"
definition globalRateLimitWindow :: int where "globalRateLimitWindow = 60000000000"

definition ratelimit_key :: "string \<Rightarrow> string \<Rightarrow> string" where
  "ratelimit_key label identifier = ''ratelimit:'' @ label @ '':'' @ identifier"

definition report_exceeded :: "Deps \<Rightarrow> string \<Rightarrow> string \<Rightarrow> int \<Rightarrow> int \<Rightarrow> unit io" where
  "report_exceeded d label identifier hits mx = do {
     _ \<leftarrow> (if hits = mx + 1 then Publish AdminChannel ''rate_limit.exceeded'' else ok ());
     logAudit d (log_params ''rate_limit.exceeded'' identifier [] [] []
       (json_obj [(''label'', d_quote d label), (''count'', show_int hits), (''max'', show_int mx)])) }"

definition rateLimitMiddleware ::
  "Deps \<Rightarrow> string \<Rightarrow> int \<Rightarrow> int io \<Rightarrow> (Arrival \<Rightarrow> (string \<times> Arrival) io) \<Rightarrow> endpoint \<Rightarrow> endpoint" where
  "rateLimitMiddleware d label window maxFn identify next a0 = do {
     (identifier, a) \<leftarrow> identify a0;
     counted \<leftarrow> IncrExpire (ratelimit_key label identifier) window;
     (case counted of
        Inl _ \<Rightarrow> next a
      | Inr hits \<Rightarrow> do {
          mx \<leftarrow> maxFn;
          (if hits > mx then do {
             report_exceeded d label identifier hits mx;
             State_Monad.return (refused 429 ''too many requests'') }
           else next a) }) }"

text \<open>The copies of \<open>isTrustedProxyPeer\<close> and \<open>clientIP\<close> of package \<open>main\<close>.\<close>

definition main_isTrustedProxyPeer :: "string \<Rightarrow> bool" where
  "main_isTrustedProxyPeer host =
     (case parse_ip host of None \<Rightarrow> False | Some ip \<Rightarrow> ip_is_loopback ip \<or> ip_is_private ip)"

definition main_clientIP :: "Request \<Rightarrow> string" where
  "main_clientIP r =
     (let remoteHost = (case split_host_port (R_RemoteAddr r) of None \<Rightarrow> R_RemoteAddr r | Some (h, _) \<Rightarrow> h); xff = R_XFF r in
      if xff \<noteq> [] \<and> main_isTrustedProxyPeer remoteHost
      then (case index_of xff '','' of Some i \<Rightarrow> trim_space (take i xff) | None \<Rightarrow> trim_space xff)
      else if remoteHost \<noteq> [] then remoteHost
      else R_RemoteAddr r)"

definition identifyByIP :: "Arrival \<Rightarrow> (string \<times> Arrival) io" where
  "identifyByIP a = State_Monad.return (main_clientIP (AR_Request a), a)"

definition identifyBySessionOrIP :: "Deps \<Rightarrow> Arrival \<Rightarrow> (string \<times> Arrival) io" where
  "identifyBySessionOrIP d a =
     (let r = AR_Request a in
      if sessionToken r = [] then State_Monad.return (main_clientIP r, a)
      else do {
        s \<leftarrow> ValidateSession d (sessionToken r) (main_clientIP r) (loginCountry r) (R_UserAgent r);
        State_Monad.return (case s of
          Inr (Some sess) \<Rightarrow> (''user:'' @ S_UserID sess, a\<lparr>AR_Request := r\<lparr>R_Context := Some sess\<rparr>\<rparr>)
        | _ \<Rightarrow> (main_clientIP r, a)) })"

definition authRateLimitMiddleware :: "Deps \<Rightarrow> string \<Rightarrow> endpoint \<Rightarrow> endpoint" where
  "authRateLimitMiddleware d label =
     rateLimitMiddleware d (''auth:'' @ label) authRateLimitWindow AuthRateLimitMax identifyByIP"

definition globalRateLimitMiddleware :: "Deps \<Rightarrow> endpoint \<Rightarrow> endpoint" where
  "globalRateLimitMiddleware d next a =
     (if R_Path (AR_Request a) = ''/healthz'' then next a
      else rateLimitMiddleware d ''global'' globalRateLimitWindow GlobalRateLimitMax (identifyBySessionOrIP d) next a)"

section \<open>The chain\<close>

definition apiHandler :: "Deps \<Rightarrow> (string \<Rightarrow> string) \<Rightarrow> endpoint \<Rightarrow> endpoint" where
  "apiHandler d mime mux =
     apiSecHeadersMiddleware (globalRateLimitMiddleware d (maxBodyMiddleware mime
       (corsMiddleware (d_FrontendBaseURL d) mux)))"

definition core_handler :: "Deps \<Rightarrow> (string \<Rightarrow> string) \<Rightarrow> endpoint \<Rightarrow> endpoint \<Rightarrow> endpoint" where
  "core_handler d mime mux webui =
     recoverMiddleware (\<lambda>a. if isAPIPath (R_Path (AR_Request a)) then apiHandler d mime mux a
       else spaSecHeadersMiddleware webui a)"

section \<open>Endpoints of package main\<close>

definition healthz :: "bool \<Rightarrow> bool \<Rightarrow> Manager \<Rightarrow> nat \<times> string \<times> bool" where
  "healthz postgresUp valkeyUp m =
     (let (status, txt) =
        (if \<not> postgresUp then (503, ''error'') else if \<not> valkeyUp then (200, ''degraded'') else (200, ''ok'')) in
      (status, txt, Completed m))"

text \<open>The limits an administrator sees, and the reset of one.\<close>

definition knownRateLimitLabels :: "string list" where
  "knownRateLimitLabels = [''auth:login'', ''auth:callback'', ''auth:logout'', ''ai-chat'', ''global'', ''chat'']"

definition rateLimitMax :: "string \<Rightarrow> int io" where
  "rateLimitMax label =
     (if label \<in> {''auth:login'', ''auth:callback'', ''auth:logout''} then AuthRateLimitMax
      else if label = ''ai-chat'' then AIChatIPRateLimitMax
      else if label = ''global'' then GlobalRateLimitMax
      else State_Monad.return 0)"

record systemInfoRateLimit =
  RL_Key :: string
  RL_Label :: string
  RL_Identifier :: string
  RL_DisplayName :: string
  RL_Count :: int
  RL_Max :: int
  RL_ResetInSeconds :: int

definition label_of :: "string \<Rightarrow> string \<times> string" where
  "label_of key =
     (let rest = trim_prefix key ''ratelimit:'' in
      case find (\<lambda>l. has_prefix rest (l @ '':'')) knownRateLimitLabels of
        Some l \<Rightarrow> (l, trim_prefix rest (l @ '':''))
      | None \<Rightarrow> (rest, []))"

definition display_name :: "Deps \<Rightarrow> string \<Rightarrow> string io" where
  "display_name d identifier =
     (if \<not> has_prefix identifier ''user:'' then State_Monad.return []
      else do {
        u \<leftarrow> GetUser d (trim_prefix identifier ''user:'');
        State_Monad.return (case u of
          Inr (Some row) \<Rightarrow> if U_Name row \<noteq> [] then U_Name row else U_Email row
        | _ \<Rightarrow> []) })"

text \<open>One key of the scan; what is there but no counter is skipped.\<close>

definition active_limit :: "Deps \<Rightarrow> string \<Rightarrow> systemInfoRateLimit option io" where
  "active_limit d key = do {
     counter \<leftarrow> Get key;
     (case counter of
        Inr (Some (Cnt hits)) \<Rightarrow> do {
          ttl \<leftarrow> TTL key;
          (case ttl of
             Inr (Some t) \<Rightarrow> do {
               name \<leftarrow> display_name d (snd (label_of key));
               mx \<leftarrow> rateLimitMax (fst (label_of key));
               State_Monad.return (Some \<lparr>RL_Key = key, RL_Label = fst (label_of key), RL_Identifier = snd (label_of key),
                 RL_DisplayName = name, RL_Count = hits, RL_Max = mx, RL_ResetInSeconds = t div 1000000000\<rparr>) }
           | _ \<Rightarrow> State_Monad.return None) }
      | _ \<Rightarrow> State_Monad.return None) }"

definition resetRateLimitHandler :: "Request \<Rightarrow> string option \<Rightarrow> Response io" where
  "resetRateLimitHandler r key =
     (if R_Method r \<noteq> ''DELETE'' then State_Monad.return method_not_allowed
      else if key = None \<or> key = Some [] then State_Monad.return (reject None 400 ''missing key'')
      else if \<not> has_prefix (the key) ''ratelimit:'' then State_Monad.return (reject None 400 ''invalid key'')
      else or_internal None (Del (the key)) (\<lambda>_. State_Monad.return (answer None 204 Empty)))"

definition revokeSessionHandler :: "Deps \<Rightarrow> Request \<Rightarrow> Response io" where
  "revokeSessionHandler d r =
     (let sid = R_PathID r in
      if sid = [] then State_Monad.return (reject None 400 ''missing session id'')
      else do {
        (found, e) \<leftarrow> RevokeSessionByID d sid;
        (if e \<noteq> None then State_Monad.return (internal None)
         else if \<not> found then State_Monad.return (reject None 404 ''session not found'')
         else do {
           (case R_Context r of
              None \<Rightarrow> State_Monad.return ()
            | Some sess \<Rightarrow> logAudit d (log_params ''auth.session_revoked_by_admin'' (S_UserID sess) (S_Email sess) sid [] []));
           State_Monad.return (answer None 204 Empty) }) })"

section \<open>Settings with an audit entry of what changed\<close>

text \<open>The arrow of a change, in UTF-8; \<open>json.Marshal\<close> of a text is a parameter.\<close>

definition arrow :: string where "arrow = [CHR '' '', CHR 0xE2, CHR 0x86, CHR 0x92, CHR '' '']"

definition changes_json :: "(string \<Rightarrow> string) \<Rightarrow> (string \<times> string \<times> string) list \<Rightarrow> (string \<times> string) list" where
  "changes_json json changes =
     map (\<lambda>(k, old, new). (k, json (old @ arrow @ new))) (filter (\<lambda>(_, old, new). old \<noteq> new) changes)"

definition no_smtp :: SMTPRuntimeConfig where
  "no_smtp = \<lparr>SM_Host = [], SM_Port = 0, SM_Username = [], SM_Password = [], SM_FromAddress = [], SM_Encryption = []\<rparr>"

definition smtpDiff :: "(string \<Rightarrow> string) \<Rightarrow> SMTPRuntimeConfig \<Rightarrow> string \<Rightarrow> int \<Rightarrow> string \<Rightarrow> string \<Rightarrow> string" where
  "smtpDiff json old newHost newPort newFrom newEnc =
     json_obj (changes_json json [(''host'', SM_Host old, newHost), (''port'', show_int (SM_Port old), show_int newPort),
       (''from'', SM_FromAddress old, newFrom), (''encryption'', SM_Encryption old, newEnc)])"

definition geoipDiff :: "(string \<Rightarrow> string) \<Rightarrow> string \<Rightarrow> string \<Rightarrow> bool \<Rightarrow> string" where
  "geoipDiff json oldAccountID newAccountID licenseKeyChanged =
     json_obj (changes_json json [(''account_id'', oldAccountID, newAccountID)]
       @ (if licenseKeyChanged then [(''license_key'', ''\"updated\"'')] else []))"

text \<open>The audit entry of a handler that answered below 400, with the session of the middleware as actor.\<close>

definition audit_change :: "Deps \<Rightarrow> Request \<Rightarrow> string \<Rightarrow> string \<Rightarrow> Response \<Rightarrow> Response io" where
  "audit_change d r ev details resp = do {
     (if Rs_Status resp < 400 then
        (case R_Context r of
           None \<Rightarrow> State_Monad.return ()
         | Some sess \<Rightarrow> logAudit d (log_params ev (S_UserID sess) (S_Email sess) [] [] details))
      else State_Monad.return ());
     State_Monad.return resp }"

definition smtp_configure ::
  "Deps \<Rightarrow> (string \<Rightarrow> string) \<Rightarrow> ((string \<times> string) list \<Rightarrow> (string \<times> string) list) \<Rightarrow> Request \<Rightarrow> SMTPRuntimeConfig option \<Rightarrow> Response io" where
  "smtp_configure d json shuffle r req =
     (case ResolveMasterKey d of
        Inl _ \<Rightarrow> State_Monad.return (reject None 412 ''master key'')
      | Inr masterKey \<Rightarrow> do {
          resolved \<leftarrow> ResolveSMTPConfig d masterKey;
          resp \<leftarrow> SMTPConfigureHandler d masterKey shuffle r req;
          (let old = (case resolved of Inl _ \<Rightarrow> no_smtp | Inr c \<Rightarrow> c); new = coalesce req no_smtp;
               diff = smtpDiff json old (SM_Host new) (SM_Port new) (SM_FromAddress new) (SM_Encryption new);
               details = (if diff = ''{}'' \<and> SM_Password new \<noteq> [] then ''{\"credentials\":\"updated\"}'' else diff) in
           audit_change d r ''config.smtp'' details resp) })"

definition smtp_delete :: "Deps \<Rightarrow> Request \<Rightarrow> Response io" where
  "smtp_delete d r = do { resp \<leftarrow> SMTPDeleteHandler r; audit_change d r ''config.smtp.deleted'' [] resp }"

definition geoip_configure ::
  "Deps \<Rightarrow> (string \<Rightarrow> string) \<Rightarrow> ((string \<times> string) list \<Rightarrow> (string \<times> string) list) \<Rightarrow> Request \<Rightarrow> GeoIPConfigRequest option \<Rightarrow> Response io" where
  "geoip_configure d json shuffle r req =
     (case ResolveMasterKey d of
        Inl _ \<Rightarrow> State_Monad.return (reject None 412 ''master key'')
      | Inr masterKey \<Rightarrow> do {
          resolved \<leftarrow> ResolveGeoIPConfig d masterKey;
          resp \<leftarrow> GeoIPConfigureHandler d masterKey shuffle r req;
          (let oldAccount = (case resolved of Inl _ \<Rightarrow> [] | Inr (account, _) \<Rightarrow> account);
               details = geoipDiff json oldAccount (case req of None \<Rightarrow> [] | Some q \<Rightarrow> GR_AccountID q)
                 (case req of None \<Rightarrow> False | Some q \<Rightarrow> GR_LicenseKey q \<noteq> []) in
           audit_change d r ''config.geoip'' details resp) })"

definition geoip_delete :: "Deps \<Rightarrow> Request \<Rightarrow> Response io" where
  "geoip_delete d r = do { resp \<leftarrow> GeoIPDeleteHandler r; audit_change d r ''config.geoip.deleted'' [] resp }"

end
