(* ===== verification/AdminApi.thy ===== *)
theory AdminApi
  imports Gateway ModuleProxy "HOL-Library.List_Lexorder" "HOL-Library.Char_ord"
begin

text \<open>
  Package \<open>adminapi\<close> and \<open>coreupdate\<close>: the operational limits, the general settings, OIDC after the
  setup, the endpoints of the audit log, and the check for a new version of Core. JSON decoding, dates
  and time zones are parameters.
\<close>

section \<open>The schedule of the version check\<close>

definition coreRepoURL :: string where "coreRepoURL = ''https://github.com/modulab-project/modulab-core''"
definition defaultCheckWeekdaysRaw :: string where "defaultCheckWeekdaysRaw = ''0,1,2,3,4,5,6''"
definition defaultCheckTimeRaw :: string where "defaultCheckTimeRaw = ''03:00''"
definition SettingKeyCheckWeekdays :: string where "SettingKeyCheckWeekdays = ''core_update_check_weekdays''"
definition SettingKeyCheckTime :: string where "SettingKeyCheckTime = ''core_update_check_time''"

definition weekday_of :: "string \<Rightarrow> int res" where
  "weekday_of part =
     (let p = trim_space part in
      if p = [] then Inl (ErrInvalid ''empty weekday entry'')
      else case atoi p of
        None \<Rightarrow> Inl (ErrInvalid ''invalid weekday'')
      | Some n \<Rightarrow> if n < 0 \<or> n > 6 then Inl (ErrInvalid ''invalid weekday'') else Inr n)"

primrec weekdays_of :: "string list \<Rightarrow> int list res" where
  "weekdays_of [] = Inr []"
| "weekdays_of (p # ps) = res_bind (weekday_of p) (\<lambda>n. res_bind (weekdays_of ps) (\<lambda>ns. Inr (n # ns)))"

definition ParseWeekdays :: "string \<Rightarrow> int list res" where
  "ParseWeekdays raw =
     res_bind (weekdays_of (split_on CHR '','' raw)) (\<lambda>ns.
       if ns = [] then Inl (ErrInvalid ''at least one weekday must be selected'') else Inr ns)"

definition ParseTime :: "string \<Rightarrow> (int \<times> int) res" where
  "ParseTime raw =
     (case splitn CHR '':'' 2 raw of
        [a, b] \<Rightarrow>
          (case (atoi a, atoi b) of
             (Some h, Some m) \<Rightarrow>
               if h < 0 \<or> h > 23 \<or> m < 0 \<or> m > 59 then Inl (ErrInvalid ''invalid time'') else Inr (h, m)
           | _ \<Rightarrow> Inl (ErrInvalid ''invalid time''))
      | _ \<Rightarrow> Inl (ErrInvalid ''invalid time''))"

text \<open>A text setting that has to parse, with its default.\<close>

definition text_setting :: "string \<Rightarrow> (string \<Rightarrow> bool) \<Rightarrow> string \<Rightarrow> string io" where
  "text_setting key good dflt = do {
     r \<leftarrow> GetSetting key;
     State_Monad.return (case r of Inr (Some val) \<Rightarrow> if val = [] \<or> \<not> good val then dflt else val | _ \<Rightarrow> dflt) }"

definition CheckWeekdaysRaw :: "string io" where
  "CheckWeekdaysRaw = text_setting SettingKeyCheckWeekdays (\<lambda>v. is_ok (ParseWeekdays v)) defaultCheckWeekdaysRaw"

definition CheckTimeRaw :: "string io" where
  "CheckTimeRaw = text_setting SettingKeyCheckTime (\<lambda>v. is_ok (ParseTime v)) defaultCheckTimeRaw"

section \<open>Versions\<close>

definition core_version :: string where "core_version = ''1.2.3''"

definition version_part :: "string \<Rightarrow> int" where
  "version_part p = (case atoi (trim_space p) of None \<Rightarrow> 0 | Some n \<Rightarrow> n)"

text \<open>The three numbers; parts that are missing are 0.\<close>

definition parseVersionParts :: "string \<Rightarrow> int list" where
  "parseVersionParts v =
     take 3 (map version_part (splitn CHR ''.'' 3 (trim_prefix (trim_space v) ''v'')) @ [0, 0, 0])"

fun newer_parts :: "int list \<Rightarrow> int list \<Rightarrow> bool" where
  "newer_parts (l # ls) (c # cs) = (if l \<noteq> c then l > c else newer_parts ls cs)"
| "newer_parts _ _ = False"

definition isNewerVersion :: "string \<Rightarrow> string \<Rightarrow> bool" where
  "isNewerVersion latest current = newer_parts (parseVersionParts latest) (parseVersionParts current)"

type_synonym CheckResult = "string \<times> bool"

definition CachedResult :: "CheckResult io" where
  "CachedResult = do {
     latest \<leftarrow> setting_or_empty ''core_latest_known_version'';
     State_Monad.return (if latest = [] then ([], False) else (latest, isNewerVersion latest core_version)) }"

definition notify_update :: "string \<Rightarrow> unit io" where
  "notify_update normalized = do {
     lastNotified \<leftarrow> setting_or_empty ''core_update_last_notified_version'';
     (if lastNotified = normalized then State_Monad.return ()
      else do {
        p \<leftarrow> Publish AdminChannel (''core.update_available'' @ normalized);
        (case p of
           Inl _ \<Rightarrow> State_Monad.return ()
         | Inr _ \<Rightarrow> do { _ \<leftarrow> SetSetting ''core_update_last_notified_version'' normalized; State_Monad.return () }) }) }"

definition CheckNow :: "StoreDeps \<Rightarrow> (int \<Rightarrow> string) \<Rightarrow> CheckResult res sio" where
  "CheckNow sd rfc3339 =
     try_bind (FetchLatestRelease sd coreRepoURL ''github'' []) (\<lambda>latest.
     if latest = [] then do { c \<leftarrow> core_io CachedResult; ok c }
     else (let normalized = trim_prefix (trim_space latest) ''v''; newer = isNewerVersion normalized core_version in do {
       _ \<leftarrow> core_io (SetSetting ''core_latest_known_version'' normalized);
       s \<leftarrow> State_Monad.get;
       _ \<leftarrow> core_io (SetSetting ''core_last_checked_at'' (rfc3339 (now (core s))));
       (if newer then core_io (notify_update normalized) else State_Monad.return ());
       ok (normalized, newer) }))"

text \<open>
  One tick of \<open>RunScheduler\<close>: the date, weekday, hour and minute in the time zone of the system. The
  result is the date of the last run.
\<close>

definition schedule_tick :: "StoreDeps \<Rightarrow> (int \<Rightarrow> string) \<Rightarrow> string \<Rightarrow> int \<Rightarrow> int \<Rightarrow> int \<Rightarrow> string \<Rightarrow> string sio" where
  "schedule_tick sd rfc3339 today weekday hour minute lastRunDate =
     (if today = lastRunDate then State_Monad.return lastRunDate
      else do {
        days \<leftarrow> core_io CheckWeekdaysRaw;
        (case ParseWeekdays days of
           Inl _ \<Rightarrow> State_Monad.return lastRunDate
         | Inr ns \<Rightarrow>
             if weekday \<notin> set ns then State_Monad.return lastRunDate
             else do {
               time \<leftarrow> core_io CheckTimeRaw;
               (case ParseTime time of
                  Inl _ \<Rightarrow> State_Monad.return lastRunDate
                | Inr (h, m) \<Rightarrow>
                    if hour \<noteq> h \<or> minute \<noteq> m then State_Monad.return lastRunDate
                    else do { _ \<leftarrow> CheckNow sd rfc3339; State_Monad.return today }) }) })"

section \<open>Operational limits\<close>

record LimitsSettings =
  LS_MaxBodyBytes :: int
  LS_MaxUploadBodyBytes :: int
  LS_MaxModuleZIPBytes :: int
  LS_MaxOPMLUploadBytes :: int
  LS_AuthRateLimitMax :: int
  LS_AIChatIPRateLimitMax :: int
  LS_GlobalRateLimitMax :: int
  LS_DenoConnPoolSize :: int
  LS_GeoTimeoutMS :: int
  LS_AIProviderTimeoutSeconds :: int
  LS_SearchTimeoutSeconds :: int
  LS_SearchFallbackTimeoutSeconds :: int
  LS_NewsFetchTimeoutSeconds :: int
  LS_StoreSyncIntervalSeconds :: int
  LS_StoreGithubAPITimeoutSeconds :: int
  LS_ModulesInstallDownloadTimeoutSecs :: int
  LS_ChatRPMLimit :: int
  LS_CoreUpdateCheckWeekdays :: string
  LS_CoreUpdateCheckTime :: string
  LS_SystemTimezone :: string

definition MaxOPMLUploadBytes :: "int io" where
  "MaxOPMLUploadBytes = int_setting ''max_opml_upload_bytes'' (\<lambda>n. n \<ge> 0) 2097152"
definition GeoTimeoutMS :: "int io" where
  "GeoTimeoutMS = int_setting ''geo_timeout_ms'' (\<lambda>n. n > 0) 5000"
definition resolveIntSetting :: "string \<Rightarrow> int \<Rightarrow> int io" where
  "resolveIntSetting key dflt = int_setting key (\<lambda>n. n > 0) dflt"
definition SearchTimeoutSeconds :: "int io" where
  "SearchTimeoutSeconds = resolveIntSetting ''search_timeout_seconds'' 5"
definition FallbackTimeoutSeconds :: "int io" where
  "FallbackTimeoutSeconds = resolveIntSetting ''search_fallback_timeout_seconds'' 3"
definition FetchTimeoutSeconds :: "int io" where
  "FetchTimeoutSeconds = int_setting ''news_fetch_timeout_seconds'' (\<lambda>n. n > 0) 10"

definition currentLimitsSettings :: "(string \<Rightarrow> bool) \<Rightarrow> LimitsSettings sio" where
  "currentLimitsSettings zones = do {
     maxBody \<leftarrow> core_io MaxBodyBytes;
     maxUpload \<leftarrow> MaxUploadBodyBytes;
     maxZIP \<leftarrow> max_zip_bytes;
     maxOPML \<leftarrow> core_io MaxOPMLUploadBytes;
     authMax \<leftarrow> core_io AuthRateLimitMax;
     aiMax \<leftarrow> core_io AIChatIPRateLimitMax;
     globalMax \<leftarrow> core_io GlobalRateLimitMax;
     poolSize \<leftarrow> core_io (GetSetting ''deno_conn_pool_size'');
     geo \<leftarrow> core_io GeoTimeoutMS;
     provider \<leftarrow> core_io ProviderTimeoutSeconds;
     search \<leftarrow> core_io SearchTimeoutSeconds;
     fallback \<leftarrow> core_io FallbackTimeoutSeconds;
     fetch \<leftarrow> core_io FetchTimeoutSeconds;
     syncInterval \<leftarrow> SyncIntervalSeconds;
     github \<leftarrow> GithubAPITimeoutSeconds;
     download \<leftarrow> InstallDownloadTimeoutSeconds;
     rpm \<leftarrow> core_io ChatRPMLimit;
     weekdays \<leftarrow> core_io CheckWeekdaysRaw;
     time \<leftarrow> core_io CheckTimeRaw;
     zone \<leftarrow> core_io (SystemTimezoneRaw zones);
     State_Monad.return \<lparr>LS_MaxBodyBytes = maxBody, LS_MaxUploadBodyBytes = maxUpload, LS_MaxModuleZIPBytes = maxZIP,
       LS_MaxOPMLUploadBytes = maxOPML, LS_AuthRateLimitMax = authMax, LS_AIChatIPRateLimitMax = aiMax,
       LS_GlobalRateLimitMax = globalMax, LS_DenoConnPoolSize = ConnPoolSize poolSize, LS_GeoTimeoutMS = geo,
       LS_AIProviderTimeoutSeconds = provider, LS_SearchTimeoutSeconds = search,
       LS_SearchFallbackTimeoutSeconds = fallback, LS_NewsFetchTimeoutSeconds = fetch,
       LS_StoreSyncIntervalSeconds = syncInterval, LS_StoreGithubAPITimeoutSeconds = github,
       LS_ModulesInstallDownloadTimeoutSecs = download, LS_ChatRPMLimit = rpm,
       LS_CoreUpdateCheckWeekdays = weekdays, LS_CoreUpdateCheckTime = time, LS_SystemTimezone = zone\<rparr> }"

text \<open>The fields with a lower bound of 0, and those that have to be positive.\<close>

definition nonneg_limits :: "LimitsSettings \<Rightarrow> (string \<times> int) list" where
  "nonneg_limits b =
     [(''max_body_bytes'', LS_MaxBodyBytes b), (''max_upload_body_bytes'', LS_MaxUploadBodyBytes b),
      (''max_module_zip_bytes'', LS_MaxModuleZIPBytes b), (''max_opml_upload_bytes'', LS_MaxOPMLUploadBytes b),
      (''chat_rpm_limit'', LS_ChatRPMLimit b)]"

definition positive_limits :: "LimitsSettings \<Rightarrow> (string \<times> int) list" where
  "positive_limits b =
     [(''auth_rate_limit_max'', LS_AuthRateLimitMax b), (''ai_chat_ip_rate_limit_max'', LS_AIChatIPRateLimitMax b),
      (''global_rate_limit_max'', LS_GlobalRateLimitMax b), (''deno_conn_pool_size'', LS_DenoConnPoolSize b),
      (''geo_timeout_ms'', LS_GeoTimeoutMS b), (''ai_provider_timeout_seconds'', LS_AIProviderTimeoutSeconds b),
      (''search_timeout_seconds'', LS_SearchTimeoutSeconds b),
      (''search_fallback_timeout_seconds'', LS_SearchFallbackTimeoutSeconds b),
      (''news_fetch_timeout_seconds'', LS_NewsFetchTimeoutSeconds b),
      (''store_sync_interval_seconds'', LS_StoreSyncIntervalSeconds b),
      (''store_github_api_timeout_seconds'', LS_StoreGithubAPITimeoutSeconds b),
      (''modules_install_download_timeout_seconds'', LS_ModulesInstallDownloadTimeoutSecs b)]"

definition limit_settings :: "LimitsSettings \<Rightarrow> (string \<times> string) list" where
  "limit_settings b =
     [(''max_body_bytes'', show_int (LS_MaxBodyBytes b)), (''max_upload_body_bytes'', show_int (LS_MaxUploadBodyBytes b)),
      (SettingKeyMaxModuleZIPBytes, show_int (LS_MaxModuleZIPBytes b)),
      (''max_opml_upload_bytes'', show_int (LS_MaxOPMLUploadBytes b)),
      (SettingKeyAuthRateLimitMax, show_int (LS_AuthRateLimitMax b)),
      (SettingKeyAIChatIPRateLimitMax, show_int (LS_AIChatIPRateLimitMax b)),
      (SettingKeyGlobalRateLimitMax, show_int (LS_GlobalRateLimitMax b)),
      (''deno_conn_pool_size'', show_int (LS_DenoConnPoolSize b)), (''geo_timeout_ms'', show_int (LS_GeoTimeoutMS b)),
      (''ai_provider_timeout_seconds'', show_int (LS_AIProviderTimeoutSeconds b)),
      (''search_timeout_seconds'', show_int (LS_SearchTimeoutSeconds b)),
      (''search_fallback_timeout_seconds'', show_int (LS_SearchFallbackTimeoutSeconds b)),
      (''news_fetch_timeout_seconds'', show_int (LS_NewsFetchTimeoutSeconds b)),
      (''store_sync_interval_seconds'', show_int (LS_StoreSyncIntervalSeconds b)),
      (''store_github_api_timeout_seconds'', show_int (LS_StoreGithubAPITimeoutSeconds b)),
      (SettingKeyInstallDownloadTimeoutSeconds, show_int (LS_ModulesInstallDownloadTimeoutSecs b)),
      (''ai_chat_rpm_limit'', show_int (LS_ChatRPMLimit b)),
      (SettingKeyCheckWeekdays, LS_CoreUpdateCheckWeekdays b), (SettingKeyCheckTime, LS_CoreUpdateCheckTime b)]"

text \<open>The actor of an entry; without a session its fields are empty.\<close>

definition audit_settings :: "Deps \<Rightarrow> Request \<Rightarrow> string \<Rightarrow> string \<Rightarrow> unit io" where
  "audit_settings d r ev details =
     logAudit d (log_params ev (case R_Context r of None \<Rightarrow> [] | Some s \<Rightarrow> S_UserID s)
       (case R_Context r of None \<Rightarrow> [] | Some s \<Rightarrow> S_Email s) [] [] details)"

definition AdminLimitsHandler ::
  "Deps \<Rightarrow> (string \<Rightarrow> bool) \<Rightarrow> (LimitsSettings \<Rightarrow> string) \<Rightarrow> ((string \<times> string) list \<Rightarrow> (string \<times> string) list)
    \<Rightarrow> Request \<Rightarrow> LimitsSettings option \<Rightarrow> (Response + LimitsSettings) sio" where
  "AdminLimitsHandler d zones json shuffle r req =
     (if R_Method r = ''GET'' then do { l \<leftarrow> currentLimitsSettings zones; State_Monad.return (Inr l) }
      else if R_Method r \<noteq> ''PATCH'' then State_Monad.return (Inl method_not_allowed)
      else case req of
        None \<Rightarrow> State_Monad.return (Inl (reject None 400 ''invalid request body''))
      | Some b \<Rightarrow>
          (case find (\<lambda>(_, v). v < 0) (nonneg_limits b) of
             Some (name, _) \<Rightarrow> State_Monad.return (Inl (reject None 400 (name @ '' must be >= 0 (0 = unlimited)'')))
           | None \<Rightarrow>
          (case find (\<lambda>(_, v). v \<le> 0) (positive_limits b) of
             Some (name, _) \<Rightarrow> State_Monad.return (Inl (reject None 400 (name @ '' must be > 0'')))
           | None \<Rightarrow>
             if \<not> is_ok (ParseWeekdays (LS_CoreUpdateCheckWeekdays b))
             then State_Monad.return (Inl (reject None 400 ''core_update_check_weekdays''))
             else if \<not> is_ok (ParseTime (LS_CoreUpdateCheckTime b))
             then State_Monad.return (Inl (reject None 400 ''core_update_check_time''))
             else do {
               saved \<leftarrow> core_io (set_settings (shuffle (limit_settings b)));
               (case saved of
                  Inl _ \<Rightarrow> State_Monad.return (Inl (reject None 500 ''database error''))
                | Inr _ \<Rightarrow> do {
                    core_io (audit_settings d r ''config.system_limits'' (json b));
                    zone \<leftarrow> core_io (SystemTimezoneRaw zones);
                    State_Monad.return (Inr (b\<lparr>LS_SystemTimezone := zone\<rparr>)) }) })))"

section \<open>General settings\<close>

record GeneralSettings =
  GS_SystemLanguage :: string
  GS_InstanceName :: string
  GS_SystemTimezone :: string

definition supportedGeneralLanguages :: "string list" where
  "supportedGeneralLanguages = [''en'', ''de'', ''nl'', ''es'', ''fr'', ''it'', ''pl'', ''pt'']"

definition CurrentBranding :: "(string \<times> string) io" where
  "CurrentBranding = do {
     lang \<leftarrow> GetSetting ''system_language'';
     inst \<leftarrow> GetSetting ''instance_name'';
     State_Monad.return
       (case lang of Inr (Some v) \<Rightarrow> if v \<in> set supportedGeneralLanguages then v else ''en'' | _ \<Rightarrow> ''en'',
        case inst of Inr (Some v) \<Rightarrow> if trim_space v \<noteq> [] then trim_space v else ''ModuLab'' | _ \<Rightarrow> ''ModuLab'') }"

definition currentGeneralSettings :: "(string \<Rightarrow> bool) \<Rightarrow> GeneralSettings io" where
  "currentGeneralSettings zones = do {
     (lang, name) \<leftarrow> CurrentBranding;
     zone \<leftarrow> SystemTimezoneRaw zones;
     State_Monad.return \<lparr>GS_SystemLanguage = lang, GS_InstanceName = name, GS_SystemTimezone = zone\<rparr> }"

definition AdminGeneralHandler ::
  "Deps \<Rightarrow> (string \<Rightarrow> bool) \<Rightarrow> (GeneralSettings \<Rightarrow> string) \<Rightarrow> Request \<Rightarrow> GeneralSettings option \<Rightarrow> (Response + GeneralSettings) io" where
  "AdminGeneralHandler d zones json r req =
     (if R_Method r = ''GET'' then do { g \<leftarrow> currentGeneralSettings zones; State_Monad.return (Inr g) }
      else if R_Method r \<noteq> ''PATCH'' then State_Monad.return (Inl method_not_allowed)
      else case req of
        None \<Rightarrow> State_Monad.return (Inl (reject None 400 ''invalid request body''))
      | Some b \<Rightarrow>
          let name = trim_space (GS_InstanceName b); b' = b\<lparr>GS_InstanceName := name\<rparr> in
          if GS_SystemLanguage b \<notin> set supportedGeneralLanguages then
            State_Monad.return (Inl (reject None 400 ''system_language must be one of: en, de, nl, es, fr, it, pl, pt''))
          else if name = [] then State_Monad.return (Inl (reject None 400 ''instance_name must not be empty''))
          else if \<not> is_ok (ParseSystemTimezone zones (GS_SystemTimezone b)) then
            State_Monad.return (Inl (reject None 400 ''system_timezone''))
          else do {
            saved \<leftarrow> set_settings [(''system_language'', GS_SystemLanguage b), (''instance_name'', name),
              (SystemTimezoneSettingKey, GS_SystemTimezone b)];
            (case saved of
               Inl _ \<Rightarrow> State_Monad.return (Inl (reject None 500 ''database error''))
             | Inr _ \<Rightarrow> do {
                 audit_settings d r ''config.system_general'' (json b');
                 State_Monad.return (Inr b') }) })"

section \<open>OIDC\<close>

definition decrypt_or_marker :: "Deps \<Rightarrow> string \<Rightarrow> string \<Rightarrow> string io" where
  "decrypt_or_marker d masterKey enc = do {
     r \<leftarrow> decrypt_if_io d masterKey enc;
     State_Monad.return (case r of Inl _ \<Rightarrow> ''<decryption failed>'' | Inr p \<Rightarrow> p) }"

text \<open>Issuer and client when OIDC is configured, and the prefix of the groups.\<close>

definition SystemStatusHandler :: "Deps \<Rightarrow> Request \<Rightarrow> (Response + (string \<times> string) option \<times> string) io" where
  "SystemStatusHandler d r =
     (case ResolveMasterKey d of
        Inl _ \<Rightarrow> State_Monad.return (Inl (reject None 412 ''master key''))
      | Inr masterKey \<Rightarrow> do {
          encIssuer \<leftarrow> GetSetting oidcIssuerSettingKey;
          (case encIssuer of
             Inl _ \<Rightarrow> State_Monad.return (Inl (internal None))
           | Inr issuer \<Rightarrow> do {
               oidc \<leftarrow> (if coalesce issuer [] = [] then State_Monad.return None
                 else do {
                   i \<leftarrow> decrypt_or_marker d masterKey (coalesce issuer []);
                   encClientID \<leftarrow> GetSetting oidcClientIDSettingKey;
                   c \<leftarrow> (case encClientID of Inr (Some e) \<Rightarrow> decrypt_or_marker d masterKey e | _ \<Rightarrow> State_Monad.return []);
                   State_Monad.return (Some (i, c)) });
               pre \<leftarrow> GetSetting groupPrefixSettingKey;
               State_Monad.return (case pre of Inl _ \<Rightarrow> Inl (internal None) | Inr p \<Rightarrow> Inr (oidc, coalesce p [])) }) })"

definition save_oidc_update :: "Deps \<Rightarrow> string \<Rightarrow> string \<Rightarrow> string \<Rightarrow> string \<Rightarrow> unit res io" where
  "save_oidc_update d masterKey issuer clientID secret =
     try_bind (encrypt_io d masterKey issuer) (\<lambda>encIssuer.
     try_bind (encrypt_io d masterKey clientID) (\<lambda>encClientID.
     try_bind (SetSetting oidcIssuerSettingKey encIssuer) (\<lambda>_.
     try_bind (SetSetting oidcClientIDSettingKey encClientID) (\<lambda>_.
     if secret = [] then ok ()
     else try_bind (encrypt_io d masterKey secret) (\<lambda>encSecret.
       SetSetting oidcClientSecretSettingKey encSecret)))))"

definition audit_actor :: "Deps \<Rightarrow> string \<Rightarrow> Request \<Rightarrow> string \<Rightarrow> string \<Rightarrow> unit io" where
  "audit_actor d masterKey r ev details =
     (case R_Context r of
        None \<Rightarrow> State_Monad.return ()
      | Some sess \<Rightarrow> do {
          _ \<leftarrow> Log d masterKey (log_params ev (S_UserID sess) (S_Email sess) [] [] details);
          State_Monad.return () })"

definition OIDCUpdateHandler :: "Deps \<Rightarrow> Request \<Rightarrow> OIDCConfigRequest option \<Rightarrow> Response io" where
  "OIDCUpdateHandler d r req =
     (case ResolveMasterKey d of
        Inl _ \<Rightarrow> State_Monad.return (reject None 412 ''master key'')
      | Inr masterKey \<Rightarrow>
          (case req of
             None \<Rightarrow> State_Monad.return (reject None 400 ''invalid request body'')
           | Some q \<Rightarrow>
               let issuer = trim_space (OR_IssuerURL q); client = trim_space (OR_ClientID q); secret = trim_space (OR_ClientSecret q) in
               if issuer = [] \<or> client = [] then State_Monad.return (reject None 400 ''issuer_url and client_id are required'')
               else or_internal None (save_oidc_update d masterKey issuer client secret) (\<lambda>_. do {
                 audit_actor d masterKey r ''config.oidc'' (json_obj [(''issuer_url'', d_quote d issuer)]);
                 State_Monad.return (answer None 200 (OIDC (Some (issuer, client)))) })))"

definition OIDCDeleteHandler :: "Deps \<Rightarrow> Request \<Rightarrow> Response io" where
  "OIDCDeleteHandler d r =
     (case ResolveMasterKey d of
        Inl _ \<Rightarrow> State_Monad.return (reject None 412 ''master key'')
      | Inr masterKey \<Rightarrow>
          or_internal None (delete_settings [oidcIssuerSettingKey, oidcClientIDSettingKey, oidcClientSecretSettingKey]) (\<lambda>_. do {
            audit_actor d masterKey r ''config.oidc.deleted'' [];
            State_Monad.return (answer None 200 (OIDC None)) }))"

section \<open>The audit log\<close>

text \<open>\<open>strconv.ParseInt\<close> with its error ignored: out of range it is the bound, otherwise 0.\<close>

definition parse_int_lossy :: "string \<Rightarrow> int" where
  "parse_int_lossy s =
     (case atoi s of
        Some n \<Rightarrow> n
      | None \<Rightarrow>
          (case s of
             [] \<Rightarrow> 0
           | c # t \<Rightarrow>
               if c = CHR ''-'' then (if parse_uint t \<noteq> None then min_int64 else 0)
               else if c = CHR ''+'' then (if parse_uint t \<noteq> None then max_int64 else 0)
               else (if parse_uint s \<noteq> None then max_int64 else 0)))"

definition log_query :: "(string \<Rightarrow> int option) \<Rightarrow> Request \<Rightarrow> ListParams" where
  "log_query day r =
     \<lparr>LP_EventType = query_get r ''event_type'', LP_ActorID = query_get r ''actor_id'',
      LP_Since = day (query_get r ''since''),
      LP_Until = map_option (\<lambda>t. t + 86400000000000 - 1) (day (query_get r ''until'')),
      LP_Search = query_get r ''search'',
      LP_Limit = (case atoi (query_get r ''limit'') of None \<Rightarrow> 50 | Some n \<Rightarrow> n),
      LP_Before = parse_int_lossy (query_get r ''before'')\<rparr>"

definition with_key :: "Deps \<Rightarrow> (string \<Rightarrow> 'a res io) \<Rightarrow> (Response + 'a) io" where
  "with_key d f =
     (case ResolveMasterKey d of
        Inl _ \<Rightarrow> State_Monad.return (Inl (reject None 412 ''master key''))
      | Inr masterKey \<Rightarrow> do {
          r \<leftarrow> f masterKey;
          State_Monad.return (case r of Inl _ \<Rightarrow> Inl (internal None) | Inr a \<Rightarrow> Inr a) })"

definition AuditLogHandler :: "Deps \<Rightarrow> (string \<Rightarrow> int option) \<Rightarrow> Request \<Rightarrow> (Response + AuditLog.Entry list) io" where
  "AuditLogHandler d day r = with_key d (\<lambda>masterKey. List_entries d masterKey (log_query day r))"

definition AuditVerifyHandler :: "Deps \<Rightarrow> Request \<Rightarrow> (Response + VerifyResult) io" where
  "AuditVerifyHandler d r = with_key d (\<lambda>masterKey.
     Verify d masterKey (case atoi (query_get r ''limit'') of None \<Rightarrow> 0 | Some n \<Rightarrow> n))"

text \<open>
  The actors of the last 90 days; one row for each, named actors first, then by name and by id. The key
  is the one of the environment, also when there is none.
\<close>

definition actor_name :: "Deps \<Rightarrow> UserRow list \<Rightarrow> string \<Rightarrow> string" where
  "actor_name d us subject =
     (let enc = name_of us subject in if enc = [] then [] else show_field d (d_MasterKeyEnv d) enc)"

definition actor_before :: "string \<times> string \<Rightarrow> string \<times> string \<Rightarrow> bool" where
  "actor_before a b \<longleftrightarrow>
     (if (snd a = []) \<noteq> (snd b = []) then snd a \<noteq> []
      else if snd a \<noteq> snd b then snd a < snd b
      else fst a < fst b)"

primrec insert_actor :: "string \<times> string \<Rightarrow> (string \<times> string) list \<Rightarrow> (string \<times> string) list" where
  "insert_actor a [] = [a]"
| "insert_actor a (b # bs) = (if actor_before b a then b # insert_actor a bs else a # b # bs)"

definition ListActors :: "Deps \<Rightarrow> (string \<times> string) list res io" where
  "ListActors d = query (\<lambda>w. Inr (foldr insert_actor
     (map (\<lambda>i. (i, actor_name d (users w) i))
        (remdups (map A_ActorID (filter (\<lambda>e. A_ActorID e \<noteq> [] \<and> A_CreatedAt e > now w - 7776000000000000) (audit_log w))))) []))"

definition AuditActorsHandler :: "Deps \<Rightarrow> (Response + (string \<times> string) list) io" where
  "AuditActorsHandler d = do {
     r \<leftarrow> ListActors d;
     State_Monad.return (case r of Inl _ \<Rightarrow> Inl (internal None) | Inr as \<Rightarrow> Inr as) }"

end
