(* ===== verification/GatewayLaws.thy ===== *)
theory GatewayLaws
  imports Gateway HandlerLaws LoginFlows
begin

text \<open>
  What a request that reaches the mux has passed, and how many requests of one address pass the rate
  limit of the login endpoints.
\<close>

section \<open>Settings and headers\<close>

definition int_value :: "(int \<Rightarrow> bool) \<Rightarrow> int \<Rightarrow> string option \<Rightarrow> int" where
  "int_value good dflt v =
     (case v of None \<Rightarrow> dflt | Some s \<Rightarrow> (case atoi s of None \<Rightarrow> dflt | Some n \<Rightarrow> if good n then n else dflt))"

lemma wp_int_setting:
  "wp (int_setting key good dflt) Q w \<longleftrightarrow>
     (outcomes w (calls w) = Done \<longrightarrow> Q (int_value good dflt (settings w key)) (w\<lparr>calls := Suc (calls w)\<rparr>))
     \<and> (outcomes w (calls w) \<noteq> Done \<longrightarrow> Q dflt (w\<lparr>calls := Suc (calls w)\<rparr>))"
  by (auto simp: int_setting_def wp_bind wp_return wp_GetSetting int_value_def split: option.splits)

lemma wp_with_headers: "wp (with_headers hs next a) Q w = wp (next a) (\<lambda>x. Q (add_headers hs x)) w"
  by (simp add: with_headers_def wp_bind wp_return)

section \<open>The chain\<close>

lemma keeps_identify: "store_stable I \<Longrightarrow> keeps I (identifyBySessionOrIP d a)"
  unfolding identifyBySessionOrIP_def ValidateSession_def Let_def by (intro inv_intros)

text \<open>
  The session of a request's cookie: stored under the hash of its token, readable with the master key,
  and not too old. The first call, which looks it up, has to succeed.
\<close>

definition session_under :: "Deps \<Rightarrow> world \<Rightarrow> string \<Rightarrow> Session option" where
  "session_under d w sid =
     (if sid = [] \<or> outcomes w (calls w) \<noteq> Done \<or> d_MasterKeyEnv d = [] then None
      else case vk_str w (sessionKeyPrefix @ sid) of
        Some (JSession stored) \<Rightarrow>
          (case plain_session d (d_MasterKeyEnv d) stored of
             Inr s \<Rightarrow> if too_old (now w) s then None else Some s
           | Inl _ \<Rightarrow> None)
      | _ \<Rightarrow> None)"

lemma wp_validate_exact:
  assumes "cache_ok (gcm w)"
  shows "wp (validateSessionByID d sid ip country ua)
     (\<lambda>x _. (case x of Inr s \<Rightarrow> s | Inl _ \<Rightarrow> None) = session_under d w sid) w"
proof (cases "sid \<noteq> [] \<and> outcomes w (calls w) = Done \<and> d_MasterKeyEnv d \<noteq> []
     \<and> (\<exists>stored. vk_str w (sessionKeyPrefix @ sid) = Some (JSession stored))")
  case True
  then obtain stored e where "vk_entry w (sessionKeyPrefix @ sid) = Some (VStr (JSession stored), e)"
    by (auto simp: vk_str_def split: option.splits prod.splits vval.splits)
  moreover have "wp (decryptSession d (d_MasterKeyEnv d) stored)
      (\<lambda>r t. r = plain_session d (d_MasterKeyEnv d) stored \<and> now t = now w) (w\<lparr>calls := Suc (calls w)\<rparr>)"
    by (rule wp_pure [OF pure_decryptSession]) (use assms in \<open>auto simp: enc_frameD\<close>)
  ultimately show ?thesis
    using True
    by (auto simp: validateSessionByID_def io_simps wp_Get json_session_def master_key_def ResolveMasterKey_def
        session_under_def vk_str_def wp_any elim!: wp_mono)
next
  case False
  then show ?thesis
    by (auto simp: validateSessionByID_def io_simps wp_Get json_session_def master_key_def ResolveMasterKey_def
        session_under_def vk_str_def split: option.splits vval.splits sval.splits)
qed

text \<open>The request as the rate limit passes it on: with the session of its cookie attached, if there is one.\<close>

definition same_request :: "Deps \<Rightarrow> world \<Rightarrow> Arrival \<Rightarrow> Arrival \<Rightarrow> bool" where
  "same_request d w a a' \<longleftrightarrow>
     (let r = AR_Request a in
      a' = (case (if R_Path r = ''/healthz'' \<or> sessionToken r = [] then None else session_under d w (SessionID d (sessionToken r))) of
              None \<Rightarrow> a
            | Some s \<Rightarrow> a\<lparr>AR_Request := r\<lparr>R_Context := Some s\<rparr>\<rparr>))"

lemma wp_identify:
  assumes "cache_ok (gcm w)" and "R_Path (AR_Request a) \<noteq> ''/healthz''"
    and "\<And>i a' t. same_db w t \<Longrightarrow> same_request d w a a' \<Longrightarrow> Q (i, a') t"
  shows "wp (identifyBySessionOrIP d a) Q w"
proof (cases "sessionToken (AR_Request a) = []")
  case True
  then show ?thesis
    by (auto simp: identifyBySessionOrIP_def Let_def wp_return same_request_def intro!: assms(3))
next
  case False
  let ?r = "AR_Request a"
  let ?m = "ValidateSession d (sessionToken ?r) (main_clientIP ?r) (loginCountry ?r) (R_UserAgent ?r)"
  have "wp ?m (\<lambda>x t. (case x of Inr s \<Rightarrow> s | Inl _ \<Rightarrow> None) = session_under d w (SessionID d (sessionToken ?r)) \<and> same_db w t) w"
    unfolding wp_conj ValidateSession_def
    by (intro conjI wp_validate_exact [OF assms(1)] keeps_wpD [where I = "same_db w"] inv_intros) simp_all
  then have "wp ?m (\<lambda>x t. wp (State_Monad.return (case x of
      Inr (Some sess) \<Rightarrow> (''user:'' @ S_UserID sess, a\<lparr>AR_Request := ?r\<lparr>R_Context := Some sess\<rparr>\<rparr>)
      | _ \<Rightarrow> (main_clientIP ?r, a))) Q t) w"
    by (rule wp_mono)
      (use False assms(2) in \<open>auto simp: wp_return same_request_def Let_def intro!: assms(3) split: sum.splits option.splits\<close>)
  then show ?thesis
    using False by (simp add: identifyBySessionOrIP_def Let_def wp_bind)
qed

lemma wp_rateLimit:
  assumes "wp (identify a) (\<lambda>(i, a') t. same_db w t \<and> R a') w"
    and "\<And>a' t. same_db w t \<Longrightarrow> R a' \<Longrightarrow> wp (next a') Q t" and "\<And>t. same_db w t \<Longrightarrow> Q (refused 429 ''too many requests'') t"
    and "keeps (same_db w) maxFn"
  shows "wp (rateLimitMiddleware d label window maxFn identify next a) Q w"
proof -
  have report: "wp (report_exceeded d label i n mx) (\<lambda>_. Q (refused 429 ''too many requests'')) t" if "same_db w t" for i n mx t
  proof -
    have "wp (report_exceeded d label i n mx) (\<lambda>_. same_db w) t"
      unfolding report_exceeded_def by (intro keeps_wpD [where I = "same_db w", OF _ that] inv_intros)
    then show ?thesis by (rule wp_mono) (rule assms(3))
  qed
  have counted: "wp (IncrExpire (ratelimit_key label i) window) (\<lambda>r. wp (case r of
      Inl _ \<Rightarrow> next a'
    | Inr hits \<Rightarrow> do {
        mx \<leftarrow> maxFn;
        (if hits > mx then do {
           report_exceeded d label i hits mx;
           State_Monad.return (refused 429 ''too many requests'') }
         else next a') }) Q) t" if "same_db w t" "R a'" for i a' t
  proof (rule wp_mono [OF keeps_wpD [where I = "same_db w"]])
    show "keeps (same_db w) (IncrExpire (ratelimit_key label i) window)" by (intro inv_intros)
    fix r :: "int res" and u assume "same_db w u"
    then show "wp (case r of
      Inl _ \<Rightarrow> next a'
    | Inr hits \<Rightarrow> do {
        mx \<leftarrow> maxFn;
        (if hits > mx then do {
           report_exceeded d label i hits mx;
           State_Monad.return (refused 429 ''too many requests'') }
         else next a') }) Q u"
      using that(2) report
      by (cases r) (auto simp: wp_bind wp_return intro!: assms(2) wp_mono [OF keeps_wpD [OF assms(4)]])
  qed (rule that(1))
  show ?thesis
    unfolding rateLimitMiddleware_def wp_bind
    by (rule wp_mono [OF assms(1)]) (auto simp: wp_bind intro!: counted)
qed

text \<open>What the middlewares have checked of a request that arrives at the mux.\<close>

definition body_checked :: "(string \<Rightarrow> string) \<Rightarrow> world \<Rightarrow> Arrival \<Rightarrow> Arrival \<Rightarrow> bool" where
  "body_checked mime w a a' \<longleftrightarrow> mime (AR_ContentType a) = ''multipart/form-data''
     \<or> (\<exists>limit. (limit = int_value (\<lambda>n. n \<ge> 0) 1048576 (settings w ''max_body_bytes'') \<or> limit = 1048576)
          \<and> (limit > 0 \<longrightarrow> AR_ContentLength a \<le> limit \<and> AR_BodyLimit a' = Some limit))"

definition origin_checked :: "Deps \<Rightarrow> Request \<Rightarrow> bool" where
  "origin_checked d r \<longleftrightarrow> R_Method r \<noteq> ''OPTIONS''
     \<and> (R_Origin r = [] \<or> R_Origin r = trim_right_slash (d_FrontendBaseURL d) \<or> R_Method r \<in> {''GET'', ''HEAD''})"

text \<open>How the final answer comes from what the mux did.\<close>

definition carries :: "handled \<Rightarrow> Response \<Rightarrow> bool" where
  "carries x resp \<longleftrightarrow> (case x of Served r _ \<Rightarrow> resp = r | Panicked _ \<Rightarrow> Rs_Status resp = 500)"

lemma wp_cors:
  assumes "\<And>hs x t. run_state (mux a) w = (x, t) \<Longrightarrow> origin_checked d (AR_Request a) \<Longrightarrow> Q (add_headers hs x) t"
    and "\<And>hs r. Rs_Status r \<in> {204, 403} \<Longrightarrow> Q (Served r hs) w"
  shows "wp (corsMiddleware (d_FrontendBaseURL d) mux a) Q w"
proof -
  have "wp (mux a) (\<lambda>x. Q (add_headers hs x)) w" if "origin_checked d (AR_Request a)" for hs
    unfolding wp_run by (rule assms(1) [OF surjective_pairing that])
  then show ?thesis
    using assms(2)
    by (auto simp: corsMiddleware_def Let_def wp_with_headers wp_return refused_def reject_def answer_def origin_checked_def)
qed

lemma wp_maxBody:
  assumes "\<And>a' t. same_db w t \<Longrightarrow> AR_Request a' = AR_Request a \<Longrightarrow> body_checked mime w a a' \<Longrightarrow> wp (next a') Q t"
    and "\<And>t. same_db w t \<Longrightarrow> Q (refused 413 ''request body too large'') t"
  shows "wp (maxBodyMiddleware mime next a) Q w"
proof (cases "mime (AR_ContentType a) = ''multipart/form-data''")
  case True
  then show ?thesis using assms(1) [of w a] by (simp add: maxBodyMiddleware_def body_checked_def)
next
  case False
  have db: "same_db w (w\<lparr>calls := n\<rparr>)" for n by (simp add: same_db_def)
  have checked: "body_checked mime w a a'"
    if "limit = int_value (\<lambda>n. n \<ge> 0) 1048576 (settings w ''max_body_bytes'') \<or> limit = 1048576"
      "limit > 0 \<longrightarrow> AR_ContentLength a \<le> limit \<and> AR_BodyLimit a' = Some limit" for limit a'
    unfolding body_checked_def by (intro disjI2 exI [of _ limit] conjI that)
  have go: "wp (if limit > 0 then (if AR_ContentLength a > limit then State_Monad.return (refused 413 ''request body too large'')
            else next (a\<lparr>AR_BodyLimit := Some limit\<rparr>)) else next a) Q (w\<lparr>calls := n\<rparr>)"
    if "limit = int_value (\<lambda>n. n \<ge> 0) 1048576 (settings w ''max_body_bytes'') \<or> limit = 1048576" for limit n
    using checked [OF that] by (auto simp: wp_return not_less intro!: assms db)
  then show ?thesis
    using False go [OF disjI1 [OF refl]] go [OF disjI2 [OF refl]]
    by (simp add: maxBodyMiddleware_def MaxBodyBytes_def wp_bind wp_int_setting)
qed


section \<open>The rate limit of the login endpoints\<close>

text \<open>Requests with the times they arrive at.\<close>

primrec serve_all :: "endpoint \<Rightarrow> (int \<times> Arrival) list \<Rightarrow> handled list io" where
  "serve_all h [] = State_Monad.return []"
| "serve_all h (ta # tas) = do {
     update_world (\<lambda>w. w\<lparr>now := fst ta\<rparr>);
     x \<leftarrow> h (snd ta);
     xs \<leftarrow> serve_all h tas;
     State_Monad.return (x # xs) }"

text \<open>The counter after \<open>k\<close> requests of a window that begins at \<open>t0\<close>.\<close>

definition counted :: "string \<Rightarrow> int \<Rightarrow> (string \<rightharpoonup> string) \<Rightarrow> nat \<Rightarrow> world \<Rightarrow> bool" where
  "counted key end st k w \<longleftrightarrow> all_done w \<and> settings w = st
     \<and> (if k = 0 then vk w key = None else \<exists>e. vk w key = Some (VStr (Cnt (int k)), Some e) \<and> end \<le> e)"

definition spares :: "string \<Rightarrow> endpoint \<Rightarrow> bool" where
  "spares key next \<longleftrightarrow> (\<forall>a c st. keeps (\<lambda>v. vk v key = c \<and> settings v = st \<and> all_done v) (next a))"

lemma spares_counted: "spares key next \<Longrightarrow> keeps (counted key end st k) (next a)"
proof (rule keepsI)
  fix w x t assume sp: "spares key next" and w: "counted key end st k w" and run: "run_state (next a) w = (x, t)"
  from sp have "keeps (\<lambda>v. vk v key = vk w key \<and> settings v = settings w \<and> all_done v) (next a)"
    by (simp add: spares_def)
  from keepsD [OF this _ run] w show "counted key end st k t" by (simp add: counted_def)
qed

lemma misc_counted [simp]: "misc_stable (counted key end st k)"
  by (simp add: misc_stable_def counted_def)

lemma wp_incr_counted:
  assumes "counted key end st k w" "now w < end" "end \<le> now w + window" "0 < window"
  shows "wp (IncrExpire key window) (\<lambda>r t. r = Inr (int (Suc k)) \<and> counted key end st (Suc k) t) w"
proof (cases "k = 0")
  case True
  then have "vk w key = None" "all_done w" "settings w = st" using assms(1) by (simp_all add: counted_def)
  then show ?thesis
    using assms(3) True
    by (auto simp: IncrExpire_def wp_command_done incr_value_def incr_update_def vk_entry_def put_str_def counted_def all_done_def)
next
  case False
  then obtain e where e: "vk w key = Some (VStr (Cnt (int k)), Some e)" "end \<le> e" and w: "all_done w" "settings w = st"
    using assms(1) by (auto simp: counted_def)
  then have "vk_entry w key = Some (VStr (Cnt (int k)), Some e)"
    using assms(2) by (simp add: vk_entry_def alive_def)
  then show ?thesis
    using e w False by (auto simp: IncrExpire_def wp_command_done incr_value_def incr_update_def counted_def)
qed

definition auth_limit :: "(string \<rightharpoonup> string) \<Rightarrow> int" where
  "auth_limit st = int_value (\<lambda>n. n > 0) DefaultAuthRateLimitMax (st SettingKeyAuthRateLimitMax)"

definition answered_by :: "endpoint \<Rightarrow> Arrival \<Rightarrow> handled \<Rightarrow> bool" where
  "answered_by next a x \<longleftrightarrow> (\<exists>v. fst (run_state (next a) v) = x)"

lemma wp_auth_request:
  assumes "counted (ratelimit_key (''auth:'' @ label) ip) end st k w" "now w < end" "end \<le> now w + authRateLimitWindow"
    and "main_clientIP (AR_Request a) = ip" and "spares (ratelimit_key (''auth:'' @ label) ip) next"
  shows "wp (authRateLimitMiddleware d label next a) (\<lambda>x t. counted (ratelimit_key (''auth:'' @ label) ip) end st (Suc k) t
      \<and> (if int k < auth_limit st then answered_by next a x else x = refused 429 ''too many requests'')) w"
proof -
  let ?key = "ratelimit_key (''auth:'' @ label) ip"
  let ?C = "counted ?key end st (Suc k)"
  have pass: "wp (next a) (\<lambda>x t. ?C t \<and> answered_by next a x) u" if "?C u" for u
  proof -
    have "wp (next a) (\<lambda>_. ?C) u"
      by (rule keeps_wpD [where I = ?C, OF spares_counted [OF assms(5)] that])
    then show ?thesis unfolding wp_run answered_by_def by blast
  qed
  have report: "wp (report_exceeded d l i n mx) (\<lambda>_. ?C) u" if "?C u" for u l i n mx
    unfolding report_exceeded_def by (intro keeps_wpD [where I = ?C, OF _ that] inv_intros misc_counted)
  have mx: "wp AuthRateLimitMax (\<lambda>m t. m = auth_limit st \<and> ?C t) u" if "?C u" for u
    using that by (auto simp: AuthRateLimitMax_def readRateLimitInt_def wp_int_setting auth_limit_def counted_def all_done_def)
  have judge: "wp (do {
        mx \<leftarrow> AuthRateLimitMax;
        (if int (Suc k) > mx then do {
           report_exceeded d (''auth:'' @ label) ip (int (Suc k)) mx;
           State_Monad.return (refused 429 ''too many requests'') }
         else next a) }) (\<lambda>x t. ?C t \<and> (if int k < auth_limit st then answered_by next a x else x = refused 429 ''too many requests'')) u"
    if "?C u" for u
    unfolding wp_bind
  proof (rule wp_mono [OF mx [OF that]], elim conjE)
    fix m v assume m: "m = auth_limit st" and v: "?C v"
    show "wp (if int (Suc k) > m then do {
           report_exceeded d (''auth:'' @ label) ip (int (Suc k)) m;
           State_Monad.return (refused 429 ''too many requests'') }
         else next a) (\<lambda>x t. ?C t \<and> (if int k < auth_limit st then answered_by next a x else x = refused 429 ''too many requests'')) v"
    proof (cases "int (Suc k) > m")
      case True
      then show ?thesis
        using m by (simp add: wp_bind wp_return) (rule wp_mono [OF report [OF v]], simp)
    next
      case False
      then show ?thesis using m pass [OF v] by simp
    qed
  qed
  have "wp (IncrExpire ?key authRateLimitWindow) (\<lambda>r t. r = Inr (int (Suc k)) \<and> ?C t) w"
    using assms(1-3) by (intro wp_incr_counted) (simp_all add: authRateLimitWindow_def)
  then show ?thesis
    unfolding authRateLimitMiddleware_def rateLimitMiddleware_def identifyByIP_def wp_bind wp_return assms(4) case_prod_conv
    by (rule wp_mono) (use judge in \<open>auto simp del: of_nat_Suc simp: wp_bind\<close>)
qed

lemma counted_now [simp]: "counted key end st k (w\<lparr>now := t\<rparr>) = counted key end st k w"
  by (simp add: counted_def)


section \<open>Runs\<close>

definition arrival :: "string \<Rightarrow> Arrival" where
  "arrival path = \<lparr>AR_Request = (post [])\<lparr>R_Path := path\<rparr>, AR_ContentType = ''application/json'', AR_ContentLength = 9, AR_BodyLimit = None\<rparr>"

definition teapot :: endpoint where
  "teapot a = State_Monad.return (Served (answer None 418 Empty) Map.empty)"


lemma spares_teapot: "spares key teapot"
  unfolding spares_def teapot_def by (intro allI inv_intros)


end
