(* ===== verification/AdminLaws.thy ===== *)
theory AdminLaws
  imports AdminApi GatewayLaws CrudLaws
begin

text \<open>What an administrator saves as limits is what every later read of the limits gives.\<close>

section \<open>Reading\<close>

lemma wp_core_io: "wp (core_io m) Q s = wp m (\<lambda>a w. Q a (s\<lparr>core := w\<rparr>)) (core s)"
  by (simp add: wp_def core_io_def split: prod.splits)

text \<open>The limits that settings stand for.\<close>

definition text_value :: "(string \<Rightarrow> bool) \<Rightarrow> string \<Rightarrow> string option \<Rightarrow> string" where
  "text_value good dflt v = (case v of None \<Rightarrow> dflt | Some s \<Rightarrow> if s = [] \<or> \<not> good s then dflt else s)"

definition limits_of :: "(string \<Rightarrow> bool) \<Rightarrow> (string \<rightharpoonup> string) \<Rightarrow> LimitsSettings" where
  "limits_of zones st =
     (let nonneg = (\<lambda>k dflt. int_value (\<lambda>n. n \<ge> 0) dflt (st k)); pos = (\<lambda>k dflt. int_value (\<lambda>n. n > 0) dflt (st k)) in
      \<lparr>LS_MaxBodyBytes = nonneg ''max_body_bytes'' 1048576,
       LS_MaxUploadBodyBytes = nonneg ''max_upload_body_bytes'' 20971520,
       LS_MaxModuleZIPBytes = MaxModuleZIPBytes (Inr (st ''max_module_zip_bytes'')),
       LS_MaxOPMLUploadBytes = nonneg ''max_opml_upload_bytes'' 2097152,
       LS_AuthRateLimitMax = pos ''auth_rate_limit_max'' 20,
       LS_AIChatIPRateLimitMax = pos ''ai_chat_ip_rate_limit_max'' 30,
       LS_GlobalRateLimitMax = pos ''global_rate_limit_max'' 600,
       LS_DenoConnPoolSize = ConnPoolSize (Inr (st ''deno_conn_pool_size'')),
       LS_GeoTimeoutMS = pos ''geo_timeout_ms'' 5000,
       LS_AIProviderTimeoutSeconds = pos ''ai_provider_timeout_seconds'' 30,
       LS_SearchTimeoutSeconds = pos ''search_timeout_seconds'' 5,
       LS_SearchFallbackTimeoutSeconds = pos ''search_fallback_timeout_seconds'' 3,
       LS_NewsFetchTimeoutSeconds = pos ''news_fetch_timeout_seconds'' 10,
       LS_StoreSyncIntervalSeconds = pos ''store_sync_interval_seconds'' 3600,
       LS_StoreGithubAPITimeoutSeconds = pos ''store_github_api_timeout_seconds'' 15,
       LS_ModulesInstallDownloadTimeoutSecs = pos ''modules_install_download_timeout_seconds'' 300,
       LS_ChatRPMLimit = nonneg ''ai_chat_rpm_limit'' 60,
       LS_CoreUpdateCheckWeekdays = text_value (\<lambda>v. is_ok (ParseWeekdays v)) defaultCheckWeekdaysRaw (st SettingKeyCheckWeekdays),
       LS_CoreUpdateCheckTime = text_value (\<lambda>v. is_ok (ParseTime v)) defaultCheckTimeRaw (st SettingKeyCheckTime),
       LS_SystemTimezone = text_value (\<lambda>v. is_ok (ParseSystemTimezone zones v)) DefaultSystemTimezone (st SystemTimezoneSettingKey)\<rparr>)"

text \<open>A read when every call succeeds gives one value and counts one call.\<close>

definition reads :: "'a sio \<Rightarrow> ((string \<rightharpoonup> string) \<Rightarrow> 'a) \<Rightarrow> bool" where
  "reads m f \<longleftrightarrow> (\<forall>s Q. all_done (core s) \<longrightarrow>
     wp m Q s = Q (f (settings (core s))) (ticked s))"

lemma reads_int: "reads (core_io (int_setting k good dflt)) (\<lambda>st. int_value good dflt (st k))"
  by (simp add: reads_def wp_core_io wp_int_setting ticked_def all_done_def)

lemma reads_text: "reads (core_io (text_setting k good dflt)) (\<lambda>st. text_value good dflt (st k))"
  by (auto simp: reads_def wp_core_io text_setting_def wp_bind wp_return wp_GetSetting ticked_def all_done_def text_value_def
      split: option.splits)

lemma reads_setting: "reads (core_io (GetSetting k)) (\<lambda>st. Inr (st k))"
  by (simp add: reads_def wp_core_io wp_GetSetting ticked_def all_done_def)

lemma reads_seconds: "reads (seconds_setting k dflt) (\<lambda>st. int_value (\<lambda>n. n > 0) dflt (st k))"
  by (auto simp: reads_def seconds_setting_def wp_core_io wp_bind wp_return wp_GetSetting ticked_def all_done_def int_value_def
      split: option.splits)

lemma reads_upload: "reads MaxUploadBodyBytes (\<lambda>st. int_value (\<lambda>n. n \<ge> 0) 20971520 (st ''max_upload_body_bytes''))"
  by (auto simp: reads_def MaxUploadBodyBytes_def defaultMaxUploadBytes_def wp_core_io wp_bind wp_return wp_GetSetting ticked_def
      all_done_def int_value_def split: option.splits)

lemma reads_zip: "reads max_zip_bytes (\<lambda>st. MaxModuleZIPBytes (Inr (st ''max_module_zip_bytes'')))"
  by (simp add: reads_def max_zip_bytes_def SettingKeyMaxModuleZIPBytes_def wp_core_io wp_bind wp_return wp_GetSetting ticked_def all_done_def)

lemma reads_download: "reads InstallDownloadTimeoutSeconds
    (\<lambda>st. int_value (\<lambda>n. n > 0) 300 (st ''modules_install_download_timeout_seconds''))"
  by (auto simp: reads_def InstallDownloadTimeoutSeconds_def SettingKeyInstallDownloadTimeoutSeconds_def wp_core_io wp_bind wp_return
      wp_GetSetting ticked_def all_done_def int_value_def split: option.splits)

lemma reads_zone: "reads (core_io (SystemTimezoneRaw zones))
    (\<lambda>st. text_value (\<lambda>v. is_ok (ParseSystemTimezone zones v)) DefaultSystemTimezone (st SystemTimezoneSettingKey))"
  by (auto simp: reads_def SystemTimezoneRaw_def wp_core_io wp_bind wp_return wp_GetSetting ticked_def all_done_def text_value_def
      split: option.splits)

lemma wp_reads: "reads m f \<Longrightarrow> all_done (core s) \<Longrightarrow> wp (m \<bind> g) Q s = wp (g (f (settings (core s)))) Q (ticked s)"
  by (simp add: reads_def wp_bind)

lemma ticked_done [simp]: "all_done (core (ticked s)) = all_done (core s)" "settings (core (ticked s)) = settings (core s)"
  by (simp_all add: ticked_def all_done_def)

definition ticks :: "site \<Rightarrow> site \<Rightarrow> bool" where
  "ticks s t \<longleftrightarrow> (\<exists>n. t = s\<lparr>core := (core s)\<lparr>calls := n\<rparr>\<rparr>)"

lemma ticks_refl [simp]: "ticks s s"
  unfolding ticks_def by (rule exI [of _ "calls (core s)"]) simp

lemma ticks_ticked [simp]: "ticks s t \<Longrightarrow> ticks s (ticked t)"
  by (auto simp: ticks_def ticked_def)



lemma wp_currentLimits:
  assumes "all_done (core s)"
  shows "wp (currentLimitsSettings zones) (\<lambda>l t. l = limits_of zones (settings (core s)) \<and> ticks s t) s"
  unfolding currentLimitsSettings_def MaxBodyBytes_def MaxOPMLUploadBytes_def AuthRateLimitMax_def AIChatIPRateLimitMax_def
    GlobalRateLimitMax_def readRateLimitInt_def GeoTimeoutMS_def ProviderTimeoutSeconds_def resolveIntSetting_def
    SearchTimeoutSeconds_def FallbackTimeoutSeconds_def FetchTimeoutSeconds_def SyncIntervalSeconds_def
    GithubAPITimeoutSeconds_def ChatRPMLimit_def CheckWeekdaysRaw_def CheckTimeRaw_def
  by (simp add: wp_reads [OF reads_int] wp_reads [OF reads_text] wp_reads [OF reads_setting] wp_reads [OF reads_seconds]
      wp_reads [OF reads_upload] wp_reads [OF reads_zip] wp_reads [OF reads_download] wp_reads [OF reads_zone] assms wp_return
      limits_of_def SettingKeyAuthRateLimitMax_def SettingKeyAIChatIPRateLimitMax_def SettingKeyGlobalRateLimitMax_def
      DefaultAuthRateLimitMax_def DefaultAIChatRateLimitMax_def DefaultGlobalRateLimitMax_def)

section \<open>Writing\<close>

lemma atoi_show_nonneg: "0 \<le> n \<Longrightarrow> n \<le> max_int64 \<Longrightarrow> atoi (show_int n) = Some n"
proof (cases "n = 0")
  case True
  have "atoi (show_int 0) = Some 0" by code_simp
  then show ?thesis using True by simp
qed (simp add: atoi_show_int)

lemma show_int_nonempty: "0 \<le> n \<Longrightarrow> n \<le> max_int64 \<Longrightarrow> show_int n \<noteq> []"
  using atoi_show_nonneg by fastforce

text \<open>What the handler has checked when it saves, together with the range of Go's \<open>int\<close>.\<close>

definition limits_ok :: "LimitsSettings \<Rightarrow> bool" where
  "limits_ok b \<longleftrightarrow> (\<forall>(_, n)\<in>set (nonneg_limits b). 0 \<le> n \<and> n \<le> max_int64)
     \<and> (\<forall>(_, n)\<in>set (positive_limits b). 0 < n \<and> n \<le> max_int64)
     \<and> is_ok (ParseWeekdays (LS_CoreUpdateCheckWeekdays b)) \<and> is_ok (ParseTime (LS_CoreUpdateCheckTime b))"

lemma keys_distinct: "distinct (map fst (limit_settings b))"
  unfolding limit_settings_def list.map fst_conv by code_simp

lemma schedule_nonempty: "\<not> is_ok (ParseWeekdays [])" "\<not> is_ok (ParseTime [])"
proof -
  have "trim_space [] = []" by code_simp
  then show "\<not> is_ok (ParseWeekdays [])" "\<not> is_ok (ParseTime [])"
    by (simp_all add: ParseWeekdays_def ParseTime_def weekday_of_def numeral_2_eq_2)
qed

text \<open>Settings that hold every value of \<open>b\<close>.\<close>

definition holds_limits :: "LimitsSettings \<Rightarrow> (string \<rightharpoonup> string) \<Rightarrow> bool" where
  "holds_limits b st \<longleftrightarrow> (\<forall>(k, v)\<in>set (limit_settings b). st k = Some v)"

lemma holds_written: "holds_limits b (st ++ map_of (limit_settings b))"
  using keys_distinct [of b] by (auto simp: holds_limits_def map_add_def)

lemma limit_keys:
  "SettingKeyMaxModuleZIPBytes = ''max_module_zip_bytes''" "SettingKeyAuthRateLimitMax = ''auth_rate_limit_max''"
  "SettingKeyAIChatIPRateLimitMax = ''ai_chat_ip_rate_limit_max''" "SettingKeyGlobalRateLimitMax = ''global_rate_limit_max''"
  "SettingKeyInstallDownloadTimeoutSeconds = ''modules_install_download_timeout_seconds''"
  by (simp_all add: SettingKeyMaxModuleZIPBytes_def SettingKeyAuthRateLimitMax_def SettingKeyAIChatIPRateLimitMax_def
      SettingKeyGlobalRateLimitMax_def SettingKeyInstallDownloadTimeoutSeconds_def)

lemma int_value_stored:
  "good n \<Longrightarrow> 0 \<le> n \<Longrightarrow> n \<le> max_int64 \<Longrightarrow> int_value good dflt (Some (show_int n)) = n"
  by (simp add: int_value_def atoi_show_nonneg)

lemma limits_of_stored:
  assumes "limits_ok b" and "holds_limits b st"
  shows "limits_of zones st = b\<lparr>LS_SystemTimezone := LS_SystemTimezone (limits_of zones st)\<rparr>"
proof -
  note stored = assms(2) [unfolded holds_limits_def limit_settings_def list.set limit_keys, simplified]
  note ok = assms(1) [unfolded limits_ok_def nonneg_limits_def positive_limits_def list.set, simplified]
  have "LS_CoreUpdateCheckWeekdays b \<noteq> []" "LS_CoreUpdateCheckTime b \<noteq> []"
    using ok schedule_nonempty by auto
  moreover have "MaxModuleZIPBytes (Inr (Some (show_int n))) = n" if "0 \<le> n \<and> n \<le> max_int64" for n
    using that by (simp add: MaxModuleZIPBytes_def show_int_nonempty atoi_show_nonneg)
  moreover have "ConnPoolSize (Inr (Some (show_int n))) = n" if "0 < n \<and> n \<le> max_int64" for n
    using that by (simp add: ConnPoolSize_def show_int_nonempty atoi_show_nonneg)
  ultimately show ?thesis
    using ok by (intro LimitsSettings.equality)
      (simp_all add: limits_of_def Let_def stored int_value_stored text_value_def)
qed

lemma zone_of_written:
  "LS_SystemTimezone (limits_of zones (st ++ map_of (limit_settings b))) = LS_SystemTimezone (limits_of zones st)"
proof -
  have "SystemTimezoneSettingKey \<notin> fst ` set (limit_settings b)"
    by (simp add: limit_settings_def limit_keys SystemTimezoneSettingKey_def SettingKeyCheckWeekdays_def SettingKeyCheckTime_def)
  then have "map_of (limit_settings b) SystemTimezoneSettingKey = None" by (simp add: map_of_eq_None_iff)
  then show ?thesis by (simp add: limits_of_def Let_def map_add_def)
qed

lemma limits_checked:
  assumes "\<forall>(_, n)\<in>set (nonneg_limits b @ positive_limits b). n \<le> max_int64"
  shows "limits_ok b \<longleftrightarrow> find (\<lambda>(_, v). v < 0) (nonneg_limits b) = None \<and> find (\<lambda>(_, v). v \<le> 0) (positive_limits b) = None
    \<and> is_ok (ParseWeekdays (LS_CoreUpdateCheckWeekdays b)) \<and> is_ok (ParseTime (LS_CoreUpdateCheckTime b))"
  using assms by (fastforce simp: limits_ok_def find_None_iff not_less not_le)

lemma wp_AdminLimits:
  assumes "all_done (core s)" and "\<And>kvs. mset (shuffle kvs) = mset kvs" and "limits_ok b"
    and "\<forall>(_, n)\<in>set (nonneg_limits b @ positive_limits b). n \<le> max_int64" and "R_Method r = ''PATCH''"
  shows "wp (AdminLimitsHandler d zones json shuffle r (Some b)) (\<lambda>x t.
     x = Inr (b\<lparr>LS_SystemTimezone := LS_SystemTimezone (limits_of zones (settings (core t)))\<rparr>)
     \<and> all_done (core t) \<and> settings (core t) = settings (core s) ++ map_of (limit_settings b)) s"
proof -
  let ?st = "settings (core s) ++ map_of (limit_settings b)"
  let ?I = "\<lambda>w. all_done w \<and> settings w = ?st"
  let ?Q = "\<lambda>x t. x = Inr (b\<lparr>LS_SystemTimezone := LS_SystemTimezone (limits_of zones (settings (core t)))\<rparr>)
     \<and> all_done (core t) \<and> settings (core t) = ?st"
  have misc: "misc_stable ?I" by (simp add: misc_stable_def)
  have tz: "LS_SystemTimezone (limits_of zones m)
      = text_value (\<lambda>v. is_ok (ParseSystemTimezone zones v)) DefaultSystemTimezone (m SystemTimezoneSettingKey)" for m
    by (simp add: limits_of_def Let_def)
  have answer: "wp (do { core_io (audit_settings d r ''config.system_limits'' (json b));
        zone \<leftarrow> core_io (SystemTimezoneRaw zones);
        State_Monad.return (Inr (b\<lparr>LS_SystemTimezone := zone\<rparr>)) }) ?Q (s\<lparr>core := w\<rparr>)" if "?I w" for w
  proof -
    have "wp (audit_settings d r ''config.system_limits'' (json b)) (\<lambda>_. ?I) w"
      unfolding audit_settings_def by (intro keeps_wpD [where I = ?I, OF _ that] keeps_logAudit misc)
    then show ?thesis
      unfolding wp_bind [of "core_io (audit_settings _ _ _ _)"] wp_core_io
      by (simp, elim wp_mono) (simp add: wp_reads [OF reads_zone] wp_return tz)
  qed
  note p = map_of_perm [OF assms(2) keys_distinct]
  have "wp (do { saved \<leftarrow> core_io (set_settings (shuffle (limit_settings b)));
       (case saved of
          Inl _ \<Rightarrow> State_Monad.return (Inl (reject None 500 ''database error''))
        | Inr _ \<Rightarrow> do { core_io (audit_settings d r ''config.system_limits'' (json b));
            zone \<leftarrow> core_io (SystemTimezoneRaw zones);
            State_Monad.return (Inr (b\<lparr>LS_SystemTimezone := zone\<rparr>)) }) }) ?Q s"
    unfolding wp_bind [of "core_io (set_settings _)"] wp_core_io
    by (intro wp_set_settings, unfold p(2))
      (use assms(1) p(1) in \<open>auto simp: all_done_def intro!: answer [unfolded all_done_def]\<close>)
  then show ?thesis
    using assms(3,5) unfolding AdminLimitsHandler_def limits_checked [OF assms(4)] by simp
qed

text \<open>
  C37: limits that an administrator saves are the limits in force. A request with a value out of range
  or a schedule that does not parse is refused and changes nothing. Any other is answered with its
  values, and every later read of the limits gives them, all nineteen, each under its own key and in
  whatever order the map was written, with the time zone as it was, which the request cannot change.
\<close>

theorem limits_round_trip:
  assumes "all_done (core s)" and "\<And>kvs. mset (shuffle kvs) = mset kvs"
    and "\<forall>(_, n)\<in>set (nonneg_limits b @ positive_limits b). n \<le> max_int64" and "R_Method r = ''PATCH''"
    and "run_state (AdminLimitsHandler d zones json shuffle r (Some b)) s = (x, t)"
  shows "if limits_ok b
    then x = Inr (b\<lparr>LS_SystemTimezone := LS_SystemTimezone (limits_of zones (settings (core s)))\<rparr>)
      \<and> x = Inr (fst (run_state (currentLimitsSettings zones) t))
    else t = s \<and> (\<exists>resp. x = Inl resp \<and> Rs_Status resp = 400)"
proof (cases "limits_ok b")
  case True
  then have t: "x = Inr (b\<lparr>LS_SystemTimezone := LS_SystemTimezone (limits_of zones (settings (core t)))\<rparr>)"
    "all_done (core t)" "settings (core t) = settings (core s) ++ map_of (limit_settings b)"
    using wp_AdminLimits [OF assms(1,2) _ assms(3,4), of d zones json] assms(5) by (simp_all add: wp_run)
  have "fst (run_state (currentLimitsSettings zones) t) = limits_of zones (settings (core t))"
    using wp_currentLimits [OF t(2)] by (simp add: wp_run)
  moreover have "\<dots> = b\<lparr>LS_SystemTimezone := LS_SystemTimezone (limits_of zones (settings (core t)))\<rparr>"
    by (rule limits_of_stored [OF True]) (simp add: t(3) holds_written)
  ultimately show ?thesis
    using True t(1) by (simp add: t(3) zone_of_written)
next
  case False
  then show ?thesis
    using assms(4,5) unfolding limits_checked [OF assms(3)] AdminLimitsHandler_def
    by (auto simp: State_Monad.return_def reject_def answer_def split: option.splits if_splits)
qed

section \<open>A run\<close>

definition small_limits :: LimitsSettings where
  "small_limits = \<lparr>LS_MaxBodyBytes = 0, LS_MaxUploadBodyBytes = 2, LS_MaxModuleZIPBytes = 3, LS_MaxOPMLUploadBytes = 4,
     LS_AuthRateLimitMax = 5, LS_AIChatIPRateLimitMax = 6, LS_GlobalRateLimitMax = 7, LS_DenoConnPoolSize = 8,
     LS_GeoTimeoutMS = 9, LS_AIProviderTimeoutSeconds = 10, LS_SearchTimeoutSeconds = 11,
     LS_SearchFallbackTimeoutSeconds = 12, LS_NewsFetchTimeoutSeconds = 13, LS_StoreSyncIntervalSeconds = 14,
     LS_StoreGithubAPITimeoutSeconds = 15, LS_ModulesInstallDownloadTimeoutSecs = 16, LS_ChatRPMLimit = 17,
     LS_CoreUpdateCheckWeekdays = ''1,3'', LS_CoreUpdateCheckTime = ''04:30'', LS_SystemTimezone = ''UTC''\<rparr>"

definition patch_request :: Request where "patch_request = (post [])\<lparr>R_Method := ''PATCH''\<rparr>"

theorem limits_round_trip_witness:
  "let (x, t) = run_state (AdminLimitsHandler sample_deps (\<lambda>_. True) (\<lambda>_. ''{}'') rev patch_request (Some small_limits)) empty_site in
   x = Inr (fst (run_state (currentLimitsSettings (\<lambda>_. True)) t))
     \<and> LS_ChatRPMLimit (fst (run_state (currentLimitsSettings (\<lambda>_. True)) t)) = 17"
proof -
  let ?run = "run_state (AdminLimitsHandler sample_deps (\<lambda>_. True) (\<lambda>_. ''{}'') rev patch_request (Some small_limits)) empty_site"
  obtain x t where run: "?run = (x, t)" by (rule prod.exhaust)
  have done0: "all_done (core empty_site)" by (simp add: empty_site_def all_done_def empty_world_def)
  have small: "\<forall>(_, n)\<in>set (nonneg_limits small_limits @ positive_limits small_limits). n \<le> max_int64"
    by (simp add: nonneg_limits_def positive_limits_def small_limits_def max_int64_def)
  have meth: "R_Method patch_request = ''PATCH''" by (simp add: patch_request_def)
  have "is_ok (ParseWeekdays (LS_CoreUpdateCheckWeekdays small_limits))" "is_ok (ParseTime (LS_CoreUpdateCheckTime small_limits))"
    unfolding small_limits_def LimitsSettings.simps by code_simp+
  then have "limits_ok small_limits"
    using small by (simp add: limits_ok_def) (simp add: nonneg_limits_def positive_limits_def small_limits_def)
  then have "x = Inr (small_limits\<lparr>LS_SystemTimezone := LS_SystemTimezone (limits_of (\<lambda>_. True) (settings (core empty_site)))\<rparr>)"
    "x = Inr (fst (run_state (currentLimitsSettings (\<lambda>_. True)) t))"
    using limits_round_trip [OF done0 _ small meth run] by (auto simp only: if_True mset_rev)
  then show ?thesis by (simp add: run) (simp add: small_limits_def)
qed

end
