(* ===== verification/Portal.thy ===== *)
theory Portal
  imports Http "HOL-Library.Product_Lexorder"
begin

text \<open>
  Quick links (\<open>quicklinks/quicklinks.go\<close>, \<open>db/quicklinks.go\<close>) and the state they share with the AI
  providers: beside the world of the handlers the tables of links, of tile orders, of providers and
  of keys. Every call draws its outcome from the same sequence as the calls of the handlers.
\<close>

section \<open>State\<close>

text \<open>The rows as they are stored, and as they are handed out with title, URL and description in plain.\<close>

record AdminQuickLinkRow =
  AL_ID :: string
  AL_Title :: string
  AL_URL :: string
  AL_Icon :: string
  AL_Description :: string
  AL_SortOrder :: int
  AL_CreatedBy :: string
  AL_CreatedAt :: int

record UserQuickLinkRow =
  UL_ID :: string
  UL_UserID :: string
  UL_Title :: string
  UL_URL :: string
  UL_Icon :: string
  UL_Description :: string
  UL_SortOrder :: int
  UL_CreatedAt :: int

record TileRef =
  TR_Type :: string
  TR_ID :: string

record Tile =
  TI_ID :: string
  TI_Type :: string
  TI_Title :: string
  TI_URL :: string
  TI_Icon :: string
  TI_Description :: string
  TI_SortOrder :: int

record AdminTile =
  AT_ID :: string
  AT_Title :: string
  AT_URL :: string
  AT_Icon :: string
  AT_Description :: string
  AT_SortOrder :: int
  AT_CreatedBy :: string

record AIProviderRow =
  AP_ID :: string
  AP_Type :: string
  AP_Name :: string
  AP_BaseURL :: string
  AP_HasAdminKey :: bool
  AP_DefaultModel :: string
  AP_UserCanOverride :: bool
  AP_Enabled :: bool
  AP_SortOrder :: int

text \<open>A row of \<open>ai_user_keys\<close>, with the key encrypted.\<close>

record ai_user_key =
  AK_UserID :: string
  AK_ProviderID :: string
  AK_KeyEnc :: string
  AK_PreferredModel :: string

text \<open>A request to a provider: where it goes, the key that goes along, the model of a chat.\<close>

record ai_request =
  RQ_URL :: string
  RQ_Key :: string
  RQ_Model :: "string option"

text \<open>The JSON of an order is the order; a provider is its row with the encrypted key.\<close>

record portal =
  pt_core :: world
  admin_links :: "AdminQuickLinkRow list"
  user_links :: "UserQuickLinkRow list"
  tile_orders :: "string \<Rightarrow> TileRef list option"
  ai_providers :: "(AIProviderRow \<times> string option) list"
  ai_user_keys :: "ai_user_key list"
  preferred_providers :: "string \<Rightarrow> string"
  sent :: "ai_request list"

type_synonym 'a pio = "(portal, 'a) state"

text \<open>
  What surrounds the package: the UUID type and the ids of Postgres, and the scheme
  \<open>url.ParseRequestURI\<close> finds.
\<close>

record LinkDeps =
  LD_deps :: Deps
  LD_uuid :: "string \<Rightarrow> string option"
  LD_fresh :: "nat \<Rightarrow> string"
  LD_scheme :: "string \<Rightarrow> string option"

section \<open>Calls\<close>

definition pt_io :: "'a io \<Rightarrow> 'a pio" where
  "pt_io m = State_Monad.State (\<lambda>s. let (a, w) = run_state m (pt_core s) in (a, s\<lparr>pt_core := w\<rparr>))"

definition pt_ticked :: "portal \<Rightarrow> portal" where
  "pt_ticked s = s\<lparr>pt_core := (pt_core s)\<lparr>calls := Suc (calls (pt_core s))\<rparr>\<rparr>"

definition pt_query :: "(portal \<Rightarrow> 'a res) \<Rightarrow> 'a res pio" where
  "pt_query q = State_Monad.State (\<lambda>s.
     (case outcomes (pt_core s) (calls (pt_core s)) of Done \<Rightarrow> q s | _ \<Rightarrow> Inl ErrExternal, pt_ticked s))"

text \<open>A statement: what it answers and what it does; one that is refused does nothing.\<close>

definition pt_exec :: "(portal \<Rightarrow> 'a res) \<Rightarrow> (portal \<Rightarrow> portal) \<Rightarrow> 'a res pio" where
  "pt_exec q f = State_Monad.State (\<lambda>s.
     let t = (case q s of Inl _ \<Rightarrow> pt_ticked s | Inr _ \<Rightarrow> f (pt_ticked s)) in
     case outcomes (pt_core s) (calls (pt_core s)) of
       Done \<Rightarrow> (q s, t)
     | Lost \<Rightarrow> (Inl ErrExternal, pt_ticked s)
     | Unacked \<Rightarrow> (Inl ErrExternal, t))"

text \<open>Answers; a guard's answer is passed on.\<close>

datatype pbody =
    PNone
  | PMsg string
  | PID string
  | PTiles "Tile list"
  | PAdminTile AdminTile
  | PAdminTiles "AdminTile list"

type_synonym 'b presponse = "nat \<times> string option \<times> 'b"

definition guard_text :: "body \<Rightarrow> string" where
  "guard_text b = (case b of Message m \<Rightarrow> m | _ \<Rightarrow> [])"

definition pt_guard :: "(string \<Rightarrow> 'b) \<Rightarrow> Session guarded \<Rightarrow> (Session \<Rightarrow> 'b presponse pio) \<Rightarrow> 'b presponse pio" where
  "pt_guard msg m f = do {
     r \<leftarrow> pt_io m;
     (case r of
        Inl resp \<Rightarrow> State_Monad.return (Rs_Status resp, Rs_Cookie resp, msg (guard_text (Rs_Body resp)))
      | Inr sess \<Rightarrow> f sess) }"

definition pt_answer :: "Request \<Rightarrow> nat \<Rightarrow> 'b \<Rightarrow> 'b presponse pio" where
  "pt_answer r status b = State_Monad.return (status, cookie r, b)"

text \<open>An error of a call is answered with the status and text given.\<close>

definition pt_or :: "Request \<Rightarrow> nat \<Rightarrow> 'b \<Rightarrow> 'a res pio \<Rightarrow> ('a \<Rightarrow> 'b presponse pio) \<Rightarrow> 'b presponse pio" where
  "pt_or r status b m f = do { x \<leftarrow> m; case x of Inl _ \<Rightarrow> pt_answer r status b | Inr a \<Rightarrow> f a }"

definition server_error :: pbody where "server_error = PMsg ''internal server error''"

section \<open>Tables\<close>

text \<open>\<open>INTEGER\<close> columns hold 32 bits; a larger number is an error of the statement.\<close>

definition int4 :: "int \<Rightarrow> bool" where "int4 n \<longleftrightarrow> - (2 ^ 31) \<le> n \<and> n < 2 ^ 31"

definition has_user :: "string \<Rightarrow> portal \<Rightarrow> bool" where
  "has_user u s \<longleftrightarrow> find_user (users (pt_core s)) u \<noteq> None"

text \<open>The three encrypted columns of a link.\<close>

definition encrypt_link :: "Deps \<Rightarrow> string \<Rightarrow> string \<Rightarrow> string \<Rightarrow> (string \<times> string \<times> string) res io" where
  "encrypt_link d title url description =
     try_bind (encrypt_if_io d (d_PoolKey d) title) (\<lambda>t.
     try_bind (encrypt_if_io d (d_PoolKey d) url) (\<lambda>u.
     try_bind (encrypt_if_io d (d_PoolKey d) description) (\<lambda>e. ok (t, u, e))))"

definition decrypt_link :: "Deps \<Rightarrow> string \<Rightarrow> string \<Rightarrow> string \<Rightarrow> (string \<times> string \<times> string) res io" where
  "decrypt_link d title url description =
     try_bind (decrypt_if_io d (d_PoolKey d) title) (\<lambda>t.
     try_bind (decrypt_if_io d (d_PoolKey d) url) (\<lambda>u.
     try_bind (decrypt_if_io d (d_PoolKey d) description) (\<lambda>e. ok (t, u, e))))"

primrec decrypt_admin_links :: "Deps \<Rightarrow> AdminQuickLinkRow list \<Rightarrow> AdminQuickLinkRow list res io" where
  "decrypt_admin_links d [] = ok []"
| "decrypt_admin_links d (r # rs) =
     try_bind (decrypt_link d (AL_Title r) (AL_URL r) (AL_Description r)) (\<lambda>(t, u, e).
     try_bind (decrypt_admin_links d rs) (\<lambda>out.
       ok (r\<lparr>AL_Title := t, AL_URL := u, AL_Description := e\<rparr> # out)))"

primrec decrypt_user_links :: "Deps \<Rightarrow> UserQuickLinkRow list \<Rightarrow> UserQuickLinkRow list res io" where
  "decrypt_user_links d [] = ok []"
| "decrypt_user_links d (r # rs) =
     try_bind (decrypt_link d (UL_Title r) (UL_URL r) (UL_Description r)) (\<lambda>(t, u, e).
     try_bind (decrypt_user_links d rs) (\<lambda>out.
       ok (r\<lparr>UL_Title := t, UL_URL := u, UL_Description := e\<rparr> # out)))"

definition ListAdminQuickLinks :: "Deps \<Rightarrow> AdminQuickLinkRow list res pio" where
  "ListAdminQuickLinks d =
     try_bind (pt_query (\<lambda>s. Inr (sort_key (\<lambda>r. (AL_SortOrder r, AL_CreatedAt r)) (admin_links s)))) (\<lambda>rs.
       pt_io (decrypt_admin_links d rs))"

definition CreateAdminQuickLink ::
  "LinkDeps \<Rightarrow> string \<Rightarrow> string \<Rightarrow> string \<Rightarrow> string \<Rightarrow> int \<Rightarrow> string \<Rightarrow> AdminQuickLinkRow res pio" where
  "CreateAdminQuickLink ld title url icon description sortOrder createdBy =
     try_bind (pt_io (encrypt_link (LD_deps ld) title url description)) (\<lambda>(t, u, e).
     let row = (\<lambda>s. \<lparr>AL_ID = LD_fresh ld (calls (pt_core s)), AL_Title = t, AL_URL = u, AL_Icon = icon, AL_Description = e,
         AL_SortOrder = sortOrder, AL_CreatedBy = createdBy, AL_CreatedAt = now (pt_core s)\<rparr>) in
     try_bind (pt_exec (\<lambda>s. if int4 sortOrder then Inr (row (pt_ticked s)) else Inl ErrExternal)
         (\<lambda>s. s\<lparr>admin_links := admin_links s @ [row s]\<rparr>)) (\<lambda>r.
       ok (r\<lparr>AL_Title := title, AL_URL := url, AL_Description := description\<rparr>)))"

definition UpdateAdminQuickLink ::
  "LinkDeps \<Rightarrow> string \<Rightarrow> string \<Rightarrow> string \<Rightarrow> string \<Rightarrow> string \<Rightarrow> int \<Rightarrow> bool res pio" where
  "UpdateAdminQuickLink ld i title url icon description sortOrder =
     try_bind (pt_io (encrypt_link (LD_deps ld) title url description)) (\<lambda>(t, u, e).
       pt_exec (\<lambda>s. case LD_uuid ld i of
            None \<Rightarrow> Inl ErrExternal
          | Some k \<Rightarrow> if int4 sortOrder then Inr (\<exists>r\<in>set (admin_links s). AL_ID r = k) else Inl ErrExternal)
         (\<lambda>s. s\<lparr>admin_links := map (\<lambda>r. if Some (AL_ID r) = LD_uuid ld i
            then r\<lparr>AL_Title := t, AL_URL := u, AL_Icon := icon, AL_Description := e, AL_SortOrder := sortOrder\<rparr> else r)
            (admin_links s)\<rparr>))"

definition DeleteAdminQuickLink :: "LinkDeps \<Rightarrow> string \<Rightarrow> bool res pio" where
  "DeleteAdminQuickLink ld i =
     pt_exec (\<lambda>s. case LD_uuid ld i of None \<Rightarrow> Inl ErrExternal | Some k \<Rightarrow> Inr (\<exists>r\<in>set (admin_links s). AL_ID r = k))
       (\<lambda>s. s\<lparr>admin_links := filter (\<lambda>r. Some (AL_ID r) \<noteq> LD_uuid ld i) (admin_links s)\<rparr>)"

definition ListUserQuickLinks :: "Deps \<Rightarrow> string \<Rightarrow> UserQuickLinkRow list res pio" where
  "ListUserQuickLinks d userID =
     try_bind (pt_query (\<lambda>s. Inr (sort_key (\<lambda>r. (UL_SortOrder r, UL_CreatedAt r))
         (filter (\<lambda>r. UL_UserID r = userID) (user_links s))))) (\<lambda>rs.
       pt_io (decrypt_user_links d rs))"

definition CreateUserQuickLink :: "LinkDeps \<Rightarrow> string \<Rightarrow> string \<Rightarrow> string \<Rightarrow> string \<Rightarrow> string \<Rightarrow> string res pio" where
  "CreateUserQuickLink ld userID title url icon description =
     try_bind (pt_io (encrypt_link (LD_deps ld) title url description)) (\<lambda>(t, u, e).
       pt_exec (\<lambda>s. if has_user userID s then Inr (LD_fresh ld (Suc (calls (pt_core s)))) else Inl ErrExternal)
         (\<lambda>s. s\<lparr>user_links := user_links s @
            [\<lparr>UL_ID = LD_fresh ld (calls (pt_core s)), UL_UserID = userID, UL_Title = t, UL_URL = u, UL_Icon = icon,
              UL_Description = e, UL_SortOrder = 0, UL_CreatedAt = now (pt_core s)\<rparr>]\<rparr>))"

definition DeleteUserQuickLink :: "LinkDeps \<Rightarrow> string \<Rightarrow> string \<Rightarrow> bool res pio" where
  "DeleteUserQuickLink ld userID i =
     pt_exec (\<lambda>s. case LD_uuid ld i of
          None \<Rightarrow> Inl ErrExternal
        | Some k \<Rightarrow> Inr (\<exists>r\<in>set (user_links s). UL_ID r = k \<and> UL_UserID r = userID))
       (\<lambda>s. s\<lparr>user_links := filter (\<lambda>r. \<not> (Some (UL_ID r) = LD_uuid ld i \<and> UL_UserID r = userID)) (user_links s)\<rparr>)"

definition GetUserTileOrder :: "string \<Rightarrow> TileRef list res pio" where
  "GetUserTileOrder userID = pt_query (\<lambda>s. Inr (case tile_orders s userID of None \<Rightarrow> [] | Some refs \<Rightarrow> refs))"

definition SetUserTileOrder :: "string \<Rightarrow> TileRef list \<Rightarrow> unit res pio" where
  "SetUserTileOrder userID refs =
     pt_exec (\<lambda>s. if has_user userID s then Inr () else Inl ErrExternal)
       (\<lambda>s. s\<lparr>tile_orders := (tile_orders s)(userID \<mapsto> refs)\<rparr>)"

section \<open>Tiles\<close>

definition isValidTileURL :: "(string \<Rightarrow> string option) \<Rightarrow> string \<Rightarrow> bool" where
  "isValidTileURL scheme raw =
     (let s = trim_space raw in
      if s = [] then False
      else if has_prefix s ''/'' \<and> \<not> has_prefix s ''//'' then True
      else (case scheme s of None \<Rightarrow> False | Some p \<Rightarrow> p = ''http'' \<or> p = ''https''))"

definition admin_tile :: "AdminQuickLinkRow \<Rightarrow> Tile" where
  "admin_tile a = \<lparr>TI_ID = AL_ID a, TI_Type = ''admin'', TI_Title = AL_Title a, TI_URL = AL_URL a, TI_Icon = AL_Icon a,
     TI_Description = AL_Description a, TI_SortOrder = AL_SortOrder a\<rparr>"

definition user_tile :: "UserQuickLinkRow \<Rightarrow> Tile" where
  "user_tile u = \<lparr>TI_ID = UL_ID u, TI_Type = ''user'', TI_Title = UL_Title u, TI_URL = UL_URL u, TI_Icon = UL_Icon u,
     TI_Description = UL_Description u, TI_SortOrder = UL_SortOrder u\<rparr>"

text \<open>The tile a reference names: with equal ids the last row of the table is the one in the map.\<close>

definition tile_of :: "AdminQuickLinkRow list \<Rightarrow> UserQuickLinkRow list \<Rightarrow> TileRef \<Rightarrow> Tile option" where
  "tile_of adminLinks userLinks ref =
     (if TR_Type ref = ''admin'' then map_option admin_tile (find (\<lambda>a. AL_ID a = TR_ID ref) (rev adminLinks))
      else if TR_Type ref = ''user'' then map_option user_tile (find (\<lambda>u. UL_ID u = TR_ID ref) (rev userLinks))
      else None)"

definition mergedTiles :: "AdminQuickLinkRow list \<Rightarrow> UserQuickLinkRow list \<Rightarrow> TileRef list \<Rightarrow> Tile list" where
  "mergedTiles adminLinks userLinks order =
     (let placed = List.map_filter (tile_of adminLinks userLinks) order; seen = map TI_ID placed in
      placed @ map admin_tile (filter (\<lambda>a. AL_ID a \<notin> set seen) adminLinks)
             @ map user_tile (filter (\<lambda>u. UL_ID u \<notin> set seen) userLinks))"

section \<open>Handlers\<close>

text \<open>A body that does not decode is \<open>None\<close>.\<close>

record LinkBody =
  LB_Title :: string
  LB_URL :: string
  LB_Icon :: string
  LB_Description :: string
  LB_SortOrder :: int

definition logQuickLinkAudit :: "Deps \<Rightarrow> LogParams \<Rightarrow> unit pio" where
  "logQuickLinkAudit d p = pt_io (logAudit d p)"

text \<open>The checks of a link that is created or changed.\<close>

definition checked_link ::
  "LinkDeps \<Rightarrow> Request \<Rightarrow> LinkBody option \<Rightarrow> (LinkBody \<Rightarrow> pbody presponse pio) \<Rightarrow> pbody presponse pio" where
  "checked_link ld r body f =
     (case body of
        None \<Rightarrow> pt_answer r 400 (PMsg ''invalid json'')
      | Some b \<Rightarrow>
          if trim_space (LB_Title b) = [] \<or> trim_space (LB_URL b) = []
          then pt_answer r 400 (PMsg ''title and url are required'')
          else if \<not> isValidTileURL (LD_scheme ld) (LB_URL b)
          then pt_answer r 400 (PMsg ''url must be a valid http/https URL or an absolute path'')
          else f b)"

definition Links_ListHandler :: "LinkDeps \<Rightarrow> Request \<Rightarrow> pbody presponse pio" where
  "Links_ListHandler ld r = pt_guard PMsg (RequireActiveSession (LD_deps ld) r) (\<lambda>sess.
     pt_or r 500 server_error (ListAdminQuickLinks (LD_deps ld)) (\<lambda>adminLinks.
     pt_or r 500 server_error (ListUserQuickLinks (LD_deps ld) (S_UserID sess)) (\<lambda>userLinks.
     pt_or r 500 server_error (GetUserTileOrder (S_UserID sess)) (\<lambda>order.
       pt_answer r 200 (PTiles (mergedTiles adminLinks userLinks order))))))"

definition CreateUserLinkHandler :: "LinkDeps \<Rightarrow> Request \<Rightarrow> LinkBody option \<Rightarrow> pbody presponse pio" where
  "CreateUserLinkHandler ld r body = pt_guard PMsg (RequireActiveSession (LD_deps ld) r) (\<lambda>sess.
     checked_link ld r body (\<lambda>b.
       pt_or r 500 server_error
         (CreateUserQuickLink ld (S_UserID sess) (LB_Title b) (LB_URL b) (LB_Icon b) (LB_Description b)) (\<lambda>i.
       pt_answer r 201 (PID i))))"

text \<open>What a statement found, answered with 204 or 404.\<close>

definition found_or_404 :: "Request \<Rightarrow> bool res pio \<Rightarrow> unit pio \<Rightarrow> pbody presponse pio" where
  "found_or_404 r m audit = pt_or r 500 server_error m (\<lambda>found.
     if \<not> found then pt_answer r 404 (PMsg ''not found'')
     else do { audit; pt_answer r 204 PNone })"

definition DeleteUserLinkHandler :: "LinkDeps \<Rightarrow> Request \<Rightarrow> pbody presponse pio" where
  "DeleteUserLinkHandler ld r = pt_guard PMsg (RequireActiveSession (LD_deps ld) r) (\<lambda>sess.
     found_or_404 r (DeleteUserQuickLink ld (S_UserID sess) (R_PathID r)) (State_Monad.return ()))"

definition SaveOrderHandler :: "LinkDeps \<Rightarrow> Request \<Rightarrow> TileRef list option \<Rightarrow> pbody presponse pio" where
  "SaveOrderHandler ld r body = pt_guard PMsg (RequireActiveSession (LD_deps ld) r) (\<lambda>sess.
     case body of
       None \<Rightarrow> pt_answer r 400 (PMsg ''invalid json'')
     | Some order \<Rightarrow> pt_or r 500 server_error (SetUserTileOrder (S_UserID sess) order) (\<lambda>_. pt_answer r 204 PNone))"

definition admin_view :: "AdminQuickLinkRow \<Rightarrow> AdminTile" where
  "admin_view l = \<lparr>AT_ID = AL_ID l, AT_Title = AL_Title l, AT_URL = AL_URL l, AT_Icon = AL_Icon l,
     AT_Description = AL_Description l, AT_SortOrder = AL_SortOrder l, AT_CreatedBy = AL_CreatedBy l\<rparr>"

definition link_details :: "Deps \<Rightarrow> string \<Rightarrow> string \<Rightarrow> string" where
  "link_details d title url = json_obj [(''title'', d_quote d title), (''url'', d_quote d url)]"

definition Links_AdminListHandler :: "LinkDeps \<Rightarrow> Request \<Rightarrow> pbody presponse pio" where
  "Links_AdminListHandler ld r = pt_guard PMsg (RequireAdminSession (LD_deps ld) r) (\<lambda>_.
     pt_or r 500 server_error (ListAdminQuickLinks (LD_deps ld)) (\<lambda>links.
       pt_answer r 200 (PAdminTiles (map admin_view links))))"

definition Links_AdminCreateHandler :: "LinkDeps \<Rightarrow> Request \<Rightarrow> LinkBody option \<Rightarrow> pbody presponse pio" where
  "Links_AdminCreateHandler ld r body = pt_guard PMsg (RequireAdminSession (LD_deps ld) r) (\<lambda>sess.
     checked_link ld r body (\<lambda>b.
       pt_or r 500 server_error (CreateAdminQuickLink ld (LB_Title b) (LB_URL b) (LB_Icon b) (LB_Description b)
         (LB_SortOrder b) (S_UserID sess)) (\<lambda>link. do {
           logQuickLinkAudit (LD_deps ld) (log_params ''quicklink.created'' (S_UserID sess) (S_Email sess) (AL_ID link) []
             (link_details (LD_deps ld) (AL_Title link) (AL_URL link)));
           pt_answer r 201 (PAdminTile (admin_view link)) })))"

definition Links_AdminUpdateHandler :: "LinkDeps \<Rightarrow> Request \<Rightarrow> LinkBody option \<Rightarrow> pbody presponse pio" where
  "Links_AdminUpdateHandler ld r body = pt_guard PMsg (RequireAdminSession (LD_deps ld) r) (\<lambda>sess.
     checked_link ld r body (\<lambda>b.
       found_or_404 r (UpdateAdminQuickLink ld (R_PathID r) (LB_Title b) (LB_URL b) (LB_Icon b) (LB_Description b)
           (LB_SortOrder b))
         (logQuickLinkAudit (LD_deps ld) (log_params ''quicklink.updated'' (S_UserID sess) (S_Email sess) (R_PathID r) []
           (link_details (LD_deps ld) (LB_Title b) (LB_URL b))))))"

definition Links_AdminDeleteHandler :: "LinkDeps \<Rightarrow> Request \<Rightarrow> pbody presponse pio" where
  "Links_AdminDeleteHandler ld r = pt_guard PMsg (RequireAdminSession (LD_deps ld) r) (\<lambda>sess.
     found_or_404 r (DeleteAdminQuickLink ld (R_PathID r))
       (logQuickLinkAudit (LD_deps ld) (log_params ''quicklink.deleted'' (S_UserID sess) (S_Email sess) (R_PathID r) [] [])))"

end
