(* ===== verification/AiChat.thy ===== *)
theory AiChat
  imports Portal Gateway "HOL-Library.List_Lexorder" "HOL-Library.Char_ord"
begin

text \<open>
  AI providers and chats (\<open>ai/ai.go\<close>, \<open>db/ai.go\<close>): providers with a key of the administrator, keys of
  users, the request to a provider and the stream that comes back. What a provider answers and the
  JSON of its events are parameters; every request is recorded with the key that went along.
\<close>

section \<open>Parameters\<close>

text \<open>
  The answer of a provider to a request: the ids of its models, its balance, and the body of a
  stream with whether reading it failed; the text of an event, and the JSON of a chunk.
\<close>

record AiDeps =
  AI_deps :: Deps
  AI_models :: "nat \<Rightarrow> string \<Rightarrow> string \<Rightarrow> string list res"
  AI_balance :: "nat \<Rightarrow> string \<Rightarrow> (string \<times> string) res"
  AI_stream :: "nat \<Rightarrow> string \<Rightarrow> string \<Rightarrow> string \<Rightarrow> (string \<times> string) list \<Rightarrow> (string \<times> bool) res"
  AI_anthropic_event :: "string \<Rightarrow> string option"
  AI_openai_event :: "string \<Rightarrow> string option"
  AI_chunk :: "string \<Rightarrow> string"

text \<open>
  What is asked of the network goes into \<open>sent\<close>, whatever the outcome: the request the code hands to
  its HTTP client. The answer is what the client returns in the end; the redirects it may follow (for
  Anthropic \<open>http.DefaultClient\<close>, which keeps the header with the key) are not in \<open>sent\<close>.
\<close>

definition provider_call :: "ai_request \<Rightarrow> (nat \<Rightarrow> 'a res) \<Rightarrow> 'a res pio" where
  "provider_call q ans = State_Monad.State (\<lambda>s.
     (ans (calls (pt_core s)), (pt_ticked s)\<lparr>sent := sent s @ [q]\<rparr>))"

section \<open>Tables\<close>

definition has_key :: "string option \<Rightarrow> bool" where
  "has_key k \<longleftrightarrow> k \<noteq> None \<and> k \<noteq> Some []"

definition provider_view :: "AIProviderRow \<times> string option \<Rightarrow> AIProviderRow" where
  "provider_view p = (fst p)\<lparr>AP_HasAdminKey := has_key (snd p)\<rparr>"

definition find_provider :: "string \<Rightarrow> portal \<Rightarrow> (AIProviderRow \<times> string option) option" where
  "find_provider i s = find (\<lambda>p. AP_ID (fst p) = i) (ai_providers s)"

definition find_user_key :: "string \<Rightarrow> string \<Rightarrow> portal \<Rightarrow> ai_user_key option" where
  "find_user_key u i s = find (\<lambda>k. AK_UserID k = u \<and> AK_ProviderID k = i) (ai_user_keys s)"

definition provider_order :: "AIProviderRow \<Rightarrow> int \<times> string" where
  "provider_order p = (AP_SortOrder p, AP_Name p)"

definition GetPreferredProvider :: "string \<Rightarrow> string res pio" where
  "GetPreferredProvider userID =
     pt_query (\<lambda>s. if has_user userID s then Inr (preferred_providers s userID) else Inl ErrExternal)"

definition SetPreferredProvider :: "string \<Rightarrow> string \<Rightarrow> unit res pio" where
  "SetPreferredProvider userID providerID =
     pt_exec (\<lambda>_. Inr ())
       (\<lambda>s. if has_user userID s then s\<lparr>preferred_providers := (preferred_providers s)(userID := providerID)\<rparr> else s)"

definition ListAIProviders :: "AIProviderRow list res pio" where
  "ListAIProviders = pt_query (\<lambda>s. Inr (sort_key provider_order (map provider_view (ai_providers s))))"

definition GetAIProvider :: "string \<Rightarrow> AIProviderRow option res pio" where
  "GetAIProvider i = pt_query (\<lambda>s. Inr (map_option provider_view (find_provider i s)))"

text \<open>An empty key is \<open>NULL\<close>, which leaves the key of an existing row as it is.\<close>

definition upsert_provider :: "AIProviderRow \<Rightarrow> string option \<Rightarrow> portal \<Rightarrow> portal" where
  "upsert_provider row enc s = s\<lparr>ai_providers :=
     (if find_provider (AP_ID row) s = None then ai_providers s @ [(row, enc)]
      else map (\<lambda>p. if AP_ID (fst p) = AP_ID row then (row, if enc = None then snd p else enc) else p) (ai_providers s))\<rparr>"

definition UpsertAIProvider :: "Deps \<Rightarrow> AIProviderRow \<Rightarrow> string \<Rightarrow> unit res pio" where
  "UpsertAIProvider d row plainAdminKey =
     try_bind (if plainAdminKey = [] then ok None
       else try_bind (pt_io (encrypt_io d (d_PoolKey d) plainAdminKey)) (\<lambda>enc. ok (Some enc))) (\<lambda>encKey.
     pt_exec (\<lambda>_. if int4 (AP_SortOrder row) then Inr () else Inl ErrExternal) (upsert_provider row encKey))"

definition ClearAIProviderAdminKey :: "string \<Rightarrow> unit res pio" where
  "ClearAIProviderAdminKey i = pt_exec (\<lambda>_. Inr ())
     (\<lambda>s. s\<lparr>ai_providers := map (\<lambda>p. if AP_ID (fst p) = i then (fst p, None) else p) (ai_providers s)\<rparr>)"

definition decrypted_key :: "Deps \<Rightarrow> string option \<Rightarrow> string res pio" where
  "decrypted_key d enc = (if \<not> has_key enc then ok [] else pt_io (decrypt_io d (d_PoolKey d) (the enc)))"

definition GetAIProviderAdminKey :: "Deps \<Rightarrow> string \<Rightarrow> string res pio" where
  "GetAIProviderAdminKey d i =
     try_bind (pt_query (\<lambda>s. case find_provider i s of None \<Rightarrow> Inl ErrExternal | Some p \<Rightarrow> Inr (snd p))) (decrypted_key d)"

text \<open>The keys of users go with their provider.\<close>

definition DeleteAIProvider :: "string \<Rightarrow> bool res pio" where
  "DeleteAIProvider i = pt_exec (\<lambda>s. Inr (find_provider i s \<noteq> None))
     (\<lambda>s. s\<lparr>ai_providers := filter (\<lambda>p. AP_ID (fst p) \<noteq> i) (ai_providers s),
            ai_user_keys := filter (\<lambda>k. AK_ProviderID k \<noteq> i) (ai_user_keys s)\<rparr>)"

text \<open>Both halves of \<open>ResolveAIKey\<close>: the key of the user where the provider allows it, then the administrator's.\<close>

definition ResolveAIKey :: "Deps \<Rightarrow> string \<Rightarrow> string \<Rightarrow> string res pio" where
  "ResolveAIKey d userID providerID =
     try_bind (pt_query (\<lambda>s. Inr (case (find_user_key userID providerID s, find_provider providerID s) of
         (Some k, Some p) \<Rightarrow> Some (AK_KeyEnc k, AP_UserCanOverride (fst p))
       | _ \<Rightarrow> None))) (\<lambda>own.
     case own of
       Some (enc, canOverride) \<Rightarrow>
         if canOverride \<and> enc \<noteq> [] then pt_io (decrypt_io d (d_PoolKey d) enc)
         else try_bind (pt_query (\<lambda>s. Inr (case find_provider providerID s of None \<Rightarrow> None | Some p \<Rightarrow> snd p))) (decrypted_key d)
     | None \<Rightarrow>
         try_bind (pt_query (\<lambda>s. Inr (case find_provider providerID s of None \<Rightarrow> None | Some p \<Rightarrow> snd p))) (decrypted_key d))"

definition put_user_key :: "string \<Rightarrow> string \<Rightarrow> string \<Rightarrow> portal \<Rightarrow> portal" where
  "put_user_key userID providerID enc s = s\<lparr>ai_user_keys :=
     (if find_user_key userID providerID s = None
      then ai_user_keys s @ [\<lparr>AK_UserID = userID, AK_ProviderID = providerID, AK_KeyEnc = enc, AK_PreferredModel = []\<rparr>]
      else map (\<lambda>k. if AK_UserID k = userID \<and> AK_ProviderID k = providerID then k\<lparr>AK_KeyEnc := enc\<rparr> else k)
        (ai_user_keys s))\<rparr>"

definition SetAIUserKey :: "Deps \<Rightarrow> string \<Rightarrow> string \<Rightarrow> string \<Rightarrow> unit res pio" where
  "SetAIUserKey d userID providerID plainKey =
     try_bind (pt_io (encrypt_io d (d_PoolKey d) plainKey)) (\<lambda>enc.
     pt_exec (\<lambda>s. if has_user userID s \<and> find_provider providerID s \<noteq> None then Inr () else Inl ErrExternal)
       (put_user_key userID providerID enc))"

definition SetAIUserPreferredModel :: "string \<Rightarrow> string \<Rightarrow> string \<Rightarrow> unit res pio" where
  "SetAIUserPreferredModel userID providerID model =
     try_bind (pt_exec (\<lambda>s. Inr (find_user_key userID providerID s \<noteq> None))
       (\<lambda>s. s\<lparr>ai_user_keys := map (\<lambda>k. if AK_UserID k = userID \<and> AK_ProviderID k = providerID
          then k\<lparr>AK_PreferredModel := model\<rparr> else k) (ai_user_keys s)\<rparr>)) (\<lambda>found.
     if found then ok () else fail (ErrInvalid ''no user key found''))"

definition GetAIUserDecryptedKey :: "Deps \<Rightarrow> string \<Rightarrow> string \<Rightarrow> (string \<times> string) option res pio" where
  "GetAIUserDecryptedKey d userID providerID =
     try_bind (pt_query (\<lambda>s. Inr (find_user_key userID providerID s))) (\<lambda>k.
     case k of
       None \<Rightarrow> ok None
     | Some k \<Rightarrow> try_bind (pt_io (decrypt_io d (d_PoolKey d) (AK_KeyEnc k))) (\<lambda>plain. ok (Some (plain, AK_PreferredModel k))))"

definition DeleteAIUserKey :: "string \<Rightarrow> string \<Rightarrow> unit res pio" where
  "DeleteAIUserKey userID providerID = pt_exec (\<lambda>_. Inr ())
     (\<lambda>s. s\<lparr>ai_user_keys := filter (\<lambda>k. \<not> (AK_UserID k = userID \<and> AK_ProviderID k = providerID)) (ai_user_keys s)\<rparr>)"

text \<open>A provider with whether the user has a key for it, and their model.\<close>

definition with_user_key :: "string \<Rightarrow> portal \<Rightarrow> AIProviderRow \<times> string option \<Rightarrow> AIProviderRow \<times> bool \<times> string" where
  "with_user_key u s p = (provider_view p,
     (case find_user_key u (AP_ID (fst p)) s of None \<Rightarrow> (False, []) | Some k \<Rightarrow> (True, AK_PreferredModel k)))"

definition ListAIProvidersForUser :: "string \<Rightarrow> (AIProviderRow \<times> bool \<times> string) list res pio" where
  "ListAIProvidersForUser u = pt_query (\<lambda>s. Inr (sort_key (\<lambda>p. provider_order (fst p)) (map (with_user_key u s) (ai_providers s))))"

section \<open>Models\<close>

definition defaultBaseURL :: "string \<Rightarrow> string" where
  "defaultBaseURL providerType =
     (if providerType = ''openai'' then ''https://api.openai.com/v1''
      else if providerType = ''gemini'' then ''https://generativelanguage.googleapis.com/v1beta/openai''
      else if providerType = ''deepseek'' then ''https://api.deepseek.com/v1''
      else if providerType = ''kimi'' then ''https://api.moonshot.ai/v1''
      else if providerType = ''mistral'' then ''https://api.mistral.ai/v1''
      else if providerType = ''openrouter'' then ''https://openrouter.ai/api/v1''
      else if providerType = ''requesty'' then ''https://router.requesty.ai/v1''
      else [])"

text \<open>A date at the end of the id of a model is cut off for Anthropic, a prefix for Gemini.\<close>

definition normalizeModelID :: "string \<Rightarrow> string \<Rightarrow> string" where
  "normalizeModelID provType i =
     (if provType = ''gemini'' then trim_prefix i ''models/''
      else if provType = ''anthropic'' then
        (if length i > 9 \<and> i ! (length i - 9) = CHR ''-'' \<and> list_all is_digit (drop (length i - 8) i)
         then take (length i - 9) i else i)
      else i)"

definition isCompatibleModel :: "string \<Rightarrow> string \<Rightarrow> bool" where
  "isCompatibleModel provType modelID \<longleftrightarrow>
     provType \<noteq> ''gemini''
     \<or> (let l = to_lower modelID in
         \<not> list_ex (\<lambda>skip. index_of l skip \<noteq> None) [''live'', ''embedding'', ''-aqa'', ''imagen''])"

definition models_url :: "string \<Rightarrow> string \<Rightarrow> string" where
  "models_url provType baseURL =
     (if provType = ''anthropic'' then ''https://api.anthropic.com/v1/models'' else trim_right_slash baseURL @ ''/models'')"

definition fetchModels :: "AiDeps \<Rightarrow> string \<Rightarrow> string \<Rightarrow> string \<Rightarrow> string list res pio" where
  "fetchModels ad provType baseURL apiKey = do {
     timeout \<leftarrow> pt_io ProviderTimeoutSeconds;
     try_bind (provider_call \<lparr>RQ_URL = models_url provType baseURL, RQ_Key = apiKey, RQ_Model = None\<rparr>
         (\<lambda>n. AI_models ad n (models_url provType baseURL) apiKey)) (\<lambda>ids.
       ok (sort (map (normalizeModelID provType) (filter (\<lambda>i. i \<noteq> [] \<and> isCompatibleModel provType i) ids)))) }"

definition base_url :: "AIProviderRow \<Rightarrow> string" where
  "base_url p = (if AP_BaseURL p = [] then defaultBaseURL (AP_Type p) else AP_BaseURL p)"

section \<open>Streams\<close>

text \<open>
  \<open>bufio.Scanner\<close> over the lines of a body: a line of 65536 bytes or more ends the scan with an
  error. The last line may lack its end; a carriage return before the end is dropped.
\<close>

definition drop_cr :: "string \<Rightarrow> string" where
  "drop_cr l = (if l \<noteq> [] \<and> last l = CHR 0x0D then butlast l else l)"

fun scan_lines :: "string list \<Rightarrow> string list \<times> bool" where
  "scan_lines [] = ([], False)"
| "scan_lines [l] = (if length l \<ge> 65536 then ([], True) else if l = [] then ([], False) else ([drop_cr l], False))"
| "scan_lines (l # ls) =
     (if length l \<ge> 65536 then ([], True) else (let (out, e) = scan_lines ls in (drop_cr l # out, e)))"

definition sse :: "string \<Rightarrow> string" where
  "sse data = ''data: '' @ data @ [CHR 0x0A, CHR 0x0A]"

text \<open>What a stream passes on; the second part says whether the scan reached its end rather than \<open>[DONE]\<close>.\<close>

primrec stream_out :: "(string \<Rightarrow> string option) \<Rightarrow> (string \<Rightarrow> string) \<Rightarrow> string list \<Rightarrow> string \<times> bool" where
  "stream_out event chunk [] = ([], True)"
| "stream_out event chunk (line # ls) =
     (if \<not> has_prefix line ''data: '' then stream_out event chunk ls
      else let data = trim_prefix line ''data: '' in
        if data = ''[DONE]'' then ([], False)
        else (case event data of
           None \<Rightarrow> stream_out event chunk ls
         | Some delta \<Rightarrow> (let (out, e) = stream_out event chunk ls in (sse (chunk delta) @ out, e))))"

text \<open>The output of a stream and whether it ended in an error.\<close>

definition streamed :: "(string \<Rightarrow> string option) \<Rightarrow> (string \<Rightarrow> string) \<Rightarrow> (string \<times> bool) res \<Rightarrow> string \<times> bool" where
  "streamed event chunk ans =
     (case ans of
        Inl _ \<Rightarrow> ([], True)
      | Inr (txt, broken) \<Rightarrow>
          (let (ls, long) = scan_lines (split_on (CHR 0x0A) txt); (out, ended) = stream_out event chunk ls in
           (out, ended \<and> (long \<or> broken))))"

definition systemMessage :: string where
  "systemMessage = ''Always respond in the same language the user writes in. '' @
     ''If the user writes in German, reply in German. '' @ ''If the user writes in English, reply in English.''"

definition streamAnthropic :: "AiDeps \<Rightarrow> string \<Rightarrow> string \<Rightarrow> (string \<times> string) list \<Rightarrow> (string \<times> bool) pio" where
  "streamAnthropic ad apiKey model messages = do {
     x \<leftarrow> provider_call \<lparr>RQ_URL = ''https://api.anthropic.com/v1/messages'', RQ_Key = apiKey, RQ_Model = Some model\<rparr>
       (\<lambda>n. AI_stream ad n ''https://api.anthropic.com/v1/messages'' apiKey model ((''system'', systemMessage) # messages));
     State_Monad.return (streamed (AI_anthropic_event ad) (AI_chunk ad) x) }"

definition streamOpenAICompat :: "AiDeps \<Rightarrow> string \<Rightarrow> string \<Rightarrow> string \<Rightarrow> (string \<times> string) list \<Rightarrow> (string \<times> bool) pio" where
  "streamOpenAICompat ad apiKey baseURL model messages =
     (let url = trim_right_slash baseURL @ ''/chat/completions'' in do {
     x \<leftarrow> provider_call \<lparr>RQ_URL = url, RQ_Key = apiKey, RQ_Model = Some model\<rparr>
       (\<lambda>n. AI_stream ad n url apiKey model ((''system'', systemMessage) # messages));
     State_Monad.return (streamed (AI_openai_event ad) (AI_chunk ad) x) })"

section \<open>Handlers\<close>

datatype abody =
    ANone
  | AMsg string
  | AProviders "AIProviderRow list"
  | AProvider AIProviderRow
  | AUserProviders "(AIProviderRow \<times> bool \<times> string \<times> bool) list" string    \<comment> \<open>own key, model, available; the preferred one\<close>
  | AModels "string list"
  | ABalance bool "(string \<times> string) option"
  | AEvents string

type_synonym aresponse = "abody presponse"

text \<open>An answer of a handler behind the middleware, which adds the cookie.\<close>

definition ai_plain :: "nat \<Rightarrow> abody \<Rightarrow> aresponse pio" where
  "ai_plain status b = State_Monad.return (status, None, b)"

definition ai_or :: "nat \<Rightarrow> string \<Rightarrow> 'a res pio \<Rightarrow> ('a \<Rightarrow> aresponse pio) \<Rightarrow> aresponse pio" where
  "ai_or status msg m f = do { x \<leftarrow> m; case x of Inl _ \<Rightarrow> ai_plain status (AMsg msg) | Inr a \<Rightarrow> f a }"

definition ai_admin :: "Deps \<Rightarrow> (Request \<Rightarrow> aresponse pio) \<Rightarrow> Request \<Rightarrow> aresponse pio" where
  "ai_admin d h r = pt_guard AMsg (requireAdmin d r) (\<lambda>sess. do {
     (status, c, b) \<leftarrow> h (r\<lparr>R_Context := Some sess\<rparr>);
     State_Monad.return (status, if c = None then cookie r else c, b) })"

definition ai_admin_reauth :: "Deps \<Rightarrow> (Request \<Rightarrow> aresponse pio) \<Rightarrow> Request \<Rightarrow> aresponse pio" where
  "ai_admin_reauth d h = ai_admin d (\<lambda>r. case R_Context r of
      None \<Rightarrow> ai_plain 401 (AMsg ''invalid or expired session'')
    | Some sess \<Rightarrow> do {
        x \<leftarrow> pt_io (requireRecentLogin d None sess (R_Method r @ '' '' @ R_Path r));
        (case x of
           Inl resp \<Rightarrow> State_Monad.return (Rs_Status resp, Rs_Cookie resp, AMsg (guard_text (Rs_Body resp)))
         | Inr _ \<Rightarrow> h r) })"

record createProviderRequest =
  PR_ID :: string
  PR_Type :: string
  PR_Name :: string
  PR_BaseURL :: string
  PR_AdminKey :: string
  PR_DefaultModel :: string
  PR_UserCanOverride :: bool
  PR_Enabled :: bool
  PR_SortOrder :: int

record patchProviderRequest =
  PP_Name :: "string option"
  PP_BaseURL :: "string option"
  PP_AdminKey :: "string option"
  PP_DefaultModel :: "string option"
  PP_UserCanOverride :: "bool option"
  PP_Enabled :: "bool option"
  PP_SortOrder :: "int option"

definition validTypes :: "string list" where
  "validTypes = [''anthropic'', ''openai'', ''gemini'', ''deepseek'', ''kimi'', ''mistral'', ''openrouter'', ''requesty'',
     ''openai_compat'']"

definition no_provider :: AIProviderRow where
  "no_provider = \<lparr>AP_ID = [], AP_Type = [], AP_Name = [], AP_BaseURL = [], AP_HasAdminKey = False, AP_DefaultModel = [],
     AP_UserCanOverride = False, AP_Enabled = False, AP_SortOrder = 0\<rparr>"

definition ai_audit :: "Deps \<Rightarrow> Request \<Rightarrow> string \<Rightarrow> (string \<times> string) list \<Rightarrow> unit pio" where
  "ai_audit d r ev details = pt_io (logAudit d (log_params ev
     (case R_Context r of None \<Rightarrow> [] | Some s \<Rightarrow> S_UserID s) (case R_Context r of None \<Rightarrow> [] | Some s \<Rightarrow> S_Email s) [] []
     (json_obj details)))"

definition AI_AdminListHandler :: "Request \<Rightarrow> aresponse pio" where
  "AI_AdminListHandler r =
     (if R_Method r \<noteq> ''GET'' then ai_plain 405 (AMsg ''method not allowed'')
      else ai_or 500 ''internal error'' ListAIProviders (\<lambda>rows. ai_plain 200 (AProviders rows)))"

definition created_row :: "createProviderRequest \<Rightarrow> AIProviderRow" where
  "created_row q = \<lparr>AP_ID = PR_ID q, AP_Type = PR_Type q, AP_Name = PR_Name q, AP_BaseURL = PR_BaseURL q,
     AP_HasAdminKey = False, AP_DefaultModel = PR_DefaultModel q, AP_UserCanOverride = PR_UserCanOverride q,
     AP_Enabled = PR_Enabled q, AP_SortOrder = PR_SortOrder q\<rparr>"

definition AI_AdminCreateHandler :: "Deps \<Rightarrow> Request \<Rightarrow> createProviderRequest option \<Rightarrow> aresponse pio" where
  "AI_AdminCreateHandler d r req =
     (if R_Method r \<noteq> ''POST'' then ai_plain 405 (AMsg ''method not allowed'')
      else case req of
        None \<Rightarrow> ai_plain 400 (AMsg ''invalid request body'')
      | Some q \<Rightarrow>
          if PR_ID q = [] \<or> PR_Type q = [] \<or> PR_Name q = [] then ai_plain 400 (AMsg ''id, type, and name are required'')
          else if PR_Type q \<notin> set validTypes then ai_plain 400 (AMsg ''invalid type'')
          else ai_or 500 ''database error'' (UpsertAIProvider d (created_row q) (PR_AdminKey q)) (\<lambda>_. do {
            ai_audit d r ''config.ai_provider'' [(''action'', ''\"create\"''), (''provider_id'', d_quote d (PR_ID q)), (''name'', d_quote d (PR_Name q))];
            ai_or 500 ''internal error'' (GetAIProvider (PR_ID q)) (\<lambda>created.
              ai_plain 201 (AProvider (coalesce created no_provider))) }))"

definition patched_row :: "patchProviderRequest \<Rightarrow> AIProviderRow \<Rightarrow> AIProviderRow" where
  "patched_row q p = p\<lparr>AP_Name := coalesce (PP_Name q) (AP_Name p), AP_BaseURL := coalesce (PP_BaseURL q) (AP_BaseURL p),
     AP_DefaultModel := coalesce (PP_DefaultModel q) (AP_DefaultModel p),
     AP_UserCanOverride := coalesce (PP_UserCanOverride q) (AP_UserCanOverride p),
     AP_Enabled := coalesce (PP_Enabled q) (AP_Enabled p), AP_SortOrder := coalesce (PP_SortOrder q) (AP_SortOrder p)\<rparr>"

definition AI_AdminPatchHandler :: "Deps \<Rightarrow> Request \<Rightarrow> patchProviderRequest option \<Rightarrow> aresponse pio" where
  "AI_AdminPatchHandler d r req =
     (if R_Method r \<noteq> ''PATCH'' then ai_plain 405 (AMsg ''method not allowed'')
      else if R_PathID r = [] then ai_plain 400 (AMsg ''missing id'')
      else ai_or 500 ''internal error'' (GetAIProvider (R_PathID r)) (\<lambda>existing.
        case existing of
          None \<Rightarrow> ai_plain 404 (AMsg ''provider not found'')
        | Some p \<Rightarrow>
            (case req of
               None \<Rightarrow> ai_plain 400 (AMsg ''invalid request body'')
             | Some q \<Rightarrow>
                 ai_or 500 ''database error'' (UpsertAIProvider d (patched_row q p) (coalesce (PP_AdminKey q) [])) (\<lambda>_. do {
                   ai_audit d r ''config.ai_provider'' [(''action'', ''\"patch\"''), (''provider_id'', d_quote d (R_PathID r)),
                     (''name'', d_quote d (AP_Name (patched_row q p)))];
                   updated \<leftarrow> GetAIProvider (R_PathID r);
                   ai_plain 200 (AProvider (case updated of Inr (Some u) \<Rightarrow> u | _ \<Rightarrow> no_provider)) }))))"

definition AI_AdminDeleteHandler :: "Deps \<Rightarrow> Request \<Rightarrow> aresponse pio" where
  "AI_AdminDeleteHandler d r =
     (if R_Method r \<noteq> ''DELETE'' then ai_plain 405 (AMsg ''method not allowed'')
      else do {
        prov \<leftarrow> GetAIProvider (R_PathID r);
        (let name = (case prov of Inr (Some p) \<Rightarrow> AP_Name p | _ \<Rightarrow> R_PathID r) in
         ai_or 500 ''database error'' (DeleteAIProvider (R_PathID r)) (\<lambda>found.
           if \<not> found then ai_plain 404 (AMsg ''provider not found'')
           else do {
             ai_audit d r ''config.ai_provider.deleted'' [(''provider_id'', d_quote d (R_PathID r)), (''name'', d_quote d name)];
             ai_plain 204 ANone })) })"

definition AI_AdminClearKeyHandler :: "Deps \<Rightarrow> Request \<Rightarrow> aresponse pio" where
  "AI_AdminClearKeyHandler d r =
     (if R_Method r \<noteq> ''DELETE'' then ai_plain 405 (AMsg ''method not allowed'')
      else ai_or 500 ''database error'' (ClearAIProviderAdminKey (R_PathID r)) (\<lambda>_. do {
        ai_audit d r ''config.ai_provider.key_cleared'' [(''provider_id'', d_quote d (R_PathID r))];
        ai_plain 204 ANone }))"

text \<open>The provider of the path and its key, as the two handlers below ask for them.\<close>

definition with_admin_key :: "AiDeps \<Rightarrow> Request \<Rightarrow> (AIProviderRow \<Rightarrow> string \<Rightarrow> aresponse pio) \<Rightarrow> aresponse pio" where
  "with_admin_key ad r f =
     (if R_Method r \<noteq> ''GET'' then ai_plain 405 (AMsg ''method not allowed'')
      else do {
        prov \<leftarrow> GetAIProvider (R_PathID r);
        (case prov of
           Inr (Some p) \<Rightarrow> do {
             k \<leftarrow> GetAIProviderAdminKey (AI_deps ad) (R_PathID r);
             (case k of
                Inl _ \<Rightarrow> ai_plain 503 (AMsg ''no admin API key configured for this provider'')
              | Inr adminKey \<Rightarrow>
                  if adminKey = [] then ai_plain 503 (AMsg ''no admin API key configured for this provider'')
                  else f p adminKey) }
         | _ \<Rightarrow> ai_plain 404 (AMsg ''provider not found'')) })"

definition AI_AdminListModelsHandler :: "AiDeps \<Rightarrow> Request \<Rightarrow> aresponse pio" where
  "AI_AdminListModelsHandler ad r = with_admin_key ad r (\<lambda>p adminKey.
     ai_or 502 ''failed to fetch models from provider'' (fetchModels ad (AP_Type p) (base_url p) adminKey) (\<lambda>models.
       ai_plain 200 (AModels models)))"

definition fetchDeepSeekBalance :: "AiDeps \<Rightarrow> string \<Rightarrow> (string \<times> string) res pio" where
  "fetchDeepSeekBalance ad apiKey =
     provider_call \<lparr>RQ_URL = ''https://api.deepseek.com/user/balance'', RQ_Key = apiKey, RQ_Model = None\<rparr>
       (\<lambda>n. AI_balance ad n apiKey)"

definition AI_AdminBalanceHandler :: "AiDeps \<Rightarrow> Request \<Rightarrow> aresponse pio" where
  "AI_AdminBalanceHandler ad r = with_admin_key ad r (\<lambda>p adminKey.
     if AP_Type p = ''deepseek'' then do {
       bal \<leftarrow> fetchDeepSeekBalance ad adminKey;
       ai_plain 200 (ABalance True (case bal of Inl _ \<Rightarrow> None | Inr b \<Rightarrow> Some b)) }
     else ai_plain 200 (ABalance False None))"

section \<open>Handlers of users\<close>

definition ai_user :: "AiDeps \<Rightarrow> string \<Rightarrow> Request \<Rightarrow> (Session \<Rightarrow> aresponse pio) \<Rightarrow> aresponse pio" where
  "ai_user ad meth r f =
     (if R_Method r \<noteq> meth then ai_plain 405 (AMsg ''method not allowed'')
      else pt_guard AMsg (RequireActiveSession (AI_deps ad) r) f)"

definition user_view :: "AIProviderRow \<times> bool \<times> string \<Rightarrow> AIProviderRow \<times> bool \<times> string \<times> bool" where
  "user_view row = (case row of (p, hasKey, model) \<Rightarrow> (p, hasKey, model, AP_HasAdminKey p \<or> hasKey \<and> AP_UserCanOverride p))"

definition AI_UserProvidersHandler :: "AiDeps \<Rightarrow> Request \<Rightarrow> aresponse pio" where
  "AI_UserProvidersHandler ad r = ai_user ad ''GET'' r (\<lambda>sess.
     pt_or r 500 (AMsg ''internal error'') (ListAIProvidersForUser (S_UserID sess)) (\<lambda>rows. do {
       pref \<leftarrow> GetPreferredProvider (S_UserID sess);
       pt_answer r 200 (AUserProviders (map user_view rows) (case pref of Inl _ \<Rightarrow> [] | Inr i \<Rightarrow> i)) }))"

definition UserSetPreferredProviderHandler :: "AiDeps \<Rightarrow> Request \<Rightarrow> string option \<Rightarrow> aresponse pio" where
  "UserSetPreferredProviderHandler ad r body = ai_user ad ''PATCH'' r (\<lambda>sess.
     case body of
       None \<Rightarrow> pt_answer r 400 (AMsg ''invalid request body'')
     | Some i \<Rightarrow> pt_or r 500 (AMsg ''database error'') (SetPreferredProvider (S_UserID sess) i) (\<lambda>_. pt_answer r 204 ANone))"

definition ai_user_audit :: "AiDeps \<Rightarrow> Session \<Rightarrow> string \<Rightarrow> string \<Rightarrow> unit pio" where
  "ai_user_audit ad sess ev providerID = pt_io (logAudit (AI_deps ad)
     (log_params ev (S_UserID sess) (S_Email sess) [] [] (json_obj [(''provider_id'', d_quote (AI_deps ad) providerID)])))"

text \<open>The key of the body; an empty one is none.\<close>

definition AI_UserSetKeyHandler :: "AiDeps \<Rightarrow> Request \<Rightarrow> string option \<Rightarrow> aresponse pio" where
  "AI_UserSetKeyHandler ad r body = ai_user ad ''PUT'' r (\<lambda>sess.
     if R_PathID r = [] then pt_answer r 400 (AMsg ''missing provider id'')
     else do {
       prov \<leftarrow> GetAIProvider (R_PathID r);
       (case prov of
          Inr (Some p) \<Rightarrow>
            if \<not> AP_UserCanOverride p then pt_answer r 403 (AMsg ''this provider does not allow user keys'')
            else if coalesce body [] = [] then pt_answer r 400 (AMsg ''key is required'')
            else pt_or r 500 (AMsg ''database error'')
              (SetAIUserKey (AI_deps ad) (S_UserID sess) (R_PathID r) (coalesce body [])) (\<lambda>_. do {
                ai_user_audit ad sess ''ai.user_key_set'' (R_PathID r);
                pt_answer r 204 ANone })
        | _ \<Rightarrow> pt_answer r 404 (AMsg ''provider not found'')) })"

definition AI_UserDeleteKeyHandler :: "AiDeps \<Rightarrow> Request \<Rightarrow> aresponse pio" where
  "AI_UserDeleteKeyHandler ad r = ai_user ad ''DELETE'' r (\<lambda>sess.
     pt_or r 500 (AMsg ''database error'') (DeleteAIUserKey (S_UserID sess) (R_PathID r)) (\<lambda>_. do {
       ai_user_audit ad sess ''ai.user_key_deleted'' (R_PathID r);
       pt_answer r 204 ANone }))"

definition UserSetPreferredModelHandler :: "AiDeps \<Rightarrow> Request \<Rightarrow> string option \<Rightarrow> aresponse pio" where
  "UserSetPreferredModelHandler ad r body = ai_user ad ''PATCH'' r (\<lambda>sess.
     if coalesce body [] = [] then pt_answer r 400 (AMsg ''model is required'')
     else pt_or r 500 (AMsg ''database error'')
       (SetAIUserPreferredModel (S_UserID sess) (R_PathID r) (coalesce body [])) (\<lambda>_. pt_answer r 204 ANone))"

definition UserListModelsHandler :: "AiDeps \<Rightarrow> Request \<Rightarrow> aresponse pio" where
  "UserListModelsHandler ad r = ai_user ad ''GET'' r (\<lambda>sess. do {
     prov \<leftarrow> GetAIProvider (R_PathID r);
     (case prov of
        Inr (Some p) \<Rightarrow> do {
          k \<leftarrow> GetAIUserDecryptedKey (AI_deps ad) (S_UserID sess) (R_PathID r);
          (case k of
             Inr (Some (userKey, _)) \<Rightarrow>
               if userKey = [] then pt_answer r 503 (AMsg ''no user key stored for this provider'')
               else pt_or r 502 (AMsg ''failed to fetch models from provider'')
                 (fetchModels ad (AP_Type p) (base_url p) userKey) (\<lambda>models. pt_answer r 200 (AModels models))
           | _ \<Rightarrow> pt_answer r 503 (AMsg ''no user key stored for this provider'')) }
      | _ \<Rightarrow> pt_answer r 404 (AMsg ''provider not found'')) })"

section \<open>Chats\<close>

record chatRequest =
  CH_ProviderID :: string
  CH_Model :: string
  CH_Messages :: "(string \<times> string) list"

text \<open>The limit of chats per user and minute; without Valkey every chat passes.\<close>

definition chat_allowed :: "Deps \<Rightarrow> Session \<Rightarrow> bool io" where
  "chat_allowed d sess = do {
     rpmLimit \<leftarrow> ChatRPMLimit;
     (if rpmLimit \<le> 0 then State_Monad.return True
      else do {
        counted \<leftarrow> IncrExpire (''ratelimit:chat:'' @ S_UserID sess) 60000000000;
        (case counted of
           Inl _ \<Rightarrow> State_Monad.return True
         | Inr hits \<Rightarrow>
             if hits \<le> rpmLimit then State_Monad.return True
             else do {
               _ \<leftarrow> (if hits = rpmLimit + 1 then Publish AdminChannel ''rate_limit.exceeded'' else ok ());
               logAudit d (log_params ''rate_limit.exceeded'' (S_UserID sess) (S_Email sess) [] []
                 (json_obj [(''label'', ''\"chat\"''), (''count'', show_int hits), (''max'', show_int rpmLimit)]));
               State_Monad.return False }) }) }"

text \<open>The key and the model of a chat, or the answer when there is none.\<close>

definition chat_key :: "AiDeps \<Rightarrow> Session \<Rightarrow> AIProviderRow \<Rightarrow> ((nat \<times> string) + (string \<times> string)) pio" where
  "chat_key ad sess p = do {
     own \<leftarrow> GetAIUserDecryptedKey (AI_deps ad) (S_UserID sess) (AP_ID p);
     (case own of
        Inl _ \<Rightarrow> State_Monad.return (Inl (500, ''internal error''))
      | Inr k \<Rightarrow>
          (let userKey = (case k of None \<Rightarrow> [] | Some (userKey, _) \<Rightarrow> userKey);
               preferredModel = (case k of None \<Rightarrow> [] | Some (_, preferredModel) \<Rightarrow> preferredModel) in
           if k \<noteq> None \<and> AP_UserCanOverride p \<and> userKey \<noteq> []
           then State_Monad.return (Inr (userKey, if preferredModel \<noteq> [] then preferredModel else AP_DefaultModel p))
           else do {
             admin \<leftarrow> GetAIProviderAdminKey (AI_deps ad) (AP_ID p);
             State_Monad.return (case admin of
                Inl _ \<Rightarrow> Inl (503, ''no API key configured for this provider'')
              | Inr adminKey \<Rightarrow>
                  if adminKey = [] then Inl (503, ''no API key configured for this provider'')
                  else Inr (adminKey, AP_DefaultModel p)) })) }"

definition run_chat :: "AiDeps \<Rightarrow> Request \<Rightarrow> AIProviderRow \<Rightarrow> (string \<times> string) list \<Rightarrow> string \<Rightarrow> string \<Rightarrow> aresponse pio" where
  "run_chat ad r p messages apiKey model =
     (if model = [] then pt_answer r 503 (AMsg ''no model selected for this provider'')
      else do {
        (out, err) \<leftarrow> (if AP_Type p = ''anthropic'' then streamAnthropic ad apiKey model messages
          else streamOpenAICompat ad apiKey (base_url p) model messages);
        pt_answer r 200 (AEvents (out @ (if err then sse ''{\"error\":\"stream error\"}'' else []) @ sse ''[DONE]'')) })"

definition ChatHandler :: "AiDeps \<Rightarrow> Request \<Rightarrow> chatRequest option \<Rightarrow> aresponse pio" where
  "ChatHandler ad r req = ai_user ad ''POST'' r (\<lambda>sess. do {
     allowed \<leftarrow> pt_io (chat_allowed (AI_deps ad) sess);
     (if \<not> allowed then pt_answer r 429 (AMsg ''rate limit exceeded'')
      else case req of
        None \<Rightarrow> pt_answer r 400 (AMsg ''invalid request body'')
      | Some q \<Rightarrow>
          if CH_ProviderID q = [] \<or> CH_Messages q = [] then pt_answer r 400 (AMsg ''provider_id and messages are required'')
          else do {
            prov \<leftarrow> GetAIProvider (CH_ProviderID q);
            (case prov of
               Inr (Some p) \<Rightarrow>
                 if \<not> AP_Enabled p then pt_answer r 404 (AMsg ''provider not found or disabled'')
                 else do {
                   k \<leftarrow> chat_key ad sess p;
                   (case k of
                      Inl (status, msg) \<Rightarrow> pt_answer r status (AMsg msg)
                    | Inr (apiKey, model) \<Rightarrow> run_chat ad r p (CH_Messages q) apiKey model) }
             | _ \<Rightarrow> pt_answer r 404 (AMsg ''provider not found or disabled'')) }) })"

end
