(* ===== verification/PortalLaws.thy ===== *)
theory PortalLaws
  imports Portal LoginFlows "HOL-Library.Multiset"
begin

text \<open>
  The page of a user shows every link exactly once, in the order they chose; and no request of a
  user touches or shows the links of another.
\<close>

section \<open>Calls\<close>

lemma wp_pt_io [io_simps]: "wp (pt_io m) Q = (\<lambda>s. wp m (\<lambda>a w. Q a (s\<lparr>pt_core := w\<rparr>)) (pt_core s))"
  by (auto simp: fun_eq_iff wp_def pt_io_def split: prod.splits)

text \<open>A property of the tables alone.\<close>

definition core_blind :: "(portal \<Rightarrow> bool) \<Rightarrow> bool" where
  "core_blind I \<longleftrightarrow> (\<forall>s w. I s \<longrightarrow> I (s\<lparr>pt_core := w\<rparr>))"

lemma core_blindD: "core_blind I \<Longrightarrow> I s \<Longrightarrow> I (s\<lparr>pt_core := w\<rparr>)"
  by (simp add: core_blind_def)

lemma core_blind_ticked: "core_blind I \<Longrightarrow> I s \<Longrightarrow> I (pt_ticked s)"
  by (simp add: pt_ticked_def core_blindD)

lemma keeps_pt_io [inv_intros]: "core_blind I \<Longrightarrow> keeps I (pt_io m)"
  by (auto simp: keeps_def pt_io_def core_blindD split: prod.splits)

lemma keeps_pt_query [inv_intros]: "core_blind I \<Longrightarrow> keeps I (pt_query q)"
  by (simp add: keeps_def pt_query_def core_blind_ticked)

lemma keeps_pt_exec: "core_blind I \<Longrightarrow> (\<And>s. I s \<Longrightarrow> I (f s)) \<Longrightarrow> keeps I (pt_exec q f)"
  by (auto simp: keeps_def pt_exec_def Let_def core_blind_ticked split: outcome.splits sum.splits)

lemma keeps_pt_answer [inv_intros]: "keeps I (pt_answer r st b)"
  unfolding pt_answer_def by (intro inv_intros)

lemma keeps_pt_or [inv_intros]: "keeps I m \<Longrightarrow> (\<And>a. keeps I (f a)) \<Longrightarrow> keeps I (pt_or r st b m f)"
  unfolding pt_or_def by (intro inv_intros)

lemma wp_pt_answer [io_simps]: "wp (pt_answer r st b) Q = Q (st, cookie r, b)"
  by (simp add: pt_answer_def wp_return)

lemma wp_pt_or [io_simps]:
  "wp (pt_or r st b m f) Q =
     wp m (\<lambda>x t. (\<forall>e. x = Inl e \<longrightarrow> Q (st, cookie r, b) t) \<and> (\<forall>a. x = Inr a \<longrightarrow> wp (f a) Q t))"
  by (auto simp: wp_def pt_or_def pt_answer_def fun_eq_iff split: prod.splits sum.splits)

lemma wp_pt_guard:
  "wp (pt_guard msg m f) Q s \<longleftrightarrow> wp m (\<lambda>x w.
     (\<forall>resp. x = Inl resp \<longrightarrow> Q (Rs_Status resp, Rs_Cookie resp, msg (guard_text (Rs_Body resp))) (s\<lparr>pt_core := w\<rparr>))
     \<and> (\<forall>sess. x = Inr sess \<longrightarrow> wp (f sess) Q (s\<lparr>pt_core := w\<rparr>))) (pt_core s)"
  by (auto simp: wp_def pt_guard_def pt_io_def split: prod.splits sum.splits)

text \<open>The session behind a request that gets past the guard.\<close>

definition active_session :: "Deps \<Rightarrow> world \<Rightarrow> Request \<Rightarrow> Session \<Rightarrow> bool" where
  "active_session d w r sess \<longleftrightarrow> passed d w r sess \<and> S_Role sess \<noteq> RolePending \<and> \<not> S_Locked sess"

lemma wp_active:
  assumes "cache_ok (gcm (pt_core s))"
    and "\<And>sess w. active_session d (pt_core s) r sess \<Longrightarrow> wp (f sess) Q (s\<lparr>pt_core := w\<rparr>)"
    and "\<And>st c b w. 400 \<le> st \<Longrightarrow> Q (st, c, msg b) (s\<lparr>pt_core := w\<rparr>)"
  shows "wp (pt_guard msg (RequireActiveSession d r) f) Q s"
  unfolding wp_pt_guard
  by (rule wp_RequireActive [OF assms(1)]) (auto simp: active_session_def intro!: assms(2,3))

section \<open>Tiles\<close>

lemma find_unique:
  "distinct (map f xs) \<Longrightarrow> find (\<lambda>y. f y = k) xs = Some x \<longleftrightarrow> x \<in> set xs \<and> f x = k"
  by (induction xs) auto

definition ids_distinct :: "AdminQuickLinkRow list \<Rightarrow> UserQuickLinkRow list \<Rightarrow> bool" where
  "ids_distinct A U \<longleftrightarrow> distinct (map AL_ID A @ map UL_ID U)"

lemma tile_of_Some:
  assumes "ids_distinct A U"
  shows "tile_of A U ref = Some t \<longleftrightarrow> TR_Type ref = ''admin'' \<and> (\<exists>a\<in>set A. AL_ID a = TR_ID ref \<and> t = admin_tile a)
     \<or> TR_Type ref = ''user'' \<and> (\<exists>u\<in>set U. UL_ID u = TR_ID ref \<and> t = user_tile u)"
proof -
  have "distinct (map AL_ID (rev A))" "distinct (map UL_ID (rev U))"
    using assms by (simp_all add: ids_distinct_def flip: rev_map)
  then show ?thesis
    by (auto simp: tile_of_def find_unique)
qed

lemma tile_id: "tile_of A U ref = Some t \<Longrightarrow> TI_ID t = TR_ID ref"
  by (auto simp: tile_of_def admin_tile_def user_tile_def find_Some_iff split: if_splits)

lemma tile_ids [simp]: "TI_ID (admin_tile a) = AL_ID a" "TI_ID (user_tile u) = UL_ID u"
  by (simp_all add: admin_tile_def user_tile_def)

definition names_tile :: "AdminQuickLinkRow list \<Rightarrow> UserQuickLinkRow list \<Rightarrow> TileRef \<Rightarrow> bool" where
  "names_tile A U ref \<longleftrightarrow> tile_of A U ref \<noteq> None"

lemma placed_ids: "map TI_ID (List.map_filter (tile_of A U) order) = map TR_ID (filter (names_tile A U) order)"
  by (induction order) (auto simp: map_filter_simps names_tile_def tile_id split: option.splits)

lemma in_placed: "t \<in> set (List.map_filter f order) \<longleftrightarrow> (\<exists>ref\<in>set order. f ref = Some t)"
  by (force simp: map_filter_def)

text \<open>A link whose id is among those placed is placed itself.\<close>

lemma placed_row:
  assumes "ids_distinct A U"
  shows "a \<in> set A \<Longrightarrow> AL_ID a \<in> TI_ID ` set (List.map_filter (tile_of A U) order) \<Longrightarrow>
      admin_tile a \<in> set (List.map_filter (tile_of A U) order)"
    and "u \<in> set U \<Longrightarrow> UL_ID u \<in> TI_ID ` set (List.map_filter (tile_of A U) order) \<Longrightarrow>
      user_tile u \<in> set (List.map_filter (tile_of A U) order)"
proof -
  have A: "a \<in> set A \<Longrightarrow> a' \<in> set A \<Longrightarrow> AL_ID a = AL_ID a' \<Longrightarrow> a = a'" for a a'
    using assms by (auto simp: ids_distinct_def distinct_map inj_on_def)
  have U: "u \<in> set U \<Longrightarrow> u' \<in> set U \<Longrightarrow> UL_ID u = UL_ID u' \<Longrightarrow> u = u'" for u u'
    using assms by (auto simp: ids_distinct_def distinct_map inj_on_def)
  have AU: "a \<in> set A \<Longrightarrow> u \<in> set U \<Longrightarrow> AL_ID a \<noteq> UL_ID u" for a u
    using assms by (auto simp: ids_distinct_def)
  have placed: "t \<in> set (List.map_filter (tile_of A U) order) \<Longrightarrow>
      (\<exists>a\<in>set A. t = admin_tile a) \<or> (\<exists>u\<in>set U. t = user_tile u)" for t
    by (auto simp: in_placed tile_of_Some [OF assms])
  {
    assume a: "a \<in> set A" and "AL_ID a \<in> TI_ID ` set (List.map_filter (tile_of A U) order)"
    then obtain t where t: "t \<in> set (List.map_filter (tile_of A U) order)" "TI_ID t = AL_ID a" by auto
    then have "t = admin_tile a" using placed [OF t(1)] t(2) A [OF a] AU [OF a] by (metis tile_ids)
    with t show "admin_tile a \<in> set (List.map_filter (tile_of A U) order)" by simp
  next
    assume u: "u \<in> set U" and "UL_ID u \<in> TI_ID ` set (List.map_filter (tile_of A U) order)"
    then obtain t where t: "t \<in> set (List.map_filter (tile_of A U) order)" "TI_ID t = UL_ID u" by auto
    then have "t = user_tile u" using placed [OF t(1)] t(2) U [OF u] AU [OF _ u] by (metis tile_ids)
    with t show "user_tile u \<in> set (List.map_filter (tile_of A U) order)" by simp
  }
qed

text \<open>
  C38: no link is lost. Whatever order a user has saved, the page shows the tiles of exactly the
  links of the administrators and of the user; the ones named in the order come first and in that
  order. If the order names no id twice, every link is shown exactly once.
\<close>

theorem tiles_complete:
  assumes "ids_distinct A U"
  shows "set (mergedTiles A U order) = admin_tile ` set A \<union> user_tile ` set U
    \<and> (\<exists>rest. map TI_ID (mergedTiles A U order) = map TR_ID (filter (names_tile A U) order) @ rest)
    \<and> (distinct (map TR_ID order) \<longrightarrow> mset (mergedTiles A U order) = mset (map admin_tile A @ map user_tile U))"
proof -
  let ?p = "List.map_filter (tile_of A U) order"
  have split: "mergedTiles A U order = ?p @ map admin_tile (filter (\<lambda>a. AL_ID a \<notin> TI_ID ` set ?p) A)
      @ map user_tile (filter (\<lambda>u. UL_ID u \<notin> TI_ID ` set ?p) U)"
    by (simp add: mergedTiles_def Let_def)
  have sub: "set ?p \<subseteq> admin_tile ` set A \<union> user_tile ` set U"
    using tile_of_Some [OF assms] by (auto simp: in_placed)
  have all: "set (mergedTiles A U order) = admin_tile ` set A \<union> user_tile ` set U"
    unfolding split using sub placed_row [OF assms] by auto
  have once: "mset (mergedTiles A U order) = mset (map admin_tile A @ map user_tile U)" if "distinct (map TR_ID order)"
  proof -
    have ids: "distinct (map AL_ID A)" "distinct (map UL_ID U)" "AL_ID ` set A \<inter> UL_ID ` set U = {}"
      using assms by (auto simp: ids_distinct_def)
    have "distinct (map TI_ID ?p)"
      unfolding placed_ids using that by (simp add: distinct_map_filter)
    moreover define S where "S = TI_ID ` set ?p"
    moreover from this have "TI_ID x \<in> S" if "x \<in> set ?p" for x using that by simp
    ultimately have "distinct (map TI_ID (mergedTiles A U order))"
      unfolding split S_def [symmetric] using ids by (fastforce simp: distinct_map_filter comp_def)
    then have "distinct (mergedTiles A U order)" by (simp only: distinct_map)
    moreover have "distinct (map TI_ID (map admin_tile A @ map user_tile U))"
      using assms by (simp add: ids_distinct_def comp_def)
    then have "distinct (map admin_tile A @ map user_tile U)" by (simp only: distinct_map)
    ultimately show ?thesis
      using all by (simp add: set_eq_iff_mset_eq_distinct [symmetric] del: mset_map mset_append)
  qed
  have "map TI_ID (mergedTiles A U order) = map TR_ID (filter (names_tile A U) order)
      @ map TI_ID (map admin_tile (filter (\<lambda>a. AL_ID a \<notin> TI_ID ` set ?p) A)
      @ map user_tile (filter (\<lambda>u. UL_ID u \<notin> TI_ID ` set ?p) U))"
    unfolding split map_append placed_ids ..
  with all once show ?thesis by blast
qed

section \<open>Whose links a request touches\<close>

definition links_of :: "string \<Rightarrow> portal \<Rightarrow> UserQuickLinkRow list" where
  "links_of v s = filter (\<lambda>u. UL_UserID u = v) (user_links s)"

text \<open>The handlers of users.\<close>

definition link_handlers :: "LinkDeps \<Rightarrow> Request \<Rightarrow> LinkBody option \<Rightarrow> TileRef list option \<Rightarrow> pbody presponse pio set" where
  "link_handlers ld r body order =
     {Links_ListHandler ld r, CreateUserLinkHandler ld r body, DeleteUserLinkHandler ld r, SaveOrderHandler ld r order}"

text \<open>The tables but the ones of user \<open>u\<close> are as in \<open>s\<close>.\<close>

definition others_kept :: "string \<Rightarrow> portal \<Rightarrow> portal \<Rightarrow> bool" where
  "others_kept u s t \<longleftrightarrow> admin_links t = admin_links s \<and> ai_providers t = ai_providers s \<and> ai_user_keys t = ai_user_keys s
     \<and> (\<forall>v. v \<noteq> u \<longrightarrow> links_of v t = links_of v s \<and> tile_orders t v = tile_orders s v)"

lemma core_blind_others [simp, inv_intros]: "core_blind (others_kept u s)"
  by (simp add: core_blind_def others_kept_def links_of_def)

lemma others_kept_refl [simp]: "others_kept u s s"
  by (simp add: others_kept_def)

definition shown_to :: "string \<Rightarrow> portal \<Rightarrow> Tile \<Rightarrow> bool" where
  "shown_to u s x \<longleftrightarrow> (TI_Type x = ''admin'' \<and> TI_ID x \<in> AL_ID ` set (admin_links s))
     \<or> (TI_Type x = ''user'' \<and> TI_ID x \<in> UL_ID ` set (links_of u s))"

lemma keeps_wpI: "keeps I m \<Longrightarrow> I s \<Longrightarrow> (\<And>x t. I t \<Longrightarrow> Q x t) \<Longrightarrow> wp m Q s"
  by (erule wp_mono [OF keeps_wpD]) simp_all

text \<open>Decryption leaves the ids alone.\<close>

lemma wp_decrypt_admin_links:
  "wp (decrypt_admin_links d rs) (\<lambda>x _. \<forall>out. x = Inr out \<longrightarrow> map AL_ID out = map AL_ID rs) w"
proof (induction rs arbitrary: w)
  case (Cons r rs)
  show ?case
    by (auto simp: wp_try split: prod.splits intro!: wp_any wp_mono [OF Cons.IH] simp: wp_ok)
qed (simp add: wp_ok)

lemma wp_decrypt_user_links:
  "wp (decrypt_user_links d rs) (\<lambda>x _. \<forall>out. x = Inr out \<longrightarrow> map UL_ID out = map UL_ID rs) w"
proof (induction rs arbitrary: w)
  case (Cons r rs)
  show ?case
    by (auto simp: wp_try split: prod.splits intro!: wp_any wp_mono [OF Cons.IH] simp: wp_ok)
qed (simp add: wp_ok)

lemma wp_pt_query:
  "wp (pt_query q) Q s \<longleftrightarrow> (outcomes (pt_core s) (calls (pt_core s)) = Done \<longrightarrow> Q (q s) (pt_ticked s))
     \<and> (outcomes (pt_core s) (calls (pt_core s)) \<noteq> Done \<longrightarrow> Q (Inl ErrExternal) (pt_ticked s))"
  by (cases "outcomes (pt_core s) (calls (pt_core s))") (auto simp: wp_def pt_query_def)

lemma wp_ListAdminQuickLinks:
  "wp (ListAdminQuickLinks d) (\<lambda>x _. \<forall>out. x = Inr out \<longrightarrow> AL_ID ` set out = AL_ID ` set (admin_links s)) s"
proof -
  have "wp (decrypt_admin_links d rs) (\<lambda>x _. \<forall>out. x = Inr out \<longrightarrow> AL_ID ` set out = AL_ID ` set rs) w" for rs w
    by (rule wp_mono [OF wp_decrypt_admin_links]) (metis image_set)
  from this [of "sort_key _ (admin_links s)"] show ?thesis
    by (auto simp: ListAdminQuickLinks_def wp_try wp_pt_query wp_pt_io)
qed

lemma wp_ListUserQuickLinks:
  "wp (ListUserQuickLinks d u) (\<lambda>x _. \<forall>out. x = Inr out \<longrightarrow> UL_ID ` set out = UL_ID ` set (links_of u s)) s"
proof -
  have "wp (decrypt_user_links d rs) (\<lambda>x _. \<forall>out. x = Inr out \<longrightarrow> UL_ID ` set out = UL_ID ` set rs) w" for rs w
    by (rule wp_mono [OF wp_decrypt_user_links]) (metis image_set)
  from this [of "sort_key _ (links_of u s)"] show ?thesis
    by (auto simp: ListUserQuickLinks_def wp_try wp_pt_query wp_pt_io links_of_def)
qed

definition same_tables :: "portal \<Rightarrow> portal \<Rightarrow> bool" where
  "same_tables s t \<longleftrightarrow> (\<exists>w. t = s\<lparr>pt_core := w\<rparr>)"

lemma core_blind_same [simp, inv_intros]: "core_blind (same_tables s)"
  by (auto simp: core_blind_def same_tables_def)

lemma same_tablesD: "same_tables s t \<Longrightarrow> admin_links t = admin_links s" "same_tables s t \<Longrightarrow> links_of u t = links_of u s"
  by (auto simp: same_tables_def links_of_def)

lemma same_tables_core [simp]: "same_tables s (s\<lparr>pt_core := w\<rparr>)"
  by (auto simp: same_tables_def)

lemma listed_admin:
  "same_tables s t \<Longrightarrow>
     wp (ListAdminQuickLinks d) (\<lambda>x u. same_tables s u \<and> (\<forall>out. x = Inr out \<longrightarrow> AL_ID ` set out = AL_ID ` set (admin_links s))) t"
  unfolding wp_conj using wp_ListAdminQuickLinks [of d t]
  by (auto simp: same_tablesD ListAdminQuickLinks_def intro!: keeps_wpD inv_intros)

lemma listed_user:
  "same_tables s t \<Longrightarrow>
     wp (ListUserQuickLinks d v) (\<lambda>x u. same_tables s u \<and> (\<forall>out. x = Inr out \<longrightarrow> UL_ID ` set out = UL_ID ` set (links_of v s))) t"
  unfolding wp_conj using wp_ListUserQuickLinks [of d v t]
  by (auto simp: same_tablesD ListUserQuickLinks_def intro!: keeps_wpD inv_intros)

lemma find_in: "find P xs = Some x \<Longrightarrow> x \<in> set xs"
  by (induction xs) (auto split: if_splits)

lemma merged_shown:
  assumes "x \<in> set (mergedTiles A U order)" and "AL_ID ` set A = AL_ID ` set (admin_links s)"
    and "UL_ID ` set U = UL_ID ` set (links_of u s)"
  shows "shown_to u s x"
proof -
  have "tile_of A U ref = Some t \<Longrightarrow> (\<exists>a\<in>set A. t = admin_tile a) \<or> (\<exists>l\<in>set U. t = user_tile l)" for ref t
    by (auto simp: tile_of_def split: if_splits dest!: find_in)
  then have "(\<exists>a\<in>set A. x = admin_tile a) \<or> (\<exists>l\<in>set U. x = user_tile l)"
    using assms(1) by (auto simp: mergedTiles_def Let_def in_placed)
  then have "(TI_Type x = ''admin'' \<and> TI_ID x \<in> AL_ID ` set A) \<or> (TI_Type x = ''user'' \<and> TI_ID x \<in> UL_ID ` set U)"
    by (auto simp: admin_tile_def user_tile_def)
  then show ?thesis unfolding shown_to_def assms(2,3) .
qed

text \<open>Each statement of a user leaves the rows of others alone.\<close>

lemma filter_others:
  "v \<noteq> u \<Longrightarrow> filter (\<lambda>r. f r = v) (filter (\<lambda>r. P r \<longrightarrow> f r \<noteq> u) rs) = filter (\<lambda>r. f r = v) rs"
  by (induction rs) auto

lemma others_updates:
  "others_kept u s t \<Longrightarrow> others_kept u s (t\<lparr>tile_orders := (tile_orders t)(u \<mapsto> refs)\<rparr>)"
  "others_kept u s t \<Longrightarrow> UL_UserID r = u \<Longrightarrow> others_kept u s (t\<lparr>user_links := user_links t @ [r]\<rparr>)"
  "others_kept u s t \<Longrightarrow> others_kept u s (t\<lparr>user_links := filter (\<lambda>r. \<not> (P r \<and> UL_UserID r = u)) (user_links t)\<rparr>)"
  by (simp_all add: others_kept_def links_of_def filter_others del: filter_filter)

lemma keeps_own_statement:
  "keeps (others_kept u s) (CreateUserQuickLink ld u title url icon description)"
  "keeps (others_kept u s) (DeleteUserQuickLink ld u i)"
  "keeps (others_kept u s) (SetUserTileOrder u refs)"
  unfolding CreateUserQuickLink_def DeleteUserQuickLink_def SetUserTileOrder_def case_prod_beta
  by (intro inv_intros keeps_pt_exec others_updates; simp)+

definition answered_with :: "string \<Rightarrow> portal \<Rightarrow> pbody presponse \<Rightarrow> bool" where
  "answered_with u s resp \<longleftrightarrow> (\<forall>tiles. snd (snd resp) = PTiles tiles \<longrightarrow> (\<forall>x\<in>set tiles. shown_to u s x))"

text \<open>
  C39: links are private. Every handler of links for users either refuses and leaves the tables as
  they are, or acts for the live session of the cookie, of an approved user that is not locked. It
  then changes no link and no order of any other user and no link of the administrators, and shows
  none but these and the user's own.
\<close>

theorem links_private:
  assumes "cache_ok (gcm (pt_core s))" and "h \<in> link_handlers ld r body order" and "run_state h s = (resp, t)"
  shows "(\<exists>w. t = s\<lparr>pt_core := w\<rparr>) \<and> 400 \<le> fst resp
    \<or> (\<exists>sess. active_session (LD_deps ld) (pt_core s) r sess \<and> others_kept (S_UserID sess) s t
         \<and> answered_with (S_UserID sess) s resp)"
proof -
  let ?Q = "\<lambda>resp t. (\<exists>w. t = s\<lparr>pt_core := w\<rparr>) \<and> 400 \<le> fst resp
    \<or> (\<exists>sess. active_session (LD_deps ld) (pt_core s) r sess \<and> others_kept (S_UserID sess) s t
         \<and> answered_with (S_UserID sess) s resp)"
  have guarded: "wp (pt_guard PMsg (RequireActiveSession (LD_deps ld) r) f) ?Q s"
    if "\<And>sess w. active_session (LD_deps ld) (pt_core s) r sess \<Longrightarrow>
        wp (f sess) (\<lambda>resp t. others_kept (S_UserID sess) s t \<and> answered_with (S_UserID sess) s resp) (s\<lparr>pt_core := w\<rparr>)" for f
  proof (rule wp_active [OF assms(1)])
    fix sess w assume act: "active_session (LD_deps ld) (pt_core s) r sess"
    show "wp (f sess) ?Q (s\<lparr>pt_core := w\<rparr>)"
      by (rule wp_mono [OF that [OF act]]) (use act in blast)
  qed auto
  have acts: "wp m (\<lambda>resp t. others_kept u s t \<and> answered_with u s resp) (s\<lparr>pt_core := w\<rparr>)"
    if "keeps (others_kept u s) m" "wp m (\<lambda>resp _. answered_with u s resp) (s\<lparr>pt_core := w\<rparr>)" for u w and m :: "pbody presponse pio"
    unfolding wp_conj using that by (auto intro: keeps_wpD simp: core_blindD [OF core_blind_others])
  have silent: "answered_with u s (st, c, b)" if "\<And>tiles. b \<noteq> PTiles tiles" for u st c b
    using that by (simp add: answered_with_def)
  have list: "wp (pt_or r 500 server_error (ListAdminQuickLinks (LD_deps ld)) (\<lambda>A.
      pt_or r 500 server_error (ListUserQuickLinks (LD_deps ld) u) (\<lambda>U.
      pt_or r 500 server_error (GetUserTileOrder u) (\<lambda>order. pt_answer r 200 (PTiles (mergedTiles A U order))))))
      (\<lambda>resp _. answered_with u s resp) (s\<lparr>pt_core := w\<rparr>)" for u w
  proof -
    have order: "wp (pt_or r 500 server_error (GetUserTileOrder u) (\<lambda>order. pt_answer r 200 (PTiles (mergedTiles A U order))))
        (\<lambda>resp _. answered_with u s resp) v"
      if "AL_ID ` set A = AL_ID ` set (admin_links s)" "UL_ID ` set U = UL_ID ` set (links_of u s)" for A U v
      using merged_shown [OF _ that]
      by (auto simp: wp_pt_or GetUserTileOrder_def wp_pt_query wp_pt_answer answered_with_def server_error_def)
    have users: "wp (pt_or r 500 server_error (ListUserQuickLinks (LD_deps ld) u) (\<lambda>U.
        pt_or r 500 server_error (GetUserTileOrder u) (\<lambda>order. pt_answer r 200 (PTiles (mergedTiles A U order)))))
        (\<lambda>resp _. answered_with u s resp) v"
      if "AL_ID ` set A = AL_ID ` set (admin_links s)" "same_tables s v" for A v
      unfolding wp_pt_or [of r 500 server_error "ListUserQuickLinks _ _"]
      by (rule wp_mono [OF listed_user [OF that(2)]]) (auto simp: silent server_error_def intro!: order [unfolded server_error_def] that(1))
    show ?thesis
      unfolding wp_pt_or [of r 500 server_error "ListAdminQuickLinks _"]
      by (rule wp_mono [OF listed_admin [OF same_tables_core]]) (auto simp: silent server_error_def intro!: users [unfolded server_error_def])
  qed
  have create: "wp (checked_link ld r body (\<lambda>b. pt_or r 500 server_error
        (CreateUserQuickLink ld u (LB_Title b) (LB_URL b) (LB_Icon b) (LB_Description b)) (\<lambda>i. pt_answer r 201 (PID i))))
      (\<lambda>resp t. others_kept u s t \<and> answered_with u s resp) (s\<lparr>pt_core := w\<rparr>)" for u w
    by (rule acts) (auto simp: checked_link_def server_error_def silent wp_pt_answer wp_pt_or split: option.splits
        intro!: inv_intros keeps_own_statement wp_any)
  have delete: "wp (found_or_404 r (DeleteUserQuickLink ld u i) (State_Monad.return ()))
      (\<lambda>resp t. others_kept u s t \<and> answered_with u s resp) (s\<lparr>pt_core := w\<rparr>)" for u w i
    by (rule acts) (auto simp: found_or_404_def server_error_def silent wp_pt_answer wp_pt_or wp_bind wp_return
        intro!: inv_intros keeps_own_statement wp_any)
  have save: "wp (pt_or r 500 server_error (SetUserTileOrder u refs) (\<lambda>_. pt_answer r 204 PNone))
      (\<lambda>resp t. others_kept u s t \<and> answered_with u s resp) (s\<lparr>pt_core := w\<rparr>)" for u w refs
    by (rule acts) (auto simp: server_error_def silent wp_pt_answer wp_pt_or intro!: inv_intros keeps_own_statement wp_any)
  have reads: "wp (pt_or r 500 server_error (ListAdminQuickLinks (LD_deps ld)) (\<lambda>A.
      pt_or r 500 server_error (ListUserQuickLinks (LD_deps ld) u) (\<lambda>U.
      pt_or r 500 server_error (GetUserTileOrder u) (\<lambda>order. pt_answer r 200 (PTiles (mergedTiles A U order))))))
      (\<lambda>resp t. others_kept u s t \<and> answered_with u s resp) (s\<lparr>pt_core := w\<rparr>)" for u w
    by (rule acts [OF _ list])
      (auto simp: ListAdminQuickLinks_def ListUserQuickLinks_def GetUserTileOrder_def intro!: inv_intros)
  have bad: "wp (pt_answer r 400 (PMsg msg)) (\<lambda>resp t. others_kept u s t \<and> answered_with u s resp) (s\<lparr>pt_core := w\<rparr>)" for u w msg
    by (rule acts) (auto simp: silent wp_pt_answer intro!: inv_intros)
  have "wp h ?Q s"
    using assms(2) create delete save reads bad
    by (auto simp: link_handlers_def Links_ListHandler_def CreateUserLinkHandler_def DeleteUserLinkHandler_def SaveOrderHandler_def
        intro!: guarded split: option.splits)
  then show ?thesis using assms(3) by (simp add: wp_run)
qed

section \<open>Runs\<close>

definition admin_link :: AdminQuickLinkRow where
  "admin_link = \<lparr>AL_ID = ''a'', AL_Title = ''Wiki'', AL_URL = ''/wiki'', AL_Icon = [], AL_Description = [], AL_SortOrder = 0,
     AL_CreatedBy = ''u1'', AL_CreatedAt = 0\<rparr>"

definition own_link :: UserQuickLinkRow where
  "own_link = \<lparr>UL_ID = ''b'', UL_UserID = ''u1'', UL_Title = ''Home'', UL_URL = ''https://e'', UL_Icon = [], UL_Description = [],
     UL_SortOrder = 0, UL_CreatedAt = 0\<rparr>"

theorem tiles_complete_witness:
  "mset (mergedTiles [admin_link] [own_link] [\<lparr>TR_Type = ''user'', TR_ID = ''b''\<rparr>])
     = {#admin_tile admin_link, user_tile own_link#}"
proof -
  have "ids_distinct [admin_link] [own_link]" by (simp add: ids_distinct_def admin_link_def own_link_def)
  from tiles_complete [OF this, of "[\<lparr>TR_Type = ''user'', TR_ID = ''b''\<rparr>]"] show ?thesis by simp
qed

text \<open>An order that names a link twice shows it twice, and nothing refuses such an order.\<close>

lemma duplicate_order:
  "map TI_ID (mergedTiles [] [own_link] [\<lparr>TR_Type = ''user'', TR_ID = ''b''\<rparr>, \<lparr>TR_Type = ''user'', TR_ID = ''b''\<rparr>]) = [''b'', ''b'']"
  by code_simp

text \<open>A backslash after the first slash passes; browsers read it as a second slash, and what follows as a host.\<close>

lemma backslash_url: "isValidTileURL scheme (''/'' @ [CHR 0x5C] @ ''evil.example'')"
proof -
  have "trim_space (''/'' @ [CHR 0x5C] @ ''evil.example'') = ''/'' @ [CHR 0x5C] @ ''evil.example''" by code_simp
  then show ?thesis by (simp add: isValidTileURL_def Let_def has_prefix_def)
qed

definition link_portal :: portal where
  "link_portal = \<lparr>pt_core = office [row ''u1'' ''admin'' True False], admin_links = [], user_links = [own_link\<lparr>UL_UserID := ''u2''\<rparr>],
     tile_orders = Map.empty, ai_providers = [], ai_user_keys = [], preferred_providers = (\<lambda>_. []), sent = []\<rparr>"

definition sample_links :: LinkDeps where
  "sample_links = \<lparr>LD_deps = sample_deps, LD_uuid = Some, LD_fresh = (\<lambda>_. ''c''), LD_scheme = (\<lambda>_. None)\<rparr>"

theorem links_private_witness:
  "let (resp, t) = run_state (SaveOrderHandler sample_links (post []) (Some [])) link_portal in
   tile_orders t ''u1'' = Some [] \<and> (\<exists>u. others_kept u link_portal t)"
proof -
  let ?run = "run_state (SaveOrderHandler sample_links (post []) (Some [])) link_portal"
  obtain resp t where run: "?run = (resp, t)" by fastforce
  have "SaveOrderHandler sample_links (post []) (Some []) \<in> link_handlers sample_links (post []) None (Some [])"
    by (simp add: link_handlers_def)
  moreover have "cache_ok (gcm (pt_core link_portal))" by (simp add: link_portal_def)
  ultimately have "(\<exists>w. t = link_portal\<lparr>pt_core := w\<rparr>) \<and> 400 \<le> fst resp \<or> (\<exists>u. others_kept u link_portal t)"
    using links_private [OF _ _ run] by blast
  moreover have "fst (fst ?run) = 204" "tile_orders (snd ?run) ''u1'' = Some []" by code_simp+
  ultimately show ?thesis using run by auto
qed

end
