(* ===== verification/CacheLaws.thy ===== *)
theory CacheLaws
  imports HandlerLaws
begin

text \<open>
  The guards leave the cache of ciphers consistent, so that what a handler decrypts after its guard
  is what the stored text stands for.
\<close>

named_theorems cache_intros

definition cached :: "'a io \<Rightarrow> bool" where
  "cached m \<longleftrightarrow> keeps (\<lambda>w. cache_ok (gcm w)) m"

lemma cached_steps [cache_intros]:
  "cached (State_Monad.return a)" "cached (ok b)" "cached (fail e)" "cached State_Monad.get"
  "cached m \<Longrightarrow> (\<And>a. cached (f a)) \<Longrightarrow> cached (m \<bind> f)"
  unfolding cached_def by (intro inv_intros)+

lemma cached_try [cache_intros]: "cached m \<Longrightarrow> (\<And>a. cached (f a)) \<Longrightarrow> cached (try_bind m f)"
  unfolding cached_def by (rule keeps_try)

lemma cached_calls [cache_intros]:
  "cached (query q)" "(\<And>w. gcm (f w) = gcm w) \<Longrightarrow> cached (command p f)" "cached (read_random n)" "cached (master_key d)"
  unfolding cached_def by (auto intro!: keeps_query keeps_command keeps_random keeps_master_key)

lemma cached_if [cache_intros]: "cached m \<Longrightarrow> cached n \<Longrightarrow> cached (if b then m else n)"
  by simp

lemma cached_option [cache_intros]: "cached m \<Longrightarrow> (\<And>a. cached (f a)) \<Longrightarrow> cached (case x of None \<Rightarrow> m | Some a \<Rightarrow> f a)"
  by (simp split: option.split)

lemma cached_sum [cache_intros]: "(\<And>e. cached (f e)) \<Longrightarrow> (\<And>a. cached (g a)) \<Longrightarrow> cached (case x of Inl e \<Rightarrow> f e | Inr a \<Rightarrow> g a)"
  by (simp split: sum.split)

lemma cached_let [cache_intros]: "(\<And>x. cached (f x)) \<Longrightarrow> cached (let x = t in f x)"
  by simp

text \<open>Encryption and decryption replace the cache by a consistent one.\<close>

lemma wp_decrypt_io:
  assumes "cache_ok (gcm w)"
    and "\<And>t. enc_frame w t \<Longrightarrow> cache_ok (gcm t) \<Longrightarrow> Q (fst (Decrypt (d_aead d) [] k e)) t"
  shows "wp (decrypt_io d k e) Q w"
proof -
  obtain r c where rc: "Decrypt (d_aead d) (gcm w) k e = (r, c)" by fastforce
  have "r = fst (Decrypt (d_aead d) [] k e)" and "cache_ok c"
    using rc assms(1) Decrypt_cache_ok [of "gcm w" "d_aead d" k e] Decrypt_result [of "gcm w" "d_aead d" k e]
      Decrypt_result [of "[]" "d_aead d" k e]
    by simp_all
  then show ?thesis
    using assms(2) [of "w\<lparr>gcm := c\<rparr>"] by (simp add: decrypt_io_def io_simps rc enc_frameI)
qed

lemma wp_encrypt_cache:
  assumes "cache_ok (gcm w)"
  shows "wp (encrypt_io d k p) (\<lambda>_ t. cache_ok (gcm t)) w"
proof -
  have c: "cache_ok (snd (newGCM (gcm w) k))" by (rule newGCM_cache_ok [OF assms])
  have e: "cache_ok (snd (Encrypt (d_aead d) (gcm w) n k p))" for n by (rule Encrypt_cache_ok [OF assms])
  show ?thesis
    using c e
    by (auto simp: encrypt_io_def io_simps read_random_def wp_def update_world_def fail_def split: prod.splits sum.splits)
      (metis snd_conv)+
qed

lemma cached_crypto [cache_intros]:
  "cached (encrypt_io d k p)" "cached (encrypt_if_io d k p)" "cached (decrypt_io d k e)" "cached (decrypt_if_io d k e)"
proof -
  show "cached (encrypt_io d k p)"
    unfolding cached_def keeps_wp using wp_encrypt_cache by blast
  then show "cached (encrypt_if_io d k p)"
    unfolding encrypt_if_io_def by (intro cache_intros)
  show "cached (decrypt_io d k e)" "cached (decrypt_if_io d k e)"
    unfolding cached_def keeps_wp by (auto intro: wp_decrypt_io wp_decrypt_plain)
qed

section \<open>Valkey, settings, the audit log\<close>

lemma gcm_updates [simp]:
  "gcm (put_str k v ttl w) = gcm w" "gcm (del_key k w) = gcm w" "gcm (set_expiry k ttl w) = gcm w"
  "gcm (put_members k ms w) = gcm w" "gcm (incr_update k ttl w) = gcm w"
  by (simp_all add: put_str_def del_key_def set_expiry_def put_members_def incr_update_def
      split: option.splits vval.splits sval.splits)

lemma cached_valkey [cache_intros]:
  "cached (SetWithTTL k v ttl)" "cached (Get k)" "cached (Del k)" "cached (Expire k ttl)" "cached (RemoveSetMember k m)"
  "cached (SetMembers k)" "cached (TTL k)" "cached (IncrExpire k ttl)" "cached (Publish c ev)" "cached (RPush ma)"
  unfolding SetWithTTL_def Get_def Del_def Expire_def RemoveSetMember_def SetMembers_def TTL_def IncrExpire_def Publish_def RPush_def
  by (intro cache_intros; simp)+

lemma cached_tables [cache_intros]:
  "cached (GetSetting k)" "cached (GetNotificationPrefs s)" "cached (Enqueue d r kind args)" "cached (Log d mk p)" "cached (logAudit d p)"
proof -
  show "cached (GetSetting k)" "cached (GetNotificationPrefs s)"
    unfolding GetSetting_def GetNotificationPrefs_def by (intro cache_intros)+
  show "cached (Enqueue d r kind args)" unfolding Enqueue_def case_prod_beta by (intro cache_intros)
  show log: "cached (Log d mk p)" for mk unfolding Log_def by (intro cache_intros) simp
  show "cached (logAudit d p)" unfolding logAudit_def by (intro cache_intros log)
qed

section \<open>Guards\<close>

lemma cached_anomalies [cache_intros]:
  "cached (checkSessionCountryAnomaly d sid sess mk ip c)" "cached (checkSessionDeviceAnomaly d sid sess mk ip ua)"
  unfolding checkSessionCountryAnomaly_def checkSessionDeviceAnomaly_def by (intro cache_intros)+

lemma cached_sessions [cache_intros]:
  "cached (decryptSession d mk stored)" "cached (validateSessionByID d sid ip c ua)" "cached (SessionFromRequest d ctx token ip c ua)"
proof -
  show sess: "cached (decryptSession d mk stored)" for mk stored unfolding decryptSession_def by (intro cache_intros)
  show byID: "cached (validateSessionByID d sid ip c ua)" for sid
    unfolding validateSessionByID_def by (intro cache_intros sess)
  show "cached (SessionFromRequest d ctx token ip c ua)"
    unfolding SessionFromRequest_def ValidateSession_def by (intro cache_intros byID)
qed

lemma cached_guards [cache_intros]:
  "cached (requireAdmin d r)" "cached (RequireActiveSession d r)" "cached (requireRecentLogin d c sess l)"
  unfolding requireAdmin_def RequireActiveSession_def requireActiveSessionWithToken_def authenticate_def request_session_def
    then_check_def requireRecentLogin_def recordReauthFailure_def
  by (intro cache_intros)+

end
