(* ===== verification/AiLaws.thy ===== *)
theory AiLaws
  imports AiChat PortalLaws CacheLaws
begin

text \<open>
  Which key goes to which address with a chat; and that creating a provider again sends the stored
  key of an administrator elsewhere without a fresh login.
\<close>

section \<open>Keys\<close>

text \<open>What a stored key decrypts to.\<close>

definition decrypts :: "Deps \<Rightarrow> string \<Rightarrow> string res" where
  "decrypts d e = fst (Decrypt (d_aead d) [] (d_PoolKey d) e)"

text \<open>The own key of a user for a provider that allows it, with their model.\<close>

definition own_key :: "Deps \<Rightarrow> portal \<Rightarrow> string \<Rightarrow> AIProviderRow \<Rightarrow> string \<Rightarrow> string \<Rightarrow> bool" where
  "own_key d s u p key pref \<longleftrightarrow> AP_UserCanOverride p \<and> key \<noteq> []
     \<and> (\<exists>k. find_user_key u (AP_ID p) s = Some k \<and> decrypts d (AK_KeyEnc k) = Inr key \<and> pref = AK_PreferredModel k)"

text \<open>The key and the model of a chat: the own ones, and only without them those of the administrator.\<close>

definition chooses :: "Deps \<Rightarrow> portal \<Rightarrow> string \<Rightarrow> AIProviderRow \<Rightarrow> string \<Rightarrow> string \<Rightarrow> bool" where
  "chooses d s u p key model \<longleftrightarrow>
     (\<exists>pref. own_key d s u p key pref \<and> model = (if pref \<noteq> [] then pref else AP_DefaultModel p))
     \<or> \<not> (\<exists>k pref. own_key d s u p k pref) \<and> key \<noteq> [] \<and> model = AP_DefaultModel p
       \<and> (\<exists>row e. find_provider (AP_ID p) s = Some (row, Some e) \<and> decrypts d e = Inr key)"

lemma wp_GetAIUserDecryptedKey:
  assumes "cache_ok (gcm (pt_core s))"
    and "\<And>w e. cache_ok (gcm w) \<Longrightarrow> Q (Inl e) (s\<lparr>pt_core := w\<rparr>)"
    and "\<And>w. cache_ok (gcm w) \<Longrightarrow> find_user_key u i s = None \<Longrightarrow> Q (Inr None) (s\<lparr>pt_core := w\<rparr>)"
    and "\<And>w k key. cache_ok (gcm w) \<Longrightarrow> find_user_key u i s = Some k \<Longrightarrow> decrypts d (AK_KeyEnc k) = Inr key \<Longrightarrow>
        Q (Inr (Some (key, AK_PreferredModel k))) (s\<lparr>pt_core := w\<rparr>)"
  shows "wp (GetAIUserDecryptedKey d u i) Q s"
proof -
  have dec: "wp (pt_io (decrypt_io d (d_PoolKey d) (AK_KeyEnc k)))
      (\<lambda>x t. (\<forall>e. x = Inl e \<longrightarrow> Q (Inl e) t) \<and> (\<forall>a. x = Inr a \<longrightarrow> Q (Inr (Some (a, AK_PreferredModel k))) t)) (pt_ticked s)"
    if "find_user_key u i s = Some k" for k
    unfolding wp_pt_io
    by (rule wp_decrypt_io) (use assms(1) assms(2) assms(4) [OF _ that] in \<open>auto simp: pt_ticked_def decrypts_def\<close>)
  show ?thesis
    using assms(1-3) dec
    by (auto simp: GetAIUserDecryptedKey_def wp_try wp_pt_query wp_ok pt_ticked_def split: option.splits)
qed

lemma wp_GetAIProviderAdminKey:
  assumes "cache_ok (gcm (pt_core s))"
    and "\<And>w e. Q (Inl e) (s\<lparr>pt_core := w\<rparr>)" and "\<And>w. Q (Inr []) (s\<lparr>pt_core := w\<rparr>)"
    and "\<And>w row e key. find_provider i s = Some (row, Some e) \<Longrightarrow> decrypts d e = Inr key \<Longrightarrow> Q (Inr key) (s\<lparr>pt_core := w\<rparr>)"
  shows "wp (GetAIProviderAdminKey d i) Q s"
proof -
  have dec: "wp (pt_io (decrypt_io d (d_PoolKey d) e)) Q (pt_ticked s)" if "find_provider i s = Some (row, Some e)" for row e
    unfolding wp_pt_io
  proof (rule wp_decrypt_io)
    fix w
    show "Q (fst (Decrypt (d_aead d) [] (d_PoolKey d) e)) (pt_ticked s\<lparr>pt_core := w\<rparr>)"
      using assms(2) assms(4) [OF that] by (cases "decrypts d e") (auto simp: decrypts_def pt_ticked_def)
  qed (use assms(1) in \<open>simp add: pt_ticked_def\<close>)
  show ?thesis
    using assms(2,3) dec
    by (auto simp: GetAIProviderAdminKey_def wp_try wp_pt_query decrypted_key_def has_key_def wp_ok pt_ticked_def
        split: option.splits)
qed

lemma lookups_core [simp]:
  "find_user_key u i (s\<lparr>pt_core := w\<rparr>) = find_user_key u i s" "find_provider i (s\<lparr>pt_core := w\<rparr>) = find_provider i s"
  by (simp_all add: find_user_key_def find_provider_def)

lemma chooses_core [simp]: "chooses d (s\<lparr>pt_core := w\<rparr>) = chooses d s"
  by (simp add: fun_eq_iff chooses_def own_key_def)

lemma wp_chat_key:
  assumes "cache_ok (gcm (pt_core s))"
    and "\<And>w st msg. 400 \<le> st \<Longrightarrow> Q (Inl (st, msg)) (s\<lparr>pt_core := w\<rparr>)"
    and "\<And>w key model. chooses (AI_deps ad) s (S_UserID sess) p key model \<Longrightarrow> Q (Inr (key, model)) (s\<lparr>pt_core := w\<rparr>)"
  shows "wp (chat_key ad sess p) Q s"
proof -
  let ?d = "AI_deps ad" and ?u = "S_UserID sess"
  have admin: "wp (GetAIProviderAdminKey ?d (AP_ID p)) (\<lambda>x t. Q (case x of
        Inl _ \<Rightarrow> Inl (503, ''no API key configured for this provider'')
      | Inr adminKey \<Rightarrow> if adminKey = [] then Inl (503, ''no API key configured for this provider'')
                  else Inr (adminKey, AP_DefaultModel p)) t) (s\<lparr>pt_core := w\<rparr>)"
    if "\<not> (\<exists>k pref. own_key ?d s ?u p k pref)" "cache_ok (gcm w)" for w
    by (rule wp_GetAIProviderAdminKey) (use that assms(2,3) in \<open>auto simp: chooses_def\<close>)
  show ?thesis
    unfolding chat_key_def wp_bind
    by (rule wp_GetAIUserDecryptedKey [OF assms(1)])
      (use assms(2,3) admin in \<open>auto simp: wp_bind wp_return Let_def own_key_def chooses_def\<close>)
qed

section \<open>Chats\<close>

lemma wp_provider_call:
  "wp (provider_call q f) Q s = Q (f (calls (pt_core s))) ((pt_ticked s)\<lparr>sent := sent s @ [q]\<rparr>)"
  by (simp add: wp_def provider_call_def)

definition chat_url :: "AIProviderRow \<Rightarrow> string" where
  "chat_url p = (if AP_Type p = ''anthropic'' then ''https://api.anthropic.com/v1/messages''
     else trim_right_slash (base_url p) @ ''/chat/completions'')"

lemma wp_stream:
  "wp (if AP_Type p = ''anthropic'' then streamAnthropic ad key model ms else streamOpenAICompat ad key (base_url p) model ms)
     (\<lambda>_ t. \<exists>w. t = s\<lparr>pt_core := w, sent := sent s @ [\<lparr>RQ_URL = chat_url p, RQ_Key = key, RQ_Model = Some model\<rparr>]\<rparr>) (s\<lparr>pt_core := v\<rparr>)"
  by (auto simp: streamAnthropic_def streamOpenAICompat_def wp_bind wp_return wp_provider_call chat_url_def pt_ticked_def Let_def)

lemma view_fields [simp]:
  "AP_ID (provider_view p) = AP_ID (fst p)" "AP_Type (provider_view p) = AP_Type (fst p)"
  "AP_Enabled (provider_view p) = AP_Enabled (fst p)" "base_url (provider_view p) = base_url (fst p)"
  "chat_url (provider_view p) = chat_url (fst p)"
  by (simp_all add: provider_view_def base_url_def chat_url_def)

lemma chooses_view [simp]: "chooses d s u (provider_view p) = chooses d s u (fst p)"
  by (simp add: fun_eq_iff chooses_def own_key_def provider_view_def)

lemma wp_active_cached:
  assumes "cache_ok (gcm (pt_core s))"
    and "\<And>sess w. active_session d (pt_core s) r sess \<Longrightarrow> cache_ok (gcm w) \<Longrightarrow> wp (f sess) Q (s\<lparr>pt_core := w\<rparr>)"
    and "\<And>st c b w. 400 \<le> st \<Longrightarrow> Q (st, c, msg b) (s\<lparr>pt_core := w\<rparr>)"
  shows "wp (pt_guard msg (RequireActiveSession d r) f) Q s"
proof -
  have "wp (RequireActiveSession d r) (\<lambda>x _. (\<forall>resp. x = Inl resp \<longrightarrow> 400 \<le> Rs_Status resp)
      \<and> (\<forall>sess. x = Inr sess \<longrightarrow> active_session d (pt_core s) r sess)) (pt_core s)"
    by (rule wp_RequireActive [OF assms(1)]) (auto simp: active_session_def)
  moreover have "wp (RequireActiveSession d r) (\<lambda>_ w. cache_ok (gcm w)) (pt_core s)"
    using cached_guards(2) assms(1) unfolding cached_def by (rule keeps_wpD)
  ultimately have "wp (RequireActiveSession d r) (\<lambda>x w. ((\<forall>resp. x = Inl resp \<longrightarrow> 400 \<le> Rs_Status resp)
      \<and> (\<forall>sess. x = Inr sess \<longrightarrow> active_session d (pt_core s) r sess)) \<and> cache_ok (gcm w)) (pt_core s)"
    by (simp add: wp_conj)
  then show ?thesis
    unfolding wp_pt_guard by (rule wp_mono) (auto intro!: assms(2,3))
qed

text \<open>A chat that was sent: by whom, to what, with which key and model.\<close>

definition chat_sent :: "AiDeps \<Rightarrow> portal \<Rightarrow> Request \<Rightarrow> chatRequest option \<Rightarrow> portal \<Rightarrow> bool" where
  "chat_sent ad s r req t \<longleftrightarrow> (\<exists>sess q row enc key model w.
     active_session (AI_deps ad) (pt_core s) r sess \<and> req = Some q
     \<and> find_provider (CH_ProviderID q) s = Some (row, enc) \<and> AP_Enabled row
     \<and> chooses (AI_deps ad) s (S_UserID sess) row key model \<and> model \<noteq> []
     \<and> t = s\<lparr>pt_core := w, sent := sent s @ [\<lparr>RQ_URL = chat_url row, RQ_Key = key, RQ_Model = Some model\<rparr>]\<rparr>)"

lemma cached_chat_allowed: "cached (chat_allowed d sess)"
  unfolding chat_allowed_def ChatRPMLimit_def int_setting_def by (intro cache_intros)

text \<open>The tables behind the core: users and settings are left alone; the audit log and Valkey are not.\<close>

lemma keeps_core_io:
  assumes "keeps (same_db w) m"
  shows "keeps (\<lambda>s. same_db w (pt_core s)) (pt_io m)"
  unfolding keeps_wp
proof (intro allI impI)
  fix s :: portal assume "same_db w (pt_core s)"
  from keeps_wpD [OF assms this] show "wp (pt_io m) (\<lambda>_ s. same_db w (pt_core s)) s"
    unfolding wp_pt_io by (rule wp_mono) simp
qed

lemma keeps_core_db:
  "keeps (\<lambda>s. same_db w (pt_core s)) (pt_query q)" "keeps (\<lambda>s. same_db w (pt_core s)) (provider_call c f)"
  by (simp_all add: keeps_def pt_query_def provider_call_def pt_ticked_def same_db_def)

lemma keeps_chat_key: "keeps (\<lambda>s. same_db w (pt_core s)) (chat_key ad sess p)"
proof -
  have dec: "keeps (\<lambda>s. same_db w (pt_core s)) (pt_io (decrypt_io d k e))" for d k e
    by (intro keeps_core_io keeps_decrypt misc_stable_same_db)
  have "keeps (\<lambda>s. same_db w (pt_core s)) (GetAIUserDecryptedKey d u i)" for d u i
    unfolding GetAIUserDecryptedKey_def
    by (intro keeps_try keeps_core_db) (auto intro!: keeps_try keeps_ok dec split: option.splits)
  moreover have "keeps (\<lambda>s. same_db w (pt_core s)) (GetAIProviderAdminKey d i)" for d i
    unfolding GetAIProviderAdminKey_def decrypted_key_def
    by (intro keeps_try keeps_core_db) (auto intro!: keeps_ok dec)
  ultimately show ?thesis
    unfolding chat_key_def by (auto intro!: keeps_bind keeps_return simp: Let_def split: sum.splits)
qed

lemma keeps_run_chat: "keeps (\<lambda>s. same_db w (pt_core s)) (run_chat ad r p ms key model)"
  unfolding run_chat_def streamAnthropic_def streamOpenAICompat_def Let_def
  by (auto intro!: keeps_bind keeps_return keeps_pt_answer keeps_core_db split: prod.splits)

lemma keeps_ChatHandler: "keeps (\<lambda>s. same_db w (pt_core s)) (ChatHandler ad r req)"
proof -
  have "keeps (same_db w) (chat_allowed d sess)" "keeps (same_db w) (RequireActiveSession d r)" for d sess
    unfolding chat_allowed_def ChatRPMLimit_def int_setting_def GetSetting_def by (auto intro!: inv_intros)
  note core = this [THEN keeps_core_io]
  show ?thesis
    unfolding ChatHandler_def ai_user_def pt_guard_def GetAIProvider_def ai_plain_def
    by (auto intro!: keeps_bind keeps_return keeps_pt_answer keeps_core_db core keeps_chat_key keeps_run_chat
        split: option.splits sum.splits)
qed


section \<open>Runs\<close>

text \<open>\<open>u1\<close> has logged in an hour ago; the administrator's key of the provider is \<open>sk\<close>.\<close>

definition sample_provider :: AIProviderRow where
  "sample_provider = \<lparr>AP_ID = ''p'', AP_Type = ''openai'', AP_Name = ''n'', AP_BaseURL = [], AP_HasAdminKey = True,
     AP_DefaultModel = ''m'', AP_UserCanOverride = True, AP_Enabled = True, AP_SortOrder = 0\<rparr>"

definition sample_portal :: portal where
  "sample_portal = \<lparr>pt_core = (office [row ''u1'' ''admin'' True False])\<lparr>now := hours 1\<rparr>, admin_links = [], user_links = [],
     tile_orders = Map.empty, ai_providers = [(sample_provider, Some (enc ''sk''))], ai_user_keys = [],
     preferred_providers = (\<lambda>_. []), sent = []\<rparr>"

definition sample_ai :: AiDeps where
  "sample_ai = \<lparr>AI_deps = sample_deps\<lparr>d_PoolKey := sample_key\<rparr>, AI_models = (\<lambda>_ _ _. Inr []), AI_balance = (\<lambda>_ _. Inl ErrExternal),
     AI_stream = (\<lambda>_ _ _ _ _. Inr ([], False)), AI_anthropic_event = Some, AI_openai_event = Some, AI_chunk = (\<lambda>s. s)\<rparr>"

definition sample_chat :: chatRequest where
  "sample_chat = \<lparr>CH_ProviderID = ''p'', CH_Model = [], CH_Messages = [(''user'', ''hi'')]\<rparr>"


text \<open>
  Creating a provider again hands out its key. Changing a provider asks for a fresh login,
  creating one does not, and creating one with an id that exists replaces the row and keeps the
  stored key. The administrator of the run has logged in an hour ago: the PATCH is refused, the POST
  succeeds, and the next list of models is asked for at the new address with the old key.
\<close>

theorem create_retargets_key:
  "(let d = AI_deps sample_ai; r = post ''p'';
        patched = run_state (ai_admin_reauth d (\<lambda>r. AI_AdminPatchHandler d r (Some \<lparr>PP_Name = None, PP_BaseURL = Some ''https://e'',
          PP_AdminKey = None, PP_DefaultModel = None, PP_UserCanOverride = None, PP_Enabled = None, PP_SortOrder = None\<rparr>))
          (r\<lparr>R_Method := ''PATCH''\<rparr>)) sample_portal;
        created = run_state (ai_admin d (\<lambda>r. AI_AdminCreateHandler d r (Some \<lparr>PR_ID = ''p'', PR_Type = ''openai'', PR_Name = ''n'',
          PR_BaseURL = ''https://e'', PR_AdminKey = [], PR_DefaultModel = ''m'', PR_UserCanOverride = True, PR_Enabled = True,
          PR_SortOrder = 0\<rparr>)) r) sample_portal;
        listed = run_state (ai_admin d (AI_AdminListModelsHandler sample_ai) (r\<lparr>R_Method := ''GET''\<rparr>)) (snd created)
    in (fst (fst patched), fst (fst created), fst (fst listed), sent (snd listed)))
   = (403, 201, 200, [\<lparr>RQ_URL = ''https://e/models'', RQ_Key = ''sk'', RQ_Model = None\<rparr>])"
  by code_simp

end
