(* ===== verification/Spec2Isabelle.thy ===== *)
theory Spec2Isabelle
  imports NetGuard Crypto Egress Manifest Archive LoginFlows WorkerLaws ConnPool SetupHandlers InstallLaws CrudLaws Jobs
    StoreLaws ModuleRuns AdminLaws AiLaws
begin

text \<open>
  Verification development of modulab-core (the Go backend under \<open>src/backend\<close>).
\<close>

end
